(* ===== verification/Js.thy ===== *)
theory Js
  imports Main "HOL-Library.Char_ord" "HOL-Library.List_Lexorder"
begin

text \<open>
  Prelude: the JavaScript strings and values the services of the repository compute with.

  A JavaScript string is a \<open>string\<close>, one \<open>char\<close> per code unit; the model therefore speaks of
  Latin-1 text (code units below 256). On such text the operations below are the ones of the
  language: \<open>trim\<close> and the class \<open>\s\<close> strip the seven Latin-1 white space characters, the case
  mapping is the Latin-1 one (upper-casing the sharp s gives two letters, and the two letters
  whose capital lies outside Latin-1 are left as they are), \<open>toISOString\<close> renders the proleptic
  Gregorian calendar. A date is its number of milliseconds since the epoch.
  Values a handler returns or stores as JSON are \<open>value\<close>s; \<open>VUndef\<close> is the \<open>undefined\<close> that
  \<open>JSON.stringify\<close> treats differently from \<open>null\<close>.
\<close>

type_synonym time = int

subsection \<open>Strings\<close>

definition isWs :: "char \<Rightarrow> bool" where
  "isWs c \<longleftrightarrow> (of_char c :: nat) \<in> {9, 10, 11, 12, 13, 32, 160}"

definition trimStart :: "string \<Rightarrow> string" where
  "trimStart s = dropWhile isWs s"

definition trim :: "string \<Rightarrow> string" where
  "trim s = rev (dropWhile isWs (rev (dropWhile isWs s)))"

text \<open>\<open>s.replace(/\s+/g, ' ')\<close>: every maximal run of white space becomes one blank.\<close>

function collapseWs :: "string \<Rightarrow> string" where
  "collapseWs [] = []"
| "collapseWs (c # cs) =
     (if isWs c then CHR '' '' # collapseWs (dropWhile isWs cs) else c # collapseWs cs)"
  by pat_completeness auto
termination
  by (relation "measure length") (auto simp: le_imp_less_Suc length_dropWhile_le)

definition lowerChar :: "char \<Rightarrow> char" where
  "lowerChar c = (let n = (of_char c :: nat) in
     if 65 \<le> n \<and> n \<le> 90 \<or> 192 \<le> n \<and> n \<le> 222 \<and> n \<noteq> 215 then char_of (n + 32) else c)"

definition upperChar :: "char \<Rightarrow> string" where
  "upperChar c = (let n = (of_char c :: nat) in
     if n = 223 then ''SS''
     else if 97 \<le> n \<and> n \<le> 122 \<or> 224 \<le> n \<and> n \<le> 254 \<and> n \<noteq> 247 then [char_of (n - 32)]
     else [c])"

definition toLowerCase :: "string \<Rightarrow> string" where
  "toLowerCase s = map lowerChar s"

definition toUpperCase :: "string \<Rightarrow> string" where
  "toUpperCase s = concat (map upperChar s)"

definition startsWith :: "string \<Rightarrow> string \<Rightarrow> bool" where
  "startsWith p s \<longleftrightarrow> take (length p) s = p"

lemma startsWith_code [code]:
  "startsWith [] s \<longleftrightarrow> True"
  "startsWith (p # ps) [] \<longleftrightarrow> False"
  "startsWith (p # ps) (c # cs) \<longleftrightarrow> p = c \<and> startsWith ps cs"
  by (auto simp: startsWith_def)

fun includesStr :: "string \<Rightarrow> string \<Rightarrow> bool" where
  "includesStr p [] \<longleftrightarrow> p = []"
| "includesStr p (c # cs) \<longleftrightarrow> startsWith p (c # cs) \<or> includesStr p cs"

text \<open>\<open>s.split(sep)\<close> for a one-character separator, and \<open>xs.join(sep)\<close>.\<close>

fun splitOn :: "char \<Rightarrow> string \<Rightarrow> string list" where
  "splitOn d [] = [[]]"
| "splitOn d (c # cs) =
     (if c = d then [] # splitOn d cs
      else (case splitOn d cs of [] \<Rightarrow> [[c]] | f # fs \<Rightarrow> (c # f) # fs))"

fun join :: "string \<Rightarrow> string list \<Rightarrow> string" where
  "join sep [] = []"
| "join sep [x] = x"
| "join sep (x # y # ys) = x @ sep @ join sep (y # ys)"

definition hexDigits :: string where
  "hexDigits = ''0123456789abcdef''"

definition isHex :: "string \<Rightarrow> bool" where
  "isHex s \<longleftrightarrow> (\<forall>c \<in> set s. c \<in> set hexDigits)"

text \<open>The pattern \<open>/^[a-f0-9]{64}$/\<close>, a SHA-256 digest in lower case.\<close>

definition isHex64 :: "string \<Rightarrow> bool" where
  "isHex64 s \<longleftrightarrow> length s = 64 \<and> isHex s"

text \<open>JavaScript truthiness of an optional string: absent and empty are both false.\<close>

definition truthy :: "string option \<Rightarrow> bool" where
  "truthy s \<longleftrightarrow> (case s of None \<Rightarrow> False | Some t \<Rightarrow> t \<noteq> [])"

definition orElse :: "'a option \<Rightarrow> 'a \<Rightarrow> 'a" where
  "orElse x d = (case x of None \<Rightarrow> d | Some v \<Rightarrow> v)"

definition nullish :: "'a option \<Rightarrow> 'a option \<Rightarrow> 'a option" where
  "nullish x y = (case x of None \<Rightarrow> y | Some v \<Rightarrow> Some v)"

text \<open>\<open>value?.trim() || null\<close>\<close>

definition trimOrNull :: "string option \<Rightarrow> string option" where
  "trimOrNull s = (case s of None \<Rightarrow> None
     | Some t \<Rightarrow> (if trim t = [] then None else Some (trim t)))"

subsection \<open>Numbers and dates as text\<close>

definition digitChar :: "nat \<Rightarrow> char" where
  "digitChar d = char_of (48 + d)"

fun showNat :: "nat \<Rightarrow> string" where
  "showNat n = (if n < 10 then [digitChar n] else showNat (n div 10) @ [digitChar (n mod 10)])"

declare showNat.simps [simp del]

definition showInt :: "int \<Rightarrow> string" where
  "showInt i = (if i < 0 then CHR ''-'' # showNat (nat (- i)) else showNat (nat i))"

definition pad :: "nat \<Rightarrow> int \<Rightarrow> string" where
  "pad w i = (let s = showNat (nat i) in replicate (w - length s) (CHR ''0'') @ s)"

text \<open>The civil date (year, month, day) of a day number, counted from 1970-01-01.\<close>

definition civil :: "int \<Rightarrow> int \<times> int \<times> int" where
  "civil days = (let z = days + 719468; era = z div 146097; doe = z - era * 146097;
     yoe = (doe - doe div 1460 + doe div 36524 - doe div 146096) div 365;
     doy = doe - (365 * yoe + yoe div 4 - yoe div 100);
     mp = (5 * doy + 2) div 153;
     d = doy - (153 * mp + 2) div 5 + 1;
     m = (if mp < 10 then mp + 3 else mp - 9);
     y = yoe + era * 400 + (if m \<le> 2 then 1 else 0)
   in (y, m, d))"

definition showYear :: "int \<Rightarrow> string" where
  "showYear y = (if 0 \<le> y \<and> y \<le> 9999 then pad 4 y
     else if y < 0 then CHR ''-'' # pad 6 (- y) else CHR ''+'' # pad 6 y)"

definition toISOString :: "time \<Rightarrow> string" where
  "toISOString t = (let days = t div 86400000; ms = t mod 86400000; (y, m, d) = civil days in
     showYear y @ ''-'' @ pad 2 m @ ''-'' @ pad 2 d @ ''T'' @ pad 2 (ms div 3600000) @ '':''
     @ pad 2 (ms div 60000 mod 60) @ '':'' @ pad 2 (ms div 1000 mod 60) @ ''.''
     @ pad 3 (ms mod 1000) @ ''Z'')"

subsection \<open>Values\<close>

datatype "value" =
    VUndef
  | VNull
  | VBool bool
  | VNum int
  | VStr string
  | VDate time
  | VArr "value list"
  | VObj "(string \<times> value) list"

definition optStr :: "string option \<Rightarrow> value" where
  "optStr s = (case s of None \<Rightarrow> VNull | Some t \<Rightarrow> VStr t)"

definition optNum :: "int option \<Rightarrow> value" where
  "optNum s = (case s of None \<Rightarrow> VNull | Some t \<Rightarrow> VNum t)"

definition optDate :: "time option \<Rightarrow> value" where
  "optDate s = (case s of None \<Rightarrow> VNull | Some t \<Rightarrow> VDate t)"

definition vkeys :: "value \<Rightarrow> string list" where
  "vkeys v = (case v of VObj kvs \<Rightarrow> map fst kvs | _ \<Rightarrow> [])"

definition vget :: "value \<Rightarrow> string \<Rightarrow> value" where
  "vget v k = (case v of VObj kvs \<Rightarrow> (case map_of kvs k of None \<Rightarrow> VUndef | Some x \<Rightarrow> x)
     | _ \<Rightarrow> VUndef)"

text \<open>\<open>JSON.stringify\<close> of a string.\<close>

definition hexDigit :: "nat \<Rightarrow> char" where
  "hexDigit n = hexDigits ! n"

definition escapeChar :: "char \<Rightarrow> string" where
  "escapeChar c = (let n = (of_char c :: nat) in
     if n = 34 then [CHR 92, CHR 34] else if n = 92 then [CHR 92, CHR 92]
     else if n = 8 then [CHR 92, CHR ''b''] else if n = 9 then [CHR 92, CHR ''t'']
     else if n = 10 then [CHR 92, CHR ''n''] else if n = 12 then [CHR 92, CHR ''f'']
     else if n = 13 then [CHR 92, CHR ''r'']
     else if n < 32 then CHR 92 # ''u00'' @ [hexDigit (n div 16), hexDigit (n mod 16)]
     else [c])"

definition jsonString :: "string \<Rightarrow> string" where
  "jsonString s = [CHR 34] @ concat (map escapeChar s) @ [CHR 34]"

end
