(* ===== verification/Tables.thy ===== *)
theory Tables
  imports Js
begin

text \<open>
  The data of the system: the enumerations and tables of \<open>apps/api/prisma/schema.prisma\<close> (with
  the constant objects of \<open>packages/types/src/index.ts\<close>), one record per model with every column,
  the database as the record of its tables, and the statements of the Prisma client on them. A table
  is the list of its rows; \<open>findFirst\<close> without an order returns the first matching row, and as the
  theorems hold for every order of the rows this covers whichever row PostgreSQL picks. A create
  or update that would break a unique index is rejected with \<open>P2002\<close> and the index columns, an
  update or delete of a missing row with \<open>P2025\<close>.
\<close>

subsection \<open>Enumerations and status constants\<close>

datatype IssuerStatus = ISSUER_ACTIVE | ISSUER_INACTIVE | ISSUER_SUSPENDED
datatype AdminRole = OWNER | SUPER_ADMIN | ADMIN | AUDITOR
datatype RevocationReason =
  DATA_CORRECTION | ISSUED_IN_ERROR | FRAUD_SUSPECTED | INSTITUTION_REQUEST | OTHER | LEGACY
datatype VerificationMode = CORE_REGISTRY | SECURE_PDF
datatype DocProofStatus = PROOF_ACTIVE | PROOF_SUPERSEDED | PROOF_REVOKED
datatype DocProofSourceType = SINGLE_PDF | BATCH_ZIP
datatype VerificationEventType = REGISTRY_CODE_LOOKUP | QR_LOOKUP | PDF_INTEGRITY_CHECK
datatype VerificationSource = SRC_CODE_LOOKUP | SRC_QR_LOOKUP | SRC_PDF_UPLOAD

fun roleName :: "AdminRole \<Rightarrow> string" where
  "roleName OWNER = ''OWNER''"
| "roleName SUPER_ADMIN = ''SUPER_ADMIN''"
| "roleName ADMIN = ''ADMIN''"
| "roleName AUDITOR = ''AUDITOR''"

fun reasonName :: "RevocationReason \<Rightarrow> string" where
  "reasonName DATA_CORRECTION = ''DATA_CORRECTION''"
| "reasonName ISSUED_IN_ERROR = ''ISSUED_IN_ERROR''"
| "reasonName FRAUD_SUSPECTED = ''FRAUD_SUSPECTED''"
| "reasonName INSTITUTION_REQUEST = ''INSTITUTION_REQUEST''"
| "reasonName OTHER = ''OTHER''"
| "reasonName LEGACY = ''LEGACY''"

fun issuerStatusName :: "IssuerStatus \<Rightarrow> string" where
  "issuerStatusName ISSUER_ACTIVE = ''ACTIVE''"
| "issuerStatusName ISSUER_INACTIVE = ''INACTIVE''"
| "issuerStatusName ISSUER_SUSPENDED = ''SUSPENDED''"

fun modeName :: "VerificationMode \<Rightarrow> string" where
  "modeName CORE_REGISTRY = ''CORE_REGISTRY''"
| "modeName SECURE_PDF = ''SECURE_PDF''"

fun eventTypeName :: "VerificationEventType \<Rightarrow> string" where
  "eventTypeName REGISTRY_CODE_LOOKUP = ''REGISTRY_CODE_LOOKUP''"
| "eventTypeName QR_LOOKUP = ''QR_LOOKUP''"
| "eventTypeName PDF_INTEGRITY_CHECK = ''PDF_INTEGRITY_CHECK''"

definition ANCHOR_pending :: string where "ANCHOR_pending = ''PENDING''"
definition ANCHOR_anchored :: string where "ANCHOR_anchored = ''ANCHORED''"
definition ANCHOR_failed :: string where "ANCHOR_failed = ''FAILED''"
definition CHAIN_revokeFailed :: string where "CHAIN_revokeFailed = ''REVOKE_FAILED''"
definition CHAIN_revokeEnqueueFailed :: string where
  "CHAIN_revokeEnqueueFailed = ''REVOKE_ENQUEUE_FAILED''"
definition OP_anchor :: string where "OP_anchor = ''ISSUANCE''"
definition OP_revoke :: string where "OP_revoke = ''REVOCATION''"

lemmas status_defs = ANCHOR_pending_def ANCHOR_anchored_def ANCHOR_failed_def
  CHAIN_revokeFailed_def CHAIN_revokeEnqueueFailed_def OP_anchor_def OP_revoke_def

subsection \<open>Rows\<close>

record issuer =
  i_id :: string
  i_name :: string
  i_displayName :: "string option"
  i_domain :: string
  i_logoUrl :: "string option"
  i_websiteUrl :: "string option"
  i_wallet :: "string option"
  i_status :: IssuerStatus
  i_createdAt :: time
  i_updatedAt :: time

record admin =
  a_id :: string
  a_username :: "string option"
  a_email :: string
  a_password :: string
  a_role :: AdminRole
  a_active :: bool
  a_tokenVersion :: int
  a_issuerId :: "string option"
  a_createdAt :: time
  a_updatedAt :: time

record signingKey =
  k_id :: string
  k_issuerId :: string
  k_keyId :: string
  k_publicKey :: string
  k_privateKeyEncrypted :: string
  k_algorithm :: string
  k_createdAt :: time
  k_revokedAt :: "time option"
  k_active :: bool

record credential =
  c_id :: string
  c_credentialExternalId :: string
  c_verificationId :: string
  c_verificationCode :: string
  c_signedVerificationToken :: string
  c_qrPayload :: string
  c_verificationMode :: VerificationMode
  c_securePdfEnabled :: bool
  c_studentName :: string
  c_studentId :: string
  c_degree :: string
  c_graduationYear :: "int option"
  c_metadataUri :: string
  c_metadataJson :: "value"
  c_qrCodeUri :: string
  c_certificateUri :: "string option"
  c_verificationUrl :: string
  c_hash :: string
  c_registryHash :: string
  c_chainProofHash :: string
  c_documentHash :: "string option"
  c_fileName :: "string option"
  c_mimeType :: "string option"
  c_fileSize :: "int option"
  c_txHash :: "string option"
  c_revocationTxHash :: "string option"
  c_chainId :: "int option"
  c_anchoredAt :: "time option"
  c_blockNumber :: "int option"
  c_anchorStatus :: string
  c_chainStatus :: string
  c_chainSyncedAt :: "time option"
  c_anchorVersion :: string
  c_issuerWallet :: "string option"
  c_chainVerificationMetadata :: "value option"
  c_publicPayload :: "string option"
  c_signature :: "string option"
  c_signatureAlgorithm :: "string option"
  c_signedAt :: "time option"
  c_signingKeyId :: "string option"
  c_vcProofValue :: "string option"
  c_vcProofCreated :: "time option"
  c_vcDocument :: "value option"
  c_revoked :: bool
  c_revokedAt :: "time option"
  c_revokedBy :: "string option"
  c_revokedByAdminId :: "string option"
  c_revocationReason :: "RevocationReason option"
  c_revocationNotes :: "string option"
  c_deletedAt :: "time option"
  c_deletedBy :: "string option"
  c_deletedByAdminId :: "string option"
  c_verificationCount :: int
  c_verifiedAt :: "time option"
  c_issuedAt :: time
  c_createdAt :: time
  c_updatedAt :: time
  c_issuerId :: string
  c_batchId :: "string option"

record batch =
  b_id :: string
  b_issuerId :: string
  b_uploadedBy :: string
  b_sourceType :: string
  b_totalRows :: int
  b_issuedRows :: int
  b_failedRows :: int
  b_createdAt :: time
  b_anchoredAt :: "time option"
  b_txHash :: "string option"

record docProof =
  d_id :: string
  d_credentialId :: string
  d_hash :: string
  d_algorithm :: string
  d_fileName :: string
  d_fileSize :: int
  d_mimeType :: string
  d_registeredAt :: time
  d_registeredBy :: string
  d_sourceType :: DocProofSourceType
  d_status :: DocProofStatus

record secureProof =
  p_id :: string
  p_proofExternalId :: string
  p_verificationId :: string
  p_verificationCode :: string
  p_signedVerificationToken :: string
  p_qrPayload :: string
  p_proofUrl :: string
  p_metadataUri :: string
  p_qrCodeUri :: string
  p_title :: string
  p_documentType :: string
  p_referenceNumber :: "string option"
  p_documentDate :: "time option"
  p_fileName :: string
  p_mimeType :: string
  p_fileSize :: int
  p_sourceHash :: string
  p_txHash :: "string option"
  p_chainId :: "int option"
  p_anchoredAt :: "time option"
  p_blockNumber :: "int option"
  p_anchorStatus :: string
  p_chainStatus :: string
  p_chainSyncedAt :: "time option"
  p_anchorVersion :: string
  p_issuerWallet :: "string option"
  p_chainVerificationMetadata :: "value option"
  p_revoked :: bool
  p_revokedAt :: "time option"
  p_revokedBy :: "string option"
  p_revokedByAdminId :: "string option"
  p_revocationReason :: "RevocationReason option"
  p_revocationNotes :: "string option"
  p_verificationCount :: int
  p_verifiedAt :: "time option"
  p_createdBy :: string
  p_createdAt :: time
  p_updatedAt :: time
  p_issuerId :: string

record secureProofLog =
  sl_id :: string
  sl_documentProofId :: "string option"
  sl_sourceType :: VerificationSource
  sl_uploadedHash :: "string option"
  sl_matched :: bool
  sl_status :: string
  sl_ipAddress :: "string option"
  sl_createdAt :: time

record verificationLog =
  vl_id :: string
  vl_credentialId :: "string option"
  vl_eventType :: VerificationEventType
  vl_uploadedHash :: "string option"
  vl_matched :: bool
  vl_status :: string
  vl_ipAddress :: "string option"
  vl_createdAt :: time

record anchorLog =
  al_id :: string
  al_credentialId :: string
  al_operation :: string
  al_status :: string
  al_txHash :: "string option"
  al_chainId :: "int option"
  al_blockNumber :: "int option"
  al_attempts :: int
  al_errorMessage :: "string option"
  al_createdAt :: time
  al_updatedAt :: time

record auditRow =
  au_seq :: nat
  au_action :: string
  au_actorAdminId :: "string option"
  au_actorUsername :: "string option"
  au_targetType :: "string option"
  au_targetId :: "string option"
  au_metadata :: "value option"
  au_ipAddress :: "string option"
  au_userAgent :: "string option"
  au_prevHash :: "string option"
  au_entryHash :: "string option"
  au_createdAt :: time

record chainHead =
  h_seq :: nat
  h_entryHash :: string

record db =
  issuers :: "issuer list"
  admins :: "admin list"
  signingKeys :: "signingKey list"
  credentials :: "credential list"
  batches :: "batch list"
  docProofs :: "docProof list"
  secureProofs :: "secureProof list"
  secureProofLogs :: "secureProofLog list"
  verificationLogs :: "verificationLog list"
  anchorLogs :: "anchorLog list"
  auditLogs :: "auditRow list"
  chainHead_row :: "chainHead option"

end
