(* ===== verification/Registry.thy ===== *)
theory Registry
  imports Js "HOL-Library.Word"
begin

text \<open>
  The on-chain registry (\<open>packages/contracts/contracts/CredentialRegistry.sol\<close>): its storage as a
  record over 256-bit and 160-bit words, every external operation as a function from the caller, the
  block time and the arguments to a revert or the storage after, the views the services read. A
  Solidity mapping is a total function whose default is the zero value; the events are the list of
  what was emitted. \<open>keccak256\<close> is a parameter, as is the inherited \<open>Ownable\<close>, of which only the
  owner and its guard are used; a change of the owner is a step only the owner can make.
\<close>

type_synonym address = "160 word"
type_synonym bytes32 = "256 word"
type_synonym uint256 = "256 word"

subsection \<open>Storage\<close>

record CredentialRecord =
  cr_proofHash :: bytes32
  cr_anchoredAt :: uint256
  cr_revokedAt :: uint256
  cr_issuer :: address
  cr_revokedBy :: address
  cr_revoked :: bool
  cr_exists :: bool

record IssuerProfile =
  ip_name :: string
  ip_authorizedAt :: uint256
  ip_removedAt :: uint256
  ip_exists :: bool

datatype registryError =
    CredentialAlreadyAnchored string
  | ProofHashAlreadyAnchored bytes32
  | CredentialNotFound string
  | CredentialAlreadyRevoked string
  | InvalidIssuer address
  | InvalidIssuerName
  | InvalidCredentialId
  | InvalidProofHash
  | UnauthorizedIssuer address
  | UnauthorizedRevoker address string
  | OwnableUnauthorizedAccount address

datatype registryEvent =
    CredentialAnchored string bytes32 address uint256
  | CredentialRevoked string address address uint256
  | IssuerAuthorized address uint256
  | IssuerRemoved address uint256
  | IssuerProfileUpdated address string uint256
  | CredentialProofAnchored bytes32 bytes32 address string string uint256
  | CredentialProofRevoked bytes32 address address string uint256 uint256

record registry =
  registryOwner :: address
  credentialsAt :: "bytes32 \<Rightarrow> CredentialRecord"
  credentialKeyByProofHash :: "bytes32 \<Rightarrow> bytes32"
  authorizedIssuers :: "address \<Rightarrow> bool"
  issuerProfiles :: "address \<Rightarrow> IssuerProfile"
  emitted :: "registryEvent list"

definition noRecord :: CredentialRecord where
  "noRecord = \<lparr>cr_proofHash = 0, cr_anchoredAt = 0, cr_revokedAt = 0, cr_issuer = 0,
     cr_revokedBy = 0, cr_revoked = False, cr_exists = False\<rparr>"

definition noProfile :: IssuerProfile where
  "noProfile = \<lparr>ip_name = [], ip_authorizedAt = 0, ip_removedAt = 0, ip_exists = False\<rparr>"

text \<open>The constructor: \<open>Ownable(msg.sender)\<close> and empty mappings.\<close>

definition deploy :: "address \<Rightarrow> registry" where
  "deploy sender = \<lparr>registryOwner = sender, credentialsAt = (\<lambda>_. noRecord),
     credentialKeyByProofHash = (\<lambda>_. 0), authorizedIssuers = (\<lambda>_. False),
     issuerProfiles = (\<lambda>_. noProfile), emitted = []\<rparr>"

definition emit :: "registryEvent list \<Rightarrow> registry \<Rightarrow> registry" where
  "emit evs r = r\<lparr>emitted := emitted r @ evs\<rparr>"

subsection \<open>Operations of the owner\<close>

definition onlyOwner :: "address \<Rightarrow> registry \<Rightarrow> registryError + registry \<Rightarrow> registryError + registry" where
  "onlyOwner sender r body =
     (if registryOwner r \<noteq> sender then Inl (OwnableUnauthorizedAccount sender) else body)"

definition authorizedProfile :: "uint256 \<Rightarrow> string \<Rightarrow> IssuerProfile \<Rightarrow> IssuerProfile" where
  "authorizedProfile now issuerName p =
     (let p1 = (if \<not> ip_exists p \<or> ip_authorizedAt p = 0 then p\<lparr>ip_authorizedAt := now\<rparr> else p);
          p2 = p1\<lparr>ip_removedAt := 0, ip_exists := True\<rparr>
      in if issuerName \<noteq> [] then p2\<lparr>ip_name := issuerName\<rparr> else p2)"

definition authorizeIssuerPrivate ::
  "uint256 \<Rightarrow> address \<Rightarrow> string \<Rightarrow> registry \<Rightarrow> registryError + registry" where
  "authorizeIssuerPrivate now issuer issuerName r =
     (if issuer = 0 then Inl (InvalidIssuer issuer)
      else Inr (emit ((if issuerName \<noteq> [] then [IssuerProfileUpdated issuer issuerName now] else [])
                 @ [IssuerAuthorized issuer now])
        (r\<lparr>authorizedIssuers := (authorizedIssuers r)(issuer := True),
           issuerProfiles := (issuerProfiles r)
             (issuer := authorizedProfile now issuerName (issuerProfiles r issuer))\<rparr>)))"

definition authorizeIssuer ::
  "address \<Rightarrow> uint256 \<Rightarrow> address \<Rightarrow> registry \<Rightarrow> registryError + registry" where
  "authorizeIssuer sender now issuer r = onlyOwner sender r (authorizeIssuerPrivate now issuer [] r)"

definition authorizeIssuerWithName ::
  "address \<Rightarrow> uint256 \<Rightarrow> address \<Rightarrow> string \<Rightarrow> registry \<Rightarrow> registryError + registry" where
  "authorizeIssuerWithName sender now issuer issuerName r = onlyOwner sender r
     (if issuerName = [] then Inl InvalidIssuerName else authorizeIssuerPrivate now issuer issuerName r)"

definition removeIssuer ::
  "address \<Rightarrow> uint256 \<Rightarrow> address \<Rightarrow> registry \<Rightarrow> registryError + registry" where
  "removeIssuer sender now issuer r = onlyOwner sender r
     (if issuer = 0 then Inl (InvalidIssuer issuer)
      else Inr (emit [IssuerRemoved issuer now]
        (r\<lparr>authorizedIssuers := (authorizedIssuers r)(issuer := False),
           issuerProfiles := (issuerProfiles r)
             (issuer := (issuerProfiles r issuer)\<lparr>ip_removedAt := now\<rparr>)\<rparr>)))"

definition setIssuerName ::
  "address \<Rightarrow> uint256 \<Rightarrow> address \<Rightarrow> string \<Rightarrow> registry \<Rightarrow> registryError + registry" where
  "setIssuerName sender now issuer issuerName r = onlyOwner sender r
     (if issuer = 0 then Inl (InvalidIssuer issuer)
      else if issuerName = [] then Inl InvalidIssuerName
      else Inr (emit [IssuerProfileUpdated issuer issuerName now]
        (r\<lparr>issuerProfiles := (issuerProfiles r)
             (issuer := (issuerProfiles r issuer)\<lparr>ip_name := issuerName, ip_exists := True\<rparr>)\<rparr>)))"

subsection \<open>Anchoring and revoking\<close>

definition anchorCredential :: "(string \<Rightarrow> bytes32) \<Rightarrow> address \<Rightarrow> uint256 \<Rightarrow> string \<Rightarrow> bytes32 \<Rightarrow>
    registry \<Rightarrow> registryError + registry" where
  "anchorCredential keccak sender now credentialId proofHash r =
     (let credentialKey = keccak credentialId in
      if \<not> authorizedIssuers r sender then Inl (UnauthorizedIssuer sender)
      else if credentialId = [] then Inl InvalidCredentialId
      else if proofHash = 0 then Inl InvalidProofHash
      else if cr_exists (credentialsAt r credentialKey) then Inl (CredentialAlreadyAnchored credentialId)
      else if credentialKeyByProofHash r proofHash \<noteq> 0 then Inl (ProofHashAlreadyAnchored proofHash)
      else Inr (emit [CredentialAnchored credentialId proofHash sender now,
                 CredentialProofAnchored credentialKey proofHash sender credentialId
                   (ip_name (issuerProfiles r sender)) now]
        (r\<lparr>credentialsAt := (credentialsAt r)(credentialKey := \<lparr>cr_proofHash = proofHash,
             cr_anchoredAt = now, cr_revokedAt = 0, cr_issuer = sender, cr_revokedBy = 0,
             cr_revoked = False, cr_exists = True\<rparr>),
           credentialKeyByProofHash := (credentialKeyByProofHash r)(proofHash := credentialKey)\<rparr>)))"

definition revokeCredential :: "(string \<Rightarrow> bytes32) \<Rightarrow> address \<Rightarrow> uint256 \<Rightarrow> string \<Rightarrow>
    registry \<Rightarrow> registryError + registry" where
  "revokeCredential keccak sender now credentialId r =
     (let key = keccak credentialId; c = credentialsAt r key in
      if \<not> cr_exists c then Inl (CredentialNotFound credentialId)
      else if cr_issuer c \<noteq> sender \<and> registryOwner r \<noteq> sender
      then Inl (UnauthorizedRevoker sender credentialId)
      else if cr_revoked c then Inl (CredentialAlreadyRevoked credentialId)
      else Inr (emit [CredentialRevoked credentialId (cr_issuer c) sender now,
                 CredentialProofRevoked key (cr_issuer c) sender credentialId (cr_anchoredAt c) now]
        (r\<lparr>credentialsAt := (credentialsAt r)
             (key := c\<lparr>cr_revoked := True, cr_revokedAt := now, cr_revokedBy := sender\<rparr>)\<rparr>)))"

subsection \<open>Views\<close>

definition credentialExists :: "(string \<Rightarrow> bytes32) \<Rightarrow> string \<Rightarrow> registry \<Rightarrow> bool" where
  "credentialExists keccak i r = cr_exists (credentialsAt r (keccak i))"

definition getCredentialHash :: "(string \<Rightarrow> bytes32) \<Rightarrow> string \<Rightarrow> registry \<Rightarrow> bytes32" where
  "getCredentialHash keccak i r = cr_proofHash (credentialsAt r (keccak i))"

definition getCredentialIssuer :: "(string \<Rightarrow> bytes32) \<Rightarrow> string \<Rightarrow> registry \<Rightarrow> address" where
  "getCredentialIssuer keccak i r = cr_issuer (credentialsAt r (keccak i))"

definition getCredentialTimestamp :: "(string \<Rightarrow> bytes32) \<Rightarrow> string \<Rightarrow> registry \<Rightarrow> uint256" where
  "getCredentialTimestamp keccak i r = cr_anchoredAt (credentialsAt r (keccak i))"

definition getCredentialRevocation ::
  "(string \<Rightarrow> bytes32) \<Rightarrow> string \<Rightarrow> registry \<Rightarrow> bool \<times> uint256 \<times> address" where
  "getCredentialRevocation keccak i r =
     (let c = credentialsAt r (keccak i) in (cr_revoked c, cr_revokedAt c, cr_revokedBy c))"

definition isAuthorizedIssuer :: "address \<Rightarrow> registry \<Rightarrow> bool" where
  "isAuthorizedIssuer a r = authorizedIssuers r a"

definition isCredentialValid :: "(string \<Rightarrow> bytes32) \<Rightarrow> string \<Rightarrow> bytes32 \<Rightarrow> registry \<Rightarrow> bool" where
  "isCredentialValid keccak i h r =
     (let c = credentialsAt r (keccak i) in cr_exists c \<and> cr_proofHash c = h \<and> \<not> cr_revoked c)"

definition verifyCredential :: "(string \<Rightarrow> bytes32) \<Rightarrow> string \<Rightarrow> bytes32 \<Rightarrow> registry \<Rightarrow>
    bool \<times> bool \<times> bool \<times> address \<times> string \<times> uint256" where
  "verifyCredential keccak i h r = (let c = credentialsAt r (keccak i) in
     (cr_exists c, cr_exists c \<and> cr_proofHash c = h, cr_revoked c, cr_issuer c,
      ip_name (issuerProfiles r (cr_issuer c)), cr_anchoredAt c))"

definition credentialHashExists :: "bytes32 \<Rightarrow> registry \<Rightarrow> bool" where
  "credentialHashExists h r = (credentialKeyByProofHash r h \<noteq> 0)"

definition getCredentialKeyByProofHash :: "bytes32 \<Rightarrow> registry \<Rightarrow> bytes32" where
  "getCredentialKeyByProofHash h r = credentialKeyByProofHash r h"

definition getCredentialKey :: "(string \<Rightarrow> bytes32) \<Rightarrow> string \<Rightarrow> bytes32" where
  "getCredentialKey keccak i = keccak i"

definition isCredentialRevoked :: "(string \<Rightarrow> bytes32) \<Rightarrow> string \<Rightarrow> registry \<Rightarrow> bool" where
  "isCredentialRevoked keccak i r = cr_revoked (credentialsAt r (keccak i))"

definition isCredentialIssuer :: "(string \<Rightarrow> bytes32) \<Rightarrow> string \<Rightarrow> address \<Rightarrow> registry \<Rightarrow> bool" where
  "isCredentialIssuer keccak i a r =
     (let c = credentialsAt r (keccak i) in cr_exists c \<and> cr_issuer c = a)"

definition getIssuerProfile :: "address \<Rightarrow> registry \<Rightarrow> bool \<times> string \<times> uint256 \<times> uint256" where
  "getIssuerProfile a r = (let p = issuerProfiles r a in
     (authorizedIssuers r a, ip_name p, ip_authorizedAt p, ip_removedAt p))"

record CredentialProof =
  cp_credentialId :: string
  cp_proofHash :: bytes32
  cp_issuer :: address
  cp_anchoredAt :: uint256
  cp_revoked :: bool
  cp_revokedAt :: uint256
  cp_revokedBy :: address
  cp_exists :: bool

definition getCredential :: "(string \<Rightarrow> bytes32) \<Rightarrow> string \<Rightarrow> registry \<Rightarrow> CredentialProof" where
  "getCredential keccak i r = (let c = credentialsAt r (keccak i) in
     \<lparr>cp_credentialId = (if cr_exists c then i else []), cp_proofHash = cr_proofHash c,
      cp_issuer = cr_issuer c, cp_anchoredAt = cr_anchoredAt c, cp_revoked = cr_revoked c,
      cp_revokedAt = cr_revokedAt c, cp_revokedBy = cr_revokedBy c, cp_exists = cr_exists c\<rparr>)"

record CredentialProofMetadata =
  cm_credentialId :: string
  cm_proofHash :: bytes32
  cm_issuer :: address
  cm_issuerName :: string
  cm_issuedAt :: uint256
  cm_exists :: bool
  cm_revoked :: bool
  cm_revokedAt :: uint256
  cm_revokedBy :: address
  cm_issuerAuthorized :: bool
  cm_active :: bool

definition getCredentialProofMetadata ::
  "(string \<Rightarrow> bytes32) \<Rightarrow> string \<Rightarrow> registry \<Rightarrow> CredentialProofMetadata" where
  "getCredentialProofMetadata keccak i r = (let c = credentialsAt r (keccak i);
       profile = issuerProfiles r (cr_issuer c); active = cr_exists c \<and> \<not> cr_revoked c in
     \<lparr>cm_credentialId = (if cr_exists c then i else []), cm_proofHash = cr_proofHash c,
      cm_issuer = cr_issuer c, cm_issuerName = ip_name profile, cm_issuedAt = cr_anchoredAt c,
      cm_exists = cr_exists c, cm_revoked = cr_revoked c, cm_revokedAt = cr_revokedAt c,
      cm_revokedBy = cr_revokedBy c, cm_issuerAuthorized = authorizedIssuers r (cr_issuer c),
      cm_active = active\<rparr>)"

subsection \<open>The contract as a transition system\<close>

text \<open>
  A step is a transaction of any account, or a change of the owner by the owner; a reverted
  transaction leaves the storage as it is. \<open>registrySteps\<close> is any number of them.
\<close>

inductive registryStep :: "(string \<Rightarrow> bytes32) \<Rightarrow> registry \<Rightarrow> registry \<Rightarrow> bool" for keccak where
  authorize: "authorizeIssuer sender now i r = Inr r' \<Longrightarrow> registryStep keccak r r'"
| authorizeNamed: "authorizeIssuerWithName sender now i n r = Inr r' \<Longrightarrow> registryStep keccak r r'"
| removal: "removeIssuer sender now i r = Inr r' \<Longrightarrow> registryStep keccak r r'"
| rename: "setIssuerName sender now i n r = Inr r' \<Longrightarrow> registryStep keccak r r'"
| anchoring: "anchorCredential keccak sender now i h r = Inr r' \<Longrightarrow> registryStep keccak r r'"
| revocation: "revokeCredential keccak sender now i r = Inr r' \<Longrightarrow> registryStep keccak r r'"
| ownership: "sender = registryOwner r \<Longrightarrow> registryStep keccak r (r\<lparr>registryOwner := newOwner\<rparr>)"
| reverted: "registryStep keccak r r"

abbreviation registrySteps :: "(string \<Rightarrow> bytes32) \<Rightarrow> registry \<Rightarrow> registry \<Rightarrow> bool" where
  "registrySteps keccak \<equiv> (registryStep keccak)\<^sup>*\<^sup>*"


subsection \<open>What no transaction can undo\<close>

lemmas registry_ops = authorizeIssuer_def authorizeIssuerWithName_def authorizeIssuerPrivate_def
  removeIssuer_def setIssuerName_def anchorCredential_def revokeCredential_def onlyOwner_def emit_def
  Let_def

text \<open>An anchored proof keeps its hash, issuer and time; a revocation keeps its time and author.\<close>

definition recordKept :: "CredentialRecord \<Rightarrow> CredentialRecord \<Rightarrow> bool" where
  "recordKept c c' \<longleftrightarrow> (cr_exists c \<longrightarrow> cr_exists c' \<and> cr_proofHash c' = cr_proofHash c \<and>
     cr_issuer c' = cr_issuer c \<and> cr_anchoredAt c' = cr_anchoredAt c \<and>
     (cr_revoked c \<longrightarrow> cr_revoked c' \<and> cr_revokedAt c' = cr_revokedAt c \<and>
        cr_revokedBy c' = cr_revokedBy c))"

lemma recordKept_refl [simp]: "recordKept c c"
  by (simp add: recordKept_def)

lemma recordKept_trans: "recordKept c c' \<Longrightarrow> recordKept c' c'' \<Longrightarrow> recordKept c c''"
  by (auto simp: recordKept_def)

lemma registryStep_recordKept: "registryStep keccak r r' \<Longrightarrow> recordKept (credentialsAt r k) (credentialsAt r' k)"
  by (erule registryStep.cases) (auto simp: registry_ops recordKept_def split: if_splits)

lemma registrySteps_recordKept:
  "registrySteps keccak r r' \<Longrightarrow> recordKept (credentialsAt r k) (credentialsAt r' k)"
  by (induction rule: rtranclp_induct) (auto intro: recordKept_trans registryStep_recordKept)

text \<open>
  The registry invariant: keys that hold no proof hold zeros, the reverse index names the one
  credential of each hash, and the keys in use are those of the identifiers in the event log.
\<close>

fun anchoredId :: "registryEvent \<Rightarrow> string list" where
  "anchoredId (CredentialAnchored i h a t) = [i]"
| "anchoredId _ = []"

definition anchoredIds :: "registry \<Rightarrow> string set" where
  "anchoredIds r = set (concat (map anchoredId (emitted r)))"

definition registryOk :: "(string \<Rightarrow> bytes32) \<Rightarrow> registry \<Rightarrow> bool" where
  "registryOk keccak r \<longleftrightarrow>
     (\<forall>k. cr_exists (credentialsAt r k) \<longrightarrow> cr_proofHash (credentialsAt r k) \<noteq> 0 \<and>
        credentialKeyByProofHash r (cr_proofHash (credentialsAt r k)) = k) \<and>
     (\<forall>k. \<not> cr_exists (credentialsAt r k) \<longrightarrow> credentialsAt r k = noRecord) \<and>
     (\<forall>h. credentialKeyByProofHash r h \<noteq> 0 \<longrightarrow>
        cr_exists (credentialsAt r (credentialKeyByProofHash r h)) \<and>
        cr_proofHash (credentialsAt r (credentialKeyByProofHash r h)) = h) \<and>
     {k. cr_exists (credentialsAt r k)} = keccak ` anchoredIds r"

lemma registryOk_deploy: "registryOk keccak (deploy a)"
  by (auto simp: registryOk_def deploy_def noRecord_def anchoredIds_def)

text \<open>A step either leaves the two mappings alone, or anchors one new proof, or revokes one.\<close>

lemma registryStep_shape:
  assumes "registryStep keccak r r'"
  obtains (same) "credentialsAt r' = credentialsAt r"
      "credentialKeyByProofHash r' = credentialKeyByProofHash r" "anchoredIds r' = anchoredIds r"
  | (anchored) i h c where "h \<noteq> 0" "\<not> cr_exists (credentialsAt r (keccak i))"
      "credentialKeyByProofHash r h = 0" "cr_exists c" "cr_proofHash c = h"
      "credentialsAt r' = (credentialsAt r)(keccak i := c)"
      "credentialKeyByProofHash r' = (credentialKeyByProofHash r)(h := keccak i)"
      "anchoredIds r' = insert i (anchoredIds r)"
  | (revoked) k c where "cr_exists (credentialsAt r k)" "cr_exists c"
      "cr_proofHash c = cr_proofHash (credentialsAt r k)"
      "credentialsAt r' = (credentialsAt r)(k := c)"
      "credentialKeyByProofHash r' = credentialKeyByProofHash r" "anchoredIds r' = anchoredIds r"
  using assms
proof cases
  case (anchoring sender now i h)
  then show ?thesis
    by (intro anchored [of h i "credentialsAt r' (keccak i)"])
      (auto simp: anchorCredential_def Let_def emit_def anchoredIds_def split: if_splits)
next
  case (revocation sender now i)
  then show ?thesis
    by (intro revoked [of "keccak i" "credentialsAt r' (keccak i)"])
      (auto simp: revokeCredential_def Let_def anchoredIds_def emit_def split: if_splits)
qed (auto intro!: same simp: registry_ops anchoredIds_def split: if_splits)

lemma registryStep_ok:
  assumes "registryStep keccak r r'" "registryOk keccak r" and nonzero: "\<And>i. keccak i \<noteq> 0"
  shows "registryOk keccak r'"
  using assms(1)
proof (cases rule: registryStep_shape)
  case same
  then show ?thesis using assms(2) by (simp add: registryOk_def)
next
  case (anchored i h c)
  have unused: "cr_proofHash (credentialsAt r k) \<noteq> h" if "cr_exists (credentialsAt r k)" for k
  proof
    assume "cr_proofHash (credentialsAt r k) = h"
    with that assms(2) have "k = 0" using anchored(3) by (auto simp: registryOk_def)
    moreover have "k \<in> keccak ` anchoredIds r" using that assms(2) by (auto simp: registryOk_def)
    ultimately show False using nonzero by auto
  qed
  have keys: "{k. cr_exists (credentialsAt r' k)} = insert (keccak i) {k. cr_exists (credentialsAt r k)}"
    using anchored by auto
  show ?thesis
    using assms(2) anchored unused nonzero unfolding registryOk_def keys by auto metis+
next
  case (revoked k c)
  have keys: "{k. cr_exists (credentialsAt r' k)} = {k. cr_exists (credentialsAt r k)}"
    using revoked by auto
  show ?thesis
    using assms(2) revoked unfolding registryOk_def keys by auto
qed

lemma registrySteps_ok:
  assumes "registrySteps keccak r r'" "registryOk keccak r" "\<And>i. keccak i \<noteq> 0"
  shows "registryOk keccak r'"
  using assms by (induction rule: rtranclp_induct) (auto intro: registryStep_ok)

subsection \<open>The ledger the contract implements\<close>

text \<open>
  The abstract specification: a finite map from credential identifiers to a hash, an issuer and a
  revocation flag. Anchoring adds an entry under a new identifier and a new hash, revoking sets the
  flag of an entry that has it not, and every other request is refused.
\<close>

record ledgerEntry =
  le_hash :: bytes32
  le_issuer :: address
  le_revoked :: bool

type_synonym ledger = "string \<Rightarrow> ledgerEntry option"

definition ledgerAnchor ::
  "bool \<Rightarrow> address \<Rightarrow> string \<Rightarrow> bytes32 \<Rightarrow> ledger \<Rightarrow> ledger option" where
  "ledgerAnchor authorized sender i h L =
     (if \<not> authorized \<or> i = [] \<or> h = 0 \<or> i \<in> dom L \<or> h \<in> le_hash ` ran L then None
      else Some (L(i \<mapsto> \<lparr>le_hash = h, le_issuer = sender, le_revoked = False\<rparr>)))"

definition ledgerRevoke :: "bool \<Rightarrow> address \<Rightarrow> string \<Rightarrow> ledger \<Rightarrow> ledger option" where
  "ledgerRevoke isOwner sender i L = (case L i of
     None \<Rightarrow> None
   | Some e \<Rightarrow> (if (sender = le_issuer e \<or> isOwner) \<and> \<not> le_revoked e
               then Some (L(i \<mapsto> e\<lparr>le_revoked := True\<rparr>)) else None))"

definition ledgerOf :: "(string \<Rightarrow> bytes32) \<Rightarrow> registry \<Rightarrow> ledger" where
  "ledgerOf keccak r i = (if i \<in> anchoredIds r then
     Some \<lparr>le_hash = getCredentialHash keccak i r, le_issuer = getCredentialIssuer keccak i r,
       le_revoked = fst (getCredentialRevocation keccak i r)\<rparr> else None)"

definition accepted :: "registryError + 'a \<Rightarrow> 'a option" where
  "accepted x = (case x of Inl e \<Rightarrow> None | Inr y \<Rightarrow> Some y)"

lemma accepted_if [simp]: "accepted (if b then x else y) = (if b then accepted x else accepted y)"
  "accepted (Inl e) = None" "accepted (Inr z) = Some z"
  by (simp_all add: accepted_def)

lemma ledgerOf_dom: "dom (ledgerOf keccak r) = anchoredIds r"
  by (auto simp: ledgerOf_def split: if_splits)

lemma registryOk_key:
  "registryOk keccak r \<Longrightarrow> cr_exists (credentialsAt r k) \<longleftrightarrow> k \<in> keccak ` anchoredIds r"
  unfolding registryOk_def by blast

lemma registryOk_index: "registryOk keccak r \<Longrightarrow> cr_exists (credentialsAt r k) \<Longrightarrow>
    credentialKeyByProofHash r (cr_proofHash (credentialsAt r k)) = k"
  by (simp add: registryOk_def)

lemma exists_anchored:
  assumes "registryOk keccak r" "inj_on keccak (insert i (anchoredIds r))"
  shows "cr_exists (credentialsAt r (keccak i)) \<longleftrightarrow> i \<in> anchoredIds r"
proof -
  have "cr_exists (credentialsAt r (keccak i)) \<longleftrightarrow> keccak i \<in> keccak ` anchoredIds r"
    by (rule registryOk_key [OF assms(1)])
  also have "\<dots> \<longleftrightarrow> i \<in> anchoredIds r"
    using assms(2) by (auto simp: inj_on_def)
  finally show ?thesis .
qed

lemma hash_used:
  assumes ok: "registryOk keccak r" and "\<And>j. keccak j \<noteq> 0"
  shows "credentialKeyByProofHash r h \<noteq> 0 \<longleftrightarrow> h \<in> le_hash ` ran (ledgerOf keccak r)"
proof
  assume "credentialKeyByProofHash r h \<noteq> 0"
  with ok have used: "cr_exists (credentialsAt r (credentialKeyByProofHash r h))"
    "cr_proofHash (credentialsAt r (credentialKeyByProofHash r h)) = h"
    by (auto simp: registryOk_def)
  then obtain i where i: "i \<in> anchoredIds r" "credentialKeyByProofHash r h = keccak i"
    unfolding registryOk_key [OF ok] by auto
  with used have "ledgerOf keccak r i = Some \<lparr>le_hash = h, le_issuer = getCredentialIssuer keccak i r,
      le_revoked = fst (getCredentialRevocation keccak i r)\<rparr>"
    by (simp add: ledgerOf_def getCredentialHash_def)
  then show "h \<in> le_hash ` ran (ledgerOf keccak r)"
    by (force simp: ran_def)
next
  assume "h \<in> le_hash ` ran (ledgerOf keccak r)"
  then obtain i where i: "i \<in> anchoredIds r" "h = cr_proofHash (credentialsAt r (keccak i))"
    by (auto simp: ran_def ledgerOf_def getCredentialHash_def split: if_splits)
  with ok have "cr_exists (credentialsAt r (keccak i))"
    by (auto simp: registryOk_def)
  with ok i have "credentialKeyByProofHash r h = keccak i" by (simp add: registryOk_def)
  with assms(2) show "credentialKeyByProofHash r h \<noteq> 0" by simp
qed

lemma anchor_refines:
  assumes ok: "registryOk keccak r" and nz: "\<And>j. keccak j \<noteq> 0"
    and inj: "inj_on keccak (insert i (anchoredIds r))"
  shows "map_option (ledgerOf keccak) (accepted (anchorCredential keccak sender now i h r))
    = ledgerAnchor (authorizedIssuers r sender) sender i h (ledgerOf keccak r)"
proof -
  have view: "ledgerOf keccak r' =
      (ledgerOf keccak r)(i \<mapsto> \<lparr>le_hash = h, le_issuer = sender, le_revoked = False\<rparr>)"
    if new: "i \<notin> anchoredIds r" and run: "anchorCredential keccak sender now i h r = Inr r'" for r'
  proof
    fix j
    have other: "keccak j \<noteq> keccak i" if "j \<in> anchoredIds r"
      using that new inj by (auto simp: inj_on_def)
    have "anchoredIds r' = insert i (anchoredIds r)"
        "credentialsAt r' = (credentialsAt r)(keccak i := credentialsAt r' (keccak i))"
        "cr_proofHash (credentialsAt r' (keccak i)) = h" "cr_issuer (credentialsAt r' (keccak i)) = sender"
        "\<not> cr_revoked (credentialsAt r' (keccak i))"
      using run by (auto simp: anchorCredential_def Let_def emit_def anchoredIds_def split: if_splits)
    moreover from this(2) other have "credentialsAt r' (keccak j) = credentialsAt r (keccak j)"
      if "j \<in> anchoredIds r" using that by (metis fun_upd_other)
    ultimately show "ledgerOf keccak r' j =
      ((ledgerOf keccak r)(i \<mapsto> \<lparr>le_hash = h, le_issuer = sender, le_revoked = False\<rparr>)) j"
      using new by (cases "j = i") (simp_all add: ledgerOf_def getCredentialHash_def
        getCredentialIssuer_def getCredentialRevocation_def Let_def)
  qed
  show ?thesis
  proof (cases "anchorCredential keccak sender now i h r")
    case (Inl e)
    then show ?thesis
      unfolding ledgerAnchor_def ledgerOf_dom
      using exists_anchored [OF ok inj] hash_used [OF ok nz, of h]
      by (auto simp: anchorCredential_def Let_def split: if_splits)
  next
    case (Inr r')
    then have "authorizedIssuers r sender" "i \<noteq> []" "h \<noteq> 0"
        "\<not> cr_exists (credentialsAt r (keccak i))" "credentialKeyByProofHash r h = 0"
      by (auto simp: anchorCredential_def Let_def split: if_splits)
    then show ?thesis
      using view [OF _ Inr] exists_anchored [OF ok inj] hash_used [OF ok nz, of h] Inr
      by (auto simp: ledgerAnchor_def ledgerOf_dom)
  qed
qed

lemma revoke_refines:
  assumes ok: "registryOk keccak r" and inj: "inj_on keccak (insert i (anchoredIds r))"
  shows "map_option (ledgerOf keccak) (accepted (revokeCredential keccak sender now i r))
    = ledgerRevoke (registryOwner r = sender) sender i (ledgerOf keccak r)"
proof (cases "i \<in> anchoredIds r")
  case False
  then show ?thesis
    using exists_anchored [OF ok inj]
    by (simp add: ledgerRevoke_def revokeCredential_def Let_def ledgerOf_def)
next
  case True
  have "keccak j \<noteq> keccak i" if "j \<in> anchoredIds r" "j \<noteq> i" for j
    using that True inj by (auto simp: inj_on_def)
  then show ?thesis
    using True exists_anchored [OF ok inj]
    by (auto simp: ledgerRevoke_def revokeCredential_def Let_def ledgerOf_def emit_def fun_eq_iff
        anchoredIds_def getCredentialHash_def getCredentialIssuer_def getCredentialRevocation_def)
qed

subsection \<open>Properties of the contract\<close>

definition sampleKeccak :: "string \<Rightarrow> bytes32" where
  "sampleKeccak s = (if s = ''a'' then 1 else if s = ''b'' then 2 else 3)"

lemma sampleKeccak_nonzero [simp]: "sampleKeccak s \<noteq> 0"
  by (simp add: sampleKeccak_def)

text \<open>A registry whose owner, account 7, authorized account 9, which anchored a proof.\<close>

definition anchoredSample :: registry where
  "anchoredSample = (case authorizeIssuer 7 100 9 (deploy 7) of
     Inr r \<Rightarrow> (case anchorCredential sampleKeccak 9 200 ''a'' 5 r of Inr r' \<Rightarrow> r' | Inl e \<Rightarrow> r)
   | Inl e \<Rightarrow> deploy 7)"

lemma anchoredSample_eq: "anchoredSample =
   \<lparr>registryOwner = 7, credentialsAt = (\<lambda>_. noRecord)(1 := \<lparr>cr_proofHash = 5, cr_anchoredAt = 200,
      cr_revokedAt = 0, cr_issuer = 9, cr_revokedBy = 0, cr_revoked = False, cr_exists = True\<rparr>),
    credentialKeyByProofHash = (\<lambda>_. 0)(5 := 1), authorizedIssuers = (\<lambda>_. False)(9 := True),
    issuerProfiles = (\<lambda>_. noProfile)(9 := \<lparr>ip_name = [], ip_authorizedAt = 100, ip_removedAt = 0,
      ip_exists = True\<rparr>),
    emitted = [IssuerAuthorized 9 100, CredentialAnchored ''a'' 5 9 200,
      CredentialProofAnchored 1 5 9 ''a'' [] 200]\<rparr>"
  by (simp add: anchoredSample_def registry_ops deploy_def noRecord_def noProfile_def sampleKeccak_def
      authorizedProfile_def)

lemma anchoredSample_steps: "registrySteps sampleKeccak (deploy 7) anchoredSample"
proof -
  obtain r where r: "authorizeIssuer 7 100 9 (deploy 7) = Inr r"
    "anchorCredential sampleKeccak 9 200 ''a'' 5 r = Inr anchoredSample"
    by (simp add: anchoredSample_def registry_ops deploy_def noRecord_def noProfile_def
        sampleKeccak_def authorizedProfile_def)
  then have "registryStep sampleKeccak (deploy 7) r" "registryStep sampleKeccak r anchoredSample"
    by (auto intro: registryStep.intros)
  then show ?thesis by (meson converse_rtranclp_into_rtranclp rtranclp.rtrancl_refl)
qed

text \<open>
  C4. Refinement: from deployment on, whatever accounts did before, the contract's anchoring and
  revoking are the ledger's: accepted exactly when the ledger accepts them, with the ledger's result,
  as long as no two identifiers in use collide under keccak256 and none hashes to zero.
\<close>
theorem registry_refines_ledger:
  assumes "registrySteps keccak (deploy a) r" and "\<And>j. keccak j \<noteq> 0"
    and "inj_on keccak (insert i (anchoredIds r))"
  shows "map_option (ledgerOf keccak) (accepted (anchorCredential keccak sender now i h r))
      = ledgerAnchor (authorizedIssuers r sender) sender i h (ledgerOf keccak r) \<and>
    map_option (ledgerOf keccak) (accepted (revokeCredential keccak sender now i r))
      = ledgerRevoke (registryOwner r = sender) sender i (ledgerOf keccak r) \<and>
    ledgerOf keccak (deploy a) = Map.empty"
proof -
  have ok: "registryOk keccak r"
    using registrySteps_ok [OF assms(1) registryOk_deploy assms(2)] .
  have "ledgerOf keccak (deploy a) = Map.empty"
    by (simp add: fun_eq_iff ledgerOf_def deploy_def anchoredIds_def)
  with anchor_refines [OF ok assms(2,3)] revoke_refines [OF ok assms(3)] show ?thesis by blast
qed

theorem registry_refines_ledger_witness:
  "map_option (ledgerOf sampleKeccak) (accepted (anchorCredential sampleKeccak 9 300 ''b'' 6 anchoredSample))
     = Some ((ledgerOf sampleKeccak anchoredSample)(''b'' \<mapsto> \<lparr>le_hash = 6, le_issuer = 9, le_revoked = False\<rparr>)) \<and>
   accepted (anchorCredential sampleKeccak 9 300 ''b'' 5 anchoredSample) = None"
proof -
  have ids: "anchoredIds anchoredSample = {''a''}"
    by (simp add: anchoredSample_eq anchoredIds_def)
  have inj: "inj_on sampleKeccak (insert ''b'' (anchoredIds anchoredSample))"
    by (simp add: ids inj_on_def sampleKeccak_def)
  have view: "ledgerOf sampleKeccak anchoredSample
      = [''a'' \<mapsto> \<lparr>le_hash = 5, le_issuer = 9, le_revoked = False\<rparr>]"
    unfolding fun_eq_iff ledgerOf_def ids
    by (simp add: getCredentialHash_def getCredentialIssuer_def
        getCredentialRevocation_def anchoredSample_eq sampleKeccak_def)
  have "authorizedIssuers anchoredSample 9" by (simp add: anchoredSample_eq)
  then show ?thesis
    using registry_refines_ledger [OF anchoredSample_steps sampleKeccak_nonzero inj, of 9 300 6]
      registry_refines_ledger [OF anchoredSample_steps sampleKeccak_nonzero inj, of 9 300 5]
    by (simp add: ledgerAnchor_def view)
qed

text \<open>
  C19. Invariant: once anchored, a proof keeps its hash, issuer and time through any transactions of
  any accounts (a removed issuer, a new owner), a revocation is final, and no second credential is
  ever anchored under the same hash.
\<close>
theorem anchored_proofs_permanent:
  assumes "registrySteps keccak (deploy a) r" and "registrySteps keccak r r'"
    and "\<And>j. keccak j \<noteq> 0" and "credentialExists keccak i r"
  shows "credentialExists keccak i r' \<and>
    getCredentialHash keccak i r' = getCredentialHash keccak i r \<and>
    getCredentialIssuer keccak i r' = getCredentialIssuer keccak i r \<and>
    getCredentialTimestamp keccak i r' = getCredentialTimestamp keccak i r \<and>
    (fst (getCredentialRevocation keccak i r) \<longrightarrow>
       getCredentialRevocation keccak i r' = getCredentialRevocation keccak i r) \<and>
    (credentialExists keccak j r' \<and> getCredentialHash keccak j r' = getCredentialHash keccak i r
       \<longrightarrow> keccak j = keccak i)"
proof -
  have ok: "registryOk keccak r'"
    using registrySteps_ok [OF rtranclp_trans [OF assms(1,2)] registryOk_deploy assms(3)] .
  have kept: "recordKept (credentialsAt r (keccak i)) (credentialsAt r' (keccak i))"
    by (rule registrySteps_recordKept [OF assms(2)])
  then have same: "cr_exists (credentialsAt r' (keccak i))"
    "cr_proofHash (credentialsAt r' (keccak i)) = cr_proofHash (credentialsAt r (keccak i))"
    using assms(4) by (simp_all add: recordKept_def credentialExists_def)
  have "keccak j = keccak i" if "credentialExists keccak j r'"
      "getCredentialHash keccak j r' = getCredentialHash keccak i r"
    using that registryOk_index [OF ok, of "keccak j"] registryOk_index [OF ok same(1)] same(2)
    by (simp add: credentialExists_def getCredentialHash_def)
  with kept assms(4) show ?thesis
    by (auto simp: recordKept_def credentialExists_def getCredentialHash_def getCredentialIssuer_def
        getCredentialTimestamp_def getCredentialRevocation_def Let_def)
qed

theorem anchored_proofs_permanent_witness:
  "credentialExists sampleKeccak ''a'' (anchoredSample\<lparr>registryOwner := 8\<rparr>) \<and>
   getCredentialHash sampleKeccak ''a'' (anchoredSample\<lparr>registryOwner := 8\<rparr>) = 5"
proof -
  have "registrySteps sampleKeccak anchoredSample (anchoredSample\<lparr>registryOwner := 8\<rparr>)"
    by (auto intro: registryStep.intros)
  moreover have "credentialExists sampleKeccak ''a'' anchoredSample"
    "getCredentialHash sampleKeccak ''a'' anchoredSample = 5"
    by (simp_all add: anchoredSample_eq credentialExists_def getCredentialHash_def sampleKeccak_def)
  ultimately show ?thesis
    using anchored_proofs_permanent [OF anchoredSample_steps _ sampleKeccak_nonzero] by metis
qed

end
