(* ===== verification/Effects.thy ===== *)
theory Effects
  imports Tables Registry
begin

text \<open>
  The effects of the services: an asynchronous TypeScript method is a \<open>prog\<close>, a function from the
  world to an exception or a value and the world after it. The world holds what outlives a call:
  the database, the audit sequence of PostgreSQL (which a roll-back does not undo), the object
  storage, the job queue, the on-chain registry, and \<open>tick\<close>, the number of external interactions
  so far.
  The environment \<open>env\<close> is everything the code calls and does not contain: the cryptographic
  primitives, the random source, the clock, third-party packages, and \<open>fault\<close>, which says of each
  external interaction whether it is rejected, and with which message. The chain is shared with the
  rest of the world: before every interaction with a node, \<open>others\<close> applies what other accounts did
  since the last one. Every theorem holds for
  every environment it does not constrain, so for every pattern of failures.
\<close>

subsection \<open>Exceptions\<close>

datatype exn =
    BadRequest string
  | Unauthorized string
  | Forbidden string
  | NotFound string
  | Conflict string
  | Gone string
  | InternalServerError string
  | PrismaKnown string "string list"
  | PrismaFault string
  | JsError string

text \<open>The text of \<open>error.message\<close>; a Prisma message carries its code.\<close>

fun exnMessage :: "exn \<Rightarrow> string" where
  "exnMessage (BadRequest m) = m"
| "exnMessage (Unauthorized m) = m"
| "exnMessage (Forbidden m) = m"
| "exnMessage (NotFound m) = m"
| "exnMessage (Conflict m) = m"
| "exnMessage (Gone m) = m"
| "exnMessage (InternalServerError m) = m"
| "exnMessage (PrismaKnown code cols) = code"
| "exnMessage (PrismaFault m) = m"
| "exnMessage (JsError m) = m"

subsection \<open>Environment and world\<close>

record config =
  cfg_blockchainEnabled :: bool
  cfg_jwtSecret :: string
  cfg_signingSecret :: string
  cfg_apiBase :: string
  cfg_webBase :: string
  cfg_trustProxy :: bool
  cfg_development :: bool
  cfg_exposed :: bool
  cfg_issuerWallet :: "string option"
  cfg_rpcUrl :: "string option"
  cfg_privateKey :: "string option"
  cfg_contractAddress :: "string option"
  cfg_storageR2 :: bool

record env =
  cfg :: config
  fault :: "nat \<Rightarrow> string option"
  clock :: "nat \<Rightarrow> time"
  randomBytes :: "nat \<Rightarrow> nat \<Rightarrow> string"
  cuid :: "nat \<Rightarrow> string"
  sha256 :: "string \<Rightarrow> string"
  hmac :: "string \<Rightarrow> string \<Rightarrow> string"
  edKeyPair :: "nat \<Rightarrow> string \<times> string"
  edSign :: "string \<Rightarrow> string \<Rightarrow> string option"
  edVerify :: "string \<Rightarrow> string \<Rightarrow> string \<Rightarrow> bool option"
  scrypt :: "string \<Rightarrow> string \<Rightarrow> string"
  aesGcmEncrypt :: "string \<Rightarrow> string \<Rightarrow> string \<Rightarrow> string \<times> string"
  aesGcmDecrypt :: "string \<Rightarrow> string \<Rightarrow> string \<Rightarrow> string \<Rightarrow> string option"
  spkiRaw :: "string \<Rightarrow> string option"
  toBase64 :: "string \<Rightarrow> string"
  fromBase64 :: "string \<Rightarrow> string"
  jcsLib :: "value \<Rightarrow> string option"
  bcryptHash :: "nat \<Rightarrow> string \<Rightarrow> string"
  bcryptCompare :: "string \<Rightarrow> string \<Rightarrow> bool"
  jwtSign :: "value \<Rightarrow> string"
  getAddress :: "string \<Rightarrow> string option"
  isAddressEqual :: "string \<Rightarrow> string \<Rightarrow> bool"
  urlWithToken :: "string \<Rightarrow> string \<Rightarrow> string"
  qrPng :: "string \<Rightarrow> string"
  certificatePdf :: "value \<Rightarrow> string"
  pdfReadable :: "string \<Rightarrow> bool"
  pdfTextPages :: "string \<Rightarrow> string option list list"
  pdfImagePages :: "string \<Rightarrow> string option list list"
  pdfRenderedPages :: "string \<Rightarrow> string option list list"
  parseUrl :: "string \<Rightarrow> (string \<times> string option) option"
  localYear :: "time \<Rightarrow> int"
  yearStart :: "int \<Rightarrow> time"
  ilike :: "string \<Rightarrow> string \<Rightarrow> bool"
  keccak256 :: "string \<Rightarrow> bytes32"
  accountOf :: "string \<Rightarrow> address"
  addressText :: "address \<Rightarrow> string"
  bytes32Text :: "bytes32 \<Rightarrow> string"
  hexBytes32 :: "string \<Rightarrow> bytes32"
  others :: "nat \<Rightarrow> registry \<Rightarrow> registry"
  blockTime :: "nat \<Rightarrow> uint256"
  blockHeight :: "nat \<Rightarrow> nat"
  txHashAt :: "nat \<Rightarrow> string"
  outOfGas :: "nat \<Rightarrow> bool"
  parseDate :: "string \<Rightarrow> time option"
  nodeChainId :: int

datatype content = JsonDoc "value" | Bytes string

record job =
  j_name :: string
  j_credentialId :: string
  j_operation :: string
  j_jobId :: string

record world =
  database :: db
  audit_seq :: nat
  storage :: "(string \<times> content) list"
  queue :: "job list"
  chain :: registry
  tick :: nat

type_synonym 'a prog = "world \<Rightarrow> (exn + 'a) \<times> world"

subsection \<open>Sequencing, exceptions, loops\<close>

definition ret :: "'a \<Rightarrow> 'a prog" where
  "ret x w = (Inr x, w)"

definition throw :: "exn \<Rightarrow> 'a prog" where
  "throw e w = (Inl e, w)"

definition bind :: "'a prog \<Rightarrow> ('a \<Rightarrow> 'b prog) \<Rightarrow> 'b prog" where
  "bind m f w = (case m w of (Inl e, w') \<Rightarrow> (Inl e, w') | (Inr x, w') \<Rightarrow> f x w')"

definition andThen :: "'a prog \<Rightarrow> 'b prog \<Rightarrow> 'b prog" where
  "andThen m n = bind m (\<lambda>_. n)"

definition tryCatch :: "'a prog \<Rightarrow> (exn \<Rightarrow> 'a prog) \<Rightarrow> 'a prog" where
  "tryCatch m h w = (case m w of (Inl e, w') \<Rightarrow> h e w' | (Inr x, w') \<Rightarrow> (Inr x, w'))"

fun foldM :: "('s \<Rightarrow> 'x \<Rightarrow> 's prog) \<Rightarrow> 's \<Rightarrow> 'x list \<Rightarrow> 's prog" where
  "foldM f s [] = ret s"
| "foldM f s (x # xs) = bind (f s x) (\<lambda>s'. foldM f s' xs)"

text \<open>
  \<open>Promise.all\<close> of statements that were all started: each of them runs whatever becomes of the
  others, and a rejection is the result of the whole.
\<close>

fun parAll :: "unit prog list \<Rightarrow> unit prog" where
  "parAll [] = ret ()"
| "parAll (m # ms) = (\<lambda>w. case m w of
     (Inl e, w') \<Rightarrow> (Inl e, snd (parAll ms w')) | (Inr x, w') \<Rightarrow> parAll ms w')"

definition guardNot :: "bool \<Rightarrow> exn \<Rightarrow> unit prog" where
  "guardNot b e = (if b then throw e else ret ())"

subsection \<open>External interactions\<close>

definition nextTick :: "world \<Rightarrow> world" where
  "nextTick w = w\<lparr>tick := Suc (tick w)\<rparr>"

definition external :: "env \<Rightarrow> (string \<Rightarrow> exn) \<Rightarrow> 'a prog \<Rightarrow> 'a prog" where
  "external E mk m w = (case fault E (tick w) of
     Some msg \<Rightarrow> (Inl (mk msg), nextTick w)
   | None \<Rightarrow> m (nextTick w))"

text \<open>\<open>new Date()\<close>, \<open>randomBytes(n).toString('hex')\<close>: interactions that do not fail.\<close>

definition newDate :: "env \<Rightarrow> time prog" where
  "newDate E w = (Inr (clock E (tick w)), nextTick w)"

definition hexEncode :: "string \<Rightarrow> string" where
  "hexEncode bs = concat (map (\<lambda>c. let n = (of_char c :: nat) in
     [hexDigit (n div 16), hexDigit (n mod 16)]) bs)"

definition randomHex :: "env \<Rightarrow> nat \<Rightarrow> string prog" where
  "randomHex E n w = (Inr (hexEncode (randomBytes E (tick w) n)), nextTick w)"

definition randomRaw :: "env \<Rightarrow> nat \<Rightarrow> string prog" where
  "randomRaw E n w = (Inr (randomBytes E (tick w) n), nextTick w)"

definition newKeyPair :: "env \<Rightarrow> (string \<times> string) prog" where
  "newKeyPair E w = (Inr (edKeyPair E (tick w)), nextTick w)"

text \<open>A computation that throws or returns.\<close>

definition liftE :: "exn + 'a \<Rightarrow> 'a prog" where
  "liftE r = (case r of Inl e \<Rightarrow> throw e | Inr x \<Rightarrow> ret x)"

text \<open>A database read, and a statement that may be refused by the database and may change it.\<close>

definition query :: "env \<Rightarrow> (db \<Rightarrow> 'a) \<Rightarrow> 'a prog" where
  "query E f = external E PrismaFault (\<lambda>w. (Inr (f (database w)), w))"

definition exec :: "env \<Rightarrow> (time \<Rightarrow> string \<Rightarrow> db \<Rightarrow> exn + ('a \<times> db)) \<Rightarrow> 'a prog" where
  "exec E stmt w = external E PrismaFault
     (\<lambda>w'. case stmt (clock E (tick w)) (cuid E (tick w)) (database w') of
        Inl e \<Rightarrow> (Inl e, w') | Inr (x, d) \<Rightarrow> (Inr x, w'\<lparr>database := d\<rparr>)) w"

text \<open>
  \<open>$transaction\<close>: whatever is thrown inside, or a commit that fails, restores the tables; the
  sequence, the storage and the queue are outside of it.
\<close>

definition transaction :: "env \<Rightarrow> 'a prog \<Rightarrow> 'a prog" where
  "transaction E m w =
     (case bind m (\<lambda>x. external E PrismaFault (ret x)) w of
        (Inl e, w') \<Rightarrow> (Inl e, w'\<lparr>database := database w\<rparr>)
      | (Inr x, w') \<Rightarrow> (Inr x, w'))"

subsection \<open>Object storage and queue\<close>

definition putObject :: "env \<Rightarrow> string \<Rightarrow> content \<Rightarrow> unit prog" where
  "putObject E key c = external E JsError
     (\<lambda>w. (Inr (), w\<lparr>storage := (key, c) # filter (\<lambda>kc. fst kc \<noteq> key) (storage w)\<rparr>))"

definition getObject :: "env \<Rightarrow> string \<Rightarrow> content prog" where
  "getObject E key = external E JsError
     (\<lambda>w. case map_of (storage w) key of
        None \<Rightarrow> (Inl (JsError ''NoSuchKey''), w) | Some c \<Rightarrow> (Inr c, w))"

definition deleteObjects :: "env \<Rightarrow> (string \<Rightarrow> bool) \<Rightarrow> unit prog" where
  "deleteObjects E P = external E JsError
     (\<lambda>w. (Inr (), w\<lparr>storage := filter (\<lambda>kc. \<not> P (fst kc)) (storage w)\<rparr>))"

definition addJob :: "env \<Rightarrow> job \<Rightarrow> unit prog" where
  "addJob E j = external E JsError
     (\<lambda>w. (Inr (), if j_jobId j \<in> set (map j_jobId (queue w)) then w
                    else w\<lparr>queue := queue w @ [j]\<rparr>))"

subsection \<open>The blockchain node\<close>

definition rpcCall :: "env \<Rightarrow> (nat \<Rightarrow> registry \<Rightarrow> exn + ('a \<times> registry)) \<Rightarrow> 'a prog" where
  "rpcCall E f w = external E JsError
     (\<lambda>w'. let r = others E (tick w) (chain w') in case f (tick w) r of
        Inl e \<Rightarrow> (Inl e, w'\<lparr>chain := r\<rparr>) | Inr (x, r') \<Rightarrow> (Inr x, w'\<lparr>chain := r'\<rparr>)) w"

end
