(* ===== verification/Wp.thy ===== *)
theory Wp
  imports Effects
begin

text \<open>
  Reasoning about programs. \<open>wp m Q R w\<close> says that \<open>m\<close>, started in \<open>w\<close>, ends in a world and with a
  value that satisfy \<open>Q\<close>, or with an exception that satisfies \<open>R\<close>; the collection \<open>wp_simps\<close>
  computes it. \<open>keeps r m\<close> says that every run of \<open>m\<close>, whether it returns or throws, relates the
  tables before to the tables after by \<open>r\<close>; the locale \<open>db_order\<close> proves the rules for composing it
  once, for every reflexive and transitive \<open>r\<close>, and \<open>keeps_intros\<close> collects their instances.
\<close>

named_theorems wp_simps
named_theorems keeps_intros

definition wp ::
  "'a prog \<Rightarrow> ('a \<Rightarrow> world \<Rightarrow> bool) \<Rightarrow> (exn \<Rightarrow> world \<Rightarrow> bool) \<Rightarrow> world \<Rightarrow> bool" where
  "wp m Q R w = (case m w of (Inr x, w') \<Rightarrow> Q x w' | (Inl e, w') \<Rightarrow> R e w')"

subsection \<open>The calculus\<close>

lemma nextTick_simps [simp]:
  "database (nextTick w) = database w" "audit_seq (nextTick w) = audit_seq w"
  "storage (nextTick w) = storage w" "queue (nextTick w) = queue w"
  "chain (nextTick w) = chain w" "tick (nextTick w) = Suc (tick w)"
  by (simp_all add: nextTick_def)

lemma wp_ret [wp_simps]: "wp (ret x) Q R w = Q x w"
  by (simp add: wp_def ret_def)

lemma wp_throw [wp_simps]: "wp (throw e) Q R w = R e w"
  by (simp add: wp_def throw_def)

lemma wp_bind [wp_simps]: "wp (bind m f) Q R w = wp m (\<lambda>x. wp (f x) Q R) R w"
  by (simp add: wp_def bind_def split: prod.splits sum.splits)

lemma wp_andThen [wp_simps]: "wp (andThen m n) Q R w = wp m (\<lambda>_. wp n Q R) R w"
  by (simp add: andThen_def wp_bind)

lemma wp_tryCatch [wp_simps]: "wp (tryCatch m h) Q R w = wp m Q (\<lambda>e. wp (h e) Q R) w"
  by (simp add: wp_def tryCatch_def split: prod.splits sum.splits)

lemma wp_if [wp_simps]: "wp (if b then m else n) Q R w = (if b then wp m Q R w else wp n Q R w)"
  by simp

lemma wp_case_option [wp_simps]:
  "wp (case x of None \<Rightarrow> m | Some y \<Rightarrow> n y) Q R w =
     (case x of None \<Rightarrow> wp m Q R w | Some y \<Rightarrow> wp (n y) Q R w)"
  by (simp split: option.splits)

lemma wp_case_prod [wp_simps]:
  "wp (case p of (a, b) \<Rightarrow> m a b) Q R w = (case p of (a, b) \<Rightarrow> wp (m a b) Q R w)"
  by (simp split: prod.splits)

lemma wp_guardNot [wp_simps]: "wp (guardNot b e) Q R w = (if b then R e w else Q () w)"
  by (simp add: guardNot_def wp_simps)

lemma wp_external [wp_simps]:
  "wp (external E mk m) Q R w = (case fault E (tick w) of
     Some msg \<Rightarrow> R (mk msg) (nextTick w) | None \<Rightarrow> wp m Q R (nextTick w))"
  by (simp add: wp_def external_def split: option.splits)

lemma wp_newDate [wp_simps]: "wp (newDate E) Q R w = Q (clock E (tick w)) (nextTick w)"
  by (simp add: wp_def newDate_def)

lemma wp_randomHex [wp_simps]:
  "wp (randomHex E n) Q R w = Q (hexEncode (randomBytes E (tick w) n)) (nextTick w)"
  by (simp add: wp_def randomHex_def)

lemma wp_randomRaw [wp_simps]:
  "wp (randomRaw E n) Q R w = Q (randomBytes E (tick w) n) (nextTick w)"
  by (simp add: wp_def randomRaw_def)

lemma wp_newKeyPair [wp_simps]: "wp (newKeyPair E) Q R w = Q (edKeyPair E (tick w)) (nextTick w)"
  by (simp add: wp_def newKeyPair_def)

lemma wp_liftE [wp_simps]: "wp (liftE r) Q R w = (case r of Inl e \<Rightarrow> R e w | Inr x \<Rightarrow> Q x w)"
  by (simp add: liftE_def wp_simps split: sum.splits)

lemma wp_query [wp_simps]:
  "wp (query E f) Q R w = (case fault E (tick w) of
     Some msg \<Rightarrow> R (PrismaFault msg) (nextTick w) | None \<Rightarrow> Q (f (database w)) (nextTick w))"
  by (simp add: wp_def query_def external_def split: option.splits)

lemma wp_exec [wp_simps]:
  "wp (exec E stmt) Q R w = (case fault E (tick w) of
     Some msg \<Rightarrow> R (PrismaFault msg) (nextTick w)
   | None \<Rightarrow> (case stmt (clock E (tick w)) (cuid E (tick w)) (database w) of
        Inl e \<Rightarrow> R e (nextTick w)
      | Inr (x, d) \<Rightarrow> Q x ((nextTick w)\<lparr>database := d\<rparr>)))"
  by (simp add: wp_def exec_def external_def split: option.splits sum.splits)

lemma wp_rpcCall [wp_simps]:
  "wp (rpcCall E f) Q R w = (case fault E (tick w) of
     Some msg \<Rightarrow> R (JsError msg) (nextTick w)
   | None \<Rightarrow> (case f (tick w) (others E (tick w) (chain w)) of
        Inl e \<Rightarrow> R e ((nextTick w)\<lparr>chain := others E (tick w) (chain w)\<rparr>)
      | Inr (x, r') \<Rightarrow> Q x ((nextTick w)\<lparr>chain := r'\<rparr>)))"
  by (simp add: wp_def rpcCall_def external_def Let_def split: option.splits sum.splits)

lemma wp_transaction [wp_simps]:
  "wp (transaction E m) Q R w = wp m
     (\<lambda>x w'. case fault E (tick w') of
        Some msg \<Rightarrow> R (PrismaFault msg) ((nextTick w')\<lparr>database := database w\<rparr>)
      | None \<Rightarrow> Q x (nextTick w'))
     (\<lambda>e w'. R e (w'\<lparr>database := database w\<rparr>)) w"
  by (simp add: wp_def transaction_def bind_def external_def ret_def
      split: prod.splits sum.splits option.splits)

lemma wp_foldM_Nil [wp_simps]: "wp (foldM f s []) Q R w = Q s w"
  by (simp add: wp_simps)

lemma wp_foldM_Cons [wp_simps]:
  "wp (foldM f s (x # xs)) Q R w = wp (f s x) (\<lambda>s'. wp (foldM f s' xs) Q R) R w"
  by (simp add: wp_simps)

text \<open>Consequence, and the rule for a loop: an invariant of the accumulator, what is done, the world.\<close>

lemma wp_mono:
  assumes "wp m Q R w" and "\<And>x w'. Q x w' \<Longrightarrow> Q' x w'" and "\<And>e w'. R e w' \<Longrightarrow> R' e w'"
  shows "wp m Q' R' w"
  using assms by (auto simp: wp_def split: prod.splits sum.splits)

lemma wp_conj:
  "wp m Q R w \<Longrightarrow> wp m Q' R' w \<Longrightarrow>
   wp m (\<lambda>x w. Q x w \<and> Q' x w) (\<lambda>e w. R e w \<and> R' e w) w"
  by (auto simp: wp_def split: prod.splits sum.splits)

lemma wp_foldM:
  assumes step: "\<And>pre x rest s w. xs0 = pre @ x # rest \<Longrightarrow> I pre s w \<Longrightarrow>
      wp (f s x) (\<lambda>s'. I (pre @ [x]) s') R w"
    and start: "I [] s w"
  shows "wp (foldM f s xs0) (\<lambda>s'. I xs0 s') R w"
proof -
  have "wp (foldM f s rest) (\<lambda>s'. I xs0 s') R w" if "xs0 = pre @ rest" "I pre s w" for pre rest s w
    using that
  proof (induction rest arbitrary: pre s w)
    case Nil
    then show ?case by (simp add: wp_simps)
  next
    case (Cons x rest)
    have "wp (f s x) (\<lambda>s'. I (pre @ [x]) s') R w"
      using Cons.prems by (auto intro: step)
    moreover have "wp (foldM f s' rest) (\<lambda>s'. I xs0 s') R w'" if "I (pre @ [x]) s' w'" for s' w'
      using Cons.IH [of "pre @ [x]" s' w'] that Cons.prems(1) by simp
    ultimately show ?case
      unfolding wp_foldM_Cons by (rule wp_mono) auto
  qed
  from this [of "[]" xs0 s w] start show ?thesis by simp
qed

lemma wp_parAll_Nil [wp_simps]: "wp (parAll []) Q R w = Q () w"
  by (simp add: wp_simps)

lemma wp_parAll_Cons [wp_simps]: "wp (parAll (m # ms)) Q R w =
  wp m (\<lambda>_ w'. wp (parAll ms) Q R w') (\<lambda>e w'. wp (parAll ms) (\<lambda>_. R e) (\<lambda>_. R e) w') w"
  by (simp add: wp_def split: prod.splits sum.splits)

text \<open>From the calculus to a run, and back.\<close>

lemma wp_Inr: "wp m Q R w \<Longrightarrow> m w = (Inr x, w') \<Longrightarrow> Q x w'"
  by (simp add: wp_def)

lemma wp_Inl: "wp m Q R w \<Longrightarrow> m w = (Inl e, w') \<Longrightarrow> R e w'"
  by (simp add: wp_def)

lemma wpI: "(\<And>x w'. m w = (Inr x, w') \<Longrightarrow> Q x w') \<Longrightarrow> (\<And>e w'. m w = (Inl e, w') \<Longrightarrow> R e w') \<Longrightarrow> wp m Q R w"
  by (auto simp: wp_def split: prod.splits sum.splits)

lemma prog_returns: "isl (fst (m w)) = False \<Longrightarrow> \<exists>x w'. m w = (Inr x, w')"
  by (cases "m w") (metis fst_conv isl_def sum.exhaust_sel sum.disc(1))

subsection \<open>Relations every run respects\<close>

definition keeps :: "(db \<Rightarrow> db \<Rightarrow> bool) \<Rightarrow> 'a prog \<Rightarrow> bool" where
  "keeps r m \<longleftrightarrow> (\<forall>w. r (database w) (database (snd (m w))))"

lemma keepsD: "keeps r m \<Longrightarrow> m w = (x, w') \<Longrightarrow> r (database w) (database w')"
  by (metis keeps_def snd_conv)

lemma keeps_weaken: "keeps r m \<Longrightarrow> (\<And>d d'. r d d' \<Longrightarrow> r' d d') \<Longrightarrow> keeps r' m"
  by (auto simp: keeps_def)

lemma keeps_wp: "keeps r m \<Longrightarrow>
  wp m (\<lambda>_ w'. r (database w) (database w')) (\<lambda>_ w'. r (database w) (database w')) w"
  by (auto simp: wp_def keeps_def split: prod.splits sum.splits dest: spec [of _ w])

locale db_order =
  fixes r :: "db \<Rightarrow> db \<Rightarrow> bool"
  assumes order_refl: "r d d"
    and order_trans: "r d d' \<Longrightarrow> r d' d'' \<Longrightarrow> r d d''"
begin

lemma keeps_ret [keeps_intros]: "keeps r (ret x)"
  by (simp add: keeps_def ret_def order_refl)

lemma keeps_throw [keeps_intros]: "keeps r (throw e)"
  by (simp add: keeps_def throw_def order_refl)

lemma keeps_guardNot [keeps_intros]: "keeps r (guardNot b e)"
  by (simp add: guardNot_def keeps_ret keeps_throw)

lemma keeps_bind [keeps_intros]: "keeps r m \<Longrightarrow> (\<And>x. keeps r (f x)) \<Longrightarrow> keeps r (bind m f)"
  by (auto simp: keeps_def bind_def split: prod.splits sum.splits)
    (metis order_trans snd_conv)+

lemma keeps_andThen [keeps_intros]: "keeps r m \<Longrightarrow> keeps r n \<Longrightarrow> keeps r (andThen m n)"
  by (simp add: andThen_def keeps_bind)

lemma keeps_if [keeps_intros]:
  "(b \<Longrightarrow> keeps r m) \<Longrightarrow> (\<not> b \<Longrightarrow> keeps r n) \<Longrightarrow> keeps r (if b then m else n)"
  by simp

lemma keeps_option [keeps_intros]:
  "(x = None \<Longrightarrow> keeps r m) \<Longrightarrow> (\<And>y. x = Some y \<Longrightarrow> keeps r (n y)) \<Longrightarrow>
   keeps r (case x of None \<Rightarrow> m | Some y \<Rightarrow> n y)"
  by (cases x) simp_all

lemma keeps_prod [keeps_intros]:
  "(\<And>a b. p = (a, b) \<Longrightarrow> keeps r (m a b)) \<Longrightarrow> keeps r (case p of (a, b) \<Rightarrow> m a b)"
  by (cases p) simp

lemma keeps_Let [keeps_intros]: "(\<And>y. y = x \<Longrightarrow> keeps r (m y)) \<Longrightarrow> keeps r (Let x m)"
  by (simp add: Let_def)

lemma keeps_tryCatch [keeps_intros]:
  "keeps r m \<Longrightarrow> (\<And>e. keeps r (h e)) \<Longrightarrow> keeps r (tryCatch m h)"
  by (auto simp: keeps_def tryCatch_def split: prod.splits sum.splits)
    (metis order_trans snd_conv)+

lemma keeps_foldM [keeps_intros]: "(\<And>s x. keeps r (f s x)) \<Longrightarrow> keeps r (foldM f s xs)"
  by (induction xs arbitrary: s) (auto intro: keeps_ret keeps_bind)

lemma keeps_parAll: "\<forall>m \<in> set ms. keeps r m \<Longrightarrow> keeps r (parAll ms)"
proof (induction ms)
  case (Cons m ms)
  then have "keeps r m" "keeps r (parAll ms)" by simp_all
  then show ?case
    by (auto simp: keeps_def split: prod.splits sum.splits) (metis order_trans snd_conv)+
qed (simp add: keeps_ret)

lemma keeps_deleteObjects [keeps_intros]: "keeps r (deleteObjects E P)"
  by (auto simp: deleteObjects_def keeps_def external_def order_refl split: option.splits)

lemma keeps_newDate [keeps_intros]: "keeps r (newDate E)"
  by (simp add: keeps_def newDate_def order_refl)

lemma keeps_randomHex [keeps_intros]: "keeps r (randomHex E n)"
  by (simp add: keeps_def randomHex_def order_refl)

lemma keeps_randomRaw [keeps_intros]: "keeps r (randomRaw E n)"
  by (simp add: keeps_def randomRaw_def order_refl)

lemma keeps_newKeyPair [keeps_intros]: "keeps r (newKeyPair E)"
  by (simp add: keeps_def newKeyPair_def order_refl)

lemma keeps_liftE [keeps_intros]: "keeps r (liftE m)"
  by (simp add: liftE_def keeps_ret keeps_throw split: sum.splits)

lemma keeps_external: "keeps r m \<Longrightarrow> keeps r (external E mk m)"
  by (auto simp: keeps_def external_def order_refl split: option.splits dest: spec [of _ "nextTick _"])

lemma keeps_query [keeps_intros]: "keeps r (query E f)"
  by (auto simp: query_def keeps_def external_def order_refl split: option.splits)

lemma keeps_putObject [keeps_intros]: "keeps r (putObject E k c)"
  by (auto simp: putObject_def keeps_def external_def order_refl split: option.splits)

lemma keeps_getObject [keeps_intros]: "keeps r (getObject E k)"
  by (auto simp: getObject_def keeps_def external_def order_refl split: option.splits)

lemma keeps_rpcCall [keeps_intros]: "keeps r (rpcCall E f)"
  by (auto simp: rpcCall_def keeps_def external_def Let_def order_refl split: option.splits sum.splits)

lemma keeps_addJob [keeps_intros]: "keeps r (addJob E j)"
  by (auto simp: addJob_def keeps_def external_def order_refl split: option.splits)

lemma keeps_exec:
  assumes "\<And>t c d x d'. stmt t c d = Inr (x, d') \<Longrightarrow> r d d'"
  shows "keeps r (exec E stmt)"
  using assms
  by (auto simp: keeps_def exec_def external_def order_refl split: option.splits sum.splits)

text \<open>A transaction need only relate the tables of its successful runs.\<close>

lemma keeps_transaction':
  assumes "\<And>w x w'. m w = (Inr x, w') \<Longrightarrow> r (database w) (database w')"
  shows "keeps r (transaction E m)"
  using assms
  by (auto simp: keeps_def transaction_def bind_def external_def ret_def order_refl
      split: prod.splits sum.splits option.splits)

lemma keeps_transaction [keeps_intros]: "keeps r m \<Longrightarrow> keeps r (transaction E m)"
  by (rule keeps_transaction') (metis keeps_def snd_conv)

end

text \<open>An invariant of the tables is the order "if it held before, it holds after".\<close>

definition inv_order :: "(db \<Rightarrow> bool) \<Rightarrow> db \<Rightarrow> db \<Rightarrow> bool" where
  "inv_order P d d' \<longleftrightarrow> (P d \<longrightarrow> P d')"

interpretation inv: db_order "inv_order P" for P
  by unfold_locales (auto simp: inv_order_def)

lemma keeps_invD: "keeps (inv_order P) m \<Longrightarrow> P (database w) \<Longrightarrow> P (database (snd (m w)))"
  by (simp add: keeps_def inv_order_def)

end
