(* ===== verification/Prisma.thy ===== *)
theory Prisma
  imports Wp
begin

text \<open>
  The statements of the Prisma client the services execute, as programs over one table each:
  the unique indexes of \<open>schema.prisma\<close> (and the partial index of the migration
  \<open>20260727100000_credential_active_unique_index\<close>), rejections with their error codes, the columns
  the client or the database fills in (\<open>cuid()\<close>, \<open>now()\<close>, \<open>@updatedAt\<close>). Foreign keys are not
  checked: every key the code writes was read before. A required relation that is not there is the
  inconsistent-query error of the client.
\<close>

subsection \<open>One table\<close>

definition insertInto ::
  "('a \<Rightarrow> 'a list \<Rightarrow> string list option) \<Rightarrow> 'a \<Rightarrow> 'a list \<Rightarrow> exn + 'a list" where
  "insertInto conflict x rows = (case conflict x rows of
     Some cols \<Rightarrow> Inl (PrismaKnown ''P2002'' cols) | None \<Rightarrow> Inr (rows @ [x]))"

definition updateIn :: "('a \<Rightarrow> 'a list \<Rightarrow> string list option) \<Rightarrow> ('a \<Rightarrow> bool) \<Rightarrow> ('a \<Rightarrow> 'a) \<Rightarrow>
    'a list \<Rightarrow> exn + ('a \<times> 'a list)" where
  "updateIn conflict P f rows = (case List.find P rows of
     None \<Rightarrow> Inl (PrismaKnown ''P2025'' [])
   | Some x \<Rightarrow> (case conflict (f x) (filter (\<lambda>r. \<not> P r) rows) of
       Some cols \<Rightarrow> Inl (PrismaKnown ''P2002'' cols)
     | None \<Rightarrow> Inr (f x, map (\<lambda>r. if P r then f r else r) rows)))"

definition deleteFrom :: "('a \<Rightarrow> bool) \<Rightarrow> 'a list \<Rightarrow> exn + 'a list" where
  "deleteFrom P rows = (if List.find P rows = None then Inl (PrismaKnown ''P2025'' [])
     else Inr (filter (\<lambda>r. \<not> P r) rows))"

text \<open>The first of the unique indexes that some other row already occupies.\<close>

fun firstConflict :: "(string list \<times> ('a \<Rightarrow> bool)) list \<Rightarrow> 'a list \<Rightarrow> string list option" where
  "firstConflict [] rows = None"
| "firstConflict ((cols, same) # ixs) rows =
     (if \<exists>r \<in> set rows. same r then Some cols else firstConflict ixs rows)"

lemma firstConflict_None:
  "firstConflict ixs rows = None \<longleftrightarrow> (\<forall>ix \<in> set ixs. \<forall>r \<in> set rows. \<not> snd ix r)"
  by (induction ixs rows rule: firstConflict.induct) auto

lemma insertInto_Inr: "insertInto cf x rows = Inr rows' \<longleftrightarrow> cf x rows = None \<and> rows' = rows @ [x]"
  by (auto simp: insertInto_def split: option.splits)

lemma updateIn_Inr: "updateIn cf P f rows = Inr (y, rows') \<longleftrightarrow>
  (\<exists>x. List.find P rows = Some x \<and> cf (f x) (filter (\<lambda>r. \<not> P r) rows) = None \<and> y = f x \<and>
     rows' = map (\<lambda>r. if P r then f r else r) rows)"
  by (auto simp: updateIn_def split: option.splits)

lemma deleteFrom_Inr: "deleteFrom P rows = Inr rows' \<longleftrightarrow>
  (\<exists>x \<in> set rows. P x) \<and> rows' = filter (\<lambda>r. \<not> P r) rows"
  by (auto simp: deleteFrom_def find_None_iff)

subsection \<open>Credentials\<close>

definition liveCredential :: "credential \<Rightarrow> bool" where
  "liveCredential c \<longleftrightarrow> c_deletedAt c = None \<and> \<not> c_revoked c"

definition credConflict :: "credential \<Rightarrow> credential list \<Rightarrow> string list option" where
  "credConflict c rows = firstConflict
     [([''id''], \<lambda>r. c_id r = c_id c),
      ([''credentialExternalId''], \<lambda>r. c_credentialExternalId r = c_credentialExternalId c),
      ([''verificationId''], \<lambda>r. c_verificationId r = c_verificationId c),
      ([''verificationCode''], \<lambda>r. c_verificationCode r = c_verificationCode c),
      ([''signedVerificationToken''],
        \<lambda>r. c_signedVerificationToken r = c_signedVerificationToken c),
      ([''hash''], \<lambda>r. c_hash r = c_hash c),
      ([''registryHash''], \<lambda>r. c_registryHash r = c_registryHash c),
      ([''chainProofHash''], \<lambda>r. c_chainProofHash r = c_chainProofHash c),
      ([''documentHash''], \<lambda>r. c_documentHash c \<noteq> None \<and> c_documentHash r = c_documentHash c),
      ([''issuerId'', ''studentId'', ''degree''],
        \<lambda>r. liveCredential c \<and> liveCredential r \<and> c_issuerId r = c_issuerId c \<and>
            c_studentId r = c_studentId c \<and> c_degree r = c_degree c)] rows"

definition issuerOf :: "db \<Rightarrow> string \<Rightarrow> issuer option" where
  "issuerOf d i = List.find (\<lambda>r. i_id r = i) (issuers d)"

definition requireRelation :: "('a \<times> 'b option) option \<Rightarrow> ('a \<times> 'b) option prog" where
  "requireRelation r = (case r of None \<Rightarrow> ret None
     | Some (x, None) \<Rightarrow> throw (PrismaFault ''Inconsistent query result: required relation is null'')
     | Some (x, Some y) \<Rightarrow> ret (Some (x, y)))"

definition findCredential ::
  "env \<Rightarrow> (issuer option \<Rightarrow> credential \<Rightarrow> bool) \<Rightarrow> (credential \<times> issuer) option prog" where
  "findCredential E P = bind (query E (\<lambda>d. map_option (\<lambda>c. (c, issuerOf d (c_issuerId c)))
       (List.find (\<lambda>c. P (issuerOf d (c_issuerId c)) c) (credentials d)))) requireRelation"

definition createCredential :: "env \<Rightarrow> (time \<Rightarrow> credential) \<Rightarrow> credential prog" where
  "createCredential E mk = exec E (\<lambda>now cu d.
     case insertInto credConflict (mk now) (credentials d) of
       Inl e \<Rightarrow> Inl e | Inr rows \<Rightarrow> Inr (mk now, d\<lparr>credentials := rows\<rparr>))"

definition updateCredential ::
  "env \<Rightarrow> string \<Rightarrow> (credential \<Rightarrow> credential) \<Rightarrow> (credential \<times> issuer option) prog" where
  "updateCredential E i f = exec E (\<lambda>now cu d.
     case updateIn credConflict (\<lambda>c. c_id c = i) (\<lambda>c. (f c)\<lparr>c_updatedAt := now\<rparr>) (credentials d) of
       Inl e \<Rightarrow> Inl e
     | Inr (c, rows) \<Rightarrow> Inr ((c, issuerOf d (c_issuerId c)), d\<lparr>credentials := rows\<rparr>))"

text \<open>An update that includes the issuer in its result.\<close>

definition updateCredentialI ::
  "env \<Rightarrow> string \<Rightarrow> (credential \<Rightarrow> credential) \<Rightarrow> (credential \<times> issuer) prog" where
  "updateCredentialI E i f = bind (updateCredential E i f)
     (\<lambda>(c, iss). case iss of
        None \<Rightarrow> throw (PrismaFault ''Inconsistent query result: required relation is null'')
      | Some j \<Rightarrow> ret (c, j))"

subsection \<open>Tables without conflicts\<close>

text \<open>The unique indexes of the credential table, as a property of it: any two rows are compatible.\<close>

definition compatible :: "credential \<Rightarrow> credential \<Rightarrow> bool" where
  "compatible a b \<longleftrightarrow> credConflict a [b] = None"

lemma credConflict_None: "credConflict c rows = None \<longleftrightarrow> (\<forall>r \<in> set rows. compatible c r)"
  unfolding compatible_def credConflict_def firstConflict_None by auto

lemma compatible_sym: "compatible a b \<longleftrightarrow> compatible b a"
  unfolding compatible_def credConflict_def firstConflict_None by auto

lemma compatible_id: "compatible a b \<Longrightarrow> c_id a \<noteq> c_id b"
  unfolding compatible_def credConflict_def firstConflict_None by auto

lemma compatible_live: "compatible a b \<Longrightarrow> liveCredential a \<Longrightarrow> liveCredential b \<Longrightarrow>
  c_issuerId a = c_issuerId b \<Longrightarrow> c_studentId a = c_studentId b \<Longrightarrow> c_degree a \<noteq> c_degree b"
  unfolding compatible_def credConflict_def firstConflict_None by auto

lemma compatible_refs: "compatible a b \<Longrightarrow> c_verificationId a \<noteq> c_verificationId b \<and>
  c_verificationCode a \<noteq> c_verificationCode b \<and>
  c_signedVerificationToken a \<noteq> c_signedVerificationToken b"
  unfolding compatible_def credConflict_def firstConflict_None by auto

definition credUnique :: "db \<Rightarrow> bool" where
  "credUnique d \<longleftrightarrow> sorted_wrt compatible (credentials d)"

lemma unique_insert:
  assumes "credUnique d" and "insertInto credConflict c (credentials d) = Inr rows"
  shows "credUnique (d\<lparr>credentials := rows\<rparr>)"
  using assms by (auto simp: credUnique_def insertInto_Inr credConflict_None sorted_wrt_append
      compatible_sym)

lemma unique_update:
  assumes u: "sorted_wrt compatible cs"
    and x: "List.find (\<lambda>c. c_id c = i) cs = Some x"
    and free: "credConflict (f x) (filter (\<lambda>c. c_id c \<noteq> i) cs) = None"
  shows "sorted_wrt compatible (map (\<lambda>c. if c_id c = i then f c else c) cs)"
proof -
  obtain k where k: "k < length cs" "x = cs ! k" "c_id x = i"
    using x by (auto simp: find_Some_iff)
  have one: "j = k" if "j < length cs" "c_id (cs ! j) = i" for j
    using u k that compatible_id unfolding sorted_wrt_iff_nth_less
    by (metis linorder_neqE_nat)
  have other: "compatible (f x) (cs ! j)" if "j < length cs" "j \<noteq> k" for j
    using free that one [of j] unfolding credConflict_None by (cases "c_id (cs ! j) = i") auto
  show ?thesis
    unfolding sorted_wrt_iff_nth_less
  proof (intro allI impI)
    fix a b assume ab: "a < b" "b < length (map (\<lambda>c. if c_id c = i then f c else c) cs)"
    then have c: "compatible (cs ! a) (cs ! b)" using u by (auto simp: sorted_wrt_iff_nth_less)
    show "compatible (map (\<lambda>c. if c_id c = i then f c else c) cs ! a)
        (map (\<lambda>c. if c_id c = i then f c else c) cs ! b)"
      using ab c one [of a] one [of b] other [of a] other [of b] k(2)
      by (auto simp: compatible_sym)
  qed
qed

definition uniqueFields where
  "uniqueFields c = ((c_id c, c_credentialExternalId c, c_verificationId c, c_verificationCode c,
     c_signedVerificationToken c), (c_hash c, c_registryHash c, c_chainProofHash c, c_documentHash c),
     (c_issuerId c, c_studentId c, c_degree c, c_deletedAt c, c_revoked c))"

lemma compatible_cong: "uniqueFields a' = uniqueFields a \<Longrightarrow> uniqueFields b' = uniqueFields b \<Longrightarrow>
  compatible a' b' = compatible a b"
  by (simp add: uniqueFields_def compatible_def credConflict_def liveCredential_def)

lemma find_map_update: "List.find (\<lambda>c. c_id c = i) (map (\<lambda>c. if c_id c = i then g c else c) cs) =
  map_option g (List.find (\<lambda>c. c_id c = i) cs)" if "\<And>c. c_id (g c) = c_id c"
  using that by (induction cs) auto

text \<open>An update that leaves the indexed columns alone is not refused.\<close>

lemma update_accepted:
  assumes u: "credUnique d" and x: "List.find (\<lambda>c. c_id c = i) (credentials d) = Some x"
    and f: "uniqueFields (f x) = uniqueFields x"
  shows "updateIn credConflict (\<lambda>c. c_id c = i) f (credentials d) =
    Inr (f x, map (\<lambda>c. if c_id c = i then f c else c) (credentials d))"
proof -
  obtain k where k: "k < length (credentials d)" "x = credentials d ! k" "c_id x = i"
    using x by (auto simp: find_Some_iff)
  have "compatible (f x) r" if r: "r \<in> set (credentials d)" "c_id r \<noteq> i" for r
  proof -
    obtain j where j: "j < length (credentials d)" "r = credentials d ! j"
      using r(1) by (auto simp: in_set_conv_nth)
    have "j \<noteq> k" using j(2) k(2,3) r(2) by blast
    then have "k < j \<or> j < k" by linarith
    then have "compatible x r \<or> compatible r x"
      using u k j by (auto simp: credUnique_def sorted_wrt_iff_nth_less)
    then have "compatible x r" using compatible_sym [of x r] by simp
    then show ?thesis by (subst compatible_cong [OF f refl])
  qed
  then have "credConflict (f x) (filter (\<lambda>c. c_id c \<noteq> i) (credentials d)) = None"
    by (simp add: credConflict_None)
  with x show ?thesis by (auto simp: updateIn_Inr)
qed

subsection \<open>Administrators, institutions, batches, keys\<close>

definition adminConflict :: "admin \<Rightarrow> admin list \<Rightarrow> string list option" where
  "adminConflict a rows = firstConflict
     [([''id''], \<lambda>r. a_id r = a_id a),
      ([''username''], \<lambda>r. a_username a \<noteq> None \<and> a_username r = a_username a),
      ([''email''], \<lambda>r. a_email r = a_email a)] rows"

definition createAdmin :: "env \<Rightarrow> (time \<Rightarrow> string \<Rightarrow> admin) \<Rightarrow> admin prog" where
  "createAdmin E mk = exec E (\<lambda>now cu d.
     case insertInto adminConflict (mk now cu) (admins d) of
       Inl e \<Rightarrow> Inl e | Inr rows \<Rightarrow> Inr (mk now cu, d\<lparr>admins := rows\<rparr>))"

definition updateAdminRow :: "env \<Rightarrow> string \<Rightarrow> (admin \<Rightarrow> admin) \<Rightarrow> admin prog" where
  "updateAdminRow E i f = exec E (\<lambda>now cu d.
     case updateIn adminConflict (\<lambda>a. a_id a = i) (\<lambda>a. (f a)\<lparr>a_updatedAt := now\<rparr>) (admins d) of
       Inl e \<Rightarrow> Inl e | Inr (a, rows) \<Rightarrow> Inr (a, d\<lparr>admins := rows\<rparr>))"

definition deleteAdminRow :: "env \<Rightarrow> string \<Rightarrow> unit prog" where
  "deleteAdminRow E i = exec E (\<lambda>now cu d.
     case deleteFrom (\<lambda>a. a_id a = i) (admins d) of
       Inl e \<Rightarrow> Inl e | Inr rows \<Rightarrow> Inr ((), d\<lparr>admins := rows\<rparr>))"

definition issuerConflict :: "issuer \<Rightarrow> issuer list \<Rightarrow> string list option" where
  "issuerConflict x rows = firstConflict
     [([''id''], \<lambda>r. i_id r = i_id x),
      ([''domain''], \<lambda>r. i_domain r = i_domain x),
      ([''wallet''], \<lambda>r. i_wallet x \<noteq> None \<and> i_wallet r = i_wallet x)] rows"

definition createIssuer :: "env \<Rightarrow> (time \<Rightarrow> string \<Rightarrow> issuer) \<Rightarrow> issuer prog" where
  "createIssuer E mk = exec E (\<lambda>now cu d.
     case insertInto issuerConflict (mk now cu) (issuers d) of
       Inl e \<Rightarrow> Inl e | Inr rows \<Rightarrow> Inr (mk now cu, d\<lparr>issuers := rows\<rparr>))"

definition updateIssuerRow :: "env \<Rightarrow> string \<Rightarrow> (issuer \<Rightarrow> issuer) \<Rightarrow> issuer prog" where
  "updateIssuerRow E i f = exec E (\<lambda>now cu d.
     case updateIn issuerConflict (\<lambda>x. i_id x = i) (\<lambda>x. (f x)\<lparr>i_updatedAt := now\<rparr>) (issuers d) of
       Inl e \<Rightarrow> Inl e | Inr (x, rows) \<Rightarrow> Inr (x, d\<lparr>issuers := rows\<rparr>))"

definition keyConflict :: "signingKey \<Rightarrow> signingKey list \<Rightarrow> string list option" where
  "keyConflict x rows = firstConflict
     [([''id''], \<lambda>r. k_id r = k_id x), ([''keyId''], \<lambda>r. k_keyId r = k_keyId x)] rows"

definition createSigningKey :: "env \<Rightarrow> (time \<Rightarrow> string \<Rightarrow> signingKey) \<Rightarrow> signingKey prog" where
  "createSigningKey E mk = exec E (\<lambda>now cu d.
     case insertInto keyConflict (mk now cu) (signingKeys d) of
       Inl e \<Rightarrow> Inl e | Inr rows \<Rightarrow> Inr (mk now cu, d\<lparr>signingKeys := rows\<rparr>))"

definition createBatch :: "env \<Rightarrow> (time \<Rightarrow> string \<Rightarrow> batch) \<Rightarrow> batch prog" where
  "createBatch E mk = exec E (\<lambda>now cu d.
     case insertInto (\<lambda>x. firstConflict [([''id''], \<lambda>r. b_id r = b_id x)]) (mk now cu) (batches d) of
       Inl e \<Rightarrow> Inl e | Inr rows \<Rightarrow> Inr (mk now cu, d\<lparr>batches := rows\<rparr>))"

definition updateBatch :: "env \<Rightarrow> string \<Rightarrow> (batch \<Rightarrow> batch) \<Rightarrow> batch prog" where
  "updateBatch E i f = exec E (\<lambda>now cu d.
     case updateIn (\<lambda>_ _. None) (\<lambda>x. b_id x = i) f (batches d) of
       Inl e \<Rightarrow> Inl e | Inr (x, rows) \<Rightarrow> Inr (x, d\<lparr>batches := rows\<rparr>))"

subsection \<open>Log tables\<close>

definition createVerificationLog ::
  "env \<Rightarrow> (string \<Rightarrow> verificationLog) \<Rightarrow> verificationLog prog" where
  "createVerificationLog E mk = exec E (\<lambda>now cu d.
     case insertInto (\<lambda>x. firstConflict [([''id''], \<lambda>r. vl_id r = vl_id x)]) (mk cu)
            (verificationLogs d) of
       Inl e \<Rightarrow> Inl e | Inr rows \<Rightarrow> Inr (mk cu, d\<lparr>verificationLogs := rows\<rparr>))"

definition createAnchorLog :: "env \<Rightarrow> (time \<Rightarrow> string \<Rightarrow> anchorLog) \<Rightarrow> anchorLog prog" where
  "createAnchorLog E mk = exec E (\<lambda>now cu d.
     case insertInto (\<lambda>x. firstConflict [([''id''], \<lambda>r. al_id r = al_id x)]) (mk now cu)
            (anchorLogs d) of
       Inl e \<Rightarrow> Inl e | Inr rows \<Rightarrow> Inr (mk now cu, d\<lparr>anchorLogs := rows\<rparr>))"

lemmas prisma_defs = findCredential_def createCredential_def updateCredential_def
  updateCredentialI_def createAdmin_def updateAdminRow_def deleteAdminRow_def createIssuer_def
  updateIssuerRow_def createSigningKey_def createBatch_def updateBatch_def
  createVerificationLog_def createAnchorLog_def requireRelation_def

end
