(* ===== verification/Sample.thy ===== *)
theory Sample
  imports Effects
begin

text \<open>
  A concrete environment, on which the theorems with hypotheses are instantiated: no interaction
  fails, the clock ticks with the world, the primitives are simple functions of the documented
  shape (decryption undoes encryption, a signature verifies under its own key).
\<close>

definition sampleConfig :: config where
  "sampleConfig = \<lparr>cfg_blockchainEnabled = True, cfg_jwtSecret = ''jwt'', cfg_signingSecret = ''signing'',
     cfg_apiBase = ''https://api'', cfg_webBase = ''https://web'', cfg_trustProxy = False,
     cfg_development = False, cfg_exposed = True, cfg_issuerWallet = Some ''0xA'',
     cfg_rpcUrl = Some ''https://rpc'', cfg_privateKey = Some ''0xk'',
     cfg_contractAddress = Some ''0xC'', cfg_storageR2 = True\<rparr>"

text \<open>A text encoding without dots, and its inverse.\<close>

definition sampleB64 :: "string \<Rightarrow> string" where
  "sampleB64 s = concat (map (\<lambda>c. if c = CHR ''.'' then ''!d'' else if c = CHR ''!'' then ''!!'' else [c]) s)"

fun sampleUnB64 :: "string \<Rightarrow> string" where
  "sampleUnB64 [] = []"
| "sampleUnB64 [c] = [c]"
| "sampleUnB64 (c # d # cs) = (if c = CHR ''!'' then (if d = CHR ''d'' then CHR ''.'' else d) # sampleUnB64 cs
     else c # sampleUnB64 (d # cs))"

definition sampleEnv :: env where
  "sampleEnv = \<lparr>cfg = sampleConfig, fault = (\<lambda>n. None), clock = (\<lambda>n. int n),
     randomBytes = (\<lambda>t n. replicate n (char_of t)), cuid = (\<lambda>n. CHR ''c'' # replicate n (CHR ''i'')),
     sha256 = (\<lambda>s. take 32 (s @ replicate 32 (CHR ''0''))), hmac = (\<lambda>s k. take 32 (k @ s)),
     edKeyPair = (\<lambda>n. (''pub'', ''priv'')), edSign = (\<lambda>k m. Some (m @ k)),
     edVerify = (\<lambda>p m s. Some (s = m @ ''priv'')), scrypt = (\<lambda>s salt. s @ salt),
     aesGcmEncrypt = (\<lambda>k iv m. (m, k)),
     aesGcmDecrypt = (\<lambda>k iv c t. if t = k then Some c else None), spkiRaw = (\<lambda>s. Some s),
     toBase64 = sampleB64, fromBase64 = sampleUnB64, jcsLib = (\<lambda>v. Some ''{}''),
     bcryptHash = (\<lambda>n s. CHR ''h'' # s), bcryptCompare = (\<lambda>s h. h = CHR ''h'' # s),
     jwtSign = (\<lambda>v. ''jwt''), getAddress = (\<lambda>s. Some s), isAddressEqual = (\<lambda>a b. a = b),
     urlWithToken = (\<lambda>u t. u @ ''?token='' @ t), qrPng = (\<lambda>s. s), certificatePdf = (\<lambda>v. ''pdf''),
     pdfReadable = (\<lambda>s. True), pdfTextPages = (\<lambda>s. []), pdfImagePages = (\<lambda>s. []),
     pdfRenderedPages = (\<lambda>s. []), parseUrl = (\<lambda>s. None),
     localYear = (\<lambda>t. 1970), yearStart = (\<lambda>y. 0), ilike = (\<lambda>p s. includesStr p s),
     keccak256 = sampleKeccak, accountOf = (\<lambda>k. 9), addressText = (\<lambda>a. if a = 9 then ''0xA'' else ''0xB''),
     bytes32Text = (\<lambda>h. ''0x'' @ replicate 63 (CHR ''a'') @ [char_of (unat h)]),
     hexBytes32 = (\<lambda>s. of_nat (of_char (last s))),
     others = (\<lambda>n r. r), blockTime = (\<lambda>n. of_nat n), blockHeight = (\<lambda>n. n), txHashAt = (\<lambda>n. ''0xt''),
     outOfGas = (\<lambda>n. False), parseDate = (\<lambda>s. Some 0), nodeChainId = 80002\<rparr>"

definition emptyDb :: db where
  "emptyDb = \<lparr>issuers = [], admins = [], signingKeys = [], credentials = [], batches = [],
     docProofs = [], secureProofs = [], secureProofLogs = [], verificationLogs = [],
     anchorLogs = [], auditLogs = [], chainHead_row = None\<rparr>"

definition emptyWorld :: world where
  "emptyWorld = \<lparr>database = emptyDb, audit_seq = 1, storage = [], queue = [],
     chain = deploy 7, tick = 0\<rparr>"

definition sampleIssuer :: issuer where
  "sampleIssuer = \<lparr>i_id = ''i1'', i_name = ''Uni'', i_displayName = None, i_domain = ''uni.example'',
     i_logoUrl = None, i_websiteUrl = None, i_wallet = Some ''0xA'', i_status = ISSUER_ACTIVE,
     i_createdAt = 0, i_updatedAt = 0\<rparr>"

definition sampleCredential :: "string \<Rightarrow> string \<Rightarrow> string \<Rightarrow> credential" where
  "sampleCredential n name student =
     \<lparr>c_id = ''crd_'' @ n, c_credentialExternalId = ''crd_'' @ n, c_verificationId = ''vrf_'' @ n,
      c_verificationCode = ''CV-'' @ n, c_signedVerificationToken = ''token'' @ n, c_qrPayload = [],
      c_verificationMode = CORE_REGISTRY, c_securePdfEnabled = False, c_studentName = name,
      c_studentId = student, c_degree = ''BSc'', c_graduationYear = None, c_metadataUri = [],
      c_metadataJson = VObj [], c_qrCodeUri = [], c_certificateUri = None, c_verificationUrl = [],
      c_hash = ''hash'' @ n, c_registryHash = ''reg'' @ n, c_chainProofHash = replicate 63 (CHR ''a'') @ n,
      c_documentHash = None, c_fileName = None, c_mimeType = None, c_fileSize = None,
      c_txHash = None, c_revocationTxHash = None, c_chainId = None, c_anchoredAt = None,
      c_blockNumber = None, c_anchorStatus = ANCHOR_pending, c_chainStatus = ANCHOR_pending,
      c_chainSyncedAt = None, c_anchorVersion = ''V2'', c_issuerWallet = Some ''0xA'',
      c_chainVerificationMetadata = None, c_publicPayload = Some ''payload'',
      c_signature = Some ''sig'', c_signatureAlgorithm = Some ''Ed25519'', c_signedAt = Some 0,
      c_signingKeyId = Some ''k1'', c_vcProofValue = None, c_vcProofCreated = None,
      c_vcDocument = None, c_revoked = False, c_revokedAt = None, c_revokedBy = None,
      c_revokedByAdminId = None, c_revocationReason = None, c_revocationNotes = None,
      c_deletedAt = None, c_deletedBy = None, c_deletedByAdminId = None, c_verificationCount = 0,
      c_verifiedAt = None, c_issuedAt = 0, c_createdAt = 0, c_updatedAt = 0, c_issuerId = ''i1'',
      c_batchId = None\<rparr>"

text \<open>One institution and two live credentials.\<close>

definition registryWorld :: world where
  "registryWorld = emptyWorld\<lparr>database := emptyDb\<lparr>issuers := [sampleIssuer],
     credentials := [sampleCredential ''1'' ''Ann'' ''41'', sampleCredential ''2'' ''Bob'' ''42'']\<rparr>\<rparr>"

lemma registryWorld_credentials: "credentials (database registryWorld) =
  [sampleCredential ''1'' ''Ann'' ''41'', sampleCredential ''2'' ''Bob'' ''42'']"
  by (simp add: registryWorld_def)

lemma sampleB64_inverse [simp]: "sampleUnB64 (sampleB64 s) = s"
proof (induction s)
  case (Cons c s)
  have "sampleUnB64 (c # sampleB64 s) = c # sampleUnB64 (sampleB64 s)" if "c \<noteq> CHR ''!''"
    using that by (cases "sampleB64 s") auto
  with Cons show ?case by (auto simp: sampleB64_def)
qed (simp add: sampleB64_def)

lemma sampleB64_dot [simp]: "CHR ''.'' \<notin> set (sampleB64 s)"
  by (auto simp: sampleB64_def)

lemma sample_simps [simp]:
  "fault sampleEnv n = None" "clock sampleEnv n = int n" "cfg sampleEnv = sampleConfig"
  "jcsLib sampleEnv v = Some ''{}''"
  by (simp_all add: sampleEnv_def)

end
