(* ===== verification/CredentialText.thy ===== *)
theory CredentialText
  imports Sample
begin

text \<open>
  The texts a credential is made of (\<open>common/utils/hash.util.ts\<close>,
  \<open>modules/credential/credential.utils.ts\<close>): the SHA-256 and HMAC helpers, the normalisation of
  printed fields, generated identifiers, the payloads that are hashed, authenticated and signed.
  The lemmas show that normalising is idempotent and leaves one line, and that the payloads, one
  line per field, determine every field.
\<close>

subsection \<open>Hashes\<close>

text \<open>UTF-8, the encoding in which \<open>createHash\<close> reads a string.\<close>

definition utf8 :: "string \<Rightarrow> string" where
  "utf8 s = concat (map (\<lambda>c. let n = (of_char c :: nat) in
     if n < 128 then [c] else [char_of (192 + n div 64), char_of (128 + n mod 64)]) s)"

definition sha256hex :: "env \<Rightarrow> string \<Rightarrow> string" where
  "sha256hex E s = hexEncode (sha256 E (utf8 s))"

definition normalizeHash :: "string \<Rightarrow> string" where
  "normalizeHash hash = toLowerCase (trim hash)"

definition hashBuffer :: "env \<Rightarrow> string \<Rightarrow> string" where
  "hashBuffer E buffer = normalizeHash (hexEncode (sha256 E buffer))"

definition hashString :: "env \<Rightarrow> string \<Rightarrow> string" where
  "hashString E data = normalizeHash (sha256hex E data)"

definition hmacSha256 :: "env \<Rightarrow> string \<Rightarrow> string \<Rightarrow> string" where
  "hmacSha256 E data secret = normalizeHash (hexEncode (hmac E (utf8 data) secret))"

subsection \<open>Identifiers and payloads\<close>

definition normalizeValue :: "string \<Rightarrow> string" where
  "normalizeValue v = collapseWs (trim v)"

definition generateCredentialId :: "env \<Rightarrow> string prog" where
  "generateCredentialId E = bind (randomHex E 9) (\<lambda>h. ret (''crd_'' @ h))"

definition generateVerificationId :: "env \<Rightarrow> string prog" where
  "generateVerificationId E = bind (randomHex E 9) (\<lambda>h. ret (''vrf_'' @ h))"

definition generateVerificationCode :: "env \<Rightarrow> string prog" where
  "generateVerificationCode E = bind (randomHex E 6) (\<lambda>h. ret (''CV-'' @ toUpperCase h))"

definition buildSignedVerificationToken ::
  "env \<Rightarrow> string \<Rightarrow> string \<Rightarrow> string \<Rightarrow> string \<Rightarrow> time \<Rightarrow> string \<Rightarrow> string" where
  "buildSignedVerificationToken E credentialId verificationId verificationCode issuerId issuedAt
     secret = hmacSha256 E (join [CHR 0x0A]
       [''credentialId:'' @ credentialId,
        ''verificationId:'' @ verificationId,
        ''verificationCode:'' @ verificationCode,
        ''issuerId:'' @ issuerId,
        ''issuedAt:'' @ toISOString issuedAt]) secret"

definition registryPayload ::
  "string \<Rightarrow> string \<Rightarrow> string \<Rightarrow> string \<Rightarrow> time \<Rightarrow> string \<Rightarrow> string" where
  "registryPayload credentialId verificationId verificationCode issuerId issuedAt token =
     join [CHR 0x0A]
       [''credentialId:'' @ credentialId,
        ''verificationId:'' @ verificationId,
        ''verificationCode:'' @ verificationCode,
        ''issuerId:'' @ issuerId,
        ''issuedAt:'' @ toISOString issuedAt,
        ''signedVerificationToken:'' @ token]"

definition buildRegistryProofHash ::
  "env \<Rightarrow> string \<Rightarrow> string \<Rightarrow> string \<Rightarrow> string \<Rightarrow> time \<Rightarrow> string \<Rightarrow> string" where
  "buildRegistryProofHash E credentialId verificationId verificationCode issuerId issuedAt token =
     hashString E (registryPayload credentialId verificationId verificationCode issuerId
       issuedAt token)"

definition buildCanonicalCredentialPayload ::
  "string \<Rightarrow> string \<Rightarrow> string \<Rightarrow> string \<Rightarrow> string \<Rightarrow> string \<Rightarrow> string \<Rightarrow> time \<Rightarrow> string" where
  "buildCanonicalCredentialPayload credentialId verificationId issuerId institution studentName
     studentId degree issuedAt = join [CHR 0x0A]
       [''credentialId:'' @ credentialId,
        ''verificationId:'' @ verificationId,
        ''issuerId:'' @ issuerId,
        ''institution:'' @ normalizeValue institution,
        ''studentName:'' @ normalizeValue studentName,
        ''studentId:'' @ normalizeValue studentId,
        ''degree:'' @ normalizeValue degree,
        ''issuedAt:'' @ toISOString issuedAt]"

definition buildCredentialHash ::
  "env \<Rightarrow> string \<Rightarrow> string \<Rightarrow> string \<Rightarrow> string \<Rightarrow> string \<Rightarrow> string \<Rightarrow> string \<Rightarrow> time \<Rightarrow> string"
  where
  "buildCredentialHash E credentialId verificationId issuerId institution studentName studentId
     degree issuedAt = hashString E (buildCanonicalCredentialPayload credentialId verificationId
       issuerId institution studentName studentId degree issuedAt)"

record publicPayload =
  pp_credentialId :: string
  pp_verificationId :: string
  pp_issuerDomain :: string
  pp_issuerName :: string
  pp_studentName :: string
  pp_studentId :: string
  pp_degree :: string
  pp_graduationYear :: "int option"
  pp_issuedAt :: time
  pp_signingKeyId :: string

definition publicFields :: "publicPayload \<Rightarrow> string list" where
  "publicFields p =
     [''credentialId:'' @ pp_credentialId p,
      ''verificationId:'' @ pp_verificationId p,
      ''issuerDomain:'' @ normalizeValue (pp_issuerDomain p),
      ''issuerName:'' @ normalizeValue (pp_issuerName p),
      ''studentName:'' @ normalizeValue (pp_studentName p),
      ''studentId:'' @ normalizeValue (pp_studentId p),
      ''degree:'' @ normalizeValue (pp_degree p),
      ''graduationYear:'' @ (case pp_graduationYear p of None \<Rightarrow> [] | Some y \<Rightarrow> showInt y),
      ''issuedAt:'' @ toISOString (pp_issuedAt p),
      ''signingKeyId:'' @ pp_signingKeyId p]"

definition buildPublicSignaturePayload :: "publicPayload \<Rightarrow> string" where
  "buildPublicSignaturePayload p = join [CHR 0x0A] (publicFields p)"

subsection \<open>Normalised text\<close>

lemma collapseWs_ws: "c \<in> set (collapseWs s) \<Longrightarrow> isWs c \<Longrightarrow> c = CHR '' ''"
  by (induction s rule: collapseWs.induct) (auto split: if_splits)

text \<open>Text in normal form: no white space but single blanks inside.\<close>

fun tidy :: "string \<Rightarrow> bool" where
  "tidy [] = True"
| "tidy (c # cs) = ((isWs c \<longrightarrow> c = CHR '' '' \<and> (case cs of [] \<Rightarrow> True | d # ds \<Rightarrow> \<not> isWs d)) \<and> tidy cs)"

lemma hd_dropWhile_Cons: "dropWhile P xs = d # ds \<Longrightarrow> \<not> P d"
  by (induction xs) (auto split: if_splits)

lemma collapseWs_hd: "collapseWs s = d # ds \<Longrightarrow> isWs d \<longleftrightarrow> isWs (hd s)"
  by (cases s) (auto simp: isWs_def split: if_splits)

lemma tidy_collapseWs: "tidy (collapseWs s)"
proof (induction s rule: collapseWs.induct)
  case (2 c cs)
  show ?case
  proof (cases "isWs c")
    case True
    have "\<not> isWs d" if "collapseWs (dropWhile isWs cs) = d # ds" for d ds
      using that collapseWs_hd [OF that] hd_dropWhile_Cons [of isWs cs]
      by (cases "dropWhile isWs cs") auto
    then show ?thesis using 2 True by (auto split: list.splits)
  qed (use 2 in simp)
qed simp

lemma collapseWs_tidy: "tidy s \<Longrightarrow> collapseWs s = s"
proof (induction s)
  case (Cons c cs)
  then show ?case by (cases cs) auto
qed simp

lemma collapseWs_idem [simp]: "collapseWs (collapseWs s) = collapseWs s"
  by (simp add: collapseWs_tidy tidy_collapseWs)

definition trimmed :: "string \<Rightarrow> bool" where
  "trimmed s \<longleftrightarrow> s = [] \<or> \<not> isWs (hd s) \<and> \<not> isWs (last s)"

lemma hd_dropWhile_not: "dropWhile P xs \<noteq> [] \<Longrightarrow> \<not> P (hd (dropWhile P xs))"
  by (induction xs) auto

lemma last_dropWhile: "dropWhile P xs \<noteq> [] \<Longrightarrow> last (dropWhile P xs) = last xs"
  by (induction xs) (auto split: if_splits)

lemma trim_trimmed [simp]: "trimmed (trim s)"
proof (cases "trim s = []")
  case False
  let ?u = "dropWhile isWs s" and ?t = "dropWhile isWs (rev (dropWhile isWs s))"
  have t: "?t \<noteq> []" "trim s = rev ?t" using False by (simp_all add: trim_def)
  have u: "?u \<noteq> []"
  proof
    assume "?u = []"
    then have "?t = []" by (simp only: rev.simps dropWhile.simps)
    then show False using t by simp
  qed
  have "last ?t = hd ?u" using last_dropWhile [OF t(1)] u by (simp add: last_rev)
  then have "\<not> isWs (hd (trim s))" using hd_dropWhile_not [OF u] t by (simp add: hd_rev)
  moreover have "\<not> isWs (last (trim s))"
    using hd_dropWhile_not [OF t(1)] t by (simp add: last_rev)
  ultimately show ?thesis by (simp add: trimmed_def)
qed (simp add: trimmed_def)

lemma trim_id: "trimmed s \<Longrightarrow> trim s = s"
proof (cases s)
  case (Cons c cs)
  assume s: "trimmed s"
  then have "dropWhile isWs s = s" using Cons by (simp add: trimmed_def)
  moreover have "dropWhile isWs (rev s) = rev s"
    using s Cons hd_rev [of s] by (cases "rev s") (auto simp: trimmed_def)
  ultimately show ?thesis by (simp add: trim_def)
qed (simp add: trim_def)

lemma collapseWs_last:
  "s \<noteq> [] \<Longrightarrow> \<not> isWs (last s) \<Longrightarrow> collapseWs s \<noteq> [] \<and> last (collapseWs s) = last s"
proof (induction s rule: collapseWs.induct)
  case (2 c cs)
  show ?case
  proof (cases "isWs c")
    case True
    then have cs: "cs \<noteq> []" "\<not> isWs (last cs)" using 2 by (auto split: if_splits)
    then have "dropWhile isWs cs \<noteq> []" by (metis dropWhile_eq_Nil_conv last_in_set)
    then show ?thesis using 2(1) True cs last_dropWhile [of isWs cs] by auto
  qed (use 2 in \<open>auto split: if_splits\<close>)
qed simp

lemma trimmed_collapseWs: "trimmed s \<Longrightarrow> trimmed (collapseWs s)"
proof (cases s)
  case (Cons c cs)
  assume s: "trimmed s"
  then have "\<not> isWs c" using Cons by (simp add: trimmed_def)
  then show ?thesis using s Cons collapseWs_last [of s] by (auto simp: trimmed_def)
qed (simp add: trimmed_def)

lemma normalizeValue_idem [simp]: "normalizeValue (normalizeValue v) = normalizeValue v"
  by (simp add: normalizeValue_def trim_id trimmed_collapseWs)

lemma normalizeValue_line: "CHR 0x0A \<notin> set (normalizeValue v)"
  using collapseWs_ws [of "CHR 0x0A" "trim v"] by (auto simp: normalizeValue_def isWs_def)

subsection \<open>Lines\<close>

lemma splitOn_nonempty [simp]: "splitOn d s \<noteq> []"
  by (induction s) (auto split: list.splits)

lemma splitOn_word: "d \<notin> set x \<Longrightarrow> splitOn d x = [x]"
  by (induction x) auto

lemma splitOn_append: "d \<notin> set x \<Longrightarrow> splitOn d (x @ d # s) = x # splitOn d s"
  by (induction x) auto

lemma splitOn_join: "xs \<noteq> [] \<Longrightarrow> \<forall>x \<in> set xs. d \<notin> set x \<Longrightarrow> splitOn d (join [d] xs) = xs"
  by (induction "[d]" xs rule: join.induct) (auto simp: splitOn_word splitOn_append)

lemma join_inj:
  assumes "join [d] xs = join [d] ys" "xs \<noteq> []" "ys \<noteq> []"
    "\<forall>x \<in> set xs. d \<notin> set x" "\<forall>y \<in> set ys. d \<notin> set y"
  shows "xs = ys"
  using assms splitOn_join by metis

subsection \<open>Numbers and dates as text\<close>

definition isDigit :: "char \<Rightarrow> bool" where
  "isDigit c \<longleftrightarrow> 48 \<le> (of_char c :: nat) \<and> (of_char c :: nat) \<le> 57"

lemma digitChar_code: "d < 10 \<Longrightarrow> of_char (digitChar d) = (48 + d :: nat)"
  by (simp add: digitChar_def of_char_of)

lemma showNat_digits: "c \<in> set (showNat n) \<Longrightarrow> isDigit c"
proof (induction n rule: showNat.induct)
  case (1 n)
  have "isDigit (digitChar d)" if "d < 10" for d
    using that by (simp add: isDigit_def digitChar_code)
  then show ?case using 1 by (subst (asm) showNat.simps) (auto split: if_splits)
qed

text \<open>Reading the digits back.\<close>

definition readNat :: "string \<Rightarrow> nat" where
  "readNat s = foldl (\<lambda>n c. 10 * n + (of_char c - 48)) 0 s"

lemma readNat_showNat [simp]: "readNat (showNat n) = n"
proof (induction n rule: showNat.induct)
  case (1 n)
  show ?case
  proof (cases "n < 10")
    case True
    then show ?thesis by (subst showNat.simps) (simp add: readNat_def digitChar_code)
  next
    case False
    then show ?thesis
      using 1 by (subst showNat.simps) (simp add: readNat_def digitChar_code)
  qed
qed

lemma showNat_inj [simp]: "showNat m = showNat n \<longleftrightarrow> m = n"
  by (metis readNat_showNat)

lemma showNat_nonempty [simp]: "showNat n \<noteq> []"
  by (subst showNat.simps) simp

lemma showInt_inj [simp]: "showInt i = showInt j \<longleftrightarrow> i = j"
proof -
  have "CHR ''-'' # showNat m \<noteq> showNat n" for m n
    using showNat_digits [of "CHR ''-''" n] by (auto simp: isDigit_def) (metis list.set_intros(1))
  then show ?thesis by (auto simp: showInt_def) (metis+)
qed

lemma showInt_line: "CHR 0x0A \<notin> set (showInt i)" and showInt_nonempty [simp]: "showInt i \<noteq> []"
    "[] \<noteq> showInt i"
  using showNat_digits [of "CHR 0x0A"] by (auto simp: showInt_def isDigit_def dest: sym)

lemma toISOString_line: "CHR 0x0A \<notin> set (toISOString t)"
proof -
  have "CHR 0x0A \<notin> set (showNat n)" for n
    using showNat_digits [of "CHR 0x0A" n] by (auto simp: isDigit_def)
  then have "CHR 0x0A \<notin> set (pad w i)" for w i by (simp add: pad_def Let_def)
  then show ?thesis
    by (simp add: toISOString_def showYear_def Let_def split: prod.splits)
qed

subsection \<open>Hexadecimal text\<close>

lemma hexDigits_no_bar: "CHR ''|'' \<notin> set hexDigits" and hexDigits_no_G: "CHR ''G'' \<notin> set hexDigits"
  by (simp_all add: hexDigits_def)

lemma hexDigit_in: "n < 16 \<Longrightarrow> hexDigit n \<in> set hexDigits"
  unfolding hexDigit_def by (rule nth_mem) (simp add: hexDigits_def)

lemma hexEncode_digits: "set (hexEncode bs) \<subseteq> set hexDigits"
proof -
  have "(of_char c :: nat) div 16 < 16" for c
    using nat_of_char_less_256 [of c] by (simp add: less_mult_imp_div_less)
  then show ?thesis by (auto simp: hexEncode_def Let_def hexDigit_in)
qed

lemma length_hexEncode [simp]: "length (hexEncode bs) = 2 * length bs"
  by (induction bs) (auto simp: hexEncode_def Let_def)

lemma isHex_hexEncode [simp]: "isHex (hexEncode bs)"
  using hexEncode_digits [of bs] by (auto simp: isHex_def)

lemma hexDigits_clean_all: "list_all (\<lambda>c. \<not> isWs c \<and> lowerChar c = c) hexDigits"
  by code_simp

lemma hexDigits_clean: "c \<in> set hexDigits \<Longrightarrow> \<not> isWs c \<and> lowerChar c = c"
  using hexDigits_clean_all by (simp add: list_all_iff)

lemma isHex_trimmed: "isHex s \<Longrightarrow> trimmed s"
  using hexDigits_clean [of "hd s"] hexDigits_clean [of "last s"]
  by (cases "s = []") (simp_all add: trimmed_def isHex_def)

lemma normalizeHash_hex: "isHex s \<Longrightarrow> normalizeHash s = s"
  by (simp add: normalizeHash_def trim_id isHex_trimmed)
    (simp add: toLowerCase_def isHex_def map_idI hexDigits_clean)

lemma hash_hex [simp]:
  "hashBuffer E b = hexEncode (sha256 E b)" "hashString E t = sha256hex E t"
  "hmacSha256 E t k = hexEncode (hmac E (utf8 t) k)"
  by (simp_all add: hashBuffer_def hashString_def hmacSha256_def sha256hex_def normalizeHash_hex)

lemma sha256hex_isHex [simp]: "isHex (sha256hex E s)"
  by (simp add: sha256hex_def)

lemma isHex_line: "isHex s \<Longrightarrow> CHR 0x0A \<notin> set s"
  using hexDigits_clean [of "CHR 0x0A"] by (auto simp: isHex_def isWs_def)

subsection \<open>Properties\<close>

definition oneLine :: "string \<Rightarrow> bool" where
  "oneLine s \<longleftrightarrow> CHR 0x0A \<notin> set s"

definition samplePayload :: publicPayload where
  "samplePayload = \<lparr>pp_credentialId = ''crd_1'', pp_verificationId = ''vrf_1'',
     pp_issuerDomain = ''uni.example'', pp_issuerName = ''Uni'', pp_studentName = ''Ann Lee'',
     pp_studentId = ''42'', pp_degree = ''BSc'', pp_graduationYear = Some 2026, pp_issuedAt = 0,
     pp_signingKeyId = ''key_1''\<rparr>"

text \<open>
  C32. What the institution signs determines everything a verifier can read off the credential:
  if two public payloads are the same text, and their generated identifiers are single lines, then
  every identifier, the graduation year (present or not) and every printed field up to white space
  are the same. No value can be chosen so that it reads as another field.
\<close>

theorem public_payload_binds_fields:
  assumes same: "buildPublicSignaturePayload p = buildPublicSignaturePayload q"
    and p: "oneLine (pp_credentialId p)" "oneLine (pp_verificationId p)" "oneLine (pp_signingKeyId p)"
    and q: "oneLine (pp_credentialId q)" "oneLine (pp_verificationId q)" "oneLine (pp_signingKeyId q)"
  shows "pp_credentialId p = pp_credentialId q \<and> pp_verificationId p = pp_verificationId q \<and>
    normalizeValue (pp_issuerDomain p) = normalizeValue (pp_issuerDomain q) \<and>
    normalizeValue (pp_issuerName p) = normalizeValue (pp_issuerName q) \<and>
    normalizeValue (pp_studentName p) = normalizeValue (pp_studentName q) \<and>
    normalizeValue (pp_studentId p) = normalizeValue (pp_studentId q) \<and>
    normalizeValue (pp_degree p) = normalizeValue (pp_degree q) \<and>
    pp_graduationYear p = pp_graduationYear q \<and>
    toISOString (pp_issuedAt p) = toISOString (pp_issuedAt q) \<and>
    pp_signingKeyId p = pp_signingKeyId q"
proof -
  have lines: "\<forall>x \<in> set (publicFields r). CHR 0x0A \<notin> set x"
    if "oneLine (pp_credentialId r)" "oneLine (pp_verificationId r)" "oneLine (pp_signingKeyId r)"
    for r
    using that
    by (simp add: publicFields_def oneLine_def normalizeValue_line toISOString_line showInt_line
        split: option.split)
  have "publicFields p = publicFields q"
    using same lines [OF p] lines [OF q] unfolding buildPublicSignaturePayload_def
    by (intro join_inj) (auto simp: publicFields_def)
  then show ?thesis by (auto simp: publicFields_def split: option.splits)
qed

theorem public_payload_binds_fields_witness:
  "pp_studentName (samplePayload\<lparr>pp_studentName := ''Ann Lee''\<rparr>) = ''Ann Lee'' \<and>
   normalizeValue (pp_studentName samplePayload) =
   normalizeValue (pp_studentName (samplePayload\<lparr>pp_studentName := ''  Ann  Lee ''\<rparr>))"
proof -
  have "normalizeValue ''  Ann  Lee '' = normalizeValue ''Ann Lee''" by code_simp
  then have same: "buildPublicSignaturePayload samplePayload =
      buildPublicSignaturePayload (samplePayload\<lparr>pp_studentName := ''  Ann  Lee ''\<rparr>)"
    by (simp add: buildPublicSignaturePayload_def publicFields_def samplePayload_def)
  show ?thesis using public_payload_binds_fields [OF same]
    by (simp add: samplePayload_def oneLine_def)
qed

end
