(* ===== verification/AuditLog.thy ===== *)
theory AuditLog
  imports Prisma CredentialText "HOL-Library.Multiset" "HOL-Library.Sublist"
begin

text \<open>
  The hash-chained audit log (\<open>apps/api/src/modules/audit/audit-log.service.ts\<close>): the canonical
  JSON and the payload of an entry, the pure verification of the chain, and the two ways to append
  an entry. Below them, the lemmas: how the walk along the chain splits at its end, that an append
  keeps a valid chain valid, what the stored head detects, and which edits the payload cannot see.
\<close>

subsection \<open>Canonical JSON and the hash of an entry\<close>

primrec canonicalize :: "value \<Rightarrow> string" where
  "canonicalize VUndef = ''undefined''"
| "canonicalize VNull = ''null''"
| "canonicalize (VBool b) = (if b then ''true'' else ''false'')"
| "canonicalize (VNum n) = showInt n"
| "canonicalize (VStr s) = jsonString s"
| "canonicalize (VDate t) = ''{}''"
| "canonicalize (VArr vs) =
     ''['' @ join '','' (map (\<lambda>v. if v = VUndef then [] else canonicalize v) vs) @ '']''"
| "canonicalize (VObj kvs) =
     ''{'' @ join '','' (map (\<lambda>(k, s). jsonString k @ '':'' @ s)
        (sort_key fst (map (map_prod id canonicalize) kvs))) @ ''}''"

text \<open>What a JSON column gives back for a value: no undefined members, dates as text.\<close>

primrec dbJson :: "value \<Rightarrow> value" where
  "dbJson VUndef = VUndef"
| "dbJson VNull = VNull"
| "dbJson (VBool b) = VBool b"
| "dbJson (VNum n) = VNum n"
| "dbJson (VStr s) = VStr s"
| "dbJson (VDate t) = VStr (toISOString t)"
| "dbJson (VArr vs) = VArr (map (\<lambda>v. if v = VUndef then VNull else dbJson v) vs)"
| "dbJson (VObj kvs) =
     VObj (filter (\<lambda>kv. snd kv \<noteq> VUndef) (map (map_prod id dbJson) kvs))"

definition entryPayload :: "auditRow \<Rightarrow> string" where
  "entryPayload entry = join ''|''
     [orElse (au_prevHash entry) ''GENESIS'',
      au_action entry,
      orElse (au_actorAdminId entry) '''',
      orElse (au_actorUsername entry) '''',
      orElse (au_targetType entry) '''',
      orElse (au_targetId entry) '''',
      canonicalize (orElse (au_metadata entry) VNull),
      orElse (au_ipAddress entry) '''',
      orElse (au_userAgent entry) '''',
      toISOString (au_createdAt entry)]"

definition computeEntryHash :: "env \<Rightarrow> auditRow \<Rightarrow> string" where
  "computeEntryHash E entry = sha256hex E (entryPayload entry)"

subsection \<open>Verification of the chain\<close>

record chainVerdict =
  v_valid :: bool
  v_checked :: nat
  v_totalRows :: nat
  v_unchained :: nat
  v_brokenAtSeq :: "nat option"
  v_reason :: "string option"

definition chained :: "auditRow list \<Rightarrow> auditRow list" where
  "chained rows = filter (\<lambda>r. au_entryHash r \<noteq> None) rows"

text \<open>The first place where a sequence number does not follow its predecessor.\<close>

fun seqGap :: "auditRow list \<Rightarrow> (nat \<times> nat) option" where
  "seqGap (a # b # rows) =
     (if au_seq b \<noteq> au_seq a + 1 then Some (au_seq a, au_seq b) else seqGap (b # rows))"
| "seqGap rows = None"

fun walkChain :: "env \<Rightarrow> string option \<Rightarrow> auditRow list \<Rightarrow> (nat \<times> string) option" where
  "walkChain E prev [] = None"
| "walkChain E prev (row # rows) =
     (if au_prevHash row \<noteq> prev then
        Some (au_seq row, ''prevHash does not match the previous entry (missing or reordered row)'')
      else if Some (computeEntryHash E row) \<noteq> au_entryHash row then
        Some (au_seq row, ''entryHash mismatch (row content was altered)'')
      else walkChain E (au_entryHash row) rows)"

definition failVerdict :: "auditRow list \<Rightarrow> nat \<Rightarrow> string \<Rightarrow> chainVerdict" where
  "failVerdict rows s reason =
     \<lparr>v_valid = False, v_checked = length (chained rows), v_totalRows = length rows,
      v_unchained = length rows - length (chained rows),
      v_brokenAtSeq = Some s, v_reason = Some reason\<rparr>"

definition okVerdict :: "auditRow list \<Rightarrow> chainVerdict" where
  "okVerdict rows =
     \<lparr>v_valid = True, v_checked = length (chained rows), v_totalRows = length rows,
      v_unchained = length rows - length (chained rows),
      v_brokenAtSeq = None, v_reason = None\<rparr>"

definition checkHead :: "auditRow list \<Rightarrow> chainHead option \<Rightarrow> (nat \<times> string) option" where
  "checkHead rows head = (case head of None \<Rightarrow> None
     | Some h \<Rightarrow> (if chained rows = [] then
           Some (h_seq h, ''stored chain head is at seq '' @ showNat (h_seq h)
             @ '' but no chained row remains'')
         else let l = last (chained rows) in
           if au_seq l \<noteq> h_seq h \<or> au_entryHash l \<noteq> Some (h_entryHash h) then
             Some (au_seq l, ''last row (seq '' @ showNat (au_seq l)
               @ '') does not match the stored chain head (seq '' @ showNat (h_seq h)
               @ '') - rows were removed from the end'')
           else None))"

definition verifyAuditChainRows ::
  "env \<Rightarrow> auditRow list \<Rightarrow> chainHead option \<Rightarrow> chainVerdict" where
  "verifyAuditChainRows E rows head =
     (if rows = [] then
        (case head of None \<Rightarrow> okVerdict rows
         | Some h \<Rightarrow> failVerdict rows (h_seq h)
             (''audit log is empty but the stored chain head is at seq '' @ showNat (h_seq h)
              @ '' (table was cleared)''))
      else (case seqGap rows of
         Some (a, b) \<Rightarrow> failVerdict rows b (''seq gap: expected '' @ showNat (a + 1) @ '' after ''
           @ showNat a @ '', found '' @ showNat b
           @ '' (row deleted, or a transaction rolled back)'')
       | None \<Rightarrow> (case walkChain E None (chained rows) of
           Some (s, reason) \<Rightarrow> failVerdict rows s reason
         | None \<Rightarrow> (case checkHead rows head of
             Some (s, reason) \<Rightarrow> failVerdict rows s reason
           | None \<Rightarrow> okVerdict rows))))"

subsection \<open>Appending an entry\<close>

record auditInput =
  in_action :: string
  in_actorAdminId :: "string option"
  in_actorUsername :: "string option"
  in_ipAddress :: "string option"
  in_userAgent :: "string option"
  in_targetType :: "string option"
  in_targetId :: "string option"
  in_metadata :: "value option"

record auditContext =
  ctx_actorAdminId :: "string option"
  ctx_actorUsername :: "string option"
  ctx_ipAddress :: "string option"
  ctx_userAgent :: "string option"

definition noContext :: auditContext where
  "noContext = \<lparr>ctx_actorAdminId = None, ctx_actorUsername = None, ctx_ipAddress = None,
     ctx_userAgent = None\<rparr>"

definition auditEvent ::
  "string \<Rightarrow> auditContext \<Rightarrow> string option \<Rightarrow> string option \<Rightarrow> value option \<Rightarrow> auditInput" where
  "auditEvent action context targetType targetId metadata =
     \<lparr>in_action = action, in_actorAdminId = ctx_actorAdminId context,
      in_actorUsername = ctx_actorUsername context, in_ipAddress = ctx_ipAddress context,
      in_userAgent = ctx_userAgent context, in_targetType = targetType, in_targetId = targetId,
      in_metadata = metadata\<rparr>"

definition lastHash :: "db \<Rightarrow> string option" where
  "lastHash d = (case rev (chained (sort_key au_seq (auditLogs d))) of
     [] \<Rightarrow> None | r # rs \<Rightarrow> au_entryHash r)"

definition lockChain :: "env \<Rightarrow> unit prog" where
  "lockChain E = query E (\<lambda>d. ())"

definition auditEntry :: "auditInput \<Rightarrow> time \<Rightarrow> string option \<Rightarrow> auditRow" where
  "auditEntry input createdAt prevHash =
     \<lparr>au_seq = 0, au_action = in_action input,
      au_actorAdminId = in_actorAdminId input, au_actorUsername = in_actorUsername input,
      au_targetType = in_targetType input, au_targetId = in_targetId input,
      au_metadata = in_metadata input, au_ipAddress = in_ipAddress input,
      au_userAgent = in_userAgent input, au_prevHash = prevHash, au_entryHash = None,
      au_createdAt = createdAt\<rparr>"

text \<open>
  \<open>tx.auditLog.create\<close>: the sequence number is drawn before the indexes are checked, and stays
  drawn whatever happens afterwards.
\<close>

definition createAuditRow :: "env \<Rightarrow> auditRow \<Rightarrow> nat prog" where
  "createAuditRow E row = external E PrismaFault (\<lambda>w.
     let s = audit_seq w; w' = w\<lparr>audit_seq := Suc s\<rparr>;
         stored = row\<lparr>au_seq := s, au_metadata := map_option dbJson (au_metadata row)\<rparr>
     in (case insertInto (\<lambda>x. firstConflict
              [([''seq''], \<lambda>r. au_seq r = au_seq x),
               ([''entryHash''], \<lambda>r. au_entryHash x \<noteq> None \<and> au_entryHash r = au_entryHash x)])
            stored (auditLogs (database w)) of
          Inl e \<Rightarrow> (Inl e, w')
        | Inr rows \<Rightarrow> (Inr s, w'\<lparr>database := (database w)\<lparr>auditLogs := rows\<rparr>\<rparr>)))"

definition upsertHead :: "env \<Rightarrow> nat \<Rightarrow> string \<Rightarrow> unit prog" where
  "upsertHead E s h = exec E (\<lambda>now cu d.
     Inr ((), d\<lparr>chainHead_row := Some \<lparr>h_seq = s, h_entryHash = h\<rparr>\<rparr>))"

definition writeEntry :: "env \<Rightarrow> auditInput \<Rightarrow> unit prog" where
  "writeEntry E input =
     bind (newDate E) (\<lambda>createdAt.
     andThen (lockChain E) (
     bind (query E lastHash) (\<lambda>prevHash.
     let entry = auditEntry input createdAt prevHash;
         entryHash = computeEntryHash E entry
     in bind (createAuditRow E (entry\<lparr>au_entryHash := Some entryHash\<rparr>)) (\<lambda>s.
        upsertHead E s entryHash))))"

text \<open>\<open>log(input, tx)\<close> and \<open>log(input)\<close>.\<close>

definition auditLogTx :: "env \<Rightarrow> auditInput \<Rightarrow> unit prog" where
  "auditLogTx E input = writeEntry E input"

definition auditLog :: "env \<Rightarrow> auditInput \<Rightarrow> unit prog" where
  "auditLog E input = tryCatch (transaction E (writeEntry E input)) (\<lambda>e. ret ())"

definition verifyChain :: "env \<Rightarrow> chainVerdict prog" where
  "verifyChain E = bind (query E (\<lambda>d. sort_key au_seq (auditLogs d)))
     (\<lambda>rows. bind (query E chainHead_row) (\<lambda>head. ret (verifyAuditChainRows E rows head)))"

definition listAuditLogs :: "env \<Rightarrow> nat option \<Rightarrow> nat option \<Rightarrow> (auditRow list \<times> nat) prog" where
  "listAuditLogs E limit offset =
     (let takeN = min (orElse limit 50) 200; skipN = orElse offset 0 in
      bind (query E (\<lambda>d. take takeN (drop skipN (sort_key (\<lambda>r. - au_createdAt r) (auditLogs d)))))
        (\<lambda>items. bind (query E (\<lambda>d. length (auditLogs d))) (\<lambda>total. ret (items, total))))"

text \<open>The verdict on the tables of a world.\<close>

definition chainValid :: "env \<Rightarrow> db \<Rightarrow> bool" where
  "chainValid E d = v_valid (verifyAuditChainRows E (sort_key au_seq (auditLogs d)) (chainHead_row d))"

subsection \<open>The walk along the chain\<close>

lemma chained_simps [simp]:
  "chained [] = []"
  "chained (xs @ ys) = chained xs @ chained ys"
  "chained (r # rs) = (if au_entryHash r = None then chained rs else r # chained rs)"
  by (simp_all add: chained_def)

lemma chained_id [simp]: "chained (chained rows) = chained rows"
  by (simp add: chained_def)

lemma chained_set: "r \<in> set (chained rows) \<longleftrightarrow> r \<in> set rows \<and> au_entryHash r \<noteq> None"
  by (auto simp: chained_def)

text \<open>The hash the next row must carry, after a walk over the given rows.\<close>

fun endHash :: "string option \<Rightarrow> auditRow list \<Rightarrow> string option" where
  "endHash prev [] = prev"
| "endHash prev (row # rows) = endHash (au_entryHash row) rows"

lemma endHash_snoc [simp]: "endHash prev (rows @ [r]) = au_entryHash r"
  by (induction rows arbitrary: prev) auto

lemma endHash_last: "rows \<noteq> [] \<Longrightarrow> endHash prev rows = au_entryHash (last rows)"
  by (induction rows arbitrary: prev) auto

lemma walkChain_append: "walkChain E prev (xs @ ys) =
  (case walkChain E prev xs of Some b \<Rightarrow> Some b | None \<Rightarrow> walkChain E (endHash prev xs) ys)"
  by (induction xs arbitrary: prev) (auto split: option.splits)

lemma walkChain_None_Cons: "walkChain E prev (r # rs) = None \<longleftrightarrow>
  au_prevHash r = prev \<and> au_entryHash r = Some (computeEntryHash E r) \<and>
  walkChain E (au_entryHash r) rs = None"
  by auto

lemma walkChain_snoc: "walkChain E prev (rs @ [r]) = None \<longleftrightarrow>
  walkChain E prev rs = None \<and> au_prevHash r = endHash prev rs \<and>
  au_entryHash r = Some (computeEntryHash E r)"
  by (auto simp: walkChain_append split: option.splits)

lemma walkChain_hash:
  "walkChain E prev rows = None \<Longrightarrow> r \<in> set rows \<Longrightarrow> au_entryHash r = Some (computeEntryHash E r)"
  by (induction rows arbitrary: prev) (auto split: if_splits)

lemma seqGap_iff: "seqGap (r # rs) = None \<longleftrightarrow>
  map au_seq (r # rs) = [au_seq r ..< au_seq r + Suc (length rs)]"
proof (induction rs arbitrary: r)
  case (Cons b rs)
  have up: "[n ..< n + Suc (Suc k)] = n # [Suc n ..< Suc n + Suc k]" for n k
    by (simp add: upt_rec)
  show ?case
    using Cons.IH [of b] by (simp only: seqGap.simps up list.size list.map) (auto simp: upt_rec)
qed simp

lemma seqGap_upt: "rows \<noteq> [] \<Longrightarrow> seqGap rows = None \<longleftrightarrow>
  (map au_seq rows = [au_seq (hd rows) ..< au_seq (hd rows) + length rows])"
  using seqGap_iff by (cases rows) auto

lemma seqGap_snoc: "seqGap (rows @ [r]) = None \<longleftrightarrow>
  seqGap rows = None \<and> (rows \<noteq> [] \<longrightarrow> au_seq r = au_seq (last rows) + 1)"
  by (induction rows rule: seqGap.induct) auto

text \<open>When the verdict is valid, and what it then reports.\<close>

definition headMatches :: "auditRow list \<Rightarrow> chainHead option \<Rightarrow> bool" where
  "headMatches rows head \<longleftrightarrow> (case head of None \<Rightarrow> True
     | Some h \<Rightarrow> chained rows \<noteq> [] \<and> au_seq (last (chained rows)) = h_seq h \<and>
         au_entryHash (last (chained rows)) = Some (h_entryHash h))"

lemma checkHead_None: "checkHead rows head = None \<longleftrightarrow> headMatches rows head"
  by (auto simp: checkHead_def headMatches_def Let_def split: option.splits)

lemma valid_iff: "v_valid (verifyAuditChainRows E rows head) \<longleftrightarrow>
  seqGap rows = None \<and> walkChain E None (chained rows) = None \<and> headMatches rows head"
  by (auto simp: verifyAuditChainRows_def failVerdict_def okVerdict_def checkHead_None [symmetric]
      headMatches_def split: option.splits)
    (auto simp: checkHead_def)

lemma verdict_counts:
  "v_checked (verifyAuditChainRows E rows head) = length (chained rows)"
  "v_totalRows (verifyAuditChainRows E rows head) = length rows"
  "v_unchained (verifyAuditChainRows E rows head) = length rows - length (chained rows)"
  by (auto simp: verifyAuditChainRows_def failVerdict_def okVerdict_def split: option.splits)

subsection \<open>Appending keeps the chain valid\<close>

lemma sort_key_snoc:
  assumes "\<forall>r \<in> set rows. (f r :: 'b :: linorder) < f x"
  shows "sort_key f (rows @ [x]) = sort_key f rows @ [x]"
proof (rule properties_for_sort_key)
  show "filter (\<lambda>y. f k = f y) (sort_key f rows @ [x]) = filter (\<lambda>y. f k = f y) (rows @ [x])"
    for k
    using sort_key_stable [of f "f k" rows] by (simp add: eq_commute)
  show "sorted (map f (sort_key f rows @ [x]))"
    using assms by (auto simp: sorted_append less_imp_le)
qed simp

text \<open>Metadata that a JSON column gives back as it was written.\<close>

primrec plain :: "value \<Rightarrow> bool" where
  "plain VUndef = False"
| "plain VNull = True"
| "plain (VBool b) = True"
| "plain (VNum n) = True"
| "plain (VStr s) = True"
| "plain (VDate t) = False"
| "plain (VArr vs) = list_all plain vs"
| "plain (VObj kvs) = list_all snd (map (map_prod id plain) kvs)"

lemma plain_dbJson: "plain v \<Longrightarrow> dbJson v = v"
proof (induction v)
  case (VArr vs)
  have "VUndef \<notin> set vs" using VArr.prems by (auto simp: list_all_iff)
  with VArr show ?case by (auto simp: list_all_iff intro!: map_idI)
next
  case (VObj kvs)
  have id: "map (map_prod id dbJson) kvs = kvs"
    using VObj by (fastforce simp: list_all_iff intro!: map_idI)
  have "filter (\<lambda>kv. snd kv \<noteq> VUndef) kvs = kvs"
    using VObj.prems by (auto simp: list_all_iff intro!: filter_True)
  with id show ?case by simp
qed simp_all

text \<open>The row an append adds, and when the sequence has no hole at its end.\<close>

definition seqReady :: "world \<Rightarrow> bool" where
  "seqReady w \<longleftrightarrow> (\<forall>r \<in> set (auditLogs (database w)). au_seq r < audit_seq w) \<and>
     (auditLogs (database w) = [] \<or> (\<exists>r \<in> set (auditLogs (database w)). audit_seq w = au_seq r + 1))"

definition appendedRow :: "env \<Rightarrow> auditInput \<Rightarrow> world \<Rightarrow> auditRow" where
  "appendedRow E input w =
     (let row = auditEntry input (clock E (tick w)) (lastHash (database w))
      in row\<lparr>au_seq := audit_seq w, au_metadata := map_option dbJson (in_metadata input),
             au_entryHash := Some (computeEntryHash E row)\<rparr>)"

lemma computeEntryHash_cong:
  "entryPayload r = entryPayload r' \<Longrightarrow> computeEntryHash E r = computeEntryHash E r'"
  by (simp add: computeEntryHash_def)

lemma wp_createAuditRow [wp_simps]: "wp (createAuditRow E row) Q R w =
  (let s = audit_seq w; w' = (nextTick w)\<lparr>audit_seq := Suc s\<rparr>; d = database w;
       stored = row\<lparr>au_seq := s, au_metadata := map_option dbJson (au_metadata row)\<rparr> in
   case fault E (tick w) of Some msg \<Rightarrow> R (PrismaFault msg) (nextTick w)
   | None \<Rightarrow> if \<exists>r \<in> set (auditLogs d). au_seq r = s then R (PrismaKnown ''P2002'' [''seq'']) w'
       else if \<exists>r \<in> set (auditLogs d). au_entryHash row \<noteq> None \<and> au_entryHash r = au_entryHash row
         then R (PrismaKnown ''P2002'' [''entryHash'']) w'
       else Q s (w'\<lparr>database := d\<lparr>auditLogs := auditLogs d @ [stored]\<rparr>\<rparr>))"
  by (auto simp: wp_def createAuditRow_def external_def insertInto_def Let_def split: option.splits)

lemma writeEntry_wp: "wp (writeEntry E input)
  (\<lambda>_ w'. database w' = (database w)\<lparr>auditLogs := auditLogs (database w) @ [appendedRow E input w],
       chainHead_row := Some \<lparr>h_seq = audit_seq w, h_entryHash = the (au_entryHash (appendedRow E input w))\<rparr>\<rparr> \<and>
     audit_seq w' = Suc (audit_seq w) \<and> storage w' = storage w \<and> queue w' = queue w)
  (\<lambda>_ w'. storage w' = storage w \<and> queue w' = queue w) w"
  by (auto simp: writeEntry_def wp_simps lockChain_def upsertHead_def Let_def
      appendedRow_def auditEntry_def split: option.splits)

lemma lastHash_endHash: "lastHash d = endHash None (chained (sort_key au_seq (auditLogs d)))"
proof (cases "rev (chained (sort_key au_seq (auditLogs d)))")
  case (Cons r rs)
  then have "chained (sort_key au_seq (auditLogs d)) = rev rs @ [r]"
    by (simp add: rev_swap [symmetric])
  then show ?thesis by (simp add: lastHash_def)
qed (simp add: lastHash_def)

lemma appendedRow_simps:
  "au_seq (appendedRow E input w) = audit_seq w"
  "au_prevHash (appendedRow E input w) = lastHash (database w)"
  "au_entryHash (appendedRow E input w) \<noteq> None"
  by (simp_all add: appendedRow_def auditEntry_def Let_def)

lemma appendedRow_hash:
  assumes "\<forall>m. in_metadata input = Some m \<longrightarrow> plain m"
  shows "au_entryHash (appendedRow E input w) = Some (computeEntryHash E (appendedRow E input w))"
proof -
  have "map_option dbJson (in_metadata input) = in_metadata input"
    using assms plain_dbJson by (cases "in_metadata input") auto
  then show ?thesis
    by (simp add: appendedRow_def auditEntry_def Let_def computeEntryHash_def entryPayload_def)
qed

lemma sort_key_Nil [simp]: "sort_key f xs = [] \<longleftrightarrow> xs = []"
  by (metis length_0_conv length_sort)

lemma sorted_key_le_last: "sorted (map f xs) \<Longrightarrow> x \<in> set xs \<Longrightarrow> f x \<le> f (last xs)"
  by (induction xs) auto

lemma seqReady_last:
  assumes "seqReady w" and "auditLogs (database w) \<noteq> []"
  shows "audit_seq w = au_seq (last (sort_key au_seq (auditLogs (database w)))) + 1"
proof -
  let ?rows = "sort_key au_seq (auditLogs (database w))"
  have ne: "?rows \<noteq> []" using assms(2) by simp
  obtain r where r: "r \<in> set ?rows" "audit_seq w = au_seq r + 1"
    using assms by (auto simp: seqReady_def)
  have "au_seq r \<le> au_seq (last ?rows)"
    using sorted_key_le_last [of au_seq ?rows r] r by simp
  moreover have "au_seq (last ?rows) < audit_seq w"
    using assms(1) last_in_set [OF ne] by (auto simp: seqReady_def)
  ultimately show ?thesis using r by simp
qed

lemma append_valid:
  assumes valid: "chainValid E (database w)" and ready: "seqReady w"
    and plain: "\<forall>m. in_metadata input = Some m \<longrightarrow> plain m"
    and d': "database w' = (database w)\<lparr>auditLogs := auditLogs (database w) @ [appendedRow E input w],
       chainHead_row := Some \<lparr>h_seq = audit_seq w,
         h_entryHash = the (au_entryHash (appendedRow E input w))\<rparr>\<rparr>"
  shows "chainValid E (database w')"
proof -
  let ?rows = "sort_key au_seq (auditLogs (database w))" and ?r = "appendedRow E input w"
  have sort: "sort_key au_seq (auditLogs (database w')) = ?rows @ [?r]"
    using ready by (simp add: d' sort_key_snoc seqReady_def appendedRow_simps)
  have gap: "seqGap (?rows @ [?r]) = None"
    using valid seqReady_last [OF ready] unfolding seqGap_snoc
    by (auto simp: chainValid_def valid_iff appendedRow_simps)
  have walk: "walkChain E None (chained (?rows @ [?r])) = None"
    using valid appendedRow_hash [OF plain, of E w]
    by (auto simp: chainValid_def valid_iff walkChain_append appendedRow_simps lastHash_endHash)
  show ?thesis
    using gap walk appendedRow_simps(3) [of E input w]
    unfolding chainValid_def valid_iff sort
    by (auto simp: headMatches_def d' appendedRow_simps)
qed

lemma append_ready:
  assumes "seqReady w" and "audit_seq w' = Suc (audit_seq w)"
    and "auditLogs (database w') = auditLogs (database w) @ [appendedRow E input w]"
  shows "seqReady w'"
  using assms by (auto simp: seqReady_def appendedRow_simps)

subsection \<open>What an append leaves alone\<close>

text \<open>The tables after, against the tables before: the log has grown at its end, or is the same.\<close>

definition sameButAudit :: "db \<Rightarrow> db \<Rightarrow> bool" where
  "sameButAudit d d' \<longleftrightarrow>
     d'\<lparr>auditLogs := [], chainHead_row := None\<rparr> = d\<lparr>auditLogs := [], chainHead_row := None\<rparr> \<and>
     prefix (auditLogs d) (auditLogs d')"

lemma sameButAudit_fields:
  assumes "sameButAudit d d'"
  shows "issuers d' = issuers d" "admins d' = admins d" "signingKeys d' = signingKeys d"
    "credentials d' = credentials d" "batches d' = batches d" "docProofs d' = docProofs d"
    "secureProofs d' = secureProofs d" "secureProofLogs d' = secureProofLogs d"
    "verificationLogs d' = verificationLogs d" "anchorLogs d' = anchorLogs d"
    "prefix (auditLogs d) (auditLogs d')"
  using assms by (cases d; cases d'; simp add: sameButAudit_def)+

interpretation audit: db_order sameButAudit
  by unfold_locales (auto simp: sameButAudit_def dest: prefix_order.trans)

lemma keeps_writeEntry: "keeps sameButAudit (writeEntry E input)"
  unfolding writeEntry_def Let_def createAuditRow_def lockChain_def upsertHead_def
  by (intro audit.keeps_bind audit.keeps_andThen audit.keeps_newDate audit.keeps_query
      audit.keeps_external audit.keeps_exec)
    (auto simp: keeps_def sameButAudit_def insertInto_def split: option.splits sum.splits)

lemma keeps_auditLog: "keeps sameButAudit (auditLog E input)"
  unfolding auditLog_def
  by (intro keeps_intros keeps_writeEntry)

lemma auditLog_wp: "wp (auditLog E input)
  (\<lambda>_ w'. (database w' = database w \<or> database w' = (database w)
        \<lparr>auditLogs := auditLogs (database w) @ [appendedRow E input w],
         chainHead_row := Some \<lparr>h_seq = audit_seq w,
           h_entryHash = the (au_entryHash (appendedRow E input w))\<rparr>\<rparr>) \<and>
      storage w' = storage w \<and> queue w' = queue w) (\<lambda>_ _. False) w"
  unfolding auditLog_def wp_tryCatch wp_transaction wp_ret
  by (rule wp_mono [OF writeEntry_wp]) (auto split: option.splits)

subsection \<open>The text that is hashed\<close>

lemma join_Cons: "join sep (x # xs) = (if xs = [] then x else x @ sep @ join sep xs)"
  by (cases xs) auto

lemma computeEntryHash_chars: "set (computeEntryHash E r) \<subseteq> set hexDigits"
  by (simp add: computeEntryHash_def sha256hex_def hexEncode_digits)

lemma bar_prefix_inj:
  "x @ ''|'' @ r = y @ ''|'' @ s \<Longrightarrow> CHR ''|'' \<notin> set x \<Longrightarrow> CHR ''|'' \<notin> set y \<Longrightarrow> x = y"
proof (induction x arbitrary: y)
  case Nil
  then show ?case by (cases y) auto
next
  case (Cons c x)
  then show ?case by (cases y) auto
qed

lemma entryPayload_prevHash:
  assumes "entryPayload r = entryPayload r'"
    and "\<forall>h. au_prevHash r = Some h \<longrightarrow> set h \<subseteq> set hexDigits"
    and "\<forall>h. au_prevHash r' = Some h \<longrightarrow> set h \<subseteq> set hexDigits"
  shows "au_prevHash r = au_prevHash r'"
proof -
  have bar: "CHR ''|'' \<notin> set (orElse (au_prevHash x) ''GENESIS'')"
    if "\<forall>h. au_prevHash x = Some h \<longrightarrow> set h \<subseteq> set hexDigits" for x
    using that hexDigits_no_bar by (cases "au_prevHash x") (auto simp: orElse_def)
  have "orElse (au_prevHash r) ''GENESIS'' = orElse (au_prevHash r') ''GENESIS''"
    using assms(1) bar_prefix_inj [OF _ bar [OF assms(2)] bar [OF assms(3)]]
    unfolding entryPayload_def join.simps(3) by blast
  then show ?thesis
    using assms(2,3) hexDigits_no_G
    by (cases "au_prevHash r"; cases "au_prevHash r'") (auto simp: orElse_def)
qed

subsection \<open>Tamper evidence\<close>

text \<open>Two rows with different payloads and the same hash.\<close>

definition collision :: "env \<Rightarrow> auditRow list \<Rightarrow> auditRow list \<Rightarrow> bool" where
  "collision E rows rows' \<longleftrightarrow> (\<exists>r \<in> set rows. \<exists>r' \<in> set rows'.
     entryPayload r \<noteq> entryPayload r' \<and> computeEntryHash E r = computeEntryHash E r')"

lemma walkChain_prev_chars:
  assumes "walkChain E prev rows = None" and "\<forall>h. prev = Some h \<longrightarrow> set h \<subseteq> set hexDigits"
    and "r \<in> set rows"
  shows "\<forall>h. au_prevHash r = Some h \<longrightarrow> set h \<subseteq> set hexDigits"
  using assms
proof (induction rows arbitrary: prev)
  case (Cons a rows)
  have a: "au_prevHash a = prev" "au_entryHash a = Some (computeEntryHash E a)"
    "walkChain E (au_entryHash a) rows = None"
    using Cons.prems(1) unfolding walkChain_None_Cons by auto
  show ?case
    using Cons.IH [OF a(3)] a computeEntryHash_chars Cons.prems(2,3) by auto
qed simp

text \<open>Two walks that end at the same hash saw the same payloads, or exhibit a collision.\<close>

lemma chains_agree:
  assumes "walkChain E None xs = None" and "walkChain E None ys = None"
    and "endHash None xs = endHash None ys" and "\<not> collision E xs ys"
  shows "map entryPayload xs = map entryPayload ys"
  using assms
proof (induction xs arbitrary: ys rule: rev_induct)
  case Nil
  show ?case
  proof (cases ys rule: rev_cases)
    case (snoc ys' y)
    then have "au_entryHash y = None" using Nil.prems(3) by simp
    then show ?thesis using walkChain_hash [OF Nil.prems(2), of y] snoc by simp
  qed simp
next
  case (snoc x xs)
  have x: "walkChain E None xs = None" "au_prevHash x = endHash None xs"
    "au_entryHash x = Some (computeEntryHash E x)"
    using snoc.prems(1) unfolding walkChain_snoc by auto
  then obtain ys' y where ys: "ys = ys' @ [y]"
    using snoc.prems(3) by (cases ys rule: rev_cases) auto
  have y: "walkChain E None ys' = None" "au_prevHash y = endHash None ys'"
    "au_entryHash y = Some (computeEntryHash E y)"
    using snoc.prems(2) unfolding ys walkChain_snoc by auto
  have same: "entryPayload x = entryPayload y"
    using snoc.prems(3,4) x(3) y(3) by (auto simp: ys collision_def)
  have "\<forall>h. au_prevHash x = Some h \<longrightarrow> set h \<subseteq> set hexDigits"
    by (rule walkChain_prev_chars [OF snoc.prems(1)]) simp_all
  moreover have "\<forall>h. au_prevHash y = Some h \<longrightarrow> set h \<subseteq> set hexDigits"
    by (rule walkChain_prev_chars [OF snoc.prems(2)]) (simp_all add: ys)
  ultimately have "au_prevHash x = au_prevHash y" by (rule entryPayload_prevHash [OF same])
  then have "endHash None xs = endHash None ys'" by (simp add: x(2) y(2))
  moreover have "\<not> collision E xs ys'"
    using snoc.prems(4) unfolding ys collision_def by auto
  ultimately have "map entryPayload xs = map entryPayload ys'" by (rule snoc.IH [OF x(1) y(1)])
  with same show ?case by (simp add: ys)
qed

lemma headMatches_endHash:
  "headMatches rows (Some h) \<Longrightarrow> endHash None (chained rows) = Some (h_entryHash h)"
  by (simp add: headMatches_def endHash_last)

text \<open>Deleting rows: what remains of consecutive rows, if still consecutive, is one block.\<close>

lemma subseq_block:
  "subseq ys xs \<Longrightarrow> map f xs = [s ..< s + length xs] \<Longrightarrow> map f ys = [t ..< t + length ys] \<Longrightarrow>
   \<exists>a b. xs = a @ ys @ b"
proof (induction xs arbitrary: ys s t)
  case (Cons x xs)
  show ?case
  proof (cases ys)
    case (Cons y ys')
    have fx: "f x = s" and fxs: "map f xs = [Suc s ..< Suc s + length xs]"
      using Cons.prems(2) by (simp_all add: upt_conv_Cons del: upt_Suc)
    have fy: "f y = t" and fys: "map f ys' = [Suc t ..< Suc t + length ys']"
      using Cons.prems(3) by (simp_all add: \<open>ys = y # ys'\<close> upt_conv_Cons del: upt_Suc)
    consider "subseq ys xs" | "x = y" "subseq ys' xs"
      using Cons.prems(1) by (auto simp: \<open>ys = y # ys'\<close> split: if_splits)
    then show ?thesis
    proof cases
      case 1
      then obtain a b where "xs = a @ ys @ b" using Cons.IH fxs Cons.prems(3) by blast
      then have "x # xs = (x # a) @ ys @ b" by simp
      then show ?thesis by blast
    next
      case 2
      then obtain a b where ab: "xs = a @ ys' @ b" using Cons.IH fxs fys by blast
      have "ys' = [] \<or> a = []"
      proof (rule ccontr)
        assume "\<not> (ys' = [] \<or> a = [])"
        then have ne: "ys' \<noteq> []" "a \<noteq> []" by auto
        have st: "s = t" using fx fy 2 by simp
        have "f (hd xs) = Suc s" "f (hd ys') = Suc s"
          using arg_cong [OF fxs, of hd] arg_cong [OF fys, of hd] ne ab st
          by (simp_all add: hd_map del: upt_Suc)
        moreover have "distinct (map f xs)" using fxs by (simp del: upt_Suc)
        moreover have "hd xs \<in> set a" "hd ys' \<in> set ys'" using ne ab by auto
        ultimately show False using ab by force
      qed
      then have "x # xs = [] @ ys @ (if ys' = [] then xs else b)"
        using ab 2 \<open>ys = y # ys'\<close> by auto
      then show ?thesis by blast
    qed
  qed auto
qed auto

lemma chained_last_block:
  assumes "distinct (map au_seq (chained (a @ ys @ b)))"
    and "chained ys \<noteq> []" and "chained (a @ ys @ b) \<noteq> []"
    and "au_seq (last (chained ys)) = au_seq (last (chained (a @ ys @ b)))"
  shows "chained b = []"
proof (rule ccontr)
  assume b: "chained b \<noteq> []"
  then have "last (chained (a @ ys @ b)) \<in> set (chained b)" by simp
  moreover have "last (chained ys) \<in> set (chained ys)" using assms(2) by simp
  ultimately show False using assms(1,4) by (auto simp: image_iff)
qed

lemma valid_distinct:
  assumes "v_valid (verifyAuditChainRows E rows head)"
  shows "distinct (map au_seq (chained rows))"
proof -
  have "distinct (map au_seq rows)"
    using assms by (cases "rows = []") (auto simp: valid_iff seqGap_upt simp del: upt_Suc)
  then show ?thesis by (simp add: chained_def distinct_map_filter)
qed

subsection \<open>Canonical text and the order of keys\<close>

lemma canonicalize_key_order:
  assumes "distinct (map fst kvs)" and "mset kvs = mset kvs'"
  shows "canonicalize (VObj kvs) = canonicalize (VObj kvs')"
proof -
  let ?f = "map (map_prod id canonicalize)"
  have "distinct (map fst (?f kvs))" using assms(1) by (simp add: comp_def)
  then have "inj_on fst (set (?f kvs))" by (simp only: distinct_map)
  moreover have "mset (?f kvs) = mset (?f kvs')" using assms(2) by simp
  ultimately have "sort_key fst (?f kvs) = sort_key fst (?f kvs')"
    by (intro sort_key_eq_sort_key)
  then show ?thesis by simp
qed

text \<open>Rows that differ only in what the payload shows the same way.\<close>

lemma walkChain_edit:
  assumes "au_seq r = au_seq r'" "au_prevHash r = au_prevHash r'" "au_entryHash r = au_entryHash r'"
    "computeEntryHash E r = computeEntryHash E r'"
  shows "walkChain E prev (chained (pre @ r # post)) = walkChain E prev (chained (pre @ r' # post))"
  using assms by (auto simp: walkChain_append split: option.splits)

lemma seqGap_map: "map au_seq xs = map au_seq ys \<Longrightarrow> seqGap xs = seqGap ys"
proof (induction xs arbitrary: ys rule: seqGap.induct)
  case (1 a b rows)
  then obtain a' b' rows' where ys: "ys = a' # b' # rows'" by (auto simp: map_eq_Cons_conv)
  then show ?case using 1 by auto
qed (auto simp: map_eq_Cons_conv)

lemma verdict_edit_cong:
  assumes "au_seq r = au_seq r'" "au_prevHash r = au_prevHash r'" "au_entryHash r = au_entryHash r'"
    "computeEntryHash E r = computeEntryHash E r'"
  shows "verifyAuditChainRows E (pre @ r # post) head = verifyAuditChainRows E (pre @ r' # post) head"
proof -
  have len: "length (chained (pre @ r # post)) = length (chained (pre @ r' # post))"
    and nil: "chained (pre @ r # post) = [] \<longleftrightarrow> chained (pre @ r' # post) = []"
    using assms by auto
  have lst: "au_seq (last (chained (pre @ r # post))) = au_seq (last (chained (pre @ r' # post)))"
    "au_entryHash (last (chained (pre @ r # post))) = au_entryHash (last (chained (pre @ r' # post)))"
    using assms by auto
  have "checkHead (pre @ r # post) head = checkHead (pre @ r' # post) head"
    unfolding checkHead_def nil lst Let_def ..
  moreover have "seqGap (pre @ r # post) = seqGap (pre @ r' # post)"
    using assms by (auto intro: seqGap_map)
  ultimately show ?thesis
    unfolding verifyAuditChainRows_def failVerdict_def okVerdict_def len
      walkChain_edit [OF assms] by (simp cong: option.case_cong)
qed

subsection \<open>Properties\<close>

text \<open>
  C14. An entry that is written keeps the log verifiable: over a valid chain whose sequence has no
  hole at its end, a successful \<open>writeEntry\<close> of metadata that survives the JSON column appends one
  row, moves the head to it, and \<open>verifyAuditChainRows\<close> accepts the new tables; the next append
  finds the sequence ready again.
\<close>

theorem audit_append_keeps_valid:
  assumes "chainValid E (database w)" and "seqReady w"
    and "\<forall>m. in_metadata input = Some m \<longrightarrow> plain m"
    and "writeEntry E input w = (Inr (), w')"
  shows "chainValid E (database w') \<and> seqReady w' \<and>
    auditLogs (database w') = auditLogs (database w) @ [appendedRow E input w] \<and>
    map_option h_seq (chainHead_row (database w')) = Some (audit_seq w)"
proof -
  note w' = writeEntry_wp [of E input w, unfolded wp_def assms(4) prod.case sum.case]
  show ?thesis
    using append_valid [OF assms(1-3), of w'] append_ready [OF assms(2), of w' E input] w' by auto
qed

theorem audit_append_keeps_valid_witness:
  "chainValid sampleEnv (database (snd (writeEntry sampleEnv
     \<lparr>in_action = ''LOGIN_SUCCESS'', in_actorAdminId = Some ''a1'', in_actorUsername = None,
      in_ipAddress = None, in_userAgent = None, in_targetType = None, in_targetId = None,
      in_metadata = Some (VObj [(''identifier'', VStr ''x'')])\<rparr> emptyWorld)))"
  (is "chainValid _ (database (snd (writeEntry _ ?i _)))")
proof -
  have "fst (writeEntry sampleEnv ?i emptyWorld) = Inr ()"
    by (simp add: writeEntry_def lockChain_def createAuditRow_def upsertHead_def bind_def
        andThen_def query_def external_def newDate_def exec_def insertInto_def Let_def
        emptyWorld_def emptyDb_def nextTick_def)
  then have "writeEntry sampleEnv ?i emptyWorld = (Inr (), snd (writeEntry sampleEnv ?i emptyWorld))"
    by (metis prod.collapse)
  moreover have "chainValid sampleEnv (database emptyWorld)" "seqReady emptyWorld"
    by (simp_all add: chainValid_def valid_iff headMatches_def seqReady_def emptyWorld_def emptyDb_def)
  ultimately show ?thesis
    using audit_append_keeps_valid [of sampleEnv emptyWorld ?i] by simp
qed

text \<open>
  C13. The stored head commits to the whole chained log: two tables that both verify against the
  same head hash the same sequence of payloads, or two of their rows are an explicit collision of
  the hash (different payloads with one SHA-256 digest).
\<close>

theorem audit_head_binds_log:
  assumes "v_valid (verifyAuditChainRows E rows (Some h))"
    and "v_valid (verifyAuditChainRows E rows' (Some h))"
  shows "map entryPayload (chained rows) = map entryPayload (chained rows') \<or>
    collision E (chained rows) (chained rows')"
proof (cases "collision E (chained rows) (chained rows')")
  case False
  have "endHash None (chained rows) = endHash None (chained rows')"
    using assms headMatches_endHash by (auto simp: valid_iff)
  then show ?thesis using assms False chains_agree by (auto simp: valid_iff)
qed simp

text \<open>
  C12. Deleting rows is detected, with no assumption on the hash: if a table verifies against a
  head and what remains after deleting any of its rows still verifies against that head, then no
  chained row was deleted.
\<close>

theorem audit_deletion_detected:
  assumes "v_valid (verifyAuditChainRows E rows (Some h))"
    and "subseq rows' rows"
    and "v_valid (verifyAuditChainRows E rows' (Some h))"
  shows "chained rows' = chained rows"
proof -
  have ne: "chained rows \<noteq> []" "chained rows' \<noteq> []" "rows \<noteq> []" "rows' \<noteq> []"
    using assms by (auto simp: valid_iff headMatches_def)
  have "map au_seq rows = [au_seq (hd rows) ..< au_seq (hd rows) + length rows]"
    "map au_seq rows' = [au_seq (hd rows') ..< au_seq (hd rows') + length rows']"
    using assms(1,3) ne(3,4) seqGap_upt unfolding valid_iff by blast+
  then obtain a b where ab: "rows = a @ rows' @ b" using subseq_block [OF assms(2)] by blast
  have "au_seq (last (chained rows')) = au_seq (last (chained (a @ rows' @ b)))"
    using assms(1,3) by (auto simp: valid_iff headMatches_def ab)
  then have b: "chained b = []"
    using chained_last_block valid_distinct [OF assms(1)] ne ab by blast
  have "walkChain E None (chained a @ chained rows') = None"
    using assms(1) b by (simp add: valid_iff ab)
  then have walk: "walkChain E (endHash None (chained a)) (chained rows') = None"
    by (auto simp: walkChain_append split: option.splits)
  moreover have "walkChain E None (chained rows') = None" using assms(3) by (simp add: valid_iff)
  ultimately have "endHash None (chained a) = None"
    using ne(2) by (cases "chained rows'") (auto simp: walkChain_None_Cons simp del: walkChain.simps)
  moreover have "au_entryHash (last (chained a)) \<noteq> None" if "chained a \<noteq> []"
    using chained_set [of "last (chained a)" a] that by simp
  ultimately have "chained a = []" by (metis endHash_last)
  with b show ?thesis by (simp add: ab)
qed

text \<open>A small table on which the last two properties are seen to apply.\<close>

definition sampleRow :: "nat \<Rightarrow> string option \<Rightarrow> auditRow" where
  "sampleRow n prev = (let r =
     \<lparr>au_seq = n, au_action = ''ADMIN_CREATED'', au_actorAdminId = Some ''a1'',
      au_actorUsername = Some ''owner'', au_targetType = Some ''Admin'', au_targetId = Some ''a2'',
      au_metadata = Some (VObj [(''role'', VStr ''OWNER'')]), au_ipAddress = None,
      au_userAgent = None, au_prevHash = prev, au_entryHash = None, au_createdAt = int n\<rparr>
   in r\<lparr>au_entryHash := Some (computeEntryHash sampleEnv r)\<rparr>)"

definition sampleTable :: "auditRow list" where
  "sampleTable = [sampleRow 1 None, sampleRow 2 (au_entryHash (sampleRow 1 None))]"

definition sampleHead :: chainHead where
  "sampleHead = \<lparr>h_seq = 2, h_entryHash = the (au_entryHash (last sampleTable))\<rparr>"

lemma sample_valid: "v_valid (verifyAuditChainRows sampleEnv sampleTable (Some sampleHead))"
  by (simp add: valid_iff sampleTable_def sampleHead_def headMatches_def sampleRow_def Let_def
      computeEntryHash_def entryPayload_def)

text \<open>
  The sample's digest keeps only the beginning of a payload, so a second table with another action in its
  last row verifies against the same head, and the pair of rows is the collision.
\<close>

definition editedTable :: "auditRow list" where
  "editedTable = [sampleRow 1 None,
     (sampleRow 2 (au_entryHash (sampleRow 1 None)))\<lparr>au_action := ''ADMIN_DELETED''\<rparr>]"

lemma utf8_append: "utf8 (x @ y) = utf8 x @ utf8 y"
  by (simp add: utf8_def)

lemma utf8_length: "length s \<le> length (utf8 s)"
  by (induction s) (auto simp: utf8_def Let_def)

lemma sample_digest:
  assumes "32 \<le> length h"
  shows "sha256hex sampleEnv (h @ x) = sha256hex sampleEnv (h @ y)"
  using assms utf8_length [of h] by (simp add: sha256hex_def sampleEnv_def utf8_append)

lemma sample_digest_length: "32 \<le> length (sha256hex sampleEnv s)"
proof -
  have "length (hexEncode bs) = 2 * length bs" for bs
    by (induction bs) (simp_all add: hexEncode_def Let_def)
  then show ?thesis by (simp add: sha256hex_def sampleEnv_def)
qed

lemma sampleRow_simps:
  "au_seq (sampleRow n p) = n" "au_prevHash (sampleRow n p) = p" "au_action (sampleRow n p) = ''ADMIN_CREATED''"
  "au_entryHash (sampleRow n p) = Some (computeEntryHash sampleEnv (sampleRow n p))"
  by (simp_all add: sampleRow_def Let_def computeEntryHash_def entryPayload_def)

lemma edited_row:
  assumes "32 \<le> length h"
  defines "r \<equiv> sampleRow 2 (Some h)"
  shows "computeEntryHash sampleEnv (r\<lparr>au_action := ''ADMIN_DELETED''\<rparr>) = computeEntryHash sampleEnv r"
    "entryPayload (r\<lparr>au_action := ''ADMIN_DELETED''\<rparr>) \<noteq> entryPayload r"
  using sample_digest [OF assms(1)]
  by (simp_all add: r_def sampleRow_simps computeEntryHash_def entryPayload_def orElse_def)

definition firstHash :: string where
  "firstHash = computeEntryHash sampleEnv (sampleRow 1 None)"

lemma tables_rows:
  "sampleTable = [sampleRow 1 None, sampleRow 2 (Some firstHash)]"
  "editedTable = [sampleRow 1 None, (sampleRow 2 (Some firstHash))\<lparr>au_action := ''ADMIN_DELETED''\<rparr>]"
  "32 \<le> length firstHash"
  by (simp_all add: sampleTable_def editedTable_def sampleRow_simps firstHash_def computeEntryHash_def
      sample_digest_length)

lemma edited_valid: "v_valid (verifyAuditChainRows sampleEnv editedTable (Some sampleHead))"
  using sample_valid edited_row(1) [OF tables_rows(3)]
  by (simp add: valid_iff tables_rows(1,2) sampleHead_def headMatches_def sampleRow_simps firstHash_def [symmetric]
      split: if_splits)

lemma edited_payloads: "map entryPayload (chained sampleTable) \<noteq> map entryPayload (chained editedTable)"
  using edited_row(2) [OF tables_rows(3)] by (simp add: chained_def tables_rows(1,2) sampleRow_simps)

theorem audit_head_binds_log_witness:
  "v_valid (verifyAuditChainRows sampleEnv sampleTable (Some sampleHead)) \<and>
   v_valid (verifyAuditChainRows sampleEnv editedTable (Some sampleHead)) \<and>
   map entryPayload (chained sampleTable) \<noteq> map entryPayload (chained editedTable) \<and>
   collision sampleEnv (chained sampleTable) (chained editedTable)"
  using audit_head_binds_log [OF sample_valid edited_valid] sample_valid edited_valid edited_payloads by blast

theorem audit_deletion_detected_witness:
  "\<not> v_valid (verifyAuditChainRows sampleEnv (butlast sampleTable) (Some sampleHead))"
  using audit_deletion_detected [OF sample_valid, of "butlast sampleTable"]
  by (auto simp: sampleTable_def sampleRow_def Let_def)

text \<open>
  Not every edit is detected: the fields are joined with an unescaped bar and an absent field
  reads like an empty one, so a bar may be moved between the target type and the target id, or the
  address and the user agent, and an empty target may be erased, in any row, and the verdict on the
  table is the same.
\<close>

theorem audit_bar_edits_undetected:
  "verifyAuditChainRows E
     (pre @ r\<lparr>au_targetType := Some (x @ ''|'' @ y), au_targetId := Some z\<rparr> # post) head =
   verifyAuditChainRows E
     (pre @ r\<lparr>au_targetType := Some x, au_targetId := Some (y @ ''|'' @ z)\<rparr> # post) head \<and>
   verifyAuditChainRows E
     (pre @ r\<lparr>au_ipAddress := Some (x @ ''|'' @ y), au_userAgent := Some z\<rparr> # post) head =
   verifyAuditChainRows E
     (pre @ r\<lparr>au_ipAddress := Some x, au_userAgent := Some (y @ ''|'' @ z)\<rparr> # post) head \<and>
   verifyAuditChainRows E (pre @ r\<lparr>au_actorAdminId := Some []\<rparr> # post) head =
   verifyAuditChainRows E (pre @ r\<lparr>au_actorAdminId := None\<rparr> # post) head"
  by (auto intro!: verdict_edit_cong simp: computeEntryHash_def entryPayload_def orElse_def)

text \<open>
  Logging without a transaction never fails the operation it accompanies and touches nothing
  else: \<open>auditLog\<close> returns for every environment, leaves storage and queue alone, and the tables
  are either as they were or have exactly the one new row and the new head.
\<close>

theorem audit_log_fails_soft:
  "\<exists>w'. auditLog E input w = (Inr (), w') \<and> storage w' = storage w \<and> queue w' = queue w \<and>
     (database w' = database w \<or> database w' = (database w)
        \<lparr>auditLogs := auditLogs (database w) @ [appendedRow E input w],
         chainHead_row := Some \<lparr>h_seq = audit_seq w,
           h_entryHash = the (au_entryHash (appendedRow E input w))\<rparr>\<rparr>)"
  using auditLog_wp [of E input w] by (auto simp: wp_def split: prod.splits sum.splits)

end
