(* ===== verification/Institution.thy ===== *)
theory Institution
  imports Prisma Sample
begin

text \<open>
  The institution of a deployment (\<open>modules/institution/institution.service.ts\<close>): finding the
  active one, seeding one in development, updating it, and linking an administrator to it. The
  \<open>code\<close> member of the two exception bodies is not represented.
\<close>

record jwtPayload =
  j_sub :: string
  j_username :: "string option"
  j_email :: string
  j_role :: AdminRole
  j_issuerId :: "string option"
  j_tokenVersion :: int

record updateInstitutionDto =
  ui_name :: "string option"
  ui_displayName :: "string option"
  ui_domain :: "string option"
  ui_logoUrl :: "string option"
  ui_websiteUrl :: "string option"
  ui_wallet :: "string option"
  ui_status :: "IssuerStatus option"

text \<open>\<open>orderBy: [{ updatedAt: 'desc' }, { createdAt: 'asc' }]\<close>\<close>

definition newestFirst :: "issuer list \<Rightarrow> issuer list" where
  "newestFirst rows = sort_key (\<lambda>i. - i_updatedAt i) (sort_key i_createdAt rows)"

definition activeIssuer :: "issuer \<Rightarrow> bool" where
  "activeIssuer i \<longleftrightarrow> i_status i = ISSUER_ACTIVE \<and> i_domain i \<noteq> []"

definition findActiveInstitution :: "env \<Rightarrow> issuer option prog" where
  "findActiveInstitution E =
     bind (query E (\<lambda>d. List.find (\<lambda>i. activeIssuer i \<and> i_wallet i \<noteq> None) (newestFirst (issuers d))))
       (\<lambda>withWallet. case withWallet of
          Some i \<Rightarrow> (if trim (orElse (i_wallet i) []) \<noteq> [] then ret (Some i)
             else query E (\<lambda>d. List.find activeIssuer (newestFirst (issuers d))))
        | None \<Rightarrow> query E (\<lambda>d. List.find activeIssuer (newestFirst (issuers d))))"

definition normalizeWallet :: "env \<Rightarrow> string option \<Rightarrow> string option" where
  "normalizeWallet E input = (case trimOrNull input of
     None \<Rightarrow> None | Some trimmed \<Rightarrow> Some (orElse (getAddress E trimmed) trimmed))"

definition seedIssuer :: "env \<Rightarrow> time \<Rightarrow> string \<Rightarrow> issuer" where
  "seedIssuer E now cu = \<lparr>i_id = cu, i_name = ''Example University'',
     i_displayName = Some ''Example University'', i_domain = ''example.edu'', i_logoUrl = None,
     i_websiteUrl = None, i_wallet = normalizeWallet E (cfg_issuerWallet (cfg E)),
     i_status = ISSUER_ACTIVE, i_createdAt = now, i_updatedAt = now\<rparr>"

definition ensureDevelopmentInstitution :: "env \<Rightarrow> issuer option prog" where
  "ensureDevelopmentInstitution E =
     (if \<not> cfg_development (cfg E) then ret None
      else bind (findActiveInstitution E) (\<lambda>active. case active of
          Some i \<Rightarrow> ret (Some i)
        | None \<Rightarrow> bind (createIssuer E (seedIssuer E)) (\<lambda>i. ret (Some i))))"

definition getInstitution :: "env \<Rightarrow> issuer prog" where
  "getInstitution E = bind (findActiveInstitution E) (\<lambda>institution. case institution of
       Some i \<Rightarrow> ret i
     | None \<Rightarrow> bind (ensureDevelopmentInstitution E) (\<lambda>seeded. case seeded of
           Some i \<Rightarrow> ret i
         | None \<Rightarrow> throw (NotFound ''Institution configuration not found'')))"

definition linkAdminToInstitution :: "env \<Rightarrow> string \<Rightarrow> string \<Rightarrow> unit prog" where
  "linkAdminToInstitution E adminId issuerId =
     bind (updateAdminRow E adminId (\<lambda>a. a\<lparr>a_issuerId := Some issuerId\<rparr>)) (\<lambda>_. ret ())"

text \<open>\<open>value?.trim() || undefined\<close> leaves the column, \<open>|| null\<close> clears it.\<close>

definition applyInstitutionDto :: "env \<Rightarrow> updateInstitutionDto \<Rightarrow> issuer \<Rightarrow> issuer" where
  "applyInstitutionDto E dto i = i\<lparr>
     i_name := orElse (trimOrNull (ui_name dto)) (i_name i),
     i_displayName := trimOrNull (ui_displayName dto),
     i_domain := orElse (trimOrNull (ui_domain dto)) (i_domain i),
     i_logoUrl := trimOrNull (ui_logoUrl dto),
     i_websiteUrl := trimOrNull (ui_websiteUrl dto),
     i_wallet := normalizeWallet E (ui_wallet dto),
     i_status := orElse (ui_status dto) (i_status i)\<rparr>"

definition updateInstitution ::
  "env \<Rightarrow> updateInstitutionDto \<Rightarrow> string option \<Rightarrow> issuer prog" where
  "updateInstitution E dto adminId = bind (getInstitution E) (\<lambda>institution.
     bind (updateIssuerRow E (i_id institution) (applyInstitutionDto E dto)) (\<lambda>updated.
     andThen (if truthy adminId then linkAdminToInstitution E (the adminId) (i_id updated) else ret ())
     (ret updated)))"

definition resolveInstitutionForAdmin :: "env \<Rightarrow> jwtPayload \<Rightarrow> issuer prog" where
  "resolveInstitutionForAdmin E admin =
     bind (if truthy (j_issuerId admin) then query E (\<lambda>d. issuerOf d (the (j_issuerId admin)))
           else ret None) (\<lambda>linkedIssuer.
     if map_option i_status linkedIssuer = Some ISSUER_ACTIVE then ret (the linkedIssuer)
     else bind (findActiveInstitution E) (\<lambda>found.
       bind (case found of Some i \<Rightarrow> ret (Some i) | None \<Rightarrow> ensureDevelopmentInstitution E) (\<lambda>inst.
       case inst of
         None \<Rightarrow> throw (BadRequest ''Institution configuration is required for this request'')
       | Some i \<Rightarrow> andThen (if j_issuerId admin \<noteq> Some (i_id i)
             then linkAdminToInstitution E (j_sub admin) (i_id i) else ret ())
           (ret i))))"

definition resolveInstitutionId :: "env \<Rightarrow> jwtPayload \<Rightarrow> string prog" where
  "resolveInstitutionId E admin = bind (resolveInstitutionForAdmin E admin) (\<lambda>i. ret (i_id i))"

subsection \<open>What the operations of this component touch\<close>

text \<open>Institutions may be added or updated and administrators linked; nothing else changes.\<close>

definition institutionOrder :: "db \<Rightarrow> db \<Rightarrow> bool" where
  "institutionOrder d d' \<longleftrightarrow>
     d'\<lparr>issuers := [], admins := []\<rparr> = d\<lparr>issuers := [], admins := []\<rparr> \<and>
     map (\<lambda>a. a\<lparr>a_issuerId := None, a_updatedAt := 0\<rparr>) (admins d') =
     map (\<lambda>a. a\<lparr>a_issuerId := None, a_updatedAt := 0\<rparr>) (admins d)"

interpretation institution: db_order institutionOrder
  by unfold_locales (auto simp: institutionOrder_def)

lemma keeps_findActive: "keeps institutionOrder (findActiveInstitution E)"
  unfolding findActiveInstitution_def
  by (auto split: option.split intro!: keeps_intros)

lemma keeps_createIssuer: "keeps institutionOrder (createIssuer E mk)"
  unfolding createIssuer_def
  by (rule institution.keeps_exec) (auto simp: institutionOrder_def insertInto_Inr split: sum.splits)

lemma keeps_link: "keeps institutionOrder (linkAdminToInstitution E a i)"
  unfolding linkAdminToInstitution_def updateAdminRow_def
  by (intro keeps_intros institution.keeps_exec)
    (auto simp: institutionOrder_def updateIn_Inr split: sum.splits)

lemma keeps_updateIssuer: "keeps institutionOrder (updateIssuerRow E i f)"
  unfolding updateIssuerRow_def
  by (rule institution.keeps_exec) (auto simp: institutionOrder_def updateIn_Inr split: sum.splits)

lemma keeps_ensureDevelopment: "keeps institutionOrder (ensureDevelopmentInstitution E)"
  unfolding ensureDevelopmentInstitution_def
  by (auto split: option.split intro!: keeps_intros keeps_findActive keeps_createIssuer)

lemma keeps_getInstitution: "keeps institutionOrder (getInstitution E)"
  unfolding getInstitution_def
  by (auto split: option.split intro!: keeps_intros keeps_findActive keeps_ensureDevelopment)

lemma keeps_updateInstitution: "keeps institutionOrder (updateInstitution E dto a)"
  unfolding updateInstitution_def
  by (auto split: option.split intro!: keeps_intros keeps_getInstitution keeps_updateIssuer keeps_link)

lemma keeps_resolveInstitution: "keeps institutionOrder (resolveInstitutionForAdmin E admin)"
  unfolding resolveInstitutionForAdmin_def
  by (auto split: option.split intro!: keeps_intros keeps_findActive keeps_ensureDevelopment keeps_link)

subsection \<open>Properties\<close>

lemma find_newest: "List.find P (newestFirst rows) = Some i \<Longrightarrow> i \<in> set rows \<and> P i"
  unfolding newestFirst_def by (auto simp: find_Some_iff) (metis nth_mem set_sort length_sort)

lemma issuerOf_mem: "issuerOf d i = Some x \<Longrightarrow> x \<in> set (issuers d)"
  by (auto simp: issuerOf_def find_Some_iff)

definition goodIssuer :: "issuer \<Rightarrow> world \<Rightarrow> bool" where
  "goodIssuer i w \<longleftrightarrow> i_status i = ISSUER_ACTIVE \<and> i \<in> set (issuers (database w))"

lemma findActive_wp: "wp (findActiveInstitution E)
  (\<lambda>r w'. issuers (database w') = issuers (database w) \<and>
     (\<forall>i. r = Some i \<longrightarrow> goodIssuer i w')) (\<lambda>_ _. True) w"
  unfolding findActiveInstitution_def
  by (auto simp: wp_simps goodIssuer_def activeIssuer_def split: option.split dest: find_newest)

lemma ensureDevelopment_wp: "wp (ensureDevelopmentInstitution E)
  (\<lambda>r w'. \<forall>i. r = Some i \<longrightarrow> goodIssuer i w') (\<lambda>_ _. True) w"
  unfolding ensureDevelopmentInstitution_def wp_if wp_bind
  by (auto simp: wp_simps createIssuer_def insertInto_Inr goodIssuer_def seedIssuer_def
      split: option.split sum.split intro!: wp_mono [OF findActive_wp])

lemma link_wp: "wp (linkAdminToInstitution E a i)
  (\<lambda>_ w'. issuers (database w') = issuers (database w)) (\<lambda>_ _. True) w"
  unfolding linkAdminToInstitution_def updateAdminRow_def
  by (auto simp: wp_simps split: option.split sum.split)

text \<open>
  An administrator only ever works for an active institution: whatever the token says and
  whatever fails, when \<open>resolveInstitutionForAdmin\<close> or \<open>getInstitution\<close> returns, the institution it
  returns is stored and its status is ACTIVE.
\<close>

theorem resolved_institution_active:
  "(case resolveInstitutionForAdmin E admin w of (Inl e, w') \<Rightarrow> True
     | (Inr i, w') \<Rightarrow> i_status i = ISSUER_ACTIVE \<and> i \<in> set (issuers (database w'))) \<and>
   (case getInstitution E w of (Inl e, w') \<Rightarrow> True
     | (Inr i, w') \<Rightarrow> i_status i = ISSUER_ACTIVE \<and> i \<in> set (issuers (database w')))"
proof -
  have found: "wp (case r of Some i \<Rightarrow> ret (Some i) | None \<Rightarrow> ensureDevelopmentInstitution E)
      (\<lambda>r w'. \<forall>i. r = Some i \<longrightarrow> goodIssuer i w') (\<lambda>_ _. True) w'"
    if "\<forall>i. r = Some i \<longrightarrow> goodIssuer i w'" for r w'
    using that ensureDevelopment_wp by (cases r) (auto simp: wp_simps)
  have finish: "wp (case r of None \<Rightarrow> throw e | Some i \<Rightarrow>
        andThen (if b i then linkAdminToInstitution E a (i_id i) else ret ()) (ret i))
      goodIssuer (\<lambda>_ _. True) w'"
    if "\<forall>i. r = Some i \<longrightarrow> goodIssuer i w'" for r w' e b a
    using that by (auto simp: wp_simps goodIssuer_def split: option.split intro!: wp_mono [OF link_wp])
  have rest: "wp (bind (findActiveInstitution E) (\<lambda>found.
      bind (case found of Some i \<Rightarrow> ret (Some i) | None \<Rightarrow> ensureDevelopmentInstitution E) (\<lambda>inst.
      case inst of None \<Rightarrow> throw e | Some i \<Rightarrow>
        andThen (if b i then linkAdminToInstitution E a (i_id i) else ret ()) (ret i))))
      goodIssuer (\<lambda>_ _. True) w'" for e b a w'
    unfolding wp_bind
  proof (rule wp_mono [OF findActive_wp], goal_cases)
    case (1 r w1)
    then show ?case by (intro wp_mono [OF found] finish) auto
  qed simp
  have "wp (resolveInstitutionForAdmin E admin) goodIssuer (\<lambda>_ _. True) w"
    unfolding resolveInstitutionForAdmin_def wp_bind [of "if truthy _ then _ else _"]
    using rest by (auto simp: wp_query wp_ret goodIssuer_def dest: issuerOf_mem [OF sym] issuerOf_mem
        split: option.split)
  moreover have "wp (getInstitution E) goodIssuer (\<lambda>_ _. True) w"
    unfolding getInstitution_def wp_bind
    by (rule wp_mono [OF findActive_wp])
      (auto simp: wp_simps split: option.split intro!: wp_mono [OF ensureDevelopment_wp])
  ultimately show ?thesis by (auto simp: wp_def goodIssuer_def split: prod.splits sum.splits)
qed

end
