(* ===== verification/Auth.thy ===== *)
theory Auth
  imports AuditLog Institution
begin

text \<open>
  Administrator accounts: the service (\<open>modules/auth/auth.service.ts\<close>), the token check
  (\<open>common/strategies/jwt.strategy.ts\<close>) and the role guard (\<open>common/guards/roles.guard.ts\<close>). bcrypt
  and the signing of tokens are parameters; a request body has the fields of its DTO, an absent
  field is \<open>None\<close>. \<open>updateAdmin\<close> is given as its checks and its write, composed, so that two
  concurrent requests can be interleaved between the two.
\<close>

subsection \<open>Data\<close>

record registerDto =
  rg_username :: string
  rg_password :: string
  rg_role :: "AdminRole option"

record loginDto =
  lg_username :: "string option"
  lg_email :: "string option"
  lg_password :: string

record updateAdminDto =
  ua_role :: "AdminRole option"
  ua_active :: "bool option"

definition UNKNOWN_ADMIN_DUMMY_HASH :: string where
  "UNKNOWN_ADMIN_DUMMY_HASH = ''$2b$12$t3lb/w0Cqltg.pSEevPP2unB/HV56rPcSjDyRtFOSSNmjXBrt8Zy6''"

text \<open>The order of the enumeration in the database, where OWNER and AUDITOR were added last.\<close>

fun roleRank :: "AdminRole \<Rightarrow> nat" where
  "roleRank SUPER_ADMIN = 0"
| "roleRank ADMIN = 1"
| "roleRank OWNER = 2"
| "roleRank AUDITOR = 3"

definition privileged :: "AdminRole \<Rightarrow> bool" where
  "privileged r \<longleftrightarrow> r = OWNER \<or> r = SUPER_ADMIN"

definition findAdmin :: "env \<Rightarrow> (admin \<Rightarrow> bool) \<Rightarrow> admin option prog" where
  "findAdmin E P = query E (\<lambda>d. List.find P (admins d))"

definition normalizeUsername :: "string \<Rightarrow> string" where
  "normalizeUsername username = toLowerCase (trim username)"

definition normalizeLoginIdentifier :: "string \<Rightarrow> string" where
  "normalizeLoginIdentifier identifier = toLowerCase (trim identifier)"

definition buildCompatibilityEmail :: "string \<Rightarrow> string" where
  "buildCompatibilityEmail username = username @ ''@certiva.local''"

definition payloadOf :: "admin \<Rightarrow> jwtPayload" where
  "payloadOf a = \<lparr>j_sub = a_id a, j_username = a_username a, j_email = a_email a,
     j_role = a_role a, j_issuerId = a_issuerId a, j_tokenVersion = a_tokenVersion a\<rparr>"

definition payloadValue :: "jwtPayload \<Rightarrow> value" where
  "payloadValue p = VObj [(''sub'', VStr (j_sub p)), (''username'', optStr (j_username p)),
     (''email'', VStr (j_email p)), (''role'', VStr (roleName (j_role p))),
     (''issuerId'', optStr (j_issuerId p)), (''tokenVersion'', VNum (j_tokenVersion p))]"

record authResponse =
  ar_payload :: jwtPayload
  ar_accessToken :: string
  ar_admin :: "value"

definition buildAuthResponse :: "env \<Rightarrow> admin \<Rightarrow> authResponse" where
  "buildAuthResponse E a = \<lparr>ar_payload = payloadOf a,
     ar_accessToken = jwtSign E (payloadValue (payloadOf a)),
     ar_admin = VObj [(''id'', VStr (a_id a)), (''username'', optStr (a_username a)),
       (''email'', VStr (a_email a)), (''role'', VStr (roleName (a_role a))),
       (''issuerId'', optStr (a_issuerId a))]\<rparr>"

subsection \<open>Registration and login\<close>

text \<open>bcrypt draws a salt; the index of the interaction stands for it.\<close>

definition bcryptHashM :: "env \<Rightarrow> string \<Rightarrow> string prog" where
  "bcryptHashM E pw w = (Inr (bcryptHash E (tick w) pw), nextTick w)"

definition actorContext :: "auditContext \<Rightarrow> string option \<Rightarrow> string option \<Rightarrow> auditContext" where
  "actorContext ctx sub username =
     ctx\<lparr>ctx_actorAdminId := sub, ctx_actorUsername := username\<rparr>"

definition newAdmin ::
  "string \<Rightarrow> string \<Rightarrow> string \<Rightarrow> AdminRole \<Rightarrow> string \<Rightarrow> time \<Rightarrow> string \<Rightarrow> admin" where
  "newAdmin username email passwordHash role issuerId now cu =
     \<lparr>a_id = cu, a_username = Some username, a_email = email, a_password = passwordHash,
      a_role = role, a_active = True, a_tokenVersion = 0, a_issuerId = Some issuerId,
      a_createdAt = now, a_updatedAt = now\<rparr>"

text \<open>The part of \<open>register\<close> after its checks.\<close>

definition registerAccount :: "env \<Rightarrow> string \<Rightarrow> string \<Rightarrow> AdminRole \<Rightarrow> jwtPayload option \<Rightarrow>
    auditContext \<Rightarrow> authResponse prog" where
  "registerAccount E username password role actor context =
     bind (getInstitution E) (\<lambda>institution.
     bind (bcryptHashM E password) (\<lambda>passwordHash.
     bind (createAdmin E (newAdmin username (buildCompatibilityEmail username) passwordHash role
       (i_id institution))) (\<lambda>a.
     andThen (auditLog E (auditEvent ''ADMIN_CREATED''
       (actorContext context (map_option j_sub actor) (case actor of None \<Rightarrow> None | Some p \<Rightarrow> j_username p))
       (Some ''Admin'') (Some (a_id a))
       (Some (VObj [(''username'', optStr (a_username a)), (''role'', VStr (roleName (a_role a)))]))))
     (ret (buildAuthResponse E a)))))"

definition register ::
  "env \<Rightarrow> registerDto \<Rightarrow> jwtPayload option \<Rightarrow> auditContext \<Rightarrow> authResponse prog" where
  "register E dto actor context =
     (let requestedRole = orElse (rg_role dto) ADMIN; username = normalizeUsername (rg_username dto) in
      andThen (guardNot (actor \<noteq> None \<and> privileged requestedRole \<and> j_role (the actor) \<noteq> OWNER)
        (Forbidden ''Only an OWNER can create OWNER or SUPER_ADMIN accounts'')) (
      bind (findAdmin E (\<lambda>a. a_username a = Some username)) (\<lambda>existing.
      andThen (guardNot (existing \<noteq> None) (Conflict ''Admin with this username already exists''))
      (registerAccount E username (rg_password dto) requestedRole actor context))))"

definition loginRejected :: "env \<Rightarrow> auditContext \<Rightarrow> (string \<times> value) list \<Rightarrow> authResponse prog" where
  "loginRejected E context metadata =
     andThen (auditLog E (auditEvent ''LOGIN_FAILURE'' context None None (Some (VObj metadata))))
       (throw (Unauthorized ''Invalid credentials''))"

text \<open>
  The decision once the account was looked up. The comparison is made against the dummy hash when
  there is no account; a missing account is then rejected whatever it gave.
\<close>

definition loginAs :: "env \<Rightarrow> loginDto \<Rightarrow> auditContext \<Rightarrow> string \<Rightarrow> admin option \<Rightarrow> authResponse prog" where
  "loginAs E dto context identifier found =
     (let passwordValid = bcryptCompare E (lg_password dto)
            (case found of None \<Rightarrow> UNKNOWN_ADMIN_DUMMY_HASH | Some a \<Rightarrow> a_password a);
          rejected = loginRejected E context [(''identifier'', VStr identifier)] in
      case found of None \<Rightarrow> rejected
      | Some a \<Rightarrow> if \<not> passwordValid then rejected
          else if \<not> a_active a then loginRejected E context
            [(''identifier'', VStr identifier), (''reason'', VStr ''ACCOUNT_INACTIVE'')]
          else andThen (auditLog E (auditEvent ''LOGIN_SUCCESS''
             (actorContext context (Some (a_id a)) (a_username a)) (Some ''Admin'') (Some (a_id a)) None))
           (ret (buildAuthResponse E a)))"

definition login :: "env \<Rightarrow> loginDto \<Rightarrow> auditContext \<Rightarrow> authResponse prog" where
  "login E dto context =
     (let identifier = normalizeLoginIdentifier (orElse (nullish (lg_username dto) (lg_email dto)) []) in
      andThen (guardNot (identifier = []) (Unauthorized ''Invalid credentials''))
      (bind (findAdmin E (\<lambda>a. a_username a = Some identifier \<or> a_email a = identifier))
        (loginAs E dto context identifier)))"

subsection \<open>Profile and list\<close>

definition issuerView :: "issuer \<Rightarrow> value" where
  "issuerView i = VObj [(''id'', VStr (i_id i)), (''name'', VStr (i_name i)),
     (''displayName'', optStr (i_displayName i)), (''domain'', VStr (i_domain i)),
     (''logoUrl'', optStr (i_logoUrl i)), (''websiteUrl'', optStr (i_websiteUrl i)),
     (''status'', VStr (issuerStatusName (i_status i)))]"

definition adminIssuer :: "db \<Rightarrow> admin \<Rightarrow> issuer option" where
  "adminIssuer d a = (case a_issuerId a of None \<Rightarrow> None | Some i \<Rightarrow> issuerOf d i)"

definition getProfile :: "env \<Rightarrow> string \<Rightarrow> value prog" where
  "getProfile E adminId =
     bind (query E (\<lambda>d. map_option (\<lambda>a. (a, adminIssuer d a))
       (List.find (\<lambda>a. a_id a = adminId) (admins d)))) (\<lambda>found.
     case found of
       None \<Rightarrow> throw (Unauthorized ''Admin account no longer exists'')
     | Some (a, iss) \<Rightarrow>
         bind (if iss \<noteq> None then ret iss
           else tryCatch (bind (resolveInstitutionForAdmin E (payloadOf a)) (\<lambda>i. ret (Some i)))
             (\<lambda>e. ret None)) (\<lambda>issuer.
         ret (VObj [(''id'', VStr (a_id a)), (''username'', optStr (a_username a)),
           (''email'', VStr (a_email a)), (''role'', VStr (roleName (a_role a))),
           (''issuerId'', optStr (nullish (map_option i_id issuer) (a_issuerId a))),
           (''active'', VBool (a_active a)), (''createdAt'', VDate (a_createdAt a)),
           (''updatedAt'', VDate (a_updatedAt a)),
           (''issuer'', case issuer of None \<Rightarrow> VNull | Some i \<Rightarrow> issuerView i)])))"

definition adminView :: "db \<Rightarrow> admin \<Rightarrow> value" where
  "adminView d a = VObj [(''id'', VStr (a_id a)), (''username'', optStr (a_username a)),
     (''email'', VStr (a_email a)), (''role'', VStr (roleName (a_role a))),
     (''active'', VBool (a_active a)), (''createdAt'', VDate (a_createdAt a)),
     (''updatedAt'', VDate (a_updatedAt a)),
     (''institution'', case adminIssuer d a of None \<Rightarrow> VNull
        | Some i \<Rightarrow> VObj [(''id'', VStr (i_id i)), (''name'', VStr (i_name i)),
            (''displayName'', optStr (i_displayName i))])]"

definition listAdmins :: "env \<Rightarrow> value list prog" where
  "listAdmins E = query E (\<lambda>d. map (adminView d)
     (sort_key (\<lambda>a. roleRank (a_role a)) (sort_key a_createdAt (admins d))))"

subsection \<open>Changing and deleting accounts\<close>

definition assertNotLastOwner :: "env \<Rightarrow> string \<Rightarrow> unit prog" where
  "assertNotLastOwner E excludeAdminId =
     bind (query E (\<lambda>d. length (filter (\<lambda>a. a_role a = OWNER \<and> a_active a \<and> a_id a \<noteq> excludeAdminId)
       (admins d)))) (\<lambda>ownerCount.
     guardNot (ownerCount = 0) (Forbidden ''Cannot remove or demote the last active OWNER account''))"

definition isDisabling :: "updateAdminDto \<Rightarrow> admin \<Rightarrow> bool" where
  "isDisabling dto existing \<longleftrightarrow> ua_active dto = Some False \<and> a_active existing"

definition isRoleChange :: "updateAdminDto \<Rightarrow> admin \<Rightarrow> bool" where
  "isRoleChange dto existing \<longleftrightarrow> ua_role dto \<noteq> None \<and> ua_role dto \<noteq> Some (a_role existing)"

text \<open>The checks that depend on the account being changed, and all checks.\<close>

definition updateGuards :: "env \<Rightarrow> jwtPayload \<Rightarrow> string \<Rightarrow> updateAdminDto \<Rightarrow> admin \<Rightarrow> unit prog" where
  "updateGuards E actor adminId dto existing =
     andThen (guardNot (a_role existing = OWNER \<and> j_role actor \<noteq> OWNER)
       (Forbidden ''Cannot modify an OWNER account'')) (
     andThen (if a_role existing = OWNER \<and> ua_role dto \<noteq> None \<and> ua_role dto \<noteq> Some OWNER
              then assertNotLastOwner E adminId else ret ()) (
     andThen (if a_role existing = OWNER \<and> ua_active dto = Some False
              then assertNotLastOwner E adminId else ret ())
     (guardNot ((ua_role dto = Some OWNER \<or> ua_role dto = Some SUPER_ADMIN) \<and> j_role actor \<noteq> OWNER)
        (Forbidden ''Only an OWNER can assign the OWNER or SUPER_ADMIN role''))))"

definition updateAdminCheck :: "env \<Rightarrow> jwtPayload \<Rightarrow> string \<Rightarrow> updateAdminDto \<Rightarrow> admin prog" where
  "updateAdminCheck E actor adminId dto =
     andThen (guardNot (j_sub actor = adminId \<and> ua_active dto = Some False)
       (Forbidden ''Cannot disable your own admin account'')) (
     bind (findAdmin E (\<lambda>a. a_id a = adminId)) (\<lambda>found.
     case found of None \<Rightarrow> throw (NotFound ''Admin not found'')
     | Some existing \<Rightarrow> andThen (updateGuards E actor adminId dto existing) (ret existing)))"

definition applyAdminDto :: "updateAdminDto \<Rightarrow> bool \<Rightarrow> admin \<Rightarrow> admin" where
  "applyAdminDto dto bump a = a\<lparr>a_role := orElse (ua_role dto) (a_role a),
     a_active := orElse (ua_active dto) (a_active a),
     a_tokenVersion := a_tokenVersion a + (if bump then 1 else 0)\<rparr>"

definition adminSummary :: "admin \<Rightarrow> value" where
  "adminSummary a = VObj [(''id'', VStr (a_id a)), (''username'', optStr (a_username a)),
     (''email'', VStr (a_email a)), (''role'', VStr (roleName (a_role a))),
     (''active'', VBool (a_active a)), (''createdAt'', VDate (a_createdAt a)),
     (''updatedAt'', VDate (a_updatedAt a))]"

definition updateAdminWrite ::
  "env \<Rightarrow> jwtPayload \<Rightarrow> string \<Rightarrow> updateAdminDto \<Rightarrow> admin \<Rightarrow> value prog" where
  "updateAdminWrite E actor adminId dto existing =
     (let disabling = isDisabling dto existing; roleChange = isRoleChange dto existing in
      bind (updateAdminRow E adminId (applyAdminDto dto (disabling \<or> roleChange))) (\<lambda>updated.
      andThen (auditLog E (auditEvent
        (if disabling then ''ADMIN_DISABLED'' else if roleChange then ''ADMIN_ROLE_CHANGED''
         else ''ADMIN_UPDATED'')
        (actorContext noContext (Some (j_sub actor)) (j_username actor)) (Some ''Admin'') (Some adminId)
        (Some (VObj ((case ua_role dto of None \<Rightarrow> [] | Some r \<Rightarrow> [(''newRole'', VStr (roleName r)),
             (''previousRole'', VStr (roleName (a_role existing)))])
           @ (if disabling then [(''disabled'', VBool True)] else []))))))
      (ret (adminSummary updated))))"

definition updateAdmin :: "env \<Rightarrow> jwtPayload \<Rightarrow> string \<Rightarrow> updateAdminDto \<Rightarrow> value prog" where
  "updateAdmin E actor adminId dto =
     bind (updateAdminCheck E actor adminId dto) (updateAdminWrite E actor adminId dto)"

text \<open>The five counts of \<open>adminHasActivity\<close>, over the identifiers that are truthy.\<close>

definition activityCount :: "string list \<Rightarrow> db \<Rightarrow> nat" where
  "activityCount values d =
     length (filter (\<lambda>b. b_uploadedBy b \<in> set values) (batches d))
     + length (filter (\<lambda>c. \<exists>v \<in> set values. c_revokedBy c = Some v) (credentials d))
     + length (filter (\<lambda>p. d_registeredBy p \<in> set values) (docProofs d))
     + length (filter (\<lambda>p. p_createdBy p \<in> set values) (secureProofs d))
     + length (filter (\<lambda>p. \<exists>v \<in> set values. p_revokedBy p = Some v) (secureProofs d))"

definition adminHasActivity :: "env \<Rightarrow> string option list \<Rightarrow> bool prog" where
  "adminHasActivity E identifiers =
     (let values = map the (filter truthy identifiers) in
      bind (query E (activityCount values)) (\<lambda>n. ret (0 < n)))"

definition deleteAdmin :: "env \<Rightarrow> jwtPayload \<Rightarrow> string \<Rightarrow> auditContext \<Rightarrow> value prog" where
  "deleteAdmin E actor adminId context =
     andThen (guardNot (j_sub actor = adminId) (Forbidden ''Cannot delete your own admin account'')) (
     bind (findAdmin E (\<lambda>a. a_id a = adminId)) (\<lambda>found.
     case found of None \<Rightarrow> throw (NotFound ''Admin not found'')
     | Some existing \<Rightarrow>
       andThen (guardNot (a_role existing = OWNER \<and> j_role actor \<noteq> OWNER)
         (Forbidden ''Cannot delete an OWNER account'')) (
       andThen (guardNot (a_active existing) (BadRequest ''Deactivate account before deleting'')) (
       bind (adminHasActivity E [Some (a_email existing), a_username existing]) (\<lambda>hasActivity.
       andThen (guardNot hasActivity (Conflict ''Cannot delete account with existing activity'')) (
       andThen (deleteAdminRow E adminId) (
       andThen (auditLog E (auditEvent ''ADMIN_DELETED''
         (actorContext context (Some (j_sub actor)) (j_username actor)) (Some ''Admin'') (Some adminId)
         (Some (VObj [(''username'', optStr (a_username existing)),
            (''role'', VStr (roleName (a_role existing)))]))))
       (ret (VObj [(''id'', VStr adminId), (''deleted'', VBool True)])))))))))"

subsection \<open>Tokens and roles\<close>

definition validate :: "env \<Rightarrow> jwtPayload \<Rightarrow> jwtPayload prog" where
  "validate E payload = bind (findAdmin E (\<lambda>a. a_id a = j_sub payload)) (\<lambda>found.
     case found of None \<Rightarrow> throw (Unauthorized ''Admin account no longer exists'')
     | Some a \<Rightarrow>
       andThen (guardNot (\<not> a_active a) (Unauthorized ''Admin account is inactive'')) (
       andThen (guardNot (j_tokenVersion payload \<noteq> a_tokenVersion a)
         (Unauthorized ''Session has been invalidated''))
       (ret (payloadOf a))))"

definition canActivate ::
  "env \<Rightarrow> AdminRole list \<Rightarrow> jwtPayload option \<Rightarrow> auditContext \<Rightarrow> string \<Rightarrow> bool prog" where
  "canActivate E requiredRoles user context route =
     (if requiredRoles = [] then ret True
      else (case user of None \<Rightarrow> ret False
        | Some a \<Rightarrow> if j_role a \<notin> set requiredRoles then
              andThen (auditLog E (auditEvent ''FORBIDDEN_ATTEMPT''
                (actorContext context (Some (j_sub a)) (Some (orElse (j_username a) (j_email a))))
                (Some ''route'') (Some route)
                (Some (VObj [(''requiredRoles'', VArr (map (\<lambda>r. VStr (roleName r)) requiredRoles)),
                   (''actualRole'', VStr (roleName (j_role a)))]))))
              (throw (Forbidden ''You do not have permission to perform this action''))
            else ret True))"

subsection \<open>What the checks establish and the writes do\<close>

definition adminsOf :: "world \<Rightarrow> admin list" where
  "adminsOf w = admins (database w)"

lemma audit_admins: "wp (auditLog E input)
  (\<lambda>_ w'. sameButAudit (database w) (database w') \<and> adminsOf w' = adminsOf w) (\<lambda>_ _. False) w"
  by (rule wp_mono [OF wp_conj [OF keeps_wp [OF keeps_auditLog] auditLog_wp]])
    (auto simp: adminsOf_def sameButAudit_fields(2))

lemma assertNotLastOwner_wp: "wp (assertNotLastOwner E i)
  (\<lambda>_ w'. database w' = database w \<and> (\<exists>a \<in> set (adminsOf w). a_role a = OWNER \<and> a_active a \<and> a_id a \<noteq> i))
  (\<lambda>_ w'. database w' = database w) w"
  by (auto simp: assertNotLastOwner_def wp_simps adminsOf_def filter_empty_conv split: option.split)

text \<open>What is known of the target once the checks of \<open>updateAdmin\<close> have passed.\<close>

definition updateAllowed :: "jwtPayload \<Rightarrow> string \<Rightarrow> updateAdminDto \<Rightarrow> admin list \<Rightarrow> admin \<Rightarrow> bool" where
  "updateAllowed actor adminId dto rows existing \<longleftrightarrow>
     List.find (\<lambda>a. a_id a = adminId) rows = Some existing \<and>
     (a_role existing = OWNER \<longrightarrow> j_role actor = OWNER) \<and>
     (ua_role dto = Some OWNER \<or> ua_role dto = Some SUPER_ADMIN \<longrightarrow> j_role actor = OWNER) \<and>
     (a_role existing = OWNER \<and> (ua_active dto = Some False \<or>
        ua_role dto \<noteq> None \<and> ua_role dto \<noteq> Some OWNER) \<longrightarrow>
      (\<exists>a \<in> set rows. a_role a = OWNER \<and> a_active a \<and> a_id a \<noteq> adminId))"

lemma ownerGuard_wp: "wp (if b then assertNotLastOwner E i else ret ())
  (\<lambda>_ w'. database w' = database w \<and>
     (b \<longrightarrow> (\<exists>a \<in> set (adminsOf w). a_role a = OWNER \<and> a_active a \<and> a_id a \<noteq> i)))
  (\<lambda>_ w'. database w' = database w) w"
  using assertNotLastOwner_wp by (auto simp: wp_ret)

lemma adminsOf_cong: "database w' = database w \<Longrightarrow> adminsOf w' = adminsOf w"
  by (simp add: adminsOf_def)

lemma updateGuards_wp: "wp (updateGuards E actor i dto x)
  (\<lambda>_ w'. database w' = database w \<and>
     (List.find (\<lambda>a. a_id a = i) (adminsOf w) = Some x \<longrightarrow> updateAllowed actor i dto (adminsOf w) x))
  (\<lambda>_ w'. database w' = database w) w"
  unfolding updateGuards_def wp_andThen wp_guardNot
proof (split if_split, intro conjI impI, simp, rule wp_mono [OF ownerGuard_wp], goal_cases)
  case (1 u w1)
  show ?case
    by (rule wp_mono [OF ownerGuard_wp]) (use 1 in \<open>auto simp: updateAllowed_def adminsOf_def\<close>)
qed simp

lemma updateAdminCheck_wp: "wp (updateAdminCheck E actor i dto)
  (\<lambda>x w'. database w' = database w \<and> updateAllowed actor i dto (adminsOf w) x)
  (\<lambda>_ w'. database w' = database w) w"
  unfolding updateAdminCheck_def findAdmin_def wp_andThen [of "guardNot _ _"] wp_guardNot wp_bind wp_query
  by (auto simp: wp_throw wp_andThen wp_ret adminsOf_def split: option.split
      intro!: wp_mono [OF updateGuards_wp])

definition rewriteAdmin :: "string \<Rightarrow> updateAdminDto \<Rightarrow> bool \<Rightarrow> time \<Rightarrow> admin \<Rightarrow> admin" where
  "rewriteAdmin i dto bump now a =
     (if a_id a = i then (applyAdminDto dto bump a)\<lparr>a_updatedAt := now\<rparr> else a)"

lemma updateAdminRow_wp: "wp (updateAdminRow E i f)
  (\<lambda>_ w'. database w' = (database w)\<lparr>admins :=
     map (\<lambda>a. if a_id a = i then (f a)\<lparr>a_updatedAt := clock E (tick w)\<rparr> else a) (adminsOf w)\<rparr>)
  (\<lambda>_ w'. database w' = database w) w"
  unfolding updateAdminRow_def wp_exec
  by (auto simp: updateIn_Inr adminsOf_def split: option.split sum.split)

lemma updateAdminWrite_wp: "wp (updateAdminWrite E actor i dto x)
  (\<lambda>_ w'. \<exists>now. adminsOf w' =
     map (rewriteAdmin i dto (isDisabling dto x \<or> isRoleChange dto x) now) (adminsOf w))
  (\<lambda>_ w'. database w' = database w) w"
  unfolding updateAdminWrite_def Let_def wp_bind
proof (rule wp_mono [OF updateAdminRow_wp], goal_cases)
  case (1 a w1)
  then show ?case
    by (auto simp: wp_andThen wp_ret rewriteAdmin_def [abs_def] adminsOf_def
        intro!: wp_mono [OF audit_admins])
qed simp

lemma updateAdmin_wp: "wp (updateAdmin E actor i dto)
  (\<lambda>_ w'. \<exists>x now. updateAllowed actor i dto (adminsOf w) x \<and> adminsOf w' =
     map (rewriteAdmin i dto (isDisabling dto x \<or> isRoleChange dto x) now) (adminsOf w))
  (\<lambda>_ w'. database w' = database w) w"
  unfolding updateAdmin_def wp_bind
proof (rule wp_mono [OF updateAdminCheck_wp], goal_cases)
  case (1 x w1)
  then show ?case by (intro wp_mono [OF updateAdminWrite_wp]) (auto simp: adminsOf_def)
qed simp

lemma getInstitution_admins: "wp (getInstitution E)
  (\<lambda>_ w'. adminsOf w' = adminsOf w) (\<lambda>_ w'. adminsOf w' = adminsOf w) w"
  by (auto simp: getInstitution_def findActiveInstitution_def ensureDevelopmentInstitution_def
      createIssuer_def wp_simps adminsOf_def insertInto_Inr split: option.split sum.split)

lemma createAdmin_wp: "wp (createAdmin E mk)
  (\<lambda>a w'. a = mk (clock E (tick w)) (cuid E (tick w)) \<and> adminsOf w' = adminsOf w @ [a] \<and>
     adminConflict a (adminsOf w) = None) (\<lambda>_ w'. database w' = database w) w"
  unfolding createAdmin_def wp_exec
  by (auto simp: adminsOf_def insertInto_Inr split: option.split sum.split)

lemma registerAccount_wp: "wp (registerAccount E u p role actor ctx)
  (\<lambda>r w'. \<exists>a. adminsOf w' = adminsOf w @ [a] \<and> adminConflict a (adminsOf w) = None \<and>
     a_role a = role \<and> a_active a \<and> ar_payload r = payloadOf a)
  (\<lambda>_ w'. adminsOf w' = adminsOf w) w"
  unfolding registerAccount_def wp_bind
proof (rule wp_mono [OF getInstitution_admins], goal_cases)
  case (1 i w1)
  have hash: "wp (bcryptHashM E p) (\<lambda>_ w'. adminsOf w' = adminsOf w) (\<lambda>_ _. False) w1"
    using 1 by (simp add: wp_def bcryptHashM_def adminsOf_def)
  show ?case
  proof (rule wp_mono [OF hash], goal_cases)
    case (1 h w2)
    show ?case
    proof (rule wp_mono [OF createAdmin_wp], goal_cases)
      case (1 a w3)
      then show ?case using \<open>adminsOf w2 = adminsOf w\<close> unfolding wp_andThen wp_ret
        by (intro wp_mono [OF audit_admins]) (auto simp: newAdmin_def buildAuthResponse_def)
    qed (use \<open>adminsOf w2 = adminsOf w\<close> in \<open>simp add: adminsOf_def\<close>)
  qed simp
qed simp

lemma register_wp: "wp (register E dto actor ctx)
  (\<lambda>r w'. \<exists>a. adminsOf w' = adminsOf w @ [a] \<and> adminConflict a (adminsOf w) = None \<and>
     a_role a = orElse (rg_role dto) ADMIN \<and> a_active a \<and>
     (actor \<noteq> None \<and> privileged (a_role a) \<longrightarrow> j_role (the actor) = OWNER))
  (\<lambda>_ w'. adminsOf w' = adminsOf w) w"
proof -
  have tail: "\<not> (actor \<noteq> None \<and> privileged role \<and> j_role (the actor) \<noteq> OWNER) \<Longrightarrow>
      adminsOf w1 = adminsOf w \<Longrightarrow> wp (registerAccount E u p role actor ctx)
      (\<lambda>r w'. \<exists>a. adminsOf w' = adminsOf w @ [a] \<and> adminConflict a (adminsOf w) = None \<and>
         a_role a = role \<and> a_active a \<and> (actor \<noteq> None \<and> privileged (a_role a) \<longrightarrow> j_role (the actor) = OWNER))
      (\<lambda>_ w'. adminsOf w' = adminsOf w) w1" for role u p w1
    by (rule wp_mono [OF registerAccount_wp]) auto
  show ?thesis
    unfolding register_def Let_def findAdmin_def wp_andThen wp_guardNot wp_bind wp_query
    using tail [of "orElse (rg_role dto) ADMIN" "nextTick w"]
    by (auto simp: adminsOf_def split: option.split)
qed

lemma activity_wp: "wp (adminHasActivity E ids)
  (\<lambda>b w'. database w' = database w \<and> b = (0 < activityCount (map the (filter truthy ids)) (database w)))
  (\<lambda>_ w'. database w' = database w) w"
  by (auto simp: adminHasActivity_def wp_simps Let_def split: option.split)

lemma deleteAdminRow_wp: "wp (deleteAdminRow E i)
  (\<lambda>_ w'. adminsOf w' = filter (\<lambda>a. a_id a \<noteq> i) (adminsOf w)) (\<lambda>_ w'. database w' = database w) w"
  unfolding deleteAdminRow_def wp_exec
  by (auto simp: adminsOf_def deleteFrom_Inr split: option.split sum.split)

definition deleteAllowed :: "jwtPayload \<Rightarrow> string \<Rightarrow> admin list \<Rightarrow> bool" where
  "deleteAllowed actor i rows \<longleftrightarrow> (\<exists>x. List.find (\<lambda>a. a_id a = i) rows = Some x \<and> \<not> a_active x \<and>
     (a_role x = OWNER \<longrightarrow> j_role actor = OWNER))"

lemma deleteAdmin_wp: "wp (deleteAdmin E actor i ctx)
  (\<lambda>_ w'. deleteAllowed actor i (adminsOf w) \<and> adminsOf w' = filter (\<lambda>a. a_id a \<noteq> i) (adminsOf w))
  (\<lambda>_ w'. adminsOf w' = adminsOf w) w"
proof -
  have tail: "wp (bind (adminHasActivity E ids) (\<lambda>b. andThen (guardNot b e)
      (andThen (deleteAdminRow E i) (andThen (auditLog E ev) (ret v)))))
      (\<lambda>_ w'. adminsOf w' = filter (\<lambda>a. a_id a \<noteq> i) (adminsOf w)) (\<lambda>_ w'. adminsOf w' = adminsOf w) w"
    for ids e ev v w
    unfolding wp_bind
  proof (rule wp_mono [OF activity_wp], goal_cases)
    case (1 b w1)
    have same: "adminsOf w1 = adminsOf w" using 1 by (simp add: adminsOf_def)
    have gone: "adminsOf w' = adminsOf w" if "database w' = database w1" for w'
      using that same by (simp add: adminsOf_def)
    have del: "wp (deleteAdminRow E i) (\<lambda>_. wp (andThen (auditLog E ev) (ret v))
        (\<lambda>_ w'. adminsOf w' = filter (\<lambda>a. a_id a \<noteq> i) (adminsOf w)) (\<lambda>_ w'. adminsOf w' = adminsOf w))
        (\<lambda>_ w'. adminsOf w' = adminsOf w) w1"
      by (rule wp_mono [OF deleteAdminRow_wp])
        (use same gone in \<open>auto simp: wp_andThen wp_ret intro!: wp_mono [OF audit_admins]\<close>)
    then show ?case using same by (simp add: wp_andThen [of "guardNot _ _"] wp_guardNot
        wp_andThen [of "deleteAdminRow _ _"])
  qed (simp add: adminsOf_def)
  show ?thesis
    unfolding deleteAdmin_def findAdmin_def wp_andThen [of "guardNot _ _"] wp_guardNot
      wp_bind [of "query _ _"] wp_query
    by (auto simp: wp_throw wp_andThen [of "guardNot _ _"] wp_guardNot deleteAllowed_def adminsOf_def
        split: option.split intro!: wp_mono [OF tail [unfolded adminsOf_def]])
qed

definition loginIdentifier :: "loginDto \<Rightarrow> string" where
  "loginIdentifier dto = normalizeLoginIdentifier (orElse (nullish (lg_username dto) (lg_email dto)) [])"

definition loginMatches :: "env \<Rightarrow> loginDto \<Rightarrow> admin \<Rightarrow> bool" where
  "loginMatches E dto a \<longleftrightarrow> a_active a \<and> bcryptCompare E (lg_password dto) (a_password a) \<and>
     (a_username a = Some (loginIdentifier dto) \<or> a_email a = loginIdentifier dto)"

lemma loginRejected_wp: "wp (loginRejected E ctx md) (\<lambda>_ _. False)
  (\<lambda>e w'. e = Unauthorized ''Invalid credentials'' \<and> sameButAudit (database w) (database w')) w"
  unfolding loginRejected_def wp_andThen wp_throw
  by (rule wp_mono [OF audit_admins]) auto

lemma loginAs_wp:
  assumes "\<And>a. found = Some a \<Longrightarrow> a \<in> set (adminsOf w) \<and>
    (a_username a = Some (loginIdentifier dto) \<or> a_email a = loginIdentifier dto)"
  shows "wp (loginAs E dto ctx ident found)
    (\<lambda>r w'. sameButAudit (database w) (database w') \<and>
       (\<exists>a \<in> set (adminsOf w). loginMatches E dto a \<and> r = buildAuthResponse E a))
    (\<lambda>e w'. sameButAudit (database w) (database w') \<and> e = Unauthorized ''Invalid credentials'') w"
proof -
  have rej: "wp (loginRejected E ctx md) Q (\<lambda>e w'. sameButAudit (database w) (database w') \<and>
      e = Unauthorized ''Invalid credentials'') w" for md Q
    by (rule wp_mono [OF loginRejected_wp]) auto
  show ?thesis
    using assms rej unfolding loginAs_def Let_def
    by (auto simp: wp_andThen wp_ret loginMatches_def split: option.split
        intro!: wp_mono [OF audit_admins])
qed

lemma login_wp: "wp (login E dto ctx)
  (\<lambda>r w'. sameButAudit (database w) (database w') \<and>
     (\<exists>a \<in> set (adminsOf w). loginMatches E dto a \<and> r = buildAuthResponse E a))
  (\<lambda>e w'. sameButAudit (database w) (database w') \<and>
     (e = Unauthorized ''Invalid credentials'' \<or> (\<exists>m. e = PrismaFault m))) w"
proof -
  have refl: "sameButAudit d d" for d by (simp add: sameButAudit_def)
  have go: "wp (loginAs E dto ctx ident (List.find (\<lambda>a. a_username a = Some (loginIdentifier dto) \<or>
        a_email a = loginIdentifier dto) (admins (database w))))
      (\<lambda>r w'. sameButAudit (database w) (database w') \<and>
        (\<exists>a \<in> set (adminsOf w). loginMatches E dto a \<and> r = buildAuthResponse E a))
      (\<lambda>e w'. sameButAudit (database w) (database w') \<and>
        (e = Unauthorized ''Invalid credentials'' \<or> (\<exists>m. e = PrismaFault m))) (nextTick w)" for ident
    by (rule wp_mono [OF loginAs_wp]) (auto simp: adminsOf_def find_Some_iff)
  show ?thesis
    unfolding login_def Let_def findAdmin_def wp_andThen wp_guardNot wp_bind wp_query
      loginIdentifier_def [symmetric]
    using go by (auto simp: refl split: option.split)
qed

subsection \<open>Histories of account operations\<close>

datatype accountOp =
    Register registerDto "jwtPayload option" auditContext
  | Login loginDto auditContext
  | Update jwtPayload string updateAdminDto
  | Delete jwtPayload string auditContext

fun runAccountOp :: "env \<Rightarrow> world \<Rightarrow> accountOp \<Rightarrow> world" where
  "runAccountOp E w (Register dto actor ctx) = snd (register E dto actor ctx w)"
| "runAccountOp E w (Login dto ctx) = snd (login E dto ctx w)"
| "runAccountOp E w (Update actor i dto) = snd (updateAdmin E actor i dto w)"
| "runAccountOp E w (Delete actor i ctx) = snd (deleteAdmin E actor i ctx w)"

lemma adminConflict_id: "adminConflict a rows = None \<Longrightarrow> a_id a \<notin> a_id ` set rows"
  unfolding adminConflict_def firstConflict_None by auto

definition activeOwner :: "admin \<Rightarrow> bool" where
  "activeOwner a \<longleftrightarrow> a_role a = OWNER \<and> a_active a"

definition accountsOk :: "admin list \<Rightarrow> bool" where
  "accountsOk rows \<longleftrightarrow> distinct (map a_id rows) \<and> (\<exists>a \<in> set rows. activeOwner a)"

lemma find_distinct:
  "List.find (\<lambda>a. a_id a = i) rows = Some x \<Longrightarrow> distinct (map a_id rows) \<Longrightarrow> a \<in> set rows \<Longrightarrow>
   a_id a = i \<Longrightarrow> a = x"
  by (induction rows) (auto split: if_splits)

lemma rewriteAdmin_id [simp]: "a_id (rewriteAdmin i dto b now a) = a_id a"
  by (simp add: rewriteAdmin_def applyAdminDto_def)

lemma update_accountsOk:
  assumes "accountsOk rows" and "updateAllowed actor i dto rows x"
  shows "accountsOk (map (rewriteAdmin i dto b now) rows)"
proof -
  have d: "distinct (map a_id rows)" using assms(1) by (simp add: accountsOk_def)
  obtain a where a: "a \<in> set rows" "activeOwner a" using assms(1) by (auto simp: accountsOk_def)
  have "\<exists>a' \<in> set rows. activeOwner (rewriteAdmin i dto b now a')"
  proof (cases "\<exists>a \<in> set rows. activeOwner a \<and> a_id a \<noteq> i")
    case True
    then show ?thesis by (auto simp: rewriteAdmin_def)
  next
    case False
    then have "a_id a = i" using a by auto
    then have x: "a = x" using find_distinct [OF _ d a(1)] assms(2) by (auto simp: updateAllowed_def)
    have "\<not> (ua_active dto = Some False \<or> ua_role dto \<noteq> None \<and> ua_role dto \<noteq> Some OWNER)"
      using assms(2) False a(2) unfolding updateAllowed_def activeOwner_def x by blast
    then have "activeOwner (rewriteAdmin i dto b now a)"
      using a(2) \<open>a_id a = i\<close>
      by (auto simp: rewriteAdmin_def applyAdminDto_def activeOwner_def orElse_def split: option.split)
    then show ?thesis using a(1) by blast
  qed
  then show ?thesis using d by (auto simp: accountsOk_def comp_def)
qed

lemma wp_snd: "wp m (\<lambda>_ w'. P w') (\<lambda>_ w'. P w') w \<Longrightarrow> P (snd (m w))"
  by (auto simp: wp_def split: prod.splits sum.splits)

lemma runAccountOp_ok: "accountsOk (adminsOf w) \<Longrightarrow> accountsOk (adminsOf (runAccountOp E w op))"
proof (cases op)
  case (Register dto actor ctx)
  assume ok: "accountsOk (adminsOf w)"
  have "wp (register E dto actor ctx) (\<lambda>_ w'. accountsOk (adminsOf w')) (\<lambda>_ w'. accountsOk (adminsOf w')) w"
  proof (rule wp_mono [OF register_wp], elim exE conjE)
    fix r a and w' :: world
    assume "adminsOf w' = adminsOf w @ [a]" and "adminConflict a (adminsOf w) = None"
    then show "accountsOk (adminsOf w')"
      using ok adminConflict_id [of a] by (auto simp: accountsOk_def)
  qed (use ok in simp)
  then show ?thesis using Register wp_snd by simp
next
  case (Login dto ctx)
  assume ok: "accountsOk (adminsOf w)"
  have "wp (login E dto ctx) (\<lambda>_ w'. accountsOk (adminsOf w')) (\<lambda>_ w'. accountsOk (adminsOf w')) w"
    by (rule wp_mono [OF login_wp]) (use ok in \<open>auto simp: adminsOf_def sameButAudit_fields(2)\<close>)
  then show ?thesis using Login wp_snd by simp
next
  case (Update actor i dto)
  assume ok: "accountsOk (adminsOf w)"
  have "wp (updateAdmin E actor i dto) (\<lambda>_ w'. accountsOk (adminsOf w')) (\<lambda>_ w'. accountsOk (adminsOf w')) w"
    by (rule wp_mono [OF updateAdmin_wp]) (use ok update_accountsOk in \<open>auto simp: adminsOf_def\<close>)
  then show ?thesis using Update wp_snd by simp
next
  case (Delete actor i ctx)
  assume ok: "accountsOk (adminsOf w)"
  have "accountsOk (filter (\<lambda>a. a_id a \<noteq> i) (adminsOf w))" if "deleteAllowed actor i (adminsOf w)"
    using ok that find_distinct
    by (fastforce simp: accountsOk_def deleteAllowed_def activeOwner_def distinct_map_filter)
  then have "wp (deleteAdmin E actor i ctx) (\<lambda>_ w'. accountsOk (adminsOf w')) (\<lambda>_ w'. accountsOk (adminsOf w')) w"
    using ok by (intro wp_mono [OF deleteAdmin_wp]) auto
  then show ?thesis using Delete wp_snd by simp
qed

text \<open>Which operations a given actor can perform.\<close>

fun actsAs :: "jwtPayload \<Rightarrow> accountOp \<Rightarrow> bool" where
  "actsAs actor (Register dto act ctx) \<longleftrightarrow> act = Some actor"
| "actsAs actor (Login dto ctx) \<longleftrightarrow> True"
| "actsAs actor (Update act i dto) \<longleftrightarrow> act = actor"
| "actsAs actor (Delete act i ctx) \<longleftrightarrow> act = actor"

definition privilegedIds :: "admin list \<Rightarrow> string set" where
  "privilegedIds rows = a_id ` set (filter (\<lambda>a. privileged (a_role a)) rows)"

definition ownerRows :: "admin list \<Rightarrow> admin list" where
  "ownerRows rows = filter (\<lambda>a. a_role a = OWNER) rows"

definition noGain :: "admin list \<Rightarrow> admin list \<Rightarrow> bool" where
  "noGain rows rows' \<longleftrightarrow> privilegedIds rows' \<subseteq> privilegedIds rows \<and> ownerRows rows' = ownerRows rows"

lemma update_noGain:
  assumes d: "distinct (map a_id rows)" and a: "updateAllowed actor i dto rows x"
    and r: "j_role actor \<noteq> OWNER"
  shows "noGain rows (map (rewriteAdmin i dto b now) rows)"
proof -
  let ?f = "rewriteAdmin i dto b now"
  have x: "a_role x \<noteq> OWNER" "ua_role dto \<noteq> Some OWNER" "ua_role dto \<noteq> Some SUPER_ADMIN"
    using a r by (auto simp: updateAllowed_def)
  have tgt: "y = x" if "y \<in> set rows" "a_id y = i" for y
    using find_distinct [OF _ d that] a by (auto simp: updateAllowed_def)
  have same: "?f y = y" if "a_id y \<noteq> i" for y using that by (simp add: rewriteAdmin_def)
  have role: "a_role (?f y) = orElse (ua_role dto) (a_role y)" if "a_id y = i" for y
    using that by (simp add: rewriteAdmin_def applyAdminDto_def)
  have priv: "privileged (a_role y)" if "y \<in> set rows" "privileged (a_role (?f y))" for y
    using that x same role tgt by (cases "a_id y = i"; cases "ua_role dto") (auto simp: privileged_def orElse_def)
  have own: "a_role (?f y) = OWNER \<longleftrightarrow> a_role y = OWNER" and keep: "a_role y = OWNER \<Longrightarrow> ?f y = y"
    if "y \<in> set rows" for y
    using that x same role tgt by (cases "a_id y = i"; cases "ua_role dto"; auto simp: orElse_def)+
  have "ownerRows (map ?f rows) = map ?f (filter (\<lambda>y. a_role (?f y) = OWNER) rows)"
    by (simp add: ownerRows_def filter_map comp_def)
  also have "\<dots> = ownerRows rows"
    using own keep by (auto simp: ownerRows_def cong: filter_cong intro!: map_idI)
  finally show ?thesis using priv by (auto simp: noGain_def privilegedIds_def)
qed

lemma delete_noGain:
  assumes d: "distinct (map a_id rows)" and a: "deleteAllowed actor i rows" and r: "j_role actor \<noteq> OWNER"
  shows "noGain rows (filter (\<lambda>a. a_id a \<noteq> i) rows)"
proof -
  obtain x where x: "List.find (\<lambda>a. a_id a = i) rows = Some x" "a_role x \<noteq> OWNER"
    using a r by (auto simp: deleteAllowed_def)
  have "a_id y \<noteq> i" if "y \<in> set rows" "a_role y = OWNER" for y
    using find_distinct [OF x(1) d that(1)] x(2) that(2) by auto
  then have "ownerRows (filter (\<lambda>a. a_id a \<noteq> i) rows) = ownerRows rows"
    by (auto simp: ownerRows_def intro: filter_cong)
  then show ?thesis by (auto simp: noGain_def privilegedIds_def)
qed

lemma find_rewrite: "List.find (\<lambda>a. a_id a = i) (map (rewriteAdmin j dto b now) rows) =
  map_option (rewriteAdmin j dto b now) (List.find (\<lambda>a. a_id a = i) rows)"
  by (induction rows) auto

lemma validate_wp: "wp (validate E p)
  (\<lambda>u w'. database w' = database w \<and> (\<exists>a. List.find (\<lambda>a. a_id a = j_sub p) (adminsOf w) = Some a \<and>
     a_active a \<and> j_tokenVersion p = a_tokenVersion a \<and> u = payloadOf a))
  (\<lambda>_ w'. database w' = database w) w"
  by (auto simp: validate_def findAdmin_def wp_simps adminsOf_def split: option.split)

lemma canActivate_wp: "wp (canActivate E roles (Some u) ctx route)
  (\<lambda>b w'. b \<and> (roles = [] \<or> j_role u \<in> set roles)) (\<lambda>_ _. True) w"
  by (auto simp: canActivate_def wp_simps intro!: wp_mono [OF audit_admins])

definition authorize ::
  "env \<Rightarrow> AdminRole list \<Rightarrow> jwtPayload \<Rightarrow> auditContext \<Rightarrow> string \<Rightarrow> bool prog" where
  "authorize E roles p ctx route =
     bind (validate E p) (\<lambda>user. canActivate E roles (Some user) ctx route)"

lemma authorize_wp: "wp (authorize E roles p ctx route)
  (\<lambda>b w'. b \<and> (\<exists>a \<in> set (adminsOf w). a_id a = j_sub p \<and> a_active a \<and>
     a_tokenVersion a = j_tokenVersion p \<and> (roles = [] \<or> a_role a \<in> set roles))) (\<lambda>_ _. True) w"
  unfolding authorize_def wp_bind
proof (rule wp_mono [OF validate_wp], goal_cases)
  case (1 u w1)
  then show ?case
    by (intro wp_mono [OF canActivate_wp]) (auto simp: payloadOf_def find_Some_iff)
qed simp

subsection \<open>Properties\<close>

definition sampleAdmin :: "string \<Rightarrow> AdminRole \<Rightarrow> bool \<Rightarrow> admin" where
  "sampleAdmin i role active = \<lparr>a_id = i, a_username = Some i, a_email = i @ ''@certiva.local'',
     a_password = ''hsecret12'', a_role = role, a_active = active, a_tokenVersion = 0,
     a_issuerId = None, a_createdAt = 0, a_updatedAt = 0\<rparr>"

definition accountsWorld :: "admin list \<Rightarrow> world" where
  "accountsWorld rows = emptyWorld\<lparr>database := emptyDb\<lparr>admins := rows\<rparr>\<rparr>"

lemma accountsWorld_simps [simp]:
  "adminsOf (accountsWorld rows) = rows" "admins (database (accountsWorld rows)) = rows"
  by (simp_all add: accountsWorld_def adminsOf_def)

text \<open>
  C10. The last active OWNER survives every history: from accounts with distinct ids and an active
  OWNER, any sequence of registrations, logins, updates and deletions, by any actors, with any
  failures of the database, leaves accounts with distinct ids and an active OWNER.
\<close>

theorem active_owner_survives:
  assumes "accountsOk (adminsOf w)"
  shows "accountsOk (adminsOf (foldl (runAccountOp E) w ops))"
  using assms runAccountOp_ok by (induction ops arbitrary: w) simp_all

theorem active_owner_survives_witness:
  "accountsOk (adminsOf (runAccountOp sampleEnv (accountsWorld [sampleAdmin ''a'' OWNER True])
     (Update (payloadOf (sampleAdmin ''a'' OWNER True)) ''a'' \<lparr>ua_role = Some ADMIN, ua_active = None\<rparr>)))"
  using active_owner_survives [of "accountsWorld [sampleAdmin ''a'' OWNER True]" sampleEnv
      "[Update (payloadOf (sampleAdmin ''a'' OWNER True)) ''a'' \<lparr>ua_role = Some ADMIN, ua_active = None\<rparr>]"]
  by (simp add: accountsOk_def activeOwner_def sampleAdmin_def)

text \<open>
  C33. No privilege is gained: whatever an actor who is not an OWNER does, no account becomes OWNER
  or SUPER_ADMIN that was neither, and every OWNER row is exactly as it was.
\<close>

theorem no_privilege_escalation:
  assumes "distinct (map a_id (adminsOf w))" and "actsAs actor op" and "j_role actor \<noteq> OWNER"
  shows "privilegedIds (adminsOf (runAccountOp E w op)) \<subseteq> privilegedIds (adminsOf w) \<and>
    ownerRows (adminsOf (runAccountOp E w op)) = ownerRows (adminsOf w)"
proof -
  have refl: "noGain rows rows" for rows by (simp add: noGain_def)
  have "noGain (adminsOf w) (adminsOf (runAccountOp E w op))"
  proof (cases op)
    case (Register dto act ctx)
    have "wp (register E dto act ctx) (\<lambda>_ w'. noGain (adminsOf w) (adminsOf w'))
        (\<lambda>_ w'. noGain (adminsOf w) (adminsOf w')) w"
      by (rule wp_mono [OF register_wp])
        (use assms Register refl in \<open>auto simp: noGain_def privilegedIds_def ownerRows_def privileged_def\<close>)
    then show ?thesis using Register wp_snd by simp
  next
    case (Login dto ctx)
    have "wp (login E dto ctx) (\<lambda>_ w'. noGain (adminsOf w) (adminsOf w'))
        (\<lambda>_ w'. noGain (adminsOf w) (adminsOf w')) w"
      by (rule wp_mono [OF login_wp]) (use refl in \<open>auto simp: adminsOf_def sameButAudit_fields(2)\<close>)
    then show ?thesis using Login wp_snd by simp
  next
    case (Update act i dto)
    have "wp (updateAdmin E actor i dto) (\<lambda>_ w'. noGain (adminsOf w) (adminsOf w'))
        (\<lambda>_ w'. noGain (adminsOf w) (adminsOf w')) w"
      by (rule wp_mono [OF updateAdmin_wp])
        (use refl update_noGain [OF assms(1) _ assms(3)] in \<open>auto simp: adminsOf_def\<close>)
    then show ?thesis using Update wp_snd assms(2) by simp
  next
    case (Delete act i ctx)
    have "wp (deleteAdmin E actor i ctx) (\<lambda>_ w'. noGain (adminsOf w) (adminsOf w'))
        (\<lambda>_ w'. noGain (adminsOf w) (adminsOf w')) w"
      by (rule wp_mono [OF deleteAdmin_wp])
        (use refl delete_noGain [OF assms(1) _ assms(3)] in auto)
    then show ?thesis using Delete wp_snd assms(2) by simp
  qed
  then show ?thesis by (simp add: noGain_def)
qed

theorem no_privilege_escalation_witness:
  "privilegedIds (adminsOf (runAccountOp sampleEnv (accountsWorld [sampleAdmin ''a'' OWNER True])
     (Update (payloadOf (sampleAdmin ''s'' SUPER_ADMIN True)) ''a'' \<lparr>ua_role = Some OWNER, ua_active = None\<rparr>)))
   \<subseteq> {''a''}"
  using no_privilege_escalation [of "accountsWorld [sampleAdmin ''a'' OWNER True]"
      "payloadOf (sampleAdmin ''s'' SUPER_ADMIN True)"
      "Update (payloadOf (sampleAdmin ''s'' SUPER_ADMIN True)) ''a'' \<lparr>ua_role = Some OWNER, ua_active = None\<rparr>"
      sampleEnv]
  by (simp add: sampleAdmin_def payloadOf_def privilegedIds_def privileged_def)

text \<open>
  C34. Login is sound and tells an attacker nothing: it returns only for a stored, active account
  that the identifier names and whose hash the password matches, with a token for exactly that
  account; otherwise, whether the account is unknown, the password wrong or the account disabled,
  it throws the one same exception (or the database failed); the tables change at most by an audit
  entry.
\<close>

theorem login_sound:
  "case login E dto ctx w of
     (Inr r, w') \<Rightarrow> sameButAudit (database w) (database w') \<and>
       (\<exists>a \<in> set (adminsOf w). a_active a \<and> bcryptCompare E (lg_password dto) (a_password a) \<and>
          (a_username a = Some (loginIdentifier dto) \<or> a_email a = loginIdentifier dto) \<and>
          r = buildAuthResponse E a)
   | (Inl e, w') \<Rightarrow> sameButAudit (database w) (database w') \<and>
       (e = Unauthorized ''Invalid credentials'' \<or> (\<exists>m. e = PrismaFault m))"
  using login_wp [of E dto ctx w] by (auto simp: wp_def loginMatches_def split: prod.splits sum.splits)

text \<open>
  C35. Disabling an account or changing its role ends its sessions: after such an update returns,
  the token check rejects every token that carries the version the account had before.
\<close>

theorem update_ends_sessions:
  assumes "updateAdmin E actor i dto w = (Inr r, w')"
    and "List.find (\<lambda>a. a_id a = i) (adminsOf w) = Some existing"
    and "isDisabling dto existing \<or> isRoleChange dto existing"
    and "j_sub token = i" and "j_tokenVersion token = a_tokenVersion existing"
    and "database w'' = database w'"
  shows "\<exists>e. fst (validate E token w'') = Inl e"
proof -
  obtain now where rows: "adminsOf w' = map (rewriteAdmin i dto True now) (adminsOf w)"
    using updateAdmin_wp [of E actor i dto w] assms(1-3)
    by (auto simp: wp_def updateAllowed_def)
  have id: "a_id existing = i" using assms(2) by (auto simp: find_Some_iff)
  have "List.find (\<lambda>a. a_id a = i) (adminsOf w'') = Some (rewriteAdmin i dto True now existing)"
    using assms(2,6) rows by (simp add: adminsOf_def find_rewrite)
  then show ?thesis
    using validate_wp [of E token w''] assms(4,5) id
    by (auto simp: wp_def rewriteAdmin_def applyAdminDto_def split: prod.splits sum.splits)
qed

text \<open>The writes of two updates, on rows of which we know the outcome.\<close>

lemma updateAdminWrite_runs:
  assumes "updateAdminRow E i (applyAdminDto dto (isDisabling dto x \<or> isRoleChange dto x)) w = (Inr a, w1)"
  shows "\<exists>v. fst (updateAdminWrite E actor i dto x w) = Inr v \<and>
    adminsOf (snd (updateAdminWrite E actor i dto x w)) = adminsOf w1"
proof -
  have "wp (updateAdminWrite E actor i dto x) (\<lambda>_ w'. adminsOf w' = adminsOf w1) (\<lambda>_ _. False) w"
    unfolding updateAdminWrite_def Let_def wp_bind
    using assms by (auto simp: wp_def [of "updateAdminRow E i f" for f] wp_andThen wp_ret
        intro!: wp_mono [OF audit_admins])
  then show ?thesis by (auto simp: wp_def split: prod.splits sum.splits)
qed

lemma updateAdminRow_runs:
  assumes "\<forall>n. fault E n = None" and "List.find (\<lambda>a. a_id a = i) (adminsOf w) = Some x"
    and "adminConflict ((f x)\<lparr>a_updatedAt := clock E (tick w)\<rparr>) (filter (\<lambda>a. a_id a \<noteq> i) (adminsOf w)) = None"
  shows "\<exists>a w1. updateAdminRow E i f w = (Inr a, w1) \<and> adminsOf w1 =
    map (\<lambda>a. if a_id a = i then (f a)\<lparr>a_updatedAt := clock E (tick w)\<rparr> else a) (adminsOf w)"
  using assms by (auto simp: updateAdminRow_def exec_def external_def updateIn_def adminsOf_def)

definition demote :: updateAdminDto where
  "demote = \<lparr>ua_role = Some ADMIN, ua_active = None\<rparr>"

lemma sample_faultless: "\<forall>n. fault sampleEnv n = None"
  by simp

theorem update_ends_sessions_witness:
  "\<exists>e. fst (validate sampleEnv (payloadOf (sampleAdmin ''b'' SUPER_ADMIN True))
     (snd (updateAdmin sampleEnv (payloadOf (sampleAdmin ''a'' OWNER True)) ''b'' demote
       (accountsWorld [sampleAdmin ''a'' OWNER True, sampleAdmin ''b'' SUPER_ADMIN True])))) = Inl e"
proof -
  let ?a = "sampleAdmin ''a'' OWNER True" and ?b = "sampleAdmin ''b'' SUPER_ADMIN True"
  let ?w = "accountsWorld [?a, ?b]"
  have check: "updateAdminCheck sampleEnv (payloadOf ?a) ''b'' demote ?w = (Inr ?b, nextTick ?w)"
    by (simp add: updateAdminCheck_def updateGuards_def findAdmin_def query_def external_def bind_def
        andThen_def guardNot_def ret_def demote_def payloadOf_def sampleAdmin_def)
  obtain x w1 where row: "updateAdminRow sampleEnv ''b'' (applyAdminDto demote True) (nextTick ?w) = (Inr x, w1)"
    using updateAdminRow_runs [OF sample_faultless, of "''b''" "nextTick ?w" ?b "applyAdminDto demote True"]
    by (auto simp: adminsOf_def sampleAdmin_def adminConflict_def applyAdminDto_def)
  have flags: "isDisabling demote ?b \<or> isRoleChange demote ?b"
    by (simp add: isRoleChange_def demote_def sampleAdmin_def)
  obtain r where "fst (updateAdmin sampleEnv (payloadOf ?a) ''b'' demote ?w) = Inr r"
    using updateAdminWrite_runs [of sampleEnv "''b''" demote ?b "nextTick ?w" x w1] row flags check
    by (auto simp: updateAdmin_def bind_def)
  then have "updateAdmin sampleEnv (payloadOf ?a) ''b'' demote ?w =
      (Inr r, snd (updateAdmin sampleEnv (payloadOf ?a) ''b'' demote ?w))" by (metis prod.collapse)
  then show ?thesis
    by (rule update_ends_sessions [where existing = ?b])
      (simp_all add: flags, simp_all add: sampleAdmin_def payloadOf_def)
qed

text \<open>
  The check for the last OWNER does not survive concurrency: with two active OWNERs who demote
  each other, both requests pass all checks before either writes, and after the two writes no
  active OWNER is left.
\<close>

theorem concurrent_demotion_loses_owner:
  "let a = sampleAdmin ''a'' OWNER True; b = sampleAdmin ''b'' OWNER True; w0 = accountsWorld [a, b];
       (check1, w1) = updateAdminCheck sampleEnv (payloadOf a) ''b'' demote w0;
       (check2, w2) = updateAdminCheck sampleEnv (payloadOf b) ''a'' demote w1;
       (done1, w3) = updateAdminWrite sampleEnv (payloadOf a) ''b'' demote b w2;
       (done2, w4) = updateAdminWrite sampleEnv (payloadOf b) ''a'' demote a w3
   in accountsOk (adminsOf w0) \<and> check1 = Inr b \<and> check2 = Inr a \<and>
      \<not> (\<exists>x \<in> set (adminsOf w4). activeOwner x)"
proof -
  let ?a = "sampleAdmin ''a'' OWNER True" and ?b = "sampleAdmin ''b'' OWNER True"
  let ?w0 = "accountsWorld [?a, ?b]"
  have ok: "accountsOk (adminsOf ?w0)" by (simp add: accountsOk_def activeOwner_def sampleAdmin_def)
  obtain w1 where c1: "updateAdminCheck sampleEnv (payloadOf ?a) ''b'' demote ?w0 = (Inr ?b, w1)"
    and d1: "database w1 = database ?w0"
    by (simp add: updateAdminCheck_def updateGuards_def assertNotLastOwner_def findAdmin_def query_def
        external_def bind_def andThen_def guardNot_def ret_def demote_def payloadOf_def sampleAdmin_def)
  obtain w2 where c2: "updateAdminCheck sampleEnv (payloadOf ?b) ''a'' demote w1 = (Inr ?a, w2)"
    and d2: "database w2 = database ?w0"
    using d1
    by (simp add: updateAdminCheck_def updateGuards_def assertNotLastOwner_def findAdmin_def query_def
        external_def bind_def andThen_def guardNot_def ret_def demote_def payloadOf_def sampleAdmin_def)
  have rows2: "adminsOf w2 = [?a, ?b]" using d2 by (simp add: adminsOf_def)
  have flag: "isDisabling demote ?b \<or> isRoleChange demote ?b" "isDisabling demote ?a \<or> isRoleChange demote ?a"
    by (simp_all add: isRoleChange_def demote_def sampleAdmin_def)
  let ?f = "\<lambda>t x. (applyAdminDto demote True x)\<lparr>a_updatedAt := t\<rparr>"
  obtain t1 where r3: "adminsOf (snd (updateAdminWrite sampleEnv (payloadOf ?a) ''b'' demote ?b w2)) = [?a, ?f t1 ?b]"
    using updateAdminRow_runs [OF sample_faultless, of "''b''" w2 ?b "applyAdminDto demote True"] rows2
      updateAdminWrite_runs [of sampleEnv "''b''" demote ?b w2] flag(1)
    by (fastforce simp: sampleAdmin_def adminConflict_def applyAdminDto_def)
  let ?w3 = "snd (updateAdminWrite sampleEnv (payloadOf ?a) ''b'' demote ?b w2)"
  obtain t2 where r4: "adminsOf (snd (updateAdminWrite sampleEnv (payloadOf ?b) ''a'' demote ?a ?w3)) =
      [?f t2 ?a, ?f t1 ?b]"
    using updateAdminRow_runs [OF sample_faultless, of "''a''" ?w3 ?a "applyAdminDto demote True"] r3
      updateAdminWrite_runs [of sampleEnv "''a''" demote ?a ?w3] flag(2)
    by (fastforce simp: sampleAdmin_def adminConflict_def applyAdminDto_def)
  have none: "\<not> activeOwner (?f t x)" for t x
    by (simp add: activeOwner_def applyAdminDto_def demote_def orElse_def)
  show ?thesis using ok c1 c2 r4 none by (simp add: Let_def split_def)
qed

text \<open>
  A route behind the token check and the role guard is entered only by a current account: when
  both let a request through, there is a stored, active account with the token's subject and the
  token's version whose stored role, not the role in the token, is one of the required ones.
\<close>

theorem authorization_uses_current_account:
  "case authorize E roles token ctx route w of
     (Inl e, w') \<Rightarrow> True
   | (Inr b, w') \<Rightarrow> b \<and> (\<exists>a \<in> set (adminsOf w). a_id a = j_sub token \<and> a_active a \<and>
       a_tokenVersion a = j_tokenVersion token \<and> (roles = [] \<or> a_role a \<in> set roles))"
  using authorize_wp [of E roles token ctx route w] by (auto simp: wp_def split: prod.splits sum.splits)

text \<open>
  Deleting credentials does not count as activity: the activity check that protects an account
  from deletion gives the same answer whoever is recorded as having deleted which credentials.
\<close>

theorem deletions_are_not_activity:
  "fst (adminHasActivity E ids w) = fst (adminHasActivity E ids (w\<lparr>database := (database w)\<lparr>credentials :=
     map (\<lambda>c. c\<lparr>c_deletedAt := t c, c_deletedBy := who c, c_deletedByAdminId := whoId c\<rparr>)
       (credentials (database w))\<rparr>\<rparr>))"
  by (simp add: adminHasActivity_def Let_def bind_def query_def external_def ret_def activityCount_def
      filter_map comp_def split: option.split)

end
