(* ===== verification/RateLimit.thy ===== *)
theory RateLimit
  imports Prisma CredentialText
begin

text \<open>
  The rate limiter of the API (\<open>common/rate-limit\<close>, \<open>common/http/resolve-client-ip.ts\<close>): the address
  of a request, the store in memory, the Redis store with its script, the service that chooses
  between them and falls back from one to the other, and the guard. Redis is a parameter: its
  commands on one key are the members of \<open>redis\<close>, what they are documented to do is \<open>redisLaws\<close>. A
  call to Redis may be refused, or executed with its answer lost. Calls are one after the other; a
  call reads the clock when it starts and again after a Redis call it waited for.
\<close>

subsection \<open>The address of a request\<close>

record request =
  rq_cfConnectingIp :: "string option"
  rq_forwardedFor :: "string option"
  rq_ip :: "string option"
  rq_remoteAddress :: "string option"

definition resolveClientIp :: "request \<Rightarrow> bool \<Rightarrow> string" where
  "resolveClientIp req trustProxy =
     (case trimOrNull (rq_cfConnectingIp req) of Some ip \<Rightarrow> ip
      | None \<Rightarrow>
        (if trustProxy \<and> trimOrNull (rq_forwardedFor req) \<noteq> None
         then orElse (trimOrNull (Some (hd (splitOn (CHR '','') (the (rq_forwardedFor req)))))) ''unknown''
         else orElse (nullish (rq_ip req) (rq_remoteAddress req)) ''unknown''))"

subsection \<open>The store in memory\<close>

record storeResult =
  so_allowed :: bool
  so_totalHits :: int
  so_resetAt :: time

type_synonym buckets = "string \<Rightarrow> time list option"

definition firstOr :: "'a list \<Rightarrow> 'a \<Rightarrow> 'a" where
  "firstOr xs d = (case xs of [] \<Rightarrow> d | x # _ \<Rightarrow> x)"

definition memoryConsume :: "time \<Rightarrow> string \<Rightarrow> int \<Rightarrow> int \<Rightarrow> buckets \<Rightarrow> storeResult \<times> buckets" where
  "memoryConsume now key limit windowSeconds b =
     (let windowMs = windowSeconds * 1000; windowStart = now - windowMs;
          hits = filter (\<lambda>timestamp. timestamp > windowStart) (orElse (b key) [])
      in if int (length hits) \<ge> limit
         then (\<lparr>so_allowed = False, so_totalHits = int (length hits),
                so_resetAt = firstOr hits now + windowMs\<rparr>, b(key \<mapsto> hits))
         else (\<lparr>so_allowed = True, so_totalHits = int (length (hits @ [now])),
                so_resetAt = firstOr (hits @ [now]) now + windowMs\<rparr>, b(key \<mapsto> hits @ [now])))"

subsection \<open>The store in Redis\<close>

text \<open>
  The value of one key: what the server sees at its time, \<open>ZREMRANGEBYSCORE\<close>, \<open>ZCARD\<close>, the score
  \<open>ZRANGE 0 0 WITHSCORES\<close> returns, \<open>ZADD\<close>, \<open>EXPIRE\<close>; the last two members describe a value.
\<close>

record 'z redis =
  z_load :: "time \<Rightarrow> 'z \<Rightarrow> 'z"
  z_remRangeByScore :: "int \<Rightarrow> int \<Rightarrow> 'z \<Rightarrow> 'z"
  z_card :: "'z \<Rightarrow> int"
  z_first :: "'z \<Rightarrow> int option"
  z_add :: "int \<Rightarrow> string \<Rightarrow> 'z \<Rightarrow> 'z"
  z_expire :: "time \<Rightarrow> int \<Rightarrow> 'z \<Rightarrow> 'z"
  z_elems :: "'z \<Rightarrow> (string \<times> int) set"
  z_deadline :: "'z \<Rightarrow> time option"

definition redisLaws :: "'z redis \<Rightarrow> bool" where
  "redisLaws R \<longleftrightarrow>
     (\<forall>z. finite (z_elems R z)) \<and>
     (\<forall>t z. z_elems R (z_load R t z) =
        (case z_deadline R z of None \<Rightarrow> z_elems R z | Some d \<Rightarrow> if d \<le> t then {} else z_elems R z)) \<and>
     (\<forall>lo hi z. z_elems R (z_remRangeByScore R lo hi z) =
        {e \<in> z_elems R z. \<not> (lo \<le> snd e \<and> snd e \<le> hi)}) \<and>
     (\<forall>z. z_card R z = int (card (z_elems R z))) \<and>
     (\<forall>z. z_first R z = (if z_elems R z = {} then None else Some (Min (snd ` z_elems R z)))) \<and>
     (\<forall>s m z. z_elems R (z_add R s m z) = insert (m, s) {e \<in> z_elems R z. fst e \<noteq> m}) \<and>
     (\<forall>t n z. z_elems R (z_expire R t n z) = z_elems R z \<and> z_deadline R (z_expire R t n z) = Some (t + n * 1000))"

text \<open>The script, executed by the server at its time \<open>serverNow\<close>.\<close>

definition redisScript :: "'z redis \<Rightarrow> time \<Rightarrow> time \<Rightarrow> int \<Rightarrow> int \<Rightarrow> string \<Rightarrow> int \<Rightarrow> 'z \<Rightarrow> storeResult \<times> 'z" where
  "redisScript R serverNow now window limit member expireSeconds stored =
     (let z = z_remRangeByScore R 0 (now - window) (z_load R serverNow stored); count = z_card R z;
          resetAt = (\<lambda>z. case z_first R z of Some s \<Rightarrow> s + window | None \<Rightarrow> now + window)
      in if count \<ge> limit
         then (\<lparr>so_allowed = False, so_totalHits = count, so_resetAt = resetAt z\<rparr>,
               z_expire R serverNow expireSeconds z)
         else (let z' = z_add R now member z
               in (\<lparr>so_allowed = True, so_totalHits = z_card R z', so_resetAt = resetAt z'\<rparr>,
                   z_expire R serverNow expireSeconds z')))"

definition redisConsume :: "'z redis \<Rightarrow> time \<Rightarrow> time \<Rightarrow> string \<Rightarrow> string \<Rightarrow> int \<Rightarrow> int \<Rightarrow>
    (string \<Rightarrow> 'z) \<Rightarrow> storeResult \<times> (string \<Rightarrow> 'z)" where
  "redisConsume R serverNow now uuid key limit windowSeconds keys =
     (case redisScript R serverNow now (windowSeconds * 1000) limit uuid windowSeconds (keys key) of
        (result, z) \<Rightarrow> (result, keys(key := z)))"

subsection \<open>The service\<close>

datatype ruleName = AUTH_LOGIN | VERIFICATION_RULE | VERIFICATION_UPLOAD | ADMIN_RULE

fun ruleText :: "ruleName \<Rightarrow> string" where
  "ruleText AUTH_LOGIN = ''auth-login''"
| "ruleText VERIFICATION_RULE = ''verification''"
| "ruleText VERIFICATION_UPLOAD = ''verification-upload''"
| "ruleText ADMIN_RULE = ''admin''"

record ruleConfig =
  rc_limit :: int
  rc_windowSeconds :: int
  rc_message :: string

record limitWindow =
  lw_limit :: int
  lw_windowSeconds :: int

record limitConfig =
  lc_memoryOnly :: bool
  lc_redisPrefix :: string
  lc_authLogin :: limitWindow
  lc_verification :: limitWindow
  lc_verificationUpload :: limitWindow
  lc_admin :: limitWindow

fun rules :: "limitConfig \<Rightarrow> ruleName \<Rightarrow> ruleConfig" where
  "rules L AUTH_LOGIN = \<lparr>rc_limit = lw_limit (lc_authLogin L),
     rc_windowSeconds = lw_windowSeconds (lc_authLogin L),
     rc_message = ''Too many login attempts. Please try again later.''\<rparr>"
| "rules L VERIFICATION_RULE = \<lparr>rc_limit = lw_limit (lc_verification L),
     rc_windowSeconds = lw_windowSeconds (lc_verification L),
     rc_message = ''Rate limit exceeded. Please try again later.''\<rparr>"
| "rules L VERIFICATION_UPLOAD = \<lparr>rc_limit = lw_limit (lc_verificationUpload L),
     rc_windowSeconds = lw_windowSeconds (lc_verificationUpload L),
     rc_message = ''Too many verification uploads. Please try again later.''\<rparr>"
| "rules L ADMIN_RULE = \<lparr>rc_limit = lw_limit (lc_admin L),
     rc_windowSeconds = lw_windowSeconds (lc_admin L),
     rc_message = ''Rate limit exceeded. Please try again later.''\<rparr>"

text \<open>What a call meets: the clock at its start and after Redis, the server's clock, a fresh UUID.\<close>

datatype redisOutcome = Answered | Refused | AnswerLost

record encounter =
  en_now :: time
  en_later :: time
  en_serverNow :: time
  en_uuid :: string
  en_redis :: redisOutcome

record 'z limiter =
  lm_buckets :: buckets
  lm_keys :: "string \<Rightarrow> 'z"
  lm_redisFallbackUntil :: time

definition REDIS_FALLBACK_COOLDOWN_MS :: int where
  "REDIS_FALLBACK_COOLDOWN_MS = 30000"

definition buildKey :: "env \<Rightarrow> limitConfig \<Rightarrow> ruleName \<Rightarrow> string \<Rightarrow> string" where
  "buildKey E L rule clientIp = lc_redisPrefix L @ '':'' @ ruleText rule @ '':'' @ hexEncode (sha256 E (utf8 clientIp))"

definition inMemory :: "time \<Rightarrow> string \<Rightarrow> ruleConfig \<Rightarrow> 'z limiter \<Rightarrow> storeResult \<times> 'z limiter" where
  "inMemory now key rule s = (case memoryConsume now key (rc_limit rule) (rc_windowSeconds rule) (lm_buckets s) of
     (result, b) \<Rightarrow> (result, s\<lparr>lm_buckets := b\<rparr>))"

definition failedClosed :: "time \<Rightarrow> ruleConfig \<Rightarrow> storeResult" where
  "failedClosed now rule = \<lparr>so_allowed = False, so_totalHits = rc_limit rule + 1,
     so_resetAt = now + rc_windowSeconds rule * 1000\<rparr>"

definition consumeFromStore :: "'z redis \<Rightarrow> limitConfig \<Rightarrow> ruleName \<Rightarrow> string \<Rightarrow> encounter \<Rightarrow>
    'z limiter \<Rightarrow> storeResult \<times> 'z limiter" where
  "consumeFromStore R L ruleName key e s =
     (let rule = rules L ruleName; canFailOpen = (ruleName \<noteq> AUTH_LOGIN) in
      if lc_memoryOnly L then inMemory (en_now e) key rule s
      else if canFailOpen \<and> en_now e < lm_redisFallbackUntil s then inMemory (en_now e) key rule s
      else case redisConsume R (en_serverNow e) (en_now e) (en_uuid e) key (rc_limit rule)
             (rc_windowSeconds rule) (lm_keys s) of (result, keys) \<Rightarrow>
        (if en_redis e = Answered then (result, s\<lparr>lm_keys := keys\<rparr>)
         else let s' = (if en_redis e = AnswerLost then s\<lparr>lm_keys := keys\<rparr> else s) in
           if \<not> canFailOpen then (failedClosed (en_later e) rule, s')
           else inMemory (en_later e) key rule
             (s'\<lparr>lm_redisFallbackUntil := en_later e + REDIS_FALLBACK_COOLDOWN_MS\<rparr>)))"

record consumeResult = storeResult +
  co_limit :: int
  co_remaining :: int
  co_retryAfterSeconds :: int
  co_message :: string

definition ceilDiv :: "int \<Rightarrow> int \<Rightarrow> int" where
  "ceilDiv a b = - ((- a) div b)"

definition consumeResultOf :: "time \<Rightarrow> ruleConfig \<Rightarrow> storeResult \<Rightarrow> consumeResult" where
  "consumeResultOf now rule r = \<lparr>so_allowed = so_allowed r, so_totalHits = so_totalHits r,
     so_resetAt = so_resetAt r, co_limit = rc_limit rule,
     co_remaining = max 0 (rc_limit rule - so_totalHits r),
     co_retryAfterSeconds = max 1 (ceilDiv (so_resetAt r - now) 1000), co_message = rc_message rule\<rparr>"

definition consume :: "env \<Rightarrow> 'z redis \<Rightarrow> limitConfig \<Rightarrow> ruleName \<Rightarrow> request \<Rightarrow> encounter \<Rightarrow>
    'z limiter \<Rightarrow> consumeResult \<times> 'z limiter" where
  "consume E R L ruleName req e s =
     (case consumeFromStore R L ruleName
         (buildKey E L ruleName (resolveClientIp req (cfg_trustProxy (cfg E)))) e s of
        (result, s') \<Rightarrow> (consumeResultOf (en_later e) (rules L ruleName) result, s'))"

subsection \<open>The guard\<close>

definition limitHeaders :: "consumeResult \<Rightarrow> (string \<times> string) list" where
  "limitHeaders r =
     [(''X-RateLimit-Limit'', showInt (co_limit r)), (''X-RateLimit-Remaining'', showInt (co_remaining r)),
      (''X-RateLimit-Reset'', showInt (ceilDiv (so_resetAt r) 1000))] @
     (if \<not> so_allowed r then [(''Retry-After'', showInt (co_retryAfterSeconds r))] else [])"

record guarded =
  gd_headers :: "(string \<times> string) list"
  gd_rejection :: "(nat \<times> string \<times> string) option"

definition limitGuard :: "env \<Rightarrow> 'z redis \<Rightarrow> limitConfig \<Rightarrow> ruleName option \<Rightarrow> request \<Rightarrow> encounter \<Rightarrow>
    'z limiter \<Rightarrow> guarded \<times> 'z limiter" where
  "limitGuard E R L ruleName req e s = (case ruleName of
     None \<Rightarrow> (\<lparr>gd_headers = [], gd_rejection = None\<rparr>, s)
   | Some rule \<Rightarrow> (case consume E R L rule req e s of (result, s') \<Rightarrow>
       (\<lparr>gd_headers = limitHeaders result, gd_rejection =
          (if so_allowed result then None else Some (429, ''Too Many Requests'', co_message result))\<rparr>, s')))"

end
