(* ===== verification/ErrorFilter.thy ===== *)
theory ErrorFilter
  imports Wp
begin

text \<open>
  What a failed request answers (\<open>common/filters/app-exception.filter.ts\<close>): the exceptions that reach
  the global filter, the answer it makes of each of them and the line it logs. \<open>thrownOf\<close> gives the
  exceptions of the services as the framework builds them: an HTTP exception carries its message and
  the phrase of its status.
\<close>

subsection \<open>What can be thrown\<close>

datatype httpMessage = NoMessage | OneMessage string | ManyMessages "string list"

datatype httpBody =
    TextBody string
  | ObjectBody "string option" httpMessage

record errorObject =
  eo_class :: string
  eo_name :: string
  eo_message :: string
  eo_stack :: "string option"
  eo_status :: "int option"
  eo_statusCode :: "int option"
  eo_expose :: "bool option"

datatype thrown =
    PrismaRequestError string string
  | PrismaClientError string string
  | HttpError int string httpBody string
  | ErrorThrown errorObject
  | ValueThrown string

fun thrownMessage :: "thrown \<Rightarrow> string" where
  "thrownMessage (PrismaRequestError code msg) = msg"
| "thrownMessage (PrismaClientError cls msg) = msg"
| "thrownMessage (HttpError status name body msg) = msg"
| "thrownMessage (ErrorThrown err) = eo_message err"
| "thrownMessage (ValueThrown s) = s"

subsection \<open>The answer\<close>

record normalized =
  no_statusCode :: int
  no_error :: string
  no_message :: string

definition answer :: "int \<Rightarrow> string \<Rightarrow> string \<Rightarrow> normalized" where
  "answer status err msg = \<lparr>no_statusCode = status, no_error = err, no_message = msg\<rparr>"

definition opaque500 :: normalized where
  "opaque500 = answer 500 ''Internal Server Error'' ''An unexpected error occurred.''"

fun isPrismaError :: "thrown \<Rightarrow> bool" where
  "isPrismaError (PrismaRequestError code msg) = True"
| "isPrismaError (PrismaClientError cls msg) = True"
| "isPrismaError t = False"

fun asHttpError :: "thrown \<Rightarrow> normalized option" where
  "asHttpError (ErrorThrown err) =
     (case (case eo_status err of Some n \<Rightarrow> Some n | None \<Rightarrow> eo_statusCode err) of
        None \<Rightarrow> None
      | Some status \<Rightarrow> (if status < 400 \<or> status > 499 then None
          else Some (answer status (eo_name err)
            (if eo_expose err = Some False then ''Request could not be processed.'' else eo_message err))))"
| "asHttpError t = None"

fun joinMessages :: "string list \<Rightarrow> string" where
  "joinMessages [] = []"
| "joinMessages [m] = m"
| "joinMessages (m # ms) = m @ '', '' @ joinMessages ms"

definition httpAnswer :: "int \<Rightarrow> string \<Rightarrow> httpBody \<Rightarrow> string \<Rightarrow> normalized" where
  "httpAnswer status name body msg = (case body of
     TextBody s \<Rightarrow> answer status name s
   | ObjectBody err m \<Rightarrow> answer status (case err of None \<Rightarrow> name | Some e \<Rightarrow> e)
       (case m of NoMessage \<Rightarrow> msg | OneMessage s \<Rightarrow> s | ManyMessages ms \<Rightarrow> joinMessages ms))"

definition unexpected :: "bool \<Rightarrow> thrown \<Rightarrow> normalized" where
  "unexpected exposed t = (if exposed then opaque500
     else (case t of ErrorThrown err \<Rightarrow> answer 500 (eo_class err) (eo_message err)
        | _ \<Rightarrow> answer 500 ''UnknownError'' ''An unexpected error occurred.''))"

definition normalizeException :: "bool \<Rightarrow> thrown \<Rightarrow> normalized" where
  "normalizeException exposed t = (case t of
     PrismaRequestError code msg \<Rightarrow>
       (if code = ''P2002''
        then answer 409 ''Conflict'' ''A unique constraint would be violated by this request.''
        else if code = ''P2025''
        then answer 404 ''Not Found'' ''The requested record could not be found.''
        else opaque500)
   | _ \<Rightarrow> (if isPrismaError t then opaque500
       else case t of HttpError status name body msg \<Rightarrow> httpAnswer status name body msg
        | _ \<Rightarrow> (case asHttpError t of Some n \<Rightarrow> n | None \<Rightarrow> unexpected exposed t)))"

definition errorResponse :: "normalized \<Rightarrow> value" where
  "errorResponse n = VObj [(''statusCode'', VNum (no_statusCode n)), (''message'', VStr (no_message n)),
     (''error'', VStr (no_error n))]"

text \<open>The request as the filter reads it, and the line it logs for a status of 500 or more.\<close>

record filteredRequest =
  fr_method :: string
  fr_path :: string
  fr_actorId :: "string option"
  fr_ip :: "string option"

definition safeContext :: "filteredRequest \<Rightarrow> normalized \<Rightarrow> value" where
  "safeContext req n = VObj ([(''method'', VStr (fr_method req)), (''path'', VStr (fr_path req)),
     (''statusCode'', VNum (no_statusCode n))] @
     (case fr_actorId req of Some i \<Rightarrow> if i \<noteq> [] then [(''actorId'', VStr i)] else [] | None \<Rightarrow> []) @
     (case fr_ip req of Some ip \<Rightarrow> if ip \<noteq> [] then [(''ip'', VStr ip)] else [] | None \<Rightarrow> []))"

definition loggedLine :: "filteredRequest \<Rightarrow> normalized \<Rightarrow> thrown \<Rightarrow> (string \<times> value) option" where
  "loggedLine req n t = (if no_statusCode n < 500 then None else Some (thrownMessage t, safeContext req n))"

definition catchException :: "bool \<Rightarrow> filteredRequest \<Rightarrow> thrown \<Rightarrow> int \<times> value \<times> (string \<times> value) option" where
  "catchException exposed req t = (let n = normalizeException exposed t in
     (no_statusCode n, errorResponse n, loggedLine req n t))"

subsection \<open>The exceptions of the services\<close>

definition builtIn :: "int \<Rightarrow> string \<Rightarrow> string \<Rightarrow> string \<Rightarrow> thrown" where
  "builtIn status name phrase msg = HttpError status name (ObjectBody (Some phrase) (OneMessage msg)) msg"

fun thrownOf :: "exn \<Rightarrow> thrown" where
  "thrownOf (BadRequest m) = builtIn 400 ''BadRequestException'' ''Bad Request'' m"
| "thrownOf (Unauthorized m) = builtIn 401 ''UnauthorizedException'' ''Unauthorized'' m"
| "thrownOf (Forbidden m) = builtIn 403 ''ForbiddenException'' ''Forbidden'' m"
| "thrownOf (NotFound m) = builtIn 404 ''NotFoundException'' ''Not Found'' m"
| "thrownOf (Conflict m) = builtIn 409 ''ConflictException'' ''Conflict'' m"
| "thrownOf (Gone m) = builtIn 410 ''GoneException'' ''Gone'' m"
| "thrownOf (InternalServerError m) =
     builtIn 500 ''InternalServerErrorException'' ''Internal Server Error'' m"
| "thrownOf (PrismaKnown code cols) = PrismaRequestError code code"
| "thrownOf (PrismaFault m) = PrismaClientError ''PrismaClientUnknownRequestError'' m"
| "thrownOf (JsError m) = ErrorThrown \<lparr>eo_class = ''Error'', eo_name = ''Error'', eo_message = m,
     eo_stack = Some m, eo_status = None, eo_statusCode = None, eo_expose = None\<rparr>"

text \<open>The answer of a route whose handler is the program \<open>m\<close> and whose status of success is \<open>ok\<close>.\<close>

definition respond :: "int \<Rightarrow> bool \<Rightarrow> filteredRequest \<Rightarrow> value prog \<Rightarrow> world \<Rightarrow> int \<times> value" where
  "respond ok exposed req m w = (case fst (m w) of
     Inr v \<Rightarrow> (ok, v)
   | Inl e \<Rightarrow> (case catchException exposed req (thrownOf e) of (status, body, line) \<Rightarrow> (status, body)))"

subsection \<open>What an answer can reveal\<close>

text \<open>
  \<open>withheld\<close> erases what must not reach a caller: whatever a database error says, and, where
  \<open>exposed\<close>, the class, name, message and stack of an unexpected error. Client errors of the
  middleware keep their name, and their message unless the library marks it as internal.
\<close>

fun withheld :: "bool \<Rightarrow> thrown \<Rightarrow> thrown" where
  "withheld exposed (PrismaRequestError code msg) =
     PrismaRequestError (if code = ''P2002'' \<or> code = ''P2025'' then code else []) []"
| "withheld exposed (PrismaClientError cls msg) = PrismaClientError [] []"
| "withheld exposed (HttpError status name body msg) = HttpError status name body msg"
| "withheld exposed (ErrorThrown err) = ErrorThrown
     (if asHttpError (ErrorThrown err) \<noteq> None
      then err\<lparr>eo_class := [], eo_stack := None,
        eo_message := (if eo_expose err = Some False then [] else eo_message err)\<rparr>
      else if exposed then err\<lparr>eo_class := [], eo_name := [], eo_message := [], eo_stack := None\<rparr>
      else err\<lparr>eo_name := [], eo_stack := None\<rparr>)"
| "withheld exposed (ValueThrown s) = ValueThrown []"

lemma asHttpError_range: "asHttpError t = Some n \<Longrightarrow> 400 \<le> no_statusCode n \<and> no_statusCode n \<le> 499"
  by (cases t) (auto simp: answer_def split: option.splits if_splits)

lemma normalize_withheld: "normalizeException exposed (withheld exposed t) = normalizeException exposed t"
  by (cases t) (auto simp: normalizeException_def unexpected_def split: option.splits)

lemma normalize_500: "500 \<le> no_statusCode (normalizeException exposed t) \<Longrightarrow> exposed \<or> isPrismaError t \<Longrightarrow>
    (\<exists>name response msg. t = HttpError (no_statusCode (normalizeException exposed t)) name response msg) \<or>
    normalizeException exposed t = opaque500"
  using asHttpError_range [of t]
  by (cases t) (auto simp: normalizeException_def unexpected_def httpAnswer_def answer_def
      split: option.splits if_splits httpBody.splits)

text \<open>
  C36. Safety: an error answer reveals nothing internal. In every environment it is the same whatever a
  database error says (its text carries paths, source and the query), whatever a thrown value or a
  stack is; in staging and production it also does not depend on the class, name or message of an
  unexpected error. It has exactly the members \<open>statusCode\<close>, \<open>message\<close> and \<open>error\<close>; a status of
  500 or more that no handler chose carries the fixed text, and exactly these are logged.
\<close>

theorem error_answers_opaque:
  assumes "catchException exposed req t = (status, body, line)"
  shows "body = errorResponse (normalizeException exposed (withheld exposed t)) \<and>
     status = no_statusCode (normalizeException exposed (withheld exposed t)) \<and>
     (line \<noteq> None \<longleftrightarrow> 500 \<le> status) \<and>
     (500 \<le> status \<and> (exposed \<or> isPrismaError t) \<longrightarrow>
        (\<exists>name response msg. t = HttpError status name response msg) \<or>
        body = errorResponse opaque500)"
proof -
  have same: "normalizeException exposed (withheld exposed t) = normalizeException exposed t"
    by (rule normalize_withheld)
  show ?thesis
    using assms normalize_500 [of exposed t]
    by (auto simp: catchException_def same loggedLine_def Let_def split: if_splits)
qed

text \<open>
  A database that reports its connection string: the caller of any route sees the fixed text.
\<close>

theorem error_answers_opaque_witness:
  "\<forall>w. respond 200 True \<lparr>fr_method = ''GET'', fr_path = ''/api/credentials'', fr_actorId = None, fr_ip = None\<rparr>
     (throw (PrismaFault ''postgres://certiva:secret@db'')) w = (500, errorResponse opaque500)"
proof -
  obtain status body line where run: "catchException True \<lparr>fr_method = ''GET'', fr_path = ''/api/credentials'',
      fr_actorId = None, fr_ip = None\<rparr> (thrownOf (PrismaFault ''postgres://certiva:secret@db'')) =
      (status, body, line)"
    by (metis prod_cases3)
  from error_answers_opaque [OF this] run show ?thesis
    by (auto simp: respond_def throw_def catchException_def normalizeException_def opaque500_def answer_def)
qed

end
