(* ===== verification/Routes.thy ===== *)
theory Routes
  imports Auth RateLimit ErrorFilter
begin

text \<open>
  The HTTP interface of the API: every controller of \<open>apps/api/src/modules\<close> with its prefix, its
  decorators (\<open>@UseGuards\<close>, \<open>@Roles\<close>, \<open>@RateLimit\<close>, \<open>FileInterceptor\<close>) and the call each handler
  forwards to, the resolution of a request to a handler, and what happens around a handler: the rate
  limiter, the token check, the role guard, the exception filter. A handler's metadata overrides its
  class's, as \<open>Reflector.getAllAndOverride\<close> does. A bearer token is given by its payload once the
  library has accepted its signature and expiry, and is absent otherwise.
\<close>

subsection \<open>Metadata\<close>

datatype httpMethod = MGet | MPost | MPatch | MDelete

datatype seg = Lit string | Param string

record handlerMeta =
  hm_name :: string
  hm_method :: httpMethod
  hm_path :: "seg list"
  hm_calls :: string
  hm_limit :: "ruleName option"
  hm_jwtGuard :: bool
  hm_rolesGuard :: bool
  hm_roles :: "AdminRole list option"
  hm_upload :: bool

record controllerMeta =
  ct_name :: string
  ct_prefix :: "seg list"
  ct_limit :: "ruleName option"
  ct_jwtGuard :: bool
  ct_rolesGuard :: bool
  ct_roles :: "AdminRole list option"
  ct_handlers :: "handlerMeta list"

definition handler :: "string \<Rightarrow> httpMethod \<Rightarrow> seg list \<Rightarrow> string \<Rightarrow> handlerMeta" where
  "handler name method path calls = \<lparr>hm_name = name, hm_method = method, hm_path = path, hm_calls = calls,
     hm_limit = None, hm_jwtGuard = False, hm_rolesGuard = False, hm_roles = None, hm_upload = False\<rparr>"

definition requires :: "AdminRole list \<Rightarrow> handlerMeta \<Rightarrow> handlerMeta" where
  "requires roles h = h\<lparr>hm_roles := Some roles\<rparr>"

definition limited :: "ruleName \<Rightarrow> handlerMeta \<Rightarrow> handlerMeta" where
  "limited rule h = h\<lparr>hm_limit := Some rule\<rparr>"

definition uploads :: "handlerMeta \<Rightarrow> handlerMeta" where
  "uploads h = h\<lparr>hm_upload := True\<rparr>"

definition guardedHandler :: "AdminRole list \<Rightarrow> handlerMeta \<Rightarrow> handlerMeta" where
  "guardedHandler roles h = h\<lparr>hm_limit := Some ADMIN_RULE, hm_jwtGuard := True, hm_rolesGuard := True,
     hm_roles := Some roles\<rparr>"

definition managers :: "AdminRole list" where "managers = [OWNER, SUPER_ADMIN]"
definition writers :: "AdminRole list" where "writers = [OWNER, SUPER_ADMIN, ADMIN]"
definition readers :: "AdminRole list" where "readers = [OWNER, SUPER_ADMIN, ADMIN, AUDITOR]"

text \<open>A controller guarded as a whole, and one whose handlers carry their own guards.\<close>

definition adminController :: "string \<Rightarrow> string list \<Rightarrow> handlerMeta list \<Rightarrow> controllerMeta" where
  "adminController name base hs = \<lparr>ct_name = name, ct_prefix = map Lit base, ct_limit = Some ADMIN_RULE,
     ct_jwtGuard = True, ct_rolesGuard = True, ct_roles = None, ct_handlers = hs\<rparr>"

definition openController :: "string \<Rightarrow> string list \<Rightarrow> handlerMeta list \<Rightarrow> controllerMeta" where
  "openController name base hs = \<lparr>ct_name = name, ct_prefix = map Lit base, ct_limit = None,
     ct_jwtGuard = False, ct_rolesGuard = False, ct_roles = None, ct_handlers = hs\<rparr>"

subsection \<open>The controllers\<close>

definition CredentialController :: controllerMeta where
  "CredentialController = adminController ''CredentialController'' [''credentials'']
     [requires writers (handler ''create'' MPost [] ''credentialService.create(admin, dto)''),
      requires writers (handler ''bulkIssue'' MPost [Lit ''bulk''] ''credentialService.bulkIssue(admin, dto)''),
      requires managers (handler ''bulkRevoke'' MPost [Lit ''bulk-revoke'']
        ''credentialService.bulkRevoke(admin, dto.ids, dto.reason, dto.notes)''),
      requires managers (handler ''bulkDelete'' MPost [Lit ''bulk-delete'']
        ''credentialService.bulkDelete(admin, dto.ids)''),
      requires readers (handler ''list'' MGet [] ''credentialService.list(admin, query)''),
      requires readers (handler ''findById'' MGet [Param ''id''] ''credentialService.findById(admin, id)''),
      requires managers (handler ''remove'' MDelete [Param ''id''] ''credentialService.remove(admin, id)''),
      requires managers (handler ''revoke'' MPatch [Param ''id'', Lit ''revoke'']
        ''credentialService.revoke(admin, id, dto)''),
      uploads (requires writers (handler ''registerSecurePdf'' MPost [Param ''id'', Lit ''secure-pdf'']
        ''credentialService.registerSecurePdf(admin, id, file)''))]"

definition BatchController :: controllerMeta where
  "BatchController = adminController ''BatchController'' [''batches'']
     [uploads (requires writers (handler ''registerBatchSecurePdf'' MPost [Param ''id'', Lit ''secure-pdf'']
        ''credentialService.registerBatchSecurePdf(admin, id, file)''))]"

definition AuthController :: controllerMeta where
  "AuthController = openController ''AuthController'' [''auth'']
     [guardedHandler managers (handler ''register'' MPost [Lit ''register'']
        ''authService.register(dto, actor, context)''),
      limited AUTH_LOGIN (handler ''login'' MPost [Lit ''login''] ''authService.login(dto, context)''),
      limited ADMIN_RULE ((handler ''me'' MGet [Lit ''me''] ''authService.getProfile(admin.sub)'')
        \<lparr>hm_jwtGuard := True\<rparr>),
      guardedHandler managers (handler ''listAdmins'' MGet [Lit ''admins''] ''authService.listAdmins()''),
      guardedHandler managers (handler ''updateAdmin'' MPatch [Lit ''admins'', Param ''id'']
        ''authService.updateAdmin(actor, id, dto)''),
      guardedHandler managers (handler ''deleteAdmin'' MDelete [Lit ''admins'', Param ''id'']
        ''authService.deleteAdmin(admin, id, context)'')]"

definition InstitutionController :: controllerMeta where
  "InstitutionController = adminController ''InstitutionController'' [''institution'']
     [requires readers (handler ''getInstitution'' MGet []
        ''institutionService.resolveInstitutionForAdmin(admin)''),
      requires managers (handler ''updateInstitution'' MPatch []
        ''institutionService.updateInstitution(dto, admin.sub); auditLogService.log(SETTINGS_UPDATED)''),
      requires readers (handler ''listSigningKeys'' MGet [Lit ''signing-keys'']
        ''institutionService.resolveInstitutionId(admin); signingKeyService.listPublicKeys(issuerId)''),
      requires managers (handler ''rotateSigningKey'' MPost [Lit ''signing-keys'', Lit ''rotate'']
        ''institutionService.resolveInstitutionId(admin); signingKeyService.rotateActiveKey(issuerId, actor)'')]"

definition InstitutionPublicController :: controllerMeta where
  "InstitutionPublicController = openController ''InstitutionPublicController'' [''institution'']
     [limited VERIFICATION_RULE (handler ''getPublicKeys'' MGet [Lit ''public-keys'']
        ''institutionService.getInstitution(); signingKeyService.listPublicKeys(institution.id)''),
      limited VERIFICATION_RULE (handler ''getDidDocument'' MGet [Lit ''did.json'']
        ''institutionService.getInstitution(); signingKeyService.listPublicKeys(institution.id); buildDidDocument'')]"

definition CredentialAssetsController :: controllerMeta where
  "CredentialAssetsController = openController ''CredentialAssetsController'' [''credentials'']
     [limited VERIFICATION_RULE (handler ''metadata'' MGet [Param ''id'', Lit ''metadata'']
        ''assetsService.readMetadata(id)''),
      limited VERIFICATION_RULE (handler ''qrCode'' MGet [Param ''id'', Lit ''qr'']
        ''assetsService.readQrCode(id)'')]"

definition AuditController :: controllerMeta where
  "AuditController = adminController ''AuditController'' [''audit'']
     (map (requires readers)
       [handler ''listLogs'' MGet [Lit ''logs''] ''auditService.listLogs(admin, limit)'',
        handler ''listBlockchainAudit'' MGet [Lit ''blockchain'']
          ''auditService.listBlockchainAudit(admin, limit)'',
        handler ''getDashboardMetrics'' MGet [Lit ''dashboard'', Lit ''metrics'']
          ''auditService.getDashboardMetrics(admin)'',
        handler ''getActivityFeed'' MGet [Lit ''dashboard'', Lit ''activity'']
          ''auditService.getActivityFeed(admin, {limit, offset})'',
        handler ''getVerificationAnalytics'' MGet [Lit ''dashboard'', Lit ''analytics'']
          ''auditService.getVerificationAnalytics(admin, days)'',
        handler ''getLatestIssuances'' MGet [Lit ''dashboard'', Lit ''issuances'']
          ''auditService.getLatestIssuances(admin, limit)'',
        handler ''getLatestRevocations'' MGet [Lit ''dashboard'', Lit ''revocations'']
          ''auditService.getLatestRevocations(admin, limit)'',
        handler ''getQueueHealth'' MGet [Lit ''dashboard'', Lit ''queue'']
          ''auditService.getQueueHealth(admin)'',
        handler ''exportCsv'' MGet [Lit ''dashboard'', Lit ''export'']
          ''auditService.getExportData(admin)''])"

definition AuditLogController :: controllerMeta where
  "AuditLogController = adminController ''AuditLogController'' [''audit'', ''action-logs'']
     (map (requires [OWNER, SUPER_ADMIN, AUDITOR])
       [handler ''list'' MGet [] ''auditLogService.listAuditLogs({limit, offset})'',
        handler ''verify'' MGet [Lit ''verify''] ''auditLogService.verifyChain()''])"

definition VerificationController :: controllerMeta where
  "VerificationController = openController ''VerificationController'' []
     [limited VERIFICATION_RULE (handler ''verify'' MPost [Lit ''verifications'']
        ''verificationService.verify(dto, ip)''),
      limited VERIFICATION_RULE (handler ''verifyCredentialCode'' MPost
        [Lit ''verify'', Lit ''credential'', Lit ''code''] ''verificationService.verifyCredentialCode(code, ip)''),
      uploads (limited VERIFICATION_UPLOAD (handler ''verifyCredentialPdf'' MPost
        [Lit ''verify'', Lit ''credential'', Lit ''pdf''] ''verificationService.verifyCredentialPdf(file, ip)'')),
      uploads (limited VERIFICATION_UPLOAD (handler ''verifySecurePdf'' MPost
        [Lit ''verify'', Lit ''secure-pdf''] ''verificationService.verifySecurePdf(file, ip)'')),
      limited VERIFICATION_RULE (handler ''verifyByVerificationId'' MGet
        [Lit ''verify'', Param ''verificationId''] ''verificationService.verifyByVerificationId(id, ip)''),
      limited VERIFICATION_RULE (handler ''getProof'' MGet
        [Lit ''verification'', Param ''credentialId'', Lit ''proof'']
        ''verificationService.getCredentialProof(id)''),
      limited VERIFICATION_RULE (handler ''getVerifiableCredential'' MGet
        [Lit ''verification'', Param ''credentialId'', Lit ''vc''] ''verificationService.getCredentialVc(id)''),
      uploads (limited VERIFICATION_UPLOAD (handler ''verifyUploadedPdf'' MPost
        [Lit ''verification'', Lit ''upload''] ''verificationService.verifyUploadedPdf(file, ip)'')),
      limited VERIFICATION_RULE (handler ''certificate'' MGet
        [Lit ''verify'', Param ''verificationId'', Lit ''certificate'']
        ''verificationService.getCertificateByVerificationId(id); assetsService.readCertificate(id)'')]"

definition DocumentProofController :: controllerMeta where
  "DocumentProofController = adminController ''DocumentProofController'' [''document-proofs'']
     [requires managers (handler ''bulkDelete'' MPost [Lit ''bulk-delete'']
        ''documentProofService.bulkDelete(admin, dto.ids)''),
      requires readers (handler ''list'' MGet [] ''documentProofService.list(admin)''),
      requires readers (handler ''findById'' MGet [Param ''id''] ''documentProofService.findById(admin, id)''),
      requires managers (handler ''remove'' MDelete [Param ''id''] ''documentProofService.remove(admin, id)''),
      uploads (requires writers (handler ''create'' MPost [] ''documentProofService.create(admin, dto, file)''))]"

definition PublicDocumentProofController :: controllerMeta where
  "PublicDocumentProofController = openController ''PublicDocumentProofController'' []
     [limited VERIFICATION_RULE (handler ''verifyByCode'' MPost [Lit ''verify'', Lit ''document'', Lit ''code'']
        ''documentProofService.verifyByReference(code, ip)''),
      uploads (limited VERIFICATION_UPLOAD (handler ''verifyUploadedDocument'' MPost
        [Lit ''verify'', Lit ''document''] ''documentProofService.verifyUploadedDocument(file, ip)'')),
      limited VERIFICATION_RULE (handler ''verifyByPublicId'' MGet [Lit ''proof'', Param ''verificationId'']
        ''documentProofService.verifyByReference(verificationId, ip)''),
      limited VERIFICATION_RULE (handler ''metadata'' MGet
        [Lit ''document-proofs'', Param ''id'', Lit ''metadata''] ''documentProofService.readMetadata(id)''),
      limited VERIFICATION_RULE (handler ''qr'' MGet
        [Lit ''document-proofs'', Param ''id'', Lit ''qr''] ''documentProofService.readQrCode(id)'')]"

definition HealthController :: controllerMeta where
  "HealthController = openController ''HealthController'' [''health'']
     [handler ''live'' MGet [Lit ''live''] ''{status: ok}'',
      handler ''check'' MGet [] ''health.check([database, redis])'']"

definition BlockchainController :: controllerMeta where
  "BlockchainController = \<lparr>ct_name = ''BlockchainController'', ct_prefix = [Lit ''blockchain''],
     ct_limit = None, ct_jwtGuard = True, ct_rolesGuard = True, ct_roles = Some readers,
     ct_handlers = [handler ''healthCheck'' MGet [Lit ''health''] ''blockchainService.healthCheck()'']\<rparr>"

subsection \<open>The routes\<close>

record route =
  rt_name :: string
  rt_method :: httpMethod
  rt_path :: "seg list"
  rt_limit :: "ruleName option"
  rt_jwt :: bool
  rt_guarded :: bool
  rt_roles :: "AdminRole list"

definition overriding :: "'a option \<Rightarrow> 'a option \<Rightarrow> 'a option" where
  "overriding h c = (case h of None \<Rightarrow> c | Some x \<Rightarrow> Some x)"

definition routeOf :: "controllerMeta \<Rightarrow> handlerMeta \<Rightarrow> route" where
  "routeOf c h = \<lparr>rt_name = ct_name c @ ''.'' @ hm_name h, rt_method = hm_method h,
     rt_path = Lit ''api'' # ct_prefix c @ hm_path h, rt_limit = overriding (hm_limit h) (ct_limit c),
     rt_jwt = (ct_jwtGuard c \<or> hm_jwtGuard h), rt_guarded = (ct_rolesGuard c \<or> hm_rolesGuard h),
     rt_roles = orElse (overriding (hm_roles h) (ct_roles c)) []\<rparr>"

definition controllers :: "controllerMeta list" where
  "controllers = [AuthController, HealthController, InstitutionController, InstitutionPublicController,
     BlockchainController, CredentialController, BatchController, CredentialAssetsController,
     DocumentProofController, PublicDocumentProofController, VerificationController, AuditController,
     AuditLogController]"

definition routes :: "route list" where
  "routes = concat (map (\<lambda>c. map (routeOf c) (ct_handlers c)) controllers)"

fun matches :: "seg list \<Rightarrow> string list \<Rightarrow> bool" where
  "matches [] [] = True"
| "matches (Lit l # ps) (s # ss) = (l = s \<and> matches ps ss)"
| "matches (Param n # ps) (s # ss) = (s \<noteq> [] \<and> matches ps ss)"
| "matches _ _ = False"

definition resolve :: "httpMethod \<Rightarrow> string list \<Rightarrow> route option" where
  "resolve method path = List.find (\<lambda>rt. rt_method rt = method \<and> matches (rt_path rt) path) routes"

subsection \<open>Around a handler\<close>

text \<open>
  The guards in the order the framework runs them: the global rate limiter, then the token check,
  then the role guard. A guard that answers false is a \<open>Forbidden resource\<close>.
\<close>

definition enter :: "env \<Rightarrow> route \<Rightarrow> jwtPayload option \<Rightarrow> auditContext \<Rightarrow> string \<Rightarrow> jwtPayload option prog" where
  "enter E rt token ctx url =
     bind (if rt_jwt rt then (case token of
             None \<Rightarrow> throw (Unauthorized ''Unauthorized'')
           | Some p \<Rightarrow> bind (validate E p) (\<lambda>user. ret (Some user)))
         else ret None) (\<lambda>user.
     if \<not> rt_guarded rt then ret user
     else bind (canActivate E (rt_roles rt) user ctx url) (\<lambda>ok.
       if ok then ret user else throw (Forbidden ''Forbidden resource'')))"

record incoming =
  ic_request :: request
  ic_filtered :: filteredRequest
  ic_token :: "jwtPayload option"
  ic_context :: auditContext
  ic_url :: string

definition successStatus :: "route \<Rightarrow> int" where
  "successStatus rt = (if rt_method rt = MPost then 201 else 200)"

definition tooMany :: "string \<Rightarrow> value" where
  "tooMany message = errorResponse (answer 429 ''Too Many Requests'' message)"

definition serve :: "env \<Rightarrow> 'z redis \<Rightarrow> limitConfig \<Rightarrow> bool \<Rightarrow> route \<Rightarrow> incoming \<Rightarrow> encounter \<Rightarrow>
    (jwtPayload option \<Rightarrow> value prog) \<Rightarrow> 'z limiter \<Rightarrow> world \<Rightarrow> (int \<times> value) \<times> 'z limiter \<times> world" where
  "serve E R L exposed rt ic e body s w =
     (case limitGuard E R L (rt_limit rt) (ic_request ic) e s of (g, s') \<Rightarrow>
       (case gd_rejection g of
          Some (status, phrase, message) \<Rightarrow> ((429, tooMany message), s', w)
        | None \<Rightarrow> (let m = bind (enter E rt (ic_token ic) (ic_context ic) (ic_url ic)) body in
            (respond (successStatus rt) exposed (ic_filtered ic) m w, s', snd (m w)))))"

subsection \<open>The table\<close>

definition publicWrites :: "string list" where
  "publicWrites = [''AuthController.login'', ''VerificationController.verify'',
     ''VerificationController.verifyCredentialCode'', ''VerificationController.verifyCredentialPdf'',
     ''VerificationController.verifySecurePdf'', ''VerificationController.verifyUploadedPdf'',
     ''PublicDocumentProofController.verifyByCode'',
     ''PublicDocumentProofController.verifyUploadedDocument'']"

definition writerRoutes :: "string list" where
  "writerRoutes = [''CredentialController.create'', ''CredentialController.bulkIssue'',
     ''CredentialController.registerSecurePdf'', ''BatchController.registerBatchSecurePdf'',
     ''DocumentProofController.create'']"

lemma route_table:
  "list_all (\<lambda>rt. rt_method rt \<noteq> MGet \<longrightarrow> rt_name rt \<notin> set publicWrites \<longrightarrow>
     rt_jwt rt \<and> rt_guarded rt \<and> rt_roles rt = (if rt_name rt \<in> set writerRoutes then writers else managers)) routes"
  by code_simp

lemma route_table_row:
  assumes "rt \<in> set routes" "rt_method rt \<noteq> MGet" "rt_name rt \<notin> set publicWrites"
  shows "rt_jwt rt" "rt_guarded rt"
    "rt_roles rt = (if rt_name rt \<in> set writerRoutes then writers else managers)"
  using route_table assms by (auto simp: list_all_iff)

text \<open>The routes without a rate limit: the health probes, and the node's status for administrators.\<close>

lemma unlimited_routes: "map rt_name (filter (\<lambda>rt. rt_limit rt = None) routes) =
    [''HealthController.live'', ''HealthController.check'', ''BlockchainController.healthCheck'']"
  by code_simp

text \<open>Two patterns that some path matches both; no two routes of the table overlap.\<close>

fun overlapping :: "seg list \<Rightarrow> seg list \<Rightarrow> bool" where
  "overlapping [] [] = True"
| "overlapping (Lit a # ps) (Lit b # qs) = (a = b \<and> overlapping ps qs)"
| "overlapping (p # ps) (q # qs) = overlapping ps qs"
| "overlapping _ _ = False"

lemma matches_overlapping: "matches p ss \<Longrightarrow> matches q ss \<Longrightarrow> overlapping p q"
  by (induction p ss arbitrary: q rule: matches.induct) (case_tac q; case_tac "hd q"; auto)+

fun disjointRoutes :: "route list \<Rightarrow> bool" where
  "disjointRoutes [] = True"
| "disjointRoutes (r # rs) = (list_all (\<lambda>q. rt_method q = rt_method r \<longrightarrow>
     \<not> overlapping (rt_path r) (rt_path q)) rs \<and> disjointRoutes rs)"

lemma routes_disjoint: "disjointRoutes routes"
  by code_simp

lemma disjoint_find:
  assumes "disjointRoutes rs" "rt \<in> set rs" "matches (rt_path rt) path"
  shows "List.find (\<lambda>q. rt_method q = rt_method rt \<and> matches (rt_path q) path) rs = Some rt"
  using assms by (induction rs) (auto simp: list_all_iff dest: matches_overlapping)

subsection \<open>What the guards establish\<close>

lemma canActivate_checked: "wp (canActivate E roles (Some u) ctx url)
  (\<lambda>b w'. b \<and> (roles = [] \<or> j_role u \<in> set roles) \<and> database w' = database w)
  (\<lambda>e w'. (\<exists>m. e = Forbidden m) \<and> sameButAudit (database w) (database w')) w"
  by (auto simp: canActivate_def wp_simps audit.order_refl intro!: wp_mono [OF audit_admins])

definition currentAccount :: "jwtPayload \<Rightarrow> world \<Rightarrow> admin \<Rightarrow> bool" where
  "currentAccount p w a \<longleftrightarrow> a \<in> set (adminsOf w) \<and> a_id a = j_sub p \<and> a_active a \<and>
     a_tokenVersion a = j_tokenVersion p"

abbreviation rejectedFrom :: "world \<Rightarrow> bool \<Rightarrow> exn \<Rightarrow> world \<Rightarrow> bool" where
  "rejectedFrom w exposed \<equiv> (\<lambda>e w'. sameButAudit (database w) (database w') \<and>
     no_statusCode (normalizeException exposed (thrownOf e)) \<in> {401, 403, 500})"

abbreviation admittedAs :: "world \<Rightarrow> jwtPayload option \<Rightarrow> AdminRole list \<Rightarrow> jwtPayload option \<Rightarrow> bool" where
  "admittedAs w token roles user \<equiv> \<exists>p a. token = Some p \<and> currentAccount p w a \<and>
     user = Some (payloadOf a) \<and> a_role a \<in> set roles"

lemmas statuses = normalizeException_def builtIn_def httpAnswer_def answer_def opaque500_def

lemma wp_ret_fun: "wp (ret x) Q R = Q x"
  by (rule ext) (rule wp_ret)

lemma find_Some_member: "List.find P xs = Some x \<Longrightarrow> x \<in> set xs \<and> P x"
  by (auto simp: find_Some_iff)

lemma validate_checked: "wp (validate E p)
  (\<lambda>u w'. database w' = database w \<and> (\<exists>a. currentAccount p w a \<and> u = payloadOf a))
  (rejectedFrom w exposed) w"
  by (auto simp: validate_def findAdmin_def wp_simps currentAccount_def adminsOf_def
      audit.order_refl statuses split: option.split dest: find_Some_member)

lemma roleGuard_wp:
  assumes "currentAccount p w a" "database w1 = database w" "roles \<noteq> []"
  shows "wp (bind (canActivate E roles (Some (payloadOf a)) ctx url)
      (\<lambda>ok. if ok then ret (Some (payloadOf a)) else throw (Forbidden ''Forbidden resource'')))
    (\<lambda>user w'. admittedAs w (Some p) roles user) (rejectedFrom w exposed) w1"
  unfolding wp_bind
  by (rule wp_mono [OF canActivate_checked])
    (use assms in \<open>auto simp: wp_simps statuses payloadOf_def\<close>)

lemma enter_wp:
  assumes "rt_jwt rt" "rt_guarded rt" "rt_roles rt \<noteq> []"
  shows "wp (enter E rt token ctx url) (\<lambda>user w'. admittedAs w token (rt_roles rt) user)
    (rejectedFrom w exposed) w"
proof (cases token)
  case None
  then show ?thesis
    using assms by (simp add: enter_def wp_simps audit.order_refl statuses)
next
  case (Some p)
  have "wp (validate E p)
      (\<lambda>u w1. wp (bind (canActivate E (rt_roles rt) (Some u) ctx url)
          (\<lambda>ok. if ok then ret (Some u) else throw (Forbidden ''Forbidden resource'')))
        (\<lambda>user w'. admittedAs w token (rt_roles rt) user) (rejectedFrom w exposed) w1)
      (rejectedFrom w exposed) w"
  proof (rule wp_mono [OF validate_checked])
    fix u and w1 :: world
    assume "database w1 = database w \<and> (\<exists>a. currentAccount p w a \<and> u = payloadOf a)"
    then obtain a where a: "currentAccount p w a" "u = payloadOf a" "database w1 = database w" by auto
    show "wp (bind (canActivate E (rt_roles rt) (Some u) ctx url)
          (\<lambda>ok. if ok then ret (Some u) else throw (Forbidden ''Forbidden resource'')))
        (\<lambda>user w'. admittedAs w token (rt_roles rt) user) (rejectedFrom w exposed) w1"
      unfolding Some a(2) by (rule roleGuard_wp [OF a(1) a(3) assms(3)])
  qed
  then show ?thesis
    using assms(1,2) Some by (simp add: enter_def wp_bind wp_ret_fun)
qed

text \<open>
  C9. Safety: the interface admits no write by the wrong account. A request that resolves to any
  route other than a read, the login and the public lookups either is refused (401, 403, 429, or 500
  when the database fails), with every table but the audit log as it was, or came with a token for
  the current version of a stored active account whose stored role is OWNER or SUPER_ADMIN, or ADMIN
  where the route is one of those that issue; never an AUDITOR. A request matches at most one route,
  in whatever order the modules register them.
\<close>

theorem writes_need_current_writer:
  assumes "rt \<in> set routes" "rt_method rt \<noteq> MGet" "rt_name rt \<notin> set publicWrites"
    and "serve E R L exposed rt ic e body s w = ((status, v), s', w')"
  shows "((status \<in> {401, 403, 429, 500} \<and> sameButAudit (database w) (database w')) \<or>
      (\<exists>p a. ic_token ic = Some p \<and> currentAccount p w a \<and>
         a_role a \<in> {OWNER, SUPER_ADMIN} \<union> (if rt_name rt \<in> set writerRoutes then {ADMIN} else {}))) \<and>
    (\<forall>path. matches (rt_path rt) path \<longrightarrow> resolve (rt_method rt) path = Some rt)"
proof (rule conjI)
  have row: "rt_jwt rt" "rt_guarded rt" "rt_roles rt \<noteq> []"
    "set (rt_roles rt) = {OWNER, SUPER_ADMIN} \<union> (if rt_name rt \<in> set writerRoutes then {ADMIN} else {})"
    using route_table_row [OF assms(1-3)] by (auto simp: writers_def managers_def)
  have "wp (enter E rt (ic_token ic) (ic_context ic) (ic_url ic))
      (\<lambda>user w'. admittedAs w (ic_token ic) (rt_roles rt) user) (rejectedFrom w exposed) w"
    by (rule enter_wp [OF row(1-3)])
  then show "(status \<in> {401, 403, 429, 500} \<and> sameButAudit (database w) (database w')) \<or>
      (\<exists>p a. ic_token ic = Some p \<and> currentAccount p w a \<and>
         a_role a \<in> {OWNER, SUPER_ADMIN} \<union> (if rt_name rt \<in> set writerRoutes then {ADMIN} else {}))"
    using assms(4) row(4)
    by (auto simp: serve_def wp_def respond_def bind_def catchException_def Let_def audit.order_refl
        split: prod.splits sum.splits option.splits)
  show "\<forall>path. matches (rt_path rt) path \<longrightarrow> resolve (rt_method rt) path = Some rt"
    unfolding resolve_def using disjoint_find [OF routes_disjoint assms(1)] by blast
qed

definition sampleIncoming :: "AdminRole \<Rightarrow> incoming" where
  "sampleIncoming role = \<lparr>ic_request = \<lparr>rq_cfConnectingIp = None, rq_forwardedFor = None, rq_ip = Some ''::1'',
       rq_remoteAddress = None\<rparr>,
     ic_filtered = \<lparr>fr_method = ''DELETE'', fr_path = ''/api/credentials/c1'', fr_actorId = None, fr_ip = None\<rparr>,
     ic_token = Some (payloadOf (sampleAdmin ''a'' role True)), ic_context = noContext,
     ic_url = ''DELETE /api/credentials/c1''\<rparr>"

definition removalRoute :: route where
  "removalRoute = routeOf CredentialController (ct_handlers CredentialController ! 6)"

lemma removalRoute_simps: "removalRoute \<in> set routes" "rt_method removalRoute = MDelete"
  "rt_name removalRoute = ''CredentialController.remove''"
  by (simp_all add: removalRoute_def routes_def controllers_def CredentialController_def adminController_def
      routeOf_def requires_def handler_def uploads_def)

theorem writes_need_current_writer_witness:
  "\<forall>E (R :: unit redis) L e body s. case serve E R L True removalRoute (sampleIncoming AUDITOR) e body s
       (accountsWorld [sampleAdmin ''a'' AUDITOR True]) of
     ((status, v), s', w') \<Rightarrow> status \<in> {401, 403, 429, 500} \<and>
       credentials (database w') = [] \<and> adminsOf w' = [sampleAdmin ''a'' AUDITOR True]"
proof -
  have "status \<in> {401, 403, 429, 500} \<and> credentials (database w') = [] \<and>
      adminsOf w' = [sampleAdmin ''a'' AUDITOR True]"
    if "serve E R L True removalRoute (sampleIncoming AUDITOR) e body s
      (accountsWorld [sampleAdmin ''a'' AUDITOR True]) = ((status, v), s', w')"
    for E :: env and R :: "unit redis" and L e body s s' status v w'
    using writes_need_current_writer [OF removalRoute_simps(1) _ _ that]
    by (auto simp: removalRoute_simps publicWrites_def writerRoutes_def currentAccount_def sampleAdmin_def
        adminsOf_def accountsWorld_def emptyWorld_def emptyDb_def dest: sameButAudit_fields(2,4))
  then show ?thesis by (simp split: prod.splits)
qed

end
