(* ===== verification/Bff.thy ===== *)
theory Bff
  imports Routes
begin

text \<open>
  The server side of the web application (\<open>apps/web/src\<close>): the configuration guard of
  \<open>lib/env-rule.ts\<close>, the calls to the API and \<open>bffProxy\<close> of \<open>lib/api.ts\<close>, and every route handler
  under \<open>app/api\<close> and \<open>app/well-known\<close>. A handler either answers by itself or sends one request to
  the API and makes its answer from what comes back: \<open>plan\<close>. A request to the API is its method, its
  path after the base URL, its headers and body; what comes back is absent when the API is not
  reached. Reading a JSON body that is none throws, and the framework answers 500. Caching options
  of a fetch have no effect on a server and are not represented.
\<close>

subsection \<open>Requests and answers\<close>

datatype formValue = FormText string | FormFile string string

datatype backendBody = NoBody | JsonText "value" | FormData "(string \<times> formValue) list"

record backendRequest =
  bq_method :: httpMethod
  bq_path :: string
  bq_headers :: "(string \<times> string) list"
  bq_body :: backendBody

record backendResponse =
  br_status :: int
  br_statusText :: string
  br_json :: "value option"
  br_bytes :: string
  br_contentType :: "string option"

datatype webBody = Json "value" | Pretty "value" | Raw string | Empty

record cookie =
  ck_name :: string
  ck_value :: string
  ck_httpOnly :: bool
  ck_sameSite :: string
  ck_secure :: bool
  ck_path :: string
  ck_maxAge :: "int option"

record webResponse =
  ws_status :: int
  ws_body :: webBody
  ws_headers :: "(string \<times> string) list"
  ws_cookies :: "cookie list"
  ws_location :: "string option"

record webRequest =
  wq_token :: "string option"
  wq_id :: string
  wq_json :: "value option"
  wq_query :: "(string \<times> string) list"
  wq_form :: "(string \<times> formValue) list"

datatype plan = Respond webResponse
  | Forward backendRequest "backendResponse option \<Rightarrow> webResponse"

fun forwarded :: "plan \<Rightarrow> backendRequest option" where
  "forwarded (Respond r) = None"
| "forwarded (Forward q k) = Some q"

fun runPlan :: "(backendRequest \<Rightarrow> backendResponse option) \<Rightarrow> plan \<Rightarrow> webResponse" where
  "runPlan B (Respond r) = r"
| "runPlan B (Forward q k) = k (B q)"

definition jsonAnswer :: "int \<Rightarrow> value \<Rightarrow> webResponse" where
  "jsonAnswer status v = \<lparr>ws_status = status, ws_body = Json v, ws_headers = [], ws_cookies = [],
     ws_location = None\<rparr>"

definition messageAnswer :: "int \<Rightarrow> string \<Rightarrow> webResponse" where
  "messageAnswer status m = jsonAnswer status (VObj [(''message'', VStr m)])"

definition bare :: "int \<Rightarrow> webResponse" where
  "bare status = \<lparr>ws_status = status, ws_body = Empty, ws_headers = [], ws_cookies = [],
     ws_location = None\<rparr>"

definition isOk :: "backendResponse \<Rightarrow> bool" where
  "isOk r \<longleftrightarrow> 200 \<le> br_status r \<and> br_status r \<le> 299"

subsection \<open>The environment of the web server\<close>

record webEnv =
  we_nextPhase :: "string option"
  we_nodeEnv :: "string option"
  we_cookieSecure :: "string option"
  we_internalApiUrl :: "string option"
  we_apiBaseUrl :: "string option"

definition isBuildPhase :: "webEnv \<Rightarrow> bool" where
  "isBuildPhase V \<longleftrightarrow> we_nextPhase V = Some ''phase-production-build''"

definition webEnvError :: "webEnv \<Rightarrow> string option" where
  "webEnvError V = (if isBuildPhase V then None
     else if we_nodeEnv V \<noteq> Some ''production'' then None
     else if we_cookieSecure V \<noteq> Some ''true'' then
       Some (''COOKIE_SECURE must be \"true\" when NODE_ENV=production. Got '' @
         (case we_cookieSecure V of None \<Rightarrow> ''null'' | Some s \<Rightarrow> jsonString s) @ ''. '' @
         ''Leaving it unset sends the certiva_access_token cookie over plain '' @
         ''HTTP with no warning '' @ [CHR 0x2D] @ '' set COOKIE_SECURE=true, or run with '' @
         ''NODE_ENV=development for local HTTP.'')
     else None)"

text \<open>Importing \<open>lib/env\<close> throws, the start-up hook ends the process; \<open>cookieSecure\<close> otherwise.\<close>

definition assertWebEnv :: "webEnv \<Rightarrow> string + bool" where
  "assertWebEnv V = (case webEnvError V of Some m \<Rightarrow> Inl m
     | None \<Rightarrow> Inr (we_cookieSecure V = Some ''true''))"

definition assertWebEnvOrExit :: "webEnv \<Rightarrow> int option" where
  "assertWebEnvOrExit V = (case webEnvError V of Some m \<Rightarrow> Some 1 | None \<Rightarrow> None)"

definition webApiBaseUrl :: "webEnv \<Rightarrow> string" where
  "webApiBaseUrl V = orElse (nullish (we_internalApiUrl V) (we_apiBaseUrl V)) ''http://localhost:4000/api''"

subsection \<open>Percent encoding\<close>

definition percent :: "nat \<Rightarrow> string" where
  "percent n = CHR ''%'' # toUpperCase [hexDigit (n div 16), hexDigit (n mod 16)]"

text \<open>The UTF-8 octets of a Latin-1 character, each percent-encoded; \<open>encodeURIComponent\<close>.\<close>

definition percentUtf8 :: "char \<Rightarrow> string" where
  "percentUtf8 c = (let n = (of_char c :: nat) in
     if n < 128 then percent n else percent (192 + n div 64) @ percent (128 + n mod 64))"

definition alphaNum :: "char \<Rightarrow> bool" where
  "alphaNum c \<longleftrightarrow> (let n = (of_char c :: nat) in
     48 \<le> n \<and> n \<le> 57 \<or> 65 \<le> n \<and> n \<le> 90 \<or> 97 \<le> n \<and> n \<le> 122)"

definition encodeUriPart :: "string \<Rightarrow> string" where
  "encodeUriPart s = concat (map (\<lambda>c.
     if alphaNum c \<or> c \<in> set ''-_.!~*()'' \<or> c = CHR 0x27 then [c] else percentUtf8 c) s)"

text \<open>\<open>URLSearchParams.toString()\<close>\<close>

definition formEncode :: "string \<Rightarrow> string" where
  "formEncode s = concat (map (\<lambda>c. if alphaNum c \<or> c \<in> set ''*-._'' then [c]
     else if c = CHR '' '' then ''+'' else percentUtf8 c) s)"

definition searchParams :: "(string \<times> string) list \<Rightarrow> string" where
  "searchParams q = join ''&'' (map (\<lambda>(k, v). formEncode k @ ''='' @ formEncode v) q)"

definition withQuery :: "string \<Rightarrow> string" where
  "withQuery qs = (if qs = [] then [] else CHR ''?'' # qs)"

subsection \<open>Calls to the API\<close>

definition backendCall :: "httpMethod \<Rightarrow> string \<Rightarrow> string option \<Rightarrow> backendBody \<Rightarrow> backendRequest" where
  "backendCall m p token b = \<lparr>bq_method = m, bq_path = p,
     bq_headers = (case b of JsonText v \<Rightarrow> [(''Content-Type'', ''application/json'')] | _ \<Rightarrow> []) @
       (case token of Some t \<Rightarrow> [(''Authorization'', ''Bearer '' @ t)] | None \<Rightarrow> []),
     bq_body = b\<rparr>"

definition withoutKeys :: "string list \<Rightarrow> value \<Rightarrow> value" where
  "withoutKeys ks v = (case v of VObj kvs \<Rightarrow> VObj (filter (\<lambda>kv. fst kv \<notin> set ks) kvs)
     | VArr vs \<Rightarrow> VObj (map (\<lambda>(i, x). (showNat i, x)) (enumerate 0 vs)) | _ \<Rightarrow> v)"

definition isObject :: "value \<Rightarrow> bool" where
  "isObject v \<longleftrightarrow> (case v of VObj kvs \<Rightarrow> True | VArr vs \<Rightarrow> True | _ \<Rightarrow> False)"

text \<open>What \<open>bffProxy\<close> makes of the outcome of a call.\<close>

definition bffProxy :: "bool \<Rightarrow> backendResponse option \<Rightarrow> webResponse" where
  "bffProxy sanitize5xx outcome = (case outcome of
     None \<Rightarrow> messageAnswer 503 ''Service unavailable''
   | Some r \<Rightarrow> (case br_json r of
       None \<Rightarrow> messageAnswer 502 ''Invalid response from service''
     | Some payload \<Rightarrow>
         (if sanitize5xx \<and> br_status r \<ge> 500
          then messageAnswer (br_status r) ''An error occurred. Please try again.''
          else if \<not> isOk r \<and> isObject payload
          then jsonAnswer (br_status r) (withoutKeys [''path'', ''timestamp''] payload)
          else jsonAnswer (br_status r) payload)))"

definition proxied :: "backendRequest \<Rightarrow> plan" where
  "proxied q = Forward q (bffProxy True)"

definition withSession :: "webRequest \<Rightarrow> (string \<Rightarrow> plan) \<Rightarrow> plan" where
  "withSession rq f = (if truthy (wq_token rq) then f (the (wq_token rq))
     else Respond (messageAnswer 401 ''Unauthorized''))"

definition withJson :: "webRequest \<Rightarrow> (value \<Rightarrow> plan) \<Rightarrow> plan" where
  "withJson rq f = (case wq_json rq of None \<Rightarrow> Respond (bare 500) | Some b \<Rightarrow> f b)"

definition sessionGet :: "string \<Rightarrow> webRequest \<Rightarrow> plan" where
  "sessionGet p rq = withSession rq (\<lambda>t. proxied (backendCall MGet p (Some t) NoBody))"

definition sessionSend :: "httpMethod \<Rightarrow> string \<Rightarrow> webRequest \<Rightarrow> plan" where
  "sessionSend m p rq = withSession rq (\<lambda>t. proxied (backendCall m p (Some t) NoBody))"

definition sessionJson :: "httpMethod \<Rightarrow> string \<Rightarrow> webRequest \<Rightarrow> plan" where
  "sessionJson m p rq = withSession rq (\<lambda>t. withJson rq (\<lambda>b.
     proxied (backendCall m p (Some t) (JsonText b))))"

subsection \<open>Handlers behind the session\<close>

definition adminsIdPatch :: "webRequest \<Rightarrow> plan" where
  "adminsIdPatch rq = sessionJson MPatch (''/auth/admins/'' @ wq_id rq) rq"

definition adminsIdDelete :: "webRequest \<Rightarrow> plan" where
  "adminsIdDelete rq = sessionSend MDelete (''/auth/admins/'' @ wq_id rq) rq"

definition adminsGet :: "webRequest \<Rightarrow> plan" where
  "adminsGet rq = sessionGet ''/auth/admins'' rq"

definition adminsPost :: "webRequest \<Rightarrow> plan" where
  "adminsPost rq = sessionJson MPost ''/auth/register'' rq"

definition auditActivityGet :: "webRequest \<Rightarrow> plan" where
  "auditActivityGet rq = sessionGet
     (''/audit/dashboard/activity'' @ withQuery (searchParams (wq_query rq))) rq"

definition auditAnalyticsGet :: "webRequest \<Rightarrow> plan" where
  "auditAnalyticsGet rq = sessionGet (''/audit/dashboard/analytics?days='' @
     encodeUriPart (orElse (map_of (wq_query rq) ''days'') ''7'')) rq"

definition auditMetricsGet :: "webRequest \<Rightarrow> plan" where
  "auditMetricsGet rq = sessionGet ''/audit/dashboard/metrics'' rq"

definition auditQueueGet :: "webRequest \<Rightarrow> plan" where
  "auditQueueGet rq = sessionGet ''/audit/dashboard/queue'' rq"

definition auditLogsGet :: "webRequest \<Rightarrow> plan" where
  "auditLogsGet rq = (let limit = map_of (wq_query rq) ''limit'' in
     sessionGet (''/audit/logs'' @
       (if truthy limit then ''?limit='' @ encodeUriPart (the limit) else [])) rq)"

definition attachment :: "string \<Rightarrow> string" where
  "attachment name = ''attachment; filename='' @ [CHR 0x22] @ name @ [CHR 0x22]"

definition auditExportGet :: "string \<Rightarrow> webRequest \<Rightarrow> plan" where
  "auditExportGet date rq = withSession rq (\<lambda>t.
     Forward (backendCall MGet ''/audit/dashboard/export'' (Some t) NoBody) (\<lambda>outcome. case outcome of
       None \<Rightarrow> messageAnswer 503 ''Service unavailable''
     | Some r \<Rightarrow> (if \<not> isOk r then messageAnswer (br_status r) ''Export failed''
         else \<lparr>ws_status = 200, ws_body = Raw (br_bytes r),
           ws_headers = [(''Content-Type'', ''text/csv''),
             (''Content-Disposition'', attachment (''certiva-credentials-'' @ date @ ''.csv''))],
           ws_cookies = [], ws_location = None\<rparr>)))"

definition credentialRevokePatch :: "webRequest \<Rightarrow> plan" where
  "credentialRevokePatch rq = sessionJson MPatch (''/credentials/'' @ wq_id rq @ ''/revoke'') rq"

definition credentialDelete :: "webRequest \<Rightarrow> plan" where
  "credentialDelete rq = sessionSend MDelete (''/credentials/'' @ wq_id rq) rq"

definition credentialsBulkDeletePost :: "webRequest \<Rightarrow> plan" where
  "credentialsBulkDeletePost rq = sessionJson MPost ''/credentials/bulk-delete'' rq"

definition credentialsBulkRevokePost :: "webRequest \<Rightarrow> plan" where
  "credentialsBulkRevokePost rq = sessionJson MPost ''/credentials/bulk-revoke'' rq"

definition credentialsBulkPost :: "webRequest \<Rightarrow> plan" where
  "credentialsBulkPost rq = sessionJson MPost ''/credentials/bulk'' rq"

definition credentialsPost :: "webRequest \<Rightarrow> plan" where
  "credentialsPost rq = sessionJson MPost ''/credentials'' rq"

definition documentProofDelete :: "webRequest \<Rightarrow> plan" where
  "documentProofDelete rq = sessionSend MDelete (''/document-proofs/'' @ wq_id rq) rq"

definition documentProofsBulkDeletePost :: "webRequest \<Rightarrow> plan" where
  "documentProofsBulkDeletePost rq = sessionJson MPost ''/document-proofs/bulk-delete'' rq"

definition documentProofsGet :: "webRequest \<Rightarrow> plan" where
  "documentProofsGet rq = sessionGet ''/document-proofs'' rq"

text \<open>\<open>FormData.set\<close> on a form that has each name once.\<close>

definition formSet :: "(string \<times> formValue) list \<Rightarrow> string \<times> formValue \<Rightarrow> (string \<times> formValue) list" where
  "formSet form kv = (if fst kv \<in> fst ` set form
     then map (\<lambda>e. if fst e = fst kv then kv else e) form else form @ [kv])"

definition documentProofsPost :: "webRequest \<Rightarrow> plan" where
  "documentProofsPost rq = withSession rq (\<lambda>t.
     proxied (backendCall MPost ''/document-proofs'' (Some t) (FormData (foldl formSet [] (wq_form rq)))))"

definition institutionGet :: "webRequest \<Rightarrow> plan" where
  "institutionGet rq = sessionGet ''/institution'' rq"

definition institutionPatch :: "webRequest \<Rightarrow> plan" where
  "institutionPatch rq = sessionJson MPatch ''/institution'' rq"

definition signingKeysRotatePost :: "webRequest \<Rightarrow> plan" where
  "signingKeysRotatePost rq = sessionSend MPost ''/institution/signing-keys/rotate'' rq"

subsection \<open>Public handlers\<close>

text \<open>An image or a PDF passed on, and an asset as JSON; failures carry no body.\<close>

definition passBytes :: "(backendResponse \<Rightarrow> (string \<times> string) list) \<Rightarrow> backendResponse option \<Rightarrow> webResponse" where
  "passBytes headers outcome = (case outcome of
     None \<Rightarrow> bare 503
   | Some r \<Rightarrow> (if \<not> isOk r then bare (br_status r)
       else (bare 200)\<lparr>ws_body := Raw (br_bytes r), ws_headers := headers r\<rparr>))"

definition imageHeaders :: "backendResponse \<Rightarrow> (string \<times> string) list" where
  "imageHeaders r = [(''Content-Type'', orElse (br_contentType r) ''image/png''),
     (''Cache-Control'', ''public, max-age=3600'')]"

definition passJson :: "backendResponse option \<Rightarrow> webResponse" where
  "passJson outcome = (case outcome of
     None \<Rightarrow> bare 503
   | Some r \<Rightarrow> (if \<not> isOk r then bare (br_status r)
       else case br_json r of None \<Rightarrow> bare 502 | Some payload \<Rightarrow> jsonAnswer 200 payload))"

definition credentialMetadataGet :: "webRequest \<Rightarrow> plan" where
  "credentialMetadataGet rq = Forward
     (backendCall MGet (''/credentials/'' @ encodeUriPart (wq_id rq) @ ''/metadata'') None NoBody) passJson"

definition credentialQrGet :: "webRequest \<Rightarrow> plan" where
  "credentialQrGet rq = Forward
     (backendCall MGet (''/credentials/'' @ encodeUriPart (wq_id rq) @ ''/qr'') None NoBody)
     (passBytes imageHeaders)"

definition documentMetadataGet :: "webRequest \<Rightarrow> plan" where
  "documentMetadataGet rq = Forward
     (backendCall MGet (''/document-proofs/'' @ encodeUriPart (wq_id rq) @ ''/metadata'') None NoBody)
     passJson"

definition documentQrGet :: "webRequest \<Rightarrow> plan" where
  "documentQrGet rq = Forward
     (backendCall MGet (''/document-proofs/'' @ encodeUriPart (wq_id rq) @ ''/qr'') None NoBody)
     (passBytes imageHeaders)"

definition certificateGet :: "webRequest \<Rightarrow> plan" where
  "certificateGet rq = Forward
     (backendCall MGet (''/verify/'' @ encodeUriPart (wq_id rq) @ ''/certificate'') None NoBody)
     (passBytes (\<lambda>r. [(''Content-Type'', ''application/pdf''),
       (''Content-Disposition'', ''inline; filename='' @ [CHR 0x22] @ ''certificate-'' @ wq_id rq @ ''.pdf'' @
         [CHR 0x22])]))"

text \<open>The downloads of the proof bundle, of the verifiable credential and of the DID document.\<close>

definition download :: "(backendResponse \<Rightarrow> string) \<Rightarrow> (string \<times> string) list \<Rightarrow>
    backendResponse option \<Rightarrow> webResponse" where
  "download refusal headers outcome = (case outcome of
     None \<Rightarrow> messageAnswer 503 ''Service unavailable''
   | Some r \<Rightarrow> (if \<not> isOk r then messageAnswer (br_status r) (refusal r)
       else case br_json r of
         None \<Rightarrow> messageAnswer 502 ''Invalid response from service''
       | Some payload \<Rightarrow> (bare 200)\<lparr>ws_body := Pretty payload, ws_headers := headers\<rparr>))"

definition proofGet :: "webRequest \<Rightarrow> plan" where
  "proofGet rq = Forward
     (backendCall MGet (''/verification/'' @ encodeUriPart (wq_id rq) @ ''/proof'') None NoBody)
     (download (\<lambda>r. ''Proof not available for this credential'')
       [(''Content-Type'', ''application/json''),
        (''Content-Disposition'', attachment (''certiva-proof-'' @ wq_id rq @ ''.json''))])"

definition vcGet :: "webRequest \<Rightarrow> plan" where
  "vcGet rq = Forward
     (backendCall MGet (''/verification/'' @ encodeUriPart (wq_id rq) @ ''/vc'') None NoBody)
     (download (\<lambda>r. if br_status r = 410 then ''This credential has been revoked''
         else ''Verifiable credential not available for this credential'')
       [(''Content-Type'', ''application/vc+ld+json''),
        (''Content-Disposition'', attachment (''certiva-vc-'' @ wq_id rq @ ''.jsonld''))])"

definition didGet :: "webRequest \<Rightarrow> plan" where
  "didGet rq = Forward (backendCall MGet ''/institution/did.json'' None NoBody)
     (download (\<lambda>r. ''DID document not available'')
       [(''Content-Type'', ''application/did+json''), (''Cache-Control'', ''public, max-age=300'')])"

text \<open>
  Uploads: only the file is passed on. The first of the three handlers keeps every member of an
  error payload, the other two drop \<open>path\<close> and \<open>timestamp\<close>.
\<close>

definition passUpload :: "bool \<Rightarrow> backendResponse option \<Rightarrow> webResponse" where
  "passUpload strip outcome = (case outcome of
     None \<Rightarrow> messageAnswer 503 ''Service unavailable''
   | Some r \<Rightarrow> (case br_json r of
       None \<Rightarrow> messageAnswer 502 ''Invalid response from service''
     | Some payload \<Rightarrow>
         (if br_status r \<ge> 500 then messageAnswer (br_status r) ''An error occurred. Please try again.''
          else if strip \<and> \<not> isOk r \<and> isObject payload
          then jsonAnswer (br_status r) (withoutKeys [''path'', ''timestamp''] payload)
          else jsonAnswer (br_status r) payload)))"

definition uploadTo :: "string \<Rightarrow> bool \<Rightarrow> webRequest \<Rightarrow> plan" where
  "uploadTo p strip rq = (case map_of (wq_form rq) ''file'' of
     Some (FormFile name bytes) \<Rightarrow> Forward
       (backendCall MPost p None (FormData [(''file'', FormFile name bytes)])) (passUpload strip)
   | _ \<Rightarrow> Respond (messageAnswer 400 ''A PDF file is required.''))"

definition verificationUploadPost :: "webRequest \<Rightarrow> plan" where
  "verificationUploadPost rq = uploadTo ''/verify/document'' False rq"

definition verifyCredentialPdfPost :: "webRequest \<Rightarrow> plan" where
  "verifyCredentialPdfPost rq = uploadTo ''/verify/credential/pdf'' True rq"

definition verifyDocumentPost :: "webRequest \<Rightarrow> plan" where
  "verifyDocumentPost rq = uploadTo ''/verify/document'' True rq"

definition verifyDocumentCodePost :: "webRequest \<Rightarrow> plan" where
  "verifyDocumentCodePost rq = withJson rq (\<lambda>b.
     proxied (backendCall MPost ''/verify/document/code'' None (JsonText b)))"

subsection \<open>The session\<close>

definition sessionCookie :: "bool \<Rightarrow> string \<Rightarrow> int option \<Rightarrow> cookie" where
  "sessionCookie cookieSecure v maxAge = \<lparr>ck_name = ''certiva_access_token'', ck_value = v,
     ck_httpOnly = True, ck_sameSite = ''strict'', ck_secure = cookieSecure, ck_path = ''/'',
     ck_maxAge = maxAge\<rparr>"

text \<open>\<open>body.username?.trim() || body.email\<close>; a name that is no text has no \<open>trim\<close> and throws.\<close>

definition loginName :: "value \<Rightarrow> value option" where
  "loginName body = (case vget body ''username'' of
     VStr u \<Rightarrow> Some (if trim u \<noteq> [] then VStr (trim u) else vget body ''email'')
   | VUndef \<Rightarrow> Some (vget body ''email'') | VNull \<Rightarrow> Some (vget body ''email'') | _ \<Rightarrow> None)"

definition loginBody :: "value \<Rightarrow> value \<Rightarrow> value" where
  "loginBody name body = VObj (filter (\<lambda>kv. snd kv \<noteq> VUndef)
     [(''username'', name), (''password'', vget body ''password'')])"

definition loginAnswer :: "bool \<Rightarrow> backendResponse option \<Rightarrow> webResponse" where
  "loginAnswer cookieSecure outcome = (case outcome of
     None \<Rightarrow> messageAnswer 503 ''Service unavailable''
   | Some r \<Rightarrow> (case br_json r of
       None \<Rightarrow> messageAnswer 502 ''Invalid response from service''
     | Some payload \<Rightarrow>
         (if payload = VNull then bare 500
          else if \<not> isOk r
          then messageAnswer (br_status r)
            (case vget payload ''message'' of VStr m \<Rightarrow> m | _ \<Rightarrow> ''Login failed'')
          else case vget payload ''accessToken'' of
            VStr token \<Rightarrow> (if token = [] then messageAnswer 502 ''Authentication error''
              else (jsonAnswer 200 (withoutKeys [''accessToken''] payload))
                \<lparr>ws_cookies := [sessionCookie cookieSecure token None]\<rparr>)
          | _ \<Rightarrow> messageAnswer 502 ''Authentication error'')))"

text \<open>A body \<open>null\<close> throws where its member is read.\<close>

definition loginPost :: "bool \<Rightarrow> webRequest \<Rightarrow> plan" where
  "loginPost cookieSecure rq = withJson rq (\<lambda>body.
     if body = VNull then Respond (bare 500)
     else case loginName body of
       None \<Rightarrow> Respond (bare 500)
     | Some name \<Rightarrow> Forward (backendCall MPost ''/auth/login'' None (JsonText (loginBody name body)))
         (loginAnswer cookieSecure))"

definition logoutPost :: "bool \<Rightarrow> webRequest \<Rightarrow> plan" where
  "logoutPost cookieSecure rq = Respond ((jsonAnswer 200 (VObj [(''success'', VBool True)]))
     \<lparr>ws_cookies := [sessionCookie cookieSecure [] (Some 0)]\<rparr>)"

definition clearGet :: "bool \<Rightarrow> webRequest \<Rightarrow> plan" where
  "clearGet cookieSecure rq = Respond ((bare 307)\<lparr>ws_location := Some ''/login'',
     ws_cookies := [sessionCookie cookieSecure [] (Some 0)]\<rparr>)"

subsection \<open>The handlers\<close>

text \<open>Every route file with its methods; \<open>date\<close> is the date of the export.\<close>

definition sessionHandlers :: "string \<Rightarrow> (string \<times> httpMethod \<times> (webRequest \<Rightarrow> plan)) list" where
  "sessionHandlers date =
     [(''admins/[id]'', MPatch, adminsIdPatch), (''admins/[id]'', MDelete, adminsIdDelete),
      (''admins'', MGet, adminsGet), (''admins'', MPost, adminsPost),
      (''audit/dashboard/activity'', MGet, auditActivityGet),
      (''audit/dashboard/analytics'', MGet, auditAnalyticsGet),
      (''audit/dashboard/metrics'', MGet, auditMetricsGet),
      (''audit/dashboard/queue'', MGet, auditQueueGet),
      (''audit/logs'', MGet, auditLogsGet), (''audit/export'', MGet, auditExportGet date),
      (''credentials/[id]/revoke'', MPatch, credentialRevokePatch),
      (''credentials/[id]'', MDelete, credentialDelete),
      (''credentials/bulk-delete'', MPost, credentialsBulkDeletePost),
      (''credentials/bulk-revoke'', MPost, credentialsBulkRevokePost),
      (''credentials/bulk'', MPost, credentialsBulkPost), (''credentials'', MPost, credentialsPost),
      (''document-proofs/[id]'', MDelete, documentProofDelete),
      (''document-proofs/bulk-delete'', MPost, documentProofsBulkDeletePost),
      (''document-proofs'', MGet, documentProofsGet), (''document-proofs'', MPost, documentProofsPost),
      (''institution'', MGet, institutionGet), (''institution'', MPatch, institutionPatch),
      (''institution/signing-keys/rotate'', MPost, signingKeysRotatePost)]"

definition publicHandlers :: "bool \<Rightarrow> (string \<times> httpMethod \<times> (webRequest \<Rightarrow> plan)) list" where
  "publicHandlers cookieSecure =
     [(''credentials/[id]/metadata'', MGet, credentialMetadataGet),
      (''credentials/[id]/qr'', MGet, credentialQrGet),
      (''document-proofs/[id]/metadata'', MGet, documentMetadataGet),
      (''document-proofs/[id]/qr'', MGet, documentQrGet),
      (''verify/[id]/certificate'', MGet, certificateGet),
      (''proof/[credentialId]'', MGet, proofGet), (''proof/[credentialId]/vc'', MGet, vcGet),
      (''well-known/did.json'', MGet, didGet),
      (''verification/upload'', MPost, verificationUploadPost),
      (''verify/credential/pdf'', MPost, verifyCredentialPdfPost),
      (''verify/document'', MPost, verifyDocumentPost),
      (''verify/document/code'', MPost, verifyDocumentCodePost),
      (''session/login'', MPost, loginPost cookieSecure),
      (''session/logout'', MPost, logoutPost cookieSecure),
      (''session/clear'', MGet, clearGet cookieSecure)]"

definition webHandlers :: "bool \<Rightarrow> string \<Rightarrow> (string \<times> httpMethod \<times> (webRequest \<Rightarrow> plan)) list" where
  "webHandlers cookieSecure date = sessionHandlers date @ publicHandlers cookieSecure"

end
