(* ===== verification/BffLaws.thy ===== *)
theory BffLaws
  imports Bff
begin

text \<open>
  What the web server guarantees about its calls to the API: each of them reaches a route the API
  has, with the session's token exactly where the route checks one; the access token of a login
  leaves the server only in the cookie; and none of the calls says which visitor it is made for.
\<close>

subsection \<open>The segments of a path\<close>

definition pathSegments :: "string \<Rightarrow> string list" where
  "pathSegments p = splitOn (CHR ''/'') (drop 1 (takeWhile (\<lambda>c. c \<noteq> CHR ''?'') p))"

text \<open>An identifier that is one segment of a path and survives the normalisation of a URL.\<close>

definition plainId :: "string \<Rightarrow> bool" where
  "plainId s \<longleftrightarrow> s \<noteq> [] \<and> set s \<inter> set ''/?#'' = {} \<and> s \<noteq> ''.'' \<and> s \<noteq> ''..''"

lemma splitOn_noSep: "d \<notin> set s \<Longrightarrow> splitOn d s = [s]"
  by (induction s) auto

lemma splitOn_segment: "d \<notin> set s \<Longrightarrow> splitOn d (s @ d # r) = s # splitOn d r"
  by (induction s) auto

definition encodedChars :: "char set" where
  "encodedChars = set ''%0123456789ABCDEF''"

lemma hexDigit_plain: "n < 16 \<Longrightarrow> set (upperChar (hexDigit n)) \<subseteq> encodedChars"
proof -
  assume "n < 16"
  then have "n \<in> set [0..<16]" by simp
  moreover have "list_all (\<lambda>n. set (upperChar (hexDigit n)) \<subseteq> encodedChars) [0..<16]"
    by code_simp
  ultimately show ?thesis by (simp only: list_all_iff)
qed

lemma percent_plain:
  assumes "n < 256"
  shows "set (percent n) \<subseteq> encodedChars"
proof -
  have "set (percent n) = insert (CHR ''%'')
      (set (upperChar (hexDigit (n div 16))) \<union> set (upperChar (hexDigit (n mod 16))))"
    by (simp add: percent_def toUpperCase_def)
  moreover have "CHR ''%'' \<in> encodedChars" by (simp add: encodedChars_def)
  moreover have "n div 16 < 16" "n mod 16 < 16" using assms by auto
  ultimately show ?thesis using hexDigit_plain by (metis Un_subset_iff insert_subset)
qed

lemma percentUtf8_plain: "set (percentUtf8 c) \<subseteq> encodedChars"
proof -
  have "(of_char c :: nat) < 256" by (metis of_char_mod_256 mod_less_divisor zero_less_numeral)
  moreover have "192 + n div 64 < 256" "128 + n mod 64 < 256" if "n < 256" for n :: nat
    using less_mult_imp_div_less [of n 4 64] mod_less_divisor [of 64 n] that by auto
  ultimately have "192 + (of_char c :: nat) div 64 < 256" "128 + (of_char c :: nat) mod 64 < 256"
    "(of_char c :: nat) < 256" by blast+
  note bytes = this [THEN percent_plain]
  show ?thesis using bytes by (simp add: percentUtf8_def Let_def)
qed

lemma encode_plain: "s \<noteq> [] \<Longrightarrow> encodeUriPart s \<noteq> []"
  "CHR ''/'' \<notin> set (encodeUriPart s)" "CHR ''?'' \<notin> set (encodeUriPart s)"
proof -
  have "CHR ''/'' \<notin> encodedChars" "CHR ''?'' \<notin> encodedChars" by (simp_all add: encodedChars_def)
  then have coded: "CHR ''/'' \<notin> set (percentUtf8 c)" "CHR ''?'' \<notin> set (percentUtf8 c)" for c
    using percentUtf8_plain by blast+
  show "CHR ''/'' \<notin> set (encodeUriPart s)" "CHR ''?'' \<notin> set (encodeUriPart s)"
    by (auto simp: encodeUriPart_def alphaNum_def Let_def coded split: if_splits)
  show "s \<noteq> [] \<Longrightarrow> encodeUriPart s \<noteq> []"
    by (cases s) (auto simp: encodeUriPart_def percentUtf8_def percent_def Let_def)
qed

subsection \<open>Every call reaches a route\<close>

definition reaches :: "httpMethod \<Rightarrow> seg list \<Rightarrow> bool \<Rightarrow> bool" where
  "reaches m tpl b \<longleftrightarrow> list_ex (\<lambda>rt. rt_method rt = m \<and> rt_path rt = tpl \<and> rt_jwt rt = b) routes"

lemma reaches_resolve:
  assumes "reaches m tpl b" and "matches tpl path"
  shows "\<exists>rt. resolve m path = Some rt \<and> rt_jwt rt = b"
proof -
  obtain rt where rt: "rt \<in> set routes" "rt_method rt = m" "rt_path rt = tpl" "rt_jwt rt = b"
    using assms(1) by (auto simp: reaches_def list_ex_iff)
  then have "resolve m path = Some rt"
    using disjoint_find [OF routes_disjoint rt(1), of path] assms(2) by (simp add: resolve_def)
  then show ?thesis using rt by blast
qed

text \<open>The routes the handlers call: those behind the token check, and the open ones.\<close>

definition guardedTemplates :: "(httpMethod \<times> seg list) list" where
  "guardedTemplates =
    [(MPatch, [Lit ''auth'', Lit ''admins'', Param ''id'']),
     (MDelete, [Lit ''auth'', Lit ''admins'', Param ''id'']),
     (MGet, [Lit ''auth'', Lit ''admins'']), (MPost, [Lit ''auth'', Lit ''register'']),
     (MGet, [Lit ''audit'', Lit ''dashboard'', Lit ''activity'']),
     (MGet, [Lit ''audit'', Lit ''dashboard'', Lit ''analytics'']),
     (MGet, [Lit ''audit'', Lit ''dashboard'', Lit ''metrics'']),
     (MGet, [Lit ''audit'', Lit ''dashboard'', Lit ''queue'']),
     (MGet, [Lit ''audit'', Lit ''dashboard'', Lit ''export'']),
     (MGet, [Lit ''audit'', Lit ''logs'']),
     (MPatch, [Lit ''credentials'', Param ''id'', Lit ''revoke'']),
     (MDelete, [Lit ''credentials'', Param ''id'']),
     (MPost, [Lit ''credentials'', Lit ''bulk-delete'']),
     (MPost, [Lit ''credentials'', Lit ''bulk-revoke'']),
     (MPost, [Lit ''credentials'', Lit ''bulk'']), (MPost, [Lit ''credentials'']),
     (MDelete, [Lit ''document-proofs'', Param ''id'']),
     (MPost, [Lit ''document-proofs'', Lit ''bulk-delete'']),
     (MGet, [Lit ''document-proofs'']), (MPost, [Lit ''document-proofs'']),
     (MGet, [Lit ''institution'']), (MPatch, [Lit ''institution'']),
     (MPost, [Lit ''institution'', Lit ''signing-keys'', Lit ''rotate''])]"

lemma guarded_routes: "list_all (\<lambda>(m, tpl). reaches m (Lit ''api'' # tpl) True) guardedTemplates"
  by code_simp

definition openTemplates :: "(httpMethod \<times> seg list) list" where
  "openTemplates =
    [(MGet, [Lit ''credentials'', Param ''id'', Lit ''metadata'']),
     (MGet, [Lit ''credentials'', Param ''id'', Lit ''qr'']),
     (MGet, [Lit ''document-proofs'', Param ''id'', Lit ''metadata'']),
     (MGet, [Lit ''document-proofs'', Param ''id'', Lit ''qr'']),
     (MGet, [Lit ''verify'', Param ''verificationId'', Lit ''certificate'']),
     (MGet, [Lit ''verification'', Param ''credentialId'', Lit ''proof'']),
     (MGet, [Lit ''verification'', Param ''credentialId'', Lit ''vc'']),
     (MGet, [Lit ''institution'', Lit ''did.json'']),
     (MPost, [Lit ''verify'', Lit ''document'']),
     (MPost, [Lit ''verify'', Lit ''credential'', Lit ''pdf'']),
     (MPost, [Lit ''verify'', Lit ''document'', Lit ''code'']),
     (MPost, [Lit ''auth'', Lit ''login''])]"

lemma open_routes: "list_all (\<lambda>(m, tpl). reaches m (Lit ''api'' # tpl) False) openTemplates"
  by code_simp

text \<open>What a call of a handler should be: to a route the API has, with the token just where it is checked.\<close>

definition properCall :: "webRequest \<Rightarrow> backendRequest \<Rightarrow> bool" where
  "properCall rq q \<longleftrightarrow> (\<exists>rt. resolve (bq_method q) (''api'' # pathSegments (bq_path q)) = Some rt \<and>
     map_of (bq_headers q) ''Authorization'' =
       (if rt_jwt rt then Some (''Bearer '' @ the (wq_token rq)) else None) \<and>
     (rt_jwt rt \<longrightarrow> truthy (wq_token rq)))"

lemma proper_guarded:
  assumes "reaches m (Lit ''api'' # tpl) True" and "matches tpl (pathSegments p)" and "truthy (wq_token rq)"
  shows "properCall rq (backendCall m p (Some (the (wq_token rq))) b)"
  using reaches_resolve [OF assms(1), of "''api'' # pathSegments p"] assms(2,3)
  by (auto simp: properCall_def backendCall_def split: backendBody.split)

lemma proper_open:
  assumes "reaches m (Lit ''api'' # tpl) False" and "matches tpl (pathSegments p)"
  shows "properCall rq (backendCall m p None b)"
  using reaches_resolve [OF assms(1), of "''api'' # pathSegments p"] assms(2)
  by (auto simp: properCall_def backendCall_def split: backendBody.split)

text \<open>Plans whose call, if any, is proper.\<close>

definition properPlan :: "webRequest \<Rightarrow> plan \<Rightarrow> bool" where
  "properPlan rq p \<longleftrightarrow> (case forwarded p of None \<Rightarrow> True | Some q \<Rightarrow> properCall rq q)"

text \<open>A path is called when one of the templates for its method matches it.\<close>

definition listed :: "(httpMethod \<times> seg list) list \<Rightarrow> httpMethod \<Rightarrow> string \<Rightarrow> bool" where
  "listed ts m p \<longleftrightarrow> list_ex (\<lambda>(m', tpl). m' = m \<and> matches tpl (pathSegments p)) ts"

lemma proper_session:
  assumes "listed guardedTemplates m p"
  shows "properPlan rq (sessionSend m p rq)" "properPlan rq (sessionJson m p rq)"
    and "properPlan rq (withSession rq (\<lambda>t. Forward (backendCall m p (Some t) b) k))"
    and "m = MGet \<Longrightarrow> properPlan rq (sessionGet p rq)"
proof -
  obtain tpl where "reaches m (Lit ''api'' # tpl) True" and "matches tpl (pathSegments p)"
    using assms guarded_routes by (auto simp: listed_def list_ex_iff list_all_iff)
  note call = proper_guarded [OF this]
  show "properPlan rq (sessionSend m p rq)" "properPlan rq (sessionJson m p rq)"
    "properPlan rq (withSession rq (\<lambda>t. Forward (backendCall m p (Some t) b) k))"
    "m = MGet \<Longrightarrow> properPlan rq (sessionGet p rq)"
    using call by (auto simp: properPlan_def sessionSend_def sessionJson_def sessionGet_def
        withSession_def withJson_def proxied_def split: option.split)
qed

lemma proper_forward:
  assumes "listed openTemplates m p"
  shows "properPlan rq (Forward (backendCall m p None b) k)"
proof -
  obtain tpl where "reaches m (Lit ''api'' # tpl) False" and "matches tpl (pathSegments p)"
    using assms open_routes by (auto simp: listed_def list_ex_iff list_all_iff)
  then show ?thesis using proper_open by (simp add: properPlan_def)
qed

lemma proper_respond: "properPlan rq (Respond r)"
  by (simp add: properPlan_def)

subsection \<open>The paths of the handlers\<close>

lemma take_path: "CHR ''?'' \<notin> set s \<Longrightarrow>
  takeWhile (\<lambda>c. c \<noteq> CHR ''?'') (s @ r) = s @ takeWhile (\<lambda>c. c \<noteq> CHR ''?'') r"
  by (rule takeWhile_append2) auto

lemma take_word: "CHR ''?'' \<notin> set s \<Longrightarrow> takeWhile (\<lambda>c. c \<noteq> CHR ''?'') s = s"
  by (rule takeWhile_eq_all_conv [THEN iffD2]) auto

lemma plainId_chars: "plainId s \<Longrightarrow> s \<noteq> [] \<and> CHR ''/'' \<notin> set s \<and> CHR ''?'' \<notin> set s"
  by (auto simp: plainId_def)

lemma withQuery_cut: "takeWhile (\<lambda>c. c \<noteq> CHR ''?'') (withQuery qs) = []"
  by (simp add: withQuery_def)

lemmas path_simps = pathSegments_def take_path take_word splitOn_noSep splitOn_segment encode_plain
  withQuery_cut

lemmas session_handlers = adminsIdPatch_def adminsIdDelete_def adminsGet_def adminsPost_def
  auditActivityGet_def auditAnalyticsGet_def auditMetricsGet_def auditQueueGet_def auditLogsGet_def
  auditExportGet_def
  credentialRevokePatch_def credentialDelete_def credentialsBulkDeletePost_def
  credentialsBulkRevokePost_def credentialsBulkPost_def credentialsPost_def documentProofDelete_def
  documentProofsBulkDeletePost_def documentProofsGet_def documentProofsPost_def institutionGet_def
  institutionPatch_def signingKeysRotatePost_def

lemmas open_handlers = credentialMetadataGet_def credentialQrGet_def documentMetadataGet_def
  documentQrGet_def certificateGet_def proofGet_def vcGet_def didGet_def verificationUploadPost_def
  verifyCredentialPdfPost_def verifyDocumentPost_def verifyDocumentCodePost_def uploadTo_def
  loginPost_def logoutPost_def clearGet_def withJson_def proxied_def

lemma session_proper:
  assumes "plainId (wq_id rq)"
  shows "list_all (\<lambda>(n, m, h). properPlan rq (h rq)) (sessionHandlers date)"
proof -
  note id = plainId_chars [OF assms]
  show ?thesis
    unfolding sessionHandlers_def list.pred_inject prod.case session_handlers Let_def proxied_def
    by (intro conjI TrueI list.pred_inject(1); rule proper_session)
      (simp_all add: listed_def guardedTemplates_def path_simps id)
qed

lemma public_proper:
  assumes "plainId (wq_id rq)"
  shows "list_all (\<lambda>(n, m, h). properPlan rq (h rq)) (publicHandlers cookieSecure)"
proof -
  note id = plainId_chars [OF assms]
  show ?thesis
    unfolding publicHandlers_def list.pred_inject prod.case open_handlers
    by (intro conjI TrueI list.pred_inject(1))
      (auto simp: proper_respond listed_def openTemplates_def path_simps id
        split: option.split formValue.split intro!: proper_forward)
qed


definition sampleWebRequest :: webRequest where
  "sampleWebRequest = \<lparr>wq_token = Some ''jwt'', wq_id = ''crd_1'', wq_json = Some (VObj []),
     wq_query = [(''limit'', ''5'')], wq_form = []\<rparr>"


subsection \<open>The access token\<close>

text \<open>The members of a login answer with another access token.\<close>

definition withToken :: "string \<Rightarrow> (string \<times> value) list \<Rightarrow> (string \<times> value) list" where
  "withToken t kvs = map (\<lambda>(k, v). (k, if k = ''accessToken'' then VStr t else v)) kvs"

definition loginOutcome :: "int \<Rightarrow> (string \<times> value) list \<Rightarrow> backendResponse" where
  "loginOutcome status kvs = \<lparr>br_status = status, br_statusText = [], br_json = Some (VObj kvs),
     br_bytes = [], br_contentType = None\<rparr>"

lemma filter_withToken:
  "filter (\<lambda>kv. fst kv \<notin> set [''accessToken'']) (withToken t kvs) =
   filter (\<lambda>kv. fst kv \<notin> set [''accessToken'']) kvs"
  by (induction kvs) (auto simp: withToken_def)

lemma map_of_withToken:
  "map_of (withToken t kvs) k = (if k = ''accessToken'' \<and> map_of kvs k \<noteq> None then Some (VStr t) else map_of kvs k)"
  by (induction kvs) (auto simp: withToken_def)

lemma vget_withToken: "''accessToken'' \<in> fst ` set kvs \<Longrightarrow>
  vget (VObj (withToken t kvs)) ''accessToken'' = VStr t \<and>
  vget (VObj (withToken t kvs)) ''message'' = vget (VObj kvs) ''message''"
  by (auto simp: vget_def map_of_withToken map_of_eq_None_iff split: option.split)

lemma loginAnswer_cookies:
  "ws_cookies (loginAnswer cookieSecure outcome) = [] \<or>
   (\<exists>t. ws_cookies (loginAnswer cookieSecure outcome) = [sessionCookie cookieSecure t None])"
proof (cases outcome)
  case (Some r)
  show ?thesis
  proof (cases "br_json r")
    case p: (Some payload)
    show ?thesis
      by (cases "vget payload ''accessToken''"; cases "vget payload ''message''")
        (auto simp: loginAnswer_def Some p bare_def messageAnswer_def jsonAnswer_def)
  qed (simp add: loginAnswer_def Some messageAnswer_def jsonAnswer_def)
qed (simp add: loginAnswer_def messageAnswer_def jsonAnswer_def)

text \<open>
  C27. The access token of a session lives in its cookie alone. On a production server that started,
  every cookie the login sets is invisible to scripts, sent over HTTPS only, and kept from the requests
  of other sites (its \<open>sameSite\<close> is lax, as the documents have it, or stricter); a login the API accepts sets exactly the one with its token; and everything else of the
  answer is the same whichever token the API issued.
\<close>

theorem login_token_only_in_cookie:
  assumes "we_nodeEnv V = Some ''production''" and "\<not> isBuildPhase V"
    and "assertWebEnv V = Inr cookieSecure"
    and "''accessToken'' \<in> fst ` set kvs" and "t \<noteq> []" and "t' \<noteq> []"
  shows "(\<forall>outcome. \<forall>c \<in> set (ws_cookies (loginAnswer cookieSecure outcome)).
      ck_httpOnly c \<and> ck_secure c \<and> ck_sameSite c \<in> {''lax'', ''strict''}) \<and>
    (let answers = (\<lambda>t. loginAnswer cookieSecure (Some (loginOutcome status (withToken t kvs)))) in
     (200 \<le> status \<and> status \<le> 299 \<longrightarrow> map ck_value (ws_cookies (answers t)) = [t]) \<and>
     (answers t)\<lparr>ws_cookies := []\<rparr> = (answers t')\<lparr>ws_cookies := []\<rparr>)"
proof -
  have secure: "cookieSecure"
    using assms(1-3) by (auto simp: assertWebEnv_def webEnvError_def split: if_splits)
  have "\<forall>c \<in> set (ws_cookies (loginAnswer cookieSecure outcome)).
      ck_httpOnly c \<and> ck_secure c \<and> ck_sameSite c \<in> {''lax'', ''strict''}" for outcome
    using secure loginAnswer_cookies [of cookieSecure outcome] by (auto simp: sessionCookie_def)
  moreover note v = vget_withToken [OF assms(4)]
  have "loginAnswer cookieSecure (Some (loginOutcome status (withToken u kvs))) =
      (if 200 \<le> status \<and> status \<le> 299
       then (jsonAnswer 200 (VObj (filter (\<lambda>kv. fst kv \<notin> set [''accessToken'']) kvs)))
         \<lparr>ws_cookies := [sessionCookie cookieSecure u None]\<rparr>
       else messageAnswer status (case vget (VObj kvs) ''message'' of VStr m \<Rightarrow> m | _ \<Rightarrow> ''Login failed''))"
    if "u \<noteq> []" for u
    using that v [of u] filter_withToken [of u kvs]
    by (simp add: loginAnswer_def loginOutcome_def isOk_def withoutKeys_def)
  then have "(200 \<le> status \<and> status \<le> 299 \<longrightarrow>
       map ck_value (ws_cookies (loginAnswer cookieSecure (Some (loginOutcome status (withToken t kvs))))) = [t]) \<and>
     (loginAnswer cookieSecure (Some (loginOutcome status (withToken t kvs))))\<lparr>ws_cookies := []\<rparr> =
     (loginAnswer cookieSecure (Some (loginOutcome status (withToken t' kvs))))\<lparr>ws_cookies := []\<rparr>"
    using assms(5,6) by (simp add: sessionCookie_def)
  ultimately show ?thesis unfolding Let_def by blast
qed

theorem login_token_only_in_cookie_witness:
  "map ck_value (ws_cookies (loginAnswer True
     (Some (loginOutcome 201 (withToken ''jwt'' [(''accessToken'', VStr ''old'')]))))) = [''jwt'']"
proof -
  let ?V = "\<lparr>we_nextPhase = None, we_nodeEnv = Some ''production'', we_cookieSecure = Some ''true'',
    we_internalApiUrl = None, we_apiBaseUrl = None\<rparr>"
  have "assertWebEnv ?V = Inr True" by (simp add: assertWebEnv_def webEnvError_def isBuildPhase_def)
  then show ?thesis
    using login_token_only_in_cookie [of ?V True "[(''accessToken'', VStr ''old'')]" "''jwt''" "''new''" 201]
    by (simp add: isBuildPhase_def)
qed

subsection \<open>Whose request it is\<close>

text \<open>A request of the web server as the API receives it: its headers, and the server's address.\<close>

definition arriving :: "backendRequest \<Rightarrow> string \<Rightarrow> request" where
  "arriving q address = \<lparr>rq_cfConnectingIp = map_of (bq_headers q) ''CF-Connecting-IP'',
     rq_forwardedFor = map_of (bq_headers q) ''X-Forwarded-For'', rq_ip = Some address,
     rq_remoteAddress = Some address\<rparr>"

definition anonymous :: "plan \<Rightarrow> bool" where
  "anonymous p \<longleftrightarrow> (case forwarded p of None \<Rightarrow> True
     | Some q \<Rightarrow> fst ` set (bq_headers q) \<subseteq> {''Content-Type'', ''Authorization''})"

lemma backendCall_headers: "fst ` set (bq_headers (backendCall m p t b)) \<subseteq> {''Content-Type'', ''Authorization''}"
  by (auto simp: backendCall_def split: backendBody.splits option.splits)

lemma anonymous_plans: "anonymous (sessionSend m p rq)" "anonymous (sessionGet p rq)"
  "anonymous (sessionJson m p rq)" "anonymous (Forward (backendCall m p t b) k)" "anonymous (Respond r)"
  using backendCall_headers
  by (auto simp: anonymous_def sessionSend_def sessionGet_def sessionJson_def withSession_def
      withJson_def proxied_def split: option.split)

lemma handlers_anonymous: "list_all (\<lambda>(n, m, h). anonymous (h rq)) (webHandlers cookieSecure date)"
  unfolding webHandlers_def sessionHandlers_def publicHandlers_def append.simps list.pred_inject
    prod.case session_handlers open_handlers Let_def withSession_def
  by (intro conjI TrueI list.pred_inject(1))
    (auto simp: anonymous_plans split: option.split formValue.split)

text \<open>
  To the API every visitor of the web application is the web server: the request a handler makes
  names no client address, so whatever headers the visitor or a proxy in front of the web server
  sent, and whatever the setting of \<open>TRUST_PROXY\<close>, the address the API resolves is the web
  server's, and all visitors share one bucket of every rate limit, that of the login included.
\<close>

theorem visitors_share_web_address:
  assumes "(n, m, h) \<in> set (webHandlers cookieSecure date)" and "forwarded (h rq) = Some q"
    and "(n', m', h') \<in> set (webHandlers cookieSecure date)" and "forwarded (h' rq') = Some q'"
  shows "resolveClientIp (arriving q address) trustProxy = address \<and>
    buildKey E L rule (resolveClientIp (arriving q address) trustProxy) =
    buildKey E L rule (resolveClientIp (arriving q' address) trustProxy)"
proof -
  have "resolveClientIp (arriving q address) trustProxy = address"
    if "(n, m, h) \<in> set (webHandlers cookieSecure date)" "forwarded (h rq) = Some q" for n m h rq q
  proof -
    have "fst ` set (bq_headers q) \<subseteq> {''Content-Type'', ''Authorization''}"
      using bspec [OF handlers_anonymous [of rq cookieSecure date, unfolded list_all_iff] that(1)] that(2)
      by (simp add: anonymous_def)
    then have "''CF-Connecting-IP'' \<notin> fst ` set (bq_headers q)"
      "''X-Forwarded-For'' \<notin> fst ` set (bq_headers q)" by auto
    then have none: "map_of (bq_headers q) ''CF-Connecting-IP'' = None"
      "map_of (bq_headers q) ''X-Forwarded-For'' = None"
      by (metis map_of_eq_None_iff)+
    show ?thesis
      by (simp add: arriving_def resolveClientIp_def none trimOrNull_def nullish_def orElse_def)
  qed
  from this [OF assms(1,2)] this [OF assms(3,4)] show ?thesis by simp
qed

theorem visitors_share_web_address_witness:
  "resolveClientIp (arriving (backendCall MPost ''/auth/login'' None
     (JsonText (loginBody (VStr ''ann'') (VObj [(''username'', VStr ''ann'')])))) ''10.0.0.2'') True = ''10.0.0.2''"
proof -
  let ?rq = "sampleWebRequest\<lparr>wq_json := Some (VObj [(''username'', VStr ''ann'')])\<rparr>"
  have h: "(''session/login'', MPost, loginPost True) \<in> set (webHandlers True [])"
    by (simp add: webHandlers_def publicHandlers_def)
  have trimmed: "trim ''ann'' = ''ann''" by code_simp
  have q: "forwarded (loginPost True ?rq) = Some (backendCall MPost ''/auth/login'' None
      (JsonText (loginBody (VStr ''ann'') (VObj [(''username'', VStr ''ann'')]))))"
    by (simp add: loginPost_def withJson_def loginName_def vget_def trimmed)
  show ?thesis using visitors_share_web_address [OF h q h q] by blast
qed

end
