(* ===== verification/JsNumber.thy ===== *)
theory JsNumber
  imports Js
begin

text \<open>
  The numbers of JavaScript as the query strings and the environment variables reach them:
  \<open>Number(text)\<close> and the comparisons, \<open>Math.min\<close> and \<open>Math.max\<close> the services clamp with. A finite
  number is a decimal fraction \<open>Dec m k\<close>, standing for \<open>m / 10^k\<close>; decimals are kept exact, where
  the language rounds to the nearest double. A comparison with \<open>NaN\<close> is false.
\<close>

datatype jsNum = NaN | PosInf | NegInf | Dec int nat

definition num :: "int \<Rightarrow> jsNum" where
  "num n = Dec n 0"

fun isFiniteNum :: "jsNum \<Rightarrow> bool" where
  "isFiniteNum (Dec m k) \<longleftrightarrow> True"
| "isFiniteNum x \<longleftrightarrow> False"

fun numLess :: "jsNum \<Rightarrow> jsNum \<Rightarrow> bool" where
  "numLess NaN y \<longleftrightarrow> False"
| "numLess x NaN \<longleftrightarrow> False"
| "numLess x NegInf \<longleftrightarrow> False"
| "numLess PosInf y \<longleftrightarrow> False"
| "numLess NegInf y \<longleftrightarrow> True"
| "numLess (Dec m k) PosInf \<longleftrightarrow> True"
| "numLess (Dec m k) (Dec n l) \<longleftrightarrow> m * 10 ^ l < n * 10 ^ k"

text \<open>\<open>a === b\<close>\<close>

fun numEq :: "jsNum \<Rightarrow> jsNum \<Rightarrow> bool" where
  "numEq (Dec m k) (Dec n l) \<longleftrightarrow> m * 10 ^ l = n * 10 ^ k"
| "numEq PosInf PosInf \<longleftrightarrow> True"
| "numEq NegInf NegInf \<longleftrightarrow> True"
| "numEq x y \<longleftrightarrow> False"

definition mathMin :: "jsNum \<Rightarrow> jsNum \<Rightarrow> jsNum" where
  "mathMin a b = (if a = NaN \<or> b = NaN then NaN else if numLess b a then b else a)"

definition mathMax :: "jsNum \<Rightarrow> jsNum \<Rightarrow> jsNum" where
  "mathMax a b = (if a = NaN \<or> b = NaN then NaN else if numLess a b then b else a)"

text \<open>The integer a number stands for, if it is one.\<close>

definition toInt :: "jsNum \<Rightarrow> int option" where
  "toInt x = (case x of Dec m k \<Rightarrow> if m mod 10 ^ k = 0 then Some (m div 10 ^ k) else None
     | _ \<Rightarrow> None)"

subsection \<open>Number(text)\<close>

definition isDecDigit :: "char \<Rightarrow> bool" where
  "isDecDigit c \<longleftrightarrow> 48 \<le> (of_char c :: nat) \<and> (of_char c :: nat) \<le> 57"

definition digitsVal :: "string \<Rightarrow> nat" where
  "digitsVal ds = foldl (\<lambda>n c. 10 * n + (of_char c - 48)) 0 ds"

definition scaled :: "int \<Rightarrow> int \<Rightarrow> jsNum" where
  "scaled m e = (if 0 \<le> e then Dec (m * 10 ^ nat e) 0 else Dec m (nat (- e)))"

definition splitSign :: "string \<Rightarrow> int \<times> string" where
  "splitSign s = (case s of [] \<Rightarrow> (1, [])
     | c # cs \<Rightarrow> if c = CHR ''-'' then (-1, cs) else if c = CHR ''+'' then (1, cs) else (1, s))"

text \<open>The exponent part: nothing, or \<open>e\<close> with an optional sign and digits.\<close>

definition exponentOf :: "string \<Rightarrow> int option" where
  "exponentOf s = (case s of [] \<Rightarrow> Some 0
     | c # cs \<Rightarrow> if c \<noteq> CHR ''e'' \<and> c \<noteq> CHR ''E'' then None
         else let (sg, ds) = splitSign cs in
           if ds \<noteq> [] \<and> list_all isDecDigit ds then Some (sg * int (digitsVal ds)) else None)"

definition decimalOf :: "int \<Rightarrow> string \<Rightarrow> jsNum" where
  "decimalOf sg s = (let ip = takeWhile isDecDigit s; r = dropWhile isDecDigit s;
       dotted = take 1 r = ''.'';
       fp = (if dotted then takeWhile isDecDigit (drop 1 r) else []);
       r' = (if dotted then dropWhile isDecDigit (drop 1 r) else r)
     in if ip @ fp = [] then NaN
        else (case exponentOf r' of None \<Rightarrow> NaN
          | Some e \<Rightarrow> scaled (sg * int (digitsVal (ip @ fp))) (e - int (length fp))))"

definition digitValue :: "char \<Rightarrow> nat" where
  "digitValue c = (let n = (of_char c :: nat) in
     if isDecDigit c then n - 48 else if 97 \<le> n \<and> n \<le> 122 then n - 87
     else if 65 \<le> n \<and> n \<le> 90 then n - 55 else 36)"

definition radixOf :: "nat \<Rightarrow> string \<Rightarrow> jsNum" where
  "radixOf b ds = (if ds = [] \<or> \<not> list_all (\<lambda>c. digitValue c < b) ds then NaN
     else num (int (foldl (\<lambda>n c. b * n + digitValue c) 0 ds)))"

definition toNumber :: "string \<Rightarrow> jsNum" where
  "toNumber txt = (let s = trim txt; p = toLowerCase (take 2 s); (sg, u) = splitSign s in
     if s = [] then num 0
     else if p = ''0x'' then radixOf 16 (drop 2 s)
     else if p = ''0o'' then radixOf 8 (drop 2 s)
     else if p = ''0b'' then radixOf 2 (drop 2 s)
     else if u = ''Infinity'' then (if sg < 0 then NegInf else PosInf)
     else decimalOf sg u)"

text \<open>\<open>String(n)\<close>; from \<open>10^21\<close> on the language writes an exponent instead.\<close>

definition showNum :: "jsNum \<Rightarrow> string" where
  "showNum x = (case x of NaN \<Rightarrow> ''NaN'' | PosInf \<Rightarrow> ''Infinity'' | NegInf \<Rightarrow> ''-Infinity''
     | Dec m k \<Rightarrow> (if m mod 10 ^ k = 0 then showInt (m div 10 ^ k)
         else let ds = pad (k + 1) \<bar>m\<bar>; n = length ds - k in
           (if m < 0 then ''-'' else []) @ take n ds @ ''.'' @
           rev (dropWhile (\<lambda>c. c = CHR ''0'') (rev (drop n ds)))))"

subsection \<open>Clamping\<close>

text \<open>\<open>Number.isFinite(n) ? Math.min(Math.max(n, lo), hi) : d\<close>\<close>

definition clampNum :: "jsNum \<Rightarrow> int \<Rightarrow> int \<Rightarrow> int \<Rightarrow> jsNum" where
  "clampNum n lo hi d = (if isFiniteNum n then mathMin (mathMax n (num lo)) (num hi) else num d)"

lemma toInt_num [simp]: "toInt (num n) = Some n"
  by (simp add: toInt_def num_def)

lemma toInt_Some:
  assumes "toInt x = Some n"
  shows "\<exists>k. x = Dec (n * 10 ^ k) k"
proof -
  obtain m k where x: "x = Dec m k" and m: "m mod 10 ^ k = 0" and n: "n = m div 10 ^ k"
    using assms by (auto simp: toInt_def split: jsNum.splits if_splits)
  have "m = n * 10 ^ k" using m n by auto
  then show ?thesis using x by blast
qed

lemma clampNum_bounds:
  assumes "toInt (clampNum n lo hi d) = Some k" and "lo \<le> hi" and "lo \<le> d" and "d \<le> hi"
  shows "lo \<le> k \<and> k \<le> hi"
proof -
  have less: "numLess (Dec (k * 10 ^ j) j) (num m) \<longleftrightarrow> k < m"
    "numLess (num m) (Dec (k * 10 ^ j) j) \<longleftrightarrow> m < k" for k m :: int and j
    by (auto simp: num_def)
  show ?thesis
  proof (cases "isFiniteNum n")
    case True
    then obtain m j where n: "n = Dec m j" by (cases n) auto
    obtain i where c: "clampNum n lo hi d = Dec (k * 10 ^ i) i" using toInt_Some [OF assms(1)] by blast
    show ?thesis
    proof (cases "numLess (num hi) (mathMax n (num lo))")
      case True
      then have "clampNum n lo hi d = num hi"
        using \<open>isFiniteNum n\<close> n by (auto simp: clampNum_def mathMin_def mathMax_def num_def)
      then show ?thesis using assms by simp
    next
      case False
      then have mx: "mathMax n (num lo) = Dec (k * 10 ^ i) i"
        using \<open>isFiniteNum n\<close> n c by (auto simp: clampNum_def mathMin_def mathMax_def num_def)
      have "k \<le> hi" using False mx less(2) [of hi k i] by simp
      moreover have "lo \<le> k"
      proof (cases "numLess n (num lo)")
        case True
        then have "num lo = Dec (k * 10 ^ i) i" using mx n by (simp add: mathMax_def num_def)
        then show ?thesis by (simp add: num_def)
      next
        case False
        then have "n = Dec (k * 10 ^ i) i" using mx n by (simp add: mathMax_def num_def)
        then show ?thesis using False less(1) [of k i lo] by simp
      qed
      ultimately show ?thesis by simp
    qed
  qed (use assms in \<open>simp add: clampNum_def\<close>)
qed

lemma toNumber_examples:
  "toNumber '' 12 '' = num 12" "toNumber ''-5'' = num (-5)" "toNumber ''1e3'' = num 1000"
  "toNumber ''2.50'' = Dec 250 2" "toNumber ''0x1F'' = num 31" "toNumber ''abc'' = NaN"
  "toNumber ''-Infinity'' = NegInf" "toNumber '''' = num 0" "toNumber ''.'' = NaN"
  by code_simp+

lemma showNum_examples:
  "showNum (Dec 250 2) = ''2.5''" "showNum (Dec (-5) 3) = ''-0.005''" "showNum (num 12) = ''12''"
  by code_simp+

end
