(* ===== verification/WebPages.thy ===== *)
theory WebPages
  imports Bff JsNumber
begin

text \<open>
  The pages of the web application that read the API on the server: the client of
  \<open>apps/web/src/lib/api.ts\<close>, the request filter \<open>proxy.ts\<close>, and the server components under
  \<open>app\<close> up to what they render. A page is null, a view, a redirect, which the framework implements
  as a thrown value, or an error. A view is the name of what is rendered with the client components
  it hands properties to; those properties are serialised into the page the browser receives. Where
  a page waits for several calls at once, \<open>race\<close> says which of their rejections comes first.
\<close>

subsection \<open>The client of the API\<close>

type_synonym fetcher = "backendRequest \<Rightarrow> backendResponse option"

datatype webError = ApiError string int "string option" | OtherError string

text \<open>\<open>String(v)\<close>\<close>

fun stringOf :: "value \<Rightarrow> string" where
  "stringOf (VStr s) = s"
| "stringOf (VNum n) = showInt n"
| "stringOf (VBool b) = (if b then ''true'' else ''false'')"
| "stringOf VNull = ''null''"
| "stringOf VUndef = ''undefined''"
| "stringOf (VDate t) = toISOString t"
| "stringOf (VArr vs) = ''[object Array]''"
| "stringOf (VObj kvs) = ''[object Object]''"

definition apiError :: "backendResponse \<Rightarrow> webError" where
  "apiError r = (let fallback = (if br_statusText r \<noteq> [] then br_statusText r else ''Request failed'') in
     case br_json r of
       None \<Rightarrow> ApiError fallback (br_status r) None
     | Some VNull \<Rightarrow> ApiError fallback (br_status r) None
     | Some body \<Rightarrow> ApiError
         (case vget body ''message'' of
            VArr vs \<Rightarrow> join '', '' (map (\<lambda>v. if v = VNull \<or> v = VUndef then [] else stringOf v) vs)
          | VNull \<Rightarrow> ''Request failed'' | VUndef \<Rightarrow> ''Request failed'' | v \<Rightarrow> stringOf v)
         (br_status r)
         (case vget body ''code'' of VStr c \<Rightarrow> Some c | _ \<Rightarrow> None))"

definition apiFetch :: "fetcher \<Rightarrow> string \<Rightarrow> string option \<Rightarrow> webError + value" where
  "apiFetch B p token = (case B (backendCall MGet p (if truthy token then token else None) NoBody) of
     None \<Rightarrow> Inl (OtherError ''fetch failed'')
   | Some r \<Rightarrow> (if \<not> isOk r then Inl (apiError r)
       else case br_json r of None \<Rightarrow> Inl (OtherError ''Unexpected token'') | Some v \<Rightarrow> Inr v))"

definition INSTITUTION_SETUP_REQUIRED_CODE :: string where
  "INSTITUTION_SETUP_REQUIRED_CODE = ''INSTITUTION_SETUP_REQUIRED''"

fun isInstitutionSetupRequired :: "webError \<Rightarrow> bool" where
  "isInstitutionSetupRequired (ApiError m status code) \<longleftrightarrow>
     code = Some INSTITUTION_SETUP_REQUIRED_CODE \<or>
     includesStr ''institution configuration'' (toLowerCase m)"
| "isInstitutionSetupRequired (OtherError m) \<longleftrightarrow>
     includesStr ''institution configuration'' (toLowerCase m)"

definition getCurrentAdmin :: "fetcher \<Rightarrow> string \<Rightarrow> webError + value" where
  "getCurrentAdmin B t = apiFetch B ''/auth/me'' (Some t)"

definition getTeamAdmins :: "fetcher \<Rightarrow> string \<Rightarrow> webError + value" where
  "getTeamAdmins B t = apiFetch B ''/auth/admins'' (Some t)"

definition getWebInstitution :: "fetcher \<Rightarrow> string \<Rightarrow> webError + value" where
  "getWebInstitution B t = apiFetch B ''/institution'' (Some t)"

definition getInstitutionSigningKeys :: "fetcher \<Rightarrow> string \<Rightarrow> webError + value" where
  "getInstitutionSigningKeys B t = apiFetch B ''/institution/signing-keys'' (Some t)"

record credentialFilters =
  cf_studentId :: "string option"
  cf_studentName :: "string option"
  cf_revoked :: "bool option"
  cf_issuedYear :: "jsNum option"
  cf_page :: "jsNum option"
  cf_pageSize :: "jsNum option"

definition truthyNum :: "jsNum option \<Rightarrow> bool" where
  "truthyNum n \<longleftrightarrow> (case n of None \<Rightarrow> False | Some x \<Rightarrow> x \<noteq> NaN \<and> \<not> numEq x (num 0))"

definition getCredentials :: "fetcher \<Rightarrow> string \<Rightarrow> credentialFilters \<Rightarrow> webError + value" where
  "getCredentials B t f = (let q =
       (if truthy (cf_studentId f) then [(''studentId'', the (cf_studentId f))] else []) @
       (if truthy (cf_studentName f) then [(''studentName'', the (cf_studentName f))] else []) @
       (case cf_revoked f of None \<Rightarrow> [] | Some b \<Rightarrow> [(''revoked'', if b then ''true'' else ''false'')]) @
       (if truthyNum (cf_issuedYear f) then [(''issuedYear'', showNum (the (cf_issuedYear f)))] else []) @
       (if truthyNum (cf_page f) then [(''page'', showNum (the (cf_page f)))] else []) @
       (if truthyNum (cf_pageSize f) then [(''pageSize'', showNum (the (cf_pageSize f)))] else [])
     in apiFetch B (''/credentials'' @ withQuery (searchParams q)) (Some t))"

definition getWebCredential :: "fetcher \<Rightarrow> string \<Rightarrow> string \<Rightarrow> webError + value" where
  "getWebCredential B t i = apiFetch B (''/credentials/'' @ i) (Some t)"

definition getVerificationLogs :: "fetcher \<Rightarrow> string \<Rightarrow> int \<Rightarrow> webError + value" where
  "getVerificationLogs B t limit = apiFetch B (''/audit/logs?limit='' @ showInt limit) (Some t)"

definition getBlockchainAudit :: "fetcher \<Rightarrow> string \<Rightarrow> int \<Rightarrow> webError + value" where
  "getBlockchainAudit B t limit = apiFetch B (''/audit/blockchain?limit='' @ showInt limit) (Some t)"

definition getDocumentProofs :: "fetcher \<Rightarrow> string \<Rightarrow> webError + value" where
  "getDocumentProofs B t = apiFetch B ''/document-proofs'' (Some t)"

definition fetchDashboardMetrics :: "fetcher \<Rightarrow> string \<Rightarrow> webError + value" where
  "fetchDashboardMetrics B t = apiFetch B ''/audit/dashboard/metrics'' (Some t)"

definition fetchActivityFeed :: "fetcher \<Rightarrow> string \<Rightarrow> int option \<Rightarrow> int option \<Rightarrow> webError + value" where
  "fetchActivityFeed B t limit offset = (let q =
       (case limit of Some n \<Rightarrow> if n \<noteq> 0 then [(''limit'', showInt n)] else [] | None \<Rightarrow> []) @
       (case offset of Some n \<Rightarrow> if n \<noteq> 0 then [(''offset'', showInt n)] else [] | None \<Rightarrow> [])
     in apiFetch B (''/audit/dashboard/activity'' @ withQuery (searchParams q)) (Some t))"

definition fetchVerificationAnalytics :: "fetcher \<Rightarrow> string \<Rightarrow> int \<Rightarrow> webError + value" where
  "fetchVerificationAnalytics B t days =
     apiFetch B (''/audit/dashboard/analytics?days='' @ showInt days) (Some t)"

definition fetchLatestIssuances :: "fetcher \<Rightarrow> string \<Rightarrow> int \<Rightarrow> webError + value" where
  "fetchLatestIssuances B t limit =
     apiFetch B (''/audit/dashboard/issuances?limit='' @ showInt limit) (Some t)"

definition fetchLatestRevocations :: "fetcher \<Rightarrow> string \<Rightarrow> int \<Rightarrow> webError + value" where
  "fetchLatestRevocations B t limit =
     apiFetch B (''/audit/dashboard/revocations?limit='' @ showInt limit) (Some t)"

definition fetchQueueHealth :: "fetcher \<Rightarrow> string \<Rightarrow> webError + value" where
  "fetchQueueHealth B t = apiFetch B ''/audit/dashboard/queue'' (Some t)"

subsection \<open>Pages\<close>

datatype view = View string "(string \<times> (string \<times> value) list) list"

datatype pageExn = Redirect string | Thrown webError

type_synonym page = "pageExn + view option"

text \<open>\<open>await\<close> of a call inside a page, \<open>try \<dots> catch\<close> around a part of one, \<open>redirect(path)\<close>.\<close>

definition awaiting :: "webError + 'a \<Rightarrow> ('a \<Rightarrow> page) \<Rightarrow> page" where
  "awaiting r f = (case r of Inl e \<Rightarrow> Inl (Thrown e) | Inr x \<Rightarrow> f x)"

definition catching :: "page \<Rightarrow> (pageExn \<Rightarrow> page) \<Rightarrow> page" where
  "catching p h = (case p of Inl e \<Rightarrow> h e | Inr v \<Rightarrow> Inr v)"

definition redirect :: "string \<Rightarrow> page" where
  "redirect p = Inl (Redirect p)"

definition rendered :: "string \<Rightarrow> (string \<times> (string \<times> value) list) list \<Rightarrow> page" where
  "rendered name cs = Inr (Some (View name cs))"

definition isManager :: "value \<Rightarrow> bool" where
  "isManager admin \<longleftrightarrow> vget admin ''role'' = VStr ''OWNER'' \<or> vget admin ''role'' = VStr ''SUPER_ADMIN''"

definition setupState :: "bool \<Rightarrow> page" where
  "setupState b = rendered ''InstitutionSetupState'' [(''InstitutionSetupState'', [(''isSuperAdmin'', VBool b)])]"

text \<open>\<open>try { data = await call } catch (error) { setup state or rethrow }\<close>, then the rest of the page.\<close>

definition orSetup :: "webError + 'a \<Rightarrow> bool \<Rightarrow> ('a \<Rightarrow> page) \<Rightarrow> page" where
  "orSetup r manager f = (case r of
     Inl e \<Rightarrow> (if isInstitutionSetupRequired e then setupState manager else Inl (Thrown e))
   | Inr x \<Rightarrow> f x)"

type_synonym race = "webError list \<Rightarrow> webError"

definition awaitAll :: "race \<Rightarrow> (webError + value) list \<Rightarrow> webError + value list" where
  "awaitAll rc rs = (let es = concat (map (\<lambda>r. case r of Inl e \<Rightarrow> [e] | Inr _ \<Rightarrow> []) rs) in
     if es \<noteq> [] then Inl (rc es)
     else Inr (concat (map (\<lambda>r. case r of Inl _ \<Rightarrow> [] | Inr v \<Rightarrow> [v]) rs)))"

text \<open>A page that starts by returning null without a session.\<close>

definition sessionPage :: "string option \<Rightarrow> (string \<Rightarrow> page) \<Rightarrow> page" where
  "sessionPage token f = (if truthy token then f (the token) else Inr None)"

definition homePage :: "string option \<Rightarrow> page" where
  "homePage token = (if truthy token then redirect ''/dashboard'' else rendered ''HomePage'' [])"

text \<open>The redirect is inside the \<open>try\<close>, so the \<open>catch\<close> takes it.\<close>

definition loginPage :: "fetcher \<Rightarrow> string option \<Rightarrow> page" where
  "loginPage B token = (let form = rendered ''LoginPageContent'' [] in
     if truthy token
     then catching (awaiting (getCurrentAdmin B (the token)) (\<lambda>admin. redirect ''/dashboard'')) (\<lambda>e. form)
     else form)"

definition dashboardLayout :: "fetcher \<Rightarrow> string option \<Rightarrow> page" where
  "dashboardLayout B token = (if \<not> truthy token then redirect ''/login''
     else case getCurrentAdmin B (the token) of
       Inl e \<Rightarrow> (case e of
           ApiError m status code \<Rightarrow>
             (if status = 401 \<or> status = 403 then redirect ''/api/session/clear'' else redirect ''/login'')
         | OtherError m \<Rightarrow> redirect ''/login'')
     | Inr admin \<Rightarrow> rendered ''DashboardShell'' [(''DashboardShell'', [(''admin'', admin)])])"

definition overviewPage :: "race \<Rightarrow> fetcher \<Rightarrow> string option \<Rightarrow> page" where
  "overviewPage rc B token = sessionPage token (\<lambda>t.
     awaiting (getCurrentAdmin B t) (\<lambda>admin.
     orSetup (awaitAll rc [fetchDashboardMetrics B t, fetchActivityFeed B t (Some 25) None,
         fetchVerificationAnalytics B t 7, fetchLatestIssuances B t 5, fetchLatestRevocations B t 5,
         fetchQueueHealth B t]) (isManager admin) (\<lambda>rs.
     rendered ''DashboardOverviewPage''
       [(''ExportButton'', [(''token'', VStr t)]), (''MetricCards'', [(''metrics'', rs ! 0)]),
        (''VerificationChart'', [(''initialData'', rs ! 2)]), (''QueueMonitor'', [(''initialData'', rs ! 5)]),
        (''ActivityFeed'', [(''initialItems'', vget (rs ! 1) ''items''),
           (''initialTotal'', vget (rs ! 1) ''total''), (''token'', VStr t)]),
        (''IssuanceTable'', [(''items'', rs ! 3)]), (''RevocationTable'', [(''items'', rs ! 4)])])))"

definition teamPage :: "race \<Rightarrow> fetcher \<Rightarrow> string option \<Rightarrow> page" where
  "teamPage rc B token = sessionPage token (\<lambda>t.
     awaiting (awaitAll rc [getCurrentAdmin B t, getTeamAdmins B t]) (\<lambda>rs.
     if \<not> isManager (rs ! 0) then redirect ''/dashboard'' else rendered ''TeamPage'' []))"

definition settingsPage :: "fetcher \<Rightarrow> string option \<Rightarrow> page" where
  "settingsPage B token = sessionPage token (\<lambda>t.
     awaiting (getCurrentAdmin B t) (\<lambda>admin.
     if \<not> isManager admin then redirect ''/dashboard''
     else orSetup (getWebInstitution B t) True (\<lambda>institution.
       awaiting (getInstitutionSigningKeys B t) (\<lambda>signingKeys.
       rendered ''SettingsPage''
         [(''InstitutionSettingsForm'', [(''institution'', institution)]),
          (''InstitutionSigningKeys'', [(''keys'', vget signingKeys ''keys''), (''canRotate'', VBool True)])]))))"

text \<open>The registry page: \<open>Number(year) || undefined\<close>, \<open>Math.max(1, Number(page) || 1)\<close>.\<close>

definition REGISTRY_PAGE_SIZE :: int where "REGISTRY_PAGE_SIZE = 25"

definition registryFilters :: "(string \<times> string) list \<Rightarrow> credentialFilters" where
  "registryFilters q = (let get = (\<lambda>k d. orElse (map_of q k) d); status = get ''status'' ''all'';
       year = toNumber (get ''year'' []); page = toNumber (get ''page'' ''1'')
     in \<lparr>cf_studentId = (if get ''studentId'' [] = [] then None else Some (get ''studentId'' [])),
         cf_studentName = (if get ''studentName'' [] = [] then None else Some (get ''studentName'' [])),
         cf_revoked = (if status = ''active'' then Some False
           else if status = ''revoked'' then Some True else None),
         cf_issuedYear = (if truthyNum (Some year) then Some year else None),
         cf_page = Some (mathMax (num 1) (if truthyNum (Some page) then page else num 1)),
         cf_pageSize = Some (num REGISTRY_PAGE_SIZE)\<rparr>)"

definition credentialsPage :: "fetcher \<Rightarrow> string option \<Rightarrow> (string \<times> string) list \<Rightarrow> page" where
  "credentialsPage B token q = sessionPage token (\<lambda>t.
     awaiting (getCurrentAdmin B t) (\<lambda>admin.
     orSetup (getCredentials B t (registryFilters q)) (isManager admin) (\<lambda>credentials.
     rendered ''CredentialsPage'' [(''CredentialsTable'', [(''credentials'', credentials)])])))"

text \<open>The pages that read one thing and render it; the view carries what was read.\<close>

definition readingPage :: "string \<Rightarrow> (string \<Rightarrow> webError + value) \<Rightarrow> fetcher \<Rightarrow> string option \<Rightarrow> page" where
  "readingPage name call B token = sessionPage token (\<lambda>t.
     awaiting (getCurrentAdmin B t) (\<lambda>admin.
     orSetup (call t) (isManager admin) (\<lambda>v. rendered name [(name, [(''data'', v)])])))"

definition credentialDetailPage :: "fetcher \<Rightarrow> string option \<Rightarrow> string \<Rightarrow> page" where
  "credentialDetailPage B token i = readingPage ''CredentialDetailPage'' (\<lambda>t. getWebCredential B t i) B token"

definition verificationLogsPage :: "fetcher \<Rightarrow> string option \<Rightarrow> page" where
  "verificationLogsPage B token = readingPage ''VerificationLogsPage'' (\<lambda>t. getVerificationLogs B t 50) B token"

definition blockchainAuditPage :: "fetcher \<Rightarrow> string option \<Rightarrow> page" where
  "blockchainAuditPage B token = readingPage ''BlockchainAuditPage'' (\<lambda>t. getBlockchainAudit B t 100) B token"

definition documentProofPage :: "fetcher \<Rightarrow> string option \<Rightarrow> page" where
  "documentProofPage B token = readingPage ''DocumentProofPage'' (getDocumentProofs B) B token"

definition issueCredentialPage :: "fetcher \<Rightarrow> string option \<Rightarrow> page" where
  "issueCredentialPage B token = readingPage ''IssueCredentialPage'' (getWebInstitution B) B token"

definition adminGuidePage :: "fetcher \<Rightarrow> string option \<Rightarrow> page" where
  "adminGuidePage B token = sessionPage token (\<lambda>t. awaiting (getCurrentAdmin B t) (\<lambda>admin.
     rendered ''AdminGuidePage'' [(''AdminGuidePage'', [(''role'', vget admin ''role'')])]))"

definition issuersPage :: page where
  "issuersPage = redirect ''/dashboard/settings''"

definition legacyVerifyUploadPage :: page where
  "legacyVerifyUploadPage = redirect ''/verify/document''"

subsection \<open>The verdict pages\<close>

record stateConfig =
  st_texts :: string
  st_accentClass :: string
  st_verdictClass :: string

definition getStateConfig :: "value \<Rightarrow> stateConfig" where
  "getStateConfig result =
     (if result = VStr ''VALID'' then \<lparr>st_texts = ''verifyResult.states.valid'',
        st_accentClass = ''result-accent-valid'', st_verdictClass = ''badge badge-valid''\<rparr>
      else if result = VStr ''REVOKED'' then \<lparr>st_texts = ''verifyResult.states.revoked'',
        st_accentClass = ''result-accent-warn'', st_verdictClass = ''badge badge-warn''\<rparr>
      else \<lparr>st_texts = ''verifyResult.states.notRegistered'',
        st_accentClass = ''result-accent-neutral'', st_verdictClass = ''badge badge-neutral''\<rparr>)"

definition getProofStateConfig :: "value \<Rightarrow> stateConfig" where
  "getProofStateConfig status =
     (if status = VStr ''AUTHENTIC'' then \<lparr>st_texts = ''proofResult.states.authentic'',
        st_accentClass = ''result-accent-valid'', st_verdictClass = ''badge badge-valid''\<rparr>
      else if status = VStr ''REVOKED'' then \<lparr>st_texts = ''proofResult.states.revoked'',
        st_accentClass = ''result-accent-warn'', st_verdictClass = ''badge badge-warn''\<rparr>
      else if status = VStr ''DOCUMENT_MODIFIED'' then \<lparr>st_texts = ''proofResult.states.modified'',
        st_accentClass = ''result-accent-error'', st_verdictClass = ''badge badge-error''\<rparr>
      else \<lparr>st_texts = ''proofResult.states.notFound'',
        st_accentClass = ''result-accent-neutral'', st_verdictClass = ''badge badge-neutral''\<rparr>)"

datatype badgeTone = ToneValid | ToneWarn | ToneError | ToneNeutral

definition badgeConfig :: "(string \<times> badgeTone) list" where
  "badgeConfig = [(''ACTIVE'', ToneValid), (''VALID'', ToneValid), (''AUTHENTIC'', ToneValid),
     (''ISSUED'', ToneValid), (''ANCHORED'', ToneValid), (''ON_CHAIN_VERIFIED'', ToneValid),
     (''REVOKED'', ToneWarn), (''SUSPENDED'', ToneWarn), (''PENDING'', ToneWarn),
     (''RETRYING'', ToneWarn), (''NOT_ANCHORED'', ToneWarn), (''DUPLICATE'', ToneWarn),
     (''EXISTS'', ToneWarn), (''INVALID'', ToneError), (''TAMPERED'', ToneError),
     (''DOCUMENT_MODIFIED'', ToneError), (''NOT_FOUND'', ToneError), (''FAILED'', ToneError),
     (''ISSUER_UNAUTHORIZED'', ToneError), (''MISMATCH'', ToneError), (''INACTIVE'', ToneNeutral),
     (''ARCHIVED_V1'', ToneNeutral), (''UNAVAILABLE'', ToneNeutral)]"

definition statusBadge :: "string \<Rightarrow> badgeTone" where
  "statusBadge status = (case map_of badgeConfig status of Some t \<Rightarrow> t | None \<Rightarrow> ToneNeutral)"

definition banner :: "stateConfig \<Rightarrow> (string \<times> (string \<times> value) list)" where
  "banner s = (''banner'', [(''texts'', VStr (st_texts s)), (''accentClass'', VStr (st_accentClass s)),
     (''verdictClass'', VStr (st_verdictClass s))])"

definition verifyResultPage :: "fetcher \<Rightarrow> string \<Rightarrow> page" where
  "verifyResultPage B i = awaiting (apiFetch B (''/verify/'' @ encodeUriPart i) None) (\<lambda>v.
     rendered ''VerifyResultPage'' [banner (getStateConfig (vget v ''result'')),
       (''StatusBadge'', [(''status'', vget v ''result'')]),
       (''StatusBadge'', [(''status'', vget v ''blockchainStatus'')])])"

definition proofPage :: "fetcher \<Rightarrow> string \<Rightarrow> page" where
  "proofPage B i = awaiting (apiFetch B (''/proof/'' @ encodeUriPart i) None) (\<lambda>v.
     rendered ''ProofPage'' [banner (getProofStateConfig (vget v ''status''))])"

end
