(* ===== verification/WebNavigation.thy ===== *)
theory WebNavigation
  imports WebPages
begin

text \<open>
  Where a browser ends up: the redirects of \<open>apps/web/src/proxy.ts\<close>, of the layout and the pages
  and of \<open>app/api/session/clear\<close>, as a relation on the session cookie and the path. The API may
  answer differently at every step. The layout and a page below it are rendered independently, so
  the redirect of either may be the one the browser gets.
\<close>

record browser =
  bw_cookie :: "string option"
  bw_path :: "string"

definition proxyRedirect :: "string \<Rightarrow> string option \<Rightarrow> string option" where
  "proxyRedirect path token =
     (if startsWith ''/dashboard'' path \<and> \<not> truthy token then Some ''/login'' else None)"

definition detailPrefix :: string where
  "detailPrefix = ''/dashboard/credentials/''"

text \<open>The pages that may redirect or read the API, by path; other paths render without either.\<close>

definition pageAt :: "race \<Rightarrow> fetcher \<Rightarrow> string option \<Rightarrow> (string \<times> string) list \<Rightarrow> string \<Rightarrow> page option" where
  "pageAt rc B token q path =
     (if path = ''/'' then Some (homePage token)
      else if path = ''/login'' then Some (loginPage B token)
      else if path = ''/verify/upload'' then Some legacyVerifyUploadPage
      else if path = ''/dashboard'' then Some (overviewPage rc B token)
      else if path = ''/dashboard/team'' then Some (teamPage rc B token)
      else if path = ''/dashboard/settings'' then Some (settingsPage B token)
      else if path = ''/dashboard/issuers'' then Some issuersPage
      else if path = ''/dashboard/credentials'' then Some (credentialsPage B token q)
      else if path = ''/dashboard/logs'' then Some (verificationLogsPage B token)
      else if path = ''/dashboard/blockchain'' then Some (blockchainAuditPage B token)
      else if path = ''/dashboard/document-proofs'' then Some (documentProofPage B token)
      else if path = ''/dashboard/issue'' then Some (issueCredentialPage B token)
      else if path = ''/dashboard/guide'' then Some (adminGuidePage B token)
      else if startsWith detailPrefix path
      then Some (credentialDetailPage B token (drop (length detailPrefix) path))
      else None)"

text \<open>What the cookies of an answer make of the stored one.\<close>

definition storeCookies :: "cookie list \<Rightarrow> string option \<Rightarrow> string option" where
  "storeCookies cs c = foldl (\<lambda>c k. if ck_name k \<noteq> ''certiva_access_token'' then c
     else case ck_maxAge k of Some n \<Rightarrow> if n \<le> 0 then None else Some (ck_value k)
       | None \<Rightarrow> Some (ck_value k)) c cs"

inductive hop :: "browser \<Rightarrow> browser \<Rightarrow> bool" where
  proxy_hop: "proxyRedirect (bw_path b) (bw_cookie b) = Some p \<Longrightarrow> hop b (b\<lparr>bw_path := p\<rparr>)"
| layout_hop: "proxyRedirect (bw_path b) (bw_cookie b) = None \<Longrightarrow> startsWith ''/dashboard'' (bw_path b) \<Longrightarrow>
    dashboardLayout B (bw_cookie b) = Inl (Redirect p) \<Longrightarrow> hop b (b\<lparr>bw_path := p\<rparr>)"
| page_hop: "proxyRedirect (bw_path b) (bw_cookie b) = None \<Longrightarrow>
    pageAt rc B (bw_cookie b) q (bw_path b) = Some (Inl (Redirect p)) \<Longrightarrow> hop b (b\<lparr>bw_path := p\<rparr>)"
| clear_hop: "bw_path b = ''/api/session/clear'' \<Longrightarrow> ans = runPlan B (clearGet cookieSecure rq) \<Longrightarrow>
    ws_location ans = Some p \<Longrightarrow>
    hop b \<lparr>bw_cookie = storeCookies (ws_cookies ans) (bw_cookie b), bw_path = p\<rparr>"

inductive_cases hopE: "hop b b'"

subsection \<open>Which pages redirect where\<close>

lemma awaiting_redirect: "awaiting r f = Inl (Redirect p) \<Longrightarrow> \<exists>x. r = Inr x \<and> f x = Inl (Redirect p)"
  by (auto simp: awaiting_def split: sum.splits)

lemma orSetup_redirect: "orSetup r b f = Inl (Redirect p) \<Longrightarrow> \<exists>x. r = Inr x \<and> f x = Inl (Redirect p)"
  by (auto simp: orSetup_def setupState_def rendered_def split: sum.splits if_splits)

lemma sessionPage_redirect:
  "sessionPage token f = Inl (Redirect p) \<Longrightarrow> truthy token \<and> f (the token) = Inl (Redirect p)"
  by (auto simp: sessionPage_def split: if_splits)

lemma rendered_simps [simp]: "rendered n cs \<noteq> Inl e" "redirect p = Inl (Redirect p)"
  by (simp_all add: rendered_def redirect_def)

lemmas redirect_dests = awaiting_redirect orSetup_redirect sessionPage_redirect

text \<open>The login page always shows the form: its own redirect never leaves it.\<close>

lemma login_page_shows_form: "loginPage B token = rendered ''LoginPageContent'' []"
  by (auto simp: loginPage_def catching_def awaiting_def Let_def split: sum.split)

lemma readingPage_renders: "readingPage n call B token \<noteq> Inl (Redirect p)"
  by (auto simp: readingPage_def dest!: redirect_dests)

lemma credentialsPage_renders: "credentialsPage B token q \<noteq> Inl (Redirect p)"
  by (auto simp: credentialsPage_def dest!: redirect_dests)

lemma overviewPage_renders: "overviewPage rc B token \<noteq> Inl (Redirect p)"
  by (auto simp: overviewPage_def dest!: redirect_dests)

lemma adminGuidePage_renders: "adminGuidePage B token \<noteq> Inl (Redirect p)"
  by (auto simp: adminGuidePage_def dest!: redirect_dests)

lemma teamPage_redirect: "teamPage rc B token = Inl (Redirect p) \<Longrightarrow> p = ''/dashboard''"
  by (auto simp: teamPage_def dest!: redirect_dests split: if_splits)

lemma settingsPage_redirect: "settingsPage B token = Inl (Redirect p) \<Longrightarrow> p = ''/dashboard''"
  by (auto simp: settingsPage_def dest!: redirect_dests split: if_splits)

lemma homePage_redirect: "homePage token = Inl (Redirect p) \<Longrightarrow> p = ''/dashboard''"
  by (auto simp: homePage_def split: if_splits)

lemma dashboardLayout_redirect:
  "dashboardLayout B token = Inl (Redirect p) \<Longrightarrow> p = ''/login'' \<or> p = ''/api/session/clear''"
  by (auto simp: dashboardLayout_def split: if_splits sum.splits webError.splits)

subsection \<open>How far a path is from a page\<close>

definition distance :: "string \<Rightarrow> nat" where
  "distance p = (if p = ''/dashboard/issuers'' then 4
     else if p \<in> {''/'', ''/dashboard/team'', ''/dashboard/settings''} then 3
     else if startsWith ''/dashboard'' p then 2
     else if p = ''/api/session/clear'' \<or> p = ''/verify/upload'' then 1 else 0)"

lemma distances [simp]:
  "distance ''/login'' = 0" "distance ''/api/session/clear'' = 1" "distance ''/dashboard'' = 2"
  "distance ''/dashboard/settings'' = 3" "distance ''/verify/document'' = 0"
  "distance ''/'' = 3" "distance ''/dashboard/team'' = 3" "distance ''/dashboard/issuers'' = 4"
  "distance ''/verify/upload'' = 1"
  by (simp_all add: distance_def startsWith_def)

lemma distance_dashboard: "startsWith ''/dashboard'' p \<Longrightarrow> 2 \<le> distance p"
  by (auto simp: distance_def)

lemma page_distance:
  "pageAt rc B token q path = Some (Inl (Redirect p)) \<Longrightarrow> distance p < distance path"
  by (auto simp: pageAt_def login_page_shows_form readingPage_renders credentialsPage_renders
      overviewPage_renders adminGuidePage_renders credentialDetailPage_def verificationLogsPage_def blockchainAuditPage_def
      documentProofPage_def issueCredentialPage_def legacyVerifyUploadPage_def issuersPage_def
      dest: teamPage_redirect settingsPage_redirect homePage_redirect split: if_splits)

lemma hop_distance: "hop b b' \<Longrightarrow> distance (bw_path b') < distance (bw_path b)"
proof (induction rule: hop.induct)
  case (proxy_hop b p)
  then have "startsWith ''/dashboard'' (bw_path b)" "p = ''/login''"
    by (auto simp: proxyRedirect_def split: if_splits)
  then show ?case using distance_dashboard [of "bw_path b"] by simp
next
  case (layout_hop b B p)
  then show ?case using distance_dashboard [of "bw_path b"] dashboardLayout_redirect [of B _ p]
    by fastforce
next
  case (page_hop b rc B q p)
  then show ?case by (simp add: page_distance)
next
  case (clear_hop b ans B cookieSecure rq p)
  then show ?case by (auto simp: clearGet_def)
qed

text \<open>
  C16. Navigation ends: from whatever page a browser starts, with whatever cookie, and whatever the
  API answers to each of the calls on the way, following the redirects of the web application takes
  at most four steps.
\<close>

theorem navigation_ends: "(hop ^^ n) b b' \<Longrightarrow> n \<le> 4"
proof -
  have "(hop ^^ n) b b' \<Longrightarrow> distance (bw_path b') + n \<le> distance (bw_path b)" for b b'
  proof (induction n arbitrary: b')
    case (Suc n)
    then obtain c where "(hop ^^ n) b c" and "hop c b'" by auto
    then show ?case using Suc.IH [of c] hop_distance [of c b'] by simp
  qed simp
  moreover have "distance p \<le> 4" for p by (simp add: distance_def)
  ultimately show "(hop ^^ n) b b' \<Longrightarrow> n \<le> 4" by (meson add_leD2 le_trans)
qed

text \<open>A stale session: the dashboard, the route that clears the cookie, the login page.\<close>

definition refusing :: fetcher where
  "refusing q = Some \<lparr>br_status = 401, br_statusText = ''Unauthorized'', br_json = None, br_bytes = [],
     br_contentType = None\<rparr>"

lemma refused: "getCurrentAdmin refusing t = Inl (ApiError ''Unauthorized'' 401 None)"
  by (simp add: getCurrentAdmin_def apiFetch_def refusing_def isOk_def apiError_def)

theorem navigation_ends_witness:
  "\<exists>n. (hop ^^ n) \<lparr>bw_cookie = Some ''stale'', bw_path = ''/dashboard''\<rparr>
      \<lparr>bw_cookie = None, bw_path = ''/login''\<rparr> \<and> 0 < n \<and> n \<le> 4"
proof -
  let ?a = "\<lparr>bw_cookie = Some ''stale'', bw_path = ''/dashboard''\<rparr>"
  let ?b = "\<lparr>bw_cookie = Some ''stale'', bw_path = ''/api/session/clear''\<rparr>"
  let ?c = "\<lparr>bw_cookie = None, bw_path = ''/login''\<rparr>"
  have "hop ?a (?a\<lparr>bw_path := ''/api/session/clear''\<rparr>)"
    by (rule layout_hop [where B = refusing])
      (simp_all add: proxyRedirect_def truthy_def startsWith_def dashboardLayout_def refused)
  then have "hop ?a ?b" by simp
  moreover have "hop ?b \<lparr>bw_cookie = storeCookies (ws_cookies (runPlan refusing (clearGet True undefined)))
      (bw_cookie ?b), bw_path = ''/login''\<rparr>"
    by (rule clear_hop) (simp_all add: clearGet_def)
  then have "hop ?b ?c" by (simp add: clearGet_def storeCookies_def sessionCookie_def)
  ultimately have "(hop ^^ 2) ?a ?c" by (auto simp: numeral_2_eq_2)
  with navigation_ends [OF this] show ?thesis by (intro exI [of _ 2]) simp
qed

subsection \<open>Where the pages differ from their comments\<close>

text \<open>
  The overview hands the access token to two components that run in the browser, so the page the
  browser receives contains it.
\<close>

lemma overview_hands_token_to_scripts:
  assumes "overviewPage rc B (Some t) = Inr (Some (View ''DashboardOverviewPage'' cs))"
  shows "(''ExportButton'', [(''token'', VStr t)]) \<in> set cs"
  using assms
  by (auto simp: overviewPage_def sessionPage_def awaiting_def orSetup_def setupState_def rendered_def
      split: if_splits sum.splits)

text \<open>
  The team page waits for the account and the list of accounts at once. The API gives the list to
  managers only, so for every other account the page fails before it compares the role.
\<close>

lemma admins_route_managers: "resolve MGet [''api'', ''auth'', ''admins''] \<noteq> None \<and>
    map_option rt_roles (resolve MGet [''api'', ''auth'', ''admins'']) = Some managers"
  by code_simp

lemma team_page_never_redirects:
  assumes "\<And>admin. getCurrentAdmin B t = Inr admin \<Longrightarrow> \<not> isManager admin \<Longrightarrow>
    \<exists>m c. getTeamAdmins B t = Inl (ApiError m 403 c)"
  shows "teamPage rc B (Some t) \<noteq> redirect p"
  using assms
  by (auto simp: teamPage_def sessionPage_def awaiting_def awaitAll_def Let_def rendered_def
      redirect_def split: if_splits sum.splits)

text \<open>A credential that is reported as tampered is shown as one that is not registered.\<close>

lemma tampered_shown_as_not_registered:
  "getStateConfig (VStr ''TAMPERED'') = getStateConfig (VStr ''NOT_FOUND'') \<and>
   st_texts (getStateConfig (VStr ''TAMPERED'')) = ''verifyResult.states.notRegistered''"
  by (simp add: getStateConfig_def)

end
