(* ===== verification/BulkCsv.thy ===== *)
theory BulkCsv
  imports CredentialText
begin

text \<open>
  The CSV of a bulk issuance (\<open>modules/credential/credential.bulk.utils.ts\<close>): splitting the file
  into lines and a line into fields, header detection, the checks on a row, the limit on rows. The
  byte order mark is not a Latin-1 character, so its removal has nothing to do here. The lemmas show
  that no line is lost or invented, that accepted hashes have the form of a digest, and that a file
  written with every field quoted is read back.
\<close>

subsection \<open>The parser\<close>

record csvRow =
  r_rowNumber :: nat
  r_studentName :: string
  r_studentId :: string
  r_degree :: string
  r_documentHash :: "string option"

record csvError =
  e_rowNumber :: nat
  e_message :: string

record csvResult =
  cr_rows :: "csvRow list"
  cr_errors :: "csvError list"
  cr_hasHeader :: bool

definition MAX_CSV_ROWS :: nat where "MAX_CSV_ROWS = 5000"

text \<open>\<open>split(/\r?\n/)\<close>: a carriage return is dropped only right before a line feed.\<close>

fun splitLines :: "string \<Rightarrow> string list" where
  "splitLines [] = [[]]"
| "splitLines (c # cs) =
     (if c = CHR 0x0A then [] # splitLines cs
      else if c = CHR 0x0D \<and> take 1 cs = [CHR 0x0A] then splitLines cs
      else (case splitLines cs of [] \<Rightarrow> [[c]] | l # ls \<Rightarrow> (c # l) # ls))"

text \<open>The loop of \<open>parseCsvLine\<close>: the fields so far, the current field, whether inside quotes.\<close>

fun csvScan :: "string list \<Rightarrow> string \<Rightarrow> bool \<Rightarrow> string \<Rightarrow> string list option" where
  "csvScan cols cur inQuotes [] = (if inQuotes then None else Some (cols @ [cur]))"
| "csvScan cols cur inQuotes (c # cs) =
     (if c = CHR 0x22 then
        (if inQuotes \<and> take 1 cs = [CHR 0x22] then csvScan cols (cur @ [CHR 0x22]) inQuotes (drop 1 cs)
         else csvScan cols cur (\<not> inQuotes) cs)
      else if c = CHR '','' \<and> \<not> inQuotes then csvScan (cols @ [cur]) [] inQuotes cs
      else csvScan cols (cur @ [c]) inQuotes cs)"

definition parseCsvLine :: "string \<Rightarrow> string + string list" where
  "parseCsvLine line = (case csvScan [] [] False line of
     None \<Rightarrow> Inl ''Unclosed quote in CSV line.'' | Some cols \<Rightarrow> Inr cols)"

definition headerKey :: "string \<Rightarrow> string" where
  "headerKey v = filter (\<lambda>c. \<not> isWs c \<and> c \<noteq> CHR ''_'' \<and> c \<noteq> CHR ''-'') (toLowerCase (trim v))"

definition isHeaderRow :: "string list \<Rightarrow> bool" where
  "isHeaderRow cols \<longleftrightarrow> 3 \<le> length cols \<and>
     headerKey (cols ! 0) = ''studentname'' \<and> headerKey (cols ! 1) = ''studentid'' \<and>
     headerKey (cols ! 2) = ''degree''"

text \<open>The checks on one line that is not the header.\<close>

definition parseRow :: "nat \<Rightarrow> string list \<Rightarrow> string + csvRow" where
  "parseRow rowNumber cols =
     (if length cols < 3 then
        Inl ''Expected at least 3 columns (studentName, studentId, degree).''
      else if filter (\<lambda>v. trim v \<noteq> []) (drop 4 cols) \<noteq> [] then
        Inl ''Too many columns. Expected studentName, studentId, degree, and optional documentHash.''
      else let normalizedHash = (if length cols < 4 then [] else toLowerCase (trim (cols ! 3))) in
        if normalizedHash \<noteq> [] \<and> \<not> isHex64 normalizedHash then
          Inl ''documentHash must be a 64-character SHA-256 hex value.''
        else Inr \<lparr>r_rowNumber = rowNumber, r_studentName = cols ! 0, r_studentId = cols ! 1,
          r_degree = cols ! 2,
          r_documentHash = (if normalizedHash = [] then None else Some normalizedHash)\<rparr>)"

text \<open>One turn of the loop over the lines; the flag is \<open>firstDataLineSeen\<close>.\<close>

definition csvStep :: "csvResult \<times> bool \<Rightarrow> nat \<times> string \<Rightarrow> csvResult \<times> bool" where
  "csvStep st il = (case st of (res, seen) \<Rightarrow> case il of (index, line) \<Rightarrow>
     let rowNumber = index + 1;
         addError = (\<lambda>m. res\<lparr>cr_errors := cr_errors res @ [\<lparr>e_rowNumber = rowNumber, e_message = m\<rparr>]\<rparr>)
     in if trim line = [] then (res, seen)
        else (case parseCsvLine line of
          Inl m \<Rightarrow> (addError m, seen)
        | Inr raw \<Rightarrow> let cols = map trim raw in
            if \<not> seen \<and> isHeaderRow cols then (res\<lparr>cr_hasHeader := True\<rparr>, True)
            else (case parseRow rowNumber cols of
              Inl m \<Rightarrow> (addError m, True)
            | Inr row \<Rightarrow> (res\<lparr>cr_rows := cr_rows res @ [row]\<rparr>, True))))"

definition parseCredentialCsv :: "string \<Rightarrow> csvResult" where
  "parseCredentialCsv csvText =
     (let allLines = splitLines csvText;
          tooMany = (if length allLines > MAX_CSV_ROWS then
            [\<lparr>e_rowNumber = MAX_CSV_ROWS + 1,
              e_message = ''CSV has more than 5000 rows; split it into smaller batches''\<rparr>] else [])
      in fst (foldl csvStep (\<lparr>cr_rows = [], cr_errors = tooMany, cr_hasHeader = False\<rparr>, False)
           (enumerate 0 (take MAX_CSV_ROWS allLines))))"

subsection \<open>Every line is accounted for\<close>

definition nonBlank :: "string list \<Rightarrow> string list" where
  "nonBlank ls = filter (\<lambda>l. trim l \<noteq> []) ls"

definition csvCount :: "csvResult \<Rightarrow> nat" where
  "csvCount res = length (cr_rows res) + length (cr_errors res) + (if cr_hasHeader res then 1 else 0)"

text \<open>What holds of the result after the lines of the given numbers.\<close>

definition csvOk :: "nat \<Rightarrow> csvResult \<Rightarrow> bool" where
  "csvOk n res \<longleftrightarrow> sorted_wrt (<) (map r_rowNumber (cr_rows res)) \<and>
     (\<forall>r \<in> set (cr_rows res). 1 \<le> r_rowNumber r \<and> r_rowNumber r \<le> n \<and>
        trimmed (r_studentName r) \<and> trimmed (r_studentId r) \<and> trimmed (r_degree r) \<and>
        (\<forall>h. r_documentHash r = Some h \<longrightarrow> isHex64 h))"

lemma csvOk_mono: "csvOk n res \<Longrightarrow> n \<le> n' \<Longrightarrow> csvOk n' res"
  by (force simp: csvOk_def)

lemma parseRow_Inr:
  assumes "parseRow n cols = Inr row" and "\<forall>f \<in> set cols. trimmed f"
  shows "r_rowNumber row = n \<and> trimmed (r_studentName row) \<and> trimmed (r_studentId row) \<and>
    trimmed (r_degree row) \<and> (\<forall>h. r_documentHash row = Some h \<longrightarrow> isHex64 h)"
proof -
  have "3 \<le> length cols" using assms(1) by (auto simp: parseRow_def split: if_splits)
  then have "cols ! 0 \<in> set cols" "cols ! 1 \<in> set cols" "cols ! 2 \<in> set cols"
    by (auto intro!: nth_mem)
  then show ?thesis using assms by (auto simp: parseRow_def Let_def split: if_splits)
qed

lemma csvOk_add:
  assumes "csvOk n res" and "parseRow (n + 1) (map trim raw) = Inr row"
  shows "csvOk (n + 1) (res\<lparr>cr_rows := cr_rows res @ [row]\<rparr>)"
  using assms(1) parseRow_Inr [OF assms(2)] unfolding csvOk_def
  by (auto simp: sorted_wrt_append)

lemma csvStep_ok:
  assumes "csvOk n (fst st)"
  shows "csvOk (n + 1) (fst (csvStep st (n, l)))"
proof -
  have keep: "csvOk (n + 1) (fst st)" using csvOk_mono [OF assms] by simp
  then have "csvOk (n + 1) ((fst st)\<lparr>cr_errors := es\<rparr>)" "csvOk (n + 1) ((fst st)\<lparr>cr_hasHeader := b\<rparr>)"
    for es b by (simp_all add: csvOk_def)
  then show ?thesis
    using keep csvOk_add [OF assms]
    by (auto simp: csvStep_def Let_def split: prod.split sum.split)
qed

lemma csvStep_count: "(cr_hasHeader (fst st) \<longrightarrow> snd st) \<Longrightarrow>
  csvCount (fst (csvStep st (n, l))) = csvCount (fst st) + (if trim l = [] then 0 else 1) \<and>
  (cr_hasHeader (fst (csvStep st (n, l))) \<longrightarrow> snd (csvStep st (n, l)))"
  by (auto simp: csvStep_def csvCount_def Let_def split: prod.split sum.split)

lemma csvFold:
  assumes "csvOk n (fst st)" and "cr_hasHeader (fst st) \<longrightarrow> snd st"
  shows "csvOk (n + length ls) (fst (foldl csvStep st (enumerate n ls))) \<and>
    csvCount (fst (foldl csvStep st (enumerate n ls))) = csvCount (fst st) + length (nonBlank ls)"
  using assms
proof (induction ls arbitrary: n st)
  case (Cons l ls)
  show ?case
    using Cons.IH [of "n + 1" "csvStep st (n, l)"] csvStep_ok [OF Cons.prems(1), of l]
      csvStep_count [OF Cons.prems(2), of n l]
    by (simp add: nonBlank_def)
qed (simp add: nonBlank_def)

subsection \<open>Reading back what was written\<close>

definition escQuotes :: "string \<Rightarrow> string" where
  "escQuotes f = concat (map (\<lambda>c. if c = CHR 0x22 then [CHR 0x22, CHR 0x22] else [c]) f)"

definition csvQuote :: "string \<Rightarrow> string" where
  "csvQuote f = [CHR 0x22] @ escQuotes f @ [CHR 0x22]"

definition csvLine :: "string list \<Rightarrow> string" where
  "csvLine cols = join '','' (map csvQuote cols)"

lemma csvScan_escaped: "take 1 rest \<noteq> [CHR 0x22] \<Longrightarrow>
  csvScan cols cur True (escQuotes f @ CHR 0x22 # rest) = csvScan cols (cur @ f) False rest"
  by (induction f arbitrary: cur) (auto simp: escQuotes_def)

lemma csvScan_quoted: "take 1 rest \<noteq> [CHR 0x22] \<Longrightarrow>
  csvScan cols [] False (csvQuote f @ rest) = csvScan cols f False rest"
  using csvScan_escaped [of rest cols "[]" f] by (simp add: csvQuote_def)

lemma csvScan_line: "fs \<noteq> [] \<Longrightarrow> csvScan cols [] False (csvLine fs) = Some (cols @ fs)"
proof (induction fs arbitrary: cols)
  case (Cons f fs)
  show ?case
  proof (cases fs)
    case Nil
    then show ?thesis using csvScan_quoted [of "[]"] by (simp add: csvLine_def)
  next
    case (Cons g gs)
    then have "csvLine (f # fs) = csvQuote f @ CHR '','' # csvLine fs" by (simp add: csvLine_def)
    then show ?thesis
      using csvScan_quoted [of "CHR '','' # csvLine fs"] Cons.IH [of "cols @ [f]"] Cons by simp
  qed
qed simp

lemma parseCsvLine_line: "fs \<noteq> [] \<Longrightarrow> parseCsvLine (csvLine fs) = Inr fs"
  by (simp add: parseCsvLine_def csvScan_line)

definition inLine :: "string \<Rightarrow> bool" where
  "inLine s \<longleftrightarrow> CHR 0x0A \<notin> set s \<and> CHR 0x0D \<notin> set s"

lemma splitLines_word: "inLine l \<Longrightarrow> splitLines l = [l]"
  by (induction l) (auto simp: inLine_def)

lemma splitLines_cons: "inLine l \<Longrightarrow> splitLines (l @ CHR 0x0A # s) = l # splitLines s"
  by (induction l) (auto simp: inLine_def)

lemma splitLines_join:
  "ls \<noteq> [] \<Longrightarrow> \<forall>l \<in> set ls. inLine l \<Longrightarrow> splitLines (join [CHR 0x0A] ls) = ls"
  by (induction "[CHR 0x0A]" ls rule: join.induct) (auto simp: splitLines_word splitLines_cons)

lemma inLine_csvLine: "\<forall>f \<in> set fs. inLine f \<Longrightarrow> inLine (csvLine fs)"
proof (induction fs)
  case (Cons f fs)
  have "inLine (csvQuote f)" using Cons.prems by (auto simp: csvQuote_def escQuotes_def inLine_def)
  then show ?case using Cons by (cases fs) (auto simp: csvLine_def inLine_def)
qed (simp add: csvLine_def inLine_def)

lemma trim_nonblank:
  assumes "c \<in> set s" and "\<not> isWs c"
  shows "trim s \<noteq> []"
proof -
  have ne: "dropWhile isWs s \<noteq> []" unfolding dropWhile_eq_Nil_conv using assms by auto
  then have "hd (dropWhile isWs s) \<in> set (rev (dropWhile isWs s))" by simp
  then have "dropWhile isWs (rev (dropWhile isWs s)) \<noteq> []"
    unfolding dropWhile_eq_Nil_conv using hd_dropWhile_not [OF ne] by auto
  then show ?thesis by (simp add: trim_def)
qed

type_synonym student = "string \<times> string \<times> string"

definition studentFields :: "student \<Rightarrow> string list" where
  "studentFields x = (case x of (a, b, c) \<Rightarrow> [a, b, c])"

definition studentRow :: "nat \<Rightarrow> student \<Rightarrow> csvRow" where
  "studentRow n x = (case x of (a, b, c) \<Rightarrow> \<lparr>r_rowNumber = n, r_studentName = a,
     r_studentId = b, r_degree = c, r_documentHash = None\<rparr>)"

lemma csvStep_student:
  assumes "\<forall>f \<in> set (studentFields x). trimmed f"
  shows "csvStep (res, True) (n, csvLine (studentFields x)) =
    (res\<lparr>cr_rows := cr_rows res @ [studentRow (n + 1) x]\<rparr>, True)"
proof -
  obtain a b c where x: "x = (a, b, c)" by (cases x)
  have "CHR 0x22 \<in> set (csvLine (studentFields x))"
    by (simp add: x studentFields_def csvLine_def csvQuote_def)
  then have "trim (csvLine (studentFields x)) \<noteq> []" by (rule trim_nonblank) (simp add: isWs_def)
  then show ?thesis using assms
    by (simp add: csvStep_def parseCsvLine_line x studentFields_def trim_id parseRow_def
        studentRow_def)
qed

lemma csvFold_students:
  assumes "\<forall>x \<in> set xs. \<forall>f \<in> set (studentFields x). trimmed f"
  shows "foldl csvStep (res, True) (enumerate n (map (csvLine \<circ> studentFields) xs)) =
    (res\<lparr>cr_rows := cr_rows res @ map (\<lambda>(i, x). studentRow (i + 1) x) (enumerate n xs)\<rparr>, True)"
  using assms by (induction xs arbitrary: res n) (simp_all add: csvStep_student)

subsection \<open>Properties\<close>

text \<open>
  No line of a bulk file is lost or invented: over the first 5000 lines, every line that is
  not blank is either the one header, one row, or one error (a file beyond the limit has one error
  more); rows carry strictly increasing line numbers of the file, trimmed fields, and a document
  hash only in the form of a SHA-256 digest.
\<close>

theorem csv_lines_accounted:
  "csvCount (parseCredentialCsv csv) = length (nonBlank (take MAX_CSV_ROWS (splitLines csv))) +
     (if length (splitLines csv) > MAX_CSV_ROWS then 1 else 0) \<and>
   csvOk (min (length (splitLines csv)) MAX_CSV_ROWS) (parseCredentialCsv csv)"
proof -
  let ?ls = "take MAX_CSV_ROWS (splitLines csv)"
  let ?st = "(\<lparr>cr_rows = [], cr_errors = (if length (splitLines csv) > MAX_CSV_ROWS then
    [\<lparr>e_rowNumber = MAX_CSV_ROWS + 1,
      e_message = ''CSV has more than 5000 rows; split it into smaller batches''\<rparr>] else []),
    cr_hasHeader = False\<rparr>, False)"
  have "csvOk 0 (fst ?st)" by (simp add: csvOk_def)
  then have "csvOk (0 + length ?ls) (fst (foldl csvStep ?st (enumerate 0 ?ls))) \<and>
      csvCount (fst (foldl csvStep ?st (enumerate 0 ?ls))) = csvCount (fst ?st) + length (nonBlank ?ls)"
    by (rule csvFold) simp
  then show ?thesis
    by (simp add: parseCredentialCsv_def csvCount_def min.commute cong: if_cong split: if_splits)
qed

text \<open>
  C38. Round trip: a file of a header line and one line per student, every field quoted and its
  quotes doubled, is read back as exactly those students in order, with their line numbers and no
  error, when no field contains a line break or outer white space and the file is within the limit.
\<close>

theorem csv_roundtrip:
  assumes "\<forall>x \<in> set xs. \<forall>f \<in> set (studentFields x). trimmed f \<and> inLine f"
    and "length xs < MAX_CSV_ROWS"
  shows "parseCredentialCsv (join [CHR 0x0A]
      (''studentName,studentId,degree'' # map (csvLine \<circ> studentFields) xs)) =
    \<lparr>cr_rows = map (\<lambda>(i, x). studentRow (i + 1) x) (enumerate 1 xs), cr_errors = [],
     cr_hasHeader = True\<rparr>"
proof -
  let ?ls = "''studentName,studentId,degree'' # map (csvLine \<circ> studentFields) xs"
  have "inLine ''studentName,studentId,degree''" by (simp add: inLine_def)
  then have lines: "splitLines (join [CHR 0x0A] ?ls) = ?ls"
    using assms(1) by (intro splitLines_join) (auto intro!: inLine_csvLine)
  have header: "csvStep (res, False) (0, ''studentName,studentId,degree'') =
      (res\<lparr>cr_hasHeader := True\<rparr>, True)" for res
  proof -
    have "trim ''studentName,studentId,degree'' \<noteq> []" by code_simp
    moreover have "parseCsvLine ''studentName,studentId,degree'' =
        Inr [''studentName'', ''studentId'', ''degree'']" by code_simp
    moreover have "isHeaderRow (map trim [''studentName'', ''studentId'', ''degree''])" by code_simp
    ultimately show ?thesis by (simp add: csvStep_def del: list.map)
  qed
  show ?thesis
    using assms by (simp add: parseCredentialCsv_def lines Let_def header csvFold_students)
qed

theorem csv_roundtrip_witness:
  "cr_rows (parseCredentialCsv (join [CHR 0x0A]
      (''studentName,studentId,degree'' # map (csvLine \<circ> studentFields)
        [(''Lee, Ann'', ''1'', ''BSc'')]))) = [studentRow 2 (''Lee, Ann'', ''1'', ''BSc'')]"
  by (subst csv_roundtrip)
    (simp_all add: studentFields_def inLine_def trimmed_def isWs_def MAX_CSV_ROWS_def numeral_2_eq_2)

end
