(* ===== verification/AuditQueries.thy ===== *)
theory AuditQueries
  imports Institution JsNumber BulkCsv "HOL-Library.Product_Lexorder"
begin

text \<open>
  What administrators read of the registry: the queries of
  \<open>apps/api/src/modules/audit/audit.service.ts\<close> behind the dashboard, and the handlers of
  \<open>audit.controller.ts\<close> that parse their query strings and write the CSV export. An account with
  the role ADMIN sees one institution, every other role sees all of them.
  \<open>minusDays\<close> stands for \<open>date.setDate(date.getDate() - n)\<close> in the time zone of the process.
  \<open>findMany\<close> takes integers only; its negative \<open>take\<close> counts from the end of the order.
\<close>

subsection \<open>Pages\<close>

text \<open>\<open>take\<close> and \<open>skip\<close> of \<open>findMany\<close>: what is no integer is rejected before the query is sent.\<close>

definition prismaInt :: "jsNum \<Rightarrow> exn + int" where
  "prismaInt x = (case toInt x of
     None \<Rightarrow> Inl (PrismaFault ''Invalid value for an Int argument'') | Some n \<Rightarrow> Inr n)"

definition prismaSkip :: "jsNum \<Rightarrow> exn + int" where
  "prismaSkip x = (case prismaInt x of Inl e \<Rightarrow> Inl e
     | Inr n \<Rightarrow> if n < 0 then Inl (PrismaFault ''Invalid value for skip argument'') else Inr n)"

definition pageOf :: "int \<Rightarrow> int \<Rightarrow> 'a list \<Rightarrow> 'a list" where
  "pageOf tk skip rows = (if 0 \<le> tk then take (nat tk) (drop (nat skip) rows)
     else rev (take (nat (- tk)) (drop (nat skip) (rev rows))))"

definition findPage :: "env \<Rightarrow> jsNum \<Rightarrow> jsNum \<Rightarrow> (db \<Rightarrow> 'a list) \<Rightarrow> 'a list prog" where
  "findPage E tk skip f = bind (liftE (prismaInt tk)) (\<lambda>t. bind (liftE (prismaSkip skip)) (\<lambda>s.
     query E (\<lambda>d. pageOf t s (f d))))"

text \<open>\<open>Promise.all\<close> of counts: all are sent, the first rejection is the result.\<close>

fun countAll :: "env \<Rightarrow> (db \<Rightarrow> nat) list \<Rightarrow> nat list prog" where
  "countAll E [] = ret []"
| "countAll E (f # fs) = (\<lambda>w. case query E f w of
     (Inl e, w') \<Rightarrow> (Inl e, snd (countAll E fs w'))
   | (Inr n, w') \<Rightarrow> bind (countAll E fs) (\<lambda>ns. ret (n # ns)) w')"

subsection \<open>Scope\<close>

definition resolveIssuerId :: "env \<Rightarrow> jwtPayload \<Rightarrow> string option prog" where
  "resolveIssuerId E admin = (if j_role admin = ADMIN
     then bind (resolveInstitutionId E admin) (\<lambda>i. ret (Some i)) else ret None)"

definition credOf :: "db \<Rightarrow> string \<Rightarrow> credential option" where
  "credOf d i = List.find (\<lambda>c. c_id c = i) (credentials d)"

definition ownCredential :: "string option \<Rightarrow> db \<Rightarrow> string \<Rightarrow> bool" where
  "ownCredential issuerId d i = (case credOf d i of None \<Rightarrow> False
     | Some c \<Rightarrow> Some (c_issuerId c) = issuerId)"

definition buildVerificationLogWhere :: "string option \<Rightarrow> db \<Rightarrow> verificationLog \<Rightarrow> bool" where
  "buildVerificationLogWhere issuerId d l = (if truthy issuerId then
       (case vl_credentialId l of None \<Rightarrow> True | Some i \<Rightarrow> ownCredential issuerId d i)
     else True)"

definition issuerWhere :: "string option \<Rightarrow> credential \<Rightarrow> bool" where
  "issuerWhere issuerId c = (if truthy issuerId then Some (c_issuerId c) = issuerId else True)"

definition anchorLogWhere :: "string option \<Rightarrow> db \<Rightarrow> anchorLog \<Rightarrow> bool" where
  "anchorLogWhere issuerId d l =
     (if truthy issuerId then ownCredential issuerId d (al_credentialId l) else True)"

subsection \<open>Listings\<close>

type_synonym included = "(credential \<times> issuer option) option"

definition includeCredential :: "db \<Rightarrow> string option \<Rightarrow> included" where
  "includeCredential d i = (case i of None \<Rightarrow> None
     | Some j \<Rightarrow> map_option (\<lambda>c. (c, issuerOf d (c_issuerId c))) (credOf d j))"

fun mapEventTypeToLookupType :: "VerificationEventType \<Rightarrow> string" where
  "mapEventTypeToLookupType QR_LOOKUP = ''QR''"
| "mapEventTypeToLookupType PDF_INTEGRITY_CHECK = ''DOCUMENT''"
| "mapEventTypeToLookupType REGISTRY_CODE_LOOKUP = ''ID''"

definition logsView :: "string option \<Rightarrow> db \<Rightarrow> (verificationLog \<times> included) list" where
  "logsView issuerId d = map (\<lambda>l. (l, includeCredential d (vl_credentialId l)))
     (sort_key (\<lambda>l. - vl_createdAt l) (filter (buildVerificationLogWhere issuerId d) (verificationLogs d)))"

definition listLogs ::
  "env \<Rightarrow> jwtPayload \<Rightarrow> jsNum option \<Rightarrow> (verificationLog \<times> included \<times> string) list prog" where
  "listLogs E admin limit = (let tk = clampNum (orElse limit (num 50)) 1 200 50 in
     bind (resolveIssuerId E admin) (\<lambda>issuerId.
     bind (findPage E tk (num 0) (logsView issuerId)) (\<lambda>logs.
     ret (map (\<lambda>(l, c). (l, c, mapEventTypeToLookupType (vl_eventType l))) logs))))"

definition anchorLogsView :: "string option \<Rightarrow> db \<Rightarrow> (anchorLog \<times> included) list" where
  "anchorLogsView issuerId d = map (\<lambda>l. (l, includeCredential d (Some (al_credentialId l))))
     (sort_key (\<lambda>l. - al_updatedAt l) (filter (anchorLogWhere issuerId d) (anchorLogs d)))"

definition listBlockchainAudit ::
  "env \<Rightarrow> jwtPayload \<Rightarrow> jsNum option \<Rightarrow> (anchorLog \<times> included) list prog" where
  "listBlockchainAudit E admin limit = (let tk = clampNum (orElse limit (num 100)) 1 200 100 in
     bind (resolveIssuerId E admin) (\<lambda>issuerId.
     findPage E tk (num 0) (anchorLogsView issuerId)))"

subsection \<open>Dashboard metrics\<close>

record metrics =
  mt_totalIssued :: int
  mt_totalVerified :: int
  mt_revokedCount :: int
  mt_pendingAnchor :: int
  mt_successRateTenths :: int
  mt_activeCredentials :: int

definition countWhere :: "('a \<Rightarrow> bool) \<Rightarrow> 'a list \<Rightarrow> nat" where
  "countWhere P rows = length (filter P rows)"

text \<open>\<open>Math.round((ok / total) * 1000) / 10\<close>, in tenths of a percent.\<close>

definition successRateTenths :: "nat \<Rightarrow> nat \<Rightarrow> int" where
  "successRateTenths ok n = (if n > 0 then int ((2000 * ok + n) div (2 * n)) else 0)"

definition getDashboardMetrics :: "env \<Rightarrow> jwtPayload \<Rightarrow> metrics prog" where
  "getDashboardMetrics E admin = bind (resolveIssuerId E admin) (\<lambda>issuerId.
     bind (countAll E
       [\<lambda>d. countWhere (issuerWhere issuerId) (credentials d),
        \<lambda>d. countWhere (\<lambda>c. issuerWhere issuerId c \<and> c_revoked c) (credentials d),
        \<lambda>d. countWhere (\<lambda>c. issuerWhere issuerId c \<and> c_anchorStatus c = ''PENDING'') (credentials d),
        \<lambda>d. countWhere (buildVerificationLogWhere issuerId d) (verificationLogs d),
        \<lambda>d. countWhere (\<lambda>l. buildVerificationLogWhere issuerId d l \<and> vl_status l = ''VALID'')
          (verificationLogs d)]) (\<lambda>ns.
     let totalIssued = int (ns ! 0); revokedCount = int (ns ! 1) in
     ret \<lparr>mt_totalIssued = totalIssued, mt_totalVerified = int (ns ! 3),
       mt_revokedCount = revokedCount, mt_pendingAnchor = int (ns ! 2),
       mt_successRateTenths = successRateTenths (ns ! 4) (ns ! 3),
       mt_activeCredentials = totalIssued - revokedCount\<rparr>))"

subsection \<open>Activity feed\<close>

record activityItem =
  ac_id :: string
  ac_action :: string
  ac_lookupType :: string
  ac_status :: string
  ac_credentialId :: string
  ac_credentialDbId :: "string option"
  ac_degree :: "string option"
  ac_studentName :: "string option"
  ac_institution :: "string option"
  ac_occurredAt :: string
  ac_ipAddress :: "string option"
  ac_matched :: bool

definition mapEventTypeToAction :: "VerificationEventType \<Rightarrow> string \<Rightarrow> string" where
  "mapEventTypeToAction eventType status =
     (if status = ''REVOKED'' then ''Credential Revoked''
      else case eventType of REGISTRY_CODE_LOOKUP \<Rightarrow> ''ID Lookup'' | QR_LOOKUP \<Rightarrow> ''QR Verification''
        | PDF_INTEGRITY_CHECK \<Rightarrow> ''PDF Integrity Check'')"

definition activityOf :: "verificationLog \<times> included \<Rightarrow> activityItem" where
  "activityOf = (\<lambda>(l, cred). let c = map_option fst cred;
       iss = (case cred of None \<Rightarrow> None | Some (_, i) \<Rightarrow> i) in
     \<lparr>ac_id = vl_id l, ac_action = mapEventTypeToAction (vl_eventType l) (vl_status l),
      ac_lookupType = mapEventTypeToLookupType (vl_eventType l), ac_status = vl_status l,
      ac_credentialId = orElse (nullish (map_option c_credentialExternalId c) (vl_credentialId l)) ''-'',
      ac_credentialDbId = nullish (map_option c_id c) (vl_credentialId l),
      ac_degree = map_option c_degree c, ac_studentName = map_option c_studentName c,
      ac_institution = (case iss of None \<Rightarrow> None
        | Some i \<Rightarrow> nullish (i_displayName i) (Some (i_name i))),
      ac_occurredAt = toISOString (vl_createdAt l), ac_ipAddress = vl_ipAddress l,
      ac_matched = vl_matched l\<rparr>)"

definition getActivityFeed ::
  "env \<Rightarrow> jwtPayload \<Rightarrow> jsNum option \<Rightarrow> jsNum option \<Rightarrow> (activityItem list \<times> nat) prog" where
  "getActivityFeed E admin limit offset =
     (let tk = mathMin (orElse limit (num 25)) (num 100); skip = orElse offset (num 0) in
      bind (resolveIssuerId E admin) (\<lambda>issuerId.
      bind (findPage E tk skip (logsView issuerId)) (\<lambda>logs.
      bind (query E (\<lambda>d. countWhere (buildVerificationLogWhere issuerId d) (verificationLogs d)))
        (\<lambda>total. ret (map activityOf logs, total)))))"

subsection \<open>Verification analytics\<close>

record bucket =
  bk_date :: string
  bk_total :: nat
  bk_valid :: nat
  bk_invalid :: nat

definition dayKey :: "time \<Rightarrow> string" where
  "dayKey t = take 10 (toISOString t)"

text \<open>\<open>buckets.set(key, empty)\<close>, and what one log adds to its bucket.\<close>

definition setBucket :: "bucket list \<Rightarrow> string \<Rightarrow> bucket list" where
  "setBucket bs key = (let b = \<lparr>bk_date = key, bk_total = 0, bk_valid = 0, bk_invalid = 0\<rparr> in
     if key \<in> bk_date ` set bs then map (\<lambda>x. if bk_date x = key then b else x) bs else bs @ [b])"

definition countLog :: "bucket list \<Rightarrow> time \<times> string \<Rightarrow> bucket list" where
  "countLog bs = (\<lambda>(createdAt, status). map (\<lambda>b. if bk_date b = dayKey createdAt
       then (if status = ''VALID'' then b\<lparr>bk_total := bk_total b + 1, bk_valid := bk_valid b + 1\<rparr>
         else b\<lparr>bk_total := bk_total b + 1, bk_invalid := bk_invalid b + 1\<rparr>)
       else b) bs)"

definition sinceView :: "string option \<Rightarrow> time \<Rightarrow> db \<Rightarrow> (time \<times> string) list" where
  "sinceView issuerId since d = map (\<lambda>l. (vl_createdAt l, vl_status l))
     (sort_key vl_createdAt (filter (\<lambda>l. buildVerificationLogWhere issuerId d l \<and> since \<le> vl_createdAt l)
        (verificationLogs d)))"

definition getVerificationAnalytics ::
  "env \<Rightarrow> (time \<Rightarrow> int \<Rightarrow> time) \<Rightarrow> jwtPayload \<Rightarrow> nat \<Rightarrow> (nat \<times> bucket list) prog" where
  "getVerificationAnalytics E minusDays admin days = bind (resolveIssuerId E admin) (\<lambda>issuerId.
     bind (newDate E) (\<lambda>t.
     bind (query E (sinceView issuerId (minusDays t (int days)))) (\<lambda>logs.
     bind (foldM (\<lambda>bs i. bind (newDate E) (\<lambda>d. ret (setBucket bs (dayKey (minusDays d (int i))))))
        [] (rev [0..<days])) (\<lambda>buckets.
     ret (days, foldl countLog buckets logs)))))"

subsection \<open>Latest issuances and revocations, queue health\<close>

text \<open>The columns these listings select.\<close>

record issuance =
  is_id :: string
  is_credentialExternalId :: string
  is_degree :: string
  is_studentName :: string
  is_issuedAt :: time
  is_txHash :: "string option"
  is_anchorStatus :: string
  is_anchorVersion :: string
  is_issuer :: "issuer option"

definition issuancesView :: "string option \<Rightarrow> db \<Rightarrow> issuance list" where
  "issuancesView issuerId d = map (\<lambda>c. \<lparr>is_id = c_id c,
       is_credentialExternalId = c_credentialExternalId c, is_degree = c_degree c,
       is_studentName = c_studentName c, is_issuedAt = c_issuedAt c, is_txHash = c_txHash c,
       is_anchorStatus = c_anchorStatus c, is_anchorVersion = c_anchorVersion c,
       is_issuer = issuerOf d (c_issuerId c)\<rparr>)
     (sort_key (\<lambda>c. - c_issuedAt c) (filter (issuerWhere issuerId) (credentials d)))"

definition getLatestIssuances :: "env \<Rightarrow> jwtPayload \<Rightarrow> jsNum option \<Rightarrow> issuance list prog" where
  "getLatestIssuances E admin limit = (let tk = mathMin (orElse limit (num 10)) (num 50) in
     bind (resolveIssuerId E admin) (\<lambda>issuerId. findPage E tk (num 0) (issuancesView issuerId)))"

record revocation =
  rv_id :: string
  rv_credentialExternalId :: string
  rv_degree :: string
  rv_studentName :: string
  rv_revokedAt :: "time option"
  rv_revocationReason :: "RevocationReason option"
  rv_revocationTxHash :: "string option"
  rv_revokedBy :: "string option"
  rv_issuer :: "issuer option"

text \<open>Descending with the rows without a date first, as PostgreSQL orders them.\<close>

definition revocationsView :: "string option \<Rightarrow> db \<Rightarrow> revocation list" where
  "revocationsView issuerId d = map (\<lambda>c. \<lparr>rv_id = c_id c,
       rv_credentialExternalId = c_credentialExternalId c, rv_degree = c_degree c,
       rv_studentName = c_studentName c, rv_revokedAt = c_revokedAt c,
       rv_revocationReason = c_revocationReason c, rv_revocationTxHash = c_revocationTxHash c,
       rv_revokedBy = c_revokedBy c, rv_issuer = issuerOf d (c_issuerId c)\<rparr>)
     (sort_key (\<lambda>c. case c_revokedAt c of None \<Rightarrow> (0::int, 0) | Some t \<Rightarrow> (1, - t))
        (filter (\<lambda>c. issuerWhere issuerId c \<and> c_revoked c) (credentials d)))"

definition getLatestRevocations :: "env \<Rightarrow> jwtPayload \<Rightarrow> jsNum option \<Rightarrow> revocation list prog" where
  "getLatestRevocations E admin limit = (let tk = mathMin (orElse limit (num 10)) (num 50) in
     bind (resolveIssuerId E admin) (\<lambda>issuerId. findPage E tk (num 0) (revocationsView issuerId)))"

record queueHealth =
  qh_pending :: nat
  qh_processing :: nat
  qh_failed :: nat
  qh_completed :: nat
  qh_health :: string

definition getQueueHealth :: "env \<Rightarrow> jwtPayload \<Rightarrow> queueHealth prog" where
  "getQueueHealth E admin = bind (resolveIssuerId E admin) (\<lambda>issuerId.
     bind (countAll E (map (\<lambda>status d. countWhere
         (\<lambda>l. anchorLogWhere issuerId d l \<and> al_status l = status) (anchorLogs d))
       [''PENDING'', ''RETRYING'', ''FAILED'', ''ANCHORED''])) (\<lambda>ns.
     let failed = ns ! 2 in
     ret \<lparr>qh_pending = ns ! 0, qh_processing = ns ! 1, qh_failed = failed, qh_completed = ns ! 3,
       qh_health = (if failed = 0 then ''healthy'' else if failed > 5 then ''critical''
         else ''warning'')\<rparr>))"

subsection \<open>CSV export\<close>

record exportRow =
  ex_credentialId :: string
  ex_institution :: string
  ex_degree :: string
  ex_studentName :: string
  ex_studentId :: string
  ex_issuedDate :: string
  ex_verificationCount :: int
  ex_status :: string
  ex_blockchainState :: string
  ex_txHash :: string

definition exportRowOf :: "credential \<times> issuer \<Rightarrow> exportRow" where
  "exportRowOf = (\<lambda>(c, i). \<lparr>ex_credentialId = c_credentialExternalId c,
     ex_institution = orElse (i_displayName i) (i_name i), ex_degree = c_degree c,
     ex_studentName = c_studentName c, ex_studentId = c_studentId c,
     ex_issuedDate = dayKey (c_issuedAt c), ex_verificationCount = c_verificationCount c,
     ex_status = (if c_revoked c then ''REVOKED'' else ''ACTIVE''),
     ex_blockchainState = c_anchorStatus c, ex_txHash = orElse (c_txHash c) []\<rparr>)"

definition exportView :: "string option \<Rightarrow> db \<Rightarrow> (credential \<times> issuer option) list" where
  "exportView issuerId d = map (\<lambda>c. (c, issuerOf d (c_issuerId c)))
     (sort_key (\<lambda>c. - c_issuedAt c) (filter (issuerWhere issuerId) (credentials d)))"

definition getExportData :: "env \<Rightarrow> jwtPayload \<Rightarrow> exportRow list prog" where
  "getExportData E admin = bind (resolveIssuerId E admin) (\<lambda>issuerId.
     bind (query E (exportView issuerId)) (\<lambda>rows.
     if \<exists>r \<in> set rows. snd r = None
     then throw (PrismaFault ''Inconsistent query result: required relation is null'')
     else ret (map (\<lambda>(c, i). exportRowOf (c, the i)) rows)))"

definition exportHeaders :: "string list" where
  "exportHeaders = [''Credential ID'', ''Institution'', ''Degree'', ''Student Name'', ''Student ID'',
     ''Issued Date'', ''Verification Count'', ''Status'', ''Blockchain State'', ''Tx Hash'']"

definition exportFields :: "exportRow \<Rightarrow> string list" where
  "exportFields r = [ex_credentialId r, ex_institution r, ex_degree r, ex_studentName r,
     ex_studentId r, ex_issuedDate r, showInt (ex_verificationCount r), ex_status r,
     ex_blockchainState r, ex_txHash r]"

text \<open>\<open>escape\<close>: quotes doubled, the field in quotes.\<close>

definition escape :: "string \<Rightarrow> string" where
  "escape v = [CHR 0x22] @ concat (map (\<lambda>c. if c = CHR 0x22 then [CHR 0x22, CHR 0x22] else [c]) v)
     @ [CHR 0x22]"

definition exportText :: "exportRow list \<Rightarrow> string" where
  "exportText rows = join [CHR 0x0D, CHR 0x0A]
     (join '','' exportHeaders # map (\<lambda>r. join '','' (map escape (exportFields r))) rows)"

record csvResponse =
  cs_contentType :: string
  cs_disposition :: string
  cs_body :: string

definition exportCsv :: "env \<Rightarrow> jwtPayload \<Rightarrow> csvResponse prog" where
  "exportCsv E admin = bind (getExportData E admin) (\<lambda>rows. bind (newDate E) (\<lambda>now.
     ret \<lparr>cs_contentType = ''text/csv'',
       cs_disposition = ''attachment; filename='' @ [CHR 0x22] @ ''certiva-credentials-'' @ dayKey now
         @ ''.csv'' @ [CHR 0x22],
       cs_body = exportText rows\<rparr>))"

subsection \<open>Query strings\<close>

definition queryNumber :: "string option \<Rightarrow> jsNum option" where
  "queryNumber q = (if truthy q then Some (toNumber (the q)) else None)"

definition queryDays :: "string option \<Rightarrow> nat" where
  "queryDays q = (let n = (case q of None \<Rightarrow> num 7 | Some s \<Rightarrow> toNumber s) in
     if numEq n (num 7) then 7 else if numEq n (num 30) then 30 else if numEq n (num 90) then 90 else 7)"

datatype auditCall = CallLogs "string option" | CallBlockchain "string option" | CallMetrics
  | CallActivity "string option" "string option" | CallAnalytics "string option"
  | CallIssuances "string option" | CallRevocations "string option" | CallQueue | CallExport

datatype auditAnswer = AnsLogs "(verificationLog \<times> included \<times> string) list"
  | AnsBlockchain "(anchorLog \<times> included) list" | AnsMetrics metrics
  | AnsActivity "activityItem list \<times> nat" | AnsAnalytics "nat \<times> bucket list"
  | AnsIssuances "issuance list" | AnsRevocations "revocation list" | AnsQueue queueHealth
  | AnsExport csvResponse

definition answering :: "('a \<Rightarrow> 'b) \<Rightarrow> 'a prog \<Rightarrow> 'b prog" where
  "answering f m = bind m (\<lambda>x. ret (f x))"

fun auditController ::
  "env \<Rightarrow> (time \<Rightarrow> int \<Rightarrow> time) \<Rightarrow> jwtPayload \<Rightarrow> auditCall \<Rightarrow> auditAnswer prog" where
  "auditController E z admin (CallLogs q) = answering AnsLogs (listLogs E admin (queryNumber q))"
| "auditController E z admin (CallBlockchain q) =
     answering AnsBlockchain (listBlockchainAudit E admin (queryNumber q))"
| "auditController E z admin CallMetrics = answering AnsMetrics (getDashboardMetrics E admin)"
| "auditController E z admin (CallActivity q s) =
     answering AnsActivity (getActivityFeed E admin (queryNumber q) (queryNumber s))"
| "auditController E z admin (CallAnalytics q) =
     answering AnsAnalytics (getVerificationAnalytics E z admin (queryDays q))"
| "auditController E z admin (CallIssuances q) =
     answering AnsIssuances (getLatestIssuances E admin (queryNumber q))"
| "auditController E z admin (CallRevocations q) =
     answering AnsRevocations (getLatestRevocations E admin (queryNumber q))"
| "auditController E z admin CallQueue = answering AnsQueue (getQueueHealth E admin)"
| "auditController E z admin CallExport = answering AnsExport (exportCsv E admin)"

end
