(* ===== verification/AuditQueriesLaws.thy ===== *)
theory AuditQueriesLaws
  imports AuditQueries
begin

text \<open>
  What the dashboard queries guarantee: an ADMIN's answers do not depend on the rows of other
  institutions (the locale \<open>view_frame\<close>: a program that commutes with forgetting tables it does not
  use), the day buckets of the analytics count every recent lookup, the listings are bounded, and
  the CSV export reads back as the rows it was made from.
\<close>

subsection \<open>Programs that commute with a view of the database\<close>

named_theorems sees_intros

definition viewWorld :: "(db \<Rightarrow> db) \<Rightarrow> world \<Rightarrow> world" where
  "viewWorld v w = w\<lparr>database := v (database w)\<rparr>"

definition sees :: "(db \<Rightarrow> db) \<Rightarrow> 'a prog \<Rightarrow> bool" where
  "sees v m \<longleftrightarrow> (\<forall>w. m (viewWorld v w) = map_prod id (viewWorld v) (m w))"

lemma viewWorld_simps [simp]:
  "database (viewWorld v w) = v (database w)" "tick (viewWorld v w) = tick w"
  "nextTick (viewWorld v w) = viewWorld v (nextTick w)"
  by (simp_all add: viewWorld_def nextTick_def)

lemma sees_ret [sees_intros]: "sees v (ret x)"
  by (simp add: sees_def ret_def)

lemma sees_throw [sees_intros]: "sees v (throw e)"
  by (simp add: sees_def throw_def)

lemma sees_bind [sees_intros]: "sees v m \<Longrightarrow> (\<And>x. sees v (f x)) \<Longrightarrow> sees v (bind m f)"
  by (auto simp: sees_def bind_def split: prod.splits sum.splits)

lemma sees_andThen [sees_intros]: "sees v m \<Longrightarrow> sees v n \<Longrightarrow> sees v (andThen m n)"
  by (simp add: andThen_def sees_bind)

lemma sees_liftE [sees_intros]: "sees v (liftE r)"
  by (simp add: liftE_def sees_ret sees_throw split: sum.split)

lemma sees_newDate [sees_intros]: "sees v (newDate E)"
  by (simp add: sees_def newDate_def)

lemma sees_query [sees_intros]: "(\<And>d. f (v d) = f d) \<Longrightarrow> sees v (query E f)"
  by (simp add: sees_def query_def external_def split: option.split)

lemma sees_exec:
  assumes "\<And>now cu d. stmt now cu (v d) = map_sum id (map_prod id v) (stmt now cu d)"
  shows "sees v (exec E stmt)"
  using assms by (auto simp: sees_def exec_def external_def viewWorld_def nextTick_def
      split: option.splits sum.splits)

lemma sees_findPage [sees_intros]: "(\<And>d. f (v d) = f d) \<Longrightarrow> sees v (findPage E t s f)"
  unfolding findPage_def by (auto intro!: sees_intros)

lemma sees_countAll [sees_intros]: "(\<forall>f \<in> set fs. \<forall>d. f (v d) = f d) \<Longrightarrow> sees v (countAll E fs)"
proof (induction fs)
  case (Cons f fs)
  have "sees v (query E f)" and "sees v (bind (countAll E fs) (\<lambda>ns. ret (n # ns)))"
    and "sees v (countAll E fs)" for n
    using Cons by (auto intro!: sees_intros)
  then show ?case by (auto simp: sees_def split: prod.splits sum.splits)
qed (simp add: sees_ret)

declare countAll.simps [simp del]

lemma sees_foldM [sees_intros]: "(\<And>s x. sees v (f s x)) \<Longrightarrow> sees v (foldM f s xs)"
  by (induction xs arbitrary: s) (auto intro!: sees_intros)

lemma sees_answering [sees_intros]: "sees v m \<Longrightarrow> sees v (answering f m)"
  unfolding answering_def by (auto intro!: sees_intros)

text \<open>Forgetting tables that the institution component does not use.\<close>

locale view_frame =
  fixes v :: "db \<Rightarrow> db"
  assumes view_issuers: "issuers (v d) = issuers d"
    and view_admins: "admins (v d) = admins d"
    and view_put_issuers: "v (d\<lparr>issuers := xs\<rparr>) = (v d)\<lparr>issuers := xs\<rparr>"
    and view_put_admins: "v (d\<lparr>admins := ys\<rparr>) = (v d)\<lparr>admins := ys\<rparr>"
begin

lemma sees_findActive: "sees v (findActiveInstitution E)"
  unfolding findActiveInstitution_def
  by (auto intro!: sees_intros simp: view_issuers split: option.split)

lemma sees_ensureDevelopment: "sees v (ensureDevelopmentInstitution E)"
  unfolding ensureDevelopmentInstitution_def createIssuer_def
  by (auto intro!: sees_intros sees_findActive sees_exec
      simp: view_issuers view_put_issuers split: option.split sum.split)

lemma sees_link: "sees v (linkAdminToInstitution E a i)"
  unfolding linkAdminToInstitution_def updateAdminRow_def
  by (auto intro!: sees_intros sees_exec simp: view_admins view_put_admins split: sum.split)

lemma sees_resolve: "sees v (resolveInstitutionId E admin)"
  unfolding resolveInstitutionId_def resolveInstitutionForAdmin_def
  by (auto intro!: sees_intros sees_findActive sees_ensureDevelopment sees_link
      simp: view_issuers issuerOf_def split: option.split)

text \<open>A program that first resolves the institution, and then only sees the view for that one.\<close>

lemma resolved_sees:
  assumes "fst (resolveInstitutionId E admin w) = Inr iid" and "j_role admin = ADMIN"
    and "sees v (f (Some iid))"
  shows "fst (bind (resolveIssuerId E admin) f (viewWorld v w)) =
    fst (bind (resolveIssuerId E admin) f w)"
proof -
  obtain w1 where run: "resolveInstitutionId E admin w = (Inr iid, w1)"
    using assms(1) by (metis prod.collapse)
  have "resolveInstitutionId E admin (viewWorld v w) = (Inr iid, viewWorld v w1)"
    using sees_resolve [of E admin] run by (simp add: sees_def)
  then show ?thesis
    using run assms(2,3) by (simp add: resolveIssuerId_def bind_def ret_def sees_def)
qed

end

subsection \<open>One institution\<close>

definition ownLog :: "string \<Rightarrow> db \<Rightarrow> verificationLog \<Rightarrow> bool" where
  "ownLog iid d l \<longleftrightarrow> (case vl_credentialId l of None \<Rightarrow> True
     | Some i \<Rightarrow> ownCredential (Some iid) d i)"

text \<open>
  The database without the credentials of other institutions and without the lookups and chain
  operations that belong to them.
\<close>

definition forgetOthers :: "string \<Rightarrow> db \<Rightarrow> db" where
  "forgetOthers iid d = d\<lparr>
     credentials := filter (\<lambda>c. c_issuerId c = iid) (credentials d),
     verificationLogs := filter (ownLog iid d) (verificationLogs d),
     anchorLogs := filter (\<lambda>l. ownCredential (Some iid) d (al_credentialId l)) (anchorLogs d)\<rparr>"

lemma own_frame [simp]:
  "ownCredential i (d\<lparr>issuers := xs\<rparr>) j = ownCredential i d j"
  "ownCredential i (d\<lparr>admins := ys\<rparr>) j = ownCredential i d j"
  "ownLog i' (d\<lparr>issuers := xs\<rparr>) = ownLog i' d" "ownLog i' (d\<lparr>admins := ys\<rparr>) = ownLog i' d"
  by (simp_all add: fun_eq_iff ownLog_def ownCredential_def credOf_def split: option.split)

interpretation own: view_frame "forgetOthers iid" for iid
  by unfold_locales (auto simp: forgetOthers_def intro!: db.equality)

lemma forget_simps [simp]:
  "credentials (forgetOthers iid d) = filter (\<lambda>c. c_issuerId c = iid) (credentials d)"
  "verificationLogs (forgetOthers iid d) = filter (ownLog iid d) (verificationLogs d)"
  "anchorLogs (forgetOthers iid d) =
     filter (\<lambda>l. ownCredential (Some iid) d (al_credentialId l)) (anchorLogs d)"
  "issuers (forgetOthers iid d) = issuers d"
  by (simp_all add: forgetOthers_def)

lemma find_filter: "List.find P xs = Some x \<Longrightarrow> Q x \<Longrightarrow> List.find P (filter Q xs) = Some x"
  by (induction xs) (auto split: if_splits)

lemma credOf_forget: "ownCredential (Some iid) d i \<Longrightarrow> credOf (forgetOthers iid d) i = credOf d i"
  by (auto simp: ownCredential_def credOf_def split: option.splits intro: find_filter)

lemma own_forget: "ownCredential (Some iid) d i \<Longrightarrow> ownCredential (Some iid) (forgetOthers iid d) i"
  using credOf_forget [of iid d i] by (simp add: ownCredential_def)

lemma where_own:
  "iid \<noteq> [] \<Longrightarrow> buildVerificationLogWhere (Some iid) d = ownLog iid d"
  "iid \<noteq> [] \<Longrightarrow> issuerWhere (Some iid) = (\<lambda>c. c_issuerId c = iid)"
  "iid \<noteq> [] \<Longrightarrow> anchorLogWhere (Some iid) d = (\<lambda>a. ownCredential (Some iid) d (al_credentialId a))"
  by (auto simp: fun_eq_iff buildVerificationLogWhere_def issuerWhere_def anchorLogWhere_def truthy_def ownLog_def
      split: option.split)

lemma ownLog_forget: "ownLog iid d l \<Longrightarrow> ownLog iid (forgetOthers iid d) l"
  by (auto simp: ownLog_def own_forget split: option.splits)

lemma filter_own_logs:
  "filter (\<lambda>l. ownLog iid d l \<and> ownLog iid (forgetOthers iid d) l) xs = filter (ownLog iid d) xs"
  "filter (\<lambda>l. ownLog iid d l \<and> ownLog iid (forgetOthers iid d) l \<and> R l) xs =
   filter (\<lambda>l. ownLog iid d l \<and> R l) xs"
  by (auto intro!: filter_cong dest: ownLog_forget)

lemma filter_own_anchors:
  "filter (\<lambda>l. ownCredential (Some iid) d (f l) \<and> ownCredential (Some iid) (forgetOthers iid d) (f l)) xs =
   filter (\<lambda>l. ownCredential (Some iid) d (f l)) xs"
  "filter (\<lambda>l. ownCredential (Some iid) d (f l) \<and> ownCredential (Some iid) (forgetOthers iid d) (f l) \<and> R l) xs =
   filter (\<lambda>l. ownCredential (Some iid) d (f l) \<and> R l) xs"
  by (auto intro!: filter_cong dest: own_forget)

lemma include_forget:
  "ownLog iid d l \<Longrightarrow>
   includeCredential (forgetOthers iid d) (vl_credentialId l) = includeCredential d (vl_credentialId l)"
  "ownCredential (Some iid) d i \<Longrightarrow>
   includeCredential (forgetOthers iid d) (Some i) = includeCredential d (Some i)"
  by (auto simp: includeCredential_def ownLog_def credOf_forget issuerOf_def split: option.splits)

lemma views_forget:
  assumes "iid \<noteq> []"
  shows "logsView (Some iid) (forgetOthers iid d) = logsView (Some iid) d"
    and "anchorLogsView (Some iid) (forgetOthers iid d) = anchorLogsView (Some iid) d"
    and "sinceView (Some iid) t (forgetOthers iid d) = sinceView (Some iid) t d"
    and "issuancesView (Some iid) (forgetOthers iid d) = issuancesView (Some iid) d"
    and "revocationsView (Some iid) (forgetOthers iid d) = revocationsView (Some iid) d"
    and "exportView (Some iid) (forgetOthers iid d) = exportView (Some iid) d"
  using assms
  by (simp_all add: logsView_def anchorLogsView_def sinceView_def issuancesView_def revocationsView_def
      exportView_def where_own filter_own_logs filter_own_anchors include_forget issuerOf_def
      cong: map_cong)

lemma counts_forget:
  assumes "iid \<noteq> []"
  shows "countWhere (buildVerificationLogWhere (Some iid) (forgetOthers iid d))
      (filter (ownLog iid d) xs) = countWhere (buildVerificationLogWhere (Some iid) d) xs"
    and "countWhere (\<lambda>l. buildVerificationLogWhere (Some iid) (forgetOthers iid d) l \<and> R l)
      (filter (ownLog iid d) xs) = countWhere (\<lambda>l. buildVerificationLogWhere (Some iid) d l \<and> R l) xs"
    and "countWhere (\<lambda>c. issuerWhere (Some iid) c) (filter (\<lambda>c. c_issuerId c = iid) cs) =
      countWhere (issuerWhere (Some iid)) cs"
    and "countWhere (\<lambda>c. issuerWhere (Some iid) c \<and> P c) (filter (\<lambda>c. c_issuerId c = iid) cs) =
      countWhere (\<lambda>c. issuerWhere (Some iid) c \<and> P c) cs"
    and "countWhere (\<lambda>l. anchorLogWhere (Some iid) (forgetOthers iid d) l \<and> S l)
      (filter (\<lambda>l. ownCredential (Some iid) d (al_credentialId l)) as) =
      countWhere (\<lambda>l. anchorLogWhere (Some iid) d l \<and> S l) as"
  using assms
  by (auto simp: countWhere_def where_own intro!: arg_cong [where f = length] filter_cong
      dest: ownLog_forget own_forget)

lemma fst_answering: "fst (m w) = fst (m w') \<Longrightarrow> fst (answering f m w) = fst (answering f m w')"
  by (auto simp: answering_def bind_def ret_def split: prod.splits sum.splits)

lemmas confined_defs = listLogs_def listBlockchainAudit_def getDashboardMetrics_def
  getActivityFeed_def getVerificationAnalytics_def getLatestIssuances_def getLatestRevocations_def
  getQueueHealth_def Let_def

lemma exportCsv_bind: "exportCsv E admin = bind (resolveIssuerId E admin) (\<lambda>issuerId.
   bind (bind (query E (exportView issuerId)) (\<lambda>rows.
     if \<exists>r \<in> set rows. snd r = None
     then throw (PrismaFault ''Inconsistent query result: required relation is null'')
     else ret (map (\<lambda>(c, i). exportRowOf (c, the i)) rows))) (\<lambda>rows. bind (newDate E) (\<lambda>now.
     ret \<lparr>cs_contentType = ''text/csv'',
       cs_disposition = ''attachment; filename='' @ [CHR 0x22] @ ''certiva-credentials-'' @ dayKey now
         @ ''.csv'' @ [CHR 0x22],
       cs_body = exportText rows\<rparr>)))"
  by (rule ext) (simp add: exportCsv_def getExportData_def bind_def split: prod.split sum.split)

text \<open>
  C17. An administrator of one institution works on that institution alone: the answer of every
  dashboard call (logs, chain operations, metrics, activity, analytics, issuances, revocations,
  queue health, CSV export), whatever its query string, is the answer he would get if the
  credentials of all other institutions, their lookups and their chain operations were not stored.
\<close>

theorem dashboard_confined:
  assumes "fst (resolveInstitutionId E admin w) = Inr iid" and "iid \<noteq> []" and "j_role admin = ADMIN"
  shows "fst (auditController E z admin call (viewWorld (forgetOthers iid) w)) =
    fst (auditController E z admin call w)"
proof -
  note confined = own.resolved_sees [OF assms(1,3)]
  note own = views_forget [OF assms(2)] counts_forget [OF assms(2)]
  show ?thesis
  proof (cases call)
    case CallExport
    show ?thesis unfolding CallExport auditController.simps exportCsv_bind
      by (rule fst_answering, rule confined) (auto intro!: sees_intros simp: own)
  qed (simp_all only: auditController.simps confined_defs,
    (rule fst_answering, rule confined, intro sees_intros; simp add: own split: prod.split)+)
qed

subsection \<open>Day buckets\<close>

definition DAY :: int where "DAY = 86400000"

lemma length_pad: "w \<le> length (pad w i)"
  by (simp add: pad_def Let_def)

lemma length_showYear: "4 \<le> length (showYear y)"
  using length_pad [of 4 y] length_pad [of 6 "- y"] length_pad [of 6 y]
  by (auto simp: showYear_def)

text \<open>The date of an instant depends on its day only.\<close>

lemma dayKey_day: "dayKey t = dayKey (t div DAY * DAY)"
proof -
  have "dayKey t = (let (y, m, d) = civil (t div DAY) in
      take 10 (showYear y @ ''-'' @ pad 2 m @ ''-'' @ pad 2 d))" for t
  proof -
    obtain y m d where c: "civil (t div DAY) = (y, m, d)" by (metis prod_cases3)
    have "10 \<le> length (showYear y @ ''-'' @ pad 2 m @ ''-'' @ pad 2 d)"
      using length_showYear [of y] length_pad [of 2 m] length_pad [of 2 d] by simp
    moreover have "take 10 (s @ r) = take 10 s" if "10 \<le> length s" for s r :: string
      using that by simp
    ultimately have "take 10 ((showYear y @ ''-'' @ pad 2 m @ ''-'' @ pad 2 d) @ r) =
        take 10 (showYear y @ ''-'' @ pad 2 m @ ''-'' @ pad 2 d)" for r by blast
    then show ?thesis using c
      by (simp add: dayKey_def toISOString_def DAY_def Let_def del: take_append)
  qed
  note key = this
  show ?thesis unfolding key [of t] key [of "t div DAY * DAY"] by (simp add: DAY_def)
qed

lemma dayKey_sub: "t div DAY = today \<Longrightarrow> dayKey (t - int i * DAY) = dayKey ((today - int i) * DAY)"
proof -
  assume "t div DAY = today"
  moreover have "(t - int i * DAY) div DAY = t div DAY - int i"
    using div_mult_self1 [of DAY t "- int i"] by (simp add: DAY_def)
  ultimately show ?thesis using dayKey_day [of "t - int i * DAY"] by simp
qed

definition zeroBucket :: "string \<Rightarrow> bucket" where
  "zeroBucket key = \<lparr>bk_date = key, bk_total = 0, bk_valid = 0, bk_invalid = 0\<rparr>"

lemma setBucket_zero:
  "bs = map zeroBucket ks \<Longrightarrow> distinct ks \<Longrightarrow>
   setBucket bs k = map zeroBucket (if k \<in> set ks then ks else ks @ [k])"
  by (auto simp: setBucket_def zeroBucket_def image_iff)

lemma setBuckets:
  "\<exists>ks'. foldl setBucket (map zeroBucket ks) keys = map zeroBucket ks' \<and> distinct ks' \<and>
     set ks' = set ks \<union> set keys" if "distinct ks" for ks
  using that
proof (induction keys arbitrary: ks)
  case (Cons k keys)
  let ?ks = "if k \<in> set ks then ks else ks @ [k]"
  have "set ?ks \<union> set keys = set ks \<union> set (k # keys)" by auto
  then show ?case using Cons.IH [of ?ks] Cons.prems by (simp add: setBucket_zero)
qed auto

text \<open>What a list of lookups adds to one bucket.\<close>

definition dated :: "string \<Rightarrow> (time \<times> string) list \<Rightarrow> (time \<times> string) list" where
  "dated key logs = filter (\<lambda>l. dayKey (fst l) = key) logs"

definition countedBucket :: "bucket \<Rightarrow> (time \<times> string) list \<Rightarrow> bucket" where
  "countedBucket b logs = b\<lparr>bk_total := bk_total b + length (dated (bk_date b) logs),
     bk_valid := bk_valid b + countWhere (\<lambda>l. snd l = ''VALID'') (dated (bk_date b) logs),
     bk_invalid := bk_invalid b + countWhere (\<lambda>l. snd l \<noteq> ''VALID'') (dated (bk_date b) logs)\<rparr>"

lemma countLogs: "foldl countLog bs logs = map (\<lambda>b. countedBucket b logs) bs"
proof (induction logs arbitrary: bs)
  case Nil
  show ?case by (simp add: countedBucket_def dated_def countWhere_def)
next
  case (Cons l logs)
  have "countedBucket (if bk_date b = dayKey (fst l)
      then (if snd l = ''VALID'' then b\<lparr>bk_total := bk_total b + 1, bk_valid := bk_valid b + 1\<rparr>
        else b\<lparr>bk_total := bk_total b + 1, bk_invalid := bk_invalid b + 1\<rparr>) else b) logs =
    countedBucket b (l # logs)" for b
    by (simp add: countedBucket_def dated_def countWhere_def)
  then show ?case using Cons by (simp add: countLog_def split_beta comp_def)
qed

lemma bucket_loop_wp:
  assumes "\<And>n i. key (clock E n) i = k i"
  shows "wp (foldM (\<lambda>bs i. bind (newDate E) (\<lambda>d. ret (setBucket bs (key d i)))) bs is)
    (\<lambda>r w'. r = foldl setBucket bs (map k is)) (\<lambda>e w'. False) w"
proof (induction "is" arbitrary: bs w)
  case (Cons i "is")
  then show ?case by (simp add: wp_simps assms del: foldM.simps)
qed (simp add: wp_simps)

lemma dated_since:
  "length (dated key (sinceView issuerId since d)) = countWhere (\<lambda>l.
     buildVerificationLogWhere issuerId d l \<and> since \<le> vl_createdAt l \<and> dayKey (vl_createdAt l) = key)
     (verificationLogs d)"
proof -
  have "length (filter P (sort_key f xs)) = length (filter P xs)" for P :: "verificationLog \<Rightarrow> bool"
    and f :: "verificationLog \<Rightarrow> time" and xs
    by (simp add: filter_sort)
  then show ?thesis
    by (simp add: dated_def sinceView_def countWhere_def filter_map comp_def conj_ac)
qed

text \<open>
  The dashboard counts every lookup of the last days: in a time zone without clock changes and
  while the date does not change, the buckets of \<open>getVerificationAnalytics\<close> carry the dates of the
  last \<open>days\<close> days, each of them once; a bucket holds exactly the lookups the account may see with
  that date, each as valid or as invalid and not as both; and no lookup of these days is left out.
\<close>

theorem analytics_count_every_lookup:
  assumes "resolveIssuerId E admin w = (Inr issuerId, w1)"
    and "fst (getVerificationAnalytics E minusDays admin days w) = Inr (n, buckets)"
    and zone: "\<And>t k. minusDays t k = t - k * DAY" and today: "\<And>k. clock E k div DAY = today"
  shows "distinct (map bk_date buckets) \<and>
    bk_date ` set buckets = (\<lambda>i. dayKey ((today - int i) * DAY)) ` {..<days} \<and>
    (\<forall>b \<in> set buckets. bk_valid b + bk_invalid b = bk_total b \<and>
       bk_total b = countWhere (\<lambda>l. buildVerificationLogWhere issuerId (database w1) l \<and>
         clock E (tick w1) - int days * DAY \<le> vl_createdAt l \<and> dayKey (vl_createdAt l) = bk_date b)
         (verificationLogs (database w1))) \<and>
    (\<forall>t. today - int days < t div DAY \<and> t div DAY \<le> today \<longrightarrow>
       clock E (tick w1) - int days * DAY \<le> t \<and> dayKey t \<in> bk_date ` set buckets)"
proof -
  let ?k = "\<lambda>i. dayKey ((today - int i) * DAY)" and ?d = "database w1"
  let ?since = "clock E (tick w1) - int days * DAY"
  let ?bs = "foldl setBucket [] (map ?k (rev [0..<days]))"
  have loop: "wp (foldM (\<lambda>bs i. bind (newDate E) (\<lambda>d. ret (setBucket bs (dayKey (d - int i * DAY)))))
      [] (rev [0..<days])) (\<lambda>r w'. r = ?bs) (\<lambda>e w'. False) w2" for w2
    by (rule bucket_loop_wp) (rule dayKey_sub, rule today)
  have "wp (getVerificationAnalytics E minusDays admin days)
      (\<lambda>r w'. r = (days, foldl countLog ?bs (sinceView issuerId ?since ?d))) (\<lambda>e w'. True) w"
    unfolding getVerificationAnalytics_def wp_bind [of "resolveIssuerId E admin"]
    using assms(1) by (simp add: wp_def [of "resolveIssuerId E admin"])
      (auto simp: wp_simps zone simp del: foldM.simps split: option.split intro!: wp_mono [OF loop])
  then have buckets: "buckets = foldl countLog ?bs (sinceView issuerId ?since ?d)"
    using assms(2) by (auto simp: wp_def split: prod.splits sum.splits)
  obtain ks where ks: "?bs = map zeroBucket ks" "distinct ks" "set ks = ?k ` {..<days}"
    using setBuckets [of "[]" "map ?k (rev [0..<days])"] by (auto simp: lessThan_atLeast0)
  have bs: "buckets = map (\<lambda>k. countedBucket (zeroBucket k) (sinceView issuerId ?since ?d)) ks"
    unfolding buckets countLogs ks(1) by simp
  have dates: "map bk_date buckets = ks"
    by (simp add: bs comp_def countedBucket_def zeroBucket_def)
  then have dateset: "bk_date ` set buckets = ?k ` {..<days}" using ks(3) by (metis set_map)
  have "countWhere P xs + countWhere (\<lambda>x. \<not> P x) xs = length xs" for P and xs :: "(time \<times> string) list"
    by (simp add: countWhere_def sum_length_filter_compl)
  then have counts: "bk_valid b + bk_invalid b = bk_total b \<and>
      bk_total b = length (dated (bk_date b) (sinceView issuerId ?since ?d))" if "b \<in> set buckets" for b
    using that by (auto simp: bs countedBucket_def zeroBucket_def)
  have "?since \<le> t \<and> dayKey t \<in> ?k ` {..<days}"
    if t: "today - int days < t div DAY" "t div DAY \<le> today" for t
  proof -
    let ?i = "nat (today - t div DAY)"
    have "dayKey t = ?k ?i" and "?i < days" using t dayKey_day [of t] by auto
    moreover have "?since \<le> t" using t today [of "tick w1"] by (simp add: DAY_def)
    ultimately show ?thesis by blast
  qed
  then show ?thesis using counts ks(2) dates unfolding dated_since dateset by simp
qed

subsection \<open>The export reads back\<close>

lemma inLine_append [simp]: "inLine (a @ b) \<longleftrightarrow> inLine a \<and> inLine b"
  by (auto simp: inLine_def)

lemma inLine_digit: "inLine [digitChar (n mod 10)]" "n < 10 \<Longrightarrow> inLine [digitChar n]"
proof -
  have small: "inLine [digitChar d]" if "d < 10" for d
  proof -
    have "d \<in> {0, 1, 2, 3, 4, 5, 6, 7, 8, 9}" using that by auto
    then show ?thesis by (elim insertE emptyE) (simp_all add: inLine_def digitChar_def char_of_def)
  qed
  show "inLine [digitChar (n mod 10)]" by (rule small) simp
  show "n < 10 \<Longrightarrow> inLine [digitChar n]" by (rule small)
qed

lemma inLine_showNat: "inLine (showNat n)"
proof (induction n rule: showNat.induct)
  case (1 n)
  then show ?case using inLine_digit by (subst showNat.simps) auto
qed

lemma inLine_Cons: "inLine (c # cs) \<longleftrightarrow> c \<noteq> CHR 0x0A \<and> c \<noteq> CHR 0x0D \<and> inLine cs"
  by (auto simp: inLine_def)

lemma inLine_texts: "inLine (showInt i)" "inLine (pad w i)" "inLine (showYear y)"
proof -
  have zeros: "inLine (replicate n (CHR ''0''))" for n by (simp add: inLine_def)
  show "inLine (showInt i)" by (simp add: showInt_def inLine_Cons inLine_showNat)
  show "inLine (pad w i)" for w i by (simp add: pad_def Let_def zeros inLine_showNat)
  then show "inLine (showYear y)" by (simp add: showYear_def inLine_Cons)
qed

lemma inLine_dayKey: "inLine (dayKey t)"
proof -
  have "inLine (toISOString t)"
    by (simp add: toISOString_def Let_def inLine_texts inLine_Cons split: prod.split)
      (simp add: inLine_def)
  then show ?thesis unfolding dayKey_def inLine_def by (meson in_set_takeD)
qed

lemma splitLines_crlf: "inLine l \<Longrightarrow> splitLines (l @ CHR 0x0D # CHR 0x0A # s) = l # splitLines s"
  by (induction l) (auto simp: inLine_def)

lemma splitLines_join_crlf:
  "ls \<noteq> [] \<Longrightarrow> \<forall>l \<in> set ls. inLine l \<Longrightarrow> splitLines (join [CHR 0x0D, CHR 0x0A] ls) = ls"
  by (induction "[CHR 0x0D, CHR 0x0A]" ls rule: join.induct) (auto simp: splitLines_word splitLines_crlf)

lemma export_line: "join '','' (map escape fs) = csvLine fs"
proof -
  have "escape = csvQuote" by (rule ext) (simp add: escape_def csvQuote_def escQuotes_def)
  then show ?thesis by (simp add: csvLine_def)
qed

definition exportedTexts :: "credential \<Rightarrow> string list" where
  "exportedTexts c = [c_credentialExternalId c, c_degree c, c_studentName c, c_studentId c,
     c_anchorStatus c, orElse (c_txHash c) []]"

text \<open>
  C29. The CSV export is faithful: when no exported text holds a line break, the lines of the
  response body, read by the CSV parser of the bulk upload, are the headings and, newest first,
  one line per credential the account may see with exactly its ten values, whatever quotes and
  commas they contain.
\<close>

theorem export_reads_back:
  assumes "resolveIssuerId E admin w = (Inr issuerId, w1)" and "fst (exportCsv E admin w) = Inr r"
    and "\<forall>c \<in> set (credentials (database w1)). \<forall>f \<in> set (exportedTexts c). inLine f"
    and "\<forall>i \<in> set (issuers (database w1)). inLine (orElse (i_displayName i) (i_name i))"
  shows "map parseCsvLine (splitLines (cs_body r)) = map Inr (exportHeaders #
    map (\<lambda>c. exportFields (exportRowOf (c, the (issuerOf (database w1) (c_issuerId c)))))
      (sort_key (\<lambda>c. - c_issuedAt c)
        (filter (issuerWhere issuerId) (credentials (database w1)))))"
proof -
  let ?d = "database w1" and ?issuer = "\<lambda>c. issuerOf (database w1) (c_issuerId c)"
  let ?cs = "sort_key (\<lambda>c. - c_issuedAt c) (filter (issuerWhere issuerId) (credentials ?d))"
  let ?rows = "map (\<lambda>c. exportRowOf (c, the (?issuer c))) ?cs"
  have "wp (exportCsv E admin) (\<lambda>r w'. cs_body r = exportText ?rows \<and> (\<forall>c \<in> set ?cs. ?issuer c \<noteq> None))
      (\<lambda>e w'. True) w"
    unfolding exportCsv_bind wp_bind [of "resolveIssuerId E admin"]
    using assms(1) by (simp add: wp_def [of "resolveIssuerId E admin"])
      (auto simp: wp_simps exportView_def comp_def image_iff split: option.split)
  then have body: "cs_body r = exportText ?rows" and linked: "\<forall>c \<in> set ?cs. ?issuer c \<noteq> None"
    using assms(2) by (auto simp: wp_def split: prod.splits sum.splits)
  have "inLine f" if c: "c \<in> set ?cs" and f: "f \<in> set (exportFields (exportRowOf (c, the (?issuer c))))"
    for c f
  proof -
    obtain i where i: "?issuer c = Some i" using linked c by blast
    then have "inLine (orElse (i_displayName i) (i_name i))" using assms(4) issuerOf_mem by blast
    moreover have "c \<in> set (credentials ?d)" using c by simp
    then have "\<forall>f \<in> set (exportedTexts c). inLine f" using assms(3) by blast
    moreover have "inLine ''REVOKED''" "inLine ''ACTIVE''" by (simp_all add: inLine_def)
    ultimately show ?thesis using f i
      by (auto simp: exportFields_def exportRowOf_def exportedTexts_def inLine_texts inLine_dayKey
          split: if_splits)
  qed
  then have fields: "\<forall>row \<in> set ?rows. inLine (csvLine (exportFields row))"
    by (auto intro!: inLine_csvLine)
  have heading: "inLine (join '','' exportHeaders)"
    by (simp add: exportHeaders_def inLine_def)
  have "splitLines (cs_body r) = join '','' exportHeaders # map (csvLine \<circ> exportFields) ?rows"
    unfolding body exportText_def export_line using fields heading
    by (subst splitLines_join_crlf) (auto simp: comp_def)
  moreover have "parseCsvLine (join '','' exportHeaders) = Inr exportHeaders" by code_simp
  moreover have "parseCsvLine (csvLine (exportFields row)) = Inr (exportFields row)" for row
    by (rule parseCsvLine_line) (simp add: exportFields_def)
  ultimately show ?thesis by (simp add: comp_def)
qed

subsection \<open>How much a listing returns\<close>

lemma length_pageOf: "length (pageOf t s rows) \<le> nat \<bar>t\<bar>"
  by (simp add: pageOf_def)

lemma pageOf_all: "0 < n \<Longrightarrow> length rows \<le> n \<Longrightarrow> pageOf (- int n) 0 rows = rows"
  by (simp add: pageOf_def)

lemma findPage_wp: "wp (findPage E t s f)
  (\<lambda>rows w'. \<exists>n. toInt t = Some n \<and> length rows \<le> nat \<bar>n\<bar>) (\<lambda>e w'. True) w"
  by (auto simp: findPage_def wp_simps prismaInt_def length_pageOf split: option.split sum.split)

lemma cap:
  assumes "toInt (clampNum x 1 200 d) = Some n" and "length rows \<le> nat \<bar>n\<bar>" and "1 \<le> d" and "d \<le> 200"
  shows "length rows \<le> 200"
proof -
  have "1 \<le> n \<and> n \<le> 200" using assms by (intro clampNum_bounds) auto
  then show ?thesis using assms(2) by linarith
qed

text \<open>The two log listings return at most 200 rows, whatever limit the query string names.\<close>

lemma log_listings_bounded:
  "(case fst (listLogs E admin q w) of Inl e \<Rightarrow> True | Inr rows \<Rightarrow> length rows \<le> 200) \<and>
   (case fst (listBlockchainAudit E admin q w) of Inl e \<Rightarrow> True | Inr rows \<Rightarrow> length rows \<le> 200)"
proof -
  have "wp (resolveIssuerId E admin) (\<lambda>_ _. True) (\<lambda>_ _. True) w" for w
    by (simp add: wp_def split: prod.split sum.split)
  note res = wp_mono [OF this]
  have "wp (listLogs E admin q) (\<lambda>rows w'. length rows \<le> 200) (\<lambda>e w'. True) w"
    unfolding listLogs_def Let_def wp_bind
    by (rule res, rule wp_mono [OF findPage_wp]) (auto simp: wp_simps dest: cap)
  moreover have "wp (listBlockchainAudit E admin q) (\<lambda>rows w'. length rows \<le> 200) (\<lambda>e w'. True) w"
    unfolding listBlockchainAudit_def Let_def wp_bind
    by (rule res, rule wp_mono [OF findPage_wp]) (auto dest: cap)
  ultimately show ?thesis by (auto simp: wp_def split: prod.splits sum.splits)
qed

text \<open>
  The two lists of latest credentials are capped from above only: with a limit below zero, large
  enough in size, \<open>Math.min(limit, 50)\<close> is that limit, and the whole table is returned.
\<close>

lemma negative_limit_returns_all:
  assumes "resolveIssuerId E admin w = (Inr issuerId, w1)" and "fault E (tick w1) = None"
    and "length (credentials (database w1)) \<le> n" and "0 < n"
  shows "fst (getLatestIssuances E admin (Some (num (- int n))) w) =
      Inr (issuancesView issuerId (database w1)) \<and>
    fst (getLatestRevocations E admin (Some (num (- int n))) w) =
      Inr (revocationsView issuerId (database w1))"
proof -
  have tk: "mathMin (num (- int n)) (num 50) = num (- int n)" by (simp add: mathMin_def num_def)
  have "length (issuancesView issuerId (database w1)) \<le> n"
    "length (revocationsView issuerId (database w1)) \<le> n"
    using assms(3) by (auto simp: issuancesView_def revocationsView_def intro: order_trans [OF length_filter_le])
  then show ?thesis using assms(1,2)
    by (simp add: pageOf_all [OF assms(4)] getLatestIssuances_def getLatestRevocations_def Let_def orElse_def tk findPage_def
        bind_def liftE_def prismaInt_def prismaSkip_def ret_def query_def external_def)
qed

subsection \<open>Witnesses\<close>

text \<open>Two institutions with one credential each; the second credential was looked up.\<close>

definition twoInstitutions :: world where
  "twoInstitutions = emptyWorld\<lparr>database := emptyDb\<lparr>
     issuers := [sampleIssuer, sampleIssuer\<lparr>i_id := ''i2'', i_domain := ''other.example''\<rparr>],
     credentials := [sampleCredential ''1'' ''Ann'' ''41'',
       sampleCredential ''2'' ''Bob'' ''42''\<lparr>c_issuerId := ''i2''\<rparr>],
     verificationLogs := [\<lparr>vl_id = ''l1'', vl_credentialId = Some ''crd_2'',
       vl_eventType = QR_LOOKUP, vl_uploadedHash = None, vl_matched = True, vl_status = ''VALID'',
       vl_ipAddress = None, vl_createdAt = 0\<rparr>]\<rparr>\<rparr>"

definition registrar :: "AdminRole \<Rightarrow> jwtPayload" where
  "registrar role = \<lparr>j_sub = ''a1'', j_username = None, j_email = ''a@uni.example'', j_role = role,
     j_issuerId = Some ''i1'', j_tokenVersion = 0\<rparr>"

lemma registrar_resolved: "fst (resolveInstitutionId sampleEnv (registrar ADMIN) twoInstitutions) = Inr ''i1''"
  by code_simp

lemma auditor_resolved: "resolveIssuerId sampleEnv (registrar AUDITOR) twoInstitutions = (Inr None, twoInstitutions)"
  by (simp add: resolveIssuerId_def registrar_def ret_def)

theorem dashboard_confined_witness:
  "fst (auditController sampleEnv (\<lambda>t n. t) (registrar ADMIN) CallMetrics
      (viewWorld (forgetOthers ''i1'') twoInstitutions)) =
    fst (auditController sampleEnv (\<lambda>t n. t) (registrar ADMIN) CallMetrics twoInstitutions) \<and>
   verificationLogs (database (viewWorld (forgetOthers ''i1'') twoInstitutions)) = []"
proof
  show "fst (auditController sampleEnv (\<lambda>t n. t) (registrar ADMIN) CallMetrics
      (viewWorld (forgetOthers ''i1'') twoInstitutions)) =
    fst (auditController sampleEnv (\<lambda>t n. t) (registrar ADMIN) CallMetrics twoInstitutions)"
    by (rule dashboard_confined [OF registrar_resolved]) (simp_all add: registrar_def)
  show "verificationLogs (database (viewWorld (forgetOthers ''i1'') twoInstitutions)) = []"
    by code_simp
qed

theorem export_reads_back_witness:
  "\<exists>r. fst (exportCsv sampleEnv (registrar AUDITOR) twoInstitutions) = Inr r \<and>
     map parseCsvLine (splitLines (cs_body r)) = map Inr (exportHeaders #
       map (\<lambda>c. exportFields (exportRowOf (c, the (issuerOf (database twoInstitutions) (c_issuerId c)))))
         (sort_key (\<lambda>c. - c_issuedAt c)
           (filter (issuerWhere None) (credentials (database twoInstitutions)))))"
proof -
  have linked: "\<forall>r \<in> set (exportView None (database twoInstitutions)). snd r \<noteq> None"
    by (auto simp: exportView_def twoInstitutions_def emptyWorld_def emptyDb_def issuerOf_def
        sampleIssuer_def sampleCredential_def)
  have "wp (exportCsv sampleEnv (registrar AUDITOR)) (\<lambda>r w'. True) (\<lambda>e w'. False) twoInstitutions"
    using linked by (auto simp: wp_simps exportCsv_bind resolveIssuerId_def registrar_def)
  then obtain r where r: "fst (exportCsv sampleEnv (registrar AUDITOR) twoInstitutions) = Inr r"
    by (auto simp: wp_def split: prod.splits sum.splits)
  have "\<forall>c \<in> set (credentials (database twoInstitutions)). \<forall>f \<in> set (exportedTexts c). inLine f"
    and "\<forall>i \<in> set (issuers (database twoInstitutions)). inLine (orElse (i_displayName i) (i_name i))"
    by code_simp+
  then show ?thesis using export_reads_back [OF auditor_resolved r] r by blast
qed

theorem analytics_count_every_lookup_witness:
  "\<exists>buckets. fst (getVerificationAnalytics (sampleEnv\<lparr>clock := \<lambda>n. 0\<rparr>) (\<lambda>t k. t - k * DAY)
      (registrar AUDITOR) 7 twoInstitutions) = Inr (7, buckets) \<and> distinct (map bk_date buckets)"
proof -
  let ?E = "sampleEnv\<lparr>clock := \<lambda>n. 0\<rparr>"
  let ?run = "fst (getVerificationAnalytics ?E (\<lambda>t k. t - k * DAY) (registrar AUDITOR) 7 twoInstitutions)"
  have loop: "wp (foldM (\<lambda>bs i. bind (newDate ?E) (\<lambda>d. ret (setBucket bs (dayKey (d - int i * DAY))))) bs is)
      (\<lambda>r w'. True) (\<lambda>e w'. False) w" for bs "is" w
    by (rule wp_mono [OF bucket_loop_wp [where k = "\<lambda>i. dayKey (0 - int i * DAY)"]]) auto
  have "wp (getVerificationAnalytics ?E (\<lambda>t k. t - k * DAY) (registrar AUDITOR) 7)
      (\<lambda>r w'. fst r = 7) (\<lambda>e w'. False) twoInstitutions"
    unfolding getVerificationAnalytics_def
    by (auto simp: wp_simps resolveIssuerId_def registrar_def simp del: foldM.simps
        intro!: wp_mono [OF loop])
  then obtain buckets where b: "?run = Inr (7, buckets)"
    by (auto simp: wp_def split: prod.splits sum.splits)
  have res: "resolveIssuerId ?E (registrar AUDITOR) twoInstitutions = (Inr None, twoInstitutions)"
    by (simp add: resolveIssuerId_def registrar_def ret_def)
  show ?thesis
    using analytics_count_every_lookup [where today = 0, OF res b] b by simp
qed

end
