(* ===== verification/Multibase.thy ===== *)
theory Multibase
  imports Sample
begin

text \<open>
  The base58btc and multibase encodings of \<open>common/vc/multibase.util.ts\<close>. Bytes are the characters
  of a string. Both directions build a little-endian list of digits by multiplying and carrying; the
  locale \<open>radix\<close> proves once, for every base, that this computes the value and keeps the digits
  normal (below the base, no leading zero), and that normal digits are determined by their value.
  Its two interpretations, at 58 and at 256, give that decoding undoes encoding and the other way.
\<close>

subsection \<open>The code\<close>

definition BASE58BTC_ALPHABET :: string where
  "BASE58BTC_ALPHABET = ''123456789ABCDEFGHJKLMNPQRSTUVWXYZabcdefghijkmnopqrstuvwxyz''"

text \<open>The loop that pushes what is left of the carry, and the loop over the digits before it.\<close>

fun pushCarry :: "nat \<Rightarrow> nat \<Rightarrow> nat list" where
  "pushCarry B carry = (if carry = 0 \<or> B < 2 then [] else carry mod B # pushCarry B (carry div B))"

declare pushCarry.simps [simp del]

fun mulCarry :: "nat \<Rightarrow> nat \<Rightarrow> nat list \<Rightarrow> nat \<Rightarrow> nat list" where
  "mulCarry B M [] carry = pushCarry B carry"
| "mulCarry B M (d # ds) carry =
     (let c = carry + d * M in c mod B # mulCarry B M ds (c div B))"

definition byteOf :: "char \<Rightarrow> nat" where
  "byteOf c = of_char c"

definition base58btcEncode :: "string \<Rightarrow> string" where
  "base58btcEncode bytes =
     (let zeros = length (takeWhile (\<lambda>c. byteOf c = 0) bytes);
          leading = replicate zeros (BASE58BTC_ALPHABET ! 0)
      in if zeros = length bytes then leading
         else let digits = foldl (\<lambda>ds c. mulCarry 58 256 ds (byteOf c)) [] (drop zeros bytes)
              in leading @ map (\<lambda>d. BASE58BTC_ALPHABET ! d) (rev digits))"

fun indexOf :: "string \<Rightarrow> char \<Rightarrow> nat option" where
  "indexOf [] c = None"
| "indexOf (a # as) c = (if a = c then Some 0 else map_option Suc (indexOf as c))"

fun decodeDigits :: "nat list \<Rightarrow> string \<Rightarrow> exn + nat list" where
  "decodeDigits bytes [] = Inr bytes"
| "decodeDigits bytes (c # cs) = (case indexOf BASE58BTC_ALPHABET c of
     None \<Rightarrow> Inl (JsError (''Not a base58btc string: unexpected character '' @ [CHR 0x22, c, CHR 0x22] @ ''.''))
   | Some v \<Rightarrow> decodeDigits (mulCarry 256 58 bytes v) cs)"

definition base58btcDecode :: "string \<Rightarrow> exn + string" where
  "base58btcDecode text =
     (let zeros = length (takeWhile (\<lambda>c. c = BASE58BTC_ALPHABET ! 0) text)
      in case decodeDigits [] (drop zeros text) of
           Inl e \<Rightarrow> Inl e
         | Inr bytes \<Rightarrow> Inr (replicate zeros (char_of (0::nat)) @ map char_of (rev bytes)))"

text \<open>\<open>spkiRaw\<close> is the key of \<open>node:crypto\<close> read as a JWK: absent when it is rejected or not Ed25519.\<close>

definition rawEd25519PublicKey :: "env \<Rightarrow> string \<Rightarrow> exn + string" where
  "rawEd25519PublicKey E publicKeySpkiB64 = (case spkiRaw E (fromBase64 E publicKeySpkiB64) of
     None \<Rightarrow> Inl (JsError ''Not an Ed25519 public key.'') | Some raw \<Rightarrow> Inr raw)"

definition publicKeyMultibase :: "env \<Rightarrow> string \<Rightarrow> exn + string" where
  "publicKeyMultibase E publicKeySpkiB64 = (case rawEd25519PublicKey E publicKeySpkiB64 of
     Inl e \<Rightarrow> Inl e
   | Inr raw \<Rightarrow> Inr (CHR ''z'' # base58btcEncode ([char_of (237::nat), char_of (1::nat)] @ raw)))"

definition signatureToMultibase :: "env \<Rightarrow> string \<Rightarrow> string" where
  "signatureToMultibase E signatureB64 = CHR ''z'' # base58btcEncode (fromBase64 E signatureB64)"

definition multibaseToSignatureBase64 :: "env \<Rightarrow> string \<Rightarrow> exn + string" where
  "multibaseToSignatureBase64 E proofValue =
     (if \<not> startsWith ''z'' proofValue then
        Inl (JsError (''proofValue is not base58btc multibase (expected '' @ [CHR 0x22, CHR ''z'', CHR 0x22]
         @ '' prefix).''))
      else case base58btcDecode (drop 1 proofValue) of
        Inl e \<Rightarrow> Inl e | Inr bytes \<Rightarrow> Inr (toBase64 E bytes))"

subsection \<open>Digits to a base\<close>

fun digitVal :: "nat \<Rightarrow> nat list \<Rightarrow> nat" where
  "digitVal B [] = 0"
| "digitVal B (d # ds) = d + B * digitVal B ds"

definition digitsNormal :: "nat \<Rightarrow> nat list \<Rightarrow> bool" where
  "digitsNormal B ds \<longleftrightarrow> (\<forall>d \<in> set ds. d < B) \<and> (ds \<noteq> [] \<longrightarrow> last ds \<noteq> 0)"

lemma normal_Cons:
  "digitsNormal B (d # ds) \<longleftrightarrow> d < B \<and> digitsNormal B ds \<and> (ds = [] \<longrightarrow> d \<noteq> 0)"
  by (auto simp: digitsNormal_def)

lemma normal_Nil [simp]: "digitsNormal B []"
  by (simp add: digitsNormal_def)

locale radix =
  fixes B :: nat
  assumes base: "2 \<le> B"
begin

lemma val_pos: "digitsNormal B ds \<Longrightarrow> ds \<noteq> [] \<Longrightarrow> 0 < digitVal B ds"
  using base by (induction ds) (auto simp: normal_Cons)

lemma pushCarry_ok: "digitVal B (pushCarry B c) = c \<and> digitsNormal B (pushCarry B c) \<and>
  (c \<noteq> 0 \<longrightarrow> pushCarry B c \<noteq> [])"
proof (induction c rule: less_induct)
  case (less c)
  show ?case
  proof (cases "c = 0")
    case False
    then have "c div B < c" using base by (simp add: div_less_dividend)
    then have IH: "digitVal B (pushCarry B (c div B)) = c div B"
      "digitsNormal B (pushCarry B (c div B))" "c div B \<noteq> 0 \<longrightarrow> pushCarry B (c div B) \<noteq> []"
      using less by auto
    have step: "pushCarry B c = c mod B # pushCarry B (c div B)"
      using False base by (subst pushCarry.simps) simp
    have "c mod B \<noteq> 0" if "pushCarry B (c div B) = []"
    proof
      assume "c mod B = 0"
      moreover have "c div B = 0" using that IH(3) by blast
      ultimately have "c = 0" by (metis div_mult_mod_eq mult_0 add_0)
      then show False using False by simp
    qed
    then show ?thesis using IH base by (simp add: step normal_Cons)
  qed (simp add: pushCarry.simps)
qed

lemma mulCarry_val: "digitVal B (mulCarry B M ds c) = digitVal B ds * M + c"
proof (induction ds arbitrary: c)
  case (Cons d ds)
  have "digitVal B (mulCarry B M (d # ds) c) = (c + d * M) mod B
      + B * (digitVal B ds * M + (c + d * M) div B)"
    by (simp only: mulCarry.simps Let_def digitVal.simps Cons.IH)
  also have "\<dots> = B * (digitVal B ds * M) + ((c + d * M) mod B + B * ((c + d * M) div B))"
    by (simp only: distrib_left)
  also have "\<dots> = B * (digitVal B ds * M) + (c + d * M)" by (simp only: mod_mult_div_eq)
  finally show ?case by (simp add: algebra_simps)
qed (simp add: pushCarry_ok)

lemma mulCarry_normal:
  assumes "0 < M" and "digitsNormal B ds"
  shows "digitsNormal B (mulCarry B M ds c) \<and> (ds \<noteq> [] \<longrightarrow> mulCarry B M ds c \<noteq> [])"
  using assms(2)
proof (induction ds arbitrary: c)
  case (Cons d ds)
  let ?c = "c + d * M"
  have IH: "digitsNormal B (mulCarry B M ds (?c div B))"
    "ds \<noteq> [] \<longrightarrow> mulCarry B M ds (?c div B) \<noteq> []"
    using Cons by (auto simp: normal_Cons)
  have "?c mod B \<noteq> 0" if nil: "mulCarry B M ds (?c div B) = []"
  proof
    assume z: "?c mod B = 0"
    have "ds = []" using nil IH(2) by blast
    then have "?c div B = 0" using nil pushCarry_ok [of "?c div B"] by auto
    then have "?c = 0" using z by (metis div_mult_mod_eq mult_0 add_0)
    moreover have "d \<noteq> 0" using Cons.prems \<open>ds = []\<close> by (simp add: normal_Cons)
    ultimately show False using assms(1) by simp
  qed
  then show ?case using IH base by (simp add: Let_def normal_Cons)
qed (simp add: pushCarry_ok)

lemma val_inj:
  "digitsNormal B xs \<Longrightarrow> digitsNormal B ys \<Longrightarrow> digitVal B xs = digitVal B ys \<Longrightarrow> xs = ys"
proof (induction xs arbitrary: ys)
  case Nil
  then show ?case using val_pos [of ys] by auto
next
  case (Cons x xs)
  have "ys \<noteq> []" using Cons.prems val_pos [of "x # xs"] by auto
  then obtain y ys' where ys: "ys = y # ys'" by (cases ys) auto
  have lt: "x < B" "y < B" using Cons.prems by (auto simp: ys normal_Cons)
  have eq: "x + B * digitVal B xs = y + B * digitVal B ys'" using Cons.prems by (simp add: ys)
  have "x = y" using arg_cong [OF eq, of "\<lambda>n. n mod B"] lt by simp
  moreover have "digitVal B xs = digitVal B ys'" using arg_cong [OF eq, of "\<lambda>n. n div B"] lt base by simp
  ultimately show ?case using Cons ys by (auto simp: normal_Cons)
qed

text \<open>Multiplying and carrying digit by digit computes the value of the whole.\<close>

lemma foldl_ok:
  assumes "0 < M" and "digitsNormal B ds"
  shows "digitsNormal B (foldl (mulCarry B M) ds bs) \<and>
    digitVal B (foldl (mulCarry B M) ds bs) = foldl (\<lambda>v b. v * M + b) (digitVal B ds) bs"
  using assms(2)
  by (induction bs arbitrary: ds) (simp_all add: mulCarry_val mulCarry_normal assms(1))

lemma foldl_rev_val: "foldl (\<lambda>v b. v * B + b) 0 (rev ds) = digitVal B ds"
  by (induction ds) (simp_all add: algebra_simps)

end

interpretation r58: radix 58 by unfold_locales simp
interpretation r256: radix 256 by unfold_locales simp

text \<open>Changing the base and back.\<close>

lemma rebase_58_256: "digitsNormal 58 ds \<Longrightarrow>
  foldl (mulCarry 58 256) [] (rev (foldl (mulCarry 256 58) [] (rev ds))) = ds"
  using r256.foldl_ok [of 58 "[]" "rev ds"]
    r58.foldl_ok [of 256 "[]" "rev (foldl (mulCarry 256 58) [] (rev ds))"]
  by (intro r58.val_inj) (auto simp: r58.foldl_rev_val r256.foldl_rev_val)

lemma rebase_256_58: "digitsNormal 256 ds \<Longrightarrow>
  foldl (mulCarry 256 58) [] (rev (foldl (mulCarry 58 256) [] (rev ds))) = ds"
  using r58.foldl_ok [of 256 "[]" "rev ds"]
    r256.foldl_ok [of 58 "[]" "rev (foldl (mulCarry 58 256) [] (rev ds))"]
  by (intro r256.val_inj) (auto simp: r58.foldl_rev_val r256.foldl_rev_val)

subsection \<open>Letters and digits\<close>

lemma indexOf_Some: "distinct as \<Longrightarrow> indexOf as c = Some v \<longleftrightarrow> v < length as \<and> as ! v = c"
proof (induction as arbitrary: v)
  case (Cons a as)
  show ?case
  proof (cases v)
    case (Suc u)
    have IH: "indexOf as c = Some u \<longleftrightarrow> u < length as \<and> as ! u = c" using Cons by simp
    have "a = c \<Longrightarrow> u < length as \<Longrightarrow> as ! u \<noteq> c" using Cons.prems nth_mem [of u as] by auto
    then show ?thesis using IH Suc by simp
  qed simp
qed simp

lemma alphabet_length: "length BASE58BTC_ALPHABET = 58"
  by (simp add: BASE58BTC_ALPHABET_def)

lemma alphabet_distinct: "distinct BASE58BTC_ALPHABET"
proof -
  have "distinct (map (of_char :: char \<Rightarrow> nat) BASE58BTC_ALPHABET)"
    by (simp add: BASE58BTC_ALPHABET_def)
  then show ?thesis by (simp add: distinct_map)
qed

abbreviation letter :: "nat \<Rightarrow> char" where
  "letter d \<equiv> BASE58BTC_ALPHABET ! d"

lemma letter_index: "indexOf BASE58BTC_ALPHABET c = Some v \<longleftrightarrow> v < 58 \<and> letter v = c"
  using indexOf_Some [OF alphabet_distinct] by (simp add: alphabet_length)

lemma letter_eq: "d < 58 \<Longrightarrow> e < 58 \<Longrightarrow> letter d = letter e \<longleftrightarrow> d = e"
  by (simp add: nth_eq_iff_index_eq alphabet_distinct alphabet_length)

lemma decodeDigits_letters: "\<forall>d \<in> set ds. d < 58 \<Longrightarrow>
  decodeDigits bytes (map letter ds) = Inr (foldl (mulCarry 256 58) bytes ds)"
proof (induction ds arbitrary: bytes)
  case (Cons d ds)
  then have "indexOf BASE58BTC_ALPHABET (letter d) = Some d" by (simp add: letter_index)
  with Cons show ?case by simp
qed simp

lemma decodeDigits_Inr: "decodeDigits bytes str = Inr r \<Longrightarrow>
  \<exists>ds. (\<forall>d \<in> set ds. d < 58) \<and> str = map letter ds"
proof (induction str arbitrary: bytes)
  case (Cons c cs)
  then obtain v where v: "indexOf BASE58BTC_ALPHABET c = Some v"
    "decodeDigits (mulCarry 256 58 bytes v) cs = Inr r"
    by (auto split: option.splits)
  obtain ds where ds: "\<forall>d \<in> set ds. d < 58" "cs = map letter ds"
    using Cons.IH [OF v(2)] by blast
  have "v < 58" "letter v = c" using v(1) unfolding letter_index by simp_all
  with ds have "\<forall>d \<in> set (v # ds). d < 58" "c # cs = map letter (v # ds)" by simp_all
  then show ?case by (intro exI conjI)
qed simp

lemma byteOf_less [simp]: "byteOf c < 256"
  by (simp add: byteOf_def nat_of_char_less_256)

lemma byteOf_char [simp]: "n < 256 \<Longrightarrow> byteOf (char_of n) = n" "char_of (byteOf c) = c"
  by (simp_all add: byteOf_def of_char_of)

lemma byteOf_0: "byteOf c = 0 \<longleftrightarrow> c = char_of (0::nat)"
  by (metis byteOf_char zero_less_numeral)

text \<open>A text as its leading zeros and a rest that does not start with one.\<close>

lemma leading_split:
  fixes z :: 'a
  obtains n rest where "xs = replicate n z @ rest" "rest = [] \<or> hd rest \<noteq> z"
    "n = length (takeWhile (\<lambda>c. c = z) xs)" "rest = drop n xs"
proof
  let ?t = "takeWhile (\<lambda>c. c = z) xs"
  have t: "?t = replicate (length ?t) z"
    by (rule replicate_length_same [symmetric]) (auto dest: set_takeWhileD)
  have d: "drop (length ?t) xs = dropWhile (\<lambda>c. c = z) xs" by (simp add: dropWhile_eq_drop)
  show "xs = replicate (length ?t) z @ drop (length ?t) xs"
    using t d by (metis takeWhile_dropWhile_id)
  show "drop (length ?t) xs = [] \<or> hd (drop (length ?t) xs) \<noteq> z"
    unfolding d using hd_dropWhile [of "\<lambda>c. c = z" xs] by auto
qed auto

lemma takeWhile_leading:
  "rest = [] \<or> \<not> P (hd rest) \<Longrightarrow> P z \<Longrightarrow> takeWhile P (replicate n z @ rest) = replicate n z"
  by (induction n) (cases rest; auto)+

lemma bytes_normal: "rest = [] \<or> hd rest \<noteq> char_of (0::nat) \<Longrightarrow>
  digitsNormal 256 (rev (map byteOf rest))"
  by (cases rest) (auto simp: digitsNormal_def byteOf_0)

lemma letters_normal: "\<forall>d \<in> set ds. d < 58 \<Longrightarrow> ds = [] \<or> hd (map letter ds) \<noteq> letter 0 \<Longrightarrow>
  digitsNormal 58 (rev ds)"
  by (cases ds) (auto simp: digitsNormal_def intro!: Nat.gr0I)

lemma encode_split:
  assumes "rest = [] \<or> hd rest \<noteq> char_of (0::nat)"
  shows "base58btcEncode (replicate n (char_of (0::nat)) @ rest) = replicate n (letter 0) @
    map letter (rev (foldl (mulCarry 58 256) [] (map byteOf rest)))"
proof -
  have "takeWhile (\<lambda>c. byteOf c = 0) (replicate n (char_of (0::nat)) @ rest) =
      replicate n (char_of (0::nat))"
    by (rule takeWhile_leading) (use assms in \<open>auto simp: byteOf_0\<close>)
  then show ?thesis
    by (cases "rest = []") (simp_all add: base58btcEncode_def Let_def foldl_map)
qed

lemma decode_split:
  assumes "ds = [] \<or> hd (map letter ds) \<noteq> letter 0" and "\<forall>d \<in> set ds. d < 58"
  shows "base58btcDecode (replicate n (letter 0) @ map letter ds) = Inr (replicate n (char_of (0::nat)) @
    map char_of (rev (foldl (mulCarry 256 58) [] ds)))"
proof -
  have "takeWhile (\<lambda>c. c = letter 0) (replicate n (letter 0) @ map letter ds) = replicate n (letter 0)"
    by (rule takeWhile_leading) (use assms in auto)
  then show ?thesis
    using decodeDigits_letters [OF assms(2)] by (simp add: base58btcDecode_def Let_def)
qed

lemma hd_letters:
  assumes "digitsNormal 58 ds"
  shows "rev ds = [] \<or> hd (map letter (rev ds)) \<noteq> letter 0" "\<forall>d \<in> set (rev ds). d < 58"
proof -
  have "ds \<noteq> [] \<Longrightarrow> last ds < 58 \<and> last ds \<noteq> 0" using assms by (auto simp: digitsNormal_def)
  then show "rev ds = [] \<or> hd (map letter (rev ds)) \<noteq> letter 0"
    using letter_eq [of "last ds" 0] by (auto simp: hd_map hd_rev)
  show "\<forall>d \<in> set (rev ds). d < 58" using assms by (simp add: digitsNormal_def)
qed

lemma base58_exact: "base58btcDecode (base58btcEncode bytes) = Inr bytes"
proof -
  obtain n rest where b: "bytes = replicate n (char_of (0::nat)) @ rest"
    "rest = [] \<or> hd rest \<noteq> char_of (0::nat)" by (rule leading_split)
  let ?D = "foldl (mulCarry 58 256) [] (map byteOf rest)"
  have D: "digitsNormal 58 ?D" using r58.foldl_ok [of 256 "[]"] by simp
  have "foldl (mulCarry 256 58) [] (rev ?D) = rev (map byteOf rest)"
    using rebase_256_58 [OF bytes_normal [OF b(2)]] by simp
  then show ?thesis
    using decode_split [OF hd_letters [OF D]] by (simp add: b(1) encode_split [OF b(2)] rev_map comp_def)
qed

subsection \<open>Properties\<close>

text \<open>
  C30. Base58btc is exact in both directions: decoding what was encoded gives back the bytes,
  leading zero bytes included, and every text that decodes is the encoding of what it decodes to,
  so the published key or proof value and its bytes determine each other.
\<close>

theorem base58_roundtrip:
  "base58btcDecode (base58btcEncode bytes) = Inr bytes \<and>
   (case base58btcDecode str of Inl e \<Rightarrow> True | Inr bs \<Rightarrow> base58btcEncode bs = str)"
proof (rule conjI [OF base58_exact])
  show "case base58btcDecode str of Inl e \<Rightarrow> True | Inr bs \<Rightarrow> base58btcEncode bs = str"
  proof (cases "base58btcDecode str")
    case (Inr bs)
    obtain n rest where t: "str = replicate n (letter 0) @ rest" "rest = [] \<or> hd rest \<noteq> letter 0"
      "n = length (takeWhile (\<lambda>c. c = letter 0) str)" "rest = drop n str" by (rule leading_split)
    obtain r where "decodeDigits [] rest = Inr r"
      using Inr t(3,4) by (auto simp: base58btcDecode_def Let_def split: sum.splits)
    then obtain ds where ds: "\<forall>d \<in> set ds. d < 58" "rest = map letter ds"
      using decodeDigits_Inr by blast
    let ?D = "foldl (mulCarry 256 58) [] ds"
    have D: "digitsNormal 256 ?D" using r256.foldl_ok [of 58 "[]"] by simp
    have bs: "bs = replicate n (char_of (0::nat)) @ map char_of (rev ?D)"
      using decode_split [of ds n] Inr t(1,2) ds by auto
    have hd0: "map char_of (rev ?D) = [] \<or> hd (map char_of (rev ?D)) \<noteq> char_of (0::nat)"
    proof (cases "?D = []")
      case False
      then have "last ?D < 256" "last ?D \<noteq> 0" using D by (auto simp: digitsNormal_def)
      then have "char_of (last ?D) \<noteq> char_of (0::nat)"
        by (metis byteOf_char(1) zero_less_numeral)
      then show ?thesis using False by (simp add: hd_map hd_rev)
    qed simp
    have "map byteOf (map char_of (rev ?D)) = rev ?D"
      using D by (auto simp: digitsNormal_def intro!: map_idI)
    moreover have "foldl (mulCarry 58 256) [] (rev ?D) = rev ds"
      using rebase_58_256 [OF letters_normal [OF ds(1)]] t(2) ds(2) by auto
    ultimately show ?thesis using Inr encode_split [OF hd0] by (simp add: bs t(1) ds(2))
  qed simp
qed

end
