(* ===== verification/VerifiableCredential.thy ===== *)
theory VerifiableCredential
  imports Multibase CredentialText
begin

text \<open>
  The W3C documents: the Open Badges claim set (\<open>common/vc/vc-claims.util.ts\<close>), the
  \<open>eddsa-jcs-2022\<close> proof primitives (\<open>common/vc/vc-proof.util.ts\<close>) and the DID document
  (\<open>common/vc/did-document.util.ts\<close>). An object is the list of its members in insertion order; the
  JCS serialiser is a third-party parameter. The lemmas show that a verifier rebuilds exactly the
  bytes that were signed, and that the DID document resolves the method a proof names.
\<close>

subsection \<open>Objects\<close>

type_synonym object = "(string \<times> value) list"

text \<open>Assignment to a member keeps its place when it exists; spreading assigns in order.\<close>

definition setKey :: "object \<Rightarrow> string \<times> value \<Rightarrow> object" where
  "setKey obj kv = (if fst kv \<in> set (map fst obj) then
     map (\<lambda>x. if fst x = fst kv then kv else x) obj else obj @ [kv])"

definition spread :: "object \<Rightarrow> object \<Rightarrow> object" where
  "spread obj extra = foldl setKey obj extra"

definition without :: "string \<Rightarrow> object \<Rightarrow> object" where
  "without k obj = filter (\<lambda>kv. fst kv \<noteq> k) obj"

definition getKey :: "object \<Rightarrow> string \<Rightarrow> value" where
  "getKey obj k = (case map_of obj k of None \<Rightarrow> VUndef | Some v \<Rightarrow> v)"

subsection \<open>Claims\<close>

definition VC_CONTEXT_V2 :: string where
  "VC_CONTEXT_V2 = ''https://www.w3.org/ns/credentials/v2''"

definition OPEN_BADGES_V3_CONTEXT :: string where
  "OPEN_BADGES_V3_CONTEXT = ''https://purl.imsglobal.org/spec/ob/v3p0/context-3.0.3.json''"

definition CRITERIA_NARRATIVE :: string where
  "CRITERIA_NARRATIVE = ''Awarded by the issuing institution on completion of the named study programme. ''
     @ ''Authenticity of this record is verifiable against the institution registry.''"

record openBadgeInput =
  ob_credentialId :: string
  ob_issuerId :: string
  ob_issuerDomain :: string
  ob_issuerName :: string
  ob_studentName :: string
  ob_studentId :: string
  ob_degree :: string
  ob_graduationYear :: "int option"
  ob_issuedAt :: time

definition stripScheme :: "string \<Rightarrow> string" where
  "stripScheme s = (let low = toLowerCase s in
     if startsWith ''https://'' low then drop 8 s
     else if startsWith ''http://'' low then drop 7 s else s)"

definition stripSlashes :: "string \<Rightarrow> string" where
  "stripSlashes s = rev (dropWhile (\<lambda>c. c = CHR ''/'') (rev s))"

definition normalizeIssuerDomain :: "string \<Rightarrow> string" where
  "normalizeIssuerDomain domain = toLowerCase (stripSlashes (stripScheme (trim domain)))"

definition buildIssuerDid :: "string \<Rightarrow> string" where
  "buildIssuerDid issuerDomain = ''did:web:'' @ normalizeIssuerDomain issuerDomain"

definition buildVerificationMethodId :: "string \<Rightarrow> string \<Rightarrow> string" where
  "buildVerificationMethodId issuerDomain keyId = buildIssuerDid issuerDomain @ ''#'' @ keyId"

definition buildCredentialIri :: "string \<Rightarrow> string \<Rightarrow> string" where
  "buildCredentialIri issuerDomain credentialId =
     ''https://'' @ normalizeIssuerDomain issuerDomain @ ''/verify/'' @ credentialId"

definition buildAchievementIri :: "env \<Rightarrow> string \<Rightarrow> string \<Rightarrow> string" where
  "buildAchievementIri E degree issuerId = ''urn:certiva:achievement:'' @
     take 16 (sha256hex E (normalizeValue degree @ [CHR 0x0A] @ issuerId))"

definition identityObject :: "string \<Rightarrow> string \<Rightarrow> value" where
  "identityObject identityType hash = VObj
     [(''type'', VStr ''IdentityObject''), (''hashed'', VBool False),
      (''identityType'', VStr identityType), (''identityHash'', VStr (normalizeValue hash))]"

definition credentialSubject :: "env \<Rightarrow> openBadgeInput \<Rightarrow> object" where
  "credentialSubject E input =
     (let degree = normalizeValue (ob_degree input); issuerName = normalizeValue (ob_issuerName input)
      in [(''type'', VArr [VStr ''AchievementSubject'']),
          (''identifier'', VArr [identityObject ''name'' (ob_studentName input),
             identityObject ''sourcedId'' (ob_studentId input)]),
          (''achievement'', VObj
            [(''id'', VStr (buildAchievementIri E degree (ob_issuerId input))),
             (''type'', VArr [VStr ''Achievement'']),
             (''achievementType'', VStr ''Degree''),
             (''name'', VStr degree),
             (''description'', VStr (degree @ '' awarded by '' @ issuerName @ ''.'')),
             (''criteria'', VObj [(''narrative'', VStr CRITERIA_NARRATIVE)])])]
         @ (case ob_graduationYear input of None \<Rightarrow> [] | Some y \<Rightarrow> [(''term'', VStr (showInt y))]))"

definition buildOpenBadgeCredential :: "env \<Rightarrow> openBadgeInput \<Rightarrow> object" where
  "buildOpenBadgeCredential E input =
     (let domain = normalizeIssuerDomain (ob_issuerDomain input);
          issuedAt = toISOString (ob_issuedAt input);
          credentialIri = buildCredentialIri domain (ob_credentialId input);
          issuerName = normalizeValue (ob_issuerName input)
      in [(''@context'', VArr [VStr VC_CONTEXT_V2, VStr OPEN_BADGES_V3_CONTEXT]),
          (''id'', VStr credentialIri),
          (''type'', VArr [VStr ''VerifiableCredential'', VStr ''OpenBadgeCredential'']),
          (''issuer'', VObj [(''id'', VStr (buildIssuerDid domain)), (''type'', VArr [VStr ''Profile'']),
             (''name'', VStr issuerName), (''url'', VStr (''https://'' @ domain))]),
          (''validFrom'', VStr issuedAt),
          (''awardedDate'', VStr issuedAt),
          (''credentialSubject'', VObj (credentialSubject E input)),
          (''evidence'', VArr [VObj [(''type'', VArr [VStr ''Evidence'']), (''id'', VStr credentialIri),
             (''name'', VStr ''Certiva registry verification'')]])])"

subsection \<open>Proofs\<close>

definition jcs :: "env \<Rightarrow> value \<Rightarrow> exn + string" where
  "jcs E v = (case jcsLib E v of
     None \<Rightarrow> Inl (JsError ''Value is not JCS-serializable.'') | Some s \<Rightarrow> Inr s)"

definition buildProofConfig :: "string \<Rightarrow> string \<Rightarrow> time \<Rightarrow> object" where
  "buildProofConfig issuerDomain keyId created =
     [(''type'', VStr ''DataIntegrityProof''),
      (''cryptosuite'', VStr ''eddsa-jcs-2022''),
      (''created'', VStr (toISOString created)),
      (''verificationMethod'', VStr (buildVerificationMethodId issuerDomain keyId)),
      (''proofPurpose'', VStr ''assertionMethod'')]"

definition buildProofHashData :: "env \<Rightarrow> object \<Rightarrow> object \<Rightarrow> exn + string" where
  "buildProofHashData E document proofConfig =
     (if ''proof'' \<in> set (map fst document) then
        Inl (JsError ''Hash data must be built over a document without `proof`.'')
      else let options = without ''proofValue'' proofConfig in
        case jcs E (VObj (spread [(''@context'', getKey document ''@context'')] options)) of
          Inl e \<Rightarrow> Inl e
        | Inr a \<Rightarrow> (case jcs E (VObj document) of
            Inl e \<Rightarrow> Inl e | Inr b \<Rightarrow> Inr (sha256 E (utf8 a) @ sha256 E (utf8 b))))"

definition attachProof :: "object \<Rightarrow> object \<Rightarrow> string \<Rightarrow> object" where
  "attachProof document proofConfig proofValue = setKey document (''proof'',
     VObj (setKey (spread [(''@context'', getKey document ''@context'')] proofConfig)
       (''proofValue'', VStr proofValue)))"

definition extractVerificationInput :: "env \<Rightarrow> object \<Rightarrow> exn + (string \<times> string \<times> string)" where
  "extractVerificationInput E secured = (let document = without ''proof'' secured in
     case getKey secured ''proof'' of
       VObj proof \<Rightarrow> (let proofRest = without ''proofValue'' proof in
         case getKey proof ''proofValue'' of
           VStr proofValue \<Rightarrow>
             (let unsecured = setKey document (''@context'', getKey proofRest ''@context'') in
              case buildProofHashData E unsecured proofRest of
                Inl e \<Rightarrow> Inl e
              | Inr hashData \<Rightarrow> (case multibaseToSignatureBase64 E proofValue of
                  Inl e \<Rightarrow> Inl e
                | Inr signatureB64 \<Rightarrow> Inr (hashData, signatureB64,
                    case getKey proofRest ''verificationMethod'' of VStr m \<Rightarrow> m | _ \<Rightarrow> [])))
         | _ \<Rightarrow> Inl (JsError ''Proof carries no proofValue.''))
     | VArr proof \<Rightarrow> Inl (JsError ''Proof carries no proofValue.'')
     | VDate t \<Rightarrow> Inl (JsError ''Proof carries no proofValue.'')
     | _ \<Rightarrow> Inl (JsError ''Document carries no proof.''))"

subsection \<open>The DID document\<close>

record didKey =
  dk_keyId :: string
  dk_publicKey :: string
  dk_revokedAt :: "time option"

fun didMethods :: "env \<Rightarrow> string \<Rightarrow> didKey list \<Rightarrow> exn + object list" where
  "didMethods E did [] = Inr []"
| "didMethods E did (k # ks) = (case publicKeyMultibase E (dk_publicKey k) of
     Inl e \<Rightarrow> Inl e
   | Inr mb \<Rightarrow> (case didMethods E did ks of Inl e \<Rightarrow> Inl e
     | Inr ms \<Rightarrow> Inr ([(''id'', VStr (did @ ''#'' @ dk_keyId k)), (''type'', VStr ''Multikey''),
         (''controller'', VStr did), (''publicKeyMultibase'', VStr mb)] # ms)))"

definition buildDidDocument :: "env \<Rightarrow> string \<Rightarrow> string \<Rightarrow> didKey list \<Rightarrow> exn + object" where
  "buildDidDocument E issuerDomain institutionName keys =
     (let did = buildIssuerDid issuerDomain; domain = normalizeIssuerDomain issuerDomain in
      case didMethods E did keys of Inl e \<Rightarrow> Inl e
      | Inr verificationMethod \<Rightarrow> Inr
         [(''@context'', VArr [VStr ''https://www.w3.org/ns/did/v1'',
             VStr ''https://w3id.org/security/multikey/v1'']),
          (''id'', VStr did),
          (''verificationMethod'', VArr (map VObj verificationMethod)),
          (''assertionMethod'', VArr (map (\<lambda>m. getKey m ''id'') verificationMethod)),
          (''service'', VArr [VObj [(''id'', VStr (did @ ''#registry'')),
             (''type'', VStr ''CredentialRegistry''),
             (''serviceEndpoint'', VObj
               [(''institutionName'', VStr institutionName),
                (''origin'', VStr (''https://'' @ domain)),
                (''publicKeys'', VStr (''https://'' @ domain @ ''/api/institution/public-keys'')),
                (''description'', VStr (''Official credential verification authority for '' @ institutionName
                  @ ''. This domain is the institution'' @ [CHR 0x27]
                  @ ''s dedicated verification subdomain; ''
                  @ ''DNS delegation of it is controlled by the institution.''))])]])])"

subsection \<open>Signature bytes\<close>

lemma multibase_roundtrip:
  "multibaseToSignatureBase64 E (signatureToMultibase E sig) = Inr (toBase64 E (fromBase64 E sig))"
  by (simp add: multibaseToSignatureBase64_def signatureToMultibase_def startsWith_def
      base58_exact split: sum.split)

lemma ob_members: "map fst (buildOpenBadgeCredential E input) =
  [''@context'', ''id'', ''type'', ''issuer'', ''validFrom'', ''awardedDate'',
   ''credentialSubject'', ''evidence'']"
  by (simp add: buildOpenBadgeCredential_def Let_def)

text \<open>What the proof config and the document look like to \<open>spread\<close>.\<close>

lemma without_setKey: "k \<notin> set (map fst obj) \<Longrightarrow> without k (setKey obj (k, v)) = obj"
  by (auto simp: without_def setKey_def filter_id_conv)

lemma getKey_setKey: "getKey (setKey obj (k, v)) k = v"
  by (induction obj) (auto simp: getKey_def setKey_def map_of_append split: if_splits option.splits)

lemma setKey_same: "k \<in> set (map fst obj) \<Longrightarrow> distinct (map fst obj) \<Longrightarrow>
  setKey obj (k, getKey obj k) = obj"
proof -
  assume k: "k \<in> set (map fst obj)" and d: "distinct (map fst obj)"
  have "(k, getKey obj k) = x" if "x \<in> set obj" "fst x = k" for x
  proof -
    have "(k, snd x) \<in> set obj" using that by (metis prod.collapse)
    then have "map_of obj k = Some (snd x)" using d by (simp add: map_of_is_SomeI)
    then show ?thesis using that by (simp add: getKey_def prod_eq_iff)
  qed
  then have "map (\<lambda>x. if fst x = k then (k, getKey obj k) else x) obj = obj"
    by (intro map_idI) auto
  then show ?thesis using k by (simp add: setKey_def)
qed

lemma proof_members:
  "spread [(''@context'', c)] (buildProofConfig d k t) = (''@context'', c) # buildProofConfig d k t"
  "setKey ((''@context'', c) # buildProofConfig d k t) (''proofValue'', v) =
     (''@context'', c) # buildProofConfig d k t @ [(''proofValue'', v)]"
  "without ''proofValue'' (buildProofConfig d k t) = buildProofConfig d k t"
  "without ''proofValue'' ((''@context'', c) # buildProofConfig d k t @ [(''proofValue'', v)]) =
     (''@context'', c) # buildProofConfig d k t"
  "spread [(''@context'', c)] ((''@context'', c) # buildProofConfig d k t) =
     (''@context'', c) # buildProofConfig d k t"
  "without ''proofValue'' ((''@context'', c) # buildProofConfig d k t) =
     (''@context'', c) # buildProofConfig d k t"
  "getKey ((''@context'', c) # buildProofConfig d k t) ''@context'' = c"
  "getKey ((''@context'', c) # buildProofConfig d k t) ''verificationMethod'' =
     VStr (buildVerificationMethodId d k)"
  "getKey ((''@context'', c) # buildProofConfig d k t @ [(''proofValue'', v)]) ''proofValue'' = v"
  by (simp_all add: spread_def setKey_def without_def getKey_def buildProofConfig_def)

lemma ob_context:
  "setKey (buildOpenBadgeCredential E i) (''@context'', getKey (buildOpenBadgeCredential E i) ''@context'') =
   buildOpenBadgeCredential E i"
  by (rule setKey_same) (simp_all only: ob_members, simp_all)

lemma didMethods_mem:
  "didMethods E did ks = Inr ms \<Longrightarrow> k \<in> set ks \<Longrightarrow>
   \<exists>m \<in> set ms. getKey m ''id'' = VStr (did @ ''#'' @ dk_keyId k) \<and>
     (\<exists>mb. publicKeyMultibase E (dk_publicKey k) = Inr mb \<and> getKey m ''publicKeyMultibase'' = VStr mb)"
proof (induction ks arbitrary: ms)
  case (Cons a ks)
  obtain mb where mb: "publicKeyMultibase E (dk_publicKey a) = Inr mb"
    using Cons.prems(1) by (auto split: sum.splits)
  obtain ms' where ms': "didMethods E did ks = Inr ms'"
    using Cons.prems(1) by (auto split: sum.splits)
  let ?m = "[(''id'', VStr (did @ ''#'' @ dk_keyId a)), (''type'', VStr ''Multikey''),
    (''controller'', VStr did), (''publicKeyMultibase'', VStr mb)]"
  have ms: "ms = ?m # ms'" using Cons.prems(1) mb ms' by simp
  show ?case
  proof (cases "k = a")
    case True
    have "getKey ?m ''id'' = VStr (did @ ''#'' @ dk_keyId a)"
      "getKey ?m ''publicKeyMultibase'' = VStr mb" by (simp_all add: getKey_def)
    then show ?thesis using mb ms True by (intro bexI [of _ ?m]) simp_all
  next
    case False
    then show ?thesis using Cons.IH [OF ms'] Cons.prems(2) ms by auto
  qed
qed simp

lemma extract_stored:
  "extractVerificationInput E (attachProof (buildOpenBadgeCredential E i)
     (buildProofConfig domain keyId created) proofValue) =
   (case buildProofHashData E (buildOpenBadgeCredential E i) (buildProofConfig domain keyId created) of
      Inl e \<Rightarrow> Inl e
    | Inr h \<Rightarrow> (case multibaseToSignatureBase64 E proofValue of
        Inl e \<Rightarrow> Inl e | Inr s \<Rightarrow> Inr (h, s, buildVerificationMethodId domain keyId)))"
proof -
  let ?doc = "buildOpenBadgeCredential E i" and ?cfg = "buildProofConfig domain keyId created"
  let ?c = "getKey ?doc ''@context''"
  let ?proof = "(''@context'', ?c) # ?cfg @ [(''proofValue'', VStr proofValue)]"
  have np: "''proof'' \<notin> set (map fst ?doc)" unfolding ob_members by simp
  have sec: "attachProof ?doc ?cfg proofValue = setKey ?doc (''proof'', VObj ?proof)"
    by (simp add: attachProof_def proof_members)
  have doc: "without ''proof'' (setKey ?doc (''proof'', VObj ?proof)) = ?doc"
    by (rule without_setKey [OF np])
  show ?thesis
    using np unfolding extractVerificationInput_def sec doc Let_def getKey_setKey
    by (simp add: proof_members ob_context buildProofHashData_def split: sum.split)
qed

lemma extract_attach:
  "extractVerificationInput E (attachProof (buildOpenBadgeCredential E i)
     (buildProofConfig domain keyId created) (signatureToMultibase E sig)) =
   (case buildProofHashData E (buildOpenBadgeCredential E i) (buildProofConfig domain keyId created) of
      Inl e \<Rightarrow> Inl e
    | Inr h \<Rightarrow> Inr (h, toBase64 E (fromBase64 E sig), buildVerificationMethodId domain keyId))"
  by (simp add: extract_stored multibase_roundtrip split: sum.split)

subsection \<open>Properties\<close>

text \<open>
  C31. A verifier rebuilds exactly what was signed: from the published credential (the claims with
  the stored proof attached), \<open>extractVerificationInput\<close> recovers the very hash data the signer
  hashed, the signature that was encoded and the verification method of the signing key, and fails
  only where building the hash data failed for the signer too.
\<close>

theorem vc_verifier_rebuilds_signed_bytes:
  "extractVerificationInput E (attachProof (buildOpenBadgeCredential E i)
     (buildProofConfig domain keyId created) (signatureToMultibase E sig)) =
   (case buildProofHashData E (buildOpenBadgeCredential E i) (buildProofConfig domain keyId created) of
      Inl e \<Rightarrow> Inl e
    | Inr h \<Rightarrow> Inr (h, toBase64 E (fromBase64 E sig), buildVerificationMethodId domain keyId))"
  by (rule extract_attach)

text \<open>
  The DID document resolves every listed key, retired ones included: the verification method a
  proof names for that key is in the assertion methods, and its entry carries the multikey encoding
  of that key.
\<close>

theorem did_resolves_every_key:
  assumes "buildDidDocument E issuerDomain institutionName keys = Inr did" and "k \<in> set keys"
  shows "\<exists>ms mb. getKey did ''verificationMethod'' = VArr (map VObj ms) \<and>
    getKey did ''assertionMethod'' = VArr (map (\<lambda>m. getKey m ''id'') ms) \<and>
    publicKeyMultibase E (dk_publicKey k) = Inr mb \<and>
    (\<exists>m \<in> set ms. getKey m ''id'' = VStr (buildVerificationMethodId issuerDomain (dk_keyId k)) \<and>
       getKey m ''publicKeyMultibase'' = VStr mb)"
proof -
  obtain ms where ms: "didMethods E (buildIssuerDid issuerDomain) keys = Inr ms"
    using assms(1) by (auto simp: buildDidDocument_def Let_def split: sum.splits)
  then have "getKey did ''verificationMethod'' = VArr (map VObj ms)"
    "getKey did ''assertionMethod'' = VArr (map (\<lambda>m. getKey m ''id'') ms)"
    using assms(1) by (auto simp: buildDidDocument_def Let_def getKey_def)
  then show ?thesis
    using didMethods_mem [OF ms assms(2)] by (auto simp: buildVerificationMethodId_def)
qed

theorem did_resolves_every_key_witness:
  "\<exists>did. buildDidDocument sampleEnv ''uni.example'' ''Uni''
      [\<lparr>dk_keyId = ''sk_1'', dk_publicKey = ''p'', dk_revokedAt = Some 0\<rparr>] = Inr did \<and>
    (\<exists>ms. getKey did ''verificationMethod'' = VArr (map VObj ms) \<and> ms \<noteq> [])"
proof -
  let ?k = "\<lparr>dk_keyId = ''sk_1'', dk_publicKey = ''p'', dk_revokedAt = Some 0\<rparr>"
  obtain did where did: "buildDidDocument sampleEnv ''uni.example'' ''Uni'' [?k] = Inr did"
    by (simp add: buildDidDocument_def publicKeyMultibase_def rawEd25519PublicKey_def
        sampleEnv_def Let_def)
  show ?thesis using did_resolves_every_key [OF did, of ?k] did by auto
qed

end
