(* ===== verification/SigningKeys.thy ===== *)
theory SigningKeys
  imports AuditLog VerifiableCredential
begin

text \<open>
  Signing (\<open>common/signing\<close>): the Ed25519 helpers and the encryption of private keys at rest
  (\<open>signing-crypto.util.ts\<close>), the provider that decrypts only to sign
  (\<open>encrypted-signing-key.provider.ts\<close>), and the service that creates, rotates and uses the keys of
  an institution (\<open>signing-key.service.ts\<close>). The primitives of \<open>node:crypto\<close> are parameters;
  \<open>cryptoLaws\<close> states what their documentation promises.
\<close>

subsection \<open>Primitives\<close>

definition verifyEd25519 :: "env \<Rightarrow> string \<Rightarrow> string \<Rightarrow> string \<Rightarrow> bool" where
  "verifyEd25519 E bytes signatureB64 publicKeySpkiB64 =
     (case edVerify E (fromBase64 E publicKeySpkiB64) bytes (fromBase64 E signatureB64) of
        None \<Rightarrow> False | Some b \<Rightarrow> b)"

definition signEd25519 :: "env \<Rightarrow> string \<Rightarrow> string \<Rightarrow> exn + string" where
  "signEd25519 E bytes privateKeyPkcs8B64 =
     (case edSign E (fromBase64 E privateKeyPkcs8B64) bytes of
        None \<Rightarrow> Inl (JsError ''Failed to read private key'') | Some s \<Rightarrow> Inr (toBase64 E s))"

definition generateEd25519KeyPair :: "env \<Rightarrow> (string \<times> string) prog" where
  "generateEd25519KeyPair E = bind (newKeyPair E) (\<lambda>(pub, priv).
     ret (toBase64 E pub, toBase64 E priv))"

text \<open>
  \<open>toString('utf8')\<close> on the byte sequences \<open>utf8\<close> produces; any other sequence stands for a
  character outside the model and reads as a question mark.
\<close>

fun utf8Decode :: "string \<Rightarrow> string" where
  "utf8Decode [] = []"
| "utf8Decode (c # cs) = (let n = (of_char c :: nat) in
     if n < 128 then c # utf8Decode cs
     else (case cs of [] \<Rightarrow> [CHR ''?'']
       | d # ds \<Rightarrow> (if n = 194 \<or> n = 195 then char_of ((n - 192) * 64 + (of_char d - 128)) # utf8Decode ds
                  else CHR ''?'' # utf8Decode (d # ds))))"

definition ENC_VERSION :: string where "ENC_VERSION = ''v1''"

definition deriveKey :: "env \<Rightarrow> string \<Rightarrow> string \<Rightarrow> string" where
  "deriveKey E masterSecret salt = scrypt E masterSecret salt"

definition encryptSecret :: "env \<Rightarrow> string \<Rightarrow> string \<Rightarrow> string prog" where
  "encryptSecret E plaintext masterSecret =
     bind (randomRaw E 16) (\<lambda>salt. bind (randomRaw E 12) (\<lambda>iv.
     case aesGcmEncrypt E (deriveKey E masterSecret salt) iv (utf8 plaintext) of (ciphertext, tag) \<Rightarrow>
     ret (join ''.'' [ENC_VERSION, toBase64 E salt, toBase64 E iv, toBase64 E tag,
       toBase64 E ciphertext])))"

definition decryptSecret :: "env \<Rightarrow> string \<Rightarrow> string \<Rightarrow> exn + string" where
  "decryptSecret E blob masterSecret = (case splitOn (CHR ''.'') blob of
     [version, saltB64, ivB64, tagB64, ctB64] \<Rightarrow>
       (if version \<noteq> ENC_VERSION then Inl (JsError ''Invalid encrypted secret format'')
        else (case aesGcmDecrypt E (deriveKey E masterSecret (fromBase64 E saltB64))
                (fromBase64 E ivB64) (fromBase64 E ctB64) (fromBase64 E tagB64) of
            None \<Rightarrow> Inl (JsError ''Unsupported state or unable to authenticate data'')
          | Some bytes \<Rightarrow> Inr (utf8Decode bytes)))
   | _ \<Rightarrow> Inl (JsError ''Invalid encrypted secret format''))"

subsection \<open>The provider\<close>

definition providerGenerate :: "env \<Rightarrow> (string \<times> string) prog" where
  "providerGenerate E = bind (generateEd25519KeyPair E) (\<lambda>(publicKey, privateKey).
     bind (encryptSecret E privateKey (cfg_signingSecret (cfg E))) (\<lambda>stored.
     ret (publicKey, stored)))"

definition providerSign :: "env \<Rightarrow> string \<Rightarrow> string \<Rightarrow> exn + string" where
  "providerSign E bytes privateKeyStored =
     (case decryptSecret E privateKeyStored (cfg_signingSecret (cfg E)) of
        Inl e \<Rightarrow> Inl e | Inr privateKey \<Rightarrow> signEd25519 E bytes privateKey)"

subsection \<open>The key service\<close>

definition activeKey :: "string \<Rightarrow> signingKey \<Rightarrow> bool" where
  "activeKey issuerId k \<longleftrightarrow> k_issuerId k = issuerId \<and> k_active k \<and> k_revokedAt k = None"

text \<open>\<open>buildKeyData\<close>: everything but the columns the database fills in.\<close>

definition buildKeyData :: "env \<Rightarrow> string \<Rightarrow> (time \<Rightarrow> string \<Rightarrow> signingKey) prog" where
  "buildKeyData E issuerId = bind (providerGenerate E) (\<lambda>(publicKey, stored).
     bind (randomHex E 9) (\<lambda>h. ret (\<lambda>now cu.
       \<lparr>k_id = cu, k_issuerId = issuerId, k_keyId = ''sk_'' @ h, k_publicKey = publicKey,
        k_privateKeyEncrypted = stored, k_algorithm = ''Ed25519'', k_createdAt = now,
        k_revokedAt = None, k_active = True\<rparr>)))"

definition getOrCreateActiveKey :: "env \<Rightarrow> string \<Rightarrow> signingKey prog" where
  "getOrCreateActiveKey E issuerId =
     bind (query E (\<lambda>d. List.find (activeKey issuerId)
       (sort_key (\<lambda>k. - k_createdAt k) (signingKeys d)))) (\<lambda>existing.
     case existing of Some k \<Rightarrow> ret k
     | None \<Rightarrow> bind (buildKeyData E issuerId) (\<lambda>data.
         bind (createSigningKey E data) (\<lambda>created.
         andThen (auditLog E (auditEvent ''SIGNING_KEY_GENERATED'' noContext
           (Some ''IssuerSigningKey'') (Some (k_keyId created))
           (Some (VObj [(''issuerId'', VStr issuerId), (''algorithm'', VStr (k_algorithm created))]))))
         (ret created))))"

definition retireKeys :: "env \<Rightarrow> string \<Rightarrow> unit prog" where
  "retireKeys E issuerId = bind (newDate E) (\<lambda>now. exec E (\<lambda>t cu d.
     Inr ((), d\<lparr>signingKeys := map (\<lambda>k. if activeKey issuerId k
       then k\<lparr>k_active := False, k_revokedAt := Some now\<rparr> else k) (signingKeys d)\<rparr>)))"

definition rotateActiveKey ::
  "env \<Rightarrow> string \<Rightarrow> auditContext \<Rightarrow> (signingKey \<times> string list) prog" where
  "rotateActiveKey E issuerId context = bind (buildKeyData E issuerId) (\<lambda>data.
     transaction E (
       andThen (lockChain E) (
       bind (query E (\<lambda>d. filter (activeKey issuerId) (signingKeys d))) (\<lambda>current.
       andThen (retireKeys E issuerId) (
       bind (createSigningKey E data) (\<lambda>createdKey.
       let retired = map k_keyId current in
       andThen (auditLogTx E (auditEvent ''SIGNING_KEY_ROTATED'' context
         (Some ''IssuerSigningKey'') (Some (k_keyId createdKey))
         (Some (VObj [(''issuerId'', VStr issuerId), (''algorithm'', VStr (k_algorithm createdKey)),
            (''retiredKeyIds'', VArr (map VStr retired))]))))
       (ret (createdKey, retired))))))))"

definition publicKeyView :: "credential list \<Rightarrow> signingKey \<Rightarrow> value" where
  "publicKeyView creds k = VObj
     [(''keyId'', VStr (k_keyId k)), (''publicKey'', VStr (k_publicKey k)),
      (''algorithm'', VStr (k_algorithm k)), (''active'', VBool (k_active k)),
      (''createdAt'', VDate (k_createdAt k)), (''revokedAt'', optDate (k_revokedAt k)),
      (''_count'', VObj [(''credentials'',
         VNum (int (length (filter (\<lambda>c. c_signingKeyId c = Some (k_id k)) creds))))])]"

definition listPublicKeys :: "env \<Rightarrow> string \<Rightarrow> value list prog" where
  "listPublicKeys E issuerId = query E (\<lambda>d. map (publicKeyView (credentials d))
     (sort_key (\<lambda>k. - k_createdAt k) (filter (\<lambda>k. k_issuerId k = issuerId) (signingKeys d))))"

record signInput =
  si_issuerId :: string
  si_credentialId :: string
  si_verificationId :: string
  si_issuerDomain :: string
  si_issuerName :: string
  si_studentName :: string
  si_studentId :: string
  si_degree :: string
  si_graduationYear :: "int option"
  si_issuedAt :: time

record credentialSignature =
  sg_signature :: string
  sg_publicPayload :: string
  sg_signingKeyDbId :: string
  sg_signingKeyId :: string
  sg_signedAt :: time
  sg_vcProofValue :: string
  sg_vcProofCreated :: time
  sg_vcDocument :: object

definition signPayload :: "signInput \<Rightarrow> string \<Rightarrow> string" where
  "signPayload input keyId = buildPublicSignaturePayload
     \<lparr>pp_credentialId = si_credentialId input, pp_verificationId = si_verificationId input,
      pp_issuerDomain = si_issuerDomain input, pp_issuerName = si_issuerName input,
      pp_studentName = si_studentName input, pp_studentId = si_studentId input,
      pp_degree = si_degree input, pp_graduationYear = si_graduationYear input,
      pp_issuedAt = si_issuedAt input, pp_signingKeyId = keyId\<rparr>"

definition signDocument :: "env \<Rightarrow> signInput \<Rightarrow> object" where
  "signDocument E input = buildOpenBadgeCredential E
     \<lparr>ob_credentialId = si_credentialId input, ob_issuerId = si_issuerId input,
      ob_issuerDomain = si_issuerDomain input, ob_issuerName = si_issuerName input,
      ob_studentName = si_studentName input, ob_studentId = si_studentId input,
      ob_degree = si_degree input, ob_graduationYear = si_graduationYear input,
      ob_issuedAt = si_issuedAt input\<rparr>"

definition signCredential :: "env \<Rightarrow> signInput \<Rightarrow> credentialSignature prog" where
  "signCredential E input = bind (getOrCreateActiveKey E (si_issuerId input)) (\<lambda>key.
     let publicPayload = signPayload input (k_keyId key) in
     bind (liftE (providerSign E (utf8 publicPayload) (k_privateKeyEncrypted key))) (\<lambda>signature.
     bind (newDate E) (\<lambda>signedAt.
     let document = signDocument E input;
         proofConfig = buildProofConfig (si_issuerDomain input) (k_keyId key) signedAt in
     bind (liftE (buildProofHashData E document proofConfig)) (\<lambda>hashData.
     bind (liftE (providerSign E hashData (k_privateKeyEncrypted key))) (\<lambda>vcSignature.
     let vcProofValue = signatureToMultibase E vcSignature in
     ret \<lparr>sg_signature = signature, sg_publicPayload = publicPayload,
          sg_signingKeyDbId = k_id key, sg_signingKeyId = k_keyId key, sg_signedAt = signedAt,
          sg_vcProofValue = vcProofValue, sg_vcProofCreated = signedAt,
          sg_vcDocument = attachProof document proofConfig vcProofValue\<rparr>)))))"

subsection \<open>What the primitives promise\<close>

definition cryptoLaws :: "env \<Rightarrow> bool" where
  "cryptoLaws E \<longleftrightarrow>
     (\<forall>b. fromBase64 E (toBase64 E b) = b \<and> CHR ''.'' \<notin> set (toBase64 E b)) \<and>
     (\<forall>k iv m. case aesGcmEncrypt E k iv m of (c, t) \<Rightarrow> aesGcmDecrypt E k iv c t = Some m) \<and>
     (\<forall>n m. case edKeyPair E n of (pub, priv) \<Rightarrow>
        (case edSign E priv m of None \<Rightarrow> False | Some s \<Rightarrow> edVerify E pub m s = Some True))"

lemma sample_laws: "cryptoLaws sampleEnv"
proof -
  have "toBase64 sampleEnv = sampleB64" "fromBase64 sampleEnv = sampleUnB64"
    by (simp_all add: sampleEnv_def)
  then show ?thesis unfolding cryptoLaws_def by (simp add: sampleEnv_def)
qed

lemma utf8_snoc: "utf8 (c # s) = (let n = (of_char c :: nat) in
  if n < 128 then [c] else [char_of (192 + n div 64), char_of (128 + n mod 64)]) @ utf8 s"
  by (simp add: utf8_def)

lemma utf8Decode_utf8 [simp]: "utf8Decode (utf8 s) = s"
proof (induction s)
  case (Cons c s)
  define n where "n = (of_char c :: nat)"
  have n: "n < 256" by (simp add: n_def nat_of_char_less_256)
  have c: "c = char_of n" by (simp add: n_def)
  show ?case
  proof (cases "n < 128")
    case True
    then show ?thesis using Cons by (simp add: utf8_snoc n_def Let_def)
  next
    case False
    have "n div 64 < 4" using n by (simp add: less_mult_imp_div_less)
    moreover have "2 \<le> n div 64" using div_le_mono [of 128 n 64] False by simp
    ultimately have d: "n div 64 = 2 \<or> n div 64 = 3" by linarith
    have e: "(of_char (char_of (192 + n div 64) :: char) :: nat) = 192 + n div 64"
      "(of_char (char_of (128 + n mod 64) :: char) :: nat) = 128 + n mod 64"
      using d by (auto simp: of_char_of)
    have u: "utf8 (c # s) = char_of (192 + n div 64) # char_of (128 + n mod 64) # utf8 s"
      using False by (simp add: utf8_snoc n_def [symmetric] Let_def)
    have "128 + n mod 64 = n" if "n div 64 = 2" using div_mult_mod_eq [of n 64] that by simp
    moreover have "192 + n mod 64 = n" if "n div 64 = 3" using div_mult_mod_eq [of n 64] that by simp
    ultimately have "utf8Decode (utf8 (c # s)) = char_of n # utf8Decode (utf8 s)"
      using d by (auto simp add: u Let_def e)
    then show ?thesis using Cons c by simp
  qed
qed (simp add: utf8_def)

lemma encrypt_wp:
  assumes "cryptoLaws E"
  shows "wp (encryptSecret E p m)
    (\<lambda>blob w'. database w' = database w \<and> decryptSecret E blob m = Inr p) (\<lambda>_ _. False) w"
proof -
  have split: "splitOn (CHR ''.'') (join ''.'' [ENC_VERSION, toBase64 E a, toBase64 E b, toBase64 E c,
      toBase64 E d]) = [ENC_VERSION, toBase64 E a, toBase64 E b, toBase64 E c, toBase64 E d]" for a b c d
    using assms by (intro splitOn_join) (auto simp: cryptoLaws_def ENC_VERSION_def)
  have laws: "fromBase64 E (toBase64 E b) = b"
    "aesGcmEncrypt E k iv q = (c, t) \<Longrightarrow> aesGcmDecrypt E k iv c t = Some q" for b k iv q c t
    using assms by (auto simp: cryptoLaws_def split: prod.splits)
  show ?thesis
    by (auto simp: encryptSecret_def wp_simps decryptSecret_def split laws split: prod.split
        simp del: join.simps)
qed

text \<open>A stored key that can be decrypted and whose signatures verify under its public half.\<close>

definition keyGood :: "env \<Rightarrow> signingKey \<Rightarrow> bool" where
  "keyGood E k \<longleftrightarrow> (\<forall>m. case providerSign E m (k_privateKeyEncrypted k) of
     Inl e \<Rightarrow> False | Inr s \<Rightarrow> verifyEd25519 E m s (k_publicKey k))"

definition keysGood :: "env \<Rightarrow> db \<Rightarrow> bool" where
  "keysGood E d \<longleftrightarrow> (\<forall>k \<in> set (signingKeys d). keyGood E k)"

lemma keyGoodD: "keyGood E k \<Longrightarrow> providerSign E m (k_privateKeyEncrypted k) = Inr s \<Longrightarrow>
  verifyEd25519 E m s (k_publicKey k)"
  by (auto simp: keyGood_def dest: spec [of _ m])

lemma keyPair_good:
  assumes "cryptoLaws E" and "decryptSecret E (k_privateKeyEncrypted k) (cfg_signingSecret (cfg E)) =
      Inr (toBase64 E (snd (edKeyPair E n)))"
    and "k_publicKey k = toBase64 E (fst (edKeyPair E n))"
  shows "keyGood E k"
proof -
  have laws: "fromBase64 E (toBase64 E b) = b" for b using assms(1) by (simp add: cryptoLaws_def)
  have sig: "case edSign E (snd (edKeyPair E n)) m of None \<Rightarrow> False
      | Some s \<Rightarrow> edVerify E (fst (edKeyPair E n)) m s = Some True" for m
    using assms(1) unfolding cryptoLaws_def by (auto simp: split_def)
  have "case providerSign E m (k_privateKeyEncrypted k) of Inl e \<Rightarrow> False
      | Inr s \<Rightarrow> verifyEd25519 E m s (k_publicKey k)" for m
    using sig [of m] by (auto simp: providerSign_def assms(2,3) signEd25519_def verifyEd25519_def laws
        split: option.splits)
  then show ?thesis by (simp add: keyGood_def)
qed

lemma keyPair_good':
  assumes "cryptoLaws E" and "edKeyPair E n = (pub, priv)"
    and "decryptSecret E (k_privateKeyEncrypted k) (cfg_signingSecret (cfg E)) = Inr (toBase64 E priv)"
    and "k_publicKey k = toBase64 E pub"
  shows "keyGood E k"
  using keyPair_good [OF assms(1), of k n] assms(2-4) by simp

lemma buildKeyData_wp:
  assumes "cryptoLaws E"
  shows "wp (buildKeyData E i) (\<lambda>data w'. database w' = database w \<and>
      (\<forall>now cu. keyGood E (data now cu) \<and> activeKey i (data now cu) \<and> k_id (data now cu) = cu))
    (\<lambda>_ _. False) w"
  unfolding buildKeyData_def providerGenerate_def generateEd25519KeyPair_def wp_simps
  by (auto simp: wp_simps activeKey_def split: prod.split
      intro!: wp_mono [OF encrypt_wp [OF assms]] keyPair_good' [OF assms])

subsection \<open>Keys in the tables\<close>

lemma insertInto_set: "insertInto cf x rows = Inr rows' \<Longrightarrow> rows' = rows @ [x]"
  by (simp add: insertInto_Inr)

lemma createSigningKey_wp: "wp (createSigningKey E mk)
  (\<lambda>k w'. k = mk (clock E (tick w)) (cuid E (tick w)) \<and>
     database w' = (database w)\<lparr>signingKeys := signingKeys (database w) @ [k]\<rparr>)
  (\<lambda>_ _. True) w"
  by (auto simp: createSigningKey_def wp_simps split: option.splits sum.splits dest!: insertInto_set)

lemma find_sorted_key: "List.find P (sort_key f xs) = Some k \<Longrightarrow> k \<in> set xs \<and> P k"
  by (auto simp: find_Some_iff) (metis nth_mem set_sort length_sort)

lemma find_key_none: "List.find P (sort_key f xs) = None \<longleftrightarrow> (\<forall>k \<in> set xs. \<not> P k)"
  by (auto simp: find_None_iff)

definition newKey :: "db \<Rightarrow> signingKey \<Rightarrow> db" where
  "newKey d k = d\<lparr>signingKeys := signingKeys d @ [k]\<rparr>"

lemma getOrCreate_wp:
  assumes "cryptoLaws E" and "keysGood E (database w)"
  shows "wp (getOrCreateActiveKey E i)
    (\<lambda>k w'. k \<in> set (signingKeys (database w')) \<and> activeKey i k \<and> keysGood E (database w') \<and>
       (database w' = database w \<or> sameButAudit (newKey (database w) k) (database w')))
    (\<lambda>_ _. True) w"
proof -
  have create: "wp (bind (createSigningKey E data) (\<lambda>created. andThen (auditLog E (f created)) (ret created)))
      (\<lambda>k w'. k \<in> set (signingKeys (database w')) \<and> activeKey i k \<and> keysGood E (database w') \<and>
         (database w' = database w \<or> sameButAudit (newKey (database w) k) (database w')))
      (\<lambda>_ _. True) w1"
    if data: "\<forall>now cu. keyGood E (data now cu) \<and> activeKey i (data now cu) \<and> k_id (data now cu) = cu"
      and w1: "database w1 = database w" for data f w1
    unfolding wp_bind wp_andThen wp_ret
  proof (rule wp_mono [OF createSigningKey_wp], elim conjE)
    fix k and w2 :: world
    assume k: "k = data (clock E (tick w1)) (cuid E (tick w1))"
      and w2: "database w2 = (database w1)\<lparr>signingKeys := signingKeys (database w1) @ [k]\<rparr>"
    have "signingKeys (database w2) = signingKeys (database w) @ [k]" using w2 w1 by simp
    moreover have "database w2 = newKey (database w) k" using w2 w1 by (simp add: newKey_def)
    ultimately show "wp (auditLog E (f k)) (\<lambda>_ w'. k \<in> set (signingKeys (database w')) \<and> activeKey i k \<and>
        keysGood E (database w') \<and> (database w' = database w \<or>
          sameButAudit (newKey (database w) k) (database w'))) (\<lambda>_ _. True) w2"
      using data k assms(2)
      by (intro wp_mono [OF keeps_wp [OF keeps_auditLog]])
        (auto simp: keysGood_def sameButAudit_fields(3))
  qed auto
  let ?find = "List.find (activeKey i) (sort_key (\<lambda>k. - k_createdAt k) (signingKeys (database w)))"
  show ?thesis
  proof (cases "fault E (tick w) = None \<and> ?find = None")
    case True
    then show ?thesis
      unfolding getOrCreateActiveKey_def wp_bind wp_query
      by (auto simp: wp_bind intro!: wp_mono [OF buildKeyData_wp [OF assms(1)]] create)
  next
    case False
    then show ?thesis
      using assms(2) find_sorted_key [of "activeKey i" "\<lambda>k. - k_createdAt k" "signingKeys (database w)"]
      unfolding getOrCreateActiveKey_def by (auto simp: wp_simps split: option.split)
  qed
qed

subsection \<open>Properties\<close>

lemma signCredential_wp:
  assumes laws: "cryptoLaws E" and good: "keysGood E (database w)"
  shows "wp (signCredential E input) (\<lambda>sg w'. \<exists>k \<in> set (signingKeys (database w')).
    k_id k = sg_signingKeyDbId sg \<and> k_issuerId k = si_issuerId input \<and>
    sg_publicPayload sg = signPayload input (k_keyId k) \<and>
    verifyEd25519 E (utf8 (sg_publicPayload sg)) (sg_signature sg) (k_publicKey k) \<and>
    (\<exists>h s. extractVerificationInput E (sg_vcDocument sg) =
        Inr (h, s, buildVerificationMethodId (si_issuerDomain input) (k_keyId k)) \<and>
      verifyEd25519 E h s (k_publicKey k)) \<and> keysGood E (database w')) (\<lambda>_ _. True) w"
proof -
  have b64: "fromBase64 E (toBase64 E b) = b" for b using laws by (simp add: cryptoLaws_def)
  have vf: "verifyEd25519 E h (toBase64 E (fromBase64 E s)) p = verifyEd25519 E h s p" for h s p
    by (simp add: verifyEd25519_def b64)
  show ?thesis
    unfolding signCredential_def wp_bind
  proof (rule wp_mono [OF getOrCreate_wp [OF laws good]], goal_cases)
    case (1 k w1)
    then have k: "k \<in> set (signingKeys (database w1))" "k_issuerId k = si_issuerId input"
      "keyGood E k" "keysGood E (database w1)" by (auto simp: activeKey_def keysGood_def)
    show ?case
      using k keyGoodD [OF k(3)]
      by (auto simp: wp_simps Let_def signDocument_def extract_attach vf split: sum.split intro!: bexI [of _ k])
  qed simp
qed

text \<open>
  C8. Issued signatures verify: whenever \<open>signCredential\<close> returns, over tables whose keys are good
  and under the documented laws of the primitives, the key it names is a stored key of that
  institution, the signature over the public payload verifies under its public half, and what a
  verifier extracts from the credential document verifies under the same key, with the verification
  method of that key; the tables still hold only good keys.
\<close>

theorem issued_signatures_verify:
  assumes laws: "cryptoLaws E" and good: "keysGood E (database w)"
    and run: "signCredential E input w = (Inr sg, w')"
  shows "\<exists>k \<in> set (signingKeys (database w')).
    k_id k = sg_signingKeyDbId sg \<and> k_issuerId k = si_issuerId input \<and>
    sg_publicPayload sg = signPayload input (k_keyId k) \<and>
    verifyEd25519 E (utf8 (sg_publicPayload sg)) (sg_signature sg) (k_publicKey k) \<and>
    (\<exists>h s. extractVerificationInput E (sg_vcDocument sg) =
        Inr (h, s, buildVerificationMethodId (si_issuerDomain input) (k_keyId k)) \<and>
      verifyEd25519 E h s (k_publicKey k)) \<and> keysGood E (database w')"
  using signCredential_wp [OF laws good, of input] run by (simp add: wp_def)

definition sampleSign :: signInput where
  "sampleSign = \<lparr>si_issuerId = ''i1'', si_credentialId = ''crd_1'', si_verificationId = ''vrf_1'',
     si_issuerDomain = ''uni.example'', si_issuerName = ''Uni'', si_studentName = ''Ann'',
     si_studentId = ''42'', si_degree = ''BSc'', si_graduationYear = None, si_issuedAt = 0\<rparr>"

lemma sampleSign_issuer: "si_issuerId sampleSign = ''i1''"
  by (simp add: sampleSign_def)

lemma sample_sign_runs:
  "\<exists>sg w'. signCredential sampleEnv sampleSign emptyWorld = (Inr sg, w')"
proof -
  have hash: "\<exists>h. buildProofHashData sampleEnv (signDocument sampleEnv sampleSign) cfg = Inr h" for cfg
  proof -
    have "''proof'' \<notin> set (map fst (signDocument sampleEnv sampleSign))"
      unfolding signDocument_def ob_members by simp
    then show ?thesis by (simp add: buildProofHashData_def Let_def jcs_def)
  qed
  have sign: "\<exists>s. providerSign sampleEnv m (k_privateKeyEncrypted k) = Inr s" if "keyGood sampleEnv k" for m k
    using that by (cases "providerSign sampleEnv m (k_privateKeyEncrypted k)")
      (auto simp: keyGood_def dest!: spec [of _ m])
  have conflict: "firstConflict ixs [] = None" for ixs :: "(string list \<times> (signingKey \<Rightarrow> bool)) list"
    by (simp add: firstConflict_None)
  have good: "keysGood sampleEnv (database emptyWorld)"
    by (simp add: keysGood_def emptyWorld_def emptyDb_def)
  have key: "wp (getOrCreateActiveKey sampleEnv ''i1'') (\<lambda>k w. keyGood sampleEnv k) (\<lambda>_ _. False) emptyWorld"
    unfolding getOrCreateActiveKey_def wp_bind wp_query
    by (auto simp: emptyWorld_def emptyDb_def createSigningKey_def wp_simps insertInto_def
        keyConflict_def conflict
        intro!: wp_mono [OF buildKeyData_wp [OF sample_laws]] wp_mono [OF auditLog_wp])
  have "wp (signCredential sampleEnv sampleSign) (\<lambda>_ _. True) (\<lambda>_ _. False) emptyWorld"
    unfolding signCredential_def wp_bind
  proof (rule wp_mono [OF key [folded sampleSign_issuer]], goal_cases)
    case (1 k w)
    then show ?case using sign [OF 1] hash
      by (auto simp: wp_simps Let_def split: sum.split) (metis sum.distinct(1))+
  qed simp
  then show ?thesis by (auto simp: wp_def split: prod.splits sum.splits)
qed

theorem issued_signatures_verify_witness:
  "\<exists>sg w'. signCredential sampleEnv sampleSign emptyWorld = (Inr sg, w') \<and>
     (\<exists>k \<in> set (signingKeys (database w')).
        verifyEd25519 sampleEnv (utf8 (sg_publicPayload sg)) (sg_signature sg) (k_publicKey k))"
proof -
  have good: "keysGood sampleEnv (database emptyWorld)"
    by (simp add: keysGood_def emptyWorld_def emptyDb_def)
  obtain sg w' where run: "signCredential sampleEnv sampleSign emptyWorld = (Inr sg, w')"
    using sample_sign_runs by blast
  show ?thesis using issued_signatures_verify [OF sample_laws good run] run by blast
qed

text \<open>
  C39. Rotation is all or nothing: if it throws, the tables are untouched (the audit entry included);
  if it returns, the new key is the only active key of the institution, the retired ones it reports
  are exactly those that were active, no key or key material was lost, and the audit log has grown
  by one entry naming the new key.
\<close>

theorem rotation_atomic:
  "case rotateActiveKey E i ctx w of
     (Inl e, w') \<Rightarrow> database w' = database w
   | (Inr (created, retired), w') \<Rightarrow>
       filter (activeKey i) (signingKeys (database w')) = [created] \<and>
       retired = map k_keyId (filter (activeKey i) (signingKeys (database w))) \<and>
       map (\<lambda>k. (k_id k, k_keyId k, k_publicKey k, k_privateKeyEncrypted k)) (signingKeys (database w')) =
         map (\<lambda>k. (k_id k, k_keyId k, k_publicKey k, k_privateKeyEncrypted k))
           (signingKeys (database w) @ [created]) \<and>
       (\<exists>row. auditLogs (database w') = auditLogs (database w) @ [row] \<and>
          au_action row = ''SIGNING_KEY_ROTATED'' \<and> au_targetId row = Some (k_keyId created))"
  (is "case _ of (Inl e, w') \<Rightarrow> _ | (Inr (created, retired), w') \<Rightarrow> ?ok created retired w'")
proof -
  have act: "filter (activeKey i) (map (\<lambda>k. if activeKey i k then k\<lparr>k_active := False, k_revokedAt := t\<rparr> else k) ks) = []"
    for ks t by (induction ks) (auto simp: activeKey_def)
  have same: "map (\<lambda>k. (k_id k, k_keyId k, k_publicKey k, k_privateKeyEncrypted k))
      (map (\<lambda>k. if activeKey i k then k\<lparr>k_active := False, k_revokedAt := t\<rparr> else k) ks) =
      map (\<lambda>k. (k_id k, k_keyId k, k_publicKey k, k_privateKeyEncrypted k)) ks" for ks t by simp
  have data: "wp (buildKeyData E i) (\<lambda>data w1. database w1 = database w \<and> (\<forall>now cu. activeKey i (data now cu)))
      (\<lambda>_ w1. database w1 = database w) w"
    by (auto simp: buildKeyData_def providerGenerate_def generateEd25519KeyPair_def encryptSecret_def
        wp_simps activeKey_def split: prod.split)
  have "wp (rotateActiveKey E i ctx) (\<lambda>r w'. ?ok (fst r) (snd r) w') (\<lambda>_ w'. database w' = database w) w"
    unfolding rotateActiveKey_def wp_bind [of "buildKeyData E i"]
  proof (rule wp_mono [OF data])
    fix d :: "time \<Rightarrow> string \<Rightarrow> signingKey" and w1 :: world
    assume d: "database w1 = database w \<and> (\<forall>now cu. activeKey i (d now cu))"
    have audit: "wp (auditLogTx E (auditEvent ''SIGNING_KEY_ROTATED'' ctx t (Some kid) m))
        (\<lambda>_ w'. signingKeys (database w') = signingKeys (database w2) \<and>
          (\<exists>row. auditLogs (database w') = auditLogs (database w2) @ [row] \<and>
             au_action row = ''SIGNING_KEY_ROTATED'' \<and> au_targetId row = Some kid)) (\<lambda>_ _. True) w2"
      for t kid m w2
      unfolding auditLogTx_def
      by (rule wp_mono [OF writeEntry_wp])
        (auto simp: appendedRow_def auditEntry_def auditEvent_def Let_def)
    show "wp (transaction E (andThen (lockChain E)
        (bind (query E (\<lambda>d. filter (activeKey i) (signingKeys d))) (\<lambda>current.
         andThen (retireKeys E i) (bind (createSigningKey E d) (\<lambda>createdKey.
         let retired = map k_keyId current in
         andThen (auditLogTx E (auditEvent ''SIGNING_KEY_ROTATED'' ctx (Some ''IssuerSigningKey'')
           (Some (k_keyId createdKey)) (Some (VObj [(''issuerId'', VStr i),
             (''algorithm'', VStr (k_algorithm createdKey)),
             (''retiredKeyIds'', VArr (map VStr retired))]))))
         (ret (createdKey, retired))))))))
      (\<lambda>r w'. ?ok (fst r) (snd r) w') (\<lambda>_ w'. database w' = database w) w1"
      unfolding wp_transaction Let_def lockChain_def retireKeys_def
      using d
      by (auto simp: wp_simps split: option.split
          intro!: wp_mono [OF createSigningKey_wp] wp_mono [OF audit])
        (auto simp: act same)
  qed simp
  then show ?thesis by (auto simp: wp_def split: prod.splits sum.splits)
qed

end
