(* ===== verification/Storage.thy ===== *)
theory Storage
  imports Wp
begin

text \<open>
  Object storage (\<open>common/storage\<close>): the service delegates to one of two providers, a directory
  tree or an S3-compatible bucket. Both promise that a failed deletion of one object is ignored;
  they differ in \<open>deletePrefix\<close>, which the local provider does in one call whose failure is
  ignored, and the remote one page by page, with a failed listing thrown to the caller. A key is
  an opaque name: path normalisation of the file system is not represented.
\<close>

definition storagePut :: "env \<Rightarrow> string \<Rightarrow> content \<Rightarrow> unit prog" where
  "storagePut E key c = putObject E key c"

definition storageGet :: "env \<Rightarrow> string \<Rightarrow> content prog" where
  "storageGet E key = getObject E key"

definition storageExists :: "env \<Rightarrow> string \<Rightarrow> bool prog" where
  "storageExists E key =
     (if cfg_storageR2 (cfg E)
      then external E JsError (\<lambda>w. (Inr (map_of (storage w) key \<noteq> None), w))
      else tryCatch (external E JsError (\<lambda>w. (Inr (map_of (storage w) key \<noteq> None), w)))
        (\<lambda>e. ret False))"

definition storageDelete :: "env \<Rightarrow> string \<Rightarrow> unit prog" where
  "storageDelete E key = tryCatch (deleteObjects E (\<lambda>k. k = key)) (\<lambda>e. ret ())"

definition underPrefix :: "string \<Rightarrow> string \<Rightarrow> bool" where
  "underPrefix prefix key \<longleftrightarrow> startsWith (prefix @ ''/'') key"

definition localDeletePrefix :: "env \<Rightarrow> string \<Rightarrow> unit prog" where
  "localDeletePrefix E prefix =
     tryCatch (deleteObjects E (\<lambda>k. k = prefix \<or> underPrefix prefix k)) (\<lambda>e. ret ())"

text \<open>The pages of a listing: at most a thousand keys each, and at least one page.\<close>

fun pages :: "nat \<Rightarrow> 'a list \<Rightarrow> 'a list list" where
  "pages 0 xs = [xs]"
| "pages (Suc n) xs = (if length xs \<le> Suc n then [xs]
     else take (Suc n) xs # pages (Suc n) (drop (Suc n) xs))"

definition PAGE_SIZE :: nat where "PAGE_SIZE = 1000"

definition listedPrefix :: "string \<Rightarrow> string" where
  "listedPrefix prefix = (if prefix \<noteq> [] \<and> last prefix = CHR ''/'' then prefix else prefix @ ''/'')"

definition r2DeletePage :: "env \<Rightarrow> string list \<Rightarrow> unit prog" where
  "r2DeletePage E page = andThen (external E JsError (ret ()))
     (foldM (\<lambda>_ k. storageDelete E k) () (filter (\<lambda>k. k \<noteq> []) page))"

definition r2DeletePrefix :: "env \<Rightarrow> string \<Rightarrow> unit prog" where
  "r2DeletePrefix E prefix w =
     foldM (\<lambda>_ page. r2DeletePage E page) ()
       (pages PAGE_SIZE (filter (startsWith (listedPrefix prefix)) (map fst (storage w)))) w"

definition deletePrefix :: "env \<Rightarrow> string \<Rightarrow> unit prog" where
  "deletePrefix E prefix =
     (if cfg_storageR2 (cfg E) then r2DeletePrefix E prefix else localDeletePrefix E prefix)"

subsection \<open>What a deletion touches\<close>

lemma concat_pages: "concat (pages n xs) = xs"
  by (induction n xs rule: pages.induct) auto

lemma storageDelete_wp: "wp (storageDelete E key)
  (\<lambda>_ w'. database w' = database w \<and> queue w' = queue w \<and> audit_seq w' = audit_seq w \<and>
     (storage w' = storage w \<or> storage w' = filter (\<lambda>kc. fst kc \<noteq> key) (storage w)) \<and>
     ((\<forall>n. fault E n = None) \<longrightarrow> storage w' = filter (\<lambda>kc. fst kc \<noteq> key) (storage w)))
  (\<lambda>_ _. False) w"
  by (auto simp: storageDelete_def deleteObjects_def wp_def tryCatch_def external_def ret_def nextTick_def
      split: option.splits)

text \<open>A deletion of keys: nothing else changes, and no other key goes.\<close>

definition onlyDeletes :: "(string \<Rightarrow> bool) \<Rightarrow> world \<Rightarrow> world \<Rightarrow> bool" where
  "onlyDeletes P w w' \<longleftrightarrow> database w' = database w \<and> queue w' = queue w \<and>
     audit_seq w' = audit_seq w \<and>
     filter (\<lambda>kc. \<not> P (fst kc)) (storage w') = filter (\<lambda>kc. \<not> P (fst kc)) (storage w) \<and>
     set (storage w') \<subseteq> set (storage w)"

lemma onlyDeletes_refl: "onlyDeletes P w w"
  by (simp add: onlyDeletes_def)

lemma onlyDeletes_trans: "onlyDeletes P w w' \<Longrightarrow> onlyDeletes P w' w'' \<Longrightarrow> onlyDeletes P w w''"
  by (auto simp: onlyDeletes_def)

lemma storageDelete_only:
  assumes "P key"
  shows "wp (storageDelete E key) (\<lambda>_ w'. onlyDeletes P w w' \<and>
      ((\<forall>n. fault E n = None) \<longrightarrow> key \<notin> fst ` set (storage w'))) (\<lambda>_ _. False) w"
proof -
  have "filter (\<lambda>kc. \<not> P (fst kc)) (filter (\<lambda>kc. fst kc \<noteq> key) xs) = filter (\<lambda>kc. \<not> P (fst kc)) xs"
    for xs :: "(string \<times> content) list"
    using assms by (auto intro!: filter_cong simp: filter_filter)
  then show ?thesis
    by (intro wp_mono [OF storageDelete_wp]) (auto simp: onlyDeletes_def)
qed

lemma deleted_more:
  assumes "onlyDeletes P w' w'' \<and> (Q \<longrightarrow> x \<notin> fst ` set (storage w''))"
    and "onlyDeletes P w w' \<and> (Q \<longrightarrow> fst ` set (storage w') \<inter> set pre = {})"
  shows "onlyDeletes P w w'' \<and> (Q \<longrightarrow> fst ` set (storage w'') \<inter> set (pre @ [x]) = {})"
proof -
  have "fst ` set (storage w'') \<subseteq> fst ` set (storage w')"
    using assms(1) by (simp add: onlyDeletes_def image_mono)
  then have "fst ` set (storage w'') \<inter> set (pre @ [x]) = {}" if Q
    using assms that by auto
  then show ?thesis using assms onlyDeletes_trans [of P w w' w''] by simp
qed

lemma deleted_pages:
  assumes "onlyDeletes P w' w'' \<and> (Q \<longrightarrow> fst ` set (storage w'') \<inter> set x = {})"
    and "onlyDeletes P w w' \<and> (Q \<longrightarrow> fst ` set (storage w') \<inter> set (concat pre) = {})"
  shows "onlyDeletes P w w'' \<and> (Q \<longrightarrow> fst ` set (storage w'') \<inter> set (concat (pre @ [x])) = {})"
proof -
  have "fst ` set (storage w'') \<subseteq> fst ` set (storage w')"
    using assms(1) by (simp add: onlyDeletes_def image_mono)
  then have "fst ` set (storage w'') \<inter> set (concat (pre @ [x])) = {}" if Q
    using assms that by auto
  then show ?thesis using assms onlyDeletes_trans [of P w w' w''] by simp
qed

lemma deleteKeys_only:
  assumes "\<forall>k \<in> set keys. P k"
  shows "wp (foldM (\<lambda>_ k. storageDelete E k) () keys) (\<lambda>_ w'. onlyDeletes P w w' \<and>
      ((\<forall>n. fault E n = None) \<longrightarrow> fst ` set (storage w') \<inter> set keys = {})) (\<lambda>_ _. False) w"
proof (rule wp_foldM [where I = "\<lambda>pre _ w'. onlyDeletes P w w' \<and>
      ((\<forall>n. fault E n = None) \<longrightarrow> fst ` set (storage w') \<inter> set pre = {})"], goal_cases)
  case (1 pre x rest s w')
  then have "P x" using assms by auto
  moreover have before: "onlyDeletes P w w' \<and>
      ((\<forall>n. fault E n = None) \<longrightarrow> fst ` set (storage w') \<inter> set pre = {})" by fact
  ultimately show ?case
    by (intro wp_mono [OF storageDelete_only [of P x]] deleted_more [OF _ before]) simp_all
qed (simp add: onlyDeletes_refl)

lemma r2DeletePage_only:
  assumes "\<forall>k \<in> set page. P k \<and> k \<noteq> []"
  shows "wp (r2DeletePage E page) (\<lambda>_ w'. onlyDeletes P w w' \<and>
      ((\<forall>n. fault E n = None) \<longrightarrow> fst ` set (storage w') \<inter> set page = {})) (\<lambda>_ w'. onlyDeletes P w w') w"
proof -
  have page: "filter (\<lambda>k. k \<noteq> []) page = page" using assms by (simp add: filter_id_conv)
  have P: "\<forall>k \<in> set page. P k" using assms by simp
  show ?thesis
    unfolding r2DeletePage_def wp_andThen wp_external wp_ret page
    by (auto split: option.split simp: onlyDeletes_def intro!: wp_mono [OF deleteKeys_only [OF P]])
qed

lemma r2DeletePrefix_only: "wp (r2DeletePrefix E prefix)
  (\<lambda>_ w'. onlyDeletes (startsWith (listedPrefix prefix)) w w' \<and>
     ((\<forall>n. fault E n = None) \<longrightarrow> (\<forall>k \<in> fst ` set (storage w'). \<not> startsWith (listedPrefix prefix) k)))
  (\<lambda>_ w'. onlyDeletes (startsWith (listedPrefix prefix)) w w') w"
proof -
  let ?P = "startsWith (listedPrefix prefix)"
  define pgs where "pgs = pages PAGE_SIZE (filter ?P (map fst (storage w)))"
  have keys: "concat pgs = filter ?P (map fst (storage w))" by (simp add: pgs_def concat_pages)
  have "listedPrefix prefix \<noteq> []" by (auto simp: listedPrefix_def)
  then have "\<not> ?P []" by (auto simp: startsWith_def)
  then have ok: "\<forall>k \<in> set page. ?P k \<and> k \<noteq> []" if "page \<in> set pgs" for page
    using arg_cong [OF keys, of set] that by auto
  have "wp (foldM (\<lambda>_ page. r2DeletePage E page) () pgs)
    (\<lambda>_ w'. onlyDeletes ?P w w' \<and>
       ((\<forall>n. fault E n = None) \<longrightarrow> fst ` set (storage w') \<inter> set (concat pgs) = {}))
    (\<lambda>_ w'. onlyDeletes ?P w w') w"
  proof (rule wp_foldM [where I = "\<lambda>pre _ w'. onlyDeletes ?P w w' \<and>
      ((\<forall>n. fault E n = None) \<longrightarrow> fst ` set (storage w') \<inter> set (concat pre) = {})"], goal_cases)
    case (1 pre x rest s w')
    then have x: "\<forall>k \<in> set x. ?P k \<and> k \<noteq> []" by (intro ok) simp
    have before: "onlyDeletes ?P w w' \<and>
        ((\<forall>n. fault E n = None) \<longrightarrow> fst ` set (storage w') \<inter> set (concat pre) = {})" by fact
    show ?case
      by (rule wp_mono [OF r2DeletePage_only [OF x]])
        (erule deleted_pages [OF _ before], rule onlyDeletes_trans [OF conjunct1 [OF before]])
  qed (simp add: onlyDeletes_refl)
  then have "wp (foldM (\<lambda>_ page. r2DeletePage E page) () pgs)
    (\<lambda>_ w'. onlyDeletes ?P w w' \<and>
       ((\<forall>n. fault E n = None) \<longrightarrow> (\<forall>k \<in> fst ` set (storage w'). \<not> ?P k)))
    (\<lambda>_ w'. onlyDeletes ?P w w') w"
  proof (rule wp_mono, goal_cases)
    case (1 x w')
    then have "onlyDeletes ?P w w'" by simp
    then have "k \<in> set (concat pgs)" if "k \<in> fst ` set (storage w')" "?P k" for k
      using that unfolding keys onlyDeletes_def by auto
    then show ?case using 1 by blast
  qed
  then show ?thesis by (simp add: wp_def r2DeletePrefix_def pgs_def)
qed

text \<open>The prefixes of the code end in a letter or digit, so both providers delete the same keys.\<close>

lemma deletePrefix_only:
  assumes "last prefix \<noteq> CHR ''/''"
  shows "wp (deletePrefix E prefix)
    (\<lambda>_ w'. onlyDeletes (\<lambda>k. k = prefix \<or> underPrefix prefix k) w w' \<and>
       ((\<forall>n. fault E n = None) \<longrightarrow> (\<forall>k \<in> fst ` set (storage w'). \<not> underPrefix prefix k)))
    (\<lambda>_ w'. onlyDeletes (\<lambda>k. k = prefix \<or> underPrefix prefix k) w w') w"
proof (cases "cfg_storageR2 (cfg E)")
  case True
  have l: "startsWith (listedPrefix prefix) = underPrefix prefix"
    using assms by (auto simp: listedPrefix_def underPrefix_def fun_eq_iff)
  have weaken: "onlyDeletes (underPrefix prefix) w w' \<Longrightarrow>
      onlyDeletes (\<lambda>k. k = prefix \<or> underPrefix prefix k) w w'" for w w'
    unfolding onlyDeletes_def by (metis (no_types, lifting) filter_cong filter_filter)
  show ?thesis
    using r2DeletePrefix_only [of E prefix w] True
    by (simp add: deletePrefix_def l) (erule wp_mono, auto intro: weaken)
next
  case False
  then show ?thesis
    by (auto simp: deletePrefix_def localDeletePrefix_def deleteObjects_def wp_def tryCatch_def
        external_def ret_def nextTick_def onlyDeletes_def filter_filter split: option.splits)
qed

context db_order
begin

lemma keeps_storagePut [keeps_intros]: "keeps r (storagePut E key c)"
  unfolding storagePut_def by (rule keeps_putObject)

lemma keeps_storageGet [keeps_intros]: "keeps r (storageGet E key)"
  unfolding storageGet_def by (rule keeps_getObject)

lemma keeps_storageDelete [keeps_intros]: "keeps r (storageDelete E key)"
  unfolding storageDelete_def by (intro keeps_tryCatch keeps_deleteObjects keeps_ret)

lemma keeps_deletePrefix [keeps_intros]: "keeps r (deletePrefix E prefix)"
proof -
  have "keeps r (r2DeletePage E page)" for page
    unfolding r2DeletePage_def
    by (intro keeps_andThen keeps_external keeps_ret keeps_foldM keeps_storageDelete)
  then have "keeps r (foldM (\<lambda>_ page. r2DeletePage E page) () pgs)" for pgs
    by (rule keeps_foldM)
  then have "keeps r (r2DeletePrefix E prefix)"
    by (simp add: keeps_def r2DeletePrefix_def)
  then show ?thesis
    unfolding deletePrefix_def localDeletePrefix_def
    by (cases "cfg_storageR2 (cfg E)") (simp_all add: keeps_tryCatch keeps_deleteObjects keeps_ret)
qed

end

end
