(* ===== verification/CredentialAssets.thy ===== *)
theory CredentialAssets
  imports VerifiableCredential Storage
begin

text \<open>
  The stored assets of a credential (\<open>modules/credential/credential-assets.service.ts\<close>): the
  metadata document, the QR code and the certificate, their keys and addresses, and the public
  endpoint that serves the metadata (\<open>credential-assets.controller.ts\<close>). Drawing the QR code and the
  certificate are parameters.
\<close>

subsection \<open>Addresses\<close>

definition uriUnreserved :: string where
  "uriUnreserved = ''ABCDEFGHIJKLMNOPQRSTUVWXYZabcdefghijklmnopqrstuvwxyz0123456789-_.!~*()'' @ [CHR 39]"

definition encodeURIComponent :: "string \<Rightarrow> string" where
  "encodeURIComponent s = concat (map (\<lambda>c. if c \<in> set uriUnreserved then [c]
     else concat (map (\<lambda>b. CHR ''%'' # toUpperCase (hexEncode [b])) (utf8 [c]))) s)"

definition getApiBaseUrl :: "env \<Rightarrow> string" where
  "getApiBaseUrl E = stripSlashes (cfg_apiBase (cfg E))"

definition getWebBaseUrl :: "env \<Rightarrow> string" where
  "getWebBaseUrl E = stripSlashes (cfg_webBase (cfg E))"

definition buildMetadataUri :: "env \<Rightarrow> string \<Rightarrow> string" where
  "buildMetadataUri E credentialId =
     getApiBaseUrl E @ ''/credentials/'' @ encodeURIComponent credentialId @ ''/metadata''"

definition buildQrCodeUri :: "env \<Rightarrow> string \<Rightarrow> string" where
  "buildQrCodeUri E credentialId =
     getApiBaseUrl E @ ''/credentials/'' @ encodeURIComponent credentialId @ ''/qr''"

definition buildCertificateUri :: "env \<Rightarrow> string \<Rightarrow> string" where
  "buildCertificateUri E verificationId =
     getApiBaseUrl E @ ''/verify/'' @ encodeURIComponent verificationId @ ''/certificate''"

definition buildVerificationUrl :: "env \<Rightarrow> string \<Rightarrow> string" where
  "buildVerificationUrl E credentialExternalId =
     getWebBaseUrl E @ ''/verify/'' @ encodeURIComponent credentialExternalId"

definition buildQrPayload :: "env \<Rightarrow> string \<Rightarrow> string \<Rightarrow> string" where
  "buildQrPayload E verificationUrl token = urlWithToken E verificationUrl token"

definition buildCertificateFileName :: "string \<Rightarrow> string" where
  "buildCertificateFileName verificationId = ''credential-'' @ verificationId @ ''.pdf''"

text \<open>A stored address is used only where it is the one that would be built.\<close>

definition expectedOr :: "string \<Rightarrow> string option \<Rightarrow> string" where
  "expectedOr expected v = (case trimOrNull v of
     None \<Rightarrow> expected | Some stored \<Rightarrow> (if stored = expected then stored else expected))"

definition resolveMetadataUri :: "env \<Rightarrow> string \<Rightarrow> string option \<Rightarrow> string" where
  "resolveMetadataUri E credentialId v = expectedOr (buildMetadataUri E credentialId) v"

definition resolveQrCodeUri :: "env \<Rightarrow> string \<Rightarrow> string option \<Rightarrow> string" where
  "resolveQrCodeUri E credentialId v = expectedOr (buildQrCodeUri E credentialId) v"

definition resolveCertificateUri :: "env \<Rightarrow> string \<Rightarrow> string option \<Rightarrow> string" where
  "resolveCertificateUri E verificationId v = expectedOr (buildCertificateUri E verificationId) v"

definition resolveVerificationUrl :: "env \<Rightarrow> string \<Rightarrow> string option \<Rightarrow> string" where
  "resolveVerificationUrl E credentialExternalId v = (case trimOrNull v of
     None \<Rightarrow> buildVerificationUrl E credentialExternalId
   | Some stored \<Rightarrow> (if includesStr (''/verify/'' @ credentialExternalId) stored then stored
       else buildVerificationUrl E credentialExternalId))"

subsection \<open>Keys\<close>

datatype assetKind = MetadataAsset | QrAsset | CertificateAsset

definition getCredentialPrefix :: "string \<Rightarrow> string" where
  "getCredentialPrefix credentialId = ''credentials/'' @ credentialId"

fun getAssetKey :: "string \<Rightarrow> assetKind \<Rightarrow> string" where
  "getAssetKey credentialId MetadataAsset = getCredentialPrefix credentialId @ ''/metadata.json''"
| "getAssetKey credentialId QrAsset = getCredentialPrefix credentialId @ ''/verification-qr.png''"
| "getAssetKey credentialId CertificateAsset = getCredentialPrefix credentialId @ ''/certificate.pdf''"

subsection \<open>The bundle\<close>

record assetIssuer =
  ai_id :: string
  ai_name :: string
  ai_displayName :: "string option"
  ai_domain :: string
  ai_logoUrl :: "string option"
  ai_websiteUrl :: "string option"
  ai_status :: string

record assetRecord =
  ar_id :: string
  ar_credentialExternalId :: string
  ar_verificationId :: string
  ar_studentName :: string
  ar_studentId :: string
  ar_degree :: string
  ar_issuedAt :: time
  ar_revoked :: bool
  ar_revokedAt :: "time option"
  ar_revocationReason :: "string option"
  ar_verificationCode :: string
  ar_signedVerificationToken :: string
  ar_securePdfEnabled :: bool
  ar_documentHash :: "string option"
  ar_issuer :: assetIssuer

record assetBundle =
  bd_metadata :: "value"
  bd_qrPayload :: string
  bd_metadataUri :: string
  bd_qrCodeUri :: string
  bd_certificateUri :: "string option"
  bd_verificationUrl :: string
  bd_documentHash :: "string option"
  bd_fileName :: "string option"
  bd_mimeType :: "string option"
  bd_fileSize :: "int option"

definition assetIssuerValue :: "assetIssuer \<Rightarrow> value" where
  "assetIssuerValue i = VObj [(''id'', VStr (ai_id i)), (''name'', VStr (ai_name i)),
     (''displayName'', optStr (ai_displayName i)), (''domain'', VStr (ai_domain i)),
     (''logoUrl'', optStr (ai_logoUrl i)), (''websiteUrl'', optStr (ai_websiteUrl i)),
     (''status'', VStr (ai_status i))]"

definition certificateUriOf :: "env \<Rightarrow> assetRecord \<Rightarrow> string option" where
  "certificateUriOf E rec = (if ar_securePdfEnabled rec
     then Some (buildCertificateUri E (ar_verificationId rec)) else None)"

definition qrPayloadOf :: "env \<Rightarrow> assetRecord \<Rightarrow> string" where
  "qrPayloadOf E rec = buildQrPayload E (buildVerificationUrl E (ar_credentialExternalId rec))
     (ar_signedVerificationToken rec)"

definition metadataDocument :: "env \<Rightarrow> assetRecord \<Rightarrow> value" where
  "metadataDocument E rec = VObj
     [(''version'', VNum 1), (''credentialId'', VStr (ar_id rec)),
      (''verificationId'', VStr (ar_verificationId rec)),
      (''studentName'', VStr (ar_studentName rec)), (''studentId'', VStr (ar_studentId rec)),
      (''degree'', VStr (ar_degree rec)), (''issuedAt'', VStr (toISOString (ar_issuedAt rec))),
      (''verificationCode'', VStr (ar_verificationCode rec)),
      (''signedVerificationToken'', VStr (ar_signedVerificationToken rec)),
      (''qrPayload'', VStr (qrPayloadOf E rec)),
      (''verificationMode'', VStr (if ar_securePdfEnabled rec then ''SECURE_PDF'' else ''CORE_REGISTRY'')),
      (''securePdfEnabled'', VBool (ar_securePdfEnabled rec)),
      (''documentHash'', optStr (ar_documentHash rec)), (''revoked'', VBool (ar_revoked rec)),
      (''revokedAt'', optStr (map_option toISOString (ar_revokedAt rec))),
      (''revocationReason'', optStr (ar_revocationReason rec)),
      (''verificationUrl'', VStr (buildVerificationUrl E (ar_credentialExternalId rec))),
      (''metadataUri'', VStr (buildMetadataUri E (ar_id rec))),
      (''certificateUri'', optStr (certificateUriOf E rec)),
      (''qrCodeUri'', VStr (buildQrCodeUri E (ar_id rec))),
      (''issuer'', assetIssuerValue (ar_issuer rec))]"

text \<open>
  \<open>buildBundle\<close>; the four members of the document its result lacks are empty here.
\<close>

definition buildBundle :: "env \<Rightarrow> assetRecord \<Rightarrow> assetBundle" where
  "buildBundle E rec = \<lparr>bd_metadata = metadataDocument E rec, bd_qrPayload = qrPayloadOf E rec,
     bd_metadataUri = buildMetadataUri E (ar_id rec), bd_qrCodeUri = buildQrCodeUri E (ar_id rec),
     bd_certificateUri = certificateUriOf E rec,
     bd_verificationUrl = buildVerificationUrl E (ar_credentialExternalId rec),
     bd_documentHash = None, bd_fileName = None, bd_mimeType = None, bd_fileSize = None\<rparr>"

definition certificateInput :: "env \<Rightarrow> assetRecord \<Rightarrow> string \<Rightarrow> value" where
  "certificateInput E rec qrCodePng = VObj
     [(''credentialId'', VStr (ar_id rec)), (''verificationId'', VStr (ar_verificationId rec)),
      (''studentName'', VStr (ar_studentName rec)), (''studentId'', VStr (ar_studentId rec)),
      (''degree'', VStr (ar_degree rec)), (''issuedAt'', VDate (ar_issuedAt rec)),
      (''revoked'', VBool (ar_revoked rec)), (''revokedAt'', optDate (ar_revokedAt rec)),
      (''issuer'', assetIssuerValue (ar_issuer rec)),
      (''verificationUrl'', VStr (buildVerificationUrl E (ar_credentialExternalId rec))),
      (''qrCodePng'', VStr qrCodePng)]"

definition needsCertificate :: "assetRecord \<Rightarrow> bool" where
  "needsCertificate rec \<longleftrightarrow> ar_securePdfEnabled rec \<and> \<not> truthy (ar_documentHash rec)"

definition previewBundle :: "env \<Rightarrow> assetRecord \<Rightarrow> assetBundle" where
  "previewBundle E rec = (buildBundle E rec)\<lparr>bd_documentHash := ar_documentHash rec,
     bd_fileName := (if ar_securePdfEnabled rec
       then Some (buildCertificateFileName (ar_verificationId rec)) else None),
     bd_mimeType := (if ar_securePdfEnabled rec then Some ''application/pdf'' else None),
     bd_fileSize := None\<rparr>"

text \<open>
  The two writes that need no certificate are started first; they run even if drawing the
  certificate then fails.
\<close>

definition assetWrites :: "env \<Rightarrow> assetRecord \<Rightarrow> string \<Rightarrow> unit prog list" where
  "assetWrites E rec qrCodePng =
     [storagePut E (getAssetKey (ar_id rec) MetadataAsset) (JsonDoc (metadataDocument E rec)),
      storagePut E (getAssetKey (ar_id rec) QrAsset) (Bytes qrCodePng)]"

definition generateAndPersist :: "env \<Rightarrow> assetRecord \<Rightarrow> assetBundle prog" where
  "generateAndPersist E rec =
     bind (external E JsError (ret (qrPng E (qrPayloadOf E rec)))) (\<lambda>qrCodePng.
     let writes = assetWrites E rec qrCodePng; bundle = previewBundle E rec in
     if needsCertificate rec then
       bind (tryCatch (external E JsError (ret (certificatePdf E (certificateInput E rec qrCodePng))))
         (\<lambda>e. andThen (tryCatch (parAll writes) (\<lambda>_. ret ())) (throw e))) (\<lambda>pdf.
       andThen (parAll (writes @ [storagePut E (getAssetKey (ar_id rec) CertificateAsset) (Bytes pdf)]))
         (ret (bundle\<lparr>bd_documentHash := Some (hashBuffer E pdf),
            bd_fileSize := Some (int (length pdf))\<rparr>)))
     else andThen (parAll writes) (ret bundle))"

definition updateMetadata :: "env \<Rightarrow> assetRecord \<Rightarrow> assetBundle prog" where
  "updateMetadata E rec = andThen
     (storagePut E (getAssetKey (ar_id rec) MetadataAsset) (JsonDoc (metadataDocument E rec)))
     (ret (buildBundle E rec))"

definition readMetadata :: "env \<Rightarrow> string \<Rightarrow> content prog" where
  "readMetadata E credentialId = storageGet E (getAssetKey credentialId MetadataAsset)"

definition readQrCode :: "env \<Rightarrow> string \<Rightarrow> content prog" where
  "readQrCode E credentialId = storageGet E (getAssetKey credentialId QrAsset)"

definition readCertificate :: "env \<Rightarrow> string \<Rightarrow> content prog" where
  "readCertificate E credentialId = storageGet E (getAssetKey credentialId CertificateAsset)"

definition deleteAssets :: "env \<Rightarrow> string \<Rightarrow> unit prog" where
  "deleteAssets E credentialId = deletePrefix E (getCredentialPrefix credentialId)"

definition deleteQrCode :: "env \<Rightarrow> string \<Rightarrow> unit prog" where
  "deleteQrCode E credentialId = storageDelete E (getAssetKey credentialId QrAsset)"

text \<open>
  The bytes of a stored object; a document is written as \<open>JSON.stringify(document, null, 2)\<close>.
\<close>

definition indent :: "nat \<Rightarrow> string" where
  "indent n = CHR 0x0A # replicate n (CHR '' '')"

fun jsonPretty :: "nat \<Rightarrow> value \<Rightarrow> string" where
  "jsonPretty n VUndef = ''null''"
| "jsonPretty n VNull = ''null''"
| "jsonPretty n (VBool b) = (if b then ''true'' else ''false'')"
| "jsonPretty n (VNum i) = showInt i"
| "jsonPretty n (VStr s) = jsonString s"
| "jsonPretty n (VDate t) = jsonString (toISOString t)"
| "jsonPretty n (VArr vs) = (if vs = [] then ''[]''
     else ''['' @ indent (n + 2) @ join ('','' @ indent (n + 2)) (map (\<lambda>v. jsonPretty (n + 2) v) vs)
       @ indent n @ '']'')"
| "jsonPretty n (VObj kvs) =
     (let members = concat (map (\<lambda>kv. if snd kv = VUndef then []
            else [jsonString (fst kv) @ '': '' @ jsonPretty (n + 2) (snd kv)]) kvs) in
      if members = [] then ''{}''
      else ''{'' @ indent (n + 2) @ join ('','' @ indent (n + 2)) members @ indent n @ ''}'')"

definition contentBytes :: "content \<Rightarrow> string" where
  "contentBytes c = (case c of Bytes b \<Rightarrow> b | JsonDoc v \<Rightarrow> utf8 (jsonPretty 0 v))"

text \<open>
  \<open>stripPublicMetadata\<close>, on the stored document \<open>JSON.stringify\<close> wrote and \<open>JSON.parse\<close> reads back.
\<close>

definition stripPublicMetadata :: "content \<Rightarrow> content" where
  "stripPublicMetadata raw = (case raw of
     JsonDoc (VObj obj) \<Rightarrow> JsonDoc (VObj (without ''signedVerificationToken''
       (without ''verificationCode'' (without ''studentId'' obj))))
   | _ \<Rightarrow> raw)"

end
