(* ===== verification/BlockchainQueue.thy ===== *)
theory BlockchainQueue
  imports Prisma Sample
begin

text \<open>
  The producer of blockchain jobs (\<open>modules/blockchain/blockchain-queue.service.ts\<close>): every
  lifecycle event appends an immutable row to the anchor log, an enqueue marks the credential
  pending and adds a job whose id is made of the operation and the credential (the queue ignores an
  id it already holds), and a failed enqueue is recorded on the credential.
\<close>

definition JOB_anchor :: string where "JOB_anchor = ''ANCHOR_ISSUANCE''"
definition JOB_revoke :: string where "JOB_revoke = ''REVOKE_CREDENTIAL''"

record lifecycleInput =
  lc_operation :: string
  lc_status :: string
  lc_txHash :: "string option"
  lc_chainId :: "int option"
  lc_blockNumber :: "int option"
  lc_attempts :: int
  lc_errorMessage :: "string option"

definition lifecycle :: "string \<Rightarrow> string \<Rightarrow> string option \<Rightarrow> lifecycleInput" where
  "lifecycle operation status errorMessage = \<lparr>lc_operation = operation, lc_status = status,
     lc_txHash = None, lc_chainId = None, lc_blockNumber = None, lc_attempts = 0,
     lc_errorMessage = errorMessage\<rparr>"

definition persistLifecycleLog :: "env \<Rightarrow> string \<Rightarrow> lifecycleInput \<Rightarrow> unit prog" where
  "persistLifecycleLog E credentialId input =
     bind (createAnchorLog E (\<lambda>now cu. \<lparr>al_id = cu, al_credentialId = credentialId,
       al_operation = lc_operation input, al_status = lc_status input, al_txHash = lc_txHash input,
       al_chainId = lc_chainId input, al_blockNumber = lc_blockNumber input,
       al_attempts = lc_attempts input, al_errorMessage = lc_errorMessage input,
       al_createdAt = now, al_updatedAt = now\<rparr>)) (\<lambda>_. ret ())"

definition enqueueAnchor :: "env \<Rightarrow> string \<Rightarrow> unit prog" where
  "enqueueAnchor E credentialId =
     (if \<not> cfg_blockchainEnabled (cfg E) then ret ()
      else andThen (transaction E (
          andThen (bind (updateCredential E credentialId (\<lambda>c. c\<lparr>c_anchorStatus := ANCHOR_pending,
            c_chainStatus := ANCHOR_pending\<rparr>)) (\<lambda>_. ret ()))
          (persistLifecycleLog E credentialId (lifecycle OP_anchor ANCHOR_pending None))))
        (addJob E \<lparr>j_name = JOB_anchor, j_credentialId = credentialId, j_operation = OP_anchor,
          j_jobId = JOB_anchor @ ''-'' @ credentialId\<rparr>))"

definition enqueueRevoke :: "env \<Rightarrow> string \<Rightarrow> unit prog" where
  "enqueueRevoke E credentialId =
     (if \<not> cfg_blockchainEnabled (cfg E) then ret ()
      else andThen (transaction E
          (persistLifecycleLog E credentialId (lifecycle OP_revoke ANCHOR_pending None)))
        (addJob E \<lparr>j_name = JOB_revoke, j_credentialId = credentialId, j_operation = OP_revoke,
          j_jobId = JOB_revoke @ ''-'' @ credentialId\<rparr>))"

text \<open>What a failed enqueue writes on the credential; nothing for an unknown operation.\<close>

definition failedStatus :: "string \<Rightarrow> (credential \<Rightarrow> credential) option" where
  "failedStatus operation =
     (if operation = OP_anchor then
        Some (\<lambda>c. c\<lparr>c_anchorStatus := ANCHOR_failed, c_chainStatus := ANCHOR_failed\<rparr>)
      else if operation = OP_revoke then Some (\<lambda>c. c\<lparr>c_chainStatus := CHAIN_revokeEnqueueFailed\<rparr>)
      else None)"

definition markQueueFailure :: "env \<Rightarrow> string \<Rightarrow> string \<Rightarrow> string \<Rightarrow> unit prog" where
  "markQueueFailure E credentialId operation message = transaction E (
     andThen (case failedStatus operation of None \<Rightarrow> ret ()
       | Some f \<Rightarrow> bind (updateCredential E credentialId f) (\<lambda>_. ret ()))
     (persistLifecycleLog E credentialId (lifecycle operation ANCHOR_failed (Some message))))"

text \<open>The callers' \<open>try { enqueue } catch (error) { markQueueFailure(...) }\<close>.\<close>

definition enqueueOrMark :: "env \<Rightarrow> unit prog \<Rightarrow> string \<Rightarrow> string \<Rightarrow> unit prog" where
  "enqueueOrMark E enqueue credentialId operation =
     tryCatch enqueue (\<lambda>e. markQueueFailure E credentialId operation (exnMessage e))"

subsection \<open>What the queue writes\<close>

text \<open>
  The order of the queue operations: only the chain status columns of a credential and new rows of
  the append-only anchor log.
\<close>

definition hideStatus :: "credential \<Rightarrow> credential" where
  "hideStatus c = c\<lparr>c_anchorStatus := [], c_chainStatus := [], c_updatedAt := 0\<rparr>"

definition queueOrder :: "db \<Rightarrow> db \<Rightarrow> bool" where
  "queueOrder d d' \<longleftrightarrow>
     d'\<lparr>credentials := [], anchorLogs := []\<rparr> = d\<lparr>credentials := [], anchorLogs := []\<rparr> \<and>
     map hideStatus (credentials d') = map hideStatus (credentials d) \<and>
     (\<exists>rows. anchorLogs d' = anchorLogs d @ rows)"

interpretation chainQueue: db_order queueOrder
  by unfold_locales (auto simp: queueOrder_def)

lemma keeps_lifecycle: "keeps queueOrder (persistLifecycleLog E i input)"
  unfolding persistLifecycleLog_def createAnchorLog_def
  by (intro keeps_intros chainQueue.keeps_exec)
    (auto simp: queueOrder_def insertInto_Inr split: sum.splits)

lemma keeps_statusUpdate:
  assumes "\<And>c. hideStatus (f c) = hideStatus c"
  shows "keeps queueOrder (bind (updateCredential E i f) (\<lambda>_. ret ()))"
proof -
  have "hideStatus ((f c)\<lparr>c_updatedAt := t\<rparr>) = hideStatus c" for c t
    using assms [of c] by (simp add: hideStatus_def)
  then show ?thesis
    unfolding updateCredential_def
    by (intro keeps_intros chainQueue.keeps_exec)
      (auto simp: queueOrder_def updateIn_Inr split: sum.splits)
qed

lemma keeps_enqueueAnchor: "keeps queueOrder (enqueueAnchor E i)"
  unfolding enqueueAnchor_def
  by (auto intro!: keeps_intros keeps_lifecycle keeps_statusUpdate simp: hideStatus_def)

lemma keeps_enqueueRevoke: "keeps queueOrder (enqueueRevoke E i)"
  unfolding enqueueRevoke_def by (auto intro!: keeps_intros keeps_lifecycle)

lemma keeps_markQueueFailure: "keeps queueOrder (markQueueFailure E i op msg)"
  unfolding markQueueFailure_def
  by (auto intro!: keeps_intros keeps_lifecycle keeps_statusUpdate
      simp: hideStatus_def failedStatus_def split: option.split if_splits)

lemma keeps_enqueueOrMark: "keeps queueOrder m \<Longrightarrow> keeps queueOrder (enqueueOrMark E m i op)"
  unfolding enqueueOrMark_def by (intro keeps_intros keeps_markQueueFailure)

lemma registryWorld_unique: "credUnique (database registryWorld)"
  by (simp add: credUnique_def registryWorld_credentials compatible_def credConflict_def sampleCredential_def)

end
