(* ===== verification/CredentialRecords.thy ===== *)
theory CredentialRecords
  imports SigningKeys CredentialAssets BlockchainQueue Institution
begin

text \<open>
  Credentials as they are read, shown and issued (\<open>modules/credential/credential.service.ts\<close>): the
  lookups, the access check, the response and its timeline, and \<open>issueCredentialRecord\<close>, which
  signs a credential, stores its assets, inserts the row and enqueues its anchoring.
\<close>

subsection \<open>Lookups and access\<close>

definition findOneOrThrow :: "env \<Rightarrow> string \<Rightarrow> (credential \<times> issuer) prog" where
  "findOneOrThrow E i = bind (findCredential E (\<lambda>_ c. c_id c = i \<and> c_deletedAt c = None))
     (\<lambda>found. case found of None \<Rightarrow> throw (NotFound ''Credential not found'') | Some x \<Rightarrow> ret x)"

text \<open>\<open>findUnique({ where: { id } })\<close> with the check for a missing row.\<close>

definition findByIdOrThrow :: "env \<Rightarrow> string \<Rightarrow> (credential \<times> issuer) prog" where
  "findByIdOrThrow E i = bind (findCredential E (\<lambda>_ c. c_id c = i))
     (\<lambda>found. case found of None \<Rightarrow> throw (NotFound ''Credential not found'') | Some x \<Rightarrow> ret x)"

definition findByVerificationIdOrThrow :: "env \<Rightarrow> string \<Rightarrow> (credential \<times> issuer) prog" where
  "findByVerificationIdOrThrow E v = bind (findCredential E (\<lambda>_ c. c_verificationId c = v))
     (\<lambda>found. case found of None \<Rightarrow> throw (NotFound ''Credential not found'') | Some x \<Rightarrow> ret x)"

definition findByVerificationReference :: "env \<Rightarrow> string \<Rightarrow> (credential \<times> issuer) option prog" where
  "findByVerificationReference E reference = (let normalized = trim reference in
     if normalized = [] then ret None
     else findCredential E (\<lambda>_ c. c_verificationId c = normalized \<or>
       c_verificationCode c = normalized \<or> c_signedVerificationToken c = normalized))"

definition assertCredentialAccess :: "env \<Rightarrow> jwtPayload \<Rightarrow> string \<Rightarrow> unit prog" where
  "assertCredentialAccess E admin credentialIssuerId =
     (if j_role admin \<noteq> ADMIN then ret ()
      else bind (resolveInstitutionId E admin) (\<lambda>issuerId.
        guardNot (issuerId \<noteq> credentialIssuerId) (Forbidden ''You do not have access to this credential'')))"

definition adminContext :: "jwtPayload \<Rightarrow> auditContext" where
  "adminContext admin = \<lparr>ctx_actorAdminId = Some (j_sub admin), ctx_actorUsername = j_username admin,
     ctx_ipAddress = None, ctx_userAgent = None\<rparr>"

subsection \<open>Assets of a stored credential\<close>

definition assetIssuerOf :: "issuer \<Rightarrow> assetIssuer" where
  "assetIssuerOf i = \<lparr>ai_id = i_id i, ai_name = i_name i, ai_displayName = i_displayName i,
     ai_domain = i_domain i, ai_logoUrl = i_logoUrl i, ai_websiteUrl = i_websiteUrl i,
     ai_status = issuerStatusName (i_status i)\<rparr>"

definition buildAssetRecord :: "credential \<Rightarrow> issuer \<Rightarrow> assetRecord" where
  "buildAssetRecord c i = \<lparr>ar_id = c_id c, ar_credentialExternalId = c_credentialExternalId c,
     ar_verificationId = c_verificationId c, ar_studentName = c_studentName c,
     ar_studentId = c_studentId c, ar_degree = c_degree c, ar_issuedAt = c_issuedAt c,
     ar_revoked = c_revoked c, ar_revokedAt = c_revokedAt c,
     ar_revocationReason = map_option reasonName (c_revocationReason c),
     ar_verificationCode = c_verificationCode c,
     ar_signedVerificationToken = c_signedVerificationToken c,
     ar_securePdfEnabled = c_securePdfEnabled c, ar_documentHash = c_documentHash c,
     ar_issuer = assetIssuerOf i\<rparr>"

definition applyAssets :: "credential \<Rightarrow> assetBundle \<Rightarrow> credential \<Rightarrow> credential" where
  "applyAssets read bundle c = c\<lparr>c_metadataUri := bd_metadataUri bundle,
     c_metadataJson := bd_metadata bundle, c_qrCodeUri := bd_qrCodeUri bundle,
     c_certificateUri := bd_certificateUri bundle, c_verificationUrl := bd_verificationUrl bundle,
     c_qrPayload := bd_qrPayload bundle,
     c_chainProofHash := (if c_securePdfEnabled read \<and> truthy (bd_documentHash bundle)
       then the (bd_documentHash bundle) else c_chainProofHash read),
     c_documentHash := bd_documentHash bundle, c_fileName := bd_fileName bundle,
     c_mimeType := bd_mimeType bundle, c_fileSize := bd_fileSize bundle\<rparr>"

definition refreshCredentialAssets :: "env \<Rightarrow> credential \<times> issuer \<Rightarrow> unit prog" where
  "refreshCredentialAssets E ci = bind (generateAndPersist E (buildAssetRecord (fst ci) (snd ci)))
     (\<lambda>bundle. bind (updateCredential E (c_id (fst ci)) (applyAssets (fst ci) bundle)) (\<lambda>_. ret ()))"

definition refreshCredentialMetadata :: "env \<Rightarrow> credential \<times> issuer \<Rightarrow> unit prog" where
  "refreshCredentialMetadata E ci = bind (updateMetadata E (buildAssetRecord (fst ci) (snd ci)))
     (\<lambda>bundle. bind (updateCredential E (c_id (fst ci)) (\<lambda>c. c\<lparr>c_metadataUri := bd_metadataUri bundle,
        c_metadataJson := bd_metadata bundle, c_verificationUrl := bd_verificationUrl bundle\<rparr>))
      (\<lambda>_. ret ()))"

definition ensureAssets :: "env \<Rightarrow> string \<Rightarrow> (credential \<times> issuer) prog" where
  "ensureAssets E i = bind (findOneOrThrow E i) (\<lambda>ci.
     andThen (refreshCredentialAssets E ci) (findOneOrThrow E i))"

definition applyRegenerated :: "assetBundle \<Rightarrow> credential \<Rightarrow> credential" where
  "applyRegenerated bundle c = c\<lparr>c_metadataUri := bd_metadataUri bundle,
     c_metadataJson := bd_metadata bundle, c_qrCodeUri := bd_qrCodeUri bundle,
     c_certificateUri := bd_certificateUri bundle, c_verificationUrl := bd_verificationUrl bundle,
     c_documentHash := bd_documentHash bundle, c_fileName := bd_fileName bundle,
     c_mimeType := bd_mimeType bundle, c_fileSize := bd_fileSize bundle\<rparr>"

text \<open>\<open>syncDocumentHash\<close>: from the stored certificate, or from a new one if it cannot be read.\<close>

definition syncDocumentHash :: "env \<Rightarrow> credential \<times> issuer \<Rightarrow> unit prog" where
  "syncDocumentHash E ci = (let read = fst ci; i = c_id (fst ci) in
     bind (tryCatch (bind (readCertificate E i) (\<lambda>c. ret (Some c))) (\<lambda>e. ret None)) (\<lambda>certificate.
     case certificate of
       None \<Rightarrow> bind (generateAndPersist E (buildAssetRecord (fst ci) (snd ci))) (\<lambda>bundle.
         bind (updateCredential E i (applyRegenerated bundle)) (\<lambda>_. ret ()))
     | Some content \<Rightarrow> bind (updateCredential E i (\<lambda>c. c\<lparr>
         c_documentHash := Some (hashBuffer E (contentBytes content)),
         c_fileName := nullish (c_fileName read) (Some (''credential-'' @ c_verificationId read @ ''.pdf'')),
         c_mimeType := nullish (c_mimeType read) (Some ''application/pdf''),
         c_fileSize := nullish (c_fileSize read) (Some (int (length (contentBytes content))))\<rparr>))
         (\<lambda>_. ret ())))"

definition backfillDocumentHashes :: "env \<Rightarrow> nat prog" where
  "backfillDocumentHashes E =
     bind (query E (\<lambda>d. map (\<lambda>c. (c, issuerOf d (c_issuerId c)))
       (sort_key c_issuedAt (filter (\<lambda>c. c_documentHash c = None \<and> c_securePdfEnabled c) (credentials d)))))
     (\<lambda>rows. bind (foldM (\<lambda>acc row. bind (requireRelation (Some row))
           (\<lambda>x. ret (acc @ (case x of None \<Rightarrow> [] | Some ci \<Rightarrow> [ci])))) [] rows) (\<lambda>found.
      andThen (foldM (\<lambda>_ ci. syncDocumentHash E ci) () found) (ret (length found))))"

subsection \<open>The response\<close>

text \<open>A credential with its issuer, and with its logs and document proofs where they were read.\<close>

record credentialView =
  cv_credential :: credential
  cv_issuer :: issuer
  cv_logs :: "(verificationLog list \<times> anchorLog list \<times> docProof list) option"

definition plainView :: "credential \<times> issuer \<Rightarrow> credentialView" where
  "plainView ci = \<lparr>cv_credential = fst ci, cv_issuer = snd ci, cv_logs = None\<rparr>"

text \<open>\<open>value?.trim() || fallback\<close> on a member of the stored document.\<close>

definition trimmedOr :: "value \<Rightarrow> value \<Rightarrow> value" where
  "trimmedOr v d = (case v of VStr s \<Rightarrow> (if trim s = [] then d else VStr (trim s)) | _ \<Rightarrow> d)"

definition vTruthy :: "value \<Rightarrow> bool" where
  "vTruthy v = (case v of VUndef \<Rightarrow> False | VNull \<Rightarrow> False | VBool b \<Rightarrow> b | VNum n \<Rightarrow> n \<noteq> 0
     | VStr s \<Rightarrow> s \<noteq> [] | VDate t \<Rightarrow> True | VArr vs \<Rightarrow> True | VObj kvs \<Rightarrow> True)"

definition resolveMetadataDocument ::
  "env \<Rightarrow> credential \<Rightarrow> issuer \<Rightarrow> string \<Rightarrow> string \<Rightarrow> string \<Rightarrow> string option \<Rightarrow> value" where
  "resolveMetadataDocument E c i verificationUrl metadataUri qrCodeUri certificateUri =
     (let m = c_metadataJson c; rebuilt = bd_metadata (buildBundle E (buildAssetRecord c i)) in
      case m of
        VObj obj \<Rightarrow>
          (if vTruthy (vget m ''credentialId'') \<and> vTruthy (vget m ''verificationId'') then
             VObj (spread obj
               [(''verificationUrl'', trimmedOr (vget m ''verificationUrl'') (VStr verificationUrl)),
                (''metadataUri'', trimmedOr (vget m ''metadataUri'') (VStr metadataUri)),
                (''qrCodeUri'', trimmedOr (vget m ''qrCodeUri'') (VStr qrCodeUri)),
                (''certificateUri'', trimmedOr (vget m ''certificateUri'') (optStr certificateUri))])
           else rebuilt)
      | _ \<Rightarrow> rebuilt)"

definition buildVerificationActivityDescription :: "verificationLog \<Rightarrow> string" where
  "buildVerificationActivityDescription log =
     (let origin = (case vl_ipAddress log of None \<Rightarrow> [] | Some ip \<Rightarrow> if ip = [] then [] else '' from '' @ ip) in
      if truthy (vl_uploadedHash log) then
        ''PDF integrity check'' @ origin @ ''. Hash '' @ take 12 (the (vl_uploadedHash log)) @ ''...''
      else if vl_matched log then ''Verification lookup'' @ origin @ ''.''
      else ''Verification lookup without a matched credential'' @ origin @ ''.'')"

definition buildBlockchainActivityDescription :: "anchorLog \<Rightarrow> string" where
  "buildBlockchainActivityDescription log =
     (let action = (if al_operation log = OP_revoke then ''Revocation'' else ''Anchoring'');
          receipt = (if truthy (al_txHash log)
            then '' Transaction '' @ take 12 (the (al_txHash log)) @ ''...'' else []);
          block = (case al_blockNumber log of None \<Rightarrow> []
            | Some n \<Rightarrow> if n = 0 then [] else '' Block '' @ showInt n @ ''.'');
          err = (if truthy (al_errorMessage log) then '' '' @ the (al_errorMessage log) else [])
      in trim (action @ '' '' @ toLowerCase (al_status log) @ '' after '' @ showInt (al_attempts log)
           @ '' attempt(s).'' @ receipt @ block @ err))"

record activity =
  ac_id :: string
  ac_type :: string
  ac_status :: string
  ac_occurredAt :: time
  ac_description :: string

definition activityValue :: "activity \<Rightarrow> value" where
  "activityValue a = VObj [(''id'', VStr (ac_id a)), (''type'', VStr (ac_type a)),
     (''status'', VStr (ac_status a)), (''occurredAt'', VDate (ac_occurredAt a)),
     (''description'', VStr (ac_description a))]"

definition buildActivities :: "credential \<Rightarrow> verificationLog list \<Rightarrow> anchorLog list \<Rightarrow> activity list" where
  "buildActivities c vlogs alogs = sort_key (\<lambda>a. - ac_occurredAt a)
     (map (\<lambda>log. \<lparr>ac_id = vl_id log, ac_type = ''VERIFIED'', ac_status = vl_status log,
            ac_occurredAt = vl_createdAt log,
            ac_description = buildVerificationActivityDescription log\<rparr>) vlogs
      @ [\<lparr>ac_id = ''issued-'' @ c_id c, ac_type = ''ISSUED'', ac_status = ''VALID'',
           ac_occurredAt = c_issuedAt c,
           ac_description = ''Credential record issued and asset bundle generated.''\<rparr>]
      @ (case c_revokedAt c of None \<Rightarrow> []
         | Some t \<Rightarrow> [\<lparr>ac_id = ''revoked-'' @ c_id c, ac_type = ''REVOKED'', ac_status = ''REVOKED'',
             ac_occurredAt = t,
             ac_description = (case c_revocationReason c of None \<Rightarrow> ''Credential revoked.''
               | Some r \<Rightarrow> ''Credential revoked: '' @ reasonName r)\<rparr>])
      @ map (\<lambda>log. \<lparr>ac_id = al_id log, ac_type = ''BLOCKCHAIN'', ac_status = al_status log,
            ac_occurredAt = al_updatedAt log,
            ac_description = buildBlockchainActivityDescription log\<rparr>) alogs)"

definition docProofValue :: "docProof \<Rightarrow> value" where
  "docProofValue p = VObj [(''id'', VStr (d_id p)), (''credentialId'', VStr (d_credentialId p)),
     (''hash'', VStr (d_hash p)), (''algorithm'', VStr (d_algorithm p)),
     (''fileName'', VStr (d_fileName p)), (''fileSize'', VNum (d_fileSize p)),
     (''mimeType'', VStr (d_mimeType p)), (''registeredAt'', VDate (d_registeredAt p)),
     (''registeredBy'', VStr (d_registeredBy p)),
     (''sourceType'', VStr (case d_sourceType p of SINGLE_PDF \<Rightarrow> ''SINGLE_PDF'' | BATCH_ZIP \<Rightarrow> ''BATCH_ZIP'')),
     (''status'', VStr (case d_status p of PROOF_ACTIVE \<Rightarrow> ''ACTIVE'' | PROOF_SUPERSEDED \<Rightarrow> ''SUPERSEDED''
        | PROOF_REVOKED \<Rightarrow> ''REVOKED''))]"

definition anchorLogValue :: "anchorLog \<Rightarrow> value" where
  "anchorLogValue l = VObj [(''id'', VStr (al_id l)), (''credentialId'', VStr (al_credentialId l)),
     (''operation'', VStr (al_operation l)), (''status'', VStr (al_status l)),
     (''txHash'', optStr (al_txHash l)), (''chainId'', optNum (al_chainId l)),
     (''blockNumber'', optNum (al_blockNumber l)), (''attempts'', VNum (al_attempts l)),
     (''errorMessage'', optStr (al_errorMessage l)), (''createdAt'', VDate (al_createdAt l)),
     (''updatedAt'', VDate (al_updatedAt l))]"

definition responseIssuer :: "issuer \<Rightarrow> value" where
  "responseIssuer i = VObj [(''id'', VStr (i_id i)), (''name'', VStr (i_name i)),
     (''displayName'', optStr (i_displayName i)), (''domain'', VStr (i_domain i)),
     (''logoUrl'', optStr (i_logoUrl i)), (''websiteUrl'', optStr (i_websiteUrl i)),
     (''wallet'', optStr (i_wallet i)), (''status'', VStr (issuerStatusName (i_status i)))]"

definition toCredentialResponse :: "env \<Rightarrow> credentialView \<Rightarrow> bool \<Rightarrow> value" where
  "toCredentialResponse E view includeTimeline =
     (let c = cv_credential view; i = cv_issuer view;
          verificationUrl = resolveVerificationUrl E (c_credentialExternalId c) (Some (c_verificationUrl c));
          metadataUri = resolveMetadataUri E (c_id c) (Some (c_metadataUri c));
          qrCodeUri = resolveQrCodeUri E (c_id c) (Some (c_qrCodeUri c));
          certificateUri = (if c_securePdfEnabled c
            then Some (resolveCertificateUri E (c_verificationId c) (c_certificateUri c)) else None)
      in VObj
     [(''id'', VStr (c_id c)), (''credentialExternalId'', VStr (c_credentialExternalId c)),
      (''verificationId'', VStr (c_verificationId c)),
      (''verificationCode'', VStr (c_verificationCode c)),
      (''signedVerificationToken'', VStr (c_signedVerificationToken c)),
      (''qrPayload'', VStr (c_qrPayload c)),
      (''verificationMode'', VStr (modeName (c_verificationMode c))),
      (''securePdfEnabled'', VBool (c_securePdfEnabled c)),
      (''studentName'', VStr (c_studentName c)), (''studentId'', VStr (c_studentId c)),
      (''degree'', VStr (c_degree c)), (''metadataUri'', VStr metadataUri),
      (''metadata'', resolveMetadataDocument E c i verificationUrl metadataUri qrCodeUri certificateUri),
      (''qrCodeUri'', VStr qrCodeUri), (''certificateUri'', optStr certificateUri),
      (''verificationUrl'', VStr verificationUrl), (''hash'', VStr (c_hash c)),
      (''registryHash'', VStr (c_registryHash c)), (''chainProofHash'', VStr (c_chainProofHash c)),
      (''documentHash'', optStr (c_documentHash c)), (''fileName'', optStr (c_fileName c)),
      (''mimeType'', optStr (c_mimeType c)), (''fileSize'', optNum (c_fileSize c)),
      (''txHash'', optStr (c_txHash c)), (''chainId'', optNum (c_chainId c)),
      (''anchoredAt'', optDate (c_anchoredAt c)), (''blockNumber'', optNum (c_blockNumber c)),
      (''anchorStatus'', VStr (c_anchorStatus c)), (''chainStatus'', VStr (c_chainStatus c)),
      (''chainSyncedAt'', optDate (c_chainSyncedAt c)), (''anchorVersion'', VStr (c_anchorVersion c)),
      (''issuerWallet'', optStr (c_issuerWallet c)),
      (''chainVerificationMetadata'', orElse (c_chainVerificationMetadata c) VNull),
      (''revocationTxHash'', optStr (c_revocationTxHash c)), (''revoked'', VBool (c_revoked c)),
      (''revokedAt'', optDate (c_revokedAt c)), (''revokedBy'', optStr (c_revokedBy c)),
      (''revocationReason'', optStr (map_option reasonName (c_revocationReason c))),
      (''verificationCount'', VNum (c_verificationCount c)),
      (''verifiedAt'', optDate (c_verifiedAt c)), (''issuedAt'', VDate (c_issuedAt c)),
      (''createdAt'', VDate (c_createdAt c)), (''updatedAt'', VDate (c_updatedAt c)),
      (''issuer'', responseIssuer i),
      (''documentProofs'', case cv_logs view of None \<Rightarrow> VUndef
         | Some (vlogs, alogs, proofs) \<Rightarrow> VArr (map docProofValue proofs)),
      (''blockchainLogs'', case cv_logs view of None \<Rightarrow> VUndef
         | Some (vlogs, alogs, proofs) \<Rightarrow> VArr (map anchorLogValue alogs)),
      (''activities'', case cv_logs view of None \<Rightarrow> VUndef
         | Some (vlogs, alogs, proofs) \<Rightarrow> if includeTimeline
             then VArr (map activityValue (buildActivities c vlogs alogs)) else VUndef)])"

subsection \<open>Issuance\<close>

record issueInput =
  ii_studentName :: string
  ii_studentId :: string
  ii_degree :: string
  ii_graduationYear :: "int option"
  ii_batchId :: "string option"

definition isActiveDuplicateError :: "exn \<Rightarrow> bool" where
  "isActiveDuplicateError e = (case e of
     PrismaKnown code columns \<Rightarrow> code = ''P2002'' \<and> ''issuerId'' \<in> set columns \<and>
       ''studentId'' \<in> set columns \<and> ''degree'' \<in> set columns
   | _ \<Rightarrow> False)"

text \<open>The identifiers generated for a credential, with what is derived from them.\<close>

record credentialIds =
  id_credentialId :: string
  id_verificationId :: string
  id_verificationCode :: string
  id_issuedAt :: time

definition newIds :: "env \<Rightarrow> credentialIds prog" where
  "newIds E = bind (newDate E) (\<lambda>issuedAt. bind (generateCredentialId E) (\<lambda>credentialId.
     bind (generateVerificationId E) (\<lambda>verificationId. bind (generateVerificationCode E) (\<lambda>code.
     ret \<lparr>id_credentialId = credentialId, id_verificationId = verificationId,
          id_verificationCode = code, id_issuedAt = issuedAt\<rparr>))))"

definition tokenOf :: "env \<Rightarrow> string \<Rightarrow> credentialIds \<Rightarrow> string" where
  "tokenOf E issuerId ids = buildSignedVerificationToken E (id_credentialId ids)
     (id_verificationId ids) (id_verificationCode ids) issuerId (id_issuedAt ids)
     (cfg_jwtSecret (cfg E))"

definition registryProofOf :: "env \<Rightarrow> string \<Rightarrow> credentialIds \<Rightarrow> string" where
  "registryProofOf E issuerId ids = buildRegistryProofHash E (id_credentialId ids)
     (id_verificationId ids) (id_verificationCode ids) issuerId (id_issuedAt ids)
     (tokenOf E issuerId ids)"

definition institutionName :: "issuer \<Rightarrow> string" where
  "institutionName i = orElse (i_displayName i) (i_name i)"

definition issueAssetRecord :: "env \<Rightarrow> string \<Rightarrow> issuer \<Rightarrow> credentialIds \<Rightarrow> issueInput \<Rightarrow> assetRecord" where
  "issueAssetRecord E issuerId issuer ids input =
     \<lparr>ar_id = id_credentialId ids, ar_credentialExternalId = id_credentialId ids,
      ar_verificationId = id_verificationId ids, ar_studentName = ii_studentName input,
      ar_studentId = ii_studentId input, ar_degree = ii_degree input,
      ar_issuedAt = id_issuedAt ids, ar_revoked = False, ar_revokedAt = None,
      ar_revocationReason = None, ar_verificationCode = id_verificationCode ids,
      ar_signedVerificationToken = tokenOf E issuerId ids, ar_securePdfEnabled = False,
      ar_documentHash = None, ar_issuer = assetIssuerOf issuer\<rparr>"

definition issueSignInput :: "string \<Rightarrow> issuer \<Rightarrow> credentialIds \<Rightarrow> issueInput \<Rightarrow> signInput" where
  "issueSignInput issuerId issuer ids input =
     \<lparr>si_issuerId = issuerId, si_credentialId = id_credentialId ids,
      si_verificationId = id_verificationId ids, si_issuerDomain = i_domain issuer,
      si_issuerName = institutionName issuer, si_studentName = ii_studentName input,
      si_studentId = ii_studentId input, si_degree = ii_degree input,
      si_graduationYear = ii_graduationYear input, si_issuedAt = id_issuedAt ids\<rparr>"

definition newCredential ::
  "env \<Rightarrow> string \<Rightarrow> issuer \<Rightarrow> credentialIds \<Rightarrow> issueInput \<Rightarrow> credentialSignature \<Rightarrow> assetBundle \<Rightarrow>
   time \<Rightarrow> credential" where
  "newCredential E issuerId issuer ids input sig bundle now =
     \<lparr>c_id = id_credentialId ids, c_credentialExternalId = id_credentialId ids,
      c_verificationId = id_verificationId ids, c_verificationCode = id_verificationCode ids,
      c_signedVerificationToken = tokenOf E issuerId ids, c_qrPayload = bd_qrPayload bundle,
      c_verificationMode = CORE_REGISTRY, c_securePdfEnabled = False,
      c_studentName = ii_studentName input, c_studentId = ii_studentId input,
      c_degree = ii_degree input, c_graduationYear = ii_graduationYear input,
      c_metadataUri = bd_metadataUri bundle, c_metadataJson = bd_metadata bundle,
      c_qrCodeUri = bd_qrCodeUri bundle, c_certificateUri = bd_certificateUri bundle,
      c_verificationUrl = bd_verificationUrl bundle,
      c_hash = buildCredentialHash E (id_credentialId ids) (id_verificationId ids) issuerId
        (institutionName issuer) (ii_studentName input) (ii_studentId input) (ii_degree input)
        (id_issuedAt ids),
      c_registryHash = registryProofOf E issuerId ids,
      c_chainProofHash = registryProofOf E issuerId ids, c_documentHash = None,
      c_fileName = bd_fileName bundle, c_mimeType = bd_mimeType bundle,
      c_fileSize = bd_fileSize bundle, c_txHash = None, c_revocationTxHash = None,
      c_chainId = None, c_anchoredAt = None, c_blockNumber = None,
      c_anchorStatus = ANCHOR_pending, c_chainStatus = ANCHOR_pending, c_chainSyncedAt = None,
      c_anchorVersion = ''V2'', c_issuerWallet = i_wallet issuer,
      c_chainVerificationMetadata = None, c_publicPayload = Some (sg_publicPayload sig),
      c_signature = Some (sg_signature sig), c_signatureAlgorithm = Some ''Ed25519'',
      c_signedAt = Some (sg_signedAt sig), c_signingKeyId = Some (sg_signingKeyDbId sig),
      c_vcProofValue = Some (sg_vcProofValue sig), c_vcProofCreated = Some (sg_vcProofCreated sig),
      c_vcDocument = Some (VObj (sg_vcDocument sig)), c_revoked = False, c_revokedAt = None,
      c_revokedBy = None, c_revokedByAdminId = None, c_revocationReason = None,
      c_revocationNotes = None, c_deletedAt = None, c_deletedBy = None, c_deletedByAdminId = None,
      c_verificationCount = 0, c_verifiedAt = None, c_issuedAt = id_issuedAt ids,
      c_createdAt = now, c_updatedAt = now, c_issuerId = issuerId, c_batchId = ii_batchId input\<rparr>"

text \<open>The insertion and the enqueueing, whose failures remove the assets again.\<close>

definition storeCredential :: "env \<Rightarrow> (time \<Rightarrow> credential) \<Rightarrow> credential prog" where
  "storeCredential E mk = bind (createCredential E mk) (\<lambda>created.
     andThen (enqueueOrMark E (enqueueAnchor E (c_id created)) (c_id created) OP_anchor) (ret created))"

definition storeOrDiscard :: "env \<Rightarrow> string \<Rightarrow> (time \<Rightarrow> credential) \<Rightarrow> credential prog" where
  "storeOrDiscard E credentialId mk = tryCatch (storeCredential E mk) (\<lambda>e.
     andThen (deleteAssets E credentialId)
       (throw (if isActiveDuplicateError e
          then Conflict ''A live credential already exists for this student ID and degree.'' else e)))"

definition persistAssets :: "env \<Rightarrow> assetRecord \<Rightarrow> assetBundle prog" where
  "persistAssets E rec = tryCatch (generateAndPersist E rec)
     (\<lambda>e. throw (InternalServerError (''Unable to generate credential assets: '' @ exnMessage e)))"

text \<open>
  \<open>issueCredentialRecord\<close>. Its last statement returns the promise of \<open>findOneOrThrow\<close> without
  awaiting it, so a failing read is not caught.
\<close>

definition issueCredentialRecord :: "env \<Rightarrow> string \<Rightarrow> issueInput \<Rightarrow> (credential \<times> issuer) prog" where
  "issueCredentialRecord E issuerId input =
     bind (query E (\<lambda>d. issuerOf d issuerId)) (\<lambda>found. case found of
       None \<Rightarrow> throw (NotFound ''Institution configuration not found'')
     | Some issuer \<Rightarrow> bind (newIds E) (\<lambda>ids.
         bind (signCredential E (issueSignInput issuerId issuer ids input)) (\<lambda>sig.
         bind (persistAssets E (issueAssetRecord E issuerId issuer ids input)) (\<lambda>bundle.
         bind (storeOrDiscard E (id_credentialId ids)
                 (newCredential E issuerId issuer ids input sig bundle)) (\<lambda>created.
         findOneOrThrow E (c_id created))))))"

end
