(* ===== verification/Credentials.thy ===== *)
theory Credentials
  imports CredentialRecords BulkCsv
begin

text \<open>
  The operations on credentials (\<open>modules/credential/credential.service.ts\<close>,
  \<open>credential-assets.controller.ts\<close>): issuing one or a CSV file of them, listing, revoking,
  deleting, and registering a secure PDF.
\<close>

subsection \<open>Issuing\<close>

record createDto =
  cd_studentName :: string
  cd_studentId :: string
  cd_degree :: string
  cd_graduationYear :: "int option"

definition createdEvent :: "jwtPayload \<Rightarrow> createDto \<Rightarrow> credential \<Rightarrow> auditInput" where
  "createdEvent admin dto c = auditEvent ''CREDENTIAL_ISSUED'' (adminContext admin)
     (Some ''Credential'') (Some (c_id c))
     (Some (VObj [(''studentName'', VStr (cd_studentName dto)), (''degree'', VStr (cd_degree dto)),
        (''verificationId'', VStr (c_verificationId c))]))"

definition createOne :: "env \<Rightarrow> jwtPayload \<Rightarrow> createDto \<Rightarrow> value prog" where
  "createOne E admin dto = bind (resolveInstitutionId E admin) (\<lambda>issuerId.
     bind (issueCredentialRecord E issuerId
       \<lparr>ii_studentName = cd_studentName dto, ii_studentId = cd_studentId dto,
        ii_degree = cd_degree dto, ii_graduationYear = cd_graduationYear dto, ii_batchId = None\<rparr>)
     (\<lambda>ci. andThen (auditLog E (createdEvent admin dto (fst ci)))
       (ret (toCredentialResponse E (plainView ci) False))))"

subsection \<open>Issuing a file\<close>

datatype rowStatus = VALID | INVALID | DUPLICATE | EXISTS | ISSUED | FAILED

record rowResult =
  rr_rowNumber :: nat
  rr_studentName :: string
  rr_studentId :: string
  rr_degree :: string
  rr_metadataUri :: "string option"
  rr_documentHash :: "string option"
  rr_status :: rowStatus
  rr_message :: "string option"
  rr_verificationId :: "string option"
  rr_verificationCode :: "string option"

definition EXISTING_CREDENTIAL_ROW_MESSAGE :: string where
  "EXISTING_CREDENTIAL_ROW_MESSAGE = ''Credential already exists for this student ID and degree.''"

definition normalizeForKey :: "string \<Rightarrow> string" where
  "normalizeForKey v = collapseWs (toLowerCase (trim v))"

definition buildRowKey :: "string \<Rightarrow> string \<Rightarrow> string" where
  "buildRowKey studentId degree = normalizeForKey studentId @ ''::'' @ normalizeForKey degree"

text \<open>\<open>findDuplicateRowNumbers\<close>, with the sets of keys seen and of row numbers found so far.\<close>

fun duplicateRows :: "string set \<Rightarrow> csvRow list \<Rightarrow> nat set" where
  "duplicateRows seen [] = {}"
| "duplicateRows seen (row # rows) =
     (let studentId = trim (r_studentId row); degree = trim (r_degree row);
          key = buildRowKey studentId degree in
      if studentId = [] \<or> degree = [] then duplicateRows seen rows
      else if key \<in> seen then insert (r_rowNumber row) (duplicateRows seen rows)
      else duplicateRows (insert key seen) rows)"

definition findDuplicateRowNumbers :: "csvRow list \<Rightarrow> nat set" where
  "findDuplicateRowNumbers rows = duplicateRows {} rows"

definition lookupExistingCredentialKeys :: "env \<Rightarrow> string \<Rightarrow> csvRow list \<Rightarrow> string list prog" where
  "lookupExistingCredentialKeys E issuerId rows =
     (let studentIds = filter (\<lambda>s. s \<noteq> []) (map (\<lambda>r. trim (r_studentId r)) rows) in
      if studentIds = [] then ret []
      else query E (\<lambda>d. map (\<lambda>c. buildRowKey (c_studentId c) (c_degree c))
        (filter (\<lambda>c. c_issuerId c = issuerId \<and> c_studentId c \<in> set studentIds \<and> liveCredential c)
          (credentials d))))"

definition missingFields :: "string \<Rightarrow> string \<Rightarrow> string \<Rightarrow> string list" where
  "missingFields studentName studentId degree =
     (if studentName = [] then [''studentName''] else [])
     @ (if studentId = [] then [''studentId''] else []) @ (if degree = [] then [''degree''] else [])"

definition checkRow :: "nat set \<Rightarrow> string list \<Rightarrow> csvRow \<Rightarrow> rowResult" where
  "checkRow duplicates existingKeys row =
     (let studentName = trim (r_studentName row); studentId = trim (r_studentId row);
          degree = trim (r_degree row); missing = missingFields studentName studentId degree;
          result = \<lparr>rr_rowNumber = r_rowNumber row, rr_studentName = studentName,
            rr_studentId = studentId, rr_degree = degree, rr_metadataUri = None,
            rr_documentHash = r_documentHash row, rr_status = VALID,
            rr_message = Some ''Registry record, QR code, metadata, and mapping reference will be generated.'',
            rr_verificationId = None, rr_verificationCode = None\<rparr>
      in if missing \<noteq> [] then result\<lparr>rr_status := INVALID,
           rr_message := Some (''Missing required fields: '' @ join '', '' missing @ ''.'')\<rparr>
         else if r_rowNumber row \<in> duplicates then result\<lparr>rr_status := DUPLICATE,
           rr_message := Some ''Duplicate row in this CSV upload.''\<rparr>
         else if buildRowKey studentId degree \<in> set existingKeys then result\<lparr>rr_status := EXISTS,
           rr_message := Some EXISTING_CREDENTIAL_ROW_MESSAGE\<rparr>
         else result)"

definition errorRow :: "csvError \<Rightarrow> rowResult" where
  "errorRow e = \<lparr>rr_rowNumber = e_rowNumber e, rr_studentName = [], rr_studentId = [],
     rr_degree = [], rr_metadataUri = None, rr_documentHash = None, rr_status = INVALID,
     rr_message = Some (e_message e), rr_verificationId = None, rr_verificationCode = None\<rparr>"

definition rowResults :: "csvResult \<Rightarrow> nat set \<Rightarrow> string list \<Rightarrow> rowResult list" where
  "rowResults parsed duplicates existingKeys = sort_key rr_rowNumber
     (map errorRow (cr_errors parsed) @ map (checkRow duplicates existingKeys) (cr_rows parsed))"

definition isInvalidRowStatus :: "rowStatus \<Rightarrow> bool" where
  "isInvalidRowStatus s \<longleftrightarrow> s = INVALID \<or> s = DUPLICATE \<or> s = EXISTS"

definition isValidRowStatus :: "rowStatus \<Rightarrow> bool" where
  "isValidRowStatus s \<longleftrightarrow> s = VALID \<or> s = ISSUED \<or> s = FAILED"

record bulkResponse =
  br_mode :: string
  br_totalRows :: nat
  br_validRows :: nat
  br_invalidRows :: nat
  br_issuedRows :: nat
  br_failedRows :: nat
  br_rows :: "rowResult list"

definition countStatus :: "(rowStatus \<Rightarrow> bool) \<Rightarrow> rowResult list \<Rightarrow> nat" where
  "countStatus P rows = length (filter (\<lambda>r. P (rr_status r)) rows)"

definition buildBulkResponse :: "string \<Rightarrow> rowResult list \<Rightarrow> bulkResponse" where
  "buildBulkResponse mode rows = \<lparr>br_mode = mode, br_totalRows = length rows,
     br_validRows = countStatus isValidRowStatus rows,
     br_invalidRows = countStatus isInvalidRowStatus rows,
     br_issuedRows = countStatus (\<lambda>s. s = ISSUED) rows,
     br_failedRows = countStatus (\<lambda>s. s = FAILED) rows, br_rows = rows\<rparr>"

definition getIssueErrorMessage :: "exn \<Rightarrow> string" where
  "getIssueErrorMessage e = (case e of
     Conflict m \<Rightarrow> ''A duplicate record prevented issuance.''
   | PrismaKnown code columns \<Rightarrow>
      (if code = ''P2002'' then ''A unique constraint prevented issuance.'' else exnMessage e)
   | _ \<Rightarrow> exnMessage e)"

definition rowFailed :: "rowResult \<Rightarrow> exn \<Rightarrow> rowResult" where
  "rowFailed row e = (case e of
     Conflict m \<Rightarrow> row\<lparr>rr_status := EXISTS, rr_message := Some EXISTING_CREDENTIAL_ROW_MESSAGE\<rparr>
   | _ \<Rightarrow> row\<lparr>rr_status := FAILED, rr_message := Some (getIssueErrorMessage e)\<rparr>)"

definition issueRow :: "env \<Rightarrow> string \<Rightarrow> string \<Rightarrow> rowResult \<Rightarrow> rowResult prog" where
  "issueRow E issuerId batchId row =
     (if rr_status row \<noteq> VALID then ret row
      else tryCatch (bind (issueCredentialRecord E issuerId
          \<lparr>ii_studentName = rr_studentName row, ii_studentId = rr_studentId row,
           ii_degree = rr_degree row, ii_graduationYear = None, ii_batchId = Some batchId\<rparr>)
        (\<lambda>ci. ret (row\<lparr>rr_status := ISSUED, rr_verificationId := Some (c_verificationId (fst ci)),
           rr_verificationCode := Some (c_verificationCode (fst ci)),
           rr_metadataUri := Some (c_metadataUri (fst ci))\<rparr>)))
        (\<lambda>e. ret (rowFailed row e)))"

definition issueRows :: "env \<Rightarrow> string \<Rightarrow> string \<Rightarrow> rowResult list \<Rightarrow> rowResult list prog" where
  "issueRows E issuerId batchId rows = foldM (\<lambda>acc row.
     bind (issueRow E issuerId batchId row) (\<lambda>r. ret (acc @ [r]))) [] rows"

definition commitRows :: "env \<Rightarrow> jwtPayload \<Rightarrow> string \<Rightarrow> rowResult list \<Rightarrow> bulkResponse prog" where
  "commitRows E admin issuerId rows =
     bind (createBatch E (\<lambda>now cu. \<lparr>b_id = cu, b_issuerId = issuerId, b_uploadedBy = j_email admin,
       b_sourceType = ''CSV'', b_totalRows = int (length rows), b_issuedRows = 0, b_failedRows = 0,
       b_createdAt = now, b_anchoredAt = None, b_txHash = None\<rparr>)) (\<lambda>batch.
     bind (issueRows E issuerId (b_id batch) rows) (\<lambda>done.
     bind (updateBatch E (b_id batch) (\<lambda>b. b\<lparr>
         b_issuedRows := int (countStatus (\<lambda>s. s = ISSUED) done),
         b_failedRows := int (countStatus (\<lambda>s. s = FAILED) done)\<rparr>)) (\<lambda>_.
     ret (buildBulkResponse ''issue'' done))))"

record bulkDto =
  bk_csv :: "string option"
  bk_commit :: "bool option"

definition bulkIssue :: "env \<Rightarrow> jwtPayload \<Rightarrow> bulkDto \<Rightarrow> bulkResponse prog" where
  "bulkIssue E admin dto = bind (resolveInstitutionId E admin) (\<lambda>issuerId.
     let csv = orElse (bk_csv dto) [] in
     andThen (guardNot (trim csv = []) (BadRequest ''CSV content is required.'')) (
     let parsed = parseCredentialCsv csv in
     andThen (guardNot (cr_rows parsed = [] \<and> cr_errors parsed = [])
       (BadRequest ''No credential rows found in the CSV file.'')) (
     bind (lookupExistingCredentialKeys E issuerId (cr_rows parsed)) (\<lambda>existingKeys.
     let rows = rowResults parsed (findDuplicateRowNumbers (cr_rows parsed)) existingKeys in
     if bk_commit dto \<noteq> Some True then ret (buildBulkResponse ''preview'' rows)
     else commitRows E admin issuerId rows))))"

subsection \<open>Listing\<close>

definition DEFAULT_CREDENTIAL_PAGE_SIZE :: int where "DEFAULT_CREDENTIAL_PAGE_SIZE = 25"

record listDto =
  ld_studentId :: "string option"
  ld_studentName :: "string option"
  ld_revoked :: "bool option"
  ld_issuedYear :: "int option"
  ld_page :: "int option"
  ld_pageSize :: "int option"

definition containsOpt :: "env \<Rightarrow> string option \<Rightarrow> string \<Rightarrow> bool" where
  "containsOpt E pattern s \<longleftrightarrow> (case trimOrNull pattern of None \<Rightarrow> True | Some p \<Rightarrow> ilike E p s)"

definition listWhere :: "env \<Rightarrow> string \<Rightarrow> listDto \<Rightarrow> credential \<Rightarrow> bool" where
  "listWhere E issuerId q c \<longleftrightarrow> c_issuerId c = issuerId \<and> c_deletedAt c = None \<and>
     containsOpt E (ld_studentId q) (c_studentId c) \<and>
     containsOpt E (ld_studentName q) (c_studentName c) \<and>
     (case ld_revoked q of None \<Rightarrow> True | Some b \<Rightarrow> c_revoked c = b) \<and>
     (case ld_issuedYear q of None \<Rightarrow> True
      | Some y \<Rightarrow> y = 0 \<or> yearStart E y \<le> c_issuedAt c \<and> c_issuedAt c < yearStart E (y + 1))"

definition newestCredentials :: "credential list \<Rightarrow> credential list" where
  "newestCredentials cs = sort_key (\<lambda>c. - c_issuedAt c) cs"

record listResponse =
  lr_total :: nat
  lr_page :: int
  lr_pageSize :: int
  lr_items :: "value list"
  lr_issuedYears :: "int list"

definition withIssuers :: "db \<Rightarrow> credential list \<Rightarrow> (credential \<times> issuer option) list" where
  "withIssuers d cs = map (\<lambda>c. (c, issuerOf d (c_issuerId c))) cs"

definition requireIssuers :: "(credential \<times> issuer option) list \<Rightarrow> (credential \<times> issuer) list prog" where
  "requireIssuers rows = (if \<exists>r \<in> set rows. snd r = None
     then throw (PrismaFault ''Inconsistent query result: required relation is null'')
     else ret (map (\<lambda>r. (fst r, the (snd r))) rows))"

definition listPage :: "env \<Rightarrow> string \<Rightarrow> listDto \<Rightarrow> int \<Rightarrow> int \<Rightarrow> db \<Rightarrow> credential list" where
  "listPage E issuerId q page pageSize d = take (nat pageSize) (drop (nat ((page - 1) * pageSize))
     (newestCredentials (filter (listWhere E issuerId q) (credentials d))))"

definition issuedYears :: "env \<Rightarrow> string \<Rightarrow> db \<Rightarrow> int list" where
  "issuedYears E issuerId d = rev (sort (remdups (map (\<lambda>c. localYear E (c_issuedAt c))
     (filter (\<lambda>c. c_issuerId c = issuerId \<and> c_deletedAt c = None) (credentials d)))))"

definition listCredentials :: "env \<Rightarrow> jwtPayload \<Rightarrow> listDto \<Rightarrow> listResponse prog" where
  "listCredentials E admin q = bind (resolveInstitutionId E admin) (\<lambda>issuerId.
     let page = orElse (ld_page q) 1; pageSize = orElse (ld_pageSize q) DEFAULT_CREDENTIAL_PAGE_SIZE in
     bind (query E (\<lambda>d. withIssuers d (listPage E issuerId q page pageSize d))) (\<lambda>found.
     bind (requireIssuers found) (\<lambda>items.
     bind (query E (\<lambda>d. length (filter (listWhere E issuerId q) (credentials d)))) (\<lambda>total.
     bind (query E (issuedYears E issuerId)) (\<lambda>years.
     ret \<lparr>lr_total = total, lr_page = page, lr_pageSize = pageSize,
          lr_items = map (\<lambda>ci. toCredentialResponse E (plainView ci) False) items,
          lr_issuedYears = years\<rparr>)))))"

definition recentVerifications :: "string \<Rightarrow> db \<Rightarrow> verificationLog list" where
  "recentVerifications i d = take 8 (sort_key (\<lambda>l. - vl_createdAt l)
     (filter (\<lambda>l. vl_credentialId l = Some i) (verificationLogs d)))"

definition recentAnchors :: "string \<Rightarrow> db \<Rightarrow> anchorLog list" where
  "recentAnchors i d = take 8 (sort_key (\<lambda>l. - al_updatedAt l)
     (filter (\<lambda>l. al_credentialId l = i) (anchorLogs d)))"

definition recentProofs :: "string \<Rightarrow> db \<Rightarrow> docProof list" where
  "recentProofs i d = take 5 (sort_key (\<lambda>p. - d_registeredAt p)
     (filter (\<lambda>p. d_credentialId p = i) (docProofs d)))"

definition findById :: "env \<Rightarrow> jwtPayload \<Rightarrow> string \<Rightarrow> value prog" where
  "findById E admin i = bind (findByIdOrThrow E i) (\<lambda>ci.
     bind (query E (\<lambda>d. (recentVerifications i d, recentAnchors i d, recentProofs i d))) (\<lambda>logs.
     andThen (assertCredentialAccess E admin (c_issuerId (fst ci)))
       (ret (toCredentialResponse E \<lparr>cv_credential = fst ci, cv_issuer = snd ci, cv_logs = Some logs\<rparr>
         True))))"

end
