(* ===== verification/PdfReference.thy ===== *)
theory PdfReference
  imports CredentialText
begin

text \<open>
  Uploaded PDF files (\<open>common/services/pdf-reference.service.ts\<close>): the checks on an upload, and the
  search for a verification reference in it. What the PDF library reads in a file is a parameter:
  per page, the texts or decoded QR payloads in the order the stage meets them, with \<open>None\<close> where
  the library throws. The regular expressions of the search are written out.
\<close>

subsection \<open>Uploaded PDF files\<close>

record uploadedFile =
  uf_buffer :: string
  uf_mimetype :: string
  uf_size :: int
  uf_originalname :: "string option"

definition MAX_UPLOAD_SIZE_BYTES :: int where "MAX_UPLOAD_SIZE_BYTES = 10 * 1024 * 1024"

definition assertValidPdfUpload :: "uploadedFile option \<Rightarrow> exn + uploadedFile" where
  "assertValidPdfUpload file = (case file of
     None \<Rightarrow> Inl (BadRequest ''A PDF file is required.'')
   | Some f \<Rightarrow>
      (if uf_buffer f = [] then Inl (BadRequest ''Uploaded PDF content is empty.'')
       else if uf_size f > MAX_UPLOAD_SIZE_BYTES
         then Inl (BadRequest ''PDF uploads must be 10MB or smaller.'')
       else if toLowerCase (trim (uf_mimetype f)) \<notin> {''application/pdf'', ''application/x-pdf''}
         then Inl (BadRequest ''Only PDF uploads are accepted.'')
       else if take 5 (uf_buffer f) \<noteq> ''%PDF-'' then Inl (BadRequest ''Malformed PDF header.'')
       else Inr f))"

definition assertReadablePdf :: "env \<Rightarrow> string \<Rightarrow> exn + unit" where
  "assertReadablePdf E buffer =
     (if pdfReadable E buffer then Inr () else Inl (BadRequest ''Malformed PDF document.''))"

definition prepareUploadedPdf :: "env \<Rightarrow> uploadedFile option \<Rightarrow> uploadedFile prog" where
  "prepareUploadedPdf E file = bind (liftE (assertValidPdfUpload file))
     (\<lambda>f. andThen (liftE (assertReadablePdf E (uf_buffer f))) (ret f))"

subsection \<open>Regular expressions\<close>

definition isAlnum :: "char \<Rightarrow> bool" where
  "isAlnum c \<longleftrightarrow> (let n = (of_char c :: nat) in
     48 \<le> n \<and> n \<le> 57 \<or> 65 \<le> n \<and> n \<le> 90 \<or> 97 \<le> n \<and> n \<le> 122)"

text \<open>The classes \<open>\w\<close>, \<open>[A-Za-z0-9_-]\<close> and \<open>[a-f0-9]\<close> regardless of case.\<close>

definition isWord :: "char \<Rightarrow> bool" where
  "isWord c \<longleftrightarrow> isAlnum c \<or> c = CHR ''_''"

definition isSlug :: "char \<Rightarrow> bool" where
  "isSlug c \<longleftrightarrow> isWord c \<or> c = CHR ''-''"

definition isHexi :: "char \<Rightarrow> bool" where
  "isHexi c \<longleftrightarrow> lowerChar c \<in> set hexDigits"

text \<open>The first match of \<open>/prefix([A-Za-z0-9_-]+)/\<close>, its group.\<close>

fun slugAfter :: "string \<Rightarrow> string \<Rightarrow> string option" where
  "slugAfter p [] = None"
| "slugAfter p (c # cs) = (let r = takeWhile isSlug (drop (length p) (c # cs)) in
     if startsWith p (c # cs) \<and> r \<noteq> [] then Some r else slugAfter p cs)"

text \<open>
  The first match of \<open>/\bprefix[a-f0-9]{lo,hi}\b/i\<close>: a boundary, the prefix in any case, a run of
  hexadecimal digits, a boundary. A shorter run is followed by a digit and so by no boundary; the
  flag says whether the character before is a word character.
\<close>

fun hexRun :: "string \<Rightarrow> (nat \<Rightarrow> bool) \<Rightarrow> bool \<Rightarrow> string \<Rightarrow> string option" where
  "hexRun p count before [] = None"
| "hexRun p count before (c # cs) =
     (let s = c # cs; digits = takeWhile isHexi (drop (length p) s);
          after = drop (length p + length digits) s in
      if \<not> before \<and> startsWith (toLowerCase p) (toLowerCase (take (length p) s)) \<and> count (length digits) \<and>
         (case after of [] \<Rightarrow> True | d # ds \<Rightarrow> \<not> isWord d)
      then Some (take (length p + length digits) s)
      else hexRun p count (isWord c) cs)"

definition matchDpf :: "string \<Rightarrow> string option" where
  "matchDpf s = hexRun ''dpf_'' (\<lambda>n. 12 \<le> n) False s"

definition matchVrf :: "string \<Rightarrow> string option" where
  "matchVrf s = hexRun ''vrf_'' (\<lambda>n. 12 \<le> n) False s"

definition matchDpCode :: "string \<Rightarrow> string option" where
  "matchDpCode s = map_option toUpperCase (hexRun ''DP-'' (\<lambda>n. 8 \<le> n) False s)"

definition matchHash :: "string \<Rightarrow> string option" where
  "matchHash s = map_option toLowerCase (hexRun [] (\<lambda>n. n = 64) False s)"

subsection \<open>The search\<close>

datatype referenceKind = CredentialKind | DocumentKind

definition isHex64i :: "string \<Rightarrow> bool" where
  "isHex64i s \<longleftrightarrow> length s = 64 \<and> list_all isHexi s"

definition matchesExpectedKind :: "string \<Rightarrow> referenceKind option \<Rightarrow> bool" where
  "matchesExpectedKind reference expectedKind = (case expectedKind of
     None \<Rightarrow> True
   | Some DocumentKind \<Rightarrow> startsWith ''dpf_'' reference \<or> startsWith ''DP-'' reference \<or> isHex64i reference
   | Some CredentialKind \<Rightarrow> startsWith ''vrf_'' reference \<or> isHex64i reference)"

definition someOf :: "'a option list \<Rightarrow> 'a list" where
  "someOf xs = map the (filter (\<lambda>x. x \<noteq> None) xs)"

definition extractReferenceFromString :: "referenceKind option \<Rightarrow> string \<Rightarrow> string option" where
  "extractReferenceFromString kind s = List.find (\<lambda>r. matchesExpectedKind r kind)
     (someOf [slugAfter ''/proof/'' s, slugAfter ''/verify/'' s, matchDpf s, matchVrf s,
        matchDpCode s, matchHash s])"

text \<open>\<open>buffer.toString('latin1').replace(/\([()])/g, '$1')\<close>, the backslash included in the class.\<close>

fun unescapeParens :: "string \<Rightarrow> string" where
  "unescapeParens [] = []"
| "unescapeParens [c] = [c]"
| "unescapeParens (c # d # cs) = (if c = CHR 92 \<and> d \<in> {CHR ''('', CHR '')'', CHR 92}
     then d # unescapeParens cs else c # unescapeParens (d # cs))"

definition extractReferenceFromText :: "referenceKind option \<Rightarrow> string \<Rightarrow> string option" where
  "extractReferenceFromText kind buffer = extractReferenceFromString kind (unescapeParens buffer)"

definition firstSome :: "'a option list \<Rightarrow> 'a option" where
  "firstSome xs = (case someOf xs of [] \<Rightarrow> None | x # _ \<Rightarrow> Some x)"

definition inlineMatch :: "string \<Rightarrow> string option" where
  "inlineMatch s = firstSome [matchDpf s, matchVrf s, matchDpCode s, matchHash s]"

definition urlReference :: "env \<Rightarrow> referenceKind option \<Rightarrow> string \<Rightarrow> string option" where
  "urlReference E kind s = (case parseUrl E s of
     None \<Rightarrow> None
   | Some (path, token) \<Rightarrow>
      (let accepted = (\<lambda>r. case r of None \<Rightarrow> False | Some x \<Rightarrow> x \<noteq> [] \<and> matchesExpectedKind x kind);
           pathReference = firstSome [slugAfter ''/proof/'' path, slugAfter ''/verify/'' path] in
       if accepted pathReference then pathReference
       else if accepted token then token else None))"

definition extractReferenceFromPayload :: "env \<Rightarrow> referenceKind option \<Rightarrow> string \<Rightarrow> string option" where
  "extractReferenceFromPayload E kind payload = (let trimmed = trim payload in
     if trimmed = [] then None
     else case urlReference E kind trimmed of
         Some r \<Rightarrow> Some r
       | None \<Rightarrow> (case inlineMatch trimmed of
            None \<Rightarrow> None | Some r \<Rightarrow> (if matchesExpectedKind r kind then Some r else None)))"

text \<open>A stage: the first reference before anything is thrown.\<close>

fun scan :: "(string \<Rightarrow> string option) \<Rightarrow> string option list \<Rightarrow> string option" where
  "scan f [] = None"
| "scan f (None # xs) = None"
| "scan f (Some x # xs) = (case f x of Some r \<Rightarrow> Some r | None \<Rightarrow> scan f xs)"

definition extractReferenceFromPdfText :: "env \<Rightarrow> referenceKind option \<Rightarrow> string \<Rightarrow> string option" where
  "extractReferenceFromPdfText E kind buffer =
     scan (extractReferenceFromString kind) (concat (take 3 (pdfTextPages E buffer)))"

definition extractReferenceFromPdfImages :: "env \<Rightarrow> referenceKind option \<Rightarrow> string \<Rightarrow> string option" where
  "extractReferenceFromPdfImages E kind buffer =
     scan (extractReferenceFromPayload E kind) (concat (take 3 (pdfImagePages E buffer)))"

definition extractReferenceFromRenderedQr :: "env \<Rightarrow> referenceKind option \<Rightarrow> string \<Rightarrow> string option" where
  "extractReferenceFromRenderedQr E kind buffer =
     scan (extractReferenceFromPayload E kind) (concat (take 2 (pdfRenderedPages E buffer)))"

definition extractReferenceFromPdfBuffer :: "env \<Rightarrow> string \<Rightarrow> referenceKind option \<Rightarrow> string option" where
  "extractReferenceFromPdfBuffer E buffer kind = firstSome
     [extractReferenceFromText kind buffer, extractReferenceFromPdfText E kind buffer,
      extractReferenceFromPdfImages E kind buffer, extractReferenceFromRenderedQr E kind buffer]"

end
