(* ===== verification/CredentialLifecycle.thy ===== *)
theory CredentialLifecycle
  imports Credentials PdfReference
begin

text \<open>
  What happens to a credential after it was issued (\<open>modules/credential/credential.service.ts\<close>):
  revocation and deletion, one at a time or in bulk, the registration of a secure PDF, and the
  public endpoints for its assets (\<open>credential-assets.controller.ts\<close>).
\<close>

subsection \<open>Revocation\<close>

record revokeDto =
  rv_reason :: RevocationReason
  rv_notes :: "string option"

definition markRevoked :: "jwtPayload \<Rightarrow> revokeDto \<Rightarrow> time \<Rightarrow> credential \<Rightarrow> credential" where
  "markRevoked admin dto now c = c\<lparr>c_revoked := True, c_revokedAt := Some now,
     c_revokedBy := Some (j_email admin), c_revokedByAdminId := Some (j_sub admin),
     c_revocationReason := Some (rv_reason dto), c_revocationNotes := trimOrNull (rv_notes dto)\<rparr>"

definition revokedEvent :: "jwtPayload \<Rightarrow> revokeDto \<Rightarrow> credential \<Rightarrow> (string \<times> value) list \<Rightarrow> auditInput" where
  "revokedEvent admin dto existing extra = auditEvent ''CREDENTIAL_REVOKED'' (adminContext admin)
     (Some ''Credential'') (Some (c_id existing))
     (Some (VObj ([(''reason'', VStr (reasonName (rv_reason dto))), (''notes'', optStr (rv_notes dto)),
        (''studentName'', VStr (c_studentName existing)), (''degree'', VStr (c_degree existing))] @ extra)))"

definition revokeRow :: "env \<Rightarrow> jwtPayload \<Rightarrow> string \<Rightarrow> revokeDto \<Rightarrow> (credential \<times> issuer) prog" where
  "revokeRow E admin i dto = bind (newDate E) (\<lambda>now. updateCredentialI E i (markRevoked admin dto now))"

definition afterRevoke :: "env \<Rightarrow> credential \<times> issuer \<Rightarrow> value prog" where
  "afterRevoke E ci =
     andThen (refreshCredentialMetadata E ci) (
     andThen (enqueueOrMark E (enqueueRevoke E (c_id (fst ci))) (c_id (fst ci)) OP_revoke) (
     bind (findOneOrThrow E (c_id (fst ci))) (\<lambda>found.
     ret (toCredentialResponse E (plainView found) False))))"

definition revoke :: "env \<Rightarrow> jwtPayload \<Rightarrow> string \<Rightarrow> revokeDto \<Rightarrow> value prog" where
  "revoke E admin i dto = bind (findByIdOrThrow E i) (\<lambda>existing.
     andThen (assertCredentialAccess E admin (c_issuerId (fst existing))) (
     andThen (guardNot (c_revoked (fst existing)) (Conflict ''Credential has already been revoked'')) (
     bind (revokeRow E admin i dto) (\<lambda>revoked.
     andThen (auditLog E (revokedEvent admin dto (fst existing) [])) (
     afterRevoke E revoked)))))"

text \<open>One credential of \<open>bulkRevoke\<close>: the row and its audit entry in one transaction, then the queue.\<close>

definition revokeAudited :: "env \<Rightarrow> jwtPayload \<Rightarrow> revokeDto \<Rightarrow> credential \<Rightarrow> unit prog" where
  "revokeAudited E admin dto existing = transaction E (
     andThen (lockChain E) (
     andThen (bind (newDate E) (\<lambda>now.
        bind (updateCredential E (c_id existing) (markRevoked admin dto now)) (\<lambda>_. ret ()))) (
     auditLogTx E (revokedEvent admin dto existing [(''bulk'', VBool True)]))))"

definition bulkRevokeOne :: "env \<Rightarrow> jwtPayload \<Rightarrow> revokeDto \<Rightarrow> credential \<Rightarrow> unit prog" where
  "bulkRevokeOne E admin dto existing = andThen (revokeAudited E admin dto existing)
     (enqueueOrMark E (enqueueRevoke E (c_id existing)) (c_id existing) OP_revoke)"

text \<open>The counters of a bulk operation, and one step: what was done, skipped, or failed.\<close>

record counts =
  ct_done :: nat
  ct_skipped :: nat
  ct_failed :: nat

definition bulkStep :: "(credential \<Rightarrow> bool) \<Rightarrow> (credential \<Rightarrow> unit prog) \<Rightarrow> credential list \<Rightarrow> counts \<Rightarrow>
    string \<Rightarrow> counts prog" where
  "bulkStep eligible work found n i = (case List.find (\<lambda>c. c_id c = i) found of
     None \<Rightarrow> ret (n\<lparr>ct_skipped := Suc (ct_skipped n)\<rparr>)
   | Some existing \<Rightarrow>
      (if \<not> eligible existing then ret (n\<lparr>ct_skipped := Suc (ct_skipped n)\<rparr>)
       else tryCatch (andThen (work existing) (ret (n\<lparr>ct_done := Suc (ct_done n)\<rparr>)))
         (\<lambda>e. ret (n\<lparr>ct_failed := Suc (ct_failed n)\<rparr>))))"

definition noCounts :: counts where
  "noCounts = \<lparr>ct_done = 0, ct_skipped = 0, ct_failed = 0\<rparr>"

definition findByIds :: "env \<Rightarrow> string list \<Rightarrow> credential list prog" where
  "findByIds E ids = query E (\<lambda>d. filter (\<lambda>c. c_id c \<in> set ids) (credentials d))"

definition bulkRevoke :: "env \<Rightarrow> jwtPayload \<Rightarrow> string list \<Rightarrow> revokeDto \<Rightarrow> counts prog" where
  "bulkRevoke E admin ids dto = bind (resolveInstitutionId E admin) (\<lambda>issuerId.
     bind (findByIds E ids) (\<lambda>found.
     foldM (bulkStep (\<lambda>c. c_issuerId c = issuerId \<and> \<not> c_revoked c) (bulkRevokeOne E admin dto) found)
       noCounts ids))"

subsection \<open>Deletion\<close>

definition markDeleted :: "jwtPayload \<Rightarrow> time \<Rightarrow> credential \<Rightarrow> credential" where
  "markDeleted admin now c = c\<lparr>c_deletedAt := Some now,
     c_deletedBy := Some (orElse (j_username admin) (j_sub admin)),
     c_deletedByAdminId := Some (j_sub admin)\<rparr>"

definition deletedEvent :: "jwtPayload \<Rightarrow> credential \<Rightarrow> (string \<times> value) list \<Rightarrow> auditInput" where
  "deletedEvent admin existing extra = auditEvent ''CREDENTIAL_DELETED'' (adminContext admin)
     (Some ''Credential'') (Some (c_id existing))
     (Some (VObj ((''credentialExternalId'', VStr (c_credentialExternalId existing)) # extra)))"

definition softDelete :: "env \<Rightarrow> jwtPayload \<Rightarrow> credential \<Rightarrow> (string \<times> value) list \<Rightarrow> unit prog" where
  "softDelete E admin existing extra = andThen (bind (newDate E) (\<lambda>now.
       bind (updateCredential E (c_id existing) (markDeleted admin now)) (\<lambda>_. ret ())))
     (auditLog E (deletedEvent admin existing extra))"

definition removeCredential :: "env \<Rightarrow> jwtPayload \<Rightarrow> string \<Rightarrow> value prog" where
  "removeCredential E admin i = bind (findByIdOrThrow E i) (\<lambda>existing.
     andThen (assertCredentialAccess E admin (c_issuerId (fst existing))) (
     andThen (guardNot (\<not> c_revoked (fst existing)) (Conflict ''Only revoked credentials can be deleted'')) (
     andThen (guardNot (c_deletedAt (fst existing) \<noteq> None) (Conflict ''Credential is already deleted'')) (
     andThen (softDelete E admin (fst existing) [])
       (ret (VObj [(''id'', VStr i), (''deleted'', VBool True)]))))))"

definition bulkDelete :: "env \<Rightarrow> jwtPayload \<Rightarrow> string list \<Rightarrow> counts prog" where
  "bulkDelete E admin ids = bind (resolveInstitutionId E admin) (\<lambda>issuerId.
     bind (findByIds E ids) (\<lambda>found.
     foldM (bulkStep (\<lambda>c. c_issuerId c = issuerId \<and> c_revoked c \<and> c_deletedAt c = None)
         (\<lambda>c. softDelete E admin c [(''bulk'', VBool True)]) found)
       noCounts ids))"

subsection \<open>Secure PDFs\<close>

definition supersedeProofs :: "env \<Rightarrow> string \<Rightarrow> unit prog" where
  "supersedeProofs E i = exec E (\<lambda>now cu d. Inr ((), d\<lparr>docProofs := map (\<lambda>p.
     if d_credentialId p = i \<and> d_status p = PROOF_ACTIVE then p\<lparr>d_status := PROOF_SUPERSEDED\<rparr> else p)
     (docProofs d)\<rparr>))"

definition proofFileName :: "uploadedFile \<Rightarrow> string" where
  "proofFileName file = orElse (uf_originalname file) ''credential.pdf''"

definition upsertProof :: "env \<Rightarrow> string \<Rightarrow> string \<Rightarrow> uploadedFile \<Rightarrow> string \<Rightarrow>
    DocProofSourceType \<Rightarrow> time \<Rightarrow> docProof prog" where
  "upsertProof E i documentHash file registeredBy sourceType registeredAt = exec E (\<lambda>now cu d.
     case List.find (\<lambda>p. d_credentialId p = i \<and> d_hash p = documentHash) (docProofs d) of
       Some p \<Rightarrow>
        (let p' = p\<lparr>d_fileName := proofFileName file, d_fileSize := uf_size file,
               d_mimeType := uf_mimetype file, d_registeredAt := registeredAt,
               d_registeredBy := registeredBy, d_sourceType := sourceType,
               d_status := PROOF_ACTIVE\<rparr>
         in Inr (p', d\<lparr>docProofs := map (\<lambda>q. if d_credentialId q = i \<and> d_hash q = documentHash
              then p' else q) (docProofs d)\<rparr>))
     | None \<Rightarrow>
        (let p = \<lparr>d_id = cu, d_credentialId = i, d_hash = documentHash, d_algorithm = ''SHA-256'',
               d_fileName = proofFileName file, d_fileSize = uf_size file,
               d_mimeType = uf_mimetype file, d_registeredAt = now, d_registeredBy = registeredBy,
               d_sourceType = sourceType, d_status = PROOF_ACTIVE\<rparr>
         in case insertInto (\<lambda>x. firstConflict [([''id''], \<lambda>r. d_id r = d_id x)]) p (docProofs d) of
              Inl e \<Rightarrow> Inl e | Inr rows \<Rightarrow> Inr (p, d\<lparr>docProofs := rows\<rparr>)))"

definition applySecurePdf :: "string \<Rightarrow> uploadedFile \<Rightarrow> credential \<Rightarrow> credential" where
  "applySecurePdf documentHash file c = c\<lparr>c_securePdfEnabled := True,
     c_verificationMode := SECURE_PDF, c_documentHash := Some documentHash,
     c_chainProofHash := documentHash, c_fileName := Some (proofFileName file),
     c_fileSize := Some (uf_size file), c_mimeType := Some (uf_mimetype file)\<rparr>"

definition registerDocumentProof :: "env \<Rightarrow> string \<Rightarrow> uploadedFile \<Rightarrow> string \<Rightarrow> DocProofSourceType \<Rightarrow>
    (value \<times> docProof) prog" where
  "registerDocumentProof E i file registeredBy sourceType =
     (let documentHash = hashBuffer E (uf_buffer file) in
      bind (newDate E) (\<lambda>registeredAt.
      bind (transaction E (
        andThen (supersedeProofs E i) (
        bind (upsertProof E i documentHash file registeredBy sourceType registeredAt) (\<lambda>p.
        bind (updateCredentialI E i (applySecurePdf documentHash file)) (\<lambda>ci. ret (p, ci)))))) (\<lambda>(p, ci).
      ret (toCredentialResponse E (plainView ci) False, p))))"

definition registerSecurePdf :: "env \<Rightarrow> jwtPayload \<Rightarrow> string \<Rightarrow> uploadedFile option \<Rightarrow> (value \<times> docProof) prog" where
  "registerSecurePdf E admin i upload = bind (findByIdOrThrow E i) (\<lambda>credential.
     andThen (assertCredentialAccess E admin (c_issuerId (fst credential))) (
     bind (prepareUploadedPdf E upload) (\<lambda>file.
     case extractReferenceFromPdfBuffer E (uf_buffer file) (Some CredentialKind) of
       None \<Rightarrow> throw (BadRequest ''Unable to read a verification reference from this PDF.'')
     | Some reference \<Rightarrow> bind (findByVerificationReference E reference) (\<lambda>referenced.
         andThen (guardNot (case referenced of None \<Rightarrow> True | Some r \<Rightarrow> c_id (fst r) \<noteq> c_id (fst credential))
           (BadRequest ''The PDF verification reference does not match this credential.''))
         (registerDocumentProof E (c_id (fst credential)) file (j_email admin) SINGLE_PDF)))))"

definition registerBatchSecurePdf :: "env \<Rightarrow> jwtPayload \<Rightarrow> string \<Rightarrow> unit prog" where
  "registerBatchSecurePdf E admin batchId =
     bind (query E (\<lambda>d. List.find (\<lambda>b. b_id b = batchId) (batches d))) (\<lambda>found. case found of
       None \<Rightarrow> throw (NotFound ''Issuance batch not found'')
     | Some batch \<Rightarrow> andThen (assertCredentialAccess E admin (b_issuerId batch))
         (throw (BadRequest ''Batch ZIP secure-PDF registration is reserved for the ZIP extraction worker. Register single PDFs from each issued credential for this v1 API path.'')))"

subsection \<open>Public assets\<close>

definition metadataEndpoint :: "env \<Rightarrow> string \<Rightarrow> content prog" where
  "metadataEndpoint E i = bind (findOneOrThrow E i) (\<lambda>credential.
     bind (tryCatch (readMetadata E i) (\<lambda>e.
        andThen (bind (ensureAssets E (c_id (fst credential))) (\<lambda>_. ret ()))
          (tryCatch (readMetadata E i) (\<lambda>e. throw (NotFound ''Credential metadata not found''))))) (\<lambda>raw.
     ret (stripPublicMetadata raw)))"

definition staleQrCode :: "credential \<Rightarrow> bool" where
  "staleQrCode c \<longleftrightarrow> c_verificationUrl c \<noteq> [] \<and>
     \<not> includesStr (''/verify/'' @ c_credentialExternalId c) (c_verificationUrl c)"

definition qrCodeEndpoint :: "env \<Rightarrow> string \<Rightarrow> content prog" where
  "qrCodeEndpoint E i = bind (findOneOrThrow E i) (\<lambda>credential.
     andThen (if staleQrCode (fst credential) then deleteQrCode E i else ret ()) (
     tryCatch (readQrCode E i) (\<lambda>e.
       andThen (bind (ensureAssets E (c_id (fst credential))) (\<lambda>_. ret ()))
         (tryCatch (readQrCode E i) (\<lambda>e. throw (NotFound ''Credential QR code not found''))))))"

end
