(* ===== verification/CredentialLaws.thy ===== *)
theory CredentialLaws
  imports CredentialLifecycle
begin

text \<open>
  What the credential operations do to the tables. The locale \<open>credential_order\<close> states what an
  order on the tables must admit for every operation to respect it: the steps of the components the
  service calls, and the insertion and update of credentials under their unique indexes. Its lemmas
  go through every operation once; the interpretations give that no credential is ever lost or
  altered in what was signed, that the unique indexes hold, and which audit entries are written.
\<close>

subsection \<open>The steps of the components\<close>

definition auditStep :: "string set \<Rightarrow> db \<Rightarrow> db \<Rightarrow> bool" where
  "auditStep acts d d' \<longleftrightarrow> sameButAudit d d' \<and>
     (\<exists>rows. auditLogs d' = auditLogs d @ rows \<and> (\<forall>r \<in> set rows. au_action r \<in> acts))"

interpretation auditActs: db_order "auditStep acts" for acts
proof
  fix a b c
  assume ab: "auditStep acts a b" and bc: "auditStep acts b c"
  obtain xs where xs: "auditLogs b = auditLogs a @ xs" "\<forall>r \<in> set xs. au_action r \<in> acts"
    using ab by (auto simp: auditStep_def)
  obtain ys where ys: "auditLogs c = auditLogs b @ ys" "\<forall>r \<in> set ys. au_action r \<in> acts"
    using bc by (auto simp: auditStep_def)
  have "sameButAudit a c" using ab bc audit.order_trans by (auto simp: auditStep_def)
  moreover have "auditLogs c = auditLogs a @ (xs @ ys) \<and> (\<forall>r \<in> set (xs @ ys). au_action r \<in> acts)"
    using xs ys by auto
  ultimately show "auditStep acts a c" unfolding auditStep_def by blast
qed (simp add: auditStep_def audit.order_refl)

lemma auditStep_writeEntry: "in_action input \<in> acts \<Longrightarrow> keeps (auditStep acts) (writeEntry E input)"
  unfolding writeEntry_def Let_def createAuditRow_def lockChain_def upsertHead_def
  by (intro auditActs.keeps_bind auditActs.keeps_andThen auditActs.keeps_newDate auditActs.keeps_query
      auditActs.keeps_external auditActs.keeps_exec)
    (auto simp: keeps_def auditStep_def sameButAudit_def insertInto_def auditEntry_def
      split: option.splits sum.splits)

text \<open>A statement on the tables of keys, batches and document proofs.\<close>

definition sideStep :: "db \<Rightarrow> db \<Rightarrow> bool" where
  "sideStep d d' \<longleftrightarrow> d'\<lparr>signingKeys := [], batches := [], docProofs := []\<rparr> =
     d\<lparr>signingKeys := [], batches := [], docProofs := []\<rparr>"

interpretation side: db_order sideStep
  by unfold_locales (auto simp: sideStep_def)

lemma side_statements:
  "keeps sideStep (createSigningKey E mk)" "keeps sideStep (createBatch E mkb)"
  "keeps sideStep (updateBatch E i f)" "keeps sideStep (supersedeProofs E i)"
  "keeps sideStep (upsertProof E i h file by src at)"
  unfolding createSigningKey_def createBatch_def updateBatch_def supersedeProofs_def upsertProof_def
  by (rule side.keeps_exec; auto simp: sideStep_def Let_def split: sum.splits prod.splits option.splits)+

text \<open>
  What no operation changes of a credential: its identifiers and hashes, the printed fields, and
  everything that was signed.
\<close>

definition frozen where
  "frozen c = ((c_id c, c_credentialExternalId c, c_verificationId c, c_verificationCode c,
     c_signedVerificationToken c), (c_studentName c, c_studentId c, c_degree c, c_graduationYear c),
     (c_hash c, c_registryHash c, c_issuerId c, c_batchId c, c_issuedAt c, c_createdAt c),
     (c_publicPayload c, c_signature c, c_signatureAlgorithm c, c_signedAt c, c_signingKeyId c),
     (c_vcProofValue c, c_vcProofCreated c, c_vcDocument c, c_anchorVersion c, c_issuerWallet c))"

definition credStep :: "credential \<Rightarrow> credential \<Rightarrow> bool" where
  "credStep c c' \<longleftrightarrow> frozen c' = frozen c \<and> (c_revoked c \<longrightarrow> c_revoked c') \<and>
     (c_deletedAt c \<noteq> None \<longrightarrow> c_deletedAt c' \<noteq> None)"

lemma credStep_refl [simp]: "credStep c c"
  by (simp add: credStep_def)

lemma credStep_trans: "credStep a b \<Longrightarrow> credStep b c \<Longrightarrow> credStep a c"
  by (auto simp: credStep_def)

lemma credStep_touch: "credStep c (c'\<lparr>c_updatedAt := t\<rparr>) = credStep c c'"
  by (simp add: credStep_def frozen_def)

lemma credSteps:
  "credStep c (c\<lparr>c_metadataUri := a1, c_metadataJson := a2, c_verificationUrl := a3\<rparr>)"
  "credStep c (c\<lparr>c_documentHash := b1, c_fileName := b2, c_mimeType := b3, c_fileSize := b4\<rparr>)"
  "credStep c (applyAssets x bundle c)" "credStep c (applyRegenerated bundle c)"
  "credStep c (markRevoked admin dto t c)" "credStep c (markDeleted admin t c)"
  "credStep c (applySecurePdf h file c)"
  "credStep c (c\<lparr>c_anchorStatus := e1, c_chainStatus := e2\<rparr>)"
  by (simp_all add: credStep_def frozen_def applyAssets_def applyRegenerated_def markRevoked_def
      markDeleted_def applySecurePdf_def)

subsection \<open>Every operation respects such an order\<close>

locale credential_order = db_order +
  fixes acts :: "string set"
  assumes institution_step: "institutionOrder d d' \<Longrightarrow> r d d'"
    and audit_step: "auditStep acts d d' \<Longrightarrow> r d d'"
    and queue_step: "queueOrder d d' \<Longrightarrow> r d d'"
    and side_step: "sideStep d d' \<Longrightarrow> r d d'"
    and insert_step: "insertInto credConflict c (credentials d) = Inr rows \<Longrightarrow>
      r d (d\<lparr>credentials := rows\<rparr>)"
    and update_step: "(\<And>c. credStep c (f c)) \<Longrightarrow>
      updateIn credConflict (\<lambda>c. c_id c = i) f (credentials d) = Inr (y, rows) \<Longrightarrow>
      r d (d\<lparr>credentials := rows\<rparr>)"
begin

lemma create: "keeps r (createCredential E mk)"
  unfolding createCredential_def
  by (rule keeps_exec) (auto intro: insert_step split: sum.splits)

lemma update:
  assumes "\<And>c. credStep c (f c)" shows "keeps r (updateCredential E i f)"
  unfolding updateCredential_def
proof (rule keeps_exec)
  fix t cu d x d'
  assume "(case updateIn credConflict (\<lambda>c. c_id c = i) (\<lambda>c. (f c)\<lparr>c_updatedAt := t\<rparr>) (credentials d) of
      Inl e \<Rightarrow> Inl e
    | Inr (c, rows) \<Rightarrow> Inr ((c, issuerOf d (c_issuerId c)), d\<lparr>credentials := rows\<rparr>)) = Inr (x, d')"
  then obtain c rows where u: "updateIn credConflict (\<lambda>c. c_id c = i) (\<lambda>c. (f c)\<lparr>c_updatedAt := t\<rparr>)
      (credentials d) = Inr (c, rows)" and d': "d' = d\<lparr>credentials := rows\<rparr>"
    by (auto split: sum.splits)
  have "credStep c ((f c)\<lparr>c_updatedAt := t\<rparr>)" for c using assms by (simp add: credStep_touch)
  from update_step [OF this u] show "r d d'" by (simp add: d')
qed

lemma updateI: "(\<And>c. credStep c (f c)) \<Longrightarrow> keeps r (updateCredentialI E i f)"
  unfolding updateCredentialI_def
  by (intro keeps_bind update keeps_prod keeps_option keeps_throw keeps_ret)

lemma audit: "in_action input \<in> acts \<Longrightarrow> keeps r (auditLogTx E input)"
  unfolding auditLogTx_def by (rule keeps_weaken [OF auditStep_writeEntry audit_step])

lemma auditLog: "in_action input \<in> acts \<Longrightarrow> keeps r (auditLog E input)"
  unfolding auditLog_def
  by (intro keeps_tryCatch keeps_transaction keeps_ret)
    (rule keeps_weaken [OF auditStep_writeEntry audit_step])

lemma queue:
  "keeps r (enqueueOrMark E (enqueueAnchor E j) i op)" "keeps r (enqueueOrMark E (enqueueRevoke E j) i op)"
  by (rule keeps_weaken [OF keeps_enqueueOrMark queue_step];
      simp add: keeps_enqueueAnchor keeps_enqueueRevoke)+

lemma institution: "keeps r (resolveInstitutionId E admin)"
  unfolding resolveInstitutionId_def
  by (intro keeps_bind keeps_ret keeps_weaken [OF keeps_resolveInstitution institution_step])

lemma lookups:
  "keeps r (findCredential E P)" "keeps r (findOneOrThrow E i)" "keeps r (findByIdOrThrow E i)"
  "keeps r (findByVerificationReference E i)"
proof -
  have requireRelation: "keeps r (requireRelation x)" for x :: "('x \<times> 'y option) option"
    unfolding requireRelation_def
    by (auto split: option.split simp: keeps_ret keeps_throw)
  show find: "keeps r (findCredential E P)" for P
    unfolding findCredential_def by (intro keeps_bind keeps_query requireRelation)
  show "keeps r (findOneOrThrow E i)" "keeps r (findByIdOrThrow E i)"
      "keeps r (findByVerificationReference E i)"
    unfolding findOneOrThrow_def findByIdOrThrow_def findByVerificationReference_def
    by (intro keeps_intros keeps_Let keeps_bind keeps_option keeps_if keeps_ret keeps_throw find)+
qed

lemma access: "keeps r (assertCredentialAccess E admin i)"
  unfolding assertCredentialAccess_def
  by (intro keeps_if keeps_ret keeps_bind institution keeps_guardNot)

lemma sides:
  "keeps r (createSigningKey E mk)" "keeps r (createBatch E mkb)" "keeps r (updateBatch E i fb)"
  "keeps r (supersedeProofs E i)" "keeps r (upsertProof E i h file by src at)"
  by (rule keeps_weaken [OF side_statements(1) side_step] keeps_weaken [OF side_statements(2) side_step]
      keeps_weaken [OF side_statements(3) side_step] keeps_weaken [OF side_statements(4) side_step]
      keeps_weaken [OF side_statements(5) side_step]; assumption)+

lemmas steps = create update updateI audit auditLog queue institution lookups access sides credSteps

lemmas shapes = keeps_ret keeps_throw keeps_guardNot keeps_bind keeps_andThen keeps_tryCatch
  keeps_foldM keeps_if keeps_option keeps_prod keeps_Let keeps_newDate keeps_randomHex
  keeps_randomRaw keeps_newKeyPair keeps_liftE keeps_query keeps_transaction keeps_storagePut
  keeps_storageGet keeps_storageDelete keeps_deletePrefix

lemma signing: "''SIGNING_KEY_GENERATED'' \<in> acts \<Longrightarrow> keeps r (signCredential E input)"
  unfolding signCredential_def getOrCreateActiveKey_def buildKeyData_def providerGenerate_def
    generateEd25519KeyPair_def encryptSecret_def
  by (intro shapes steps) (simp add: auditEvent_def)

lemma assets: "keeps r (generateAndPersist E rec)" "keeps r (updateMetadata E rec)"
proof -
  have ext: "keeps r (external E mk (ret x))" for mk and x :: string
    by (intro keeps_external keeps_ret)
  have "\<forall>m \<in> set (assetWrites E rec png @ ms). keeps r m" if "\<forall>m \<in> set ms. keeps r m" for png ms
    using that by (simp add: assetWrites_def keeps_storagePut)
  note writes = keeps_parAll [OF this] keeps_parAll [OF this [of "[]", simplified]]
  show "keeps r (generateAndPersist E rec)"
    unfolding generateAndPersist_def Let_def
    by (intro shapes ext writes) (simp add: keeps_storagePut)
  show "keeps r (updateMetadata E rec)"
    unfolding updateMetadata_def by (intro shapes)
qed

lemma refresh: "keeps r (refreshCredentialAssets E ci)" "keeps r (refreshCredentialMetadata E ci)"
  "keeps r (ensureAssets E i)" "keeps r (syncDocumentHash E ci)" "keeps r (backfillDocumentHashes E)"
proof -
  show refreshAssets: "keeps r (refreshCredentialAssets E ci)" for ci
    unfolding refreshCredentialAssets_def by (intro shapes steps assets)
  show "keeps r (refreshCredentialMetadata E ci)"
    unfolding refreshCredentialMetadata_def by (intro shapes steps assets)
  show "keeps r (ensureAssets E i)"
    unfolding ensureAssets_def by (intro shapes steps refreshAssets)
  show sync: "keeps r (syncDocumentHash E ci)" for ci
    unfolding syncDocumentHash_def readCertificate_def by (intro shapes steps assets)
  show "keeps r (backfillDocumentHashes E)"
    unfolding backfillDocumentHashes_def requireRelation_def
    by (intro shapes sync)
qed

lemma issuing: "''SIGNING_KEY_GENERATED'' \<in> acts \<Longrightarrow> keeps r (issueCredentialRecord E issuerId input)"
  unfolding issueCredentialRecord_def newIds_def generateCredentialId_def generateVerificationId_def
    generateVerificationCode_def persistAssets_def storeOrDiscard_def storeCredential_def deleteAssets_def
  by (intro shapes steps signing assets)

lemma createOne: "{''SIGNING_KEY_GENERATED'', ''CREDENTIAL_ISSUED''} \<subseteq> acts \<Longrightarrow>
  keeps r (createOne E admin dto)"
  unfolding createOne_def
  by (intro shapes steps issuing) (simp_all add: createdEvent_def auditEvent_def)

lemma bulkIssue: "''SIGNING_KEY_GENERATED'' \<in> acts \<Longrightarrow> keeps r (bulkIssue E admin dto)"
  unfolding bulkIssue_def lookupExistingCredentialKeys_def commitRows_def issueRows_def issueRow_def
  by (intro shapes steps issuing)

lemma revoke: "''CREDENTIAL_REVOKED'' \<in> acts \<Longrightarrow> keeps r (revoke E admin i dto)"
  unfolding revoke_def revokeRow_def afterRevoke_def
  by (intro shapes steps refresh) (simp add: revokedEvent_def auditEvent_def)

lemma bulkRevoke: "''CREDENTIAL_REVOKED'' \<in> acts \<Longrightarrow> keeps r (bulkRevoke E admin ids rdto)"
  unfolding bulkRevoke_def findByIds_def bulkStep_def bulkRevokeOne_def revokeAudited_def lockChain_def
  by (intro shapes steps) (simp add: revokedEvent_def auditEvent_def)

lemma softDelete: "''CREDENTIAL_DELETED'' \<in> acts \<Longrightarrow> keeps r (softDelete E admin c extra)"
  unfolding softDelete_def
  by (intro shapes steps) (simp_all add: deletedEvent_def auditEvent_def)

lemma removing: "''CREDENTIAL_DELETED'' \<in> acts \<Longrightarrow> keeps r (removeCredential E admin i)"
  "''CREDENTIAL_DELETED'' \<in> acts \<Longrightarrow> keeps r (bulkDelete E admin ids)"
  unfolding removeCredential_def bulkDelete_def findByIds_def bulkStep_def
  by (intro shapes steps softDelete; assumption)+

lemma registering: "keeps r (registerSecurePdf E admin i upload)"
  unfolding registerSecurePdf_def prepareUploadedPdf_def registerDocumentProof_def
  by (intro shapes steps)

lemma endpoints: "keeps r (metadataEndpoint E i)" "keeps r (qrCodeEndpoint E i)"
  unfolding metadataEndpoint_def qrCodeEndpoint_def readMetadata_def readQrCode_def deleteQrCode_def
  by (intro shapes steps refresh)+

end

subsection \<open>No credential is lost or altered\<close>

definition credOrder :: "db \<Rightarrow> db \<Rightarrow> bool" where
  "credOrder d d' \<longleftrightarrow> length (credentials d) \<le> length (credentials d') \<and>
     (\<forall>k < length (credentials d). credStep (credentials d ! k) (credentials d' ! k))"

lemma credOrder_same: "credentials d' = credentials d \<Longrightarrow> credOrder d d'"
  by (simp add: credOrder_def)

lemma side_credentials: "sideStep d d' \<Longrightarrow> credentials d' = credentials d"
  unfolding sideStep_def by (cases d; cases d'; simp)

lemma institution_credentials: "institutionOrder d d' \<Longrightarrow> credentials d' = credentials d"
  unfolding institutionOrder_def by (cases d; cases d'; simp)

lemma audit_credentials: "auditStep acts d d' \<Longrightarrow> credentials d' = credentials d"
  by (simp add: auditStep_def sameButAudit_fields)

lemma hideStatus_credStep: "hideStatus c' = hideStatus c \<Longrightarrow> credStep c c'"
  by (cases c; cases c'; simp add: hideStatus_def credStep_def frozen_def)

lemma queue_credOrder: "queueOrder d d' \<Longrightarrow> credOrder d d'"
  unfolding queueOrder_def credOrder_def
  by (metis hideStatus_credStep length_map nth_map order_refl)

interpretation permanence: credential_order credOrder UNIV
proof
  fix a b c assume "credOrder a b" "credOrder b c"
  then show "credOrder a c"
    unfolding credOrder_def by (meson credStep_trans order_trans less_le_trans)
next
  fix d :: db and i f y rows
  assume f: "\<And>c. credStep c (f c)"
    and "updateIn credConflict (\<lambda>c. c_id c = i) f (credentials d) = Inr (y, rows)"
  then have "rows = map (\<lambda>c. if c_id c = i then f c else c) (credentials d)"
    by (auto simp: updateIn_Inr)
  then show "credOrder d (d\<lparr>credentials := rows\<rparr>)"
    using f by (simp add: credOrder_def)
qed (auto simp: credOrder_def insertInto_Inr nth_append queue_credOrder [unfolded credOrder_def]
    dest!: side_credentials institution_credentials audit_credentials)

subsection \<open>The unique indexes hold\<close>

lemma uniqueFields_hide: "uniqueFields (hideStatus c) = uniqueFields c"
  by (simp add: uniqueFields_def hideStatus_def)

lemma compatible_hide: "hideStatus a' = hideStatus a \<Longrightarrow> hideStatus b' = hideStatus b \<Longrightarrow>
  compatible a b \<Longrightarrow> compatible a' b'"
  by (metis compatible_cong uniqueFields_hide)

lemma unique_queue: "queueOrder d d' \<Longrightarrow> credUnique d \<Longrightarrow> credUnique d'"
proof -
  assume q: "queueOrder d d'" and u: "credUnique d"
  then have m: "map hideStatus (credentials d') = map hideStatus (credentials d)"
    by (simp add: queueOrder_def)
  then have l: "length (credentials d') = length (credentials d)" by (metis length_map)
  have h: "hideStatus (credentials d' ! k) = hideStatus (credentials d ! k)"
    if "k < length (credentials d)" for k
    using m l that by (metis nth_map)
  show "credUnique d'"
    unfolding credUnique_def sorted_wrt_iff_nth_less
    using u l h by (auto simp: credUnique_def sorted_wrt_iff_nth_less intro!: compatible_hide [OF h h])
qed

interpretation unique: credential_order "inv_order credUnique" UNIV
proof
  fix d :: db and c rows
  assume "insertInto credConflict c (credentials d) = Inr rows"
  then show "inv_order credUnique d (d\<lparr>credentials := rows\<rparr>)"
    unfolding inv_order_def using unique_insert by blast
next
  fix d :: db and i f y rows
  assume "updateIn credConflict (\<lambda>c. c_id c = i) f (credentials d) = Inr (y, rows)"
  then show "inv_order credUnique d (d\<lparr>credentials := rows\<rparr>)"
    unfolding inv_order_def updateIn_Inr using unique_update by (auto simp: credUnique_def)
qed (auto simp: inv_order_def credUnique_def dest: unique_queue [unfolded credUnique_def]
    dest!: side_credentials institution_credentials audit_credentials)

text \<open>Audit entries of given actions only.\<close>

definition auditOnly :: "string set \<Rightarrow> db \<Rightarrow> db \<Rightarrow> bool" where
  "auditOnly acts d d' \<longleftrightarrow>
     (\<exists>rows. auditLogs d' = auditLogs d @ rows \<and> (\<forall>r \<in> set rows. au_action r \<in> acts))"

lemma auditOnly_same: "auditLogs d' = auditLogs d \<Longrightarrow> auditOnly acts d d'"
  by (simp add: auditOnly_def)

interpretation auditing: credential_order "auditOnly acts" acts for acts
proof
  fix a b c :: db assume ab: "auditOnly acts a b" and bc: "auditOnly acts b c"
  then obtain xs ys where "auditLogs b = auditLogs a @ xs" "\<forall>r \<in> set xs. au_action r \<in> acts"
    "auditLogs c = auditLogs b @ ys" "\<forall>r \<in> set ys. au_action r \<in> acts"
    by (auto simp: auditOnly_def)
  then have "auditLogs c = auditLogs a @ (xs @ ys) \<and> (\<forall>r \<in> set (xs @ ys). au_action r \<in> acts)" by auto
  then show "auditOnly acts a c" unfolding auditOnly_def by blast
next
  fix d d' :: db assume "institutionOrder d d'"
  then show "auditOnly acts d d'"
    unfolding institutionOrder_def by (intro auditOnly_same) (cases d; cases d'; simp)
next
  fix d d' :: db assume "queueOrder d d'"
  then show "auditOnly acts d d'"
    unfolding queueOrder_def by (intro auditOnly_same) (cases d; cases d'; simp)
next
  fix d d' :: db assume "sideStep d d'"
  then show "auditOnly acts d d'"
    unfolding sideStep_def by (intro auditOnly_same) (cases d; cases d'; simp)
qed (auto simp: auditOnly_def auditStep_def)

end
