(* ===== verification/CredentialHistory.thy ===== *)
theory CredentialHistory
  imports CredentialLaws
begin

text \<open>
  Histories of credential operations: what holds after any sequence of them, and what the failure
  of one of them leaves behind.
\<close>

datatype credentialOp =
    CreateOp jwtPayload createDto
  | BulkIssueOp jwtPayload bulkDto
  | RevokeOp jwtPayload string revokeDto
  | RemoveOp jwtPayload string
  | BulkRevokeOp jwtPayload "string list" revokeDto
  | BulkDeleteOp jwtPayload "string list"
  | RegisterPdfOp jwtPayload string "uploadedFile option"
  | MetadataOp string
  | QrCodeOp string
  | BackfillOp

fun runCredentialOp :: "env \<Rightarrow> world \<Rightarrow> credentialOp \<Rightarrow> world" where
  "runCredentialOp E w (CreateOp admin dto) = snd (createOne E admin dto w)"
| "runCredentialOp E w (BulkIssueOp admin dto) = snd (bulkIssue E admin dto w)"
| "runCredentialOp E w (RevokeOp admin i dto) = snd (revoke E admin i dto w)"
| "runCredentialOp E w (RemoveOp admin i) = snd (removeCredential E admin i w)"
| "runCredentialOp E w (BulkRevokeOp admin ids dto) = snd (bulkRevoke E admin ids dto w)"
| "runCredentialOp E w (BulkDeleteOp admin ids) = snd (bulkDelete E admin ids w)"
| "runCredentialOp E w (RegisterPdfOp admin i upload) = snd (registerSecurePdf E admin i upload w)"
| "runCredentialOp E w (MetadataOp i) = snd (metadataEndpoint E i w)"
| "runCredentialOp E w (QrCodeOp i) = snd (qrCodeEndpoint E i w)"
| "runCredentialOp E w BackfillOp = snd (backfillDocumentHashes E w)"

context credential_order
begin

lemma runCredentialOp: "acts = UNIV \<Longrightarrow> r (database w) (database (runCredentialOp E w op))"
  using createOne [of E] bulkIssue [of E] revoke [of E] removing [of E] bulkRevoke [of E]
    registering [of E] endpoints [of E] refresh(5) [of E]
  by (cases op) (simp_all add: keeps_def)

lemma history: "acts = UNIV \<Longrightarrow> r (database w) (database (foldl (runCredentialOp E) w ops))"
proof (induction ops arbitrary: w)
  case (Cons op ops)
  then show ?case using runCredentialOp [of w E op] order_trans by simp
qed (simp add: order_refl)

end

lemma credential_laws_permanent: "credOrder (database w) (database (foldl (runCredentialOp E) w ops))"
  by (rule permanence.history) simp

lemma credential_laws_unique: "credUnique (database w) \<Longrightarrow>
  credUnique (database (foldl (runCredentialOp E) w ops))"
  using unique.history [of w E ops] by (simp add: inv_order_def)

subsection \<open>Statements that leave the queue alone\<close>

text \<open>
  \<open>quiet P m\<close>: no run of \<open>m\<close> adds a job, and every exception it throws satisfies \<open>P\<close>.
\<close>

definition quiet :: "(exn \<Rightarrow> bool) \<Rightarrow> 'a prog \<Rightarrow> bool" where
  "quiet P m \<longleftrightarrow> (\<forall>w. wp m (\<lambda>_ w'. queue w' = queue w) (\<lambda>e w'. queue w' = queue w \<and> P e) w)"

named_theorems quiet_intros

lemma quiet_ret [quiet_intros]: "quiet P (ret x)"
  by (simp add: quiet_def wp_simps)

lemma quiet_throw [quiet_intros]: "P e \<Longrightarrow> quiet P (throw e)"
  by (simp add: quiet_def wp_simps)

lemma quiet_guardNot [quiet_intros]: "P e \<Longrightarrow> quiet P (guardNot b e)"
  by (simp add: quiet_def wp_simps)

lemma quiet_bind [quiet_intros]:
  assumes "quiet P m" and "\<And>x. quiet P (f x)" shows "quiet P (bind m f)"
  unfolding quiet_def wp_bind
proof
  fix w
  show "wp m (\<lambda>x. wp (f x) (\<lambda>_ w'. queue w' = queue w) (\<lambda>e w'. queue w' = queue w \<and> P e))
      (\<lambda>e w'. queue w' = queue w \<and> P e) w"
  proof (rule wp_mono [OF assms(1) [unfolded quiet_def, rule_format]])
    fix x and w' :: world assume "queue w' = queue w"
    then show "wp (f x) (\<lambda>_ w'. queue w' = queue w) (\<lambda>e w'. queue w' = queue w \<and> P e) w'"
      using assms(2) [unfolded quiet_def, rule_format, of x w'] by simp
  qed
qed

lemma quiet_andThen [quiet_intros]: "quiet P m \<Longrightarrow> quiet P n \<Longrightarrow> quiet P (andThen m n)"
  unfolding andThen_def by (rule quiet_bind)

lemma quiet_tryCatch [quiet_intros]:
  assumes "quiet (\<lambda>_. True) m" and "\<And>e. quiet P (h e)" shows "quiet P (tryCatch m h)"
  unfolding quiet_def wp_tryCatch
proof
  fix w
  show "wp m (\<lambda>_ w'. queue w' = queue w)
      (\<lambda>e. wp (h e) (\<lambda>_ w'. queue w' = queue w) (\<lambda>e w'. queue w' = queue w \<and> P e)) w"
  proof (rule wp_mono [OF assms(1) [unfolded quiet_def, rule_format]])
    fix e and w' :: world assume "queue w' = queue w \<and> True"
    then show "wp (h e) (\<lambda>_ w'. queue w' = queue w) (\<lambda>e w'. queue w' = queue w \<and> P e) w'"
      using assms(2) [unfolded quiet_def, rule_format, of e w'] by simp
  qed
qed

lemma quiet_option [quiet_intros]:
  "quiet P m \<Longrightarrow> (\<And>y. quiet P (n y)) \<Longrightarrow> quiet P (case x of None \<Rightarrow> m | Some y \<Rightarrow> n y)"
  by (cases x) simp_all

lemma quiet_prod [quiet_intros]: "(\<And>a b. quiet P (m a b)) \<Longrightarrow> quiet P (case p of (a, b) \<Rightarrow> m a b)"
  by (cases p) simp

lemma quiet_if [quiet_intros]: "quiet P m \<Longrightarrow> quiet P n \<Longrightarrow> quiet P (if b then m else n)"
  by simp

lemma quiet_newDate [quiet_intros]: "quiet P (newDate E)"
  by (simp add: quiet_def wp_simps)

definition notStorage :: "exn \<Rightarrow> bool" where
  "notStorage e \<longleftrightarrow> (case e of JsError m \<Rightarrow> False | _ \<Rightarrow> True)"

lemma notStorage_simps [simp]: "notStorage (Conflict m)" "notStorage (NotFound m)"
  "notStorage (PrismaFault m)" "\<not> notStorage (JsError m)"
  by (simp_all add: notStorage_def)

lemma quiet_query [quiet_intros]: "quiet notStorage (query E f)"
  by (auto simp: quiet_def wp_simps notStorage_def split: option.split)

lemma quiet_exec: "(\<And>t cu d e. stmt t cu d = Inl e \<Longrightarrow> notStorage e) \<Longrightarrow> quiet notStorage (exec E stmt)"
  by (auto simp: quiet_def wp_simps notStorage_def split: option.split sum.split)

lemma quiet_put [quiet_intros]: "quiet (\<lambda>_. True) (storagePut E key c)"
  by (auto simp: quiet_def storagePut_def putObject_def wp_def external_def split: option.splits)

lemma table_errors:
  "insertInto cf x rows = Inl e \<Longrightarrow> notStorage e" "updateIn cf P f rows' = Inl e' \<Longrightarrow> notStorage e'"
  by (auto simp: insertInto_def updateIn_def notStorage_def split: option.splits)

lemma quiet_statements [quiet_intros]:
  "quiet notStorage (updateCredential E i f)" "quiet notStorage (createIssuer E mk)"
  "quiet notStorage (updateAdminRow E i g)" "quiet notStorage (findCredential E P)"
proof -
  show "quiet notStorage (updateCredential E i f)" "quiet notStorage (createIssuer E mk)"
      "quiet notStorage (updateAdminRow E i g)"
    unfolding updateCredential_def createIssuer_def updateAdminRow_def
    by (rule quiet_exec, auto split: sum.splits dest: table_errors)+
  show "quiet notStorage (findCredential E P)"
    unfolding findCredential_def requireRelation_def
    by (intro quiet_intros) (auto simp: notStorage_def intro: quiet_intros split: option.split)
qed

lemma quiet_access [quiet_intros]: "quiet notStorage (assertCredentialAccess E admin i)"
  unfolding assertCredentialAccess_def resolveInstitutionId_def resolveInstitutionForAdmin_def
    findActiveInstitution_def ensureDevelopmentInstitution_def linkAdminToInstitution_def
  by (auto intro!: quiet_intros simp: notStorage_def split: option.split)

lemma quiet_auditLog [quiet_intros]: "quiet P (auditLog E input)"
  unfolding quiet_def by (intro allI wp_mono [OF auditLog_wp]) auto

subsection \<open>A revocation that is interrupted\<close>

definition revokedIn :: "string \<Rightarrow> db \<Rightarrow> bool" where
  "revokedIn i d \<longleftrightarrow> (\<exists>c. List.find (\<lambda>c. c_id c = i) (credentials d) = Some c \<and> c_revoked c)"

lemma revokedIn_same: "credentials d' = credentials d \<Longrightarrow> revokedIn i d' = revokedIn i d"
  by (simp add: revokedIn_def)

definition setCredential :: "string \<Rightarrow> credential \<Rightarrow> db \<Rightarrow> db" where
  "setCredential i c d = d\<lparr>credentials := map (\<lambda>r. if c_id r = i then c else r) (credentials d)\<rparr>"

text \<open>The stored row, its replacement, and the whole table after an update.\<close>

lemma updateCredential_wp:
  assumes "\<And>c. c_id (f c) = c_id c"
  shows "wp (updateCredential E i f)
    (\<lambda>(c, iss) w'. \<exists>c0. List.find (\<lambda>r. c_id r = i) (credentials (database w)) = Some c0 \<and>
       c = (f c0)\<lparr>c_updatedAt := clock E (tick w)\<rparr> \<and> c_id c = i \<and>
       iss = issuerOf (database w) (c_issuerId c) \<and> queue w' = queue w \<and> storage w' = storage w \<and>
       List.find (\<lambda>r. c_id r = i) (credentials (database w')) = Some c \<and>
       database w' = (database w)\<lparr>credentials := map (\<lambda>r. if c_id r = i
         then (f r)\<lparr>c_updatedAt := clock E (tick w)\<rparr> else r) (credentials (database w))\<rparr>)
    (\<lambda>e w'. notStorage e \<and> queue w' = queue w \<and> storage w' = storage w \<and> database w' = database w) w"
proof -
  have id: "c_id ((f c)\<lparr>c_updatedAt := t\<rparr>) = c_id c" for c t using assms by simp
  have found: "c_id c0 = i" if "List.find (\<lambda>r. c_id r = i) cs = Some c0" for cs c0
    using that by (auto simp: find_Some_iff)
  show ?thesis
    unfolding updateCredential_def wp_exec
    by (auto simp: updateIn_Inr find_map_update [OF id] assms found notStorage_def
        split: option.split sum.split dest: table_errors)
qed

lemma revokeRow_wp: "wp (revokeRow E admin i dto)
  (\<lambda>ci w'. revokedIn i (database w') \<and> queue w' = queue w \<and> c_id (fst ci) = i)
  (\<lambda>e w'. notStorage e) w"
  unfolding revokeRow_def updateCredentialI_def wp_bind wp_newDate
  by (rule wp_mono [OF updateCredential_wp])
    (auto simp: markRevoked_def wp_simps notStorage_def revokedIn_def split: option.split)

lemma put_wp: "wp (storagePut E key c) (\<lambda>_ w'. database w' = database w \<and> queue w' = queue w)
  (\<lambda>e w'. database w' = database w \<and> queue w' = queue w) w"
  by (auto simp: storagePut_def putObject_def wp_def external_def split: option.splits)

lemma refreshMetadata_wp: "wp (refreshCredentialMetadata E ci)
  (\<lambda>_ w'. True) (\<lambda>e w'. notStorage e \<or> database w' = database w \<and> queue w' = queue w) w"
  unfolding refreshCredentialMetadata_def updateMetadata_def wp_bind wp_andThen wp_ret
proof (rule wp_mono [OF put_wp], goal_cases)
  case (1 x w')
  then show ?case
    by (intro wp_mono [OF updateCredential_wp]) (auto simp: wp_simps)
qed simp

lemma enqueueOrMark_wp: "wp (enqueueOrMark E m i op) (\<lambda>_ _. True) (\<lambda>e w'. notStorage e) w"
proof -
  have "wp (markQueueFailure E i op msg) (\<lambda>_ _. True) (\<lambda>e w'. notStorage e) w'" for msg w'
  proof -
    have "quiet notStorage (createAnchorLog E mk)" for mk
      unfolding createAnchorLog_def by (rule quiet_exec) (auto split: sum.splits dest: table_errors)
    then have "quiet notStorage (andThen (case failedStatus op of None \<Rightarrow> ret ()
       | Some f \<Rightarrow> bind (updateCredential E i f) (\<lambda>_. ret ()))
       (persistLifecycleLog E i (lifecycle op ANCHOR_failed (Some msg))))"
      unfolding persistLifecycleLog_def by (intro quiet_intros)
    from this [unfolded quiet_def, rule_format, of w'] show ?thesis
      unfolding markQueueFailure_def wp_transaction
      by (rule wp_mono) (auto simp: notStorage_def split: option.split)
  qed
  then show ?thesis
    unfolding enqueueOrMark_def wp_tryCatch
    by (simp add: wp_def split: prod.split sum.split)
qed

lemma revoke_storage_wp: "wp (revoke E admin i dto) (\<lambda>_ _. True)
  (\<lambda>e w'. notStorage e \<or> revokedIn i (database w') \<and> queue w' = queue w) w"
proof -
  have find: "quiet notStorage (findByIdOrThrow E i)"
    unfolding findByIdOrThrow_def by (intro quiet_intros) (simp add: notStorage_def)
  have after: "wp (afterRevoke E ci) (\<lambda>_ _. True)
      (\<lambda>e w'. notStorage e \<or> revokedIn i (database w') \<and> queue w' = queue w1) w1"
    if "revokedIn i (database w1)" for ci w1
    unfolding afterRevoke_def wp_bind wp_andThen wp_ret
  proof (rule wp_mono [OF refreshMetadata_wp], goal_cases)
    case (1 x w2)
    show ?case
    proof (rule wp_mono [OF enqueueOrMark_wp], goal_cases)
      case (1 x w3)
      have "quiet notStorage (findOneOrThrow E (c_id (fst ci)))"
        unfolding findOneOrThrow_def by (intro quiet_intros) (simp add: notStorage_def)
      from this [unfolded quiet_def, rule_format, of w3] show ?case by (rule wp_mono) simp_all
    qed simp
  next
    case (2 e w')
    then show ?case using that revokedIn_same [of "database w'" "database w1" i] by auto
  qed
  show ?thesis
    unfolding revoke_def wp_bind wp_andThen wp_guardNot
  proof (rule wp_mono [OF find [unfolded quiet_def, rule_format]], goal_cases)
    case (1 existing w1)
    show ?case
    proof (rule wp_mono [OF quiet_access [unfolded quiet_def, rule_format]], goal_cases)
      case (1 x w2)
      show ?case
      proof (simp, intro impI, rule wp_mono [OF revokeRow_wp], goal_cases)
        case (1 ci w3)
        have q: "queue w3 = queue w" using 1 \<open>queue w2 = queue w1\<close> \<open>queue w1 = queue w\<close> by simp
        show ?case
        proof (rule wp_mono [OF auditLog_wp], goal_cases)
          case (1 x w4)
          then have "revokedIn i (database w4)" "queue w4 = queue w"
            using \<open>revokedIn i (database w3) \<and> _\<close> q revokedIn_same [of "database w4" "database w3"] by auto
          then show ?case using after [of w4 ci] by simp
        qed simp
      qed simp
    qed simp
  qed simp
qed

lemma revoke_again_wp:
  assumes "revokedIn i (database w)"
  shows "wp (revoke E admin i dto) (\<lambda>_ _. False) (\<lambda>e w'. queue w' = queue w) w"
proof -
  have find: "wp (findByIdOrThrow E i) (\<lambda>ci w'. queue w' = queue w \<and> c_revoked (fst ci))
      (\<lambda>e w'. queue w' = queue w) w"
    using assms unfolding findByIdOrThrow_def findCredential_def requireRelation_def revokedIn_def
    by (auto simp: wp_simps split: option.split)
  show ?thesis
    unfolding revoke_def wp_bind wp_andThen wp_guardNot
  proof (rule wp_mono [OF find], goal_cases)
    case (1 ci w1)
    then show ?case
      by (intro wp_mono [OF quiet_access [unfolded quiet_def, rule_format]]) auto
  qed simp
qed

subsection \<open>Properties\<close>

definition sampleActor :: jwtPayload where
  "sampleActor = \<lparr>j_sub = ''a1'', j_username = Some ''root'', j_email = ''root@uni'', j_role = OWNER,
     j_issuerId = None, j_tokenVersion = 0\<rparr>"

definition sampleRevoke :: revokeDto where
  "sampleRevoke = \<lparr>rv_reason = ISSUED_IN_ERROR, rv_notes = None\<rparr>"

lemma all_less_two: "(\<forall>k < length [x, y]. P k) \<longleftrightarrow> P 0 \<and> P 1"
  by (auto simp: less_Suc_eq)

text \<open>
  C3. Credentials are permanent: after any sequence of credential operations, with any failures, every
  credential is still there, its identifiers, printed fields, hashes and everything signed are
  unchanged, a revoked one is still revoked and a deleted one still deleted.
\<close>

theorem credentials_are_permanent:
  "let cs = credentials (database w); cs' = credentials (database (foldl (runCredentialOp E) w ops)) in
     length cs \<le> length cs' \<and> (\<forall>k. k < length cs \<longrightarrow> frozen (cs' ! k) = frozen (cs ! k) \<and>
       (c_revoked (cs' ! k) \<or> \<not> c_revoked (cs ! k)) \<and>
       (c_deletedAt (cs' ! k) \<noteq> None \<or> c_deletedAt (cs ! k) = None))"
  using credential_laws_permanent [of w E ops] unfolding credOrder_def credStep_def Let_def by blast

theorem credentials_are_permanent_witness:
  "let cs' = credentials (database (foldl (runCredentialOp sampleEnv) registryWorld
      [RevokeOp sampleActor ''crd_1'' sampleRevoke, BackfillOp, RemoveOp sampleActor ''crd_1'']))
   in c_signature (cs' ! 0) = Some ''sig'' \<and> c_studentName (cs' ! 1) = ''Bob''"
  using credentials_are_permanent [of registryWorld sampleEnv
    "[RevokeOp sampleActor ''crd_1'' sampleRevoke, BackfillOp, RemoveOp sampleActor ''crd_1'']"]
  unfolding Let_def registryWorld_credentials
  by (auto simp: frozen_def sampleCredential_def all_less_two)

text \<open>
  C2. At most one live credential per institution, student and degree: from tables in which the unique
  indexes hold, any sequence of credential operations leads to tables where two different rows never
  share an identifier, code or token, and are never both live for the same institution, student
  number and degree.
\<close>

theorem one_live_credential:
  assumes "credUnique (database w)"
    and "cs = credentials (database (foldl (runCredentialOp E) w ops))" and "a < b" and "b < length cs"
  shows "c_id (cs ! a) \<noteq> c_id (cs ! b) \<and> c_verificationId (cs ! a) \<noteq> c_verificationId (cs ! b) \<and>
    c_verificationCode (cs ! a) \<noteq> c_verificationCode (cs ! b) \<and>
    c_signedVerificationToken (cs ! a) \<noteq> c_signedVerificationToken (cs ! b) \<and>
    (liveCredential (cs ! a) \<and> liveCredential (cs ! b) \<longrightarrow>
      (c_issuerId (cs ! a), c_studentId (cs ! a), c_degree (cs ! a)) \<noteq>
      (c_issuerId (cs ! b), c_studentId (cs ! b), c_degree (cs ! b)))"
proof -
  have "compatible (cs ! a) (cs ! b)"
    using credential_laws_unique [OF assms(1), of E ops] assms(2-4)
    unfolding credUnique_def sorted_wrt_iff_nth_less by simp
  from compatible_id [OF this] compatible_refs [OF this] compatible_live [OF this] show ?thesis by auto
qed

theorem one_live_credential_witness:
  "let cs = credentials (database (foldl (runCredentialOp sampleEnv) registryWorld
      [RevokeOp sampleActor ''crd_1'' sampleRevoke, BackfillOp]))
   in c_verificationId (cs ! 0) \<noteq> c_verificationId (cs ! 1)"
proof -
  define ops where "ops = [RevokeOp sampleActor ''crd_1'' sampleRevoke, BackfillOp]"
  have "length (credentials (database (foldl (runCredentialOp sampleEnv) registryWorld ops))) \<ge> 2"
    using credential_laws_permanent [of registryWorld sampleEnv ops]
    unfolding credOrder_def registryWorld_credentials by simp
  then have "1 < length (credentials (database (foldl (runCredentialOp sampleEnv) registryWorld ops)))"
    by simp
  from one_live_credential [OF registryWorld_unique refl zero_less_one this] show ?thesis
    unfolding Let_def ops_def by blast
qed

text \<open>
  Bulk issuance leaves no issuance in the audit log: whatever file is committed, the only audit
  entries \<open>bulkIssue\<close> writes record the generation of a signing key, although every credential it
  issues enters the registry exactly as one issued by \<open>create\<close>, which is audited.
\<close>

theorem bulk_issue_not_audited:
  "\<exists>rows. auditLogs (database (snd (bulkIssue E admin dto w))) = auditLogs (database w) @ rows \<and>
     au_action ` set rows \<subseteq> {''SIGNING_KEY_GENERATED''}"
proof -
  have "keeps (auditOnly {''SIGNING_KEY_GENERATED''}) (bulkIssue E admin dto)"
    by (rule auditing.bulkIssue) simp
  then show ?thesis by (simp add: keeps_def auditOnly_def image_subset_iff)
qed

text \<open>
  C7. An interrupted revocation never reaches the chain: if the object storage fails while a revocation
  refreshes the metadata, the caller gets an error although the row is already revoked, no
  revocation job was enqueued, and no later attempt by anybody enqueues one, because each of them
  is rejected.
\<close>

theorem interrupted_revocation_never_anchored:
  assumes "revoke E admin i dto w = (Inl (JsError m), w')"
  shows "revokedIn i (database w') \<and> queue w' = queue w \<and>
    (\<forall>E2 admin2 dto2. \<exists>e. fst (revoke E2 admin2 i dto2 w') = Inl e \<and>
       queue (snd (revoke E2 admin2 i dto2 w')) = queue w)"
proof -
  have now: "revokedIn i (database w') \<and> queue w' = queue w"
    using wp_Inl [OF revoke_storage_wp assms] by simp
  have "\<exists>e. fst (revoke E2 admin2 i dto2 w') = Inl e \<and> queue (snd (revoke E2 admin2 i dto2 w')) = queue w"
    for E2 admin2 dto2
    using revoke_again_wp [of i w' E2 admin2 dto2] now
    by (auto simp: wp_def split: prod.splits sum.splits)
  with now show ?thesis by blast
qed

definition storageDownEnv :: env where
  "storageDownEnv = sampleEnv\<lparr>fault := (\<lambda>n. if n < 3 then None else Some ''down'')\<rparr>"

lemma storageDown_simps [simp]:
  "fault storageDownEnv n = (if n < 3 then None else Some ''down'')" "clock storageDownEnv n = int n"
  by (simp_all add: storageDownEnv_def sampleEnv_def)

lemma registry_find:
  assumes "fault E 0 = None"
  shows "findByIdOrThrow E ''crd_1'' registryWorld =
    (Inr (sampleCredential ''1'' ''Ann'' ''41'', sampleIssuer), nextTick registryWorld)"
proof -
  have find: "List.find (\<lambda>c. c_id c = ''crd_1'') (credentials (database registryWorld)) =
      Some (sampleCredential ''1'' ''Ann'' ''41'')"
    by (simp add: registryWorld_credentials sampleCredential_def)
  have iss: "issuerOf (database registryWorld) (c_issuerId (sampleCredential ''1'' ''Ann'' ''41'')) =
      Some sampleIssuer"
    by (simp add: issuerOf_def registryWorld_def sampleIssuer_def sampleCredential_def)
  have tick: "tick registryWorld = 0" by (simp add: registryWorld_def emptyWorld_def)
  show ?thesis
    using assms by (simp add: findByIdOrThrow_def findCredential_def bind_def query_def external_def
        tick find iss requireRelation_def ret_def)
qed

lemma storageDown_late:
  assumes "3 \<le> tick w"
  shows "fst (afterRevoke storageDownEnv ci w) = Inl (JsError ''down'')"
    and "\<exists>w'. auditLog storageDownEnv input w = (Inr (), w') \<and> 3 \<le> tick w'"
  using assms
  by (simp_all add: afterRevoke_def refreshCredentialMetadata_def updateMetadata_def storagePut_def
      putObject_def andThen_def bind_def external_def auditLog_def writeEntry_def transaction_def
      newDate_def lockChain_def query_def tryCatch_def ret_def)

lemma storageDown_revoke:
  "\<exists>w'. revoke storageDownEnv sampleActor ''crd_1'' sampleRevoke registryWorld = (Inl (JsError ''down''), w')"
proof -
  let ?c = "sampleCredential ''1'' ''Ann'' ''41''"
  have find: "findByIdOrThrow storageDownEnv ''crd_1'' registryWorld =
      (Inr (?c, sampleIssuer), nextTick registryWorld)"
    by (rule registry_find) simp
  have access: "assertCredentialAccess storageDownEnv sampleActor i w = (Inr (), w)" for i w
    by (simp add: assertCredentialAccess_def sampleActor_def ret_def)
  have live: "guardNot (c_revoked ?c) e w = (Inr (), w)" for e w
    by (simp add: guardNot_def sampleCredential_def ret_def)
  obtain ci w1 where row: "revokeRow storageDownEnv sampleActor ''crd_1'' sampleRevoke
      (nextTick registryWorld) = (Inr ci, w1)" and t1: "tick w1 = 3"
  proof -
    have "wp (revokeRow storageDownEnv sampleActor ''crd_1'' sampleRevoke)
        (\<lambda>_ w'. tick w' = 3) (\<lambda>_ _. False) (nextTick registryWorld)"
      unfolding revokeRow_def updateCredentialI_def updateCredential_def
      by (simp add: wp_simps registryWorld_def emptyWorld_def updateIn_def sampleCredential_def markRevoked_def
          credConflict_def liveCredential_def issuerOf_def sampleIssuer_def sampleRevoke_def)
    then show thesis using that by (auto simp: wp_def split: prod.splits sum.splits)
  qed
  obtain w2 where audit: "auditLog storageDownEnv (revokedEvent sampleActor sampleRevoke ?c []) w1 =
      (Inr (), w2)" and t2: "3 \<le> tick w2"
    using storageDown_late(2) [of w1] t1 by auto
  have "revoke storageDownEnv sampleActor ''crd_1'' sampleRevoke registryWorld =
      afterRevoke storageDownEnv ci w2"
    unfolding revoke_def by (simp add: bind_def andThen_def find access live row audit)
  then show ?thesis using storageDown_late(1) [OF t2, of ci] by (metis prod.collapse)
qed

theorem interrupted_revocation_never_anchored_witness:
  "\<exists>w'. revoke storageDownEnv sampleActor ''crd_1'' sampleRevoke registryWorld = (Inl (JsError ''down''), w') \<and>
     revokedIn ''crd_1'' (database w') \<and> queue w' = []"
proof -
  obtain w' where run: "revoke storageDownEnv sampleActor ''crd_1'' sampleRevoke registryWorld =
      (Inl (JsError ''down''), w')" using storageDown_revoke by blast
  from interrupted_revocation_never_anchored [OF run] run show ?thesis
    by (simp add: registryWorld_def emptyWorld_def)
qed

end
