(* ===== verification/Blockchain.thy ===== *)
theory Blockchain
  imports BlockchainQueue
begin

text \<open>
  The blockchain client of the API (\<open>modules/blockchain/blockchain.service.ts\<close>). The node is reached
  through viem, a parameter: a read evaluates a view of the registry, \<open>simulateContract\<close> throws what
  the call would revert with and changes nothing, \<open>writeContract\<close> hands a transaction to the network
  and returns its hash whether or not the transaction will revert or run out of its gas limit, and
  \<open>waitForTransactionReceipt\<close> returns the block. Between any two of these calls other accounts may
  have used the contract. The five reads of \<open>readProof\<close> are issued in the order of their array.
\<close>

subsection \<open>The node\<close>

definition CHAIN_ID :: int where "CHAIN_ID = 80002"

type_synonym contractCall = "uint256 \<Rightarrow> registry \<Rightarrow> registryError + registry"

definition readContract :: "env \<Rightarrow> (registry \<Rightarrow> 'a) \<Rightarrow> 'a prog" where
  "readContract E view = rpcCall E (\<lambda>t r. Inr (view r, r))"

definition simulateContract :: "env \<Rightarrow> contractCall \<Rightarrow> unit prog" where
  "simulateContract E call = rpcCall E (\<lambda>t r. case call (blockTime E t) r of
     Inl e \<Rightarrow> Inl (JsError ''The contract function reverted.'') | Inr r' \<Rightarrow> Inr ((), r))"

definition mined :: "env \<Rightarrow> contractCall \<Rightarrow> nat \<Rightarrow> registry \<Rightarrow> registry" where
  "mined E call t r = (if outOfGas E t then r
     else case call (blockTime E t) r of Inl e \<Rightarrow> r | Inr r' \<Rightarrow> r')"

definition writeContract :: "env \<Rightarrow> contractCall \<Rightarrow> string prog" where
  "writeContract E call = rpcCall E (\<lambda>t r. Inr (txHashAt E t, mined E call t r))"

definition waitForTransactionReceipt :: "env \<Rightarrow> int prog" where
  "waitForTransactionReceipt E = rpcCall E (\<lambda>t r. Inr (int (blockHeight E t), r))"

lemmas node_defs = readContract_def simulateContract_def writeContract_def waitForTransactionReceipt_def

subsection \<open>Records and results\<close>

record anchorable =
  ar_id :: string
  ar_chainProofHash :: string
  ar_txHash :: "string option"
  ar_blockNumber :: "int option"
  ar_anchoredAt :: "time option"
  ar_anchorStatus :: string
  ar_anchorVersion :: string
  ar_issuerWallet :: "string option"

definition anchorableOf :: "credential \<times> issuer \<Rightarrow> anchorable" where
  "anchorableOf ci = (case ci of (c, i) \<Rightarrow> \<lparr>ar_id = c_id c, ar_chainProofHash = c_chainProofHash c,
     ar_txHash = c_txHash c, ar_blockNumber = c_blockNumber c, ar_anchoredAt = c_anchoredAt c,
     ar_anchorStatus = c_anchorStatus c, ar_anchorVersion = c_anchorVersion c,
     ar_issuerWallet = i_wallet i\<rparr>)"

datatype proofStatus = ON_CHAIN_VERIFIED | ISSUER_UNAUTHORIZED | MISMATCH | NOT_ANCHORED
  | ARCHIVED_V1 | CHAIN_FAILED | CHAIN_PENDING | CHAIN_UNAVAILABLE

fun proofStatusName :: "proofStatus \<Rightarrow> string" where
  "proofStatusName ON_CHAIN_VERIFIED = ''ON_CHAIN_VERIFIED''"
| "proofStatusName ISSUER_UNAUTHORIZED = ''ISSUER_UNAUTHORIZED''"
| "proofStatusName MISMATCH = ''MISMATCH''"
| "proofStatusName NOT_ANCHORED = ''NOT_ANCHORED''"
| "proofStatusName ARCHIVED_V1 = ''ARCHIVED_V1''"
| "proofStatusName CHAIN_FAILED = ''FAILED''"
| "proofStatusName CHAIN_PENDING = ''PENDING''"
| "proofStatusName CHAIN_UNAVAILABLE = ''UNAVAILABLE''"

record proofRecord =
  pr_credentialId :: string
  pr_documentHash :: string
  pr_issuer :: string
  pr_issuerAuthorized :: bool
  pr_issuedAt :: "time option"
  pr_revoked :: bool
  pr_revokedAt :: "time option"
  pr_revokedBy :: "string option"
  pr_exists :: bool

record writeResult =
  wr_txHash :: "string option"
  wr_blockNumber :: "int option"
  wr_anchoredAt :: "time option"
  wr_chainId :: int
  wr_alreadyProcessed :: bool
  wr_proof :: "proofRecord option"

record chainVerification =
  bv_status :: proofStatus
  bv_verified :: bool
  bv_chainId :: "int option"
  bv_txHash :: "string option"
  bv_blockNumber :: "int option"
  bv_anchoredAt :: "time option"
  bv_proof :: "proofRecord option"

subsection \<open>Configuration, addresses, hashes\<close>

definition toBytes32ProofHash :: "string \<Rightarrow> exn + string" where
  "toBytes32ProofHash h = (let normalized = toLowerCase (trim h) in
     if isHex64 normalized then Inr (''0x'' @ normalized)
     else Inl (JsError ''Credential proof hash is not a valid bytes32 hex value.''))"

definition isConfigured :: "env \<Rightarrow> bool" where
  "isConfigured E \<longleftrightarrow> truthy (cfg_rpcUrl (cfg E)) \<and> truthy (cfg_privateKey (cfg E)) \<and>
     truthy (cfg_contractAddress (cfg E))"

definition assertBlockchainConfigured :: "env \<Rightarrow> unit prog" where
  "assertBlockchainConfigured E =
     guardNot (\<not> isConfigured E) (JsError ''Blockchain anchoring is not configured.'')"

definition normalizeAddress :: "env \<Rightarrow> string \<Rightarrow> exn + string" where
  "normalizeAddress E a = (case getAddress E a of
     None \<Rightarrow> Inl (JsError ''InvalidAddressError'') | Some b \<Rightarrow> Inr b)"

definition getAccount :: "env \<Rightarrow> exn + address" where
  "getAccount E = (if truthy (cfg_privateKey (cfg E)) then Inr (accountOf E (the (cfg_privateKey (cfg E))))
     else Inl (JsError ''PRIVATE_KEY is not configured.''))"

definition getPublicClient :: "env \<Rightarrow> exn + unit" where
  "getPublicClient E = (if truthy (cfg_rpcUrl (cfg E)) then Inr ()
     else Inl (JsError ''POLYGON_AMOY_RPC_URL is not configured.''))"

definition getWalletClient :: "env \<Rightarrow> exn + address" where
  "getWalletClient E = (if truthy (cfg_rpcUrl (cfg E)) then getAccount E
     else Inl (JsError ''POLYGON_AMOY_RPC_URL is not configured.''))"

definition getContractAddress :: "env \<Rightarrow> exn + string" where
  "getContractAddress E = (if truthy (cfg_contractAddress (cfg E))
     then normalizeAddress E (the (cfg_contractAddress (cfg E)))
     else Inl (JsError ''CONTRACT_ADDRESS is not configured.''))"

text \<open>\<open>isAddressEqual\<close> of the signer and the wallet of the institution.\<close>

definition assertIssuerWallet :: "env \<Rightarrow> string option \<Rightarrow> unit prog" where
  "assertIssuerWallet E wallet = (case trimOrNull wallet of
     None \<Rightarrow> throw (JsError ''Issuer wallet is required before anchoring credentials.'')
   | Some w \<Rightarrow> bind (liftE (getAccount E)) (\<lambda>account.
       bind (liftE (normalizeAddress E w)) (\<lambda>a.
       guardNot (\<not> isAddressEqual E (addressText E account) a)
         (JsError ''Issuer wallet does not match the configured signing key.''))))"

subsection \<open>Reading a proof\<close>

text \<open>\<open>new Date(Number(seconds) * 1000)\<close>, for times a double holds exactly; zero is no date.\<close>

definition chainDate :: "uint256 \<Rightarrow> time option" where
  "chainDate t = (if t > 0 then Some (int (unat t) * 1000) else None)"

definition toProofRecord :: "env \<Rightarrow> string \<Rightarrow> bytes32 \<Rightarrow> address \<Rightarrow> uint256 \<Rightarrow> bool \<Rightarrow>
    bool \<times> uint256 \<times> address \<Rightarrow> bool \<Rightarrow> proofRecord option" where
  "toProofRecord E credentialId documentHash issuer issuedAt issuerAuthorized revocation existing =
     (case revocation of (revoked, revokedAt, revokedBy) \<Rightarrow>
       if \<not> existing then None
       else Some \<lparr>pr_credentialId = credentialId, pr_documentHash = bytes32Text E documentHash,
         pr_issuer = addressText E issuer, pr_issuerAuthorized = issuerAuthorized,
         pr_issuedAt = chainDate issuedAt, pr_revoked = revoked, pr_revokedAt = chainDate revokedAt,
         pr_revokedBy = (if revokedBy = 0 then None else Some (addressText E revokedBy)),
         pr_exists = existing\<rparr>)"

definition readProof :: "env \<Rightarrow> string \<Rightarrow> proofRecord option prog" where
  "readProof E i =
     bind (liftE (getPublicClient E)) (\<lambda>_.
     bind (liftE (getContractAddress E)) (\<lambda>_.
     bind (readContract E (credentialExists (keccak256 E) i)) (\<lambda>existing.
     bind (readContract E (getCredentialHash (keccak256 E) i)) (\<lambda>documentHash.
     bind (readContract E (getCredentialIssuer (keccak256 E) i)) (\<lambda>issuer.
     bind (readContract E (getCredentialTimestamp (keccak256 E) i)) (\<lambda>issuedAt.
     bind (readContract E (getCredentialRevocation (keccak256 E) i)) (\<lambda>revocation.
     bind (if existing then readContract E (isAuthorizedIssuer issuer) else ret False)
       (\<lambda>issuerAuthorized.
     ret (toProofRecord E i documentHash issuer issuedAt issuerAuthorized revocation existing)))))))))"

subsection \<open>Anchoring and revoking\<close>

definition anchorCall :: "env \<Rightarrow> address \<Rightarrow> string \<Rightarrow> string \<Rightarrow> contractCall" where
  "anchorCall E account i h now r = anchorCredential (keccak256 E) account now i (hexBytes32 E h) r"

definition revokeCall :: "env \<Rightarrow> address \<Rightarrow> string \<Rightarrow> contractCall" where
  "revokeCall E account i now r = Registry.revokeCredential (keccak256 E) account now i r"

text \<open>The clients, then \<open>simulateContract\<close>, \<open>writeContract\<close> and \<open>waitForTransactionReceipt\<close>.\<close>

definition sendTransaction :: "env \<Rightarrow> (address \<Rightarrow> contractCall) \<Rightarrow> (string \<times> int) prog" where
  "sendTransaction E call =
     bind (liftE (getPublicClient E)) (\<lambda>_.
     bind (liftE (getWalletClient E)) (\<lambda>_.
     bind (liftE (getAccount E)) (\<lambda>account.
     bind (liftE (getContractAddress E)) (\<lambda>_.
     bind (simulateContract E (call account)) (\<lambda>_.
     bind (writeContract E (call account)) (\<lambda>txHash.
     bind (waitForTransactionReceipt E) (\<lambda>blockNumber. ret (txHash, blockNumber))))))))"

definition anchorRecord :: "env \<Rightarrow> anchorable \<Rightarrow> writeResult prog" where
  "anchorRecord E rec =
     andThen (assertBlockchainConfigured E)
     (andThen (assertIssuerWallet E (ar_issuerWallet rec))
     (bind (readProof E (ar_id rec)) (\<lambda>proof.
      bind (liftE (toBytes32ProofHash (ar_chainProofHash rec))) (\<lambda>expected.
      bind (liftE (normalizeAddress E (the (ar_issuerWallet rec)))) (\<lambda>issuerAddress.
      case proof of
        Some p \<Rightarrow>
          (if pr_documentHash p = expected \<and> isAddressEqual E (pr_issuer p) issuerAddress \<and>
              pr_issuerAuthorized p \<and> \<not> pr_revoked p
           then ret \<lparr>wr_txHash = ar_txHash rec, wr_blockNumber = ar_blockNumber rec,
             wr_anchoredAt = nullish (ar_anchoredAt rec) (pr_issuedAt p), wr_chainId = CHAIN_ID,
             wr_alreadyProcessed = True, wr_proof = Some p\<rparr>
           else throw (JsError ''On-chain proof already exists with mismatched data.''))
      | None \<Rightarrow>
          bind (sendTransaction E (\<lambda>account. anchorCall E account (ar_id rec) expected))
          (\<lambda>(txHash, blockNumber). bind (readProof E (ar_id rec)) (\<lambda>confirmedProof.
          bind (newDate E) (\<lambda>now.
          ret \<lparr>wr_txHash = Some txHash, wr_blockNumber = Some blockNumber, wr_anchoredAt = Some now,
            wr_chainId = CHAIN_ID, wr_alreadyProcessed = False, wr_proof = confirmedProof\<rparr>))))))))"

definition revokeRecord :: "env \<Rightarrow> anchorable \<Rightarrow> writeResult prog" where
  "revokeRecord E rec =
     andThen (assertBlockchainConfigured E)
     (andThen (assertIssuerWallet E (ar_issuerWallet rec))
     (bind (readProof E (ar_id rec)) (\<lambda>proof. case proof of
        None \<Rightarrow> throw (JsError ''On-chain credential proof does not exist.'')
      | Some p \<Rightarrow>
          bind (liftE (toBytes32ProofHash (ar_chainProofHash rec))) (\<lambda>expected.
          if pr_documentHash p \<noteq> expected
          then throw (JsError ''On-chain proof hash mismatch detected.'')
          else if pr_revoked p
          then ret \<lparr>wr_txHash = None, wr_blockNumber = None,
            wr_anchoredAt = nullish (ar_anchoredAt rec) (pr_issuedAt p), wr_chainId = CHAIN_ID,
            wr_alreadyProcessed = True, wr_proof = Some p\<rparr>
          else bind (sendTransaction E (\<lambda>account. revokeCall E account (ar_id rec)))
            (\<lambda>(txHash, blockNumber). bind (readProof E (ar_id rec)) (\<lambda>confirmedProof.
            ret \<lparr>wr_txHash = Some txHash, wr_blockNumber = Some blockNumber,
              wr_anchoredAt = nullish (ar_anchoredAt rec) (pr_issuedAt p), wr_chainId = CHAIN_ID,
              wr_alreadyProcessed = False, wr_proof = confirmedProof\<rparr>))))))"

subsection \<open>Verifying\<close>

definition notOnChain :: "anchorable \<Rightarrow> proofStatus \<Rightarrow> int option \<Rightarrow> chainVerification" where
  "notOnChain rec status chainId = \<lparr>bv_status = status, bv_verified = False, bv_chainId = chainId,
     bv_txHash = ar_txHash rec, bv_blockNumber = ar_blockNumber rec,
     bv_anchoredAt = ar_anchoredAt rec, bv_proof = None\<rparr>"

definition missingProof :: "anchorable \<Rightarrow> chainVerification" where
  "missingProof rec = (if ar_anchorVersion rec = ''V1'' \<and> truthy (ar_txHash rec)
     then notOnChain rec ARCHIVED_V1 None
     else notOnChain rec (if ar_anchorStatus rec = ANCHOR_failed then CHAIN_FAILED
       else if ar_anchorStatus rec = ANCHOR_pending then CHAIN_PENDING else NOT_ANCHORED)
       (Some CHAIN_ID))"

definition issuerMatches :: "env \<Rightarrow> anchorable \<Rightarrow> proofRecord \<Rightarrow> exn + bool" where
  "issuerMatches E rec p = (if truthy (ar_issuerWallet rec)
     then (case normalizeAddress E (the (ar_issuerWallet rec)) of
        Inl e \<Rightarrow> Inl e | Inr a \<Rightarrow> Inr (isAddressEqual E (pr_issuer p) a))
     else Inr False)"

definition judgeProof :: "env \<Rightarrow> anchorable \<Rightarrow> proofRecord \<Rightarrow> exn + chainVerification" where
  "judgeProof E rec p = (case issuerMatches E rec p of Inl e \<Rightarrow> Inl e | Inr sameIssuer \<Rightarrow>
     (case toBytes32ProofHash (ar_chainProofHash rec) of Inl e \<Rightarrow> Inl e | Inr expected \<Rightarrow>
       (let verified = sameIssuer \<and> pr_documentHash p = expected \<and> pr_issuerAuthorized p \<and>
              \<not> pr_revoked p
        in Inr \<lparr>bv_status = (if verified then ON_CHAIN_VERIFIED
              else if \<not> pr_issuerAuthorized p then ISSUER_UNAUTHORIZED else MISMATCH),
            bv_verified = verified, bv_chainId = Some CHAIN_ID, bv_txHash = ar_txHash rec,
            bv_blockNumber = ar_blockNumber rec,
            bv_anchoredAt = nullish (ar_anchoredAt rec) (pr_issuedAt p), bv_proof = Some p\<rparr>)))"

definition verifyRecord :: "env \<Rightarrow> anchorable \<Rightarrow> chainVerification prog" where
  "verifyRecord E rec =
     (if \<not> isConfigured E
      then ret (notOnChain rec (if ar_anchorStatus rec = ANCHOR_pending then CHAIN_PENDING
             else CHAIN_UNAVAILABLE) None)
      else tryCatch (bind (readProof E (ar_id rec)) (\<lambda>proof. case proof of
               None \<Rightarrow> ret (missingProof rec) | Some p \<Rightarrow> liftE (judgeProof E rec p)))
             (\<lambda>e. ret (notOnChain rec CHAIN_UNAVAILABLE None)))"

record healthReport =
  hr_ok :: bool
  hr_configured :: bool
  hr_chainId :: "int option"
  hr_latestBlock :: "int option"
  hr_contractAddress :: "string option"
  hr_signerAddress :: "address option"
  hr_error :: "string option"

definition healthCheck :: "env \<Rightarrow> healthReport prog" where
  "healthCheck E = (let address = cfg_contractAddress (cfg E) in
     if \<not> isConfigured E
     then ret \<lparr>hr_ok = False, hr_configured = False, hr_chainId = None, hr_latestBlock = None,
       hr_contractAddress = address, hr_signerAddress = None,
       hr_error = Some ''Blockchain environment is not fully configured.''\<rparr>
     else tryCatch
       (bind (liftE (getPublicClient E)) (\<lambda>_.
        bind (rpcCall E (\<lambda>t r. Inr (nodeChainId E, r))) (\<lambda>chainId.
        bind (rpcCall E (\<lambda>t r. Inr (int (blockHeight E t), r))) (\<lambda>latestBlock.
        bind (liftE (getContractAddress E)) (\<lambda>contract.
        bind (liftE (getAccount E)) (\<lambda>account.
        ret \<lparr>hr_ok = True, hr_configured = True, hr_chainId = Some chainId,
          hr_latestBlock = Some latestBlock, hr_contractAddress = Some contract,
          hr_signerAddress = Some account, hr_error = None\<rparr>))))))
       (\<lambda>e. bind (liftE (getAccount E)) (\<lambda>account.
        ret \<lparr>hr_ok = False, hr_configured = True, hr_chainId = None, hr_latestBlock = None,
          hr_contractAddress = address, hr_signerAddress = Some account,
          hr_error = Some (exnMessage e)\<rparr>)))"

end
