(* ===== verification/AnchorWorker.thy ===== *)
theory AnchorWorker
  imports Blockchain
begin

text \<open>
  The consumer of the chain jobs (\<open>apps/worker/src/jobs/credential-anchor.ts\<close>, \<open>lib/blockchain.ts\<close>):
  one job reads the credential, writes to the registry and records the outcome and a log row in one
  transaction; a failure is recorded, with a final status on the last attempt, and thrown on so that
  the queue retries. The worker's environment variables are those of the configuration.
\<close>

subsection \<open>The worker's blockchain library\<close>

definition assertConfigured :: "env \<Rightarrow> exn + unit" where
  "assertConfigured E = (if isConfigured E then Inr ()
     else Inl (JsError ''Blockchain worker is missing POLYGON_AMOY_RPC_URL, PRIVATE_KEY, or CONTRACT_ADDRESS.''))"

definition getAccountW :: "env \<Rightarrow> exn + address" where
  "getAccountW E = (case assertConfigured E of Inl e \<Rightarrow> Inl e
     | Inr _ \<Rightarrow> Inr (accountOf E (the (cfg_privateKey (cfg E)))))"

definition toBytes32ProofHashW :: "string \<Rightarrow> exn + string" where
  "toBytes32ProofHashW h = (let normalized = toLowerCase (trim h) in
     if isHex64 normalized then Inr (''0x'' @ normalized)
     else Inl (JsError ''Credential chainProofHash must be a lowercase bytes32 value.''))"

record chainProof =
  cp_documentHash :: string
  cp_issuer :: string
  cp_issuedAt :: uint256
  cp_revoked :: bool
  cp_issuerAuthorized :: bool
  cp_exists :: bool

text \<open>\<open>address: normalizeAddress(contractAddress!)\<close> of every read is evaluated before the first one.\<close>

definition readProofW :: "env \<Rightarrow> string \<Rightarrow> chainProof prog" where
  "readProofW E i =
     bind (liftE (assertConfigured E)) (\<lambda>_.
     bind (liftE (normalizeAddress E (the (cfg_contractAddress (cfg E))))) (\<lambda>_.
     bind (readContract E (credentialExists (keccak256 E) i)) (\<lambda>existing.
     bind (readContract E (getCredentialHash (keccak256 E) i)) (\<lambda>documentHash.
     bind (readContract E (getCredentialIssuer (keccak256 E) i)) (\<lambda>issuer.
     bind (readContract E (getCredentialTimestamp (keccak256 E) i)) (\<lambda>issuedAt.
     bind (readContract E (getCredentialRevocation (keccak256 E) i)) (\<lambda>revocation.
     bind (if existing then readContract E (isAuthorizedIssuer issuer) else ret False)
       (\<lambda>issuerAuthorized.
     ret \<lparr>cp_documentHash = bytes32Text E documentHash, cp_issuer = addressText E issuer,
       cp_issuedAt = issuedAt, cp_revoked = fst revocation, cp_issuerAuthorized = issuerAuthorized,
       cp_exists = existing\<rparr>))))))))"

definition assertIssuerWalletW :: "env \<Rightarrow> string option \<Rightarrow> unit prog" where
  "assertIssuerWalletW E wallet = (case trimOrNull wallet of
     None \<Rightarrow> throw (JsError ''Issuer wallet is required for blockchain anchoring.'')
   | Some w \<Rightarrow> bind (liftE (getAccountW E)) (\<lambda>account.
       bind (liftE (normalizeAddress E w)) (\<lambda>a.
       guardNot (\<not> isAddressEqual E (addressText E account) a)
         (JsError ''Issuer wallet does not match configured signing key.''))))"

record chainResult =
  w_txHash :: "string option"
  w_blockNumber :: "int option"
  w_anchoredAt :: "time option"
  w_alreadyProcessed :: bool

text \<open>Clients, simulation, transaction and receipt, with \<open>gas\<close> fixed by the caller.\<close>

definition sendW :: "env \<Rightarrow> (address \<Rightarrow> contractCall) \<Rightarrow> (string \<times> int) prog" where
  "sendW E call =
     bind (liftE (assertConfigured E)) (\<lambda>_.
     bind (liftE (normalizeAddress E (the (cfg_contractAddress (cfg E))))) (\<lambda>_.
     bind (liftE (getAccountW E)) (\<lambda>account.
     bind (simulateContract E (call account)) (\<lambda>_.
     bind (writeContract E (call account)) (\<lambda>txHash.
     bind (waitForTransactionReceipt E) (\<lambda>blockNumber. ret (txHash, blockNumber)))))))"

definition anchorCredentialOnChain :: "env \<Rightarrow> credential \<times> issuer \<Rightarrow> chainResult prog" where
  "anchorCredentialOnChain E ci = (case ci of (c, i) \<Rightarrow>
     andThen (assertIssuerWalletW E (i_wallet i))
     (bind (readProofW E (c_id c)) (\<lambda>proof.
      bind (liftE (toBytes32ProofHashW (c_chainProofHash c))) (\<lambda>expected.
      bind (liftE (normalizeAddress E (the (i_wallet i)))) (\<lambda>issuerWallet.
      if cp_exists proof
      then (if cp_documentHash proof = expected \<and> isAddressEqual E (cp_issuer proof) issuerWallet \<and>
               cp_issuerAuthorized proof \<and> \<not> cp_revoked proof
            then ret \<lparr>w_txHash = c_txHash c, w_blockNumber = c_blockNumber c,
              w_anchoredAt = Some (orElse (c_anchoredAt c) (int (unat (cp_issuedAt proof)) * 1000)),
              w_alreadyProcessed = True\<rparr>
            else throw (JsError ''On-chain proof already exists with mismatched data.''))
      else bind (sendW E (\<lambda>account. anchorCall E account (c_id c) expected))
        (\<lambda>(txHash, blockNumber). bind (newDate E) (\<lambda>now.
         ret \<lparr>w_txHash = Some txHash, w_blockNumber = Some blockNumber, w_anchoredAt = Some now,
           w_alreadyProcessed = False\<rparr>)))))))"

definition revokeCredentialOnChain :: "env \<Rightarrow> credential \<times> issuer \<Rightarrow> chainResult prog" where
  "revokeCredentialOnChain E ci = (case ci of (c, i) \<Rightarrow>
     andThen (assertIssuerWalletW E (i_wallet i))
     (bind (readProofW E (c_id c)) (\<lambda>proof.
      if \<not> cp_exists proof then throw (JsError ''On-chain proof does not exist.'')
      else bind (liftE (toBytes32ProofHashW (c_chainProofHash c))) (\<lambda>expected.
        let anchoredAt = Some (orElse (c_anchoredAt c) (int (unat (cp_issuedAt proof)) * 1000)) in
        if cp_documentHash proof \<noteq> expected
        then throw (JsError ''On-chain proof hash mismatch detected.'')
        else if cp_revoked proof
        then ret \<lparr>w_txHash = None, w_blockNumber = None, w_anchoredAt = anchoredAt,
          w_alreadyProcessed = True\<rparr>
        else bind (sendW E (\<lambda>account. revokeCall E account (c_id c)))
          (\<lambda>(txHash, blockNumber).
           ret \<lparr>w_txHash = Some txHash, w_blockNumber = Some blockNumber, w_anchoredAt = anchoredAt,
             w_alreadyProcessed = False\<rparr>)))))"

subsection \<open>One job\<close>

record anchorJob =
  aj_credentialId :: string
  aj_operation :: string
  aj_attemptsMade :: int
  aj_attempts :: "int option"

record jobResult =
  jr_status :: string
  jr_credentialId :: string
  jr_txHash :: "string option"

definition chainMetadata :: "string \<Rightarrow> bool \<Rightarrow> value" where
  "chainMetadata operation already =
     VObj [(''lastOperation'', VStr operation), (''alreadyProcessed'', VBool already)]"

definition anchoredRow :: "chainResult \<Rightarrow> time \<Rightarrow> time \<Rightarrow> credential \<times> issuer \<Rightarrow> credential \<Rightarrow> credential" where
  "anchoredRow res now1 now2 ci row = (case ci of (c, i) \<Rightarrow> row\<lparr>
     c_txHash := nullish (w_txHash res) (c_txHash c), c_chainId := Some CHAIN_ID,
     c_anchoredAt := nullish (nullish (w_anchoredAt res) (c_anchoredAt c)) (Some now1),
     c_blockNumber := nullish (w_blockNumber res) (c_blockNumber c),
     c_anchorStatus := ANCHOR_anchored, c_chainStatus := ''ANCHORED'', c_chainSyncedAt := Some now2,
     c_anchorVersion := ''V2'', c_issuerWallet := i_wallet i,
     c_chainVerificationMetadata := Some (chainMetadata OP_anchor (w_alreadyProcessed res))\<rparr>)"

definition recordAnchored :: "env \<Rightarrow> anchorJob \<Rightarrow> credential \<times> issuer \<Rightarrow> chainResult \<Rightarrow> unit prog" where
  "recordAnchored E job ci res = transaction E (
     bind (newDate E) (\<lambda>now1. bind (newDate E) (\<lambda>now2.
     bind (updateCredential E (c_id (fst ci)) (anchoredRow res now1 now2 ci)) (\<lambda>_.
     persistLifecycleLog E (c_id (fst ci)) \<lparr>lc_operation = OP_anchor, lc_status = ANCHOR_anchored,
       lc_txHash = nullish (w_txHash res) (c_txHash (fst ci)), lc_chainId = Some CHAIN_ID,
       lc_blockNumber = nullish (w_blockNumber res) (c_blockNumber (fst ci)),
       lc_attempts = aj_attemptsMade job + 1, lc_errorMessage = None\<rparr>))))"

definition revokedRow :: "chainResult \<Rightarrow> time \<Rightarrow> credential \<Rightarrow> credential \<Rightarrow> credential" where
  "revokedRow res now c row = row\<lparr>
     c_revocationTxHash := nullish (w_txHash res) (c_revocationTxHash c),
     c_chainStatus := ''REVOKED'', c_chainSyncedAt := Some now,
     c_chainVerificationMetadata := Some (chainMetadata OP_revoke (w_alreadyProcessed res))\<rparr>"

definition recordRevoked :: "env \<Rightarrow> anchorJob \<Rightarrow> credential \<Rightarrow> chainResult \<Rightarrow> unit prog" where
  "recordRevoked E job c res = transaction E (
     bind (newDate E) (\<lambda>now.
     bind (updateCredential E (c_id c) (revokedRow res now c)) (\<lambda>_.
     persistLifecycleLog E (c_id c) \<lparr>lc_operation = OP_revoke, lc_status = ''REVOKED'',
       lc_txHash = w_txHash res, lc_chainId = Some CHAIN_ID, lc_blockNumber = w_blockNumber res,
       lc_attempts = aj_attemptsMade job + 1, lc_errorMessage = None\<rparr>)))"

definition finalStatus :: "string \<Rightarrow> (credential \<Rightarrow> credential) option" where
  "finalStatus operation =
     (if operation = OP_anchor then
        Some (\<lambda>c. c\<lparr>c_anchorStatus := ANCHOR_failed, c_chainStatus := ANCHOR_failed\<rparr>)
      else if operation = OP_revoke then Some (\<lambda>c. c\<lparr>c_chainStatus := CHAIN_revokeFailed\<rparr>)
      else None)"

definition isFinalAttempt :: "anchorJob \<Rightarrow> bool" where
  "isFinalAttempt job \<longleftrightarrow> aj_attemptsMade job + 1 \<ge> orElse (aj_attempts job) 1"

definition recordFailure :: "env \<Rightarrow> anchorJob \<Rightarrow> string \<Rightarrow> string \<Rightarrow> unit prog" where
  "recordFailure E job i message = transaction E (
     andThen (case (if isFinalAttempt job then finalStatus (aj_operation job) else None) of
         None \<Rightarrow> ret () | Some f \<Rightarrow> bind (updateCredential E i f) (\<lambda>_. ret ()))
     (persistLifecycleLog E i \<lparr>lc_operation = aj_operation job,
       lc_status = (if isFinalAttempt job then ANCHOR_failed else ''RETRYING''), lc_txHash = None,
       lc_chainId = None, lc_blockNumber = None, lc_attempts = aj_attemptsMade job + 1,
       lc_errorMessage = Some message\<rparr>))"

definition runOperation :: "env \<Rightarrow> anchorJob \<Rightarrow> credential \<times> issuer \<Rightarrow> jobResult prog" where
  "runOperation E job ci =
     (if aj_operation job = OP_anchor
      then bind (anchorCredentialOnChain E ci) (\<lambda>res.
        andThen (recordAnchored E job ci res)
        (ret \<lparr>jr_status = ANCHOR_anchored, jr_credentialId = c_id (fst ci), jr_txHash = w_txHash res\<rparr>))
      else andThen (guardNot (aj_operation job \<noteq> OP_revoke)
          (JsError (''Unsupported operation '' @ aj_operation job @ '' on the credential anchor queue.'')))
        (bind (revokeCredentialOnChain E ci) (\<lambda>res.
         andThen (recordRevoked E job (fst ci) res)
         (ret \<lparr>jr_status = ''REVOKED'', jr_credentialId = c_id (fst ci), jr_txHash = w_txHash res\<rparr>))))"

definition processCredentialAnchor :: "env \<Rightarrow> anchorJob \<Rightarrow> jobResult prog" where
  "processCredentialAnchor E job =
     bind (findCredential E (\<lambda>_ c. c_id c = aj_credentialId job)) (\<lambda>found. case found of
       None \<Rightarrow> throw (JsError (''Credential '' @ aj_credentialId job @ '' not found.''))
     | Some ci \<Rightarrow> tryCatch (runOperation E job ci)
         (\<lambda>e. andThen (recordFailure E job (c_id (fst ci)) (exnMessage e)) (throw e)))"

end
