(* ===== verification/Worlds.thy ===== *)
theory Worlds
  imports Prisma
begin

text \<open>
  Relations between the worlds before and after a program: the locale \<open>world_order\<close> composes a
  reflexive and transitive relation that ticks and roll-backs respect; \<open>step_intros\<close> collects its
  rules. The storage is one thing most programs leave alone.
\<close>

subsection \<open>Relations on worlds\<close>

named_theorems step_intros

definition steps :: "(world \<Rightarrow> world \<Rightarrow> bool) \<Rightarrow> 'a prog \<Rightarrow> bool" where
  "steps rw m \<longleftrightarrow> (\<forall>w. rw w (snd (m w)))"

lemma stepsD: "steps rw m \<Longrightarrow> m w = (x, w') \<Longrightarrow> rw w w'"
  by (metis steps_def snd_conv)

locale world_order =
  fixes rw :: "world \<Rightarrow> world \<Rightarrow> bool"
  assumes step_refl: "rw w w"
    and step_trans: "rw w w' \<Longrightarrow> rw w' w'' \<Longrightarrow> rw w w''"
    and step_tick: "rw w (nextTick w)"
    and step_rollback: "rw w w' \<Longrightarrow> rw w (w'\<lparr>database := database w\<rparr>)"
begin

lemma steps_ret [step_intros]: "steps rw (ret x)"
  by (simp add: steps_def ret_def step_refl)

lemma steps_throw [step_intros]: "steps rw (throw e)"
  by (simp add: steps_def throw_def step_refl)

lemma steps_guardNot [step_intros]: "steps rw (guardNot b e)"
  by (simp add: guardNot_def steps_ret steps_throw)

lemma steps_liftE [step_intros]: "steps rw (liftE m)"
  by (simp add: liftE_def steps_ret steps_throw split: sum.splits)

lemma steps_bind [step_intros]: "steps rw m \<Longrightarrow> (\<And>x. steps rw (f x)) \<Longrightarrow> steps rw (bind m f)"
  by (auto simp: steps_def bind_def split: prod.splits sum.splits) (metis step_trans snd_conv)+

lemma steps_andThen [step_intros]: "steps rw m \<Longrightarrow> steps rw n \<Longrightarrow> steps rw (andThen m n)"
  by (simp add: andThen_def steps_bind)

lemma steps_tryCatch [step_intros]:
  "steps rw m \<Longrightarrow> (\<And>e. steps rw (h e)) \<Longrightarrow> steps rw (tryCatch m h)"
  by (auto simp: steps_def tryCatch_def split: prod.splits sum.splits) (metis step_trans snd_conv)+

lemma steps_if [step_intros]:
  "(b \<Longrightarrow> steps rw m) \<Longrightarrow> (\<not> b \<Longrightarrow> steps rw n) \<Longrightarrow> steps rw (if b then m else n)"
  by simp

lemma steps_option [step_intros]:
  "(x = None \<Longrightarrow> steps rw m) \<Longrightarrow> (\<And>y. x = Some y \<Longrightarrow> steps rw (n y)) \<Longrightarrow>
   steps rw (case x of None \<Rightarrow> m | Some y \<Rightarrow> n y)"
  by (cases x) simp_all

lemma steps_prod [step_intros]:
  "(\<And>a b. p = (a, b) \<Longrightarrow> steps rw (m a b)) \<Longrightarrow> steps rw (case p of (a, b) \<Rightarrow> m a b)"
  by (cases p) simp

lemma steps_Let [step_intros]: "(\<And>y. y = x \<Longrightarrow> steps rw (m y)) \<Longrightarrow> steps rw (Let x m)"
  by (simp add: Let_def)

lemma steps_newDate [step_intros]: "steps rw (newDate E)"
  by (simp add: steps_def newDate_def step_tick)

lemma steps_query [step_intros]: "steps rw (query E f)"
  by (auto simp: steps_def query_def external_def step_tick split: option.splits)

lemma steps_findCredential [step_intros]: "steps rw (findCredential E P)"
  unfolding findCredential_def requireRelation_def
  by (intro step_intros)

lemma steps_external: "(\<And>w. rw w (snd (m (nextTick w)))) \<Longrightarrow> steps rw (external E mk m)"
  by (auto simp: steps_def external_def step_tick split: option.splits)

lemma steps_exec:
  assumes "\<And>w x d'. stmt (clock E (tick w)) (cuid E (tick w)) (database w) = Inr (x, d') \<Longrightarrow>
    rw w ((nextTick w)\<lparr>database := d'\<rparr>)"
  shows "steps rw (exec E stmt)"
  using assms
  by (auto simp: steps_def exec_def external_def step_tick split: option.splits sum.splits)

lemma steps_rpcCall:
  assumes "\<And>w e. f (tick w) (others E (tick w) (chain w)) = Inl e \<Longrightarrow>
      rw w ((nextTick w)\<lparr>chain := others E (tick w) (chain w)\<rparr>)"
    and "\<And>w x r. f (tick w) (others E (tick w) (chain w)) = Inr (x, r) \<Longrightarrow>
      rw w ((nextTick w)\<lparr>chain := r\<rparr>)"
  shows "steps rw (rpcCall E f)"
  using assms
  by (auto simp: steps_def rpcCall_def external_def Let_def step_tick split: option.splits sum.splits)

lemma steps_transaction [step_intros]:
  assumes "steps rw m" shows "steps rw (transaction E m)"
proof -
  have "steps rw (bind m (\<lambda>x. external E PrismaFault (ret x)))"
    by (intro steps_bind assms steps_external) (simp add: ret_def step_tick)
  then show ?thesis
    by (auto simp: steps_def transaction_def intro: step_rollback split: prod.splits sum.splits)
      (metis snd_conv step_rollback)+
qed

end

subsection \<open>Programs that leave the storage alone\<close>

interpretation stored: world_order "\<lambda>w w'. storage w' = storage w"
  by unfold_locales simp_all

lemma stored_exec [step_intros]: "steps (\<lambda>w w'. storage w' = storage w) (exec E stmt)"
  by (rule stored.steps_exec) simp

end
