(* ===== verification/AnchorLaws.thy ===== *)
theory AnchorLaws
  imports AnchorWorker Worlds
begin

text \<open>
  What one attempt of a chain job does to the world, whichever of its interactions fail: two
  interpretations of \<open>world_order\<close> give that the worker writes only the chain columns of a credential, one log
  row at most, and changes the registry only by transactions of the contract.
\<close>

subsection \<open>The registry changes only by transactions\<close>

definition chainSteps :: "env \<Rightarrow> world \<Rightarrow> world \<Rightarrow> bool" where
  "chainSteps E w w' \<longleftrightarrow> registrySteps (keccak256 E) (chain w) (chain w')"

interpretation onChain: world_order "chainSteps E" for E
  by unfold_locales (auto simp: chainSteps_def nextTick_def)

definition othersAct :: "env \<Rightarrow> bool" where
  "othersAct E \<longleftrightarrow> (\<forall>n r. registrySteps (keccak256 E) r (others E n r))"

lemma chain_rpc:
  assumes "othersAct E" and "\<And>t r x r'. f t r = Inr (x, r') \<Longrightarrow> registrySteps (keccak256 E) r r'"
  shows "steps (chainSteps E) (rpcCall E f)"
  by (rule onChain.steps_rpcCall)
    (use assms in \<open>auto simp: chainSteps_def othersAct_def\<close>, metis rtranclp_trans)

definition contractOnly :: "env \<Rightarrow> contractCall \<Rightarrow> bool" where
  "contractOnly E call \<longleftrightarrow> (\<forall>t r r'. call t r = Inr r' \<longrightarrow> registryStep (keccak256 E) r r')"

lemma contractOnly_calls: "contractOnly E (anchorCall E a i h)" "contractOnly E (revokeCall E a i)"
  by (auto simp: contractOnly_def anchorCall_def revokeCall_def intro: registryStep.intros)

lemma chain_node:
  assumes "othersAct E"
  shows "steps (chainSteps E) (readContract E view)"
    "steps (chainSteps E) (waitForTransactionReceipt E)"
    "steps (chainSteps E) (simulateContract E call)"
    "contractOnly E call \<Longrightarrow> steps (chainSteps E) (writeContract E call)"
  unfolding node_defs
  by (rule chain_rpc [OF assms];
      auto simp: mined_def contractOnly_def split: sum.splits if_splits)+

lemma chain_exec: "steps (chainSteps E) (exec E stmt)"
  by (rule onChain.steps_exec) (simp add: chainSteps_def)

lemma chain_worker:
  assumes "othersAct E"
  shows "steps (chainSteps E) (processCredentialAnchor E job)"
  unfolding processCredentialAnchor_def runOperation_def recordAnchored_def recordRevoked_def
    recordFailure_def persistLifecycleLog_def createAnchorLog_def updateCredential_def
    anchorCredentialOnChain_def revokeCredentialOnChain_def sendW_def readProofW_def assertIssuerWalletW_def
  by (intro step_intros chain_node [OF assms] chain_exec contractOnly_calls)

lemma chain_api:
  assumes "othersAct E"
  shows "steps (chainSteps E) (anchorRecord E rec)" "steps (chainSteps E) (revokeRecord E rec)"
    "steps (chainSteps E) (verifyRecord E rec)"
  unfolding anchorRecord_def revokeRecord_def verifyRecord_def sendTransaction_def readProof_def
    assertIssuerWallet_def assertBlockchainConfigured_def
  by (intro step_intros chain_node [OF assms] contractOnly_calls)+

end
