(* ===== verification/AnchorRecovery.thy ===== *)
theory AnchorRecovery
  imports AnchorLaws
begin

text \<open>
  Retrying an anchor job. Whatever a first attempt did before it failed (nothing, a transaction the
  worker never saw the receipt of, a proof on chain that the database does not know), the tables and
  the registry are still in a state from which an attempt without failures succeeds; and an attempt
  that finds the proof already on chain does not touch the registry.
\<close>

subsection \<open>Which states an attempt can start from\<close>

definition signer :: "env \<Rightarrow> address" where
  "signer E = accountOf E (the (cfg_privateKey (cfg E)))"

definition proofHex :: "credential \<Rightarrow> string" where
  "proofHex c = ''0x'' @ toLowerCase (trim (c_chainProofHash c))"

definition proofOnChain :: "env \<Rightarrow> credential \<Rightarrow> registry \<Rightarrow> bool" where
  "proofOnChain E c r \<longleftrightarrow> (let p = credentialsAt r (keccak256 E (c_id c)) in
     cr_exists p \<and> cr_proofHash p = hexBytes32 E (proofHex c) \<and> cr_issuer p = signer E \<and>
     \<not> cr_revoked p)"

definition anchorableOnChain :: "env \<Rightarrow> credential \<Rightarrow> registry \<Rightarrow> bool" where
  "anchorableOnChain E c r \<longleftrightarrow> authorizedIssuers r (signer E) \<and> (proofOnChain E c r \<or>
     \<not> cr_exists (credentialsAt r (keccak256 E (c_id c))) \<and>
     credentialKeyByProofHash r (hexBytes32 E (proofHex c)) = 0)"

text \<open>Other accounts use the contract, but not this credential, its hash or this issuer.\<close>

definition undisturbed :: "env \<Rightarrow> credential \<Rightarrow> bool" where
  "undisturbed E c \<longleftrightarrow> (\<forall>n r.
     credentialsAt (others E n r) (keccak256 E (c_id c)) = credentialsAt r (keccak256 E (c_id c)) \<and>
     credentialKeyByProofHash (others E n r) (hexBytes32 E (proofHex c))
       = credentialKeyByProofHash r (hexBytes32 E (proofHex c)) \<and>
     authorizedIssuers (others E n r) (signer E) = authorizedIssuers r (signer E))"

definition workerConfigured :: "env \<Rightarrow> credential \<Rightarrow> issuer \<Rightarrow> bool" where
  "workerConfigured E c i \<longleftrightarrow> isConfigured E \<and>
     getAddress E (the (cfg_contractAddress (cfg E))) \<noteq> None \<and>
     isHex64 (toLowerCase (trim (c_chainProofHash c))) \<and> c_id c \<noteq> [] \<and>
     hexBytes32 E (proofHex c) \<noteq> 0 \<and> bytes32Text E (hexBytes32 E (proofHex c)) = proofHex c \<and>
     (\<exists>w a. i_wallet i = Some w \<and> trim w \<noteq> [] \<and> getAddress E (trim w) = Some a \<and>
        getAddress E w = Some a \<and> isAddressEqual E (addressText E (signer E)) a)"

definition logsFresh :: "env \<Rightarrow> world \<Rightarrow> bool" where
  "logsFresh E w \<longleftrightarrow> al_id ` set (anchorLogs (database w)) \<subseteq> cuid E ` {..<tick w}"

definition hideChain :: "credential \<Rightarrow> credential" where
  "hideChain c = c\<lparr>c_txHash := None, c_revocationTxHash := None, c_chainId := None,
     c_anchoredAt := None, c_blockNumber := None, c_anchorStatus := [], c_chainStatus := [],
     c_chainSyncedAt := None, c_anchorVersion := [], c_issuerWallet := None,
     c_chainVerificationMetadata := None, c_updatedAt := 0\<rparr>"

text \<open>The order of an attempt on the tables: chain columns of one credential, new log rows.\<close>

definition workerOrder :: "string \<Rightarrow> db \<Rightarrow> db \<Rightarrow> bool" where
  "workerOrder i d d' \<longleftrightarrow>
     d'\<lparr>credentials := [], anchorLogs := []\<rparr> = d\<lparr>credentials := [], anchorLogs := []\<rparr> \<and>
     list_all2 (\<lambda>c c'. hideChain c' = hideChain c \<and> (c_id c \<noteq> i \<longrightarrow> c' = c))
       (credentials d) (credentials d') \<and>
     (\<exists>rows. anchorLogs d' = anchorLogs d @ rows \<and> (\<forall>r \<in> set rows. al_credentialId r = i))"

lemma hideChain_id: "hideChain c' = hideChain c \<Longrightarrow> c_id c' = c_id c"
  by (cases c; cases c'; simp add: hideChain_def)

lemma workerOrder_refl [simp]: "workerOrder i d d"
  by (simp add: workerOrder_def list_all2_refl)

lemma workerOrder_trans: "workerOrder i a b \<Longrightarrow> workerOrder i b c \<Longrightarrow> workerOrder i a c"
proof -
  assume ab: "workerOrder i a b" and bc: "workerOrder i b c"
  let ?P = "\<lambda>c c'. hideChain c' = hideChain c \<and> (c_id c \<noteq> i \<longrightarrow> c' = c)"
  have "list_all2 ?P (credentials a) (credentials b)" "list_all2 ?P (credentials b) (credentials c)"
    using ab bc by (simp_all add: workerOrder_def)
  moreover have "?P x y \<Longrightarrow> ?P y z \<Longrightarrow> ?P x z" for x y z
    by (auto dest: hideChain_id)
  ultimately have "list_all2 ?P (credentials a) (credentials c)"
    by (rule list_all2_trans [rotated])
  with ab bc show ?thesis by (auto simp: workerOrder_def)
qed

interpretation worker: db_order "workerOrder i" for i
  by unfold_locales (auto intro: workerOrder_trans)

lemma hideChain_rows:
  "hideChain (anchoredRow res t1 t2 ci r) = hideChain r" "hideChain (revokedRow res t1 c r) = hideChain r"
  "finalStatus op = Some f \<Longrightarrow> hideChain (f r) = hideChain r"
  by (auto simp: hideChain_def anchoredRow_def revokedRow_def finalStatus_def split: prod.split if_splits)

lemma worker_update:
  assumes "\<And>x. hideChain (f x) = hideChain x"
  shows "keeps (workerOrder i) (updateCredential E i f)"
  unfolding updateCredential_def
proof (rule worker.keeps_exec)
  fix t cu d x d'
  assume "(case updateIn credConflict (\<lambda>r. c_id r = i) (\<lambda>r. (f r)\<lparr>c_updatedAt := t\<rparr>) (credentials d) of
      Inl e \<Rightarrow> Inl e
    | Inr (r, rows) \<Rightarrow> Inr ((r, issuerOf d (c_issuerId r)), d\<lparr>credentials := rows\<rparr>)) = Inr (x, d')"
  then have d': "d' = d\<lparr>credentials := map (\<lambda>r. if c_id r = i then (f r)\<lparr>c_updatedAt := t\<rparr> else r) (credentials d)\<rparr>"
    by (auto simp: updateIn_Inr split: sum.splits)
  have "hideChain ((f r)\<lparr>c_updatedAt := t\<rparr>) = hideChain r" for r
    using assms [of r] by (simp add: hideChain_def)
  then show "workerOrder i d d'"
    unfolding d' workerOrder_def by (auto simp: list_all2_conv_all_nth)
qed

lemma worker_log: "keeps (workerOrder i) (persistLifecycleLog E i x)"
  unfolding persistLifecycleLog_def createAnchorLog_def
  by (intro worker.keeps_bind worker.keeps_ret worker.keeps_exec)
    (auto simp: workerOrder_def insertInto_Inr list_all2_refl split: sum.splits)

lemma worker_reads:
  "keeps (workerOrder i) (anchorCredentialOnChain E ci)" "keeps (workerOrder i) (revokeCredentialOnChain E ci)"
  unfolding anchorCredentialOnChain_def revokeCredentialOnChain_def sendW_def readProofW_def
    assertIssuerWalletW_def node_defs
  by (intro worker.keeps_prod worker.keeps_andThen worker.keeps_bind worker.keeps_if worker.keeps_option
      worker.keeps_Let worker.keeps_ret worker.keeps_throw worker.keeps_liftE worker.keeps_guardNot
      worker.keeps_rpcCall worker.keeps_newDate)+

lemma worker_found:
  assumes "\<And>c j. c_id c = k \<Longrightarrow> keeps (workerOrder i) (f (Some (c, j)))" and "keeps (workerOrder i) (f None)"
  shows "keeps (workerOrder i) (bind (findCredential E (\<lambda>_ c. c_id c = k)) f)"
proof -
  have "wp (bind (findCredential E (\<lambda>_ c. c_id c = k)) f)
      (\<lambda>_ w'. workerOrder i (database w) (database w')) (\<lambda>_ w'. workerOrder i (database w) (database w')) w" for w
  proof -
    have some: "wp (f (Some (c, j))) (\<lambda>_ w'. workerOrder i (database w) (database w'))
        (\<lambda>_ w'. workerOrder i (database w) (database w')) (nextTick w)"
      if "List.find (\<lambda>c. c_id c = k) (credentials (database w)) = Some c" for c j
      using keeps_wp [OF assms(1) [of c j], of "nextTick w"] that by (auto simp: find_Some_iff)
    show ?thesis
      using some keeps_wp [OF assms(2), of "nextTick w"]
      unfolding findCredential_def wp_bind wp_query requireRelation_def
      by (auto simp: wp_simps split: option.splits)
  qed
  then show ?thesis by (simp add: keeps_def wp_def case_prod_beta split: sum.splits)
qed

text \<open>
  Safety: whatever job the worker takes and whatever fails, it writes nothing but the chain
  columns of the credential the job names and log rows of that credential: no signed or printed field,
  no revocation, no other row.
\<close>
theorem worker_writes_chain_columns:
  "workerOrder (aj_credentialId job) (database w) (database (snd (processCredentialAnchor E job w)))"
proof -
  have "keeps (workerOrder (aj_credentialId job)) (processCredentialAnchor E job)"
    unfolding processCredentialAnchor_def
  proof (rule worker_found)
    fix c :: credential and j :: issuer assume c: "c_id c = aj_credentialId job"
    show "keeps (workerOrder (aj_credentialId job)) (case Some (c, j) of
        None \<Rightarrow> throw (JsError (''Credential '' @ aj_credentialId job @ '' not found.''))
      | Some ci \<Rightarrow> tryCatch (runOperation E job ci)
          (\<lambda>e. andThen (recordFailure E job (c_id (fst ci)) (exnMessage e)) (throw e)))"
      unfolding runOperation_def recordAnchored_def recordRevoked_def recordFailure_def
      by (simp add: c split del: if_split cong: option.case_cong if_cong)
        (intro worker.keeps_tryCatch worker.keeps_if worker.keeps_bind worker.keeps_andThen
          worker.keeps_transaction worker.keeps_newDate worker.keeps_ret worker.keeps_throw
          worker.keeps_guardNot worker.keeps_option worker_reads worker_update worker_log hideChain_rows;
         simp split: if_splits)
  qed (simp add: worker.keeps_throw)
  then show ?thesis by (simp add: keeps_def)
qed

subsection \<open>What an attempt keeps\<close>

definition attemptStep :: "env \<Rightarrow> credential \<Rightarrow> world \<Rightarrow> world \<Rightarrow> bool" where
  "attemptStep E c w w' \<longleftrightarrow> tick w \<le> tick w' \<and> workerOrder (c_id c) (database w) (database w') \<and>
     (logsFresh E w \<longrightarrow> logsFresh E w') \<and>
     (anchorableOnChain E c (chain w) \<longrightarrow> anchorableOnChain E c (chain w'))"

lemma logsFresh_later:
  "logsFresh E w \<Longrightarrow> database w' = database w \<Longrightarrow> tick w \<le> tick w' \<Longrightarrow> logsFresh E w'"
  by (auto simp: logsFresh_def)

interpretation attempt: world_order "attemptStep E c" for E c
proof
  fix a b d assume "attemptStep E c a b" "attemptStep E c b d"
  then show "attemptStep E c a d"
    unfolding attemptStep_def by (meson workerOrder_trans order_trans)
next
  fix w w' assume "attemptStep E c w w'"
  then show "attemptStep E c w (w'\<lparr>database := database w\<rparr>)"
    by (auto simp: attemptStep_def intro: logsFresh_later)
qed (auto simp: attemptStep_def intro: logsFresh_later)

lemma attempt_log: "steps (attemptStep E c) (persistLifecycleLog E (c_id c) x)"
  unfolding persistLifecycleLog_def createAnchorLog_def
proof (intro attempt.steps_bind attempt.steps_exec attempt.steps_ret)
  fix w :: world and r d'
  let ?row = "\<lparr>al_id = cuid E (tick w), al_credentialId = c_id c, al_operation = lc_operation x,
    al_status = lc_status x, al_txHash = lc_txHash x, al_chainId = lc_chainId x,
    al_blockNumber = lc_blockNumber x, al_attempts = lc_attempts x, al_errorMessage = lc_errorMessage x,
    al_createdAt = clock E (tick w), al_updatedAt = clock E (tick w)\<rparr>"
  assume "(case insertInto (\<lambda>x. firstConflict [([''id''], \<lambda>r. al_id r = al_id x)]) ?row
      (anchorLogs (database w)) of Inl e \<Rightarrow> Inl e
    | Inr rows \<Rightarrow> Inr (?row, database w\<lparr>anchorLogs := rows\<rparr>)) = Inr (r, d')"
  then have "d' = database w\<lparr>anchorLogs := anchorLogs (database w) @ [?row]\<rparr>"
    by (auto simp: insertInto_Inr split: sum.splits)
  then show "attemptStep E c w (nextTick w\<lparr>database := d'\<rparr>)"
    by (auto simp: attemptStep_def workerOrder_def logsFresh_def list_all2_refl lessThan_Suc)
qed

lemma attempt_update:
  assumes "\<And>x. hideChain (f x) = hideChain x"
  shows "steps (attemptStep E c) (updateCredential E (c_id c) f)"
  unfolding updateCredential_def
proof (rule attempt.steps_exec)
  fix w :: world and x d'
  assume "(case updateIn credConflict (\<lambda>r. c_id r = c_id c) (\<lambda>r. (f r)\<lparr>c_updatedAt := clock E (tick w)\<rparr>)
      (credentials (database w)) of Inl e \<Rightarrow> Inl e
    | Inr (r, rows) \<Rightarrow> Inr ((r, issuerOf (database w) (c_issuerId r)), database w\<lparr>credentials := rows\<rparr>))
    = Inr (x, d')"
  then have d': "d' = database w\<lparr>credentials := map (\<lambda>r. if c_id r = c_id c
      then (f r)\<lparr>c_updatedAt := clock E (tick w)\<rparr> else r) (credentials (database w))\<rparr>"
    by (auto simp: updateIn_Inr split: sum.splits)
  have "hideChain ((f r)\<lparr>c_updatedAt := t\<rparr>) = hideChain r" for r t
    using assms [of r] by (simp add: hideChain_def)
  then show "attemptStep E c w (nextTick w\<lparr>database := d'\<rparr>)"
    unfolding d' attemptStep_def workerOrder_def
    by (auto simp: list_all2_conv_all_nth logsFresh_def lessThan_Suc)
qed

text \<open>The worker's library, once the configuration is known to be complete.\<close>

lemma bind_simps [simp]:
  "bind (ret x) f = f x" "bind (throw e) f = throw e" "andThen (ret u) n = n"
  "liftE (Inr x) = ret x" "liftE (Inl e) = throw e" "guardNot False e = ret ()" "guardNot True e = throw e"
  by (auto simp: fun_eq_iff bind_def ret_def throw_def andThen_def liftE_def guardNot_def)

lemma configured_simps:
  assumes "workerConfigured E c i"
  shows "assertConfigured E = Inr ()" "getAccountW E = Inr (signer E)"
    "\<exists>a. normalizeAddress E (the (cfg_contractAddress (cfg E))) = Inr a"
    "toBytes32ProofHashW (c_chainProofHash c) = Inr (proofHex c)"
    "assertIssuerWalletW E (i_wallet i) = ret ()"
    "\<exists>a. normalizeAddress E (the (i_wallet i)) = Inr a \<and> isAddressEqual E (addressText E (signer E)) a"
proof -
  obtain w a where w: "i_wallet i = Some w" "trim w \<noteq> []" "getAddress E (trim w) = Some a"
    "getAddress E w = Some a" "isAddressEqual E (addressText E (signer E)) a"
    using assms by (auto simp: workerConfigured_def)
  show "assertConfigured E = Inr ()"
    using assms by (simp add: workerConfigured_def assertConfigured_def)
  then show account: "getAccountW E = Inr (signer E)"
    by (simp add: getAccountW_def signer_def)
  show "\<exists>a. normalizeAddress E (the (cfg_contractAddress (cfg E))) = Inr a"
    using assms by (auto simp: workerConfigured_def normalizeAddress_def)
  show "toBytes32ProofHashW (c_chainProofHash c) = Inr (proofHex c)"
    using assms by (simp add: workerConfigured_def toBytes32ProofHashW_def proofHex_def Let_def)
  show "assertIssuerWalletW E (i_wallet i) = ret ()"
    using w account by (simp add: assertIssuerWalletW_def trimOrNull_def normalizeAddress_def)
  show "\<exists>a. normalizeAddress E (the (i_wallet i)) = Inr a \<and> isAddressEqual E (addressText E (signer E)) a"
    using w by (simp add: normalizeAddress_def)
qed

lemma attempt_rpc:
  assumes "undisturbed E c"
    and "\<And>t r x r'. f t r = Inr (x, r') \<Longrightarrow> anchorableOnChain E c r \<Longrightarrow> anchorableOnChain E c r'"
  shows "steps (attemptStep E c) (rpcCall E f)"
proof -
  have "anchorableOnChain E c (others E n r) = anchorableOnChain E c r" for n r
    using assms(1) by (simp add: undisturbed_def anchorableOnChain_def proofOnChain_def)
  with assms(2) show ?thesis
    by (intro attempt.steps_rpcCall) (auto simp: attemptStep_def intro: logsFresh_later)
qed

lemma anchorCall_keeps:
  assumes "anchorCall E (signer E) (c_id c) (proofHex c) now r = Inr r'" "anchorableOnChain E c r"
  shows "anchorableOnChain E c r' \<and> proofOnChain E c r'"
  using assms
  by (auto simp: anchorCall_def anchorCredential_def emit_def Let_def anchorableOnChain_def
      proofOnChain_def split: if_splits)

lemma attempt_node:
  assumes "undisturbed E c"
  shows "steps (attemptStep E c) (readContract E view)"
    "steps (attemptStep E c) (waitForTransactionReceipt E)"
    "steps (attemptStep E c) (simulateContract E call)"
    "steps (attemptStep E c) (writeContract E (anchorCall E (signer E) (c_id c) (proofHex c)))"
  unfolding node_defs
  by (rule attempt_rpc [OF assms];
      auto simp: mined_def dest: anchorCall_keeps split: sum.splits if_splits)+

lemma attempt_anchoring:
  assumes "workerConfigured E c i" "undisturbed E c" "c_id c' = c_id c"
    "c_chainProofHash c' = c_chainProofHash c"
  shows "steps (attemptStep E c) (anchorCredentialOnChain E (c', i))"
proof -
  note conf = configured_simps [OF assms(1)]
  obtain a b where "normalizeAddress E (the (cfg_contractAddress (cfg E))) = Inr a"
    "normalizeAddress E (the (i_wallet i)) = Inr b" using conf(3,6) by auto
  with conf show ?thesis
    unfolding anchorCredentialOnChain_def readProofW_def sendW_def
    by (simp add: assms(3,4) cong: if_cong, intro step_intros attempt_node [OF assms(2)])
qed

lemma steps_wp: "steps rw m \<Longrightarrow> wp m (\<lambda>_ w'. rw w w') (\<lambda>_ w'. rw w w') w"
  by (auto simp: steps_def wp_def split: prod.splits sum.splits) (metis snd_conv)+

text \<open>The row of the job, as the attempt finds it.\<close>

definition jobRow :: "credential \<Rightarrow> issuer \<Rightarrow> db \<Rightarrow> credential \<Rightarrow> bool" where
  "jobRow c i d c' \<longleftrightarrow> List.find (\<lambda>x. c_id x = c_id c) (credentials d) = Some c' \<and>
     hideChain c' = hideChain c \<and> issuerOf d (c_issuerId c) = Some i"

lemma hideChain_fields: "hideChain c' = hideChain c \<Longrightarrow> c_id c' = c_id c \<and>
    c_chainProofHash c' = c_chainProofHash c \<and> c_issuerId c' = c_issuerId c \<and>
    uniqueFields c' = uniqueFields c"
  by (cases c; cases c'; simp add: hideChain_def uniqueFields_def)

lemma wp_findJob:
  assumes "jobRow c i (database w) c'"
  shows "wp (findCredential E (\<lambda>_ x. c_id x = c_id c)) Q R w =
    (case fault E (tick w) of Some msg \<Rightarrow> R (PrismaFault msg) (nextTick w)
     | None \<Rightarrow> Q (Some (c', i)) (nextTick w))"
  using assms hideChain_fields [of c' c]
  by (simp add: findCredential_def jobRow_def wp_simps requireRelation_def split: option.split)

lemma attempt_job:
  assumes "workerConfigured E c i" "undisturbed E c" "jobRow c i (database w) c'"
    and job: "aj_credentialId job = c_id c" "aj_operation job = OP_anchor"
    and run: "processCredentialAnchor E job w = (x, w')"
  shows "attemptStep E c w w'"
proof -
  have c': "c_id c' = c_id c" "c_chainProofHash c' = c_chainProofHash c"
    using assms(3) hideChain_fields [of c' c] by (auto simp: jobRow_def)
  have hide: "hideChain (anchoredRow res t1 t2 (c', i) r) = hideChain r"
    "\<And>f. finalStatus OP_anchor = Some f \<Longrightarrow> hideChain (f r) = hideChain r" for res t1 t2 r
    by (auto simp: hideChain_def anchoredRow_def finalStatus_def)
  have "steps (attemptStep E c) (tryCatch (runOperation E job (c', i))
      (\<lambda>e. andThen (recordFailure E job (c_id (fst (c', i))) (exnMessage e)) (throw e)))"
    unfolding runOperation_def recordAnchored_def recordFailure_def
    using job by (simp add: c' split del: if_split cong: option.case_cong, intro step_intros
      attempt_anchoring [OF assms(1,2) c'] attempt_log attempt_update) (auto simp: hide split: if_splits)
  from steps_wp [OF this, of "nextTick w"]
  have "wp (processCredentialAnchor E job) (\<lambda>_ w'. attemptStep E c w w') (\<lambda>_ w'. attemptStep E c w w') w"
    unfolding processCredentialAnchor_def wp_bind job wp_findJob [OF assms(3)]
    by (auto split: option.splits intro: attempt.step_tick attempt.step_trans elim!: wp_mono)
  then show ?thesis by (simp add: wp_def run split: sum.splits)
qed

subsection \<open>An attempt without failures succeeds\<close>

text \<open>
  No transaction runs out of gas; then an attempt that returns has anchored, and one that throws met
  a failed interaction.
\<close>

definition gasSuffices :: "env \<Rightarrow> bool" where
  "gasSuffices E \<longleftrightarrow> (\<forall>n. \<not> outOfGas E n)"

definition faulty :: "env \<Rightarrow> bool" where
  "faulty E \<longleftrightarrow> (\<exists>n. fault E n \<noteq> None)"

lemma faultyI: "fault E n = Some msg \<Longrightarrow> faulty E"
  by (auto simp: faulty_def)

lemma readProof_wp:
  assumes "workerConfigured E c i" "undisturbed E c" "anchorableOnChain E c (chain w)"
  shows "wp (readProofW E (c_id c)) (\<lambda>p w'. database w' = database w \<and> tick w \<le> tick w' \<and>
      anchorableOnChain E c (chain w') \<and> proofOnChain E c (chain w') = proofOnChain E c (chain w) \<and>
      cp_exists p = cr_exists (credentialsAt (chain w) (keccak256 E (c_id c))) \<and>
      (proofOnChain E c (chain w) \<longrightarrow> cp_documentHash p = proofHex c \<and>
         cp_issuer p = addressText E (signer E) \<and> cp_issuerAuthorized p \<and> \<not> cp_revoked p))
    (\<lambda>_ _. faulty E) w"
proof -
  obtain a where a: "normalizeAddress E (the (cfg_contractAddress (cfg E))) = Inr a"
    using configured_simps(3) [OF assms(1)] by auto
  have hex: "bytes32Text E (hexBytes32 E (proofHex c)) = proofHex c"
    using assms(1) by (simp add: workerConfigured_def)
  have unmoved: "credentialsAt (others E n r) (keccak256 E (c_id c)) = credentialsAt r (keccak256 E (c_id c))"
    "credentialKeyByProofHash (others E n r) (hexBytes32 E (proofHex c))
       = credentialKeyByProofHash r (hexBytes32 E (proofHex c))"
    "authorizedIssuers (others E n r) (signer E) = authorizedIssuers r (signer E)" for n r
    using assms(2) by (auto simp: undisturbed_def)
  show ?thesis
    using assms(3) unfolding readProofW_def node_defs
    by (auto simp: a configured_simps(1) [OF assms(1)] wp_simps unmoved hex proofOnChain_def
        anchorableOnChain_def credentialExists_def getCredentialHash_def getCredentialIssuer_def
        getCredentialTimestamp_def getCredentialRevocation_def isAuthorizedIssuer_def Let_def
        intro: faultyI split: option.splits)
qed

lemma anchorCall_ok:
  assumes "workerConfigured E c i" "anchorableOnChain E c r"
    "\<not> cr_exists (credentialsAt r (keccak256 E (c_id c)))"
  shows "\<exists>r'. anchorCall E (signer E) (c_id c) (proofHex c) t r = Inr r'"
  using assms by (simp add: workerConfigured_def anchorableOnChain_def proofOnChain_def anchorCall_def
      anchorCredential_def Let_def)

text \<open>
  What a run that returns leaves on chain: an existing proof, the proof it anchored if transactions
  have enough gas, nothing if they never have.
\<close>

definition afterSend :: "env \<Rightarrow> credential \<Rightarrow> registry \<Rightarrow> bool" where
  "afterSend E c r \<longleftrightarrow> (gasSuffices E \<longrightarrow> proofOnChain E c r) \<and>
     ((\<forall>n. outOfGas E n) \<longrightarrow> \<not> cr_exists (credentialsAt r (keccak256 E (c_id c))))"

definition leftOnChain :: "env \<Rightarrow> credential \<Rightarrow> registry \<Rightarrow> registry \<Rightarrow> bool" where
  "leftOnChain E c r r' \<longleftrightarrow> (if proofOnChain E c r then proofOnChain E c r' else afterSend E c r')"

lemma send_wp:
  assumes "workerConfigured E c i" "undisturbed E c" "anchorableOnChain E c (chain w)"
    "\<not> cr_exists (credentialsAt (chain w) (keccak256 E (c_id c)))"
  shows "wp (sendW E (\<lambda>account. anchorCall E account (c_id c) (proofHex c)))
    (\<lambda>res w'. database w' = database w \<and> tick w \<le> tick w' \<and> afterSend E c (chain w'))
    (\<lambda>_ _. faulty E) w"
proof -
  note conf = configured_simps [OF assms(1)]
  obtain a where a: "normalizeAddress E (the (cfg_contractAddress (cfg E))) = Inr a"
    using conf(3) by auto
  have anchorable: "anchorableOnChain E c (others E n r) = anchorableOnChain E c r"
    "proofOnChain E c (others E n r) = proofOnChain E c r"
    "credentialsAt (others E n r) (keccak256 E (c_id c)) = credentialsAt r (keccak256 E (c_id c))" for n r
    using assms(2) by (simp_all add: undisturbed_def anchorableOnChain_def proofOnChain_def)
  let ?r1 = "others E (tick w) (chain w)" and ?r2 = "others E (Suc (tick w)) (others E (tick w) (chain w))"
  obtain r1 where r1: "anchorCall E (signer E) (c_id c) (proofHex c) (blockTime E (tick w)) ?r1 = Inr r1"
    using anchorCall_ok [OF assms(1), of ?r1] assms(3,4) by (auto simp: anchorable)
  obtain r2 where r2:
    "anchorCall E (signer E) (c_id c) (proofHex c) (blockTime E (Suc (tick w))) ?r2 = Inr r2"
    using anchorCall_ok [OF assms(1), of ?r2] assms(3,4) by (auto simp: anchorable)
  have "proofOnChain E c r2"
    using anchorCall_keeps [OF r2] assms(3) by (simp add: anchorable)
  then show ?thesis
    unfolding sendW_def node_defs
    using assms(4) by (auto simp: conf a wp_simps r1 r2 mined_def anchorable faultyI afterSend_def
        gasSuffices_def split: option.split)
qed

lemma anchoring_wp:
  assumes "workerConfigured E c i" "undisturbed E c" "anchorableOnChain E c (chain w)"
    "c_id c' = c_id c" "c_chainProofHash c' = c_chainProofHash c"
  shows "wp (anchorCredentialOnChain E (c', i))
    (\<lambda>res w'. database w' = database w \<and> tick w \<le> tick w' \<and> leftOnChain E c (chain w) (chain w'))
    (\<lambda>_ _. faulty E) w"
proof -
  note conf = configured_simps [OF assms(1)]
  obtain b where b: "normalizeAddress E (the (i_wallet i)) = Inr b"
    "isAddressEqual E (addressText E (signer E)) b" using conf(6) by auto
  let ?Q = "\<lambda>res w'. database w' = database w \<and> tick w \<le> tick w' \<and> leftOnChain E c (chain w) (chain w')"
  let ?body = "\<lambda>p. if cp_exists p then if cp_documentHash p = proofHex c \<and>
          isAddressEqual E (cp_issuer p) b \<and> cp_issuerAuthorized p \<and> \<not> cp_revoked p
        then ret \<lparr>w_txHash = c_txHash c', w_blockNumber = c_blockNumber c',
          w_anchoredAt = Some (orElse (c_anchoredAt c') (int (unat (cp_issuedAt p)) * 1000)),
          w_alreadyProcessed = True\<rparr>
        else throw (JsError ''On-chain proof already exists with mismatched data.'')
      else bind (sendW E (\<lambda>account. anchorCall E account (c_id c) (proofHex c)))
        (\<lambda>(txHash, blockNumber). bind (newDate E) (\<lambda>now.
         ret \<lparr>w_txHash = Some txHash, w_blockNumber = Some blockNumber, w_anchoredAt = Some now,
           w_alreadyProcessed = False\<rparr>))"
  have prog: "anchorCredentialOnChain E (c', i) = bind (readProofW E (c_id c)) ?body"
    using assms(4,5) by (simp add: anchorCredentialOnChain_def conf b(1) cong: if_cong)
  have rest: "wp (?body p) ?Q (\<lambda>_ _. faulty E) w1"
    if w1: "database w1 = database w" "tick w \<le> tick w1" "anchorableOnChain E c (chain w1)"
      "proofOnChain E c (chain w1) = proofOnChain E c (chain w)"
      "cp_exists p = cr_exists (credentialsAt (chain w) (keccak256 E (c_id c)))"
      "proofOnChain E c (chain w) \<longrightarrow> cp_documentHash p = proofHex c \<and>
         cp_issuer p = addressText E (signer E) \<and> cp_issuerAuthorized p \<and> \<not> cp_revoked p" for p w1
  proof (cases "proofOnChain E c (chain w)")
    case True
    then have "cp_exists p" using w1(5) by (simp add: proofOnChain_def Let_def)
    with True w1 b(2) show ?thesis by (simp add: wp_simps leftOnChain_def)
  next
    case False
    then have "\<not> cr_exists (credentialsAt (chain w1) (keccak256 E (c_id c)))"
        "\<not> cr_exists (credentialsAt (chain w) (keccak256 E (c_id c)))"
      using w1(3,4) assms(3) by (auto simp: anchorableOnChain_def)
    with False show ?thesis
      using w1 by (auto simp: wp_simps leftOnChain_def intro!: wp_mono [OF send_wp [OF assms(1,2) w1(3)]])
  qed
  show ?thesis
    unfolding prog wp_bind
    by (rule wp_mono [OF readProof_wp [OF assms(1-3)]]) (blast intro: rest)+
qed

subsection \<open>Recording the outcome\<close>

definition recordedAnchored :: "credential \<Rightarrow> db \<Rightarrow> bool" where
  "recordedAnchored c d \<longleftrightarrow> (\<exists>row log. List.find (\<lambda>x. c_id x = c_id c) (credentials d) = Some row \<and>
     c_anchorStatus row = ANCHOR_anchored \<and> c_chainStatus row = ''ANCHORED'' \<and>
     log \<in> set (anchorLogs d) \<and> al_credentialId log = c_id c \<and> al_operation log = OP_anchor \<and>
     al_status log = ANCHOR_anchored)"

lemma freshLog:
  assumes "logsFresh E w" "inj (cuid E)" "tick w \<le> n"
  shows "cuid E n \<notin> al_id ` set (anchorLogs (database w))"
proof
  assume "cuid E n \<in> al_id ` set (anchorLogs (database w))"
  then obtain m where "m < tick w" "cuid E n = cuid E m"
    using assms(1) unfolding logsFresh_def by blast
  with assms(2,3) show False by (auto dest: injD)
qed

lemma log_wp:
  assumes "logsFresh E w" "inj (cuid E)" "tick w \<le> tick w1"
    "anchorLogs (database w1) = anchorLogs (database w)"
  shows "wp (persistLifecycleLog E i x)
    (\<lambda>_ w'. chain w' = chain w1 \<and> credentials (database w') = credentials (database w1) \<and>
       (\<exists>log. log \<in> set (anchorLogs (database w')) \<and> al_credentialId log = i \<and>
          al_operation log = lc_operation x \<and> al_status log = lc_status x))
    (\<lambda>_ _. faulty E) w1"
proof -
  have ins: "insertInto (\<lambda>x. firstConflict [([''id''], \<lambda>r. al_id r = al_id x)]) r
      (anchorLogs (database w1)) = Inr (anchorLogs (database w1) @ [r])"
    if "al_id r = cuid E (tick w1)" for r
    using freshLog [OF assms(1-3)] assms(4) that by (auto simp: insertInto_Inr firstConflict_None image_iff)
  show ?thesis
    unfolding persistLifecycleLog_def createAnchorLog_def wp_bind wp_exec wp_ret
    by (cases "fault E (tick w1)"; simp add: ins faultyI; rule exI, rule conjI, rule disjI1, rule refl, simp)
qed

lemma update_wp:
  assumes "credUnique d" "List.find (\<lambda>x. c_id x = i) (credentials d) = Some x" "database w = d"
    and f: "\<And>r. uniqueFields (f r) = uniqueFields r"
  shows "wp (updateCredential E i f)
    (\<lambda>_ w'. chain w' = chain w \<and> anchorLogs (database w') = anchorLogs d \<and> tick w \<le> tick w' \<and>
       List.find (\<lambda>x. c_id x = i) (credentials (database w')) = Some ((f x)\<lparr>c_updatedAt := clock E (tick w)\<rparr>))
    (\<lambda>_ _. faulty E) w"
proof -
  let ?f = "\<lambda>r. (f r)\<lparr>c_updatedAt := clock E (tick w)\<rparr>"
  have u: "uniqueFields (?f r) = uniqueFields r" for r
    using f [of r] by (simp add: uniqueFields_def)
  then have "c_id (?f r) = c_id r" for r
    unfolding uniqueFields_def by blast
  then have "List.find (\<lambda>x. c_id x = i) (map (\<lambda>r. if c_id r = i then ?f r else r) (credentials d))
      = Some (?f x)"
    using find_map_update [of ?f i "credentials d"] assms(2) by simp
  with update_accepted [OF assms(1,2), of ?f] u assms(3) show ?thesis
    by (auto simp: updateCredential_def wp_simps intro: faultyI split: option.splits)
qed

lemma record_wp:
  assumes "credUnique (database w)" "jobRow c i (database w) c'" "logsFresh E w" "inj (cuid E)"
  shows "wp (recordAnchored E job (c', i) res)
    (\<lambda>_ w'. chain w' = chain w \<and> recordedAnchored c (database w')) (\<lambda>_ _. faulty E) w"
proof -
  have row: "List.find (\<lambda>x. c_id x = c_id c) (credentials (database w)) = Some c'" "c_id c' = c_id c"
    using assms(2) hideChain_fields [of c' c] by (auto simp: jobRow_def)
  have u: "uniqueFields (anchoredRow res t1 t2 (c', i) r) = uniqueFields r" for t1 t2 and r :: credential
    by (simp add: uniqueFields_def anchoredRow_def)
  have s: "c_anchorStatus (anchoredRow res t1 t2 (c', i) r) = ANCHOR_anchored"
    "c_chainStatus (anchoredRow res t1 t2 (c', i) r) = ''ANCHORED''" for t1 t2 and r :: credential
    by (simp_all add: anchoredRow_def)
  note upd = update_wp [OF assms(1) row(1), of "nextTick (nextTick w)"
      "anchoredRow res (clock E (tick w)) (clock E (tick (nextTick w))) (c', i)" E]
  show ?thesis
    unfolding recordAnchored_def wp_transaction wp_bind wp_newDate fst_conv row(2)
  proof (rule wp_mono [OF upd], goal_cases)
    case (3 x w1)
    from 3 show ?case
      by (intro wp_mono [OF log_wp [OF assms(3,4), of w1]])
        (auto simp: recordedAnchored_def s intro: faultyI split: option.splits)
  qed (simp_all add: u)
qed

lemma wp_rethrow: "P \<Longrightarrow> wp (andThen m (throw e)) Q (\<lambda>_ _. P) w"
  by (auto simp: wp_def andThen_def bind_def throw_def split: prod.splits sum.splits)

definition anchorState :: "env \<Rightarrow> credential \<Rightarrow> issuer \<Rightarrow> world \<Rightarrow> bool" where
  "anchorState E c i w \<longleftrightarrow> credUnique (database w) \<and> (\<exists>c'. jobRow c i (database w) c') \<and>
     logsFresh E w \<and> anchorableOnChain E c (chain w)"

definition anchorOf :: "credential \<Rightarrow> anchorJob \<Rightarrow> bool" where
  "anchorOf c job \<longleftrightarrow> aj_credentialId job = c_id c \<and> aj_operation job = OP_anchor"

lemma job_wp:
  assumes "workerConfigured E c i" "undisturbed E c" "inj (cuid E)"
    "anchorState E c i w" "anchorOf c job"
  shows "wp (processCredentialAnchor E job)
    (\<lambda>res w'. jr_status res = ANCHOR_anchored \<and> leftOnChain E c (chain w) (chain w') \<and>
       recordedAnchored c (database w')) (\<lambda>_ _. faulty E) w"
proof -
  obtain c' where c': "jobRow c i (database w) c'" using assms(4) by (auto simp: anchorState_def)
  have same: "c_id c' = c_id c" "c_chainProofHash c' = c_chainProofHash c"
    using c' hideChain_fields [of c' c] by (auto simp: jobRow_def)
  have job: "aj_credentialId job = c_id c" "aj_operation job = OP_anchor"
    using assms(5) by (simp_all add: anchorOf_def)
  have state: "credUnique (database w)" "logsFresh E w" "anchorableOnChain E c (chain w)"
    using assms(4) by (simp_all add: anchorState_def)
  let ?good = "\<lambda>res w'. jr_status res = ANCHOR_anchored \<and> leftOnChain E c (chain w) (chain w') \<and>
       recordedAnchored c (database w')"
  have run: "wp (runOperation E job (c', i)) ?good (\<lambda>_ _. faulty E) w1"
    if w1: "w1 = nextTick w" for w1
  proof -
    have "wp (bind (anchorCredentialOnChain E (c', i)) (\<lambda>res. andThen (recordAnchored E job (c', i) res)
        (ret \<lparr>jr_status = ANCHOR_anchored, jr_credentialId = c_id c', jr_txHash = w_txHash res\<rparr>)))
      ?good (\<lambda>_ _. faulty E) w1"
      unfolding wp_bind wp_andThen wp_ret
    proof (rule wp_mono [OF anchoring_wp [OF assms(1,2) _ same]], goal_cases)
      case (2 res w2)
      then have w2: "credUnique (database w2)" "jobRow c i (database w2) c'" "logsFresh E w2"
        using state c' w1 by (auto intro: logsFresh_later)
      show ?case
        by (rule wp_mono [OF record_wp [OF w2 assms(3)]]) (use 2 w1 in auto)
    qed (simp_all add: w1 state)
    then show ?thesis by (simp add: runOperation_def job)
  qed
  show ?thesis
    unfolding processCredentialAnchor_def wp_bind job wp_findJob [OF c']
    by (auto simp: wp_tryCatch intro!: wp_mono [OF run] wp_rethrow intro: faultyI split: option.splits)
qed

subsection \<open>Properties\<close>

text \<open>The environment of a later attempt, in which nothing fails.\<close>

definition quietEnv :: "env \<Rightarrow> env" where
  "quietEnv E = E\<lparr>fault := (\<lambda>_. None), outOfGas := (\<lambda>_. False)\<rparr>"

lemma quietEnv_same:
  "workerConfigured (quietEnv E) c i = workerConfigured E c i"
  "undisturbed (quietEnv E) c = undisturbed E c" "cuid (quietEnv E) = cuid E"
  "anchorState (quietEnv E) c i w = anchorState E c i w"
  "proofOnChain (quietEnv E) c r = proofOnChain E c r"
  "gasSuffices (quietEnv E)" "\<not> faulty (quietEnv E)" "fault (quietEnv E) n = None"
  by (simp_all add: quietEnv_def workerConfigured_def undisturbed_def anchorState_def logsFresh_def
      anchorableOnChain_def proofOnChain_def signer_def isConfigured_def gasSuffices_def faulty_def)

lemma workerOrder_row:
  assumes "workerOrder (c_id c) d d'" "jobRow c i d c1"
  shows "\<exists>c2. jobRow c i d' c2"
proof -
  have hide: "list_all2 (\<lambda>c c'. hideChain c' = hideChain c) (credentials d) (credentials d')"
    using assms(1) by (auto simp: workerOrder_def elim: list_all2_mono)
  then have "\<exists>c2. List.find (\<lambda>x. c_id x = c_id c) (credentials d') = Some c2 \<and> hideChain c2 = hideChain c1"
    if "List.find (\<lambda>x. c_id x = c_id c) (credentials d) = Some c1"
    using that by (induction rule: list_all2_induct) (auto dest: hideChain_id split: if_splits)
  moreover have "issuers d' = issuers d"
    using assms(1) unfolding workerOrder_def by (cases d; cases d'; simp)
  ultimately show ?thesis
    using assms(2) by (auto simp: jobRow_def issuerOf_def)
qed

lemma workerOrder_unique:
  assumes "workerOrder k d d'" "credUnique d" shows "credUnique d'"
proof -
  have all: "list_all2 (\<lambda>c c'. uniqueFields c' = uniqueFields c) (credentials d) (credentials d')"
    using assms(1) by (auto simp: workerOrder_def elim!: list_all2_mono dest: hideChain_fields)
  then have "length (credentials d') = length (credentials d)" by (simp add: list_all2_lengthD)
  moreover have "compatible (credentials d' ! a) (credentials d' ! b) =
      compatible (credentials d ! a) (credentials d ! b)"
    if "a < b" "b < length (credentials d)" for a b
    using that all by (intro compatible_cong) (auto simp: list_all2_conv_all_nth)
  ultimately show ?thesis
    using assms(2) by (auto simp: credUnique_def sorted_wrt_iff_nth_less)
qed

lemma attempt_state:
  assumes "workerConfigured E c i" "undisturbed E c" "anchorState E c i w" "anchorOf c job"
    "processCredentialAnchor E job w = (x, w')"
  shows "anchorState E c i w'"
proof -
  obtain c1 where c1: "jobRow c i (database w) c1" using assms(3) by (auto simp: anchorState_def)
  have "attemptStep E c w w'"
    using attempt_job [OF assms(1,2) c1 _ _ assms(5)] assms(4) by (simp add: anchorOf_def)
  then show ?thesis
    using assms(3) workerOrder_row [OF _ c1] workerOrder_unique
    by (auto simp: attemptStep_def anchorState_def)
qed

text \<open>
  C6. Functional: an anchor job that returns has put the expected hash on chain under the configured
  signer, unrevoked, and recorded the credential and a log row as anchored in one transaction, provided
  transactions do not run out of gas and other accounts leave this credential alone.
\<close>
theorem anchored_job_is_on_chain:
  assumes "workerConfigured E c i" "undisturbed E c" "gasSuffices E" "inj (cuid E)"
    and "anchorState E c i w" "anchorOf c job"
    and "processCredentialAnchor E job w = (Inr res, w')"
  shows "proofOnChain E c (chain w') \<and> recordedAnchored c (database w')"
  using wp_Inr [OF job_wp [OF assms(1,2,4-6)] assms(7)] assms(3)
  by (auto simp: leftOnChain_def afterSend_def split: if_splits)

text \<open>
  C5. Liveness: after any first attempt of an anchor job, whatever failed in it (a lost receipt, a
  refused commit, a transaction without gas), an attempt in which nothing fails returns and leaves
  the proof on chain and the credential recorded as anchored.
\<close>
theorem anchoring_recovers:
  assumes "workerConfigured E c i" "undisturbed E c" "inj (cuid E)"
    and "anchorState E c i w" "anchorOf c job" "anchorOf c retry"
    and "processCredentialAnchor E job w = (x, w1)"
  shows "\<exists>res w2. processCredentialAnchor (quietEnv E) retry w1 = (Inr res, w2) \<and>
    proofOnChain E c (chain w2) \<and> recordedAnchored c (database w2)"
proof -
  have "anchorState E c i w1"
    by (rule attempt_state [OF assms(1,2,4,5,7)])
  with assms have run: "wp (processCredentialAnchor (quietEnv E) retry)
    (\<lambda>res w'. jr_status res = ANCHOR_anchored \<and> leftOnChain (quietEnv E) c (chain w1) (chain w') \<and>
       recordedAnchored c (database w')) (\<lambda>_ _. faulty (quietEnv E)) w1"
    by (intro job_wp) (simp_all add: quietEnv_same)
  then show ?thesis
    by (auto simp: wp_def quietEnv_same leftOnChain_def afterSend_def split: prod.splits sum.splits if_splits)
qed

text \<open>
  Error behaviour: the worker never looks at the status of the receipt. A transaction that was
  accepted by the simulation and then reverts for lack of gas (the limit is fixed at 180000) is
  recorded as an anchored credential although the registry holds no proof of it.
\<close>
theorem reverted_anchor_recorded:
  assumes "workerConfigured E c i" "undisturbed E c" "inj (cuid E)"
    and "anchorState E c i w" "\<not> credentialExists (keccak256 E) (c_id c) (chain w)" "anchorOf c job"
    and "\<And>n. fault E n = None" "\<And>n. outOfGas E n"
  shows "\<exists>res w'. processCredentialAnchor E job w = (Inr res, w') \<and> jr_status res = ANCHOR_anchored \<and>
    recordedAnchored c (database w') \<and> \<not> credentialExists (keccak256 E) (c_id c) (chain w')"
proof -
  have "\<not> proofOnChain E c (chain w)"
    using assms(5) by (auto simp: proofOnChain_def credentialExists_def Let_def)
  with job_wp [OF assms(1-4,6)] assms(7,8) show ?thesis
    by (auto simp: wp_def leftOnChain_def afterSend_def credentialExists_def faulty_def
        split: prod.splits sum.splits)
qed

subsection \<open>A concrete registry and job\<close>

definition authorizedSample :: registry where
  "authorizedSample = (deploy 7)\<lparr>authorizedIssuers := (\<lambda>_. False)(9 := True)\<rparr>"

definition anchorWorld :: world where
  "anchorWorld = registryWorld\<lparr>chain := authorizedSample\<rparr>"

definition sampleJob :: anchorJob where
  "sampleJob = \<lparr>aj_credentialId = ''crd_1'', aj_operation = OP_anchor, aj_attemptsMade = 0,
     aj_attempts = Some 5\<rparr>"

abbreviation "firstCredential \<equiv> sampleCredential ''1'' ''Ann'' ''41''"

definition failingEnv :: "nat \<Rightarrow> env" where
  "failingEnv k = sampleEnv\<lparr>fault := (\<lambda>n. if n = k then Some ''timeout'' else None)\<rparr>"

lemma sampleProof: "c_chainProofHash firstCredential = replicate 63 (CHR ''a'') @ ''1''"
  "c_id firstCredential = ''crd_1''" "i_wallet sampleIssuer = Some ''0xA''"
  by (simp_all add: sampleCredential_def sampleIssuer_def)

lemma sampleProofHex: "toLowerCase (trim (replicate 63 (CHR ''a'') @ ''1'')) = replicate 63 (CHR ''a'') @ ''1''"
  "isHex64 (replicate 63 (CHR ''a'') @ ''1'')"
  by code_simp+

lemma sampleConfigured: "workerConfigured (failingEnv k) firstCredential sampleIssuer"
proof -
  have "unat (of_nat (of_char (CHR ''1'')) :: bytes32) = 49" "(of_nat (of_char (CHR ''1'')) :: bytes32) \<noteq> 0"
    "trim ''0xA'' = ''0xA''" "char_of (49::nat) = CHR ''1''"
    by code_simp+
  then show ?thesis
    unfolding workerConfigured_def proofHex_def sampleProof sampleProofHex
    by (simp add: sampleProofHex failingEnv_def sampleEnv_def isConfigured_def sampleConfig_def truthy_def
        signer_def)
qed

lemma sampleUndisturbed: "undisturbed (failingEnv k) c" "inj (cuid (failingEnv k))"
  by (simp_all add: undisturbed_def failingEnv_def sampleEnv_def inj_def)

lemma sampleState: "anchorState (failingEnv k) firstCredential sampleIssuer anchorWorld"
proof -
  have "jobRow firstCredential sampleIssuer (database anchorWorld) firstCredential"
    by (simp add: jobRow_def anchorWorld_def registryWorld_credentials sampleCredential_def issuerOf_def)
      (simp add: registryWorld_def sampleIssuer_def)
  moreover have "logsFresh (failingEnv k) anchorWorld"
    by (simp add: logsFresh_def anchorWorld_def registryWorld_def emptyWorld_def emptyDb_def)
  moreover have "anchorableOnChain (failingEnv k) firstCredential (chain anchorWorld)"
    by (simp add: anchorableOnChain_def anchorWorld_def authorizedSample_def deploy_def noRecord_def
        signer_def failingEnv_def sampleEnv_def)
  ultimately show ?thesis
    using registryWorld_unique by (auto simp: anchorState_def anchorWorld_def)
qed

lemma sampleJob_anchor: "anchorOf firstCredential sampleJob"
  by (simp add: anchorOf_def sampleJob_def sampleProof)

text \<open>The receipt of the first attempt is lost; the second finds the proof.\<close>

theorem anchoring_recovers_witness:
  "let w1 = snd (processCredentialAnchor (failingEnv 9) sampleJob anchorWorld) in
   \<exists>res w2. processCredentialAnchor (quietEnv (failingEnv 9)) sampleJob w1 = (Inr res, w2) \<and>
     proofOnChain (failingEnv 9) firstCredential (chain w2)"
  using anchoring_recovers [OF sampleConfigured sampleUndisturbed sampleState sampleJob_anchor
      sampleJob_anchor prod.collapse [symmetric]]
  unfolding Let_def by blast

theorem anchored_job_is_on_chain_witness:
  "\<exists>res w2. processCredentialAnchor (quietEnv (failingEnv 0)) sampleJob anchorWorld = (Inr res, w2) \<and>
     recordedAnchored firstCredential (database w2)"
proof -
  have pre: "workerConfigured (quietEnv (failingEnv 0)) firstCredential sampleIssuer"
    "undisturbed (quietEnv (failingEnv 0)) firstCredential" "gasSuffices (quietEnv (failingEnv 0))"
    "inj (cuid (quietEnv (failingEnv 0)))"
    "anchorState (quietEnv (failingEnv 0)) firstCredential sampleIssuer anchorWorld"
    using sampleConfigured sampleUndisturbed sampleState by (simp_all add: quietEnv_same)
  obtain res w2 where run:
      "processCredentialAnchor (quietEnv (failingEnv 0)) sampleJob anchorWorld = (Inr res, w2)"
    using job_wp [OF pre(1,2,4,5) sampleJob_anchor]
    by (auto simp: wp_def quietEnv_same split: prod.splits sum.splits)
  with anchored_job_is_on_chain [OF pre sampleJob_anchor run] show ?thesis by blast
qed

theorem reverted_anchor_recorded_witness:
  "\<exists>res w'. processCredentialAnchor ((quietEnv (failingEnv 0))\<lparr>outOfGas := \<lambda>_. True\<rparr>) sampleJob anchorWorld
     = (Inr res, w') \<and> recordedAnchored firstCredential (database w') \<and>
     \<not> credentialExists sampleKeccak ''crd_1'' (chain w')"
proof -
  let ?E = "(quietEnv (failingEnv 0))\<lparr>outOfGas := \<lambda>_. True\<rparr>"
  have same: "workerConfigured ?E c i = workerConfigured (failingEnv 0) c i"
    "undisturbed ?E c = undisturbed (failingEnv 0) c" "cuid ?E = cuid (failingEnv 0)"
    "anchorState ?E c i w = anchorState (failingEnv 0) c i w" "keccak256 ?E = sampleKeccak"
    "fault ?E n = None" "outOfGas ?E n" for c i w n
    by (simp_all add: quietEnv_def workerConfigured_def undisturbed_def anchorState_def logsFresh_def
        anchorableOnChain_def proofOnChain_def signer_def isConfigured_def)
      (simp add: failingEnv_def sampleEnv_def)
  have "\<not> credentialExists (keccak256 ?E) (c_id firstCredential) (chain anchorWorld)"
    by (simp add: credentialExists_def anchorWorld_def authorizedSample_def deploy_def noRecord_def)
  then have "\<exists>res w'. processCredentialAnchor ?E sampleJob anchorWorld = (Inr res, w') \<and>
      jr_status res = ANCHOR_anchored \<and> recordedAnchored firstCredential (database w') \<and>
      \<not> credentialExists (keccak256 ?E) (c_id firstCredential) (chain w')"
    using sampleConfigured sampleUndisturbed sampleState sampleJob_anchor
    by (intro reverted_anchor_recorded) (simp_all add: same quietEnv_same(8))
  then show ?thesis
    unfolding same sampleProof by blast
qed

end
