(* ===== verification/Verification.thy ===== *)
theory Verification
  imports CredentialLifecycle Blockchain
begin

text \<open>
  Public verification (\<open>modules/verification/verification.service.ts\<close> and its controller): looking a
  credential up by any of its references, by hash or by an uploaded PDF, asking the blockchain client
  for its on-chain proof, recomputing the signature, the verdict, the log row and counter of every
  lookup, the public responses, and the proof and verifiable-credential exports.
\<close>

datatype verificationStatus = VALID | INVALID | REVOKED | NOT_FOUND | TAMPERED | INTEGRITY_VERIFIED
  | DOCUMENT_MODIFIED | NO_SECURE_PDF_RECORD

fun statusName :: "verificationStatus \<Rightarrow> string" where
  "statusName VALID = ''VALID''"
| "statusName INVALID = ''INVALID''"
| "statusName REVOKED = ''REVOKED''"
| "statusName NOT_FOUND = ''NOT_FOUND''"
| "statusName TAMPERED = ''TAMPERED''"
| "statusName INTEGRITY_VERIFIED = ''INTEGRITY_VERIFIED''"
| "statusName DOCUMENT_MODIFIED = ''DOCUMENT_MODIFIED''"
| "statusName NO_SECURE_PDF_RECORD = ''NO_SECURE_PDF_RECORD''"

subsection \<open>The signature verdict\<close>

record signatureBlock =
  sb_algorithm :: string
  sb_signingKeyId :: string
  sb_publicKey :: string
  sb_signatureValid :: bool

definition buildSignatureBlock :: "env \<Rightarrow> credential \<Rightarrow> signingKey option \<Rightarrow> signatureBlock option" where
  "buildSignatureBlock E c key = (case key of None \<Rightarrow> None | Some k \<Rightarrow>
     if \<not> truthy (c_signature c) \<or> \<not> truthy (c_publicPayload c) then None
     else Some \<lparr>sb_algorithm = orElse (c_signatureAlgorithm c) ''Ed25519'',
       sb_signingKeyId = k_keyId k, sb_publicKey = k_publicKey k,
       sb_signatureValid = verifyEd25519 E (the (c_publicPayload c)) (the (c_signature c))
         (k_publicKey k)\<rparr>)"

definition signatureBlockValue :: "signatureBlock option \<Rightarrow> value" where
  "signatureBlockValue sb = (case sb of None \<Rightarrow> VNull | Some b \<Rightarrow> VObj
     [(''algorithm'', VStr (sb_algorithm b)), (''signingKeyId'', VStr (sb_signingKeyId b)),
      (''publicKey'', VStr (sb_publicKey b)), (''signatureValid'', VBool (sb_signatureValid b))])"

subsection \<open>The verdict\<close>

definition chainRevoked :: "chainVerification option \<Rightarrow> bool" where
  "chainRevoked v \<longleftrightarrow> (case v of None \<Rightarrow> False
     | Some r \<Rightarrow> (case bv_proof r of None \<Rightarrow> False | Some p \<Rightarrow> pr_revoked p))"

definition chainMismatch :: "chainVerification option \<Rightarrow> bool" where
  "chainMismatch v \<longleftrightarrow> map_option bv_status v = Some MISMATCH"

definition resolveStatus ::
  "credential \<times> issuer \<Rightarrow> chainVerification option \<Rightarrow> bool option \<Rightarrow> verificationStatus" where
  "resolveStatus ci v signatureValid =
     (if i_status (snd ci) \<noteq> ISSUER_ACTIVE then INVALID
      else if chainMismatch v then TAMPERED
      else if chainRevoked v \<or> c_revoked (fst ci) then REVOKED
      else if signatureValid = Some False then TAMPERED
      else VALID)"

definition trustCheck :: "string \<Rightarrow> string \<Rightarrow> bool \<Rightarrow> value" where
  "trustCheck key label ok = VObj [(''key'', VStr key), (''label'', VStr label), (''ok'', VBool ok)]"

definition archivedV1 :: "chainVerification option \<Rightarrow> bool" where
  "archivedV1 v \<longleftrightarrow> map_option bv_status v = Some ARCHIVED_V1"

definition buildTrustChecks :: "credential option \<Rightarrow> chainVerification option \<Rightarrow> value" where
  "buildTrustChecks c v = (let proof = (case v of None \<Rightarrow> None | Some r \<Rightarrow> bv_proof r);
       issuerAuthorized = (case proof of Some p \<Rightarrow> pr_issuerAuthorized p | None \<Rightarrow> archivedV1 v);
       anchored = ((case v of None \<Rightarrow> False | Some r \<Rightarrow> bv_verified r) \<or> archivedV1 v);
       active = (case c of None \<Rightarrow> False | Some r \<Rightarrow> \<not> c_revoked r \<and> \<not> chainRevoked v)
     in VArr [trustCheck ''integrity'' ''Credential Integrity Verified'' (\<not> chainMismatch v \<and> c \<noteq> None),
       trustCheck ''issuer'' ''Official Issuer Confirmed'' issuerAuthorized,
       trustCheck ''chain'' ''Blockchain Proof Verified'' anchored,
       trustCheck ''active'' (if active then ''Credential Active'' else ''Credential Revoked'') active])"

subsection \<open>Recording a lookup\<close>

record verificationEvent =
  ve_createdAt :: time
  ve_ipAddress :: string
  ve_matched :: bool
  ve_status :: verificationStatus
  ve_uploadedHash :: "string option"
  ve_eventType :: VerificationEventType

definition verificationRow :: "string option \<Rightarrow> verificationEvent \<Rightarrow> string \<Rightarrow> verificationLog" where
  "verificationRow credentialId ev cu = \<lparr>vl_id = cu, vl_credentialId = credentialId,
     vl_eventType = ve_eventType ev, vl_uploadedHash = ve_uploadedHash ev, vl_matched = ve_matched ev,
     vl_status = statusName (ve_status ev), vl_ipAddress = Some (ve_ipAddress ev),
     vl_createdAt = ve_createdAt ev\<rparr>"

definition countVerification :: "time \<Rightarrow> credential \<Rightarrow> credential" where
  "countVerification createdAt c =
     c\<lparr>c_verificationCount := c_verificationCount c + 1, c_verifiedAt := Some createdAt\<rparr>"

definition recordUnmatched :: "env \<Rightarrow> verificationEvent \<Rightarrow> unit prog" where
  "recordUnmatched E ev = bind (createVerificationLog E (verificationRow None ev)) (\<lambda>_. ret ())"

definition recordVerification :: "env \<Rightarrow> string \<Rightarrow> verificationEvent \<Rightarrow> (credential \<times> issuer) prog" where
  "recordVerification E credentialId ev = transaction E (
     andThen (bind (createVerificationLog E (verificationRow (Some credentialId) ev)) (\<lambda>_. ret ()))
       (updateCredentialI E credentialId (countVerification (ve_createdAt ev))))"

subsection \<open>Lookups\<close>

definition keyOf :: "db \<Rightarrow> string option \<Rightarrow> signingKey option" where
  "keyOf d k = (case k of None \<Rightarrow> None | Some i \<Rightarrow> List.find (\<lambda>r. k_id r = i) (signingKeys d))"

text \<open>\<open>findFirst({ where, include: { issuer: true, signingKey: true } })\<close>\<close>

definition findSigned :: "env \<Rightarrow> (issuer option \<Rightarrow> credential \<Rightarrow> bool) \<Rightarrow>
    (credential \<times> issuer \<times> signingKey option) option prog" where
  "findSigned E P = bind (query E (\<lambda>d. map_option
       (\<lambda>c. ((c, keyOf d (c_signingKeyId c)), issuerOf d (c_issuerId c)))
       (List.find (\<lambda>c. P (issuerOf d (c_issuerId c)) c) (credentials d))))
     (\<lambda>found. bind (requireRelation found)
       (\<lambda>r. ret (map_option (\<lambda>((c, k), i). (c, i, k)) r)))"

record verifyDto =
  vd_credentialId :: "string option"
  vd_hash :: "string option"
  vd_issuerDomain :: "string option"

definition verifyWhere :: "verifyDto \<Rightarrow> issuer option \<Rightarrow> credential \<Rightarrow> bool" where
  "verifyWhere dto i c \<longleftrightarrow> c_deletedAt c = None \<and>
     (case vd_credentialId dto of None \<Rightarrow> True | Some x \<Rightarrow> c_id c = x) \<and>
     (truthy (vd_hash dto) \<longrightarrow> c_hash c = the (vd_hash dto) \<or> c_documentHash c = vd_hash dto) \<and>
     (truthy (vd_issuerDomain dto) \<longrightarrow> map_option i_domain i = vd_issuerDomain dto)"

definition referenceWhere :: "string \<Rightarrow> credential \<Rightarrow> bool" where
  "referenceWhere ref c \<longleftrightarrow> c_deletedAt c = None \<and> (c_credentialExternalId c = ref \<or>
     c_verificationId c = ref \<or> c_verificationCode c = ref \<or> c_signedVerificationToken c = ref)"

subsection \<open>Verification by identifier or hash\<close>

definition publicCredential :: "credential \<Rightarrow> value" where
  "publicCredential c = VObj [(''id'', VStr (c_id c)), (''verificationId'', VStr (c_verificationId c)),
     (''verificationMode'', VStr (modeName (c_verificationMode c))),
     (''securePdfEnabled'', VBool (c_securePdfEnabled c)), (''studentName'', VStr (c_studentName c)),
     (''degree'', VStr (c_degree c)), (''issuerId'', VStr (c_issuerId c)),
     (''revoked'', VBool (c_revoked c))]"

definition verifyResponse :: "verificationStatus \<Rightarrow> time \<Rightarrow> credential option \<Rightarrow>
    chainVerification option \<Rightarrow> value" where
  "verifyResponse status createdAt c v = VObj
     [(''result'', VStr (statusName status)), (''verifiedAtTimestamp'', VDate createdAt),
      (''blockchainVerified'', VBool (case v of None \<Rightarrow> False | Some r \<Rightarrow> bv_verified r)),
      (''blockchainStatus'', VStr (proofStatusName (case v of None \<Rightarrow> CHAIN_UNAVAILABLE | Some r \<Rightarrow> bv_status r))),
      (''txHash'', optStr (nullish (Option.bind v bv_txHash) (Option.bind c c_txHash))),
      (''blockNumber'', optNum (nullish (Option.bind v bv_blockNumber) (Option.bind c c_blockNumber))),
      (''anchoredAt'', optDate (nullish (Option.bind v bv_anchoredAt) (Option.bind c c_anchoredAt))),
      (''trustChecks'', buildTrustChecks c v),
      (''credential'', case c of None \<Rightarrow> VNull | Some r \<Rightarrow> publicCredential r)]"

definition verifyFound :: "env \<Rightarrow> verifyDto \<Rightarrow> string \<Rightarrow> time \<Rightarrow> credential \<times> issuer \<times> signingKey option \<Rightarrow>
    (verificationStatus \<times> value) prog" where
  "verifyFound E dto ip createdAt found = (case found of (c, i, k) \<Rightarrow>
     bind (verifyRecord E (anchorableOf (c, i))) (\<lambda>v.
     let status = resolveStatus (c, i) (Some v)
           (map_option sb_signatureValid (buildSignatureBlock E c k)) in
     andThen (bind (recordVerification E (c_id c) \<lparr>ve_createdAt = createdAt, ve_ipAddress = ip,
         ve_matched = True, ve_status = status,
         ve_uploadedHash = map_option toLowerCase (trimOrNull (vd_hash dto)),
         ve_eventType = REGISTRY_CODE_LOOKUP\<rparr>) (\<lambda>_. ret ()))
     (ret (status, verifyResponse status createdAt (Some c) (Some v)))))"

definition verify :: "env \<Rightarrow> verifyDto \<Rightarrow> string \<Rightarrow> (verificationStatus \<times> value) prog" where
  "verify E dto ip =
     andThen (guardNot (\<not> truthy (vd_credentialId dto) \<and> \<not> truthy (vd_hash dto))
       (BadRequest ''Provide credentialId or hash for verification''))
     (bind (newDate E) (\<lambda>createdAt.
      bind (findSigned E (verifyWhere dto)) (\<lambda>found. case found of
        Some x \<Rightarrow> verifyFound E dto ip createdAt x
      | None \<Rightarrow> andThen (recordUnmatched E \<lparr>ve_createdAt = createdAt, ve_ipAddress = ip,
            ve_matched = False, ve_status = NOT_FOUND,
            ve_uploadedHash = map_option toLowerCase (trimOrNull (vd_hash dto)),
            ve_eventType = REGISTRY_CODE_LOOKUP\<rparr>)
          (ret (NOT_FOUND, verifyResponse NOT_FOUND createdAt None None)))))"

subsection \<open>Verification by reference\<close>

definition buildIssuerResponse :: "issuer \<Rightarrow> value" where
  "buildIssuerResponse i = VObj [(''id'', VStr (i_id i)), (''name'', VStr (i_name i)),
     (''displayName'', optStr (i_displayName i)), (''domain'', VStr (i_domain i)),
     (''logoUrl'', optStr (i_logoUrl i)), (''websiteUrl'', optStr (i_websiteUrl i)),
     (''status'', VStr (issuerStatusName (i_status i)))]"

definition buildNotFoundResponse :: "time \<Rightarrow> (string \<times> value) list" where
  "buildNotFoundResponse createdAt =
     [(''credentialExternalId'', VNull), (''verificationId'', VNull), (''verificationCode'', VNull),
      (''verificationMode'', VNull), (''securePdfEnabled'', VBool False), (''valid'', VBool False),
      (''result'', VStr ''NOT_FOUND''), (''revoked'', VBool False), (''revocationReason'', VNull),
      (''metadataUri'', VNull), (''qrCodeUri'', VNull), (''certificateUri'', VNull),
      (''verificationUrl'', VNull), (''verificationCount'', VNum 0), (''verifiedAt'', VNull),
      (''issuer'', VNull), (''degree'', VNull), (''issuedAt'', VNull), (''revokedAt'', VNull),
      (''blockchainVerified'', VBool False),
      (''blockchainStatus'', VStr (proofStatusName NOT_ANCHORED)), (''txHash'', VNull),
      (''blockNumber'', VNull), (''anchoredAt'', VNull), (''trustChecks'', buildTrustChecks None None),
      (''verifiedAtTimestamp'', VDate createdAt), (''credential'', VNull)]"

definition buildFoundResponse :: "env \<Rightarrow> time \<Rightarrow> verificationStatus \<Rightarrow> credential \<times> issuer \<Rightarrow>
    chainVerification \<Rightarrow> signatureBlock option \<Rightarrow> (string \<times> value) list" where
  "buildFoundResponse E createdAt status ci v sb = (case ci of (c, i) \<Rightarrow>
     [(''credentialExternalId'', VStr (c_credentialExternalId c)),
      (''verificationId'', VStr (c_verificationId c)),
      (''verificationMode'', VStr (modeName (c_verificationMode c))),
      (''securePdfEnabled'', VBool (c_securePdfEnabled c)), (''valid'', VBool (status = VALID)),
      (''result'', VStr (statusName status)), (''revoked'', VBool (c_revoked c)),
      (''revocationReason'', optStr (map_option reasonName (c_revocationReason c))),
      (''metadataUri'', VStr (resolveMetadataUri E (c_id c) (Some (c_metadataUri c)))),
      (''qrCodeUri'', VStr (resolveQrCodeUri E (c_id c) (Some (c_qrCodeUri c)))),
      (''certificateUri'', VStr (resolveCertificateUri E (c_verificationId c) (c_certificateUri c))),
      (''verificationUrl'',
        VStr (resolveVerificationUrl E (c_credentialExternalId c) (Some (c_verificationUrl c)))),
      (''verificationCount'', VNum (c_verificationCount c)),
      (''verifiedAt'', optDate (c_verifiedAt c)), (''issuer'', buildIssuerResponse i),
      (''degree'', VStr (c_degree c)), (''issuedAt'', VDate (c_issuedAt c)),
      (''revokedAt'', optDate (c_revokedAt c)), (''blockchainVerified'', VBool (bv_verified v)),
      (''blockchainStatus'', VStr (proofStatusName (bv_status v))),
      (''txHash'', optStr (nullish (bv_txHash v) (c_txHash c))),
      (''blockNumber'', optNum (nullish (bv_blockNumber v) (c_blockNumber c))),
      (''anchoredAt'', optDate (nullish (bv_anchoredAt v) (c_anchoredAt c))),
      (''trustChecks'', buildTrustChecks (Some c) (Some v)), (''verifiedAtTimestamp'', VDate createdAt),
      (''credential'', VObj [(''id'', VStr (c_id c)), (''studentName'', VStr (c_studentName c))]),
      (''signature'', signatureBlockValue sb)])"

record resolved =
  rs_status :: verificationStatus
  rs_signature :: "signatureBlock option"
  rs_body :: "(string \<times> value) list"

definition lookupEvent ::
  "time \<Rightarrow> string \<Rightarrow> bool \<Rightarrow> verificationStatus \<Rightarrow> string option \<Rightarrow> VerificationEventType \<Rightarrow> verificationEvent" where
  "lookupEvent createdAt ip matched status hash eventType = \<lparr>ve_createdAt = createdAt,
     ve_ipAddress = ip, ve_matched = matched, ve_status = status, ve_uploadedHash = hash,
     ve_eventType = eventType\<rparr>"

definition resolveFound :: "env \<Rightarrow> string \<Rightarrow> VerificationEventType \<Rightarrow> time \<Rightarrow>
    credential \<times> issuer \<times> signingKey option \<Rightarrow> resolved prog" where
  "resolveFound E ip eventType createdAt found = (case found of (c, i, k) \<Rightarrow>
     let sb = buildSignatureBlock E c k in
     bind (verifyRecord E (anchorableOf (c, i))) (\<lambda>v.
     let status = resolveStatus (c, i) (Some v) (map_option sb_signatureValid sb) in
     bind (recordVerification E (c_id c) (lookupEvent createdAt ip True status None eventType))
     (\<lambda>current. ret \<lparr>rs_status = status, rs_signature = sb,
       rs_body = buildFoundResponse E createdAt status current v sb\<rparr>)))"

definition resolveCredentialReference ::
  "env \<Rightarrow> string \<Rightarrow> string \<Rightarrow> VerificationEventType \<Rightarrow> resolved prog" where
  "resolveCredentialReference E ref ip eventType =
     bind (newDate E) (\<lambda>createdAt.
     bind (findSigned E (\<lambda>_. referenceWhere ref)) (\<lambda>found. case found of
       Some x \<Rightarrow> resolveFound E ip eventType createdAt x
     | None \<Rightarrow> andThen (recordUnmatched E (lookupEvent createdAt ip False NOT_FOUND None eventType))
         (ret \<lparr>rs_status = NOT_FOUND, rs_signature = None,
           rs_body = buildNotFoundResponse createdAt @ [(''signature'', VNull)]\<rparr>)))"

definition verifyByVerificationId :: "env \<Rightarrow> string \<Rightarrow> string \<Rightarrow> resolved prog" where
  "verifyByVerificationId E v ip = resolveCredentialReference E v ip REGISTRY_CODE_LOOKUP"

definition verifyCredentialCode :: "env \<Rightarrow> string \<Rightarrow> string \<Rightarrow> resolved prog" where
  "verifyCredentialCode E ref ip = resolveCredentialReference E ref ip REGISTRY_CODE_LOOKUP"

text \<open>The controller's \<open>dto.verificationCode ?? dto.verificationId ?? ''\<close>.\<close>

definition verifyCodeEndpoint :: "env \<Rightarrow> string option \<Rightarrow> string option \<Rightarrow> string \<Rightarrow> resolved prog" where
  "verifyCodeEndpoint E code vid ip = verifyCredentialCode E (orElse (nullish code vid) []) ip"

subsection \<open>Exports\<close>

definition getCredentialProof :: "env \<Rightarrow> string \<Rightarrow> value prog" where
  "getCredentialProof E credentialId =
     bind (findSigned E (\<lambda>_ c. c_deletedAt c = None \<and>
       (c_credentialExternalId c = credentialId \<or> c_id c = credentialId))) (\<lambda>found.
     case found of
       Some (c, i, Some k) \<Rightarrow>
         (if \<not> truthy (c_signature c) \<or> \<not> truthy (c_publicPayload c)
          then throw (NotFound ''No verifiable signature for this credential'')
          else ret (VObj [(''credentialId'', VStr (c_credentialExternalId c)),
            (''publicPayload'', VStr (the (c_publicPayload c))), (''signature'', VStr (the (c_signature c))),
            (''signatureAlgorithm'', VStr (orElse (c_signatureAlgorithm c) ''Ed25519'')),
            (''issuer'', VObj [(''domain'', VStr (i_domain i)),
              (''name'', VStr (orElse (i_displayName i) (i_name i))),
              (''signingKeyId'', VStr (k_keyId k)), (''publicKey'', VStr (k_publicKey k))]),
            (''blockchain'', VObj [(''anchored'', VBool (truthy (c_txHash c))),
              (''chainId'', optNum (c_chainId c)), (''txHash'', optStr (c_txHash c)),
              (''anchoredAt'', optDate (c_anchoredAt c))])]))
     | _ \<Rightarrow> throw (NotFound ''No verifiable signature for this credential''))"

definition getCredentialVc :: "env \<Rightarrow> string \<Rightarrow> value prog" where
  "getCredentialVc E credentialId =
     bind (query E (\<lambda>d. List.find (\<lambda>c. c_credentialExternalId c = credentialId \<or> c_id c = credentialId)
       (credentials d))) (\<lambda>found.
     case Option.bind found c_vcDocument of
       None \<Rightarrow> throw (NotFound ''No verifiable credential export for this credential'')
     | Some doc \<Rightarrow> andThen (guardNot (c_revoked (the found) \<or> c_deletedAt (the found) \<noteq> None)
           (Gone ''This credential has been revoked.''))
         (ret doc))"

subsection \<open>Verification of uploaded documents\<close>

definition qrMembers :: "string option \<Rightarrow> (string \<times> value) list" where
  "qrMembers ref = [(''resolvedReference'', optStr ref), (''referenceSource'', VStr ''QR'')]"

definition verifyCredentialPdf :: "env \<Rightarrow> uploadedFile option \<Rightarrow> string \<Rightarrow> resolved prog" where
  "verifyCredentialPdf E upload ip = bind (prepareUploadedPdf E upload) (\<lambda>file.
     case extractReferenceFromPdfBuffer E (uf_buffer file) (Some CredentialKind) of
       None \<Rightarrow> bind (newDate E) (\<lambda>createdAt.
         andThen (recordUnmatched E (lookupEvent createdAt ip False NOT_FOUND None QR_LOOKUP))
           (ret \<lparr>rs_status = NOT_FOUND, rs_signature = None,
             rs_body = buildNotFoundResponse createdAt @ qrMembers None\<rparr>))
     | Some ref \<Rightarrow> bind (resolveCredentialReference E ref ip QR_LOOKUP)
         (\<lambda>result. ret (result\<lparr>rs_body := rs_body result @ qrMembers (Some ref)\<rparr>)))"

definition secureWhere :: "string \<Rightarrow> credential \<Rightarrow> bool" where
  "secureWhere ref c \<longleftrightarrow> c_deletedAt c = None \<and> (c_verificationId c = ref \<or>
     c_verificationCode c = ref \<or> c_signedVerificationToken c = ref)"

definition activeProofOf :: "string \<Rightarrow> db \<Rightarrow> docProof option" where
  "activeProofOf i d = (case sort_key (\<lambda>p. - d_registeredAt p)
       (filter (\<lambda>p. d_credentialId p = i \<and> d_status p = PROOF_ACTIVE) (docProofs d)) of
     [] \<Rightarrow> None | p # ps \<Rightarrow> Some p)"

definition findSecure :: "env \<Rightarrow> string \<Rightarrow> (credential \<times> issuer \<times> docProof option) option prog" where
  "findSecure E ref = bind (query E (\<lambda>d. map_option
       (\<lambda>c. ((c, activeProofOf (c_id c) d), issuerOf d (c_issuerId c)))
       (List.find (secureWhere ref) (credentials d))))
     (\<lambda>found. bind (requireRelation found)
       (\<lambda>r. ret (map_option (\<lambda>((c, p), i). (c, i, p)) r)))"

record secureResult =
  sr_status :: verificationStatus
  sr_integrityMatched :: bool
  sr_body :: "(string \<times> value) list"

definition secureNotFound :: "string option \<Rightarrow> secureResult" where
  "secureNotFound ref = \<lparr>sr_status = NOT_FOUND, sr_integrityMatched = False, sr_body =
     [(''status'', VStr ''NOT_FOUND''), (''blockchainVerified'', VBool False),
      (''blockchainStatus'', VStr (proofStatusName NOT_ANCHORED)), (''txHash'', VNull),
      (''blockNumber'', VNull), (''anchoredAt'', VNull), (''trustChecks'', buildTrustChecks None None),
      (''integrityMatched'', VBool False), (''resolvedReference'', optStr ref),
      (''referenceSource'', if truthy ref then VStr ''QR'' else VNull)]\<rparr>"

definition buildSecurePdfResponse :: "credential \<times> issuer \<Rightarrow> chainVerification \<Rightarrow> time \<Rightarrow> string \<Rightarrow>
    string option \<Rightarrow> bool \<Rightarrow> verificationStatus \<Rightarrow> string \<Rightarrow> secureResult" where
  "buildSecurePdfResponse ci v createdAt uploadedHash registeredHash matched status ref =
     (case ci of (c, i) \<Rightarrow> \<lparr>sr_status = status, sr_integrityMatched = matched, sr_body =
     [(''status'', VStr (statusName status)), (''credentialId'', VStr (c_id c)),
      (''verificationId'', VStr (c_verificationId c)), (''resolvedReference'', VStr ref),
      (''referenceSource'', VStr ''QR''), (''studentName'', VStr (c_studentName c)),
      (''institution'', VStr (orElse (i_displayName i) (i_name i))), (''degree'', VStr (c_degree c)),
      (''issuedAt'', VDate (c_issuedAt c)), (''verificationTimestamp'', VDate createdAt),
      (''verificationCount'', VNum (c_verificationCount c)),
      (''blockchainVerified'', VBool (bv_verified v)),
      (''blockchainStatus'', VStr (proofStatusName (bv_status v))),
      (''txHash'', optStr (nullish (bv_txHash v) (c_txHash c))),
      (''blockNumber'', optNum (nullish (bv_blockNumber v) (c_blockNumber c))),
      (''anchoredAt'', optDate (nullish (bv_anchoredAt v) (c_anchoredAt c))),
      (''documentHash'', if matched then optStr registeredHash else VNull),
      (''uploadedHash'', if matched then VStr uploadedHash else VNull),
      (''integrityMatched'', VBool matched),
      (''trustChecks'', buildTrustChecks (Some c) (Some v))]\<rparr>)"

text \<open>The verdict on an uploaded copy, the early returns of \<open>verifySecurePdf\<close> in their order.\<close>

definition secureVerdict ::
  "credential \<Rightarrow> chainVerification \<Rightarrow> docProof option \<Rightarrow> string \<Rightarrow> verificationStatus" where
  "secureVerdict c v proof uploadedHash =
     (if c_revoked c \<or> chainRevoked (Some v) then REVOKED
      else case proof of None \<Rightarrow> NO_SECURE_PDF_RECORD
        | Some p \<Rightarrow> if d_hash p \<noteq> uploadedHash then DOCUMENT_MODIFIED else INTEGRITY_VERIFIED)"

definition secureFound :: "env \<Rightarrow> string \<Rightarrow> time \<Rightarrow> string \<Rightarrow> string \<Rightarrow>
    credential \<times> issuer \<times> docProof option \<Rightarrow> secureResult prog" where
  "secureFound E ip createdAt uploadedHash ref found = (case found of (c, i, proof) \<Rightarrow>
     bind (verifyRecord E (anchorableOf (c, i))) (\<lambda>v.
     let status = secureVerdict c v proof uploadedHash; matched = (status = INTEGRITY_VERIFIED) in
     bind (recordVerification E (c_id c)
       (lookupEvent createdAt ip matched status (Some uploadedHash) PDF_INTEGRITY_CHECK)) (\<lambda>updated.
     ret (buildSecurePdfResponse (if status = NO_SECURE_PDF_RECORD then (c, i) else updated) v createdAt
       uploadedHash (map_option d_hash proof) matched status ref))))"

definition verifySecurePdf :: "env \<Rightarrow> uploadedFile option \<Rightarrow> string \<Rightarrow> secureResult prog" where
  "verifySecurePdf E upload ip = bind (prepareUploadedPdf E upload) (\<lambda>file.
     let uploadedHash = hashBuffer E (uf_buffer file) in
     bind (newDate E) (\<lambda>createdAt.
     let ref = extractReferenceFromPdfBuffer E (uf_buffer file) (Some CredentialKind) in
     bind (if truthy ref then findSecure E (the ref) else ret None) (\<lambda>found. case found of
       None \<Rightarrow> andThen (recordUnmatched E
           (lookupEvent createdAt ip False NOT_FOUND (Some uploadedHash) PDF_INTEGRITY_CHECK))
         (ret (secureNotFound ref))
     | Some x \<Rightarrow> secureFound E ip createdAt uploadedHash (the ref) x)))"

definition verifyUploadedPdf :: "env \<Rightarrow> uploadedFile option \<Rightarrow> string \<Rightarrow> secureResult prog" where
  "verifyUploadedPdf E upload ip = verifySecurePdf E upload ip"

subsection \<open>The certificate\<close>

definition getCertificateByVerificationId :: "env \<Rightarrow> string \<Rightarrow> string prog" where
  "getCertificateByVerificationId E v =
     bind (query E (\<lambda>d. List.find (\<lambda>c. c_verificationId c = v \<and> c_deletedAt c = None) (credentials d)))
     (\<lambda>found. case found of None \<Rightarrow> throw (NotFound ''Credential not found'') | Some c \<Rightarrow> ret (c_id c))"

definition certificateEndpoint :: "env \<Rightarrow> string \<Rightarrow> content prog" where
  "certificateEndpoint E v = bind (getCertificateByVerificationId E v) (\<lambda>i.
     tryCatch (readCertificate E i) (\<lambda>e.
       andThen (bind (ensureAssets E i) (\<lambda>_. ret ()))
         (tryCatch (readCertificate E i) (\<lambda>e. throw (NotFound ''Credential certificate not found'')))))"

end
