(* ===== verification/VerificationLaws.thy ===== *)
theory VerificationLaws
  imports Verification AnchorRecovery
begin

text \<open>
  What a verification promises. The blockchain client is used through an interface, the locale
  \<open>chain_reader\<close>: a lookup never throws, changes nothing but the model's clock and what others did on
  chain, and returns a coherent answer. The client lemmas of public verification rest on it; the
  interpretation discharges the laws for \<open>verifyRecord\<close>.
\<close>

subsection \<open>The interface of the blockchain client\<close>

definition sameButChain :: "world \<Rightarrow> world \<Rightarrow> bool" where
  "sameButChain w w' \<longleftrightarrow> database w' = database w \<and> storage w' = storage w \<and> queue w' = queue w \<and>
     audit_seq w' = audit_seq w"

interpretation reading: world_order sameButChain
  by unfold_locales (auto simp: sameButChain_def)

definition coherent :: "chainVerification \<Rightarrow> bool" where
  "coherent v \<longleftrightarrow> (bv_verified v \<longleftrightarrow> bv_status v = ON_CHAIN_VERIFIED) \<and>
     (bv_status v = ON_CHAIN_VERIFIED \<longrightarrow>
        (\<exists>p. bv_proof v = Some p \<and> pr_issuerAuthorized p \<and> \<not> pr_revoked p)) \<and>
     (\<forall>p. bv_proof v = Some p \<and> pr_issuerAuthorized p \<and> pr_revoked p \<longrightarrow> bv_status v = MISMATCH)"

locale chain_reader =
  fixes lookup :: "anchorable \<Rightarrow> chainVerification prog"
  assumes answers: "wp (lookup a) (\<lambda>v w'. sameButChain w w' \<and> coherent v) (\<lambda>_ _. False) w"
begin

lemma lookup_then:
  assumes "\<And>v w'. lookup a w = (Inr v, w') \<Longrightarrow> sameButChain w w' \<Longrightarrow> coherent v \<Longrightarrow> wp (f v) Q R w'"
  shows "wp (bind (lookup a) f) Q R w"
  using answers [of a w] assms
  by (auto simp: wp_bind wp_def [of "lookup a"] split: prod.splits sum.splits)

lemma never_throws: "\<exists>v. fst (lookup a w) = Inr v"
  using answers [of a w] by (auto simp: wp_def split: prod.splits sum.splits)

end

lemma reading_steps: "steps sameButChain (readProof E i)"
proof -
  have rpc: "steps sameButChain (rpcCall E f)" for f :: "nat \<Rightarrow> registry \<Rightarrow> exn + ('a \<times> registry)"
    by (rule reading.steps_rpcCall) (simp_all add: sameButChain_def)
  show ?thesis
    unfolding readProof_def node_defs
    by (intro reading.steps_bind reading.steps_liftE reading.steps_if reading.steps_ret rpc)
qed

lemma coherent_answers:
  "coherent (notOnChain rec CHAIN_UNAVAILABLE ch)" "coherent (notOnChain rec CHAIN_PENDING ch)"
  "coherent (missingProof rec)" "judgeProof E rec p = Inr v \<Longrightarrow> coherent v"
  by (auto simp: coherent_def notOnChain_def missingProof_def judgeProof_def Let_def split: sum.splits if_splits)

interpretation chainClient: chain_reader "verifyRecord E" for E
proof
  fix a w
  show "wp (verifyRecord E a) (\<lambda>v w'. sameButChain w w' \<and> coherent v) (\<lambda>_ _. False) w"
  proof (cases "isConfigured E")
    case True
    have "wp (readProof E (ar_id a)) (\<lambda>_ w'. sameButChain w w') (\<lambda>_ w'. sameButChain w w') w"
      by (rule steps_wp [OF reading_steps])
    then show ?thesis
      unfolding verifyRecord_def using True
      by (auto simp: wp_simps coherent_answers split: option.splits sum.splits elim!: wp_mono)
  qed (auto simp: verifyRecord_def wp_simps coherent_answers reading.step_refl)
qed

subsection \<open>What a lookup writes\<close>

text \<open>One log row, and for a match one more verification of that credential; nothing else.\<close>

definition countedLookup :: "verificationEvent \<Rightarrow> string option \<Rightarrow> db \<Rightarrow> db \<Rightarrow> bool" where
  "countedLookup ev target d d' \<longleftrightarrow> (\<exists>cu t'. d' = (case target of
     None \<Rightarrow> d\<lparr>verificationLogs := verificationLogs d @ [verificationRow None ev cu]\<rparr>
   | Some i \<Rightarrow> d\<lparr>verificationLogs := verificationLogs d @ [verificationRow (Some i) ev cu],
       credentials := map (\<lambda>c. if c_id c = i
         then (countVerification (ve_createdAt ev) c)\<lparr>c_updatedAt := t'\<rparr> else c) (credentials d)\<rparr>))"

lemma log_wp': "wp (bind (createVerificationLog E (verificationRow target ev)) (\<lambda>_. ret ()))
   (\<lambda>_ w'. \<exists>cu. database w' = (database w)\<lparr>verificationLogs := verificationLogs (database w) @
      [verificationRow target ev cu]\<rparr>) (\<lambda>_ w'. database w' = database w) w"
proof -
  have "\<exists>cu. r = verificationLogs d @ [verificationRow target ev cu]"
    if "insertInto cf (verificationRow target ev c) (verificationLogs d) = Inr r" for cf c d r
    using that by (auto simp: insertInto_Inr)
  then show ?thesis
    unfolding createVerificationLog_def
    by (auto simp: wp_simps split: option.splits sum.splits) blast
qed

lemma recordUnmatched_wp:
  "wp (recordUnmatched E ev) (\<lambda>_ w'. countedLookup ev None (database w) (database w'))
     (\<lambda>_ w'. database w' = database w) w"
  unfolding recordUnmatched_def
  by (rule wp_mono [OF log_wp']) (auto simp: countedLookup_def)

lemma updateI_wp: "wp (updateCredentialI E i f) (\<lambda>_ w'. \<exists>t'. database w' = (database w)\<lparr>credentials :=
    map (\<lambda>c. if c_id c = i then (f c)\<lparr>c_updatedAt := t'\<rparr> else c) (credentials (database w))\<rparr>)
    (\<lambda>_ _. True) w"
  unfolding updateCredentialI_def updateCredential_def
  by (auto simp: wp_simps updateIn_Inr split: option.splits sum.splits prod.splits)

lemma recordVerification_wp:
  "wp (recordVerification E i ev) (\<lambda>_ w'. countedLookup ev (Some i) (database w) (database w'))
     (\<lambda>_ w'. database w' = database w) w"
  unfolding recordVerification_def wp_transaction wp_andThen
proof (rule wp_mono [OF log_wp'], goal_cases)
  case (1 x w1)
  then obtain cu where w1: "database w1 = (database w)\<lparr>verificationLogs := verificationLogs (database w) @
      [verificationRow (Some i) ev cu]\<rparr>" by blast
  show ?case
  proof (rule wp_mono [OF updateI_wp], goal_cases)
    case (1 y w2)
    then have "countedLookup ev (Some i) (database w) (database w2)"
      by (auto simp: w1 countedLookup_def)
    then show ?case by (simp split: option.split)
  qed simp
qed simp

subsection \<open>The verdict of a lookup\<close>

definition signatureVerdict :: "env \<Rightarrow> credential \<Rightarrow> signingKey option \<Rightarrow> bool option" where
  "signatureVerdict E c k = map_option sb_signatureValid (buildSignatureBlock E c k)"

definition foundSigned :: "(issuer option \<Rightarrow> credential \<Rightarrow> bool) \<Rightarrow> db \<Rightarrow>
    (credential \<times> issuer \<times> signingKey option) option \<Rightarrow> bool" where
  "foundSigned P d r \<longleftrightarrow> (case List.find (\<lambda>c. P (issuerOf d (c_issuerId c)) c) (credentials d) of
     None \<Rightarrow> r = None
   | Some c \<Rightarrow> (\<exists>i. issuerOf d (c_issuerId c) = Some i \<and> r = Some (c, i, keyOf d (c_signingKeyId c))))"

lemma findSigned_wp:
  "wp (findSigned E P) (\<lambda>r w'. chain w' = chain w \<and> sameButChain w w' \<and> foundSigned P (database w) r)
     (\<lambda>_ w'. sameButChain w w') w"
  unfolding findSigned_def requireRelation_def
  by (auto simp: wp_simps sameButChain_def foundSigned_def split: option.splits)

text \<open>What the service established when it answered with a status.\<close>

definition verdictOf ::
  "env \<Rightarrow> registry \<Rightarrow> credential \<times> issuer \<times> signingKey option \<Rightarrow> verificationStatus \<Rightarrow> bool" where
  "verdictOf E r x status \<longleftrightarrow> (case x of (c, i, k) \<Rightarrow> \<exists>v w1 w2. chain w1 = r \<and>
     verifyRecord E (anchorableOf (c, i)) w1 = (Inr v, w2) \<and> coherent v \<and>
     status = resolveStatus (c, i) (Some v) (signatureVerdict E c k))"

lemma resolveFound_wp:
  assumes "d = database w"
  shows "wp (resolveFound E ip ev t x)
    (\<lambda>res w'. verdictOf E (chain w) x (rs_status res) \<and>
       countedLookup (lookupEvent t ip True (rs_status res) None ev) (Some (c_id (fst x))) d (database w'))
    (\<lambda>_ w'. database w' = d) w"
proof -
  obtain c i k where x: "x = (c, i, k)" by (cases x) auto
  show ?thesis
    unfolding resolveFound_def x prod.case Let_def
  proof (rule chainClient.lookup_then)
    fix v w1
    assume run: "verifyRecord E (anchorableOf (c, i)) w = (Inr v, w1)"
      and w1: "sameButChain w w1" "coherent v"
    let ?s = "resolveStatus (c, i) (Some v) (map_option sb_signatureValid (buildSignatureBlock E c k))"
    have s: "verdictOf E (chain w) (c, i, k) ?s"
      using run w1(2) by (auto simp: verdictOf_def signatureVerdict_def)
    show "wp (bind (recordVerification E (c_id c) (lookupEvent t ip True ?s None ev)) (\<lambda>current.
        ret \<lparr>rs_status = ?s, rs_signature = buildSignatureBlock E c k,
          rs_body = buildFoundResponse E t ?s current v (buildSignatureBlock E c k)\<rparr>))
      (\<lambda>res w'. verdictOf E (chain w) (c, i, k) (rs_status res) \<and>
         countedLookup (lookupEvent t ip True (rs_status res) None ev) (Some (c_id (fst (c, i, k)))) d (database w'))
      (\<lambda>_ w'. database w' = d) w1"
      unfolding wp_bind
      by (rule wp_mono [OF recordVerification_wp])
        (use w1 s assms in \<open>auto simp: wp_ret sameButChain_def lookupEvent_def\<close>)
  qed
qed

definition lookupOutcome ::
  "env \<Rightarrow> string \<Rightarrow> string \<Rightarrow> VerificationEventType \<Rightarrow> registry \<Rightarrow> db \<Rightarrow> resolved \<Rightarrow> db \<Rightarrow> bool" where
  "lookupOutcome E ref ip ev r0 d res d' \<longleftrightarrow> (\<exists>t r. foundSigned (\<lambda>_. referenceWhere ref) d r \<and> (case r of
     None \<Rightarrow> rs_status res = NOT_FOUND \<and>
       countedLookup (lookupEvent t ip False NOT_FOUND None ev) None d d'
   | Some x \<Rightarrow> verdictOf E r0 x (rs_status res) \<and>
       countedLookup (lookupEvent t ip True (rs_status res) None ev) (Some (c_id (fst x))) d d'))"

lemma lookupOutcomeI:
  "foundSigned (\<lambda>_. referenceWhere ref) d None \<Longrightarrow> rs_status res = NOT_FOUND \<Longrightarrow>
   countedLookup (lookupEvent t ip False NOT_FOUND None ev) None d d' \<Longrightarrow> lookupOutcome E ref ip ev r0 d res d'"
  "foundSigned (\<lambda>_. referenceWhere ref) d (Some x) \<Longrightarrow> verdictOf E r0 x (rs_status res) \<Longrightarrow>
   countedLookup (lookupEvent t ip True (rs_status res) None ev) (Some (c_id (fst x))) d d' \<Longrightarrow>
   lookupOutcome E ref ip ev r0 d res d'"
  unfolding lookupOutcome_def by (rule exI [of _ t], rule exI, rule conjI, assumption, simp)+

lemma resolve_wp:
  "wp (resolveCredentialReference E ref ip ev)
     (\<lambda>res w'. lookupOutcome E ref ip ev (chain w) (database w) res (database w'))
     (\<lambda>_ w'. database w' = database w) w"
  unfolding resolveCredentialReference_def wp_bind wp_newDate
proof (rule wp_mono [OF findSigned_wp], goal_cases)
  case (1 r w1)
  then have d: "database w1 = database w" "chain w1 = chain w" by (simp_all add: sameButChain_def)
  show ?case
  proof (cases r)
    case None
    then show ?thesis
      using 1 d by (auto simp: wp_andThen wp_ret intro!: wp_mono [OF recordUnmatched_wp])
        (rule lookupOutcomeI(1); simp)
  next
    case (Some x)
    then show ?thesis
      using 1 d by (auto intro!: wp_mono [OF resolveFound_wp [OF refl]] intro: lookupOutcomeI(2))
  qed
qed (simp add: sameButChain_def)

subsection \<open>What the chain says of an anchored proof\<close>

definition nodeAnswers :: "env \<Rightarrow> bool" where
  "nodeAnswers E \<longleftrightarrow> isConfigured E \<and> getAddress E (the (cfg_contractAddress (cfg E))) \<noteq> None \<and>
     (\<forall>n. fault E n = None) \<and> othersAct E"

definition authorizationStable :: "env \<Rightarrow> address \<Rightarrow> bool" where
  "authorizationStable E a \<longleftrightarrow> (\<forall>n r. authorizedIssuers (others E n r) a = authorizedIssuers r a)"

text \<open>A proof record that shows the stored one.\<close>

definition displays :: "env \<Rightarrow> registry \<Rightarrow> CredentialRecord \<Rightarrow> proofRecord \<Rightarrow> bool" where
  "displays E r c q \<longleftrightarrow> pr_documentHash q = bytes32Text E (cr_proofHash c) \<and>
     pr_issuer q = addressText E (cr_issuer c) \<and> (cr_revoked c \<longrightarrow> pr_revoked q) \<and>
     (authorizationStable E (cr_issuer c) \<longrightarrow> pr_issuerAuthorized q = authorizedIssuers r (cr_issuer c))"

lemma readProof_sees:
  assumes E: "nodeAnswers E" and c: "c = credentialsAt (chain w) (keccak256 E i)" "cr_exists c"
  shows "wp (readProof E i) (\<lambda>p w'. \<exists>q. p = Some q \<and> displays E (chain w) c q) (\<lambda>_ _. False) w"
proof -
  let ?at = "\<lambda>r. credentialsAt r (keccak256 E i)"
  have kept: "recordKept c (?at (others E n r))" if "recordKept c (?at r)" for n r
    using that E registrySteps_recordKept [of "keccak256 E" r "others E n r" "keccak256 E i"]
    by (auto simp: nodeAnswers_def othersAct_def intro: recordKept_trans)
  define r1 where "r1 = others E (tick w) (chain w)"
  define r2 where "r2 = others E (Suc (tick w)) r1"
  define r3 where "r3 = others E (Suc (Suc (tick w))) r2"
  define r4 where "r4 = others E (Suc (Suc (Suc (tick w)))) r3"
  define r5 where "r5 = others E (Suc (Suc (Suc (Suc (tick w))))) r4"
  have k: "recordKept c (?at r1)" "recordKept c (?at r2)" "recordKept c (?at r3)" "recordKept c (?at r5)"
    unfolding r1_def r2_def r3_def r4_def r5_def c(1) by (intro kept [unfolded c(1)] recordKept_refl)+
  then have seen: "cr_exists (?at r1)" "cr_proofHash (?at r2) = cr_proofHash c"
      "cr_issuer (?at r3) = cr_issuer c" "cr_revoked c \<longrightarrow> cr_revoked (?at r5)"
    using c(2) by (auto simp: recordKept_def)
  have conf: "getPublicClient E = Inr ()" "\<exists>a. getContractAddress E = Inr a"
    using E by (auto simp: nodeAnswers_def isConfigured_def getPublicClient_def getContractAddress_def
        normalizeAddress_def)
  have none: "fault E n = None" for n using E by (simp add: nodeAnswers_def)
  show ?thesis
    using conf seen unfolding readProof_def node_defs
    by (auto simp: wp_simps none credentialExists_def getCredentialHash_def getCredentialIssuer_def
        getCredentialRevocation_def isAuthorizedIssuer_def Let_def toProofRecord_def displays_def
        authorizationStable_def r1_def r2_def r3_def r4_def r5_def)
qed

lemma verifyRecord_sees:
  assumes E: "nodeAnswers E" and c: "c = credentialsAt (chain w) (keccak256 E (ar_id a))" "cr_exists c"
    and run: "verifyRecord E a w = (Inr v, w')"
  shows "\<exists>q. displays E (chain w) c q \<and>
    (judgeProof E a q = Inr v \<and> bv_proof v = Some q \<or> (\<exists>e. judgeProof E a q = Inl e))"
proof -
  let ?Q = "\<lambda>v. \<exists>q. displays E (chain w) c q \<and>
    (judgeProof E a q = Inr v \<and> bv_proof v = Some q \<or> (\<exists>e. judgeProof E a q = Inl e))"
  have proof_in: "bv_proof v = Some q" if "judgeProof E a q = Inr v" for q v
    using that by (auto simp: judgeProof_def Let_def split: sum.splits)
  have "isConfigured E" using E by (simp add: nodeAnswers_def)
  then have "wp (verifyRecord E a) (\<lambda>v _. ?Q v) (\<lambda>_ _. True) w"
    unfolding verifyRecord_def wp_tryCatch wp_bind
    by (auto simp: wp_tryCatch wp_bind wp_ret wp_liftE proof_in split: sum.splits
        intro!: wp_mono [OF readProof_sees [OF E c]]) blast+
  then show ?thesis using run by (simp add: wp_def)
qed

text \<open>The registered wallet and hash are well formed, so that a proof read from the chain can be judged.\<close>

definition judgeable :: "env \<Rightarrow> anchorable \<Rightarrow> bool" where
  "judgeable E a \<longleftrightarrow> isHex64 (toLowerCase (trim (ar_chainProofHash a))) \<and>
     (truthy (ar_issuerWallet a) \<longrightarrow> getAddress E (the (ar_issuerWallet a)) \<noteq> None)"

lemma judgeable_judged: "judgeable E a \<Longrightarrow> judgeProof E a q \<noteq> Inl e"
  by (auto simp: judgeable_def judgeProof_def issuerMatches_def normalizeAddress_def toBytes32ProofHash_def
      Let_def split: option.splits sum.splits)

lemma revoked_seen:
  assumes "nodeAnswers E" "judgeable E a" "verifyRecord E a w = (Inr v, w')"
    and "cr_exists (credentialsAt (chain w) (keccak256 E (ar_id a)))"
    and "cr_revoked (credentialsAt (chain w) (keccak256 E (ar_id a)))"
  shows "chainRevoked (Some v)"
proof -
  obtain q where "bv_proof v = Some q" "pr_revoked q"
    using verifyRecord_sees [OF assms(1) refl assms(4,3)] judgeable_judged [OF assms(2)] assms(5)
    by (auto simp: displays_def)
  then show ?thesis by (simp add: chainRevoked_def)
qed

text \<open>The registered hash is the stored one and the registering account is the institution's wallet.\<close>

definition proofAgrees :: "env \<Rightarrow> anchorable \<Rightarrow> bytes32 \<Rightarrow> address \<Rightarrow> bool" where
  "proofAgrees E a h issuer \<longleftrightarrow> toBytes32ProofHash (ar_chainProofHash a) = Inr (bytes32Text E h) \<and>
     (\<exists>wallet x. ar_issuerWallet a = Some wallet \<and> wallet \<noteq> [] \<and> getAddress E wallet = Some x \<and>
        isAddressEqual E (addressText E issuer) x)"

lemma judged_agrees:
  assumes "judgeProof E a q = Inr v" and "pr_documentHash q = bytes32Text E h" "pr_issuer q = addressText E issuer"
    and "pr_issuerAuthorized q"
  shows "bv_status v \<noteq> MISMATCH \<longleftrightarrow> proofAgrees E a h issuer \<and> \<not> pr_revoked q"
  using assms
  by (cases "ar_issuerWallet a")
    (auto simp: judgeProof_def issuerMatches_def normalizeAddress_def proofAgrees_def truthy_def Let_def
      split: option.splits sum.splits if_splits)

lemma matched_seen:
  assumes "nodeAnswers E" "judgeable E a" "verifyRecord E a w = (Inr v, w')"
    and "p = credentialsAt (chain w) (keccak256 E (ar_id a))" "cr_exists p"
    and "authorizationStable E (cr_issuer p)" "authorizedIssuers (chain w) (cr_issuer p)" "\<not> chainMismatch (Some v)"
  shows "proofAgrees E a (cr_proofHash p) (cr_issuer p)"
proof -
  obtain q where "displays E (chain w) p q" "judgeProof E a q = Inr v"
    using verifyRecord_sees [OF assms(1,4,5,3)] judgeable_judged [OF assms(2)] by blast
  then show ?thesis
    using judged_agrees [of E a q v "cr_proofHash p" "cr_issuer p"] assms(6-8)
    by (auto simp: displays_def chainMismatch_def)
qed

subsection \<open>Properties\<close>

text \<open>
  C1. Safety: a lookup answers VALID only for a stored credential that the reference names, that is
  neither revoked nor deleted, whose institution is active and whose stored signature, when it has
  one, verifies under its key. As long as the node answers and the stored hash and wallet are well formed,
  a proof of it on the registry is moreover not revoked, and, while the issuer of that proof stays
  authorised, carries the stored hash and comes from the institution's wallet, however the rest of the
  chain moves during the lookup. Without an answer of the node, or for an issuer the registry has removed,
  the verdict rests on the rows alone, as the tests of the service expect.
\<close>
theorem valid_verdict_sound:
  assumes "resolveCredentialReference E ref ip ev w = (Inr res, w')" and "rs_status res = VALID"
  shows "\<exists>c i. c \<in> set (credentials (database w)) \<and> referenceWhere ref c \<and> c_deletedAt c = None \<and>
    \<not> c_revoked c \<and> issuerOf (database w) (c_issuerId c) = Some i \<and> i_status i = ISSUER_ACTIVE \<and>
    signatureVerdict E c (keyOf (database w) (c_signingKeyId c)) \<noteq> Some False \<and>
    (nodeAnswers E \<and> judgeable E (anchorableOf (c, i)) \<and> credentialExists (keccak256 E) (c_id c) (chain w)
       \<longrightarrow> \<not> fst (getCredentialRevocation (keccak256 E) (c_id c) (chain w)) \<and>
         (let a = getCredentialIssuer (keccak256 E) (c_id c) (chain w) in
          authorizationStable E a \<and> isAuthorizedIssuer a (chain w) \<longrightarrow>
            proofAgrees E (anchorableOf (c, i)) (getCredentialHash (keccak256 E) (c_id c) (chain w)) a))"
proof -
  obtain c i k where found: "foundSigned (\<lambda>_. referenceWhere ref) (database w) (Some (c, i, k))"
    and verdict: "verdictOf E (chain w) (c, i, k) VALID"
    using wp_Inr [OF resolve_wp assms(1)] assms(2)
    by (auto simp: lookupOutcome_def split: option.splits)
  have c: "List.find (referenceWhere ref) (credentials (database w)) = Some c"
    "issuerOf (database w) (c_issuerId c) = Some i" "k = keyOf (database w) (c_signingKeyId c)"
    using found by (auto simp: foundSigned_def split: option.splits)
  then have row: "c \<in> set (credentials (database w))" "referenceWhere ref c"
    by (auto simp: find_Some_iff)
  obtain v w1 w2 where run: "chain w1 = chain w" "verifyRecord E (anchorableOf (c, i)) w1 = (Inr v, w2)"
    and status: "VALID = resolveStatus (c, i) (Some v) (signatureVerdict E c k)"
    using verdict by (auto simp: verdictOf_def)
  then have facts: "i_status i = ISSUER_ACTIVE" "\<not> c_revoked c" "\<not> chainRevoked (Some v)"
      "signatureVerdict E c k \<noteq> Some False" "\<not> chainMismatch (Some v)"
    by (auto simp: resolveStatus_def split: if_splits)
  have "\<not> cr_revoked (credentialsAt (chain w) (keccak256 E (c_id c)))"
    if "nodeAnswers E" "judgeable E (anchorableOf (c, i))"
      "cr_exists (credentialsAt (chain w) (keccak256 E (c_id c)))"
    using revoked_seen [OF that(1,2) run(2)] that(3) facts(3) run(1) by (auto simp: anchorableOf_def)
  moreover have "proofAgrees E (anchorableOf (c, i)) (cr_proofHash p) (cr_issuer p)"
    if "nodeAnswers E" "judgeable E (anchorableOf (c, i))" "p = credentialsAt (chain w) (keccak256 E (c_id c))"
      "cr_exists p" "authorizationStable E (cr_issuer p)" "authorizedIssuers (chain w) (cr_issuer p)" for p
  proof -
    have "p = credentialsAt (chain w1) (keccak256 E (ar_id (anchorableOf (c, i))))"
      using that(3) run(1) by (simp add: anchorableOf_def)
    from matched_seen [OF that(1,2) run(2) this that(4,5)] that(6) run(1) facts(5)
    show ?thesis by simp
  qed
  ultimately show ?thesis using row facts(1,2,4) c(2,3)
    by (auto simp: referenceWhere_def credentialExists_def getCredentialRevocation_def getCredentialIssuer_def
        getCredentialHash_def isAuthorizedIssuer_def Let_def intro!: exI [of _ c] exI [of _ i])
qed

definition sampleKey :: signingKey where
  "sampleKey = \<lparr>k_id = ''k1'', k_issuerId = ''i1'', k_keyId = ''key_1'', k_publicKey = ''pub'',
     k_privateKeyEncrypted = [], k_algorithm = ''Ed25519'', k_createdAt = 0, k_revokedAt = None,
     k_active = True\<rparr>"

text \<open>One signed credential, whose key is stored; the registry has no proof of it yet.\<close>

definition signedWorld :: world where
  "signedWorld = anchorWorld\<lparr>database := (database anchorWorld)\<lparr>signingKeys := [sampleKey],
     credentials := [firstCredential\<lparr>c_signature := Some ''payloadpriv''\<rparr>]\<rparr>\<rparr>"

lemma signedWorld_run: "map_sum (\<lambda>_. ()) rs_status
    (fst (resolveCredentialReference sampleEnv ''vrf_1'' ''ip'' QR_LOOKUP signedWorld)) = Inr VALID"
  by code_simp

text \<open>The same credential with its proof on the registry.\<close>

definition matchedWorld :: world where
  "matchedWorld = signedWorld\<lparr>chain := authorizedSample\<lparr>credentialsAt := (\<lambda>_. noRecord)(3 :=
     \<lparr>cr_proofHash = 49, cr_anchoredAt = 100, cr_revokedAt = 0, cr_issuer = 9, cr_revokedBy = 0,
      cr_revoked = False, cr_exists = True\<rparr>)\<rparr>\<rparr>"

lemma matchedWorld_run: "map_sum (\<lambda>_. ()) rs_status
    (fst (resolveCredentialReference sampleEnv ''vrf_1'' ''ip'' QR_LOOKUP matchedWorld)) = Inr VALID"
  by code_simp

lemma matchedWorld_simps:
  "credentials (database matchedWorld) = [firstCredential\<lparr>c_signature := Some ''payloadpriv''\<rparr>]"
  "issuerOf (database matchedWorld) ''i1'' = Some sampleIssuer" "keccak256 sampleEnv ''crd_1'' = 3"
  "credentialsAt (chain matchedWorld) 3 = \<lparr>cr_proofHash = 49, cr_anchoredAt = 100, cr_revokedAt = 0,
     cr_issuer = 9, cr_revokedBy = 0, cr_revoked = False, cr_exists = True\<rparr>"
  "authorizedIssuers (chain matchedWorld) 9"
  by (simp_all add: matchedWorld_def signedWorld_def anchorWorld_def registryWorld_def issuerOf_def sampleIssuer_def
      sampleEnv_def sampleKeccak_def authorizedSample_def)

lemma sampleNode: "nodeAnswers sampleEnv" "authorizationStable sampleEnv 9"
  by (simp_all add: nodeAnswers_def isConfigured_def truthy_def sampleConfig_def sampleEnv_def
      othersAct_def authorizationStable_def)

theorem valid_verdict_sound_witness:
  "\<exists>c i. c \<in> set (credentials (database matchedWorld)) \<and> referenceWhere ''vrf_1'' c \<and> \<not> c_revoked c \<and>
     issuerOf (database matchedWorld) (c_issuerId c) = Some i \<and> i_status i = ISSUER_ACTIVE \<and>
     proofAgrees sampleEnv (anchorableOf (c, i)) 49 9"
proof -
  obtain res w' where "resolveCredentialReference sampleEnv ''vrf_1'' ''ip'' QR_LOOKUP matchedWorld = (Inr res, w')"
    "rs_status res = VALID"
    using matchedWorld_run
    by (cases "resolveCredentialReference sampleEnv ''vrf_1'' ''ip'' QR_LOOKUP matchedWorld")
      (auto simp: map_sum_def split: sum.splits)
  from valid_verdict_sound [OF this] obtain c i where found: "c \<in> set (credentials (database matchedWorld))"
      "referenceWhere ''vrf_1'' c" "\<not> c_revoked c" "issuerOf (database matchedWorld) (c_issuerId c) = Some i"
      "i_status i = ISSUER_ACTIVE"
    and onChain: "judgeable sampleEnv (anchorableOf (c, i)) \<Longrightarrow>
      credentialExists (keccak256 sampleEnv) (c_id c) (chain matchedWorld) \<Longrightarrow>
      isAuthorizedIssuer (getCredentialIssuer (keccak256 sampleEnv) (c_id c) (chain matchedWorld)) (chain matchedWorld) \<Longrightarrow>
      authorizationStable sampleEnv (getCredentialIssuer (keccak256 sampleEnv) (c_id c) (chain matchedWorld)) \<Longrightarrow>
      proofAgrees sampleEnv (anchorableOf (c, i)) (getCredentialHash (keccak256 sampleEnv) (c_id c) (chain matchedWorld))
        (getCredentialIssuer (keccak256 sampleEnv) (c_id c) (chain matchedWorld))"
    using sampleNode(1) unfolding Let_def by blast
  have c: "c = firstCredential\<lparr>c_signature := Some ''payloadpriv''\<rparr>" "i = sampleIssuer"
    using found(1,4) by (simp_all add: matchedWorld_simps sampleCredential_def)
  have "judgeable sampleEnv (anchorableOf (c, i))"
    unfolding judgeable_def anchorableOf_def by (simp add: c sampleCredential_def sampleProofHex sampleEnv_def)
  with onChain found show ?thesis
    by (auto simp: c(1) sampleCredential_def matchedWorld_simps credentialExists_def getCredentialIssuer_def
        getCredentialHash_def isAuthorizedIssuer_def sampleNode)
qed

text \<open>
  The converse. While other accounts leave the registry alone, a read of a proof is exact or fails, and
  neither a failing node nor a missing proof makes a mismatch.
\<close>

definition mirrors :: "env \<Rightarrow> registry \<Rightarrow> CredentialRecord \<Rightarrow> proofRecord \<Rightarrow> bool" where
  "mirrors E r c q \<longleftrightarrow> pr_documentHash q = bytes32Text E (cr_proofHash c) \<and>
     pr_issuer q = addressText E (cr_issuer c) \<and> pr_revoked q = cr_revoked c \<and>
     pr_issuerAuthorized q = authorizedIssuers r (cr_issuer c)"

lemma readProof_exact:
  assumes quiet: "\<And>n r. others E n r = r" and c: "c = credentialsAt (chain w) (keccak256 E i)"
  shows "wp (readProof E i) (\<lambda>p w'. \<forall>q. p = Some q \<longrightarrow> cr_exists c \<and> mirrors E (chain w) c q) (\<lambda>_ _. True) w"
  unfolding readProof_def node_defs
  by (auto simp: wp_simps quiet c credentialExists_def getCredentialHash_def getCredentialIssuer_def
      getCredentialTimestamp_def getCredentialRevocation_def isAuthorizedIssuer_def Let_def toProofRecord_def
      mirrors_def split: option.splits sum.splits)

lemma verifyRecord_intact:
  assumes quiet: "\<And>n r. others E n r = r" and c: "c = credentialsAt (chain w) (keccak256 E (ar_id a))"
    and good: "cr_exists c \<Longrightarrow> \<not> cr_revoked c \<and>
      (authorizedIssuers (chain w) (cr_issuer c) \<longrightarrow> proofAgrees E a (cr_proofHash c) (cr_issuer c))"
    and run: "verifyRecord E a w = (Inr v, w')"
  shows "\<not> chainMismatch (Some v) \<and> \<not> chainRevoked (Some v)"
proof -
  let ?Q = "\<lambda>v. \<not> chainMismatch (Some v) \<and> \<not> chainRevoked (Some v)"
  have none: "?Q (notOnChain a s ch)" if "s \<noteq> MISMATCH" for s ch
    using that by (simp add: chainMismatch_def chainRevoked_def notOnChain_def)
  have missing: "?Q (missingProof a)" by (simp add: missingProof_def none)
  have judged: "?Q v" if q: "cr_exists c" "mirrors E (chain w) c q" "judgeProof E a q = Inr v" for q v
  proof -
    have "bv_proof v = Some q" using q(3) by (auto simp: judgeProof_def Let_def split: sum.splits)
    moreover have "bv_status v \<noteq> MISMATCH"
    proof (cases "pr_issuerAuthorized q")
      case True
      then show ?thesis
        using judged_agrees [of E a q v "cr_proofHash c" "cr_issuer c"] q good by (auto simp: mirrors_def)
    next
      case False
      then show ?thesis using q(3) by (auto simp: judgeProof_def Let_def split: sum.splits)
    qed
    ultimately show ?thesis using good [OF q(1)] q(2)
      by (simp add: chainMismatch_def chainRevoked_def mirrors_def)
  qed
  have "wp (verifyRecord E a) (\<lambda>v _. ?Q v) (\<lambda>_ _. True) w"
    unfolding verifyRecord_def
    by (auto simp: wp_tryCatch wp_bind wp_ret wp_liftE none missing judged split: option.splits sum.splits
        intro!: wp_mono [OF readProof_exact [OF quiet c]])
  then show ?thesis using run by (simp add: wp_def)
qed

text \<open>
  C20. Liveness of genuine credentials: the unrevoked credential of an active institution that a reference
  names first, whose signature does not fail, is answered VALID whenever the lookup answers, whatever the
  node does: not configured, failing at any call, without a proof, or with an unrevoked proof that agrees
  with the row or whose issuer is no longer authorised; as long as no other account changes the registry
  during the lookup.
\<close>
theorem intact_credential_valid:
  assumes "List.find (referenceWhere ref) (credentials (database w)) = Some c"
    and "issuerOf (database w) (c_issuerId c) = Some i" "i_status i = ISSUER_ACTIVE" "\<not> c_revoked c"
    and "signatureVerdict E c (keyOf (database w) (c_signingKeyId c)) \<noteq> Some False"
    and "\<And>n r. others E n r = r"
    and "p = credentialsAt (chain w) (keccak256 E (c_id c))"
    and "cr_exists p \<Longrightarrow> \<not> cr_revoked p \<and>
      (authorizedIssuers (chain w) (cr_issuer p) \<longrightarrow> proofAgrees E (anchorableOf (c, i)) (cr_proofHash p) (cr_issuer p))"
    and "resolveCredentialReference E ref ip ev w = (Inr res, w')"
  shows "rs_status res = VALID"
proof -
  have key: "foundSigned (\<lambda>_. referenceWhere ref) (database w) r \<Longrightarrow>
      r = Some (c, i, keyOf (database w) (c_signingKeyId c))" for r
    using assms(1,2) by (simp add: foundSigned_def)
  then have "verdictOf E (chain w) (c, i, keyOf (database w) (c_signingKeyId c)) (rs_status res)"
    using wp_Inr [OF resolve_wp assms(9)] by (auto simp: lookupOutcome_def dest!: key)
  then obtain v w1 w2 where run: "chain w1 = chain w" "verifyRecord E (anchorableOf (c, i)) w1 = (Inr v, w2)"
    and status: "rs_status res = resolveStatus (c, i) (Some v) (signatureVerdict E c
      (keyOf (database w) (c_signingKeyId c)))"
    by (auto simp: verdictOf_def)
  have "p = credentialsAt (chain w1) (keccak256 E (ar_id (anchorableOf (c, i))))"
    using assms(7) run(1) by (simp add: anchorableOf_def)
  from verifyRecord_intact [OF assms(6) this _ run(2)] assms(8) run(1)
  have "\<not> chainMismatch (Some v) \<and> \<not> chainRevoked (Some v)" by simp
  then show ?thesis using status assms(3-5) by (simp add: resolveStatus_def)
qed

theorem intact_credential_valid_witness:
  "\<exists>res w'. resolveCredentialReference sampleEnv ''vrf_1'' ''ip'' QR_LOOKUP matchedWorld = (Inr res, w') \<and>
     rs_status res = VALID \<and> cr_exists (credentialsAt (chain matchedWorld) 3)"
proof -
  let ?c = "firstCredential\<lparr>c_signature := Some ''payloadpriv''\<rparr>"
  obtain res w' where run:
      "resolveCredentialReference sampleEnv ''vrf_1'' ''ip'' QR_LOOKUP matchedWorld = (Inr res, w')"
    using matchedWorld_run
    by (cases "resolveCredentialReference sampleEnv ''vrf_1'' ''ip'' QR_LOOKUP matchedWorld")
      (auto simp: map_sum_def split: sum.splits)
  have c: "c_id ?c = ''crd_1''" "c_issuerId ?c = ''i1''" "referenceWhere ''vrf_1'' ?c" "\<not> c_revoked ?c"
    "c_chainProofHash ?c = replicate 63 (CHR ''a'') @ ''1''"
    by (simp_all add: sampleCredential_def referenceWhere_def)
  have signed: "signatureVerdict sampleEnv ?c (keyOf (database matchedWorld) (c_signingKeyId ?c)) \<noteq> Some False"
    by code_simp
  have digit: "char_of (49::nat) = CHR ''1''" by code_simp
  have agrees: "proofAgrees sampleEnv (anchorableOf (?c, sampleIssuer)) 49 9"
    unfolding proofAgrees_def anchorableOf_def toBytes32ProofHash_def
    by (simp add: c sampleProofHex sampleIssuer_def) (simp add: sampleEnv_def digit)
  have quiet: "others sampleEnv n r = r" for n r by (simp add: sampleEnv_def)
  have active: "i_status sampleIssuer = ISSUER_ACTIVE" by (simp add: sampleIssuer_def)
  have "rs_status res = VALID"
  proof (rule intact_credential_valid [OF _ _ active c(4) signed quiet refl _ run])
    show "List.find (referenceWhere ''vrf_1'') (credentials (database matchedWorld)) = Some ?c"
      by (simp add: matchedWorld_simps c(3))
    show "issuerOf (database matchedWorld) (c_issuerId ?c) = Some sampleIssuer"
      by (simp add: c(2) matchedWorld_simps)
    show "\<not> cr_revoked (credentialsAt (chain matchedWorld) (keccak256 sampleEnv (c_id ?c))) \<and>
        (authorizedIssuers (chain matchedWorld) (cr_issuer (credentialsAt (chain matchedWorld)
            (keccak256 sampleEnv (c_id ?c)))) \<longrightarrow>
         proofAgrees sampleEnv (anchorableOf (?c, sampleIssuer))
           (cr_proofHash (credentialsAt (chain matchedWorld) (keccak256 sampleEnv (c_id ?c))))
           (cr_issuer (credentialsAt (chain matchedWorld) (keccak256 sampleEnv (c_id ?c)))))"
      using agrees by (simp add: c(1) matchedWorld_simps)
  qed
  with run show ?thesis by (simp add: matchedWorld_simps)
qed

text \<open>
  A defect: a credential whose revocation has reached the chain is reported as TAMPERED,
  never as the REVOKED that the documentation promises, whatever its row says: a revoked proof makes the blockchain client answer MISMATCH
  (as long as its issuer is authorized), and the verdict tests the mismatch before the revocation.
\<close>
lemma completed_revocation_reported_tampered:
  assumes "List.find (referenceWhere ref) (credentials (database w)) = Some c"
    and "issuerOf (database w) (c_issuerId c) = Some i" "i_status i = ISSUER_ACTIVE"
    and "nodeAnswers E" "judgeable E (anchorableOf (c, i))"
    and "p = credentialsAt (chain w) (keccak256 E (c_id c))" "cr_exists p" "cr_revoked p"
    and "authorizationStable E (cr_issuer p)" "authorizedIssuers (chain w) (cr_issuer p)"
    and "resolveCredentialReference E ref ip ev w = (Inr res, w')"
  shows "rs_status res = TAMPERED"
proof -
  have key: "foundSigned (\<lambda>_. referenceWhere ref) (database w) r \<Longrightarrow>
      r = Some (c, i, keyOf (database w) (c_signingKeyId c))" for r
    using assms(1,2) by (simp add: foundSigned_def)
  then have "verdictOf E (chain w) (c, i, keyOf (database w) (c_signingKeyId c)) (rs_status res)"
    using wp_Inr [OF resolve_wp assms(11)] by (auto simp: lookupOutcome_def dest!: key)
  then obtain v w1 w2 where run: "chain w1 = chain w" "verifyRecord E (anchorableOf (c, i)) w1 = (Inr v, w2)"
    and status: "rs_status res = resolveStatus (c, i) (Some v) (signatureVerdict E c
      (keyOf (database w) (c_signingKeyId c)))"
    by (auto simp: verdictOf_def)
  have p: "p = credentialsAt (chain w1) (keccak256 E (ar_id (anchorableOf (c, i))))"
    using assms(6) run(1) by (simp add: anchorableOf_def)
  obtain q where q: "displays E (chain w1) p q" "judgeProof E (anchorableOf (c, i)) q = Inr v"
    using verifyRecord_sees [OF assms(4) p assms(7) run(2)] judgeable_judged [OF assms(5)] by blast
  then have "bv_status v = MISMATCH"
    using assms(8-10) run(1) by (auto simp: displays_def judgeProof_def Let_def split: sum.splits)
  then show ?thesis
    using status assms(3) by (simp add: resolveStatus_def chainMismatch_def)
qed

definition withdrawnRecord :: CredentialRecord where
  "withdrawnRecord = \<lparr>cr_proofHash = 49, cr_anchoredAt = 100, cr_revokedAt = 200, cr_issuer = 9,
     cr_revokedBy = 9, cr_revoked = True, cr_exists = True\<rparr>"

text \<open>A credential revoked in the database and on chain.\<close>

definition withdrawnCredential :: credential where
  "withdrawnCredential = firstCredential\<lparr>c_revoked := True, c_revokedAt := Some 1\<rparr>"

definition withdrawnWorld :: world where
  "withdrawnWorld = signedWorld\<lparr>
     database := (database signedWorld)\<lparr>credentials := [withdrawnCredential]\<rparr>,
     chain := authorizedSample\<lparr>credentialsAt := (\<lambda>_. noRecord)(3 := withdrawnRecord)\<rparr>\<rparr>"

lemma withdrawn_returns:
  "isl (fst (resolveCredentialReference sampleEnv ''vrf_1'' ''ip'' QR_LOOKUP withdrawnWorld)) = False"
  by code_simp

lemma completed_revocation_reported_tampered_witness:
  "\<exists>res w'. resolveCredentialReference sampleEnv ''vrf_1'' ''ip'' QR_LOOKUP withdrawnWorld = (Inr res, w') \<and>
     rs_status res = TAMPERED \<and> c_revoked withdrawnCredential"
proof -
  obtain res w' where run:
    "resolveCredentialReference sampleEnv ''vrf_1'' ''ip'' QR_LOOKUP withdrawnWorld = (Inr res, w')"
    using withdrawn_returns
    by (cases "resolveCredentialReference sampleEnv ''vrf_1'' ''ip'' QR_LOOKUP withdrawnWorld")
      (auto simp: isl_def split: sum.splits, metis sum.exhaust)
  have d: "credentials (database withdrawnWorld) = [withdrawnCredential]"
    "issuers (database withdrawnWorld) = [sampleIssuer]"
    "chain withdrawnWorld = authorizedSample\<lparr>credentialsAt := (\<lambda>_. noRecord)(3 := withdrawnRecord)\<rparr>"
    by (simp_all add: withdrawnWorld_def signedWorld_def anchorWorld_def registryWorld_def)
  have c: "c_id withdrawnCredential = ''crd_1''" "c_issuerId withdrawnCredential = ''i1''"
    "referenceWhere ''vrf_1'' withdrawnCredential"
    "c_chainProofHash withdrawnCredential = replicate 63 (CHR ''a'') @ ''1''"
    by (simp_all add: withdrawnCredential_def sampleCredential_def referenceWhere_def)
  have node: "nodeAnswers sampleEnv" "authorizationStable sampleEnv 9"
    by (simp_all add: nodeAnswers_def isConfigured_def truthy_def sampleConfig_def sampleEnv_def
        othersAct_def authorizationStable_def)
  have judge: "judgeable sampleEnv (anchorableOf (withdrawnCredential, sampleIssuer))"
    unfolding judgeable_def anchorableOf_def
    by (simp add: c sampleProofHex sampleEnv_def)
  have key: "keccak256 sampleEnv ''crd_1'' = 3" by (simp add: sampleEnv_def sampleKeccak_def)
  have "rs_status res = TAMPERED"
    by (rule completed_revocation_reported_tampered [OF _ _ _ node(1) judge refl _ _ _ _ run])
      (simp_all add: d c key node issuerOf_def sampleIssuer_def withdrawnRecord_def authorizedSample_def)
  with run show ?thesis by (auto simp: withdrawnCredential_def)
qed

subsection \<open>What the verdict does not look at\<close>

text \<open>Programs that neither read nor write the tables.\<close>

definition dbFree :: "'a prog \<Rightarrow> bool" where
  "dbFree m \<longleftrightarrow> (\<forall>w d. m (w\<lparr>database := d\<rparr>) = (fst (m w), (snd (m w))\<lparr>database := d\<rparr>))"

lemma dbFree_intros:
  "dbFree (ret x)" "dbFree (throw e)" "dbFree (liftE r)" "dbFree (rpcCall E f)"
  "dbFree m \<Longrightarrow> (\<And>x. dbFree (g x)) \<Longrightarrow> dbFree (bind m g)"
  "dbFree m \<Longrightarrow> (\<And>e. dbFree (h e)) \<Longrightarrow> dbFree (tryCatch m h)"
  "dbFree m \<Longrightarrow> dbFree n \<Longrightarrow> dbFree (if b then m else n)"
  "dbFree n \<Longrightarrow> (\<And>y. dbFree (k y)) \<Longrightarrow> dbFree (case z of None \<Rightarrow> n | Some y \<Rightarrow> k y)"
  by (auto simp: dbFree_def ret_def throw_def liftE_def rpcCall_def external_def bind_def tryCatch_def
      nextTick_def Let_def split: sum.split option.split prod.split)

lemma dbFree_verifyRecord: "dbFree (verifyRecord E a)"
  unfolding verifyRecord_def readProof_def node_defs by (intro dbFree_intros)

text \<open>The fields a reader is shown, changed in the row of one credential.\<close>

definition altered ::
  "string \<Rightarrow> string \<Rightarrow> string \<Rightarrow> string \<Rightarrow> int option \<Rightarrow> time \<Rightarrow> credential \<Rightarrow> credential" where
  "altered i name student degree year at c = (if c_id c = i then c\<lparr>c_studentName := name,
     c_studentId := student, c_degree := degree, c_graduationYear := year, c_issuedAt := at\<rparr> else c)"

lemma altered_simps [simp]: "c_id (altered i n s g y u c) = c_id c"
  "referenceWhere ref (altered i n s g y u c) = referenceWhere ref c"
  "c_issuerId (altered i n s g y u c) = c_issuerId c"
  "c_signingKeyId (altered i n s g y u c) = c_signingKeyId c"
  "anchorableOf (altered i n s g y u c, j) = anchorableOf (c, j)"
  "buildSignatureBlock E (altered i n s g y u c) k = buildSignatureBlock E c k"
  "resolveStatus (altered i n s g y u c, j) = resolveStatus (c, j)"
  by (simp_all add: altered_def referenceWhere_def anchorableOf_def buildSignatureBlock_def
      resolveStatus_def fun_eq_iff split: option.split)

lemma find_map_same: "(\<And>x. P (f x) = P x) \<Longrightarrow> List.find P (map f xs) = map_option f (List.find P xs)"
  by (induction xs) auto

text \<open>The status of a lookup that returns, as a function of the tables and of the world it asks the node in.\<close>

definition statusFrom :: "env \<Rightarrow> string \<Rightarrow> world \<Rightarrow> db \<Rightarrow> verificationStatus" where
  "statusFrom E ref w1 d = (case List.find (referenceWhere ref) (credentials d) of None \<Rightarrow> NOT_FOUND
   | Some c \<Rightarrow> let i = the (issuerOf d (c_issuerId c)) in
       resolveStatus (c, i) (Some (projr (fst (verifyRecord E (anchorableOf (c, i)) w1))))
         (signatureVerdict E c (keyOf d (c_signingKeyId c))))"

lemma resolveFound_status:
  "wp (resolveFound E ip ev t (c, i, k)) (\<lambda>res _. rs_status res = resolveStatus (c, i)
     (Some (projr (fst (verifyRecord E (anchorableOf (c, i)) w)))) (signatureVerdict E c k)) (\<lambda>_ _. True) w"
  unfolding resolveFound_def prod.case Let_def
proof (rule chainClient.lookup_then)
  fix v w1 assume run: "verifyRecord E (anchorableOf (c, i)) w = (Inr v, w1)"
  show "wp (bind (recordVerification E (c_id c) (lookupEvent t ip True (resolveStatus (c, i) (Some v)
        (map_option sb_signatureValid (buildSignatureBlock E c k))) None ev)) (\<lambda>current.
      ret \<lparr>rs_status = resolveStatus (c, i) (Some v) (map_option sb_signatureValid (buildSignatureBlock E c k)),
        rs_signature = buildSignatureBlock E c k,
        rs_body = buildFoundResponse E t (resolveStatus (c, i) (Some v)
          (map_option sb_signatureValid (buildSignatureBlock E c k))) current v (buildSignatureBlock E c k)\<rparr>))
    (\<lambda>res _. rs_status res = resolveStatus (c, i)
      (Some (projr (fst (verifyRecord E (anchorableOf (c, i)) w)))) (signatureVerdict E c k)) (\<lambda>_ _. True) w1"
    unfolding wp_bind
    by (rule wp_mono [OF recordVerification_wp]) (simp_all add: wp_ret run signatureVerdict_def)
qed

lemma resolve_status:
  "wp (resolveCredentialReference E ref ip ev)
     (\<lambda>res _. rs_status res = statusFrom E ref (nextTick (nextTick w)) (database w)) (\<lambda>_ _. True) w"
proof (cases "List.find (referenceWhere ref) (credentials (database w))")
  case None
  then show ?thesis
    by (auto simp: resolveCredentialReference_def findSigned_def requireRelation_def wp_simps statusFrom_def
        split: option.splits intro!: wp_mono [OF recordUnmatched_wp])
next
  case (Some c)
  then show ?thesis
    by (auto simp: resolveCredentialReference_def findSigned_def requireRelation_def wp_simps statusFrom_def
        Let_def split: option.splits intro!: wp_mono [OF resolveFound_status])
qed

lemma statusFrom_altered:
  assumes "d' = d\<lparr>credentials := map (altered a n s g y u) (credentials d)\<rparr>"
  shows "statusFrom E ref (w\<lparr>database := e\<rparr>) d' = statusFrom E ref w d"
proof -
  have "List.find (referenceWhere ref) (credentials d') =
      map_option (altered a n s g y u) (List.find (referenceWhere ref) (credentials d))"
    using assms by (simp add: find_map_same)
  moreover have "fst (verifyRecord E x (w\<lparr>database := e\<rparr>)) = fst (verifyRecord E x w)" for x
    using dbFree_verifyRecord [of E x] by (simp add: dbFree_def)
  moreover have "issuerOf d' = issuerOf d" "keyOf d' = keyOf d"
    using assms by (simp_all add: fun_eq_iff issuerOf_def keyOf_def split: option.split)
  ultimately show ?thesis
    by (simp add: statusFrom_def Let_def signatureVerdict_def split: option.split)
qed

text \<open>
  Functional: the verdict does not look at the fields a reader is shown. Overwriting in the
  database the student name, student number, degree, graduation year or issue date of a credential
  changes no status a lookup reports, because the signature is checked over the stored payload, which
  is never compared with the row.
\<close>
theorem verdict_ignores_shown_fields:
  assumes "resolveCredentialReference E ref ip ev w = (Inr res, w')"
    and "resolveCredentialReference E ref ip ev (w\<lparr>database := (database w)\<lparr>
      credentials := map (altered a n s g y u) (credentials (database w))\<rparr>\<rparr>) = (Inr res2, w2)"
  shows "rs_status res2 = rs_status res"
proof -
  let ?d = "(database w)\<lparr>credentials := map (altered a n s g y u) (credentials (database w))\<rparr>"
  have "rs_status res2 = statusFrom E ref (nextTick (nextTick (w\<lparr>database := ?d\<rparr>))) ?d"
    using wp_Inr [OF resolve_status assms(2)] by simp
  also have "nextTick (nextTick (w\<lparr>database := ?d\<rparr>)) = (nextTick (nextTick w))\<lparr>database := ?d\<rparr>"
    by (simp add: nextTick_def)
  also have "statusFrom E ref \<dots> ?d = statusFrom E ref (nextTick (nextTick w)) (database w)"
    by (rule statusFrom_altered [OF refl])
  also have "\<dots> = rs_status res"
    using wp_Inr [OF resolve_status assms(1)] by simp
  finally show ?thesis .
qed

definition forgedWorld :: world where
  "forgedWorld = signedWorld\<lparr>database := (database signedWorld)\<lparr>
     credentials := map (altered ''crd_1'' ''Mallory'' ''66'' ''PhD'' None 0)
       (credentials (database signedWorld))\<rparr>\<rparr>"

lemma forged_returns: "isl (fst (resolveCredentialReference sampleEnv ''vrf_1'' ''ip'' QR_LOOKUP forgedWorld)) = False"
  by code_simp

theorem verdict_ignores_shown_fields_witness:
  "\<exists>res w'. resolveCredentialReference sampleEnv ''vrf_1'' ''ip'' QR_LOOKUP forgedWorld = (Inr res, w') \<and>
     rs_status res = VALID"
proof -
  obtain res w' where honest: "rs_status res = VALID"
    "resolveCredentialReference sampleEnv ''vrf_1'' ''ip'' QR_LOOKUP signedWorld = (Inr res, w')"
    using signedWorld_run
    by (cases "resolveCredentialReference sampleEnv ''vrf_1'' ''ip'' QR_LOOKUP signedWorld")
      (auto simp: map_sum_def split: sum.splits)
  obtain res2 w2 where forged:
      "resolveCredentialReference sampleEnv ''vrf_1'' ''ip'' QR_LOOKUP forgedWorld = (Inr res2, w2)"
    using prog_returns [of "resolveCredentialReference sampleEnv ''vrf_1'' ''ip'' QR_LOOKUP", OF forged_returns] by blast
  with verdict_ignores_shown_fields [OF honest(2) forged [unfolded forgedWorld_def]] honest(1)
  show ?thesis by metis
qed

subsection \<open>What an anonymous caller does not learn\<close>

text \<open>
  The members of a row no verification shows: codes, tokens, the payload of the QR code, the student
  number, the stored metadata and the hashes a signature or a proof is not checked against. \<open>concealed s\<close>
  overwrites those of every row by those of another credential, chosen by \<open>s\<close>.
\<close>

definition concealed :: "(string \<Rightarrow> credential) \<Rightarrow> credential \<Rightarrow> credential" where
  "concealed s c = (let r = s (c_id c) in c\<lparr>c_verificationCode := c_verificationCode r,
     c_signedVerificationToken := c_signedVerificationToken r, c_qrPayload := c_qrPayload r,
     c_studentId := c_studentId r, c_metadataJson := c_metadataJson r, c_hash := c_hash r,
     c_registryHash := c_registryHash r, c_documentHash := c_documentHash r\<rparr>)"

lemma concealed_simps [simp]: "c_id (concealed s c) = c_id c" "c_issuerId (concealed s c) = c_issuerId c"
  "c_signingKeyId (concealed s c) = c_signingKeyId c"
  "anchorableOf (concealed s c, i) = anchorableOf (c, i)"
  "buildSignatureBlock E (concealed s c) k = buildSignatureBlock E c k"
  "resolveStatus (concealed s c, i) = resolveStatus (c, i)"
  "secureVerdict (concealed s c) = secureVerdict c"
  by (simp_all add: concealed_def anchorableOf_def buildSignatureBlock_def resolveStatus_def secureVerdict_def
      Let_def fun_eq_iff split: option.split)

text \<open>A response shows neither those members nor when the row was last updated.\<close>

lemma responses_conceal:
  "verifyResponse status t (Some (concealed s c)) v = verifyResponse status t (Some c) v"
  "buildFoundResponse E t status ((countVerification t (concealed s c))\<lparr>c_updatedAt := u\<rparr>, i) v' sb =
     buildFoundResponse E t status (countVerification t c, i) v' sb"
  "buildFoundResponse E t status ((countVerification t c)\<lparr>c_updatedAt := u\<rparr>, i) v' sb =
     buildFoundResponse E t status (countVerification t c, i) v' sb"
proof -
  have checks: "buildTrustChecks (Some (concealed s c)) = buildTrustChecks (Some c)"
    "buildTrustChecks (Some ((countVerification t (concealed s c))\<lparr>c_updatedAt := u\<rparr>)) = buildTrustChecks (Some c)"
    "buildTrustChecks (Some ((countVerification t c)\<lparr>c_updatedAt := u\<rparr>)) = buildTrustChecks (Some c)"
    "buildTrustChecks (Some (countVerification t c)) = buildTrustChecks (Some c)"
    by (simp_all add: concealed_def countVerification_def buildTrustChecks_def fun_eq_iff Let_def)
  show "verifyResponse status t (Some (concealed s c)) v = verifyResponse status t (Some c) v"
    by (simp add: verifyResponse_def checks publicCredential_def) (simp add: concealed_def Let_def)
  show "buildFoundResponse E t status ((countVerification t (concealed s c))\<lparr>c_updatedAt := u\<rparr>, i) v' sb =
      buildFoundResponse E t status (countVerification t c, i) v' sb"
    by (simp add: buildFoundResponse_def checks) (simp add: concealed_def countVerification_def Let_def)
  show "buildFoundResponse E t status ((countVerification t c)\<lparr>c_updatedAt := u\<rparr>, i) v' sb =
      buildFoundResponse E t status (countVerification t c, i) v' sb"
    by (simp add: buildFoundResponse_def checks)
qed

lemma find_map_on: "(\<And>x. x \<in> set xs \<Longrightarrow> P (f x) = Q x) \<Longrightarrow> List.find P (map f xs) = map_option f (List.find Q xs)"
  by (induction xs) auto

lemma wp_fst_Inr: "wp m Q R w \<Longrightarrow> fst (m w) = Inr x \<Longrightarrow> Q x (snd (m w))"
  by (auto simp: wp_def split: prod.splits)

lemma find_own_id:
  assumes "distinct (map c_id cs)" "c \<in> set cs"
  shows "List.find (\<lambda>r. c_id r = c_id c) cs = Some c"
  using assms by (induction cs) (auto simp: image_iff)

text \<open>The row a recorded lookup returns.\<close>

lemma recordVerification_returns:
  assumes "List.find (\<lambda>r. c_id r = c_id c) (credentials (database w)) = Some c"
    and "issuerOf (database w) (c_issuerId c) = Some i"
  shows "wp (recordVerification E (c_id c) ev)
    (\<lambda>r _. \<exists>u. r = ((countVerification (ve_createdAt ev) c)\<lparr>c_updatedAt := u\<rparr>, i)) (\<lambda>_ _. True) w"
proof -
  have update: "wp (updateCredentialI E (c_id c) (countVerification (ve_createdAt ev)))
      (\<lambda>r _. \<exists>u. r = ((countVerification (ve_createdAt ev) c)\<lparr>c_updatedAt := u\<rparr>, i)) (\<lambda>_ _. True) w1"
    if "database w1 = (database w)\<lparr>verificationLogs := ls\<rparr>" for w1 ls
  proof -
    have same: "credentials (database w1) = credentials (database w)" "issuerOf (database w1) = issuerOf (database w)"
      using that by (simp_all add: fun_eq_iff issuerOf_def)
    show ?thesis
      unfolding updateCredentialI_def updateCredential_def
      using assms by (auto simp: wp_simps updateIn_Inr same countVerification_def split: option.splits sum.splits prod.splits)
  qed
  show ?thesis
    unfolding recordVerification_def wp_transaction wp_andThen
    by (rule wp_mono [OF log_wp']) (auto intro!: wp_mono [OF update] split: option.split)
qed

text \<open>
  The answers of the two lookups as functions of the tables and of the world in which the node is asked,
  two interactions after the start.
\<close>

definition bodyFrom :: "env \<Rightarrow> string \<Rightarrow> time \<Rightarrow> world \<Rightarrow> db \<Rightarrow> (string \<times> value) list" where
  "bodyFrom E ref t w1 d = (case List.find (referenceWhere ref) (credentials d) of
     None \<Rightarrow> buildNotFoundResponse t @ [(''signature'', VNull)]
   | Some c \<Rightarrow> let i = the (issuerOf d (c_issuerId c)); v = projr (fst (verifyRecord E (anchorableOf (c, i)) w1));
       sb = buildSignatureBlock E c (keyOf d (c_signingKeyId c)) in
       buildFoundResponse E t (resolveStatus (c, i) (Some v) (map_option sb_signatureValid sb))
         (countVerification t c, i) v sb)"

definition answerFrom :: "env \<Rightarrow> verifyDto \<Rightarrow> time \<Rightarrow> world \<Rightarrow> db \<Rightarrow> verificationStatus \<times> value" where
  "answerFrom E dto t w1 d =
    (case List.find (\<lambda>c. verifyWhere dto (issuerOf d (c_issuerId c)) c) (credentials d) of
       None \<Rightarrow> (NOT_FOUND, verifyResponse NOT_FOUND t None None)
     | Some c \<Rightarrow> let i = the (issuerOf d (c_issuerId c)); v = projr (fst (verifyRecord E (anchorableOf (c, i)) w1));
         status = resolveStatus (c, i) (Some v) (signatureVerdict E c (keyOf d (c_signingKeyId c))) in
         (status, verifyResponse status t (Some c) (Some v)))"

lemma resolveFound_body:
  assumes "List.find (\<lambda>r. c_id r = c_id c) (credentials (database w)) = Some c"
    and "issuerOf (database w) (c_issuerId c) = Some i"
  shows "wp (resolveFound E ip ev t (c, i, k)) (\<lambda>res _. rs_body res = (let v = projr (fst (verifyRecord E
       (anchorableOf (c, i)) w)); sb = buildSignatureBlock E c k in
     buildFoundResponse E t (resolveStatus (c, i) (Some v) (map_option sb_signatureValid sb))
       (countVerification t c, i) v sb)) (\<lambda>_ _. True) w"
  unfolding resolveFound_def prod.case Let_def
proof (rule chainClient.lookup_then)
  fix v w1 assume run: "verifyRecord E (anchorableOf (c, i)) w = (Inr v, w1)" and same: "sameButChain w w1"
  let ?s = "resolveStatus (c, i) (Some v) (map_option sb_signatureValid (buildSignatureBlock E c k))"
  have found: "List.find (\<lambda>r. c_id r = c_id c) (credentials (database w1)) = Some c"
    "issuerOf (database w1) (c_issuerId c) = Some i"
    using assms same by (simp_all add: sameButChain_def)
  show "wp (bind (recordVerification E (c_id c) (lookupEvent t ip True ?s None ev)) (\<lambda>current.
      ret \<lparr>rs_status = ?s, rs_signature = buildSignatureBlock E c k,
        rs_body = buildFoundResponse E t ?s current v (buildSignatureBlock E c k)\<rparr>))
    (\<lambda>res _. rs_body res = buildFoundResponse E t (resolveStatus (c, i)
        (Some (projr (fst (verifyRecord E (anchorableOf (c, i)) w))))
        (map_option sb_signatureValid (buildSignatureBlock E c k)))
      (countVerification t c, i) (projr (fst (verifyRecord E (anchorableOf (c, i)) w))) (buildSignatureBlock E c k))
    (\<lambda>_ _. True) w1"
    unfolding wp_bind run
    by (rule wp_mono [OF recordVerification_returns [OF found]])
      (auto simp: wp_ret responses_conceal(3) lookupEvent_def)
qed

lemma resolve_body:
  assumes "distinct (map c_id (credentials (database w)))"
  shows "wp (resolveCredentialReference E ref ip ev)
     (\<lambda>res _. rs_body res = bodyFrom E ref (clock E (tick w)) (nextTick (nextTick w)) (database w)) (\<lambda>_ _. True) w"
proof (cases "List.find (referenceWhere ref) (credentials (database w))")
  case None
  then show ?thesis
    by (auto simp: resolveCredentialReference_def findSigned_def requireRelation_def wp_simps bodyFrom_def
        split: option.splits intro!: wp_mono [OF recordUnmatched_wp])
next
  case (Some c)
  then have own: "List.find (\<lambda>r. c_id r = c_id c) (credentials (database w)) = Some c"
    using find_own_id [OF assms] by (auto simp: find_Some_iff)
  then show ?thesis using Some
    by (auto simp: resolveCredentialReference_def findSigned_def requireRelation_def wp_simps bodyFrom_def
        Let_def split: option.splits intro!: wp_mono [OF resolveFound_body])
qed

lemma verify_answer:
  "wp (verify E dto ip)
     (\<lambda>r _. r = answerFrom E dto (clock E (tick w)) (nextTick (nextTick w)) (database w)) (\<lambda>_ _. True) w"
proof -
  have found: "wp (verifyFound E dto ip t (c, i, k)) (\<lambda>r _. r = (let v = projr (fst (verifyRecord E (anchorableOf (c, i)) w1));
      status = resolveStatus (c, i) (Some v) (signatureVerdict E c k) in
      (status, verifyResponse status t (Some c) (Some v)))) (\<lambda>_ _. True) w1" for t c i k w1
    unfolding verifyFound_def prod.case Let_def
    by (rule chainClient.lookup_then)
      (auto simp: wp_andThen wp_bind wp_ret signatureVerdict_def intro!: wp_mono [OF recordVerification_wp])
  show ?thesis
    by (cases "List.find (\<lambda>c. verifyWhere dto (issuerOf (database w) (c_issuerId c)) c) (credentials (database w))")
      (auto simp: verify_def guardNot_def findSigned_def requireRelation_def wp_simps answerFrom_def Let_def
        split: option.splits intro!: wp_mono [OF recordUnmatched_wp] wp_mono [OF found])
qed

lemma dbFree_verify: "fst (verifyRecord E x (w\<lparr>database := e\<rparr>)) = fst (verifyRecord E x w)"
  using dbFree_verifyRecord [of E x] by (simp add: dbFree_def)

lemma concealed_tables:
  "issuerOf (d\<lparr>credentials := cs\<rparr>) = issuerOf d" "keyOf (d\<lparr>credentials := cs\<rparr>) = keyOf d"
  by (simp_all add: fun_eq_iff issuerOf_def keyOf_def split: option.split)

lemma bodyFrom_concealed:
  assumes "\<And>c. c \<in> set (credentials d) \<Longrightarrow> referenceWhere ref (concealed s c) = referenceWhere ref c"
  shows "bodyFrom E ref t (w\<lparr>database := e\<rparr>) (d\<lparr>credentials := map (concealed s) (credentials d)\<rparr>) = bodyFrom E ref t w d"
proof -
  have "buildFoundResponse E t st (countVerification t (concealed s c), i) v sb =
      buildFoundResponse E t st (countVerification t c, i) v sb" for st c i v sb
    using responses_conceal(2,3) [of E t st] by metis
  then show ?thesis
    by (simp add: bodyFrom_def find_map_on [where P = "referenceWhere ref" and Q = "referenceWhere ref" and f = "concealed s", OF assms] concealed_tables dbFree_verify Let_def split: option.split)
qed

lemma answerFrom_concealed:
  assumes "\<And>c. c \<in> set (credentials d) \<Longrightarrow> verifyWhere dto (issuerOf d (c_issuerId c)) (concealed s c) =
      verifyWhere dto (issuerOf d (c_issuerId c)) c"
  shows "answerFrom E dto t (w\<lparr>database := e\<rparr>) (d\<lparr>credentials := map (concealed s) (credentials d)\<rparr>) =
    answerFrom E dto t w d"
proof -
  have "List.find (\<lambda>c. verifyWhere dto (issuerOf d (c_issuerId c)) c) (map (concealed s) (credentials d)) =
      map_option (concealed s) (List.find (\<lambda>c. verifyWhere dto (issuerOf d (c_issuerId c)) c) (credentials d))"
    by (rule find_map_on) (simp add: assms)
  then show ?thesis
    by (simp add: answerFrom_def concealed_tables dbFree_verify signatureVerdict_def responses_conceal(1) Let_def
        split: option.split)
qed

definition hidden :: "(string \<Rightarrow> credential) \<Rightarrow> world \<Rightarrow> world" where
  "hidden s w = w\<lparr>database := (database w)\<lparr>credentials := map (concealed s) (credentials (database w))\<rparr>\<rparr>"

lemma hidden_simps: "tick (hidden s w) = tick w" "distinct (map c_id (credentials (database (hidden s w)))) =
    distinct (map c_id (credentials (database w)))"
  "database (hidden s w) = (database w)\<lparr>credentials := map (concealed s) (credentials (database w))\<rparr>"
  "nextTick (nextTick (hidden s w)) = (nextTick (nextTick w))\<lparr>database := database (hidden s w)\<rparr>"
  by (simp_all add: hidden_def comp_def nextTick_def)

text \<open>
  C37. Safety: what an anonymous caller is answered does not depend on what he must not learn. Overwrite in
  every row the verification code, the signed token, the payload of the QR code, the student number, the
  stored metadata, the registry and document hashes and the hash of the credential: as long as the same
  rows answer the search, a lookup by reference and one by identifier, hash or domain that answer in both
  tables answer the same, verdict and body. The export of the signed payload, which is public and holds
  the student number, is another operation.
\<close>

theorem public_responses_hide_secrets:
  assumes "distinct (map c_id (credentials (database w)))"
    and "\<forall>c \<in> set (credentials (database w)). referenceWhere ref (concealed s c) = referenceWhere ref c \<and>
      verifyWhere dto (issuerOf (database w) (c_issuerId c)) (concealed s c) =
        verifyWhere dto (issuerOf (database w) (c_issuerId c)) c"
  shows "(\<forall>res res2. fst (resolveCredentialReference E ref ip ev w) = Inr res \<and>
      fst (resolveCredentialReference E ref ip ev (hidden s w)) = Inr res2 \<longrightarrow> rs_body res2 = rs_body res) \<and>
    (\<forall>r r2. fst (verify E dto ip w) = Inr r \<and> fst (verify E dto ip (hidden s w)) = Inr r2 \<longrightarrow> r2 = r)"
proof (intro conjI allI impI)
  fix res res2
  assume run: "fst (resolveCredentialReference E ref ip ev w) = Inr res \<and>
    fst (resolveCredentialReference E ref ip ev (hidden s w)) = Inr res2"
  have "rs_body res2 = bodyFrom E ref (clock E (tick w)) (nextTick (nextTick (hidden s w))) (database (hidden s w))"
    using wp_fst_Inr [OF resolve_body run [THEN conjunct2]] assms(1) by (simp add: hidden_simps(1,2))
  also have "\<dots> = bodyFrom E ref (clock E (tick w)) (nextTick (nextTick w)) (database w)"
    using assms(2) unfolding hidden_simps(3,4) by (intro bodyFrom_concealed) blast
  also have "\<dots> = rs_body res"
    using wp_fst_Inr [OF resolve_body [OF assms(1)] run [THEN conjunct1]] by simp
  finally show "rs_body res2 = rs_body res" .
next
  fix r r2
  assume run: "fst (verify E dto ip w) = Inr r \<and> fst (verify E dto ip (hidden s w)) = Inr r2"
  have "r2 = answerFrom E dto (clock E (tick w)) (nextTick (nextTick (hidden s w))) (database (hidden s w))"
    using wp_fst_Inr [OF verify_answer run [THEN conjunct2]] by (simp add: hidden_simps(1))
  also have "\<dots> = answerFrom E dto (clock E (tick w)) (nextTick (nextTick w)) (database w)"
    using assms(2) unfolding hidden_simps(3,4) by (intro answerFrom_concealed) blast
  also have "\<dots> = r" using wp_fst_Inr [OF verify_answer run [THEN conjunct1]] by simp
  finally show "r2 = r" .
qed

text \<open>A student number and a code of another credential in the signed row.\<close>

definition otherSecrets :: "string \<Rightarrow> credential" where
  "otherSecrets i = firstCredential\<lparr>c_studentId := ''66'', c_verificationCode := ''other'', c_hash := ''00''\<rparr>"

definition byId :: verifyDto where
  "byId = \<lparr>vd_credentialId = Some ''crd_1'', vd_hash = None, vd_issuerDomain = None\<rparr>"

lemma hidden_runs:
  "map_sum (\<lambda>_. ()) rs_status (fst (resolveCredentialReference sampleEnv ''vrf_1'' ''ip'' QR_LOOKUP (hidden otherSecrets signedWorld))) = Inr VALID"
  by code_simp

theorem public_responses_hide_secrets_witness:
  "\<exists>res res2. fst (resolveCredentialReference sampleEnv ''vrf_1'' ''ip'' QR_LOOKUP signedWorld) = Inr res \<and>
     fst (resolveCredentialReference sampleEnv ''vrf_1'' ''ip'' QR_LOOKUP (hidden otherSecrets signedWorld)) = Inr res2 \<and>
     rs_body res2 = rs_body res \<and>
     map c_studentId (credentials (database (hidden otherSecrets signedWorld))) \<noteq>
       map c_studentId (credentials (database signedWorld))"
proof -
  have rows: "credentials (database signedWorld) = [firstCredential\<lparr>c_signature := Some ''payloadpriv''\<rparr>]"
    by (simp add: signedWorld_def)
  have ids: "distinct (map c_id (credentials (database signedWorld)))" by (simp add: rows)
  have same: "\<forall>c \<in> set (credentials (database signedWorld)).
      referenceWhere ''vrf_1'' (concealed otherSecrets c) = referenceWhere ''vrf_1'' c \<and>
      verifyWhere byId (issuerOf (database signedWorld) (c_issuerId c)) (concealed otherSecrets c) =
        verifyWhere byId (issuerOf (database signedWorld) (c_issuerId c)) c"
    by (simp add: rows concealed_def Let_def referenceWhere_def verifyWhere_def byId_def truthy_def sampleCredential_def)
  obtain res res2 where run: "fst (resolveCredentialReference sampleEnv ''vrf_1'' ''ip'' QR_LOOKUP signedWorld) = Inr res"
    "fst (resolveCredentialReference sampleEnv ''vrf_1'' ''ip'' QR_LOOKUP (hidden otherSecrets signedWorld)) = Inr res2"
    using signedWorld_run hidden_runs by (auto simp: map_sum_def split: sum.splits)
  have "map c_studentId (credentials (database (hidden otherSecrets signedWorld))) \<noteq>
      map c_studentId (credentials (database signedWorld))"
    by (simp add: hidden_simps(3) rows concealed_def Let_def otherSecrets_def sampleCredential_def)
  with run public_responses_hide_secrets [OF ids same] show ?thesis by blast
qed

end
