(* ===== verification/RateLimitLaws.thy ===== *)
theory RateLimitLaws
  imports RateLimit Sample "HOL-Library.Multiset"
begin

text \<open>
  Laws of the rate limiter: what both stores promise (the locale \<open>window_store\<close>: a sliding window of
  the accepted times), that the Redis script and the store in memory answer alike, and how many calls
  the service can let through in a window while Redis fails and recovers in any pattern.
\<close>

subsection \<open>A sliding window\<close>

definition recent :: "time \<Rightarrow> time list \<Rightarrow> time list" where
  "recent x ts = filter (\<lambda>t. t > x) ts"

text \<open>The reference: the times accepted so far, and what the next call is told.\<close>

definition windowResult :: "int \<Rightarrow> int \<Rightarrow> time \<Rightarrow> time list \<Rightarrow> storeResult \<times> time list" where
  "windowResult limit W now hits = (let kept = recent (now - W) hits;
       hits' = (if int (length kept) \<ge> limit then kept else kept @ [now])
     in (\<lparr>so_allowed = (int (length kept) < limit), so_totalHits = int (length hits'),
          so_resetAt = firstOr hits' now + W\<rparr>, hits'))"

locale window_store =
  fixes admit :: "time \<Rightarrow> string \<Rightarrow> 's \<Rightarrow> storeResult \<times> 's"
    and hits :: "'s \<Rightarrow> time list"
    and ok :: "time \<Rightarrow> string set \<Rightarrow> 's \<Rightarrow> bool"
    and limit :: int and W :: int
  assumes step: "ok prev used s \<Longrightarrow> prev \<le> now \<Longrightarrow> 0 \<le> now \<Longrightarrow> u \<notin> used \<Longrightarrow> admit now u s = (r, s') \<Longrightarrow>
      ok now (insert u used) s' \<and> windowResult limit W now (hits s) = (r, hits s')"
    and later: "ok prev used s \<Longrightarrow> prev \<le> prev' \<Longrightarrow> used \<subseteq> used' \<Longrightarrow> ok prev' used' s"
begin

fun history :: "(time \<times> string) list \<Rightarrow> 's \<Rightarrow> storeResult list" where
  "history [] s = []"
| "history ((now, u) # calls) s = (case admit now u s of (r, s') \<Rightarrow> r # history calls s')"

end

fun windowHistory :: "int \<Rightarrow> int \<Rightarrow> time list \<Rightarrow> time list \<Rightarrow> storeResult list" where
  "windowHistory limit W [] hits = []"
| "windowHistory limit W (now # nows) hits = (case windowResult limit W now hits of
     (r, hits') \<Rightarrow> r # windowHistory limit W nows hits')"

context window_store
begin

lemma history_window:
  assumes "ok prev used s" "sorted (prev # map fst calls)" "0 \<le> prev" "distinct (map snd calls)"
    "set (map snd calls) \<inter> used = {}"
  shows "history calls s = windowHistory limit W (map fst calls) (hits s)"
  using assms
proof (induction calls arbitrary: s prev used)
  case (Cons c calls)
  obtain now u where c: "c = (now, u)" by (cases c)
  obtain r s' where run: "admit now u s = (r, s')" by (cases "admit now u s")
  from Cons.prems have now: "prev \<le> now" "0 \<le> now" "u \<notin> used" by (auto simp: c)
  from step [OF Cons.prems(1) now run] Cons.prems Cons.IH [of now "insert u used" s']
  show ?case by (auto simp: c run)
qed simp

end

text \<open>
  Accepted times \<open>A\<close> are accounted for by a store that holds \<open>hits\<close>: of those that still matter,
  the store holds at least as many.
\<close>

definition accounted :: "int \<Rightarrow> time \<Rightarrow> time list \<Rightarrow> time list \<Rightarrow> bool" where
  "accounted W prev A hits \<longleftrightarrow> (\<forall>x \<ge> prev - W. length (recent x A) \<le> length (recent x hits)) \<and>
     (\<forall>a \<in> set A. a \<le> prev)"

definition within :: "int \<Rightarrow> time \<Rightarrow> time list \<Rightarrow> nat" where
  "within W t A = length (filter (\<lambda>a. t - W < a \<and> a \<le> t) A)"

lemma recent_recent: "x \<le> y \<Longrightarrow> recent y (recent x ts) = recent y ts"
  by (auto simp: recent_def intro!: filter_cong)

lemma accounted_later: "accounted W prev A hits \<Longrightarrow> prev \<le> now \<Longrightarrow> accounted W now A hits"
  by (force simp: accounted_def)

lemma accounted_kept: "accounted W prev A hits \<Longrightarrow> prev \<le> now \<Longrightarrow>
  accounted W now A (recent (now - W) hits)"
  by (force simp: accounted_def recent_recent)

lemma accounted_hit: "accounted W now A kept \<Longrightarrow> accounted W now (A @ [now]) (kept @ [now])"
  by (simp add: accounted_def recent_def)

lemma accounted_ghost: "accounted W now A kept \<Longrightarrow> accounted W now A (kept @ [now])"
  by (auto simp: accounted_def recent_def le_SucI)

lemma within_snoc:
  assumes a: "accounted W now A kept" and W: "0 \<le> W" and below: "\<And>t. int (within W t A) \<le> max limit 0"
    and room: "int (length (recent (now - W) kept)) < limit"
  shows "int (within W t (A @ [now])) \<le> max limit 0"
proof (cases "now \<le> t \<and> t - W < now")
  case True
  have "filter (\<lambda>a. t - W < a \<and> a \<le> t) A = filter (\<lambda>a. t - W < a \<and> a \<le> t) (recent (now - W) A)"
    using True by (auto simp: recent_def intro!: filter_cong)
  then have "within W t A \<le> length (recent (now - W) A)" by (simp add: within_def)
  also have "\<dots> \<le> length (recent (now - W) kept)" using a by (simp add: accounted_def)
  finally show ?thesis using room True by (simp add: within_def)
next
  case False
  then show ?thesis using below [of t] by (auto simp: within_def)
qed

subsection \<open>The two stores\<close>

definition memoryHits :: "string \<Rightarrow> buckets \<Rightarrow> time list" where
  "memoryHits key b = orElse (b key) []"

interpretation memoryStore: window_store "\<lambda>now u. memoryConsume now key limit windowSeconds"
  "memoryHits key" "\<lambda>prev used b. True" limit "windowSeconds * 1000" for key limit windowSeconds
proof (unfold_locales, goal_cases)
  case (1 prev used s now u r s')
  then show ?case
    by (auto simp: memoryConsume_def windowResult_def memoryHits_def recent_def orElse_def Let_def
        split: if_splits)
qed simp

text \<open>The scores of a sorted set in their order; what a script leaves in a key.\<close>

definition scores :: "'z redis \<Rightarrow> 'z \<Rightarrow> time list" where
  "scores R z = sorted_list_of_multiset (image_mset snd (mset_set (z_elems R z)))"

definition keyOk :: "'z redis \<Rightarrow> int \<Rightarrow> time \<Rightarrow> string set \<Rightarrow> 'z \<Rightarrow> bool" where
  "keyOk R W prev used z \<longleftrightarrow> redisLaws R \<and>
     (\<forall>e \<in> z_elems R z. fst e \<in> used \<and> 0 \<le> snd e \<and> snd e \<le> prev) \<and>
     (z_elems R z = {} \<or> (\<exists>d. z_deadline R z = Some d \<and> (\<forall>e \<in> z_elems R z. snd e + W \<le> d)))"

lemma scores_recent:
  assumes "finite A"
  shows "sorted_list_of_multiset (image_mset snd (mset_set {e \<in> A. snd e > (x :: int)})) =
    recent x (sorted_list_of_multiset (image_mset snd (mset_set A)))"
proof -
  have "image_mset snd (mset_set {e \<in> A. snd e > x}) = filter_mset (\<lambda>t. t > x) (image_mset snd (mset_set A))"
    by (simp only: filter_mset_image_mset filter_mset_mset_set [OF assms])
  also have "\<dots> = mset (recent x (sorted_list_of_multiset (image_mset snd (mset_set A))))"
    by (simp add: recent_def)
  finally have "sorted_list_of_multiset (image_mset snd (mset_set {e \<in> A. snd e > x})) =
      sort (recent x (sorted_list_of_multiset (image_mset snd (mset_set A))))"
    by (simp only: sorted_list_of_multiset_mset)
  also have "sorted (recent x (sorted_list_of_multiset (image_mset snd (mset_set A))))"
    by (simp add: recent_def sorted_filter [where f = "\<lambda>x. x", simplified])
  ultimately show ?thesis by (simp add: sorted_sort_id)
qed

lemma scores_add:
  assumes "finite A" "m \<notin> fst ` A" "\<forall>e \<in> A. snd e \<le> (s :: int)"
  shows "sorted_list_of_multiset (image_mset snd (mset_set (insert (m, s) A))) =
    sorted_list_of_multiset (image_mset snd (mset_set A)) @ [s]"
proof -
  have "(m, s) \<notin> A" using assms(2) by force
  then have "image_mset snd (mset_set (insert (m, s) A)) =
      mset (sorted_list_of_multiset (image_mset snd (mset_set A)) @ [s])"
    using assms(1) by simp
  then have "sorted_list_of_multiset (image_mset snd (mset_set (insert (m, s) A))) =
      sort (sorted_list_of_multiset (image_mset snd (mset_set A)) @ [s])"
    by (simp only: sorted_list_of_multiset_mset)
  also have "sorted (sorted_list_of_multiset (image_mset snd (mset_set A)) @ [s])"
    using assms(1,3) by (auto simp: sorted_append)
  ultimately show ?thesis by (simp add: sorted_sort_id)
qed

lemma scores_first:
  assumes "redisLaws R"
  shows "z_card R z = int (length (scores R z))"
    and "(case z_first R z of Some s \<Rightarrow> s + W | None \<Rightarrow> now + W) = firstOr (scores R z) now + W"
proof -
  have fin: "finite (z_elems R z)" and card: "z_card R z = int (card (z_elems R z))"
    and first: "z_first R z = (if z_elems R z = {} then None else Some (Min (snd ` z_elems R z)))"
    using assms by (auto simp: redisLaws_def)
  have "length (scores R z) = size (mset (scores R z))" by simp
  then show "z_card R z = int (length (scores R z))"
    using fin card by (simp add: scores_def)
  have sets: "set (scores R z) = snd ` z_elems R z" using fin by (simp add: scores_def)
  have "sorted (scores R z)" by (simp add: scores_def)
  then have "Min (set (scores R z)) = t" if "scores R z = t # ts" for t ts
    using that by (intro Min_eqI) auto
  then show "(case z_first R z of Some s \<Rightarrow> s + W | None \<Rightarrow> now + W) = firstOr (scores R z) now + W"
    using sets by (cases "scores R z") (auto simp: first firstOr_def)
qed

lemma script_window:
  assumes ok: "keyOk R W prev used z0" and now: "prev \<le> now" "0 \<le> now" "u \<notin> used"
    and run: "redisScript R now now W limit u ws z0 = (r, z')" and W: "W = ws * 1000"
  shows "keyOk R W now (insert u used) z' \<and> windowResult limit W now (scores R z0) = (r, scores R z')"
proof -
  have laws: "redisLaws R" and used: "\<And>e. e \<in> z_elems R z0 \<Longrightarrow> fst e \<in> used \<and> 0 \<le> snd e \<and> snd e \<le> prev"
    and deadline: "z_elems R z0 = {} \<or> (\<exists>d. z_deadline R z0 = Some d \<and> (\<forall>e \<in> z_elems R z0. snd e + W \<le> d))"
    using ok by (auto simp: keyOk_def)
  have fin: "finite (z_elems R z)" for z using laws by (simp add: redisLaws_def)
  define z where "z = z_remRangeByScore R 0 (now - W) (z_load R now z0)"
  have loaded: "z_elems R (z_load R now z0) = (case z_deadline R z0 of None \<Rightarrow> z_elems R z0
      | Some d \<Rightarrow> if d \<le> now then {} else z_elems R z0)"
    and removed: "z_elems R z = {e \<in> z_elems R (z_load R now z0). \<not> (0 \<le> snd e \<and> snd e \<le> now - W)}"
    and added: "z_elems R (z_add R now u z) = insert (u, now) {e \<in> z_elems R z. fst e \<noteq> u}"
    and expire: "z_elems R (z_expire R now ws x) = z_elems R x" "z_deadline R (z_expire R now ws x) = Some (now + W)" for x
    using laws W by (simp_all add: redisLaws_def z_def)
  have kept: "z_elems R z = {e \<in> z_elems R z0. snd e > now - W}"
  proof -
    have "z_elems R z \<subseteq> z_elems R z0" unfolding removed loaded by (auto split: option.splits if_splits)
    then have "snd e > now - W" if "e \<in> z_elems R z" for e
      using that used [of e] unfolding removed by (auto simp: not_le)
    moreover have "e \<in> z_elems R (z_load R now z0)" if "e \<in> z_elems R z0" "snd e > now - W" for e
      using deadline that unfolding loaded by fastforce
    ultimately show ?thesis
      using \<open>z_elems R z \<subseteq> z_elems R z0\<close> used unfolding removed by auto
  qed
  have hits: "scores R z = recent (now - W) (scores R z0)"
    using scores_recent [OF fin] by (simp add: scores_def kept)
  have fresh: "u \<notin> fst ` z_elems R z" "\<forall>e \<in> z_elems R z. snd e \<le> now"
    using used now kept by (force, fastforce)
  then have add: "z_elems R (z_add R now u z) = insert (u, now) (z_elems R z)"
    unfolding added by force
  have hits': "scores R (z_add R now u z) = scores R z @ [now]"
    using scores_add [OF fin fresh] by (simp add: scores_def add)
  have same: "scores R (z_expire R now ws x) = scores R x" for x by (simp add: scores_def expire)
  have okz: "keyOk R W now (insert u used) (z_expire R now ws z)"
      "keyOk R W now (insert u used) (z_expire R now ws (z_add R now u z))"
    using laws used now by (auto simp: keyOk_def expire add kept dest: order_trans)
      (meson order_trans)+
  show ?thesis
    using run okz unfolding redisScript_def Let_def z_def [symmetric]
    by (auto simp: windowResult_def hits hits' same scores_first [OF laws] Let_def split: if_splits)
qed

interpretation redisStore: window_store
  "\<lambda>now u. redisConsume R now now u key limit windowSeconds" "\<lambda>keys. scores R (keys key)"
  "\<lambda>prev used keys. keyOk R (windowSeconds * 1000) prev used (keys key)" limit "windowSeconds * 1000"
  for R :: "'z redis" and key limit windowSeconds
proof (unfold_locales, goal_cases)
  case (1 prev used s now u r s')
  obtain z' where z': "redisScript R now now (windowSeconds * 1000) limit u windowSeconds (s key) = (r, z')"
      "s' = s(key := z')"
    using 1(5) by (auto simp: redisConsume_def split: prod.splits)
  show ?case using script_window [OF 1(1-4) z'(1) refl] z'(2) by simp
next
  case (2 prev used s prev' used')
  then show ?case by (fastforce simp: keyOk_def dest: order_trans)
qed

subsection \<open>Both stores answer alike\<close>

fun memoryAnswers :: "int \<Rightarrow> int \<Rightarrow> string \<Rightarrow> time list \<Rightarrow> buckets \<Rightarrow> storeResult list" where
  "memoryAnswers limit windowSeconds key [] b = []"
| "memoryAnswers limit windowSeconds key (now # nows) b =
     (case memoryConsume now key limit windowSeconds b of
        (r, b') \<Rightarrow> r # memoryAnswers limit windowSeconds key nows b')"

fun redisAnswers :: "'z redis \<Rightarrow> int \<Rightarrow> int \<Rightarrow> string \<Rightarrow> (time \<times> string) list \<Rightarrow> (string \<Rightarrow> 'z) \<Rightarrow>
    storeResult list" where
  "redisAnswers R limit windowSeconds key [] keys = []"
| "redisAnswers R limit windowSeconds key ((now, uuid) # calls) keys =
     (case redisConsume R now now uuid key limit windowSeconds keys of
        (r, keys') \<Rightarrow> r # redisAnswers R limit windowSeconds key calls keys')"

lemma memoryAnswers_window:
  "memoryAnswers limit ws key nows b = windowHistory limit (ws * 1000) nows (memoryHits key b)"
proof (induction nows arbitrary: b)
  case (Cons now nows)
  obtain r b' where run: "memoryConsume now key limit ws b = (r, b')"
    by (cases "memoryConsume now key limit ws b")
  have "windowResult limit (ws * 1000) now (memoryHits key b) = (r, memoryHits key b')"
    using run by (auto simp: memoryConsume_def windowResult_def memoryHits_def recent_def orElse_def
        Let_def split: if_splits)
  then show ?case by (simp add: run Cons.IH)
qed simp

lemma redisAnswers_history:
  "redisAnswers R limit ws key calls keys = redisStore.history R key limit ws calls keys"
  by (induction calls arbitrary: keys) (auto split: prod.splits)

lemma keyOk_empty: "redisLaws R \<Longrightarrow> z_elems R z = {} \<Longrightarrow> keyOk R W prev used z"
  by (simp add: keyOk_def)

text \<open>A concrete sorted set: the entries, and the deadline of the key.\<close>

type_synonym sampleZ = "(string \<times> int) list \<times> time option"

definition sampleRedis :: "sampleZ redis" where
  "sampleRedis = \<lparr>z_load = (\<lambda>t z. case snd z of None \<Rightarrow> z | Some d \<Rightarrow> if d \<le> t then ([], None) else z),
     z_remRangeByScore = (\<lambda>lo hi z. (filter (\<lambda>e. \<not> (lo \<le> snd e \<and> snd e \<le> hi)) (fst z), snd z)),
     z_card = (\<lambda>z. int (length (remdups (fst z)))),
     z_first = (\<lambda>z. case sort (map snd (fst z)) of [] \<Rightarrow> None | t # _ \<Rightarrow> Some t),
     z_add = (\<lambda>s m z. ((m, s) # filter (\<lambda>e. fst e \<noteq> m) (fst z), snd z)),
     z_expire = (\<lambda>t n z. (fst z, Some (t + n * 1000))), z_elems = (\<lambda>z. set (fst z)), z_deadline = snd\<rparr>"

lemma sort_first: "(case sort ts of [] \<Rightarrow> None | t # _ \<Rightarrow> Some t) =
  (if set ts = {} then None else Some (Min (set ts :: int set)))"
proof (cases "sort ts")
  case Nil
  have "set ts = {}" using set_sort [of "\<lambda>x. x" ts] unfolding Nil by simp
  then show ?thesis using Nil by simp
next
  case (Cons t ts')
  have "sorted (t # ts')" using sorted_sort [of ts] Cons by simp
  then have "Min (set (t # ts')) = t" by (intro Min_eqI) auto
  moreover have "set (t # ts') = set ts" using set_sort [of "\<lambda>x. x" ts] unfolding Cons .
  ultimately show ?thesis using Cons by (metis list.case(2) list.set_intros(1) empty_iff)
qed

lemma sampleRedis_laws: "redisLaws sampleRedis"
  by (auto simp: redisLaws_def sampleRedis_def length_remdups_card_conv sort_first split: option.split)

text \<open>
  C11. Equivalence: the Redis script and the store in memory answer alike. For any limit and window,
  any calls at times that do not go back and with fresh identifiers, starting without entries and with
  the server's clock equal to the API's, both give the same verdict, the same count and the same reset
  time to every call, whatever the expiry of the key does in between.
\<close>
theorem redis_store_equals_memory_store:
  assumes "redisLaws R" and "z_elems R (keys key) = {}" and "b key = None"
    and "sorted (0 # map fst calls)" and "distinct (map snd calls)"
  shows "redisAnswers R limit windowSeconds key calls keys =
    memoryAnswers limit windowSeconds key (map fst calls) b"
proof -
  have "redisStore.history R key limit windowSeconds calls keys =
      windowHistory limit (windowSeconds * 1000) (map fst calls) (scores R (keys key))"
    using assms by (intro redisStore.history_window [of R windowSeconds 0 "{}"]) (auto simp: keyOk_empty)
  then show ?thesis
    using assms by (simp add: redisAnswers_history memoryAnswers_window memoryHits_def orElse_def scores_def)
qed

theorem redis_store_equals_memory_store_witness:
  "map so_allowed (redisAnswers sampleRedis 2 1 ''k'' [(5, ''a''), (6, ''b''), (7, ''c''), (1006, ''d'')]
     (\<lambda>_. ([], None))) = [True, True, False, True]"
proof -
  have "redisAnswers sampleRedis 2 1 ''k'' [(5, ''a''), (6, ''b''), (7, ''c''), (1006, ''d'')] (\<lambda>_. ([], None)) =
      memoryAnswers 2 1 ''k'' [5, 6, 7, 1006] Map.empty"
    using redis_store_equals_memory_store [of sampleRedis "\<lambda>_. ([], None)" "''k''" Map.empty
        "[(5, ''a''), (6, ''b''), (7, ''c''), (1006, ''d'')]" 2 1] sampleRedis_laws
    by (simp add: sampleRedis_def)
  also have "map so_allowed \<dots> = [True, True, False, True]"
    by (simp add: memoryConsume_def orElse_def Let_def)
  finally show ?thesis .
qed

subsection \<open>How much the service lets through\<close>

context window_store
begin

lemma counted:
  assumes "ok prev used s" "prev \<le> now" "0 \<le> now" "u \<notin> used" "admit now u s = (r, s')"
    and a: "accounted W prev A (hits s)" and "0 \<le> W" and b: "\<And>t. int (within W t A) \<le> max limit 0"
  shows "ok now (insert u used) s'" "accounted W now A (hits s')"
    and "so_allowed r \<Longrightarrow> accounted W now (A @ [now]) (hits s')"
    and "so_allowed r \<Longrightarrow> int (within W t (A @ [now])) \<le> max limit 0"
proof -
  let ?kept = "recent (now - W) (hits s)"
  have res: "windowResult limit W now (hits s) = (r, hits s')" and "ok now (insert u used) s'"
    using step [OF assms(1-5)] by auto
  then show "ok now (insert u used) s'" by simp
  have kept: "accounted W now A ?kept" by (rule accounted_kept [OF a assms(2)])
  show "accounted W now A (hits s')"
    using res kept accounted_ghost [OF kept] by (auto simp: windowResult_def Let_def split: if_splits)
  show "accounted W now (A @ [now]) (hits s')" if "so_allowed r"
    using that res accounted_hit [OF kept] by (auto simp: windowResult_def Let_def)
  show "int (within W t (A @ [now])) \<le> max limit 0" if "so_allowed r"
    using that res recent_recent [of "now - W" "now - W" "hits s"]
    by (intro within_snoc [OF kept assms(7) b]) (auto simp: windowResult_def Let_def)
qed

end

text \<open>The clock reading a call was counted at, and the sequence of the service's answers to one caller.\<close>

definition countedAt :: "limitConfig \<Rightarrow> ruleName \<Rightarrow> encounter \<Rightarrow> 'z limiter \<Rightarrow> time" where
  "countedAt L rule e s = (if lc_memoryOnly L \<or> rule \<noteq> AUTH_LOGIN \<and> en_now e < lm_redisFallbackUntil s \<or>
      en_redis e = Answered then en_now e else en_later e)"

fun serviceHistory :: "env \<Rightarrow> 'z redis \<Rightarrow> limitConfig \<Rightarrow> ruleName \<Rightarrow> request \<Rightarrow> encounter list \<Rightarrow> 'z limiter \<Rightarrow>
    (time \<times> consumeResult) list" where
  "serviceHistory E R L rule req [] s = []"
| "serviceHistory E R L rule req (e # es) s = (case consume E R L rule req e s of
     (r, s') \<Rightarrow> (countedAt L rule e s, r) # serviceHistory E R L rule req es s')"

fun orderly :: "time \<Rightarrow> encounter list \<Rightarrow> bool" where
  "orderly prev [] = True"
| "orderly prev (e # es) \<longleftrightarrow> prev \<le> en_now e \<and> en_serverNow e = en_now e \<and> en_now e \<le> en_later e \<and>
     orderly (en_later e) es"

definition letThrough :: "int \<Rightarrow> time \<Rightarrow> (time \<times> consumeResult) list \<Rightarrow> nat" where
  "letThrough W t h = length (filter (\<lambda>(at, r). so_allowed r \<and> t - W < at \<and> at \<le> t) h)"

text \<open>
  The account of a caller: \<open>Am\<close> and \<open>Ar\<close> are the calls the memory and Redis let through.
\<close>

definition account :: "'z redis \<Rightarrow> limitConfig \<Rightarrow> ruleName \<Rightarrow> string \<Rightarrow> time \<Rightarrow> string set \<Rightarrow> time list \<Rightarrow>
    time list \<Rightarrow> 'z limiter \<Rightarrow> bool" where
  "account R L rule key prev used Am Ar s \<longleftrightarrow>
     (let W = rc_windowSeconds (rules L rule) * 1000; limit = rc_limit (rules L rule) in
      keyOk R W prev used (lm_keys s key) \<and>
      accounted W prev Am (memoryHits key (lm_buckets s)) \<and> accounted W prev Ar (scores R (lm_keys s key)) \<and>
      (\<forall>t. int (within W t Am) \<le> max limit 0 \<and> int (within W t Ar) \<le> max limit 0) \<and>
      (rule = AUTH_LOGIN \<and> \<not> lc_memoryOnly L \<longrightarrow> Am = []) \<and> (lc_memoryOnly L \<longrightarrow> Ar = []))"

lemma account_memory:
  assumes a: "account R L rule key prev used Am Ar s" and now: "prev \<le> now" "0 \<le> now"
    and W: "0 \<le> rc_windowSeconds (rules L rule)"
    and run: "inMemory now key (rules L rule) s = (r, s')" and open_: "rule \<noteq> AUTH_LOGIN \<or> lc_memoryOnly L"
  shows "account R L rule key now used (if so_allowed r then Am @ [now] else Am) Ar s'"
proof -
  let ?W = "rc_windowSeconds (rules L rule) * 1000" and ?limit = "rc_limit (rules L rule)"
  obtain b where b: "memoryConsume now key ?limit (rc_windowSeconds (rules L rule)) (lm_buckets s) = (r, b)"
      "s' = s\<lparr>lm_buckets := b\<rparr>"
    using run by (auto simp: inMemory_def split: prod.splits)
  have am: "accounted ?W prev Am (memoryHits key (lm_buckets s))" "0 \<le> ?W"
      "\<And>t. int (within ?W t Am) \<le> max ?limit 0"
    using a W by (auto simp: account_def Let_def)
  note c = memoryStore.counted [where u = "[]" and used = "{}", OF TrueI now _ b(1) am]
  have "accounted ?W now Ar (scores R (lm_keys s key))" "keyOk R ?W now used (lm_keys s key)"
    using a now redisStore.later [of R _ prev used "lm_keys s" key now used] accounted_later
    by (auto simp: account_def Let_def)
  then show ?thesis
    using a c open_ by (auto simp: account_def Let_def b(2))
qed

lemma account_redis:
  assumes a: "account R L rule key prev used Am Ar s" and now: "prev \<le> now" "0 \<le> now" "u \<notin> used"
    and W: "0 \<le> rc_windowSeconds (rules L rule)" and open_: "\<not> lc_memoryOnly L"
    and run: "redisConsume R now now u key (rc_limit (rules L rule)) (rc_windowSeconds (rules L rule))
      (lm_keys s) = (r, keys)"
  shows "account R L rule key now (insert u used) Am (if so_allowed r \<and> answered then Ar @ [now] else Ar)
    (s\<lparr>lm_keys := keys\<rparr>)"
proof -
  let ?W = "rc_windowSeconds (rules L rule) * 1000" and ?limit = "rc_limit (rules L rule)"
  have ar: "keyOk R ?W prev used (lm_keys s key)" "accounted ?W prev Ar (scores R (lm_keys s key))" "0 \<le> ?W"
      "\<And>t. int (within ?W t Ar) \<le> max ?limit 0"
    using a W by (auto simp: account_def Let_def)
  note c = redisStore.counted [OF ar(1) now run ar(2-4)]
  have "accounted ?W now Am (memoryHits key (lm_buckets s))"
    using a now accounted_later by (auto simp: account_def Let_def)
  then show ?thesis
    using a c open_ by (auto simp: account_def Let_def)
qed

lemma account_later: "account R L rule key prev used Am Ar s \<Longrightarrow> prev \<le> now \<Longrightarrow> used \<subseteq> used' \<Longrightarrow>
  account R L rule key now used' Am Ar (s\<lparr>lm_redisFallbackUntil := t\<rparr>)"
  using redisStore.later [of R _ prev used "lm_keys s" key now used'] accounted_later
  by (auto simp: account_def Let_def)

lemma within_one: "within W t (A @ [a]) = within W t A + (if t - W < a \<and> a \<le> t then 1 else 0)"
  by (simp add: within_def)

lemma account_step:
  assumes a: "account R L rule key prev used Am Ar s" and t: "0 \<le> prev" "prev \<le> en_now e"
    "en_serverNow e = en_now e" "en_now e \<le> en_later e" and u: "en_uuid e \<notin> used"
    and W: "0 \<le> rc_windowSeconds (rules L rule)"
    and run: "consumeFromStore R L rule key e s = (r, s')"
  obtains Am' Ar' where "account R L rule key (en_later e) (insert (en_uuid e) used) Am' Ar' s'"
    "\<And>W t. within W t Am' + within W t Ar' = within W t Am + within W t Ar +
       (if so_allowed r \<and> t - W < countedAt L rule e s \<and> countedAt L rule e s \<le> t then 1 else 0)"
proof -
  let ?used = "insert (en_uuid e) used" and ?now = "en_now e" and ?later = "en_later e"
  define keys rr where "keys = snd (redisConsume R ?now ?now (en_uuid e) key (rc_limit (rules L rule))
      (rc_windowSeconds (rules L rule)) (lm_keys s))"
    and "rr = fst (redisConsume R ?now ?now (en_uuid e) key (rc_limit (rules L rule))
      (rc_windowSeconds (rules L rule)) (lm_keys s))"
  have pair: "redisConsume R ?now ?now (en_uuid e) key (rc_limit (rules L rule))
      (rc_windowSeconds (rules L rule)) (lm_keys s) = (rr, keys)"
    by (simp add: keys_def rr_def)
  note run' = run [unfolded consumeFromStore_def t(3) Let_def pair prod.case]
  have now: "0 \<le> ?now" "0 \<le> ?later" using t by linarith+
  have same: "s\<lparr>lm_redisFallbackUntil := lm_redisFallbackUntil s\<rparr> = s" for s :: "'a limiter" by simp
  have mono: "account R L rule key ?later ?used Am Ar x" if "account R L rule key ?now ?used Am Ar x" for Am Ar x
    using account_later [OF that t(4) order_refl, where t = "lm_redisFallbackUntil x"] by (simp add: same)
  consider (memory) "lc_memoryOnly L \<or> rule \<noteq> AUTH_LOGIN \<and> ?now < lm_redisFallbackUntil s"
    | (answered) "\<not> lc_memoryOnly L" "\<not> (rule \<noteq> AUTH_LOGIN \<and> ?now < lm_redisFallbackUntil s)" "en_redis e = Answered"
    | (closed) "\<not> lc_memoryOnly L" "rule = AUTH_LOGIN" "en_redis e \<noteq> Answered"
    | (fallback) "\<not> lc_memoryOnly L" "rule \<noteq> AUTH_LOGIN" "\<not> ?now < lm_redisFallbackUntil s" "en_redis e \<noteq> Answered"
    by blast
  then show thesis
  proof cases
    case memory
    then have m: "inMemory ?now key (rules L rule) s = (r, s')"
      using run' by (auto split: if_splits)
    have "account R L rule key ?now ?used Am Ar s"
      using account_later [OF a t(2) subset_insertI, where t = "lm_redisFallbackUntil s"] by (simp add: same)
    from mono [OF account_memory [OF this order_refl now(1) W m]] memory
    show ?thesis by (intro that) (auto simp: within_one countedAt_def)
  next
    case answered
    then have "r = rr" "s' = s\<lparr>lm_keys := keys\<rparr>"
      using run' by auto
    with mono [OF account_redis [OF a t(2) now(1) u W answered(1) pair, of True]] answered
    show ?thesis by (intro that) (auto simp: within_one countedAt_def)
  next
    case closed
    then have r: "r = failedClosed ?later (rules L rule)"
      and s': "s' = s\<lparr>lm_keys := keys\<rparr> \<or> s' = s"
      using run' by (auto split: if_splits)
    have "account R L rule key ?later ?used Am Ar (s\<lparr>lm_keys := keys\<rparr>)"
      using mono [OF account_redis [OF a t(2) now(1) u W closed(1) pair, of False]] by simp
    moreover have "account R L rule key ?later ?used Am Ar s"
      using account_later [OF a _ subset_insertI, where now = ?later and t = "lm_redisFallbackUntil s"] t by (simp add: same)
    ultimately show ?thesis using r s' by (intro that) (auto simp: failedClosed_def)
  next
    case fallback
    define s1 where "s1 = (if en_redis e = AnswerLost then s\<lparr>lm_keys := keys\<rparr> else s)"
    have m: "inMemory ?later key (rules L rule)
        (s1\<lparr>lm_redisFallbackUntil := ?later + REDIS_FALLBACK_COOLDOWN_MS\<rparr>) = (r, s')"
      using run' fallback by (auto simp: s1_def split: if_splits)
    have "account R L rule key ?now ?used Am Ar s1"
      using account_redis [OF a t(2) now(1) u W fallback(1) pair, of False]
        account_later [OF a t(2) subset_insertI, where t = "lm_redisFallbackUntil s"] by (simp add: s1_def same)
    from account_memory [OF account_later [OF this order_refl order_refl] t(4) now(2) W m] fallback
    show ?thesis by (intro that) (auto simp: within_one countedAt_def)
  qed
qed

lemma history_account:
  assumes "account R L rule (buildKey E L rule (resolveClientIp req (cfg_trustProxy (cfg E)))) prev used Am Ar s"
    and "0 \<le> prev" "orderly prev es" "distinct (map en_uuid es)" "set (map en_uuid es) \<inter> used = {}"
    and W: "0 \<le> rc_windowSeconds (rules L rule)"
  obtains Am' Ar' prev' used' s' where
    "account R L rule (buildKey E L rule (resolveClientIp req (cfg_trustProxy (cfg E)))) prev' used' Am' Ar' s'"
    "\<And>W t. within W t Am' + within W t Ar' = within W t Am + within W t Ar +
       letThrough W t (serviceHistory E R L rule req es s)"
  using assms(1-5)
proof (induction es arbitrary: prev used Am Ar s thesis)
  case Nil
  then show ?case by (simp add: letThrough_def)
next
  case (Cons e es)
  let ?key = "buildKey E L rule (resolveClientIp req (cfg_trustProxy (cfg E)))"
  obtain r s1 where run: "consumeFromStore R L rule ?key e s = (r, s1)"
    by (cases "consumeFromStore R L rule ?key e s")
  from Cons.prems have e: "prev \<le> en_now e" "en_serverNow e = en_now e" "en_now e \<le> en_later e"
      "en_uuid e \<notin> used" by auto
  obtain Am1 Ar1 where a1: "account R L rule ?key (en_later e) (insert (en_uuid e) used) Am1 Ar1 s1"
    and w1: "\<And>W t. within W t Am1 + within W t Ar1 = within W t Am + within W t Ar +
       (if so_allowed r \<and> t - W < countedAt L rule e s \<and> countedAt L rule e s \<le> t then 1 else 0)"
    using account_step [OF Cons.prems(2,3) e W run] by metis
  from Cons.prems e have later: "0 \<le> en_later e" "orderly (en_later e) es" "distinct (map en_uuid es)"
      "set (map en_uuid es) \<inter> insert (en_uuid e) used = {}" by auto
  obtain Am' Ar' prev' used' s' where a2: "account R L rule ?key prev' used' Am' Ar' s'"
    and w2: "\<And>W t. within W t Am' + within W t Ar' = within W t Am1 + within W t Ar1 +
       letThrough W t (serviceHistory E R L rule req es s1)"
    using Cons.IH [OF _ a1 later] by metis
  have "so_allowed (consumeResultOf now rule r) = so_allowed r" for now rule
    by (simp add: consumeResultOf_def)
  then show ?case
    using Cons.prems(1) [OF a2] w1 w2 by (simp add: consume_def run letThrough_def)
qed

text \<open>
  C18. Bounds: whatever Redis does (answers, refuses, executes a call and loses the answer, in any
  pattern), in every window of the configured length the API lets at most \<open>limit\<close> calls of one caller
  through for a login, and at most twice \<open>limit\<close> for the other rules (one quota in Redis and one in
  memory); without Redis at most \<open>limit\<close>.
\<close>
theorem rate_limit_bounds:
  assumes "redisLaws R" and "0 \<le> rc_windowSeconds (rules L rule)"
    and "orderly 0 es" and "distinct (map en_uuid es)"
    and "\<And>k. lm_buckets s k = None" and "\<And>k. z_elems R (lm_keys s k) = {}"
  shows "int (letThrough (rc_windowSeconds (rules L rule) * 1000) t (serviceHistory E R L rule req es s)) \<le>
    (if rule = AUTH_LOGIN \<or> lc_memoryOnly L then 1 else 2) * max (rc_limit (rules L rule)) 0"
proof -
  let ?key = "buildKey E L rule (resolveClientIp req (cfg_trustProxy (cfg E)))"
  have "account R L rule ?key 0 {} [] [] s"
    using assms by (simp add: account_def accounted_def within_def recent_def keyOk_empty Let_def)
  from history_account [OF this order_refl assms(3,4) _ assms(2)]
  obtain Am Ar prev used s' where a: "account R L rule ?key prev used Am Ar s'"
    and w': "\<And>W t. within W t Am + within W t Ar = within W t [] + within W t [] +
       letThrough W t (serviceHistory E R L rule req es s)"
    by (metis Int_empty_right)
  have "within W t [] = 0" for W t by (simp add: within_def)
  with w' have w: "\<And>W t. within W t Am + within W t Ar = letThrough W t (serviceHistory E R L rule req es s)"
    by simp
  have "within W t [] = 0" for W t by (simp add: within_def)
  moreover have "int (within (rc_windowSeconds (rules L rule) * 1000) t Am) \<le> max (rc_limit (rules L rule)) 0"
    "int (within (rc_windowSeconds (rules L rule) * 1000) t Ar) \<le> max (rc_limit (rules L rule)) 0"
    "rule = AUTH_LOGIN \<and> \<not> lc_memoryOnly L \<Longrightarrow> Am = []" "lc_memoryOnly L \<Longrightarrow> Ar = []"
    using a by (auto simp: account_def Let_def)
  ultimately show ?thesis
    unfolding w [symmetric] by (cases "lc_memoryOnly L"; cases "rule = AUTH_LOGIN") simp_all
qed

definition sampleLimits :: limitConfig where
  "sampleLimits = (let lw = \<lparr>lw_limit = 1, lw_windowSeconds = 60\<rparr> in
     \<lparr>lc_memoryOnly = False, lc_redisPrefix = ''rl'', lc_authLogin = lw, lc_verification = lw,
      lc_verificationUpload = lw, lc_admin = lw\<rparr>)"

definition freshLimiter :: "sampleZ limiter" where
  "freshLimiter = \<lparr>lm_buckets = Map.empty, lm_keys = (\<lambda>_. ([], None)), lm_redisFallbackUntil = 0\<rparr>"

definition meet :: "time \<Rightarrow> string \<Rightarrow> redisOutcome \<Rightarrow> encounter" where
  "meet t u outcome = \<lparr>en_now = t, en_later = t, en_serverNow = t, en_uuid = u, en_redis = outcome\<rparr>"

text \<open>One call is counted by Redis, one in memory after Redis failed.\<close>

theorem rate_limit_bounds_witness:
  "letThrough 60000 20 (serviceHistory sampleEnv sampleRedis sampleLimits VERIFICATION_RULE
      \<lparr>rq_cfConnectingIp = None, rq_forwardedFor = None, rq_ip = Some ''ip'', rq_remoteAddress = None\<rparr>
      [meet 5 ''a'' Answered, meet 6 ''b'' Refused, meet 7 ''c'' Answered] freshLimiter) \<le> 2"
  using rate_limit_bounds [of sampleRedis sampleLimits VERIFICATION_RULE
      "[meet 5 ''a'' Answered, meet 6 ''b'' Refused, meet 7 ''c'' Answered]" freshLimiter 20 sampleEnv
      "\<lparr>rq_cfConnectingIp = None, rq_forwardedFor = None, rq_ip = Some ''ip'', rq_remoteAddress = None\<rparr>"]
    sampleRedis_laws
  by (simp add: sampleLimits_def Let_def meet_def freshLimiter_def sampleRedis_def)

end
