(* ===== verification/DocumentProofs.thy ===== *)
theory DocumentProofs
  imports CredentialRecords PdfReference
begin

text \<open>
  Secure document proofs (\<open>modules/document-proof\<close>): registering the hash of an uploaded document
  with its metadata and QR code, listing and deleting proofs, the public lookups by reference or by an
  uploaded copy, and the public assets. The statements over the two tables follow the conventions of
  the other tables: unique indexes, generated columns, a required institution.
\<close>

subsection \<open>Statements\<close>

definition secureConflict :: "secureProof \<Rightarrow> secureProof list \<Rightarrow> string list option" where
  "secureConflict p rows = firstConflict
     [([''id''], \<lambda>r. p_id r = p_id p), ([''proofExternalId''], \<lambda>r. p_proofExternalId r = p_proofExternalId p),
      ([''verificationId''], \<lambda>r. p_verificationId r = p_verificationId p),
      ([''verificationCode''], \<lambda>r. p_verificationCode r = p_verificationCode p),
      ([''signedVerificationToken''], \<lambda>r. p_signedVerificationToken r = p_signedVerificationToken p),
      ([''sourceHash''], \<lambda>r. p_sourceHash r = p_sourceHash p)] rows"

definition findProof :: "env \<Rightarrow> (secureProof \<Rightarrow> bool) \<Rightarrow> (secureProof \<times> issuer) option prog" where
  "findProof E P = bind (query E (\<lambda>d. map_option (\<lambda>p. (p, issuerOf d (p_issuerId p)))
     (List.find P (secureProofs d)))) requireRelation"

definition createProof :: "env \<Rightarrow> (time \<Rightarrow> secureProof) \<Rightarrow> secureProof prog" where
  "createProof E mk = exec E (\<lambda>now cu d.
     case insertInto secureConflict (mk now) (secureProofs d) of
       Inl e \<Rightarrow> Inl e | Inr rows \<Rightarrow> Inr (mk now, d\<lparr>secureProofs := rows\<rparr>))"

definition updateProof :: "env \<Rightarrow> string \<Rightarrow> (secureProof \<Rightarrow> secureProof) \<Rightarrow> (secureProof \<times> issuer option) prog" where
  "updateProof E i f = exec E (\<lambda>now cu d.
     case updateIn secureConflict (\<lambda>p. p_id p = i) (\<lambda>p. (f p)\<lparr>p_updatedAt := now\<rparr>) (secureProofs d) of
       Inl e \<Rightarrow> Inl e
     | Inr (p, rows) \<Rightarrow> Inr ((p, issuerOf d (p_issuerId p)), d\<lparr>secureProofs := rows\<rparr>))"

definition updateProofI :: "env \<Rightarrow> string \<Rightarrow> (secureProof \<Rightarrow> secureProof) \<Rightarrow> (secureProof \<times> issuer) prog" where
  "updateProofI E i f = bind (updateProof E i f) (\<lambda>(p, iss). case iss of
     None \<Rightarrow> throw (PrismaFault ''Inconsistent query result: required relation is null'') | Some j \<Rightarrow> ret (p, j))"

definition createProofLog :: "env \<Rightarrow> (string \<Rightarrow> secureProofLog) \<Rightarrow> unit prog" where
  "createProofLog E mk = exec E (\<lambda>now cu d.
     case insertInto (\<lambda>x. firstConflict [([''id''], \<lambda>r. sl_id r = sl_id x)]) (mk cu) (secureProofLogs d) of
       Inl e \<Rightarrow> Inl e | Inr rows \<Rightarrow> Inr ((), d\<lparr>secureProofLogs := rows\<rparr>))"

text \<open>\<open>$transaction([deleteMany logs, delete proof])\<close>\<close>

definition deleteProof :: "env \<Rightarrow> string \<Rightarrow> unit prog" where
  "deleteProof E i = transaction E (
     andThen (exec E (\<lambda>now cu d. Inr ((), d\<lparr>secureProofLogs :=
         filter (\<lambda>l. sl_documentProofId l \<noteq> Some i) (secureProofLogs d)\<rparr>)))
     (exec E (\<lambda>now cu d. case deleteFrom (\<lambda>p. p_id p = i) (secureProofs d) of
         Inl e \<Rightarrow> Inl e | Inr rows \<Rightarrow> Inr ((), d\<lparr>secureProofs := rows\<rparr>))))"

subsection \<open>Identifiers and token\<close>

definition generateDocumentProofId :: "env \<Rightarrow> string prog" where
  "generateDocumentProofId E = bind (randomHex E 9) (\<lambda>h. ret (''prf_'' @ h))"

definition generateDocumentVerificationId :: "env \<Rightarrow> string prog" where
  "generateDocumentVerificationId E = bind (randomHex E 9) (\<lambda>h. ret (''dpf_'' @ h))"

definition generateDocumentVerificationCode :: "env \<Rightarrow> string prog" where
  "generateDocumentVerificationCode E = bind (randomHex E 6) (\<lambda>h. ret (''DP-'' @ toUpperCase h))"

definition buildDocumentSignedToken :: "env \<Rightarrow> string \<Rightarrow> string \<Rightarrow> string \<Rightarrow> string \<Rightarrow> time \<Rightarrow> string \<Rightarrow> string" where
  "buildDocumentSignedToken E proofId verificationId verificationCode issuerId createdAt secret =
     hmacSha256 E (join [CHR 0x0A] [''proofId:'' @ proofId, ''verificationId:'' @ verificationId,
       ''verificationCode:'' @ verificationCode, ''issuerId:'' @ issuerId,
       ''createdAt:'' @ toISOString createdAt]) secret"

subsection \<open>Assets\<close>

record docAsset =
  da_id :: string
  da_verificationId :: string
  da_verificationCode :: string
  da_signedVerificationToken :: string
  da_title :: string
  da_documentType :: string
  da_referenceNumber :: "string option"
  da_documentDate :: "time option"
  da_sourceHash :: string
  da_issuer :: assetIssuer

record docBundle =
  db_metadata :: "value"
  db_qrPayload :: string
  db_metadataUri :: string
  db_qrCodeUri :: string
  db_proofUrl :: string

datatype docAssetKind = DocMetadata | DocQr

definition getProofPrefix :: "string \<Rightarrow> string" where
  "getProofPrefix proofId = ''document-proofs/'' @ proofId"

fun docAssetKey :: "string \<Rightarrow> docAssetKind \<Rightarrow> string" where
  "docAssetKey proofId DocMetadata = getProofPrefix proofId @ ''/metadata.json''"
| "docAssetKey proofId DocQr = getProofPrefix proofId @ ''/verification-qr.png''"

definition docMetadataUri :: "env \<Rightarrow> string \<Rightarrow> string" where
  "docMetadataUri E proofId = getApiBaseUrl E @ ''/document-proofs/'' @ encodeURIComponent proofId @ ''/metadata''"

definition docQrCodeUri :: "env \<Rightarrow> string \<Rightarrow> string" where
  "docQrCodeUri E proofId = getApiBaseUrl E @ ''/document-proofs/'' @ encodeURIComponent proofId @ ''/qr''"

definition docProofUrl :: "env \<Rightarrow> string \<Rightarrow> string" where
  "docProofUrl E verificationId = getWebBaseUrl E @ ''/proof/'' @ encodeURIComponent verificationId"

definition buildDocBundle :: "env \<Rightarrow> docAsset \<Rightarrow> docBundle" where
  "buildDocBundle E rec = (let metadataUri = docMetadataUri E (da_id rec);
       qrCodeUri = docQrCodeUri E (da_id rec); proofUrl = docProofUrl E (da_verificationId rec);
       qrPayload = urlWithToken E proofUrl (da_signedVerificationToken rec)
     in \<lparr>db_metadata = VObj
          [(''version'', VNum 1), (''proofId'', VStr (da_id rec)),
           (''verificationId'', VStr (da_verificationId rec)),
           (''verificationCode'', VStr (da_verificationCode rec)),
           (''signedVerificationToken'', VStr (da_signedVerificationToken rec)),
           (''title'', VStr (da_title rec)), (''documentType'', VStr (da_documentType rec)),
           (''referenceNumber'', optStr (da_referenceNumber rec)),
           (''documentDate'', optStr (map_option toISOString (da_documentDate rec))),
           (''sourceHash'', VStr (da_sourceHash rec)), (''qrPayload'', VStr qrPayload),
           (''proofUrl'', VStr proofUrl), (''metadataUri'', VStr metadataUri),
           (''qrCodeUri'', VStr qrCodeUri), (''issuer'', assetIssuerValue (da_issuer rec))],
        db_qrPayload = qrPayload, db_metadataUri = metadataUri, db_qrCodeUri = qrCodeUri,
        db_proofUrl = proofUrl\<rparr>)"

definition persistDocAssets :: "env \<Rightarrow> docAsset \<Rightarrow> docBundle prog" where
  "persistDocAssets E rec = (let bundle = buildDocBundle E rec in
     bind (external E JsError (ret (qrPng E (db_qrPayload bundle)))) (\<lambda>qrCodePng.
     andThen (parAll
       [storagePut E (docAssetKey (da_id rec) DocMetadata) (JsonDoc (db_metadata bundle)),
        storagePut E (docAssetKey (da_id rec) DocQr) (Bytes qrCodePng)])
     (ret bundle)))"

text \<open>A stored address is kept where it starts with the expected base.\<close>

definition storedOr :: "string \<Rightarrow> string \<Rightarrow> string option \<Rightarrow> string" where
  "storedOr base built v = (case trimOrNull v of
     None \<Rightarrow> built | Some stored \<Rightarrow> (if startsWith base stored then stored else built))"

definition resolveDocMetadataUri :: "env \<Rightarrow> string \<Rightarrow> string \<Rightarrow> string" where
  "resolveDocMetadataUri E proofId v = storedOr (getApiBaseUrl E) (docMetadataUri E proofId) (Some v)"

definition resolveDocQrCodeUri :: "env \<Rightarrow> string \<Rightarrow> string \<Rightarrow> string" where
  "resolveDocQrCodeUri E proofId v = storedOr (getApiBaseUrl E) (docQrCodeUri E proofId) (Some v)"

definition resolveProofUrl :: "env \<Rightarrow> string \<Rightarrow> string \<Rightarrow> string" where
  "resolveProofUrl E verificationId v =
     storedOr (getWebBaseUrl E @ ''/proof/'' @ verificationId) (docProofUrl E verificationId) (Some v)"

subsection \<open>Responses\<close>

definition recentProofLogs :: "db \<Rightarrow> string \<Rightarrow> secureProofLog list" where
  "recentProofLogs d i = take 8 (sort_key (\<lambda>l. - sl_createdAt l)
     (filter (\<lambda>l. sl_documentProofId l = Some i) (secureProofLogs d)))"

definition proofLogValue :: "secureProofLog \<Rightarrow> value" where
  "proofLogValue l = VObj [(''id'', VStr (sl_id l)), (''documentProofId'', optStr (sl_documentProofId l)),
     (''sourceType'', VStr (case sl_sourceType l of SRC_PDF_UPLOAD \<Rightarrow> ''PDF_UPLOAD''
        | SRC_QR_LOOKUP \<Rightarrow> ''QR_LOOKUP'' | SRC_CODE_LOOKUP \<Rightarrow> ''CODE_LOOKUP'')),
     (''uploadedHash'', optStr (sl_uploadedHash l)), (''matched'', VBool (sl_matched l)),
     (''status'', VStr (sl_status l)), (''ipAddress'', optStr (sl_ipAddress l)),
     (''createdAt'', VDate (sl_createdAt l))]"

definition proofIssuerMembers :: "issuer \<Rightarrow> (string \<times> value) list" where
  "proofIssuerMembers i = [(''id'', VStr (i_id i)), (''name'', VStr (i_name i)),
     (''displayName'', optStr (i_displayName i)), (''domain'', VStr (i_domain i)),
     (''logoUrl'', optStr (i_logoUrl i)), (''websiteUrl'', optStr (i_websiteUrl i))]"

definition toDocumentResponse :: "env \<Rightarrow> secureProof \<times> issuer \<times> secureProofLog list \<Rightarrow> value" where
  "toDocumentResponse E pil = (case pil of (p, i, logs) \<Rightarrow> VObj
     [(''id'', VStr (p_id p)), (''proofExternalId'', VStr (p_proofExternalId p)),
      (''verificationId'', VStr (p_verificationId p)), (''verificationCode'', VStr (p_verificationCode p)),
      (''signedVerificationToken'', VStr (p_signedVerificationToken p)),
      (''qrPayload'', VStr (p_qrPayload p)),
      (''proofUrl'', VStr (resolveProofUrl E (p_verificationId p) (p_proofUrl p))),
      (''metadataUri'', VStr (resolveDocMetadataUri E (p_id p) (p_metadataUri p))),
      (''qrCodeUri'', VStr (resolveDocQrCodeUri E (p_id p) (p_qrCodeUri p))),
      (''title'', VStr (p_title p)), (''documentType'', VStr (p_documentType p)),
      (''referenceNumber'', optStr (p_referenceNumber p)), (''documentDate'', optDate (p_documentDate p)),
      (''fileName'', VStr (p_fileName p)), (''mimeType'', VStr (p_mimeType p)),
      (''fileSize'', VNum (p_fileSize p)), (''sourceHash'', VStr (p_sourceHash p)),
      (''txHash'', optStr (p_txHash p)), (''chainId'', optNum (p_chainId p)),
      (''anchoredAt'', optDate (p_anchoredAt p)), (''blockNumber'', optNum (p_blockNumber p)),
      (''anchorStatus'', VStr (p_anchorStatus p)), (''chainStatus'', VStr (p_chainStatus p)),
      (''chainSyncedAt'', optDate (p_chainSyncedAt p)), (''anchorVersion'', VStr (p_anchorVersion p)),
      (''issuerWallet'', optStr (p_issuerWallet p)),
      (''chainVerificationMetadata'', orElse (p_chainVerificationMetadata p) VNull),
      (''revoked'', VBool (p_revoked p)), (''revokedAt'', optDate (p_revokedAt p)),
      (''revokedBy'', optStr (p_revokedBy p)),
      (''revocationReason'', optStr (map_option reasonName (p_revocationReason p))),
      (''verificationCount'', VNum (p_verificationCount p)), (''verifiedAt'', optDate (p_verifiedAt p)),
      (''createdBy'', VStr (p_createdBy p)), (''createdAt'', VDate (p_createdAt p)),
      (''updatedAt'', VDate (p_updatedAt p)),
      (''issuer'', VObj (proofIssuerMembers i @ [(''wallet'', optStr (i_wallet i)),
         (''status'', VStr (issuerStatusName (i_status i)))])),
      (''verificationLogs'', VArr (map proofLogValue logs))])"

subsection \<open>Registering a document\<close>

record createProofDto =
  cp_title :: string
  cp_documentType :: string
  cp_referenceNumber :: "string option"
  cp_documentDate :: "string option"

text \<open>
  \<open>sanitizeFilename\<close>: separators and null bytes go, other characters outside \<open>[a-zA-Z0-9._\- ]\<close>
  become an underscore.
\<close>

definition sanitizeFilename :: "string option \<Rightarrow> string" where
  "sanitizeFilename name = (if \<not> truthy name then ''document.pdf'' else
     (let stripped = trim (filter (\<lambda>c. c \<noteq> CHR ''/'' \<and> c \<noteq> CHR 92 \<and> c \<noteq> CHR 0x00) (the name));
          safe = map (\<lambda>c. if isAlnum c \<or> c \<in> set ''._- '' then c else CHR ''_'') stripped
      in if take 200 safe = [] then ''document.pdf'' else take 200 safe))"

text \<open>\<open>dto.documentDate ? new Date(dto.documentDate) : null\<close>; an unreadable date fails where it is rendered.\<close>

definition documentDateOf :: "env \<Rightarrow> createProofDto \<Rightarrow> exn + time option" where
  "documentDateOf E dto = (if truthy (cp_documentDate dto)
     then (case parseDate E (the (cp_documentDate dto)) of
        None \<Rightarrow> Inl (JsError ''Invalid time value'') | Some t \<Rightarrow> Inr (Some t))
     else Inr None)"

definition newProofAsset :: "createProofDto \<Rightarrow> issuer \<Rightarrow> string \<Rightarrow> string \<Rightarrow> string \<Rightarrow> string \<Rightarrow> time option \<Rightarrow>
    string \<Rightarrow> docAsset" where
  "newProofAsset dto i proofId verificationId verificationCode token documentDate sourceHash =
     \<lparr>da_id = proofId, da_verificationId = verificationId, da_verificationCode = verificationCode,
      da_signedVerificationToken = token, da_title = trim (cp_title dto),
      da_documentType = trim (cp_documentType dto), da_referenceNumber = trimOrNull (cp_referenceNumber dto),
      da_documentDate = documentDate, da_sourceHash = sourceHash, da_issuer = assetIssuerOf i\<rparr>"

definition newProofRow :: "docAsset \<Rightarrow> docBundle \<Rightarrow> uploadedFile \<Rightarrow> string \<Rightarrow> string \<Rightarrow> time \<Rightarrow> secureProof" where
  "newProofRow a bundle file createdBy issuerId now =
     \<lparr>p_id = da_id a, p_proofExternalId = da_id a, p_verificationId = da_verificationId a,
      p_verificationCode = da_verificationCode a, p_signedVerificationToken = da_signedVerificationToken a,
      p_qrPayload = db_qrPayload bundle, p_proofUrl = db_proofUrl bundle,
      p_metadataUri = db_metadataUri bundle, p_qrCodeUri = db_qrCodeUri bundle, p_title = da_title a,
      p_documentType = da_documentType a, p_referenceNumber = da_referenceNumber a,
      p_documentDate = da_documentDate a, p_fileName = sanitizeFilename (uf_originalname file),
      p_mimeType = uf_mimetype file, p_fileSize = uf_size file, p_sourceHash = da_sourceHash a,
      p_txHash = None, p_chainId = None, p_anchoredAt = None, p_blockNumber = None,
      p_anchorStatus = ''HASH_ONLY'', p_chainStatus = ''UNAVAILABLE'', p_chainSyncedAt = None,
      p_anchorVersion = ''HASH_ONLY'', p_issuerWallet = None, p_chainVerificationMetadata = None,
      p_revoked = False, p_revokedAt = None, p_revokedBy = None, p_revokedByAdminId = None,
      p_revocationReason = None, p_revocationNotes = None, p_verificationCount = 0,
      p_verifiedAt = None, p_createdBy = createdBy, p_createdAt = now, p_updatedAt = now,
      p_issuerId = issuerId\<rparr>"

text \<open>An audit entry about a proof, by the administrator.\<close>

definition proofEvent :: "string \<Rightarrow> jwtPayload \<Rightarrow> string \<Rightarrow> value \<Rightarrow> auditInput" where
  "proofEvent action admin proofId metadata =
     \<lparr>in_action = action, in_actorAdminId = Some (j_sub admin), in_actorUsername = j_username admin,
      in_ipAddress = None, in_userAgent = None, in_targetType = Some ''SecureDocumentProof'',
      in_targetId = Some proofId, in_metadata = Some metadata\<rparr>"

definition storeProof :: "env \<Rightarrow> jwtPayload \<Rightarrow> uploadedFile \<Rightarrow> issuer \<Rightarrow> docAsset \<Rightarrow> value prog" where
  "storeProof E admin file i asset =
     bind (persistDocAssets E asset) (\<lambda>bundle.
     bind (createProof E (newProofRow asset bundle file (j_email admin) (i_id i))) (\<lambda>created.
     andThen (auditLog E (proofEvent ''DOCUMENT_PROOF_CREATED'' admin (da_id asset)
       (VObj [(''title'', VStr (da_title asset)), (''documentType'', VStr (da_documentType asset)),
         (''verificationId'', VStr (da_verificationId asset))])))
     (ret (toDocumentResponse E (created, i, [])))))"

definition createDocumentProof :: "env \<Rightarrow> jwtPayload \<Rightarrow> createProofDto \<Rightarrow> uploadedFile option \<Rightarrow> value prog" where
  "createDocumentProof E admin dto upload =
     bind (resolveInstitutionId E admin) (\<lambda>issuerId.
     bind (query E (\<lambda>d. issuerOf d issuerId)) (\<lambda>found. case found of
       None \<Rightarrow> throw (NotFound ''Institution configuration not found'')
     | Some i \<Rightarrow> bind (prepareUploadedPdf E upload) (\<lambda>file.
         bind (newDate E) (\<lambda>createdAt. bind (generateDocumentProofId E) (\<lambda>proofId.
         bind (generateDocumentVerificationId E) (\<lambda>verificationId.
         bind (generateDocumentVerificationCode E) (\<lambda>verificationCode.
         bind (liftE (documentDateOf E dto)) (\<lambda>documentDate.
         storeProof E admin file i (newProofAsset dto i proofId verificationId verificationCode
           (buildDocumentSignedToken E proofId verificationId verificationCode issuerId createdAt
             (cfg_jwtSecret (cfg E))) documentDate (hashBuffer E (uf_buffer file)))))))))))"

subsection \<open>Listing and deleting\<close>

definition resolveIssuerScope :: "env \<Rightarrow> jwtPayload \<Rightarrow> string option prog" where
  "resolveIssuerScope E admin = (if j_role admin \<noteq> ADMIN then ret None
     else bind (resolveInstitutionId E admin) (\<lambda>i. ret (Some i)))"

definition outOfScope :: "string option \<Rightarrow> string \<Rightarrow> bool" where
  "outOfScope scope issuerId \<longleftrightarrow> truthy scope \<and> issuerId \<noteq> the scope"

text \<open>Rows with their institution and latest log entries; a missing institution fails the query.\<close>

definition proofRows :: "db \<Rightarrow> (secureProof \<Rightarrow> bool) \<Rightarrow> (secureProof \<times> issuer option \<times> secureProofLog list) list" where
  "proofRows d P = map (\<lambda>p. (p, issuerOf d (p_issuerId p), recentProofLogs d (p_id p)))
     (filter P (secureProofs d))"

definition proofsWithIssuers :: "(secureProof \<times> issuer option \<times> secureProofLog list) list \<Rightarrow>
    (secureProof \<times> issuer \<times> secureProofLog list) list prog" where
  "proofsWithIssuers rows = (if \<exists>r \<in> set rows. fst (snd r) = None
     then throw (PrismaFault ''Inconsistent query result: required relation is null'')
     else ret (map (\<lambda>(p, i, l). (p, the i, l)) rows))"

definition listDocumentProofs :: "env \<Rightarrow> jwtPayload \<Rightarrow> value prog" where
  "listDocumentProofs E admin = bind (resolveIssuerScope E admin) (\<lambda>scope.
     bind (query E (\<lambda>d. sort_key (\<lambda>r. - p_createdAt (fst r))
       (proofRows d (\<lambda>p. \<not> outOfScope scope (p_issuerId p))))) (\<lambda>rows.
     bind (proofsWithIssuers rows) (\<lambda>items.
     ret (VObj [(''total'', VNum (int (length items))),
       (''items'', VArr (map (toDocumentResponse E) items))]))))"

definition findDocumentProof :: "env \<Rightarrow> jwtPayload \<Rightarrow> string \<Rightarrow> value prog" where
  "findDocumentProof E admin i =
     bind (query E (\<lambda>d. proofRows d (\<lambda>p. p_id p = i))) (\<lambda>rows. bind (proofsWithIssuers rows) (\<lambda>found.
     case found of [] \<Rightarrow> throw (NotFound ''Secure document proof not found'')
     | x # _ \<Rightarrow> bind (resolveIssuerScope E admin) (\<lambda>scope.
         andThen (guardNot (outOfScope scope (p_issuerId (fst x)))
           (NotFound ''Secure document proof not found''))
         (ret (toDocumentResponse E x)))))"

definition removeDocumentProof :: "env \<Rightarrow> jwtPayload \<Rightarrow> string \<Rightarrow> value prog" where
  "removeDocumentProof E admin i =
     bind (query E (\<lambda>d. List.find (\<lambda>p. p_id p = i) (secureProofs d))) (\<lambda>found. case found of
       None \<Rightarrow> throw (NotFound ''Secure document proof not found'')
     | Some p \<Rightarrow> bind (resolveIssuerScope E admin) (\<lambda>scope.
         andThen (guardNot (outOfScope scope (p_issuerId p)) (NotFound ''Secure document proof not found''))
         (andThen (deleteProof E i)
         (andThen (auditLog E (proofEvent ''DOCUMENT_PROOF_DELETED'' admin i
            (VObj [(''title'', VStr (p_title p)), (''documentType'', VStr (p_documentType p)),
              (''verificationId'', VStr (p_verificationId p))])))
         (ret (VObj [(''id'', VStr i), (''deleted'', VBool True)]))))))"

record deletionCounts =
  dc_deleted :: nat
  dc_skipped :: nat
  dc_failed :: nat

definition deleteOneProof :: "env \<Rightarrow> jwtPayload \<Rightarrow> string option \<Rightarrow> secureProof list \<Rightarrow> deletionCounts \<Rightarrow>
    string \<Rightarrow> deletionCounts prog" where
  "deleteOneProof E admin scope found s i = (case List.find (\<lambda>p. p_id p = i) found of
     None \<Rightarrow> ret (s\<lparr>dc_skipped := dc_skipped s + 1\<rparr>)
   | Some p \<Rightarrow>
      (if outOfScope scope (p_issuerId p) then ret (s\<lparr>dc_skipped := dc_skipped s + 1\<rparr>)
       else tryCatch (andThen (deleteProof E i)
           (andThen (auditLog E (proofEvent ''DOCUMENT_PROOF_DELETED'' admin i (VObj [(''bulk'', VBool True)])))
             (ret (s\<lparr>dc_deleted := dc_deleted s + 1\<rparr>))))
         (\<lambda>e. ret (s\<lparr>dc_failed := dc_failed s + 1\<rparr>))))"

definition bulkDeleteProofs :: "env \<Rightarrow> jwtPayload \<Rightarrow> string list \<Rightarrow> deletionCounts prog" where
  "bulkDeleteProofs E admin ids = bind (resolveIssuerScope E admin) (\<lambda>scope.
     bind (query E (\<lambda>d. filter (\<lambda>p. p_id p \<in> set ids) (secureProofs d))) (\<lambda>found.
     foldM (deleteOneProof E admin scope found) \<lparr>dc_deleted = 0, dc_skipped = 0, dc_failed = 0\<rparr> ids))"

subsection \<open>Public assets\<close>

definition proofAssetOf :: "secureProof \<Rightarrow> issuer \<Rightarrow> docAsset" where
  "proofAssetOf p i = \<lparr>da_id = p_id p, da_verificationId = p_verificationId p,
     da_verificationCode = p_verificationCode p, da_signedVerificationToken = p_signedVerificationToken p,
     da_title = p_title p, da_documentType = p_documentType p, da_referenceNumber = p_referenceNumber p,
     da_documentDate = p_documentDate p, da_sourceHash = p_sourceHash p, da_issuer = assetIssuerOf i\<rparr>"

definition regenerateAssets :: "env \<Rightarrow> string \<Rightarrow> docBundle prog" where
  "regenerateAssets E proofId = bind (findProof E (\<lambda>p. p_id p = proofId)) (\<lambda>found. case found of
     None \<Rightarrow> throw (NotFound ''Secure document proof not found'')
   | Some (p, i) \<Rightarrow> bind (persistDocAssets E (proofAssetOf p i)) (\<lambda>bundle.
       bind (updateProof E (p_id p) (\<lambda>r. r\<lparr>p_proofUrl := db_proofUrl bundle,
         p_qrPayload := db_qrPayload bundle, p_metadataUri := db_metadataUri bundle,
         p_qrCodeUri := db_qrCodeUri bundle\<rparr>)) (\<lambda>_. ret bundle)))"

definition readDocAsset :: "env \<Rightarrow> string \<Rightarrow> docAssetKind \<Rightarrow> content prog" where
  "readDocAsset E proofId kind = tryCatch (storageGet E (docAssetKey proofId kind))
     (\<lambda>e. bind (regenerateAssets E proofId) (\<lambda>_. storageGet E (docAssetKey proofId kind)))"

definition docMetadataEndpoint :: "env \<Rightarrow> string \<Rightarrow> content prog" where
  "docMetadataEndpoint E i = tryCatch (readDocAsset E i DocMetadata)
     (\<lambda>e. throw (NotFound ''Secure document proof metadata not found''))"

definition docQrEndpoint :: "env \<Rightarrow> string \<Rightarrow> content prog" where
  "docQrEndpoint E i = tryCatch (readDocAsset E i DocQr)
     (\<lambda>e. throw (NotFound ''Secure document proof QR code not found''))"

subsection \<open>Lookups\<close>

datatype documentStatus = DOC_AUTHENTIC | DOC_REVOKED | DOC_MODIFIED | DOC_NOT_FOUND

fun documentStatusName :: "documentStatus \<Rightarrow> string" where
  "documentStatusName DOC_AUTHENTIC = ''AUTHENTIC''"
| "documentStatusName DOC_REVOKED = ''REVOKED''"
| "documentStatusName DOC_MODIFIED = ''DOCUMENT_MODIFIED''"
| "documentStatusName DOC_NOT_FOUND = ''NOT_FOUND''"

record documentEvent =
  de_sourceType :: VerificationSource
  de_uploadedHash :: "string option"
  de_matched :: bool
  de_status :: documentStatus
  de_ipAddress :: string
  de_createdAt :: time

definition documentLogRow :: "string option \<Rightarrow> documentEvent \<Rightarrow> string \<Rightarrow> secureProofLog" where
  "documentLogRow proofId ev cu = \<lparr>sl_id = cu, sl_documentProofId = proofId,
     sl_sourceType = de_sourceType ev, sl_uploadedHash = de_uploadedHash ev, sl_matched = de_matched ev,
     sl_status = documentStatusName (de_status ev), sl_ipAddress = Some (de_ipAddress ev),
     sl_createdAt = de_createdAt ev\<rparr>"

definition countDocument :: "time \<Rightarrow> secureProof \<Rightarrow> secureProof" where
  "countDocument createdAt p =
     p\<lparr>p_verificationCount := p_verificationCount p + 1, p_verifiedAt := Some createdAt\<rparr>"

definition recordUnknownDocument :: "env \<Rightarrow> documentEvent \<Rightarrow> unit prog" where
  "recordUnknownDocument E ev = createProofLog E (documentLogRow None ev)"

definition recordDocument :: "env \<Rightarrow> string \<Rightarrow> documentEvent \<Rightarrow> (secureProof \<times> issuer) prog" where
  "recordDocument E proofId ev = transaction E (
     andThen (createProofLog E (documentLogRow (Some proofId) ev))
       (updateProofI E proofId (countDocument (de_createdAt ev))))"

definition findByReference :: "env \<Rightarrow> string \<Rightarrow> (secureProof \<times> issuer) option prog" where
  "findByReference E reference = (let normalized = trim reference in
     if normalized = [] then ret None
     else findProof E (\<lambda>p. p_verificationId p = normalized \<or>
       p_verificationCode p = toUpperCase normalized \<or> p_signedVerificationToken p = toLowerCase normalized))"

definition findBySourceHash :: "env \<Rightarrow> string \<Rightarrow> (secureProof \<times> issuer) option prog" where
  "findBySourceHash E sourceHash = findProof E (\<lambda>p. p_sourceHash p = sourceHash)"

record documentResult =
  dr_status :: documentStatus
  dr_body :: "(string \<times> value) list"

definition documentCheck :: "string \<Rightarrow> string \<Rightarrow> bool \<Rightarrow> value" where
  "documentCheck key label ok = VObj [(''key'', VStr key), (''label'', VStr label), (''ok'', VBool ok)]"

definition documentNotFound :: "time \<Rightarrow> (string \<times> value) list" where
  "documentNotFound createdAt =
     [(''status'', VStr ''NOT_FOUND''), (''authentic'', VBool False), (''verificationId'', VNull),
      (''verificationCode'', VNull), (''proofUrl'', VNull), (''metadataUri'', VNull),
      (''qrCodeUri'', VNull), (''title'', VNull), (''documentType'', VNull),
      (''referenceNumber'', VNull), (''documentDate'', VNull), (''issuedBy'', VNull),
      (''verificationTimestamp'', VDate createdAt), (''proofTimestamp'', VNull),
      (''uploadedHash'', VNull), (''registeredHash'', VNull), (''integrityMatched'', VBool False),
      (''tamperDetected'', VBool False), (''revoked'', VBool False), (''revokedAt'', VNull),
      (''revocationReason'', VNull), (''verificationCount'', VNum 0),
      (''blockchainVerified'', VBool False), (''blockchainStatus'', VStr ''UNAVAILABLE''),
      (''txHash'', VNull), (''blockNumber'', VNull), (''anchoredAt'', VNull),
      (''resolvedReference'', VNull),
      (''trustChecks'', VArr [documentCheck ''integrity'' ''Integrity Verified'' False,
         documentCheck ''issuer'' ''Proof Record Found'' False,
         documentCheck ''active'' ''Proof Active'' False]), (''issuer'', VNull)]"

definition documentVerdict :: "secureProof \<Rightarrow> string \<Rightarrow> documentStatus" where
  "documentVerdict p comparedHash = (if p_revoked p then DOC_REVOKED
     else if p_sourceHash p = comparedHash then DOC_AUTHENTIC else DOC_MODIFIED)"

definition documentFound :: "env \<Rightarrow> time \<Rightarrow> documentStatus \<Rightarrow> bool \<Rightarrow> string option \<Rightarrow> string option \<Rightarrow>
    secureProof \<times> issuer \<Rightarrow> (string \<times> value) list" where
  "documentFound E createdAt status matched uploadedHash reference current = (case current of (p, i) \<Rightarrow>
     [(''status'', VStr (documentStatusName status)), (''authentic'', VBool (status = DOC_AUTHENTIC)),
      (''verificationId'', VStr (p_verificationId p)), (''verificationCode'', VStr (p_verificationCode p)),
      (''proofUrl'', VStr (resolveProofUrl E (p_verificationId p) (p_proofUrl p))),
      (''metadataUri'', VStr (resolveDocMetadataUri E (p_id p) (p_metadataUri p))),
      (''qrCodeUri'', VStr (resolveDocQrCodeUri E (p_id p) (p_qrCodeUri p))),
      (''title'', VStr (p_title p)), (''documentType'', VStr (p_documentType p)),
      (''referenceNumber'', optStr (p_referenceNumber p)), (''documentDate'', optDate (p_documentDate p)),
      (''issuedBy'', VStr (orElse (i_displayName i) (i_name i))),
      (''verificationTimestamp'', VDate createdAt), (''proofTimestamp'', VDate (p_createdAt p)),
      (''uploadedHash'', optStr uploadedHash), (''registeredHash'', VStr (p_sourceHash p)),
      (''integrityMatched'', VBool matched), (''tamperDetected'', VBool (\<not> matched)),
      (''revoked'', VBool (p_revoked p)), (''revokedAt'', optDate (p_revokedAt p)),
      (''revocationReason'', optStr (map_option reasonName (p_revocationReason p))),
      (''verificationCount'', VNum (p_verificationCount p)), (''blockchainVerified'', VBool False),
      (''blockchainStatus'', VStr ''UNAVAILABLE''), (''txHash'', VNull), (''blockNumber'', VNull),
      (''anchoredAt'', VNull), (''resolvedReference'', VStr (orElse reference (p_verificationId p))),
      (''trustChecks'', VArr [documentCheck ''integrity'' ''Integrity Verified'' matched,
         documentCheck ''issuer'' ''Proof Record Found'' True,
         documentCheck ''active'' (if p_revoked p then ''Proof Revoked'' else ''Proof Active'') (\<not> p_revoked p)]),
      (''issuer'', VObj (proofIssuerMembers i @ [(''status'', VStr (issuerStatusName (i_status i)))]))])"

definition buildDocumentResult :: "env \<Rightarrow> secureProof \<times> issuer \<Rightarrow> string \<Rightarrow> time \<Rightarrow> VerificationSource \<Rightarrow>
    string option \<Rightarrow> string \<Rightarrow> string option \<Rightarrow> documentResult prog" where
  "buildDocumentResult E proof ip createdAt sourceType uploadedHash comparedHash reference =
     (let p = fst proof; matched = (p_sourceHash p = comparedHash); status = documentVerdict p comparedHash in
      bind (recordDocument E (p_id p) \<lparr>de_sourceType = sourceType, de_uploadedHash = uploadedHash,
        de_matched = (matched \<and> \<not> p_revoked p), de_status = status, de_ipAddress = ip,
        de_createdAt = createdAt\<rparr>) (\<lambda>current.
      ret \<lparr>dr_status = status,
        dr_body = documentFound E createdAt status matched uploadedHash reference current\<rparr>))"

definition unknownDocument :: "env \<Rightarrow> VerificationSource \<Rightarrow> string option \<Rightarrow> string \<Rightarrow> time \<Rightarrow> unit prog" where
  "unknownDocument E sourceType uploadedHash ip createdAt = recordUnknownDocument E
     \<lparr>de_sourceType = sourceType, de_uploadedHash = uploadedHash, de_matched = False,
      de_status = DOC_NOT_FOUND, de_ipAddress = ip, de_createdAt = createdAt\<rparr>"

definition verifyByReference :: "env \<Rightarrow> string \<Rightarrow> string \<Rightarrow> documentResult prog" where
  "verifyByReference E reference ip = bind (newDate E) (\<lambda>createdAt.
     bind (findByReference E reference) (\<lambda>found. case found of
       None \<Rightarrow> andThen (unknownDocument E SRC_CODE_LOOKUP None ip createdAt)
         (ret \<lparr>dr_status = DOC_NOT_FOUND, dr_body = documentNotFound createdAt\<rparr>)
     | Some x \<Rightarrow> buildDocumentResult E x ip createdAt SRC_CODE_LOOKUP None (p_sourceHash (fst x)) None))"

text \<open>The object spread replaces the members the response already has.\<close>

definition override :: "(string \<times> value) list \<Rightarrow> (string \<times> value) list \<Rightarrow> (string \<times> value) list" where
  "override kvs new = map (\<lambda>(k, v). case map_of new k of None \<Rightarrow> (k, v) | Some v' \<Rightarrow> (k, v')) kvs"

definition verifyUploadedDocument :: "env \<Rightarrow> uploadedFile option \<Rightarrow> string \<Rightarrow> documentResult prog" where
  "verifyUploadedDocument E upload ip = bind (prepareUploadedPdf E upload) (\<lambda>file.
     bind (newDate E) (\<lambda>createdAt.
     let uploadedHash = hashBuffer E (uf_buffer file);
         reference = extractReferenceFromPdfBuffer E (uf_buffer file) (Some DocumentKind) in
     bind (if truthy reference then findByReference E (the reference) else ret None) (\<lambda>byReference.
     bind (case byReference of Some x \<Rightarrow> ret (Some x) | None \<Rightarrow> findBySourceHash E uploadedHash) (\<lambda>found.
     case found of
       None \<Rightarrow> andThen (unknownDocument E SRC_PDF_UPLOAD (Some uploadedHash) ip createdAt)
         (ret \<lparr>dr_status = DOC_NOT_FOUND, dr_body = override (documentNotFound createdAt)
            [(''resolvedReference'', optStr reference), (''uploadedHash'', VStr uploadedHash)]\<rparr>)
     | Some x \<Rightarrow> buildDocumentResult E x ip createdAt SRC_PDF_UPLOAD (Some uploadedHash) uploadedHash reference))))"

text \<open>The controller's \<open>dto.verificationCode ?? dto.verificationId ?? ''\<close>.\<close>

definition verifyDocumentCode :: "env \<Rightarrow> string option \<Rightarrow> string option \<Rightarrow> string \<Rightarrow> documentResult prog" where
  "verifyDocumentCode E code vid ip = verifyByReference E (orElse (nullish code vid) []) ip"

end
