(* ===== verification/DocumentLaws.thy ===== *)
theory DocumentLaws
  imports DocumentProofs Worlds
begin

text \<open>
  Laws of the document proofs: which documents a lookup calls authentic and what it records, and what
  the deletion of a proof leaves reachable.
\<close>

subsection \<open>One log row per lookup\<close>

definition loggedDocument :: "documentEvent \<Rightarrow> string option \<Rightarrow> db \<Rightarrow> db \<Rightarrow> bool" where
  "loggedDocument ev target d d' \<longleftrightarrow> (\<exists>cu t'. d' = (case target of
     None \<Rightarrow> d\<lparr>secureProofLogs := secureProofLogs d @ [documentLogRow None ev cu]\<rparr>
   | Some i \<Rightarrow> d\<lparr>secureProofLogs := secureProofLogs d @ [documentLogRow (Some i) ev cu],
       secureProofs := map (\<lambda>p. if p_id p = i
         then (countDocument (de_createdAt ev) p)\<lparr>p_updatedAt := t'\<rparr> else p) (secureProofs d)\<rparr>))"

lemma proofLog_wp: "wp (createProofLog E (documentLogRow target ev))
   (\<lambda>_ w'. \<exists>cu. database w' = (database w)\<lparr>secureProofLogs := secureProofLogs (database w) @
      [documentLogRow target ev cu]\<rparr>) (\<lambda>_ w'. database w' = database w) w"
  unfolding createProofLog_def
  by (auto simp: wp_simps insertInto_Inr split: option.splits sum.splits)

lemma updateProofI_wp: "wp (updateProofI E i f) (\<lambda>_ w'. \<exists>t'. database w' = (database w)\<lparr>secureProofs :=
    map (\<lambda>p. if p_id p = i then (f p)\<lparr>p_updatedAt := t'\<rparr> else p) (secureProofs (database w))\<rparr>)
    (\<lambda>_ _. True) w"
  unfolding updateProofI_def updateProof_def
  by (auto simp: wp_simps updateIn_Inr split: option.splits sum.splits prod.splits)

lemma recordDocument_wp: "wp (recordDocument E i ev)
  (\<lambda>_ w'. loggedDocument ev (Some i) (database w) (database w')) (\<lambda>_ w'. database w' = database w) w"
  unfolding recordDocument_def wp_transaction wp_andThen
proof (rule wp_mono [OF proofLog_wp], goal_cases)
  case (1 x w1)
  then obtain cu where w1: "database w1 = (database w)\<lparr>secureProofLogs := secureProofLogs (database w) @
      [documentLogRow (Some i) ev cu]\<rparr>" by blast
  show ?case
  proof (rule wp_mono [OF updateProofI_wp], goal_cases)
    case (1 y w2)
    then have "loggedDocument ev (Some i) (database w) (database w2)"
      by (auto simp: w1 loggedDocument_def)
    then show ?case by (simp split: option.split)
  qed simp
qed simp

lemma unknownDocument_wp: "wp (recordUnknownDocument E ev)
  (\<lambda>_ w'. loggedDocument ev None (database w) (database w')) (\<lambda>_ w'. database w' = database w) w"
  unfolding recordUnknownDocument_def by (rule wp_mono [OF proofLog_wp]) (auto simp: loggedDocument_def)

subsection \<open>The verdict on an upload\<close>

text \<open>The proof an upload is compared with: the one it names, else the one with its hash.\<close>

definition namedProof :: "string option \<Rightarrow> string \<Rightarrow> db \<Rightarrow> secureProof option" where
  "namedProof reference h d =
     nullish (if truthy reference \<and> trim (the reference) \<noteq> [] then List.find (\<lambda>p.
         p_verificationId p = trim (the reference) \<or> p_verificationCode p = toUpperCase (trim (the reference)) \<or>
         p_signedVerificationToken p = toLowerCase (trim (the reference))) (secureProofs d) else None)
       (List.find (\<lambda>p. p_sourceHash p = h) (secureProofs d))"

lemma findProof_wp: "wp (findProof E P) (\<lambda>r w'. database w' = database w \<and>
    map_option fst r = List.find P (secureProofs (database w))) (\<lambda>_ w'. database w' = database w) w"
  unfolding findProof_def requireRelation_def
  by (auto simp: wp_simps split: option.splits)

definition uploadOutcome :: "env \<Rightarrow> uploadedFile \<Rightarrow> string \<Rightarrow> db \<Rightarrow> documentResult \<Rightarrow> db \<Rightarrow> bool" where
  "uploadOutcome E file ip d res d' \<longleftrightarrow> (let h = hashBuffer E (uf_buffer file);
       named = namedProof (extractReferenceFromPdfBuffer E (uf_buffer file) (Some DocumentKind)) h d
     in dr_status res = (case named of None \<Rightarrow> DOC_NOT_FOUND | Some p \<Rightarrow> documentVerdict p h) \<and>
        (\<exists>t. loggedDocument \<lparr>de_sourceType = SRC_PDF_UPLOAD, de_uploadedHash = Some h,
           de_matched = (dr_status res = DOC_AUTHENTIC), de_status = dr_status res, de_ipAddress = ip,
           de_createdAt = t\<rparr> (map_option p_id named) d d'))"

lemma upload_wp: "wp (verifyUploadedDocument E upload ip)
  (\<lambda>res w'. \<exists>file. upload = Some file \<and> uploadOutcome E file ip (database w) res (database w'))
  (\<lambda>_ w'. database w' = database w) w"
proof -
  have prepared: "wp (prepareUploadedPdf E upload) (\<lambda>file w'. upload = Some file \<and> w' = w) (\<lambda>_ w'. w' = w) w"
    unfolding prepareUploadedPdf_def assertValidPdfUpload_def
    by (auto simp: wp_simps split: option.splits sum.splits)
  show ?thesis
    unfolding verifyUploadedDocument_def wp_bind wp_newDate Let_def
  proof (rule wp_mono [OF prepared], goal_cases)
    case (1 f w0)
    let ?h = "hashBuffer E (uf_buffer f)"
    let ?ref = "extractReferenceFromPdfBuffer E (uf_buffer f) (Some DocumentKind)"
    have byRef: "wp (if truthy ?ref then findByReference E (the ?ref) else ret None)
        (\<lambda>r w'. database w' = database w1 \<and> map_option fst r =
          (if truthy ?ref \<and> trim (the ?ref) \<noteq> [] then List.find (\<lambda>p. p_verificationId p = trim (the ?ref) \<or>
            p_verificationCode p = toUpperCase (trim (the ?ref)) \<or>
            p_signedVerificationToken p = toLowerCase (trim (the ?ref))) (secureProofs (database w1)) else None))
        (\<lambda>_ w'. database w' = database w1) w1" for w1
      unfolding findByReference_def Let_def
      by (auto simp: wp_ret intro!: wp_mono [OF findProof_wp])
    show ?case
    proof (rule wp_mono [OF byRef], goal_cases)
      case (1 r w2)
      have d: "database w2 = database w" using 1 \<open>upload = Some f \<and> w0 = w\<close> by simp
      have "wp (case r of None \<Rightarrow> findBySourceHash E ?h | Some x \<Rightarrow> ret (Some x))
          (\<lambda>found w'. database w' = database w \<and> map_option fst found = namedProof ?ref ?h (database w))
          (\<lambda>_ w'. database w' = database w) w2"
        using 1 d \<open>upload = Some f \<and> w0 = w\<close> unfolding findBySourceHash_def
        by (cases r) (auto simp: wp_ret namedProof_def nullish_def split: option.splits
            intro!: wp_mono [OF findProof_wp])
      then show ?case
      proof (rule wp_mono, goal_cases)
        case (1 found w3)
        then have n: "database w3 = database w" "namedProof ?ref ?h (database w) = map_option fst found"
          by simp_all
        show ?case
          using n \<open>upload = Some f \<and> w0 = w\<close>
          unfolding unknownDocument_def buildDocumentResult_def wp_andThen wp_bind wp_ret Let_def
          by (cases found) (auto simp: wp_simps uploadOutcome_def Let_def documentVerdict_def
              intro!: wp_mono [OF unknownDocument_wp] wp_mono [OF recordDocument_wp])
      qed (use \<open>upload = Some f \<and> w0 = w\<close> in simp)
    qed (use \<open>upload = Some f \<and> w0 = w\<close> in simp)
  qed simp
qed

subsection \<open>What a deletion leaves\<close>

lemma stored_wp: "steps (\<lambda>w w'. storage w' = storage w) m \<Longrightarrow>
  wp m (\<lambda>_ w'. storage w' = storage w) (\<lambda>_ w'. storage w' = storage w) w"
  by (auto simp: steps_def wp_def split: prod.splits sum.splits) (metis snd_conv)+

lemma stored_scope: "steps (\<lambda>w w'. storage w' = storage w) (resolveIssuerScope E admin)"
  unfolding resolveIssuerScope_def resolveInstitutionId_def resolveInstitutionForAdmin_def
    findActiveInstitution_def ensureDevelopmentInstitution_def linkAdminToInstitution_def
    createIssuer_def updateAdminRow_def
  by (intro step_intros)

lemma deleteProof_wp: "wp (deleteProof E i) (\<lambda>_ w'. storage w' = storage w \<and>
    (\<forall>p \<in> set (secureProofs (database w')). p_id p \<noteq> i) \<and>
    (\<forall>l \<in> set (secureProofLogs (database w')). sl_documentProofId l \<noteq> Some i)) (\<lambda>_ _. True) w"
  unfolding deleteProof_def
  by (auto simp: wp_simps deleteFrom_Inr split: option.splits sum.splits)

lemma remove_wp: "wp (removeDocumentProof E admin i) (\<lambda>_ w'. storage w' = storage w \<and>
    (\<forall>p \<in> set (secureProofs (database w')). p_id p \<noteq> i) \<and>
    (\<forall>l \<in> set (secureProofLogs (database w')). sl_documentProofId l \<noteq> Some i)) (\<lambda>_ _. True) w"
proof -
  let ?Q = "\<lambda>_ w'. storage w' = storage w \<and> (\<forall>p \<in> set (secureProofs (database w')). p_id p \<noteq> i) \<and>
    (\<forall>l \<in> set (secureProofLogs (database w')). sl_documentProofId l \<noteq> Some i)"
  have body: "wp (bind (resolveIssuerScope E admin) (\<lambda>scope.
         andThen (guardNot (outOfScope scope (p_issuerId p)) (NotFound ''Secure document proof not found''))
         (andThen (deleteProof E i)
         (andThen (auditLog E (proofEvent ''DOCUMENT_PROOF_DELETED'' admin i metadata))
         (ret result))))) ?Q (\<lambda>_ _. True) (nextTick w)" for p metadata and result :: "value"
    unfolding wp_bind wp_andThen wp_guardNot wp_ret
  proof (rule wp_mono [OF stored_wp [OF stored_scope]], goal_cases)
    case (1 scope w1)
    then have s: "storage w1 = storage w" by simp
    have "wp (deleteProof E i) (\<lambda>_. wp (auditLog E (proofEvent ''DOCUMENT_PROOF_DELETED'' admin i metadata))
        (\<lambda>_. ?Q result) (\<lambda>_ _. True)) (\<lambda>_ _. True) w1"
    proof (rule wp_mono [OF deleteProof_wp], goal_cases)
      case (1 x w2)
      then show ?case by (intro wp_mono [OF auditLog_wp]) (auto simp: s)
    qed simp
    then show ?case by simp
  qed simp
  show ?thesis
    unfolding removeDocumentProof_def
    by (subst wp_bind, simp only: wp_query, use body in \<open>auto simp: wp_throw split: option.split\<close>)
qed

subsection \<open>Properties\<close>

text \<open>
  C15. Functional: an uploaded document is called authentic only if an unrevoked proof with the hash
  of exactly these bytes is registered, and whenever one is, unless the file names another proof;
  NOT_FOUND means no proof has this hash. Every answered lookup leaves one log row with the uploaded
  hash and the verdict.
\<close>
theorem authentic_document_exact:
  assumes "verifyUploadedDocument E upload ip w = (Inr res, w')"
    and "distinct (map p_sourceHash (secureProofs (database w)))"
  shows "\<exists>f. upload = Some f \<and> (let h = hashBuffer E (uf_buffer f);
       registered = (\<exists>p \<in> set (secureProofs (database w)). p_sourceHash p = h \<and> \<not> p_revoked p)
     in (dr_status res = DOC_AUTHENTIC \<longrightarrow> registered) \<and>
        (extractReferenceFromPdfBuffer E (uf_buffer f) (Some DocumentKind) = None \<longrightarrow>
           (dr_status res = DOC_AUTHENTIC \<longleftrightarrow> registered)) \<and>
        (dr_status res = DOC_NOT_FOUND \<longrightarrow> (\<forall>p \<in> set (secureProofs (database w)). p_sourceHash p \<noteq> h)) \<and>
        (\<exists>row. secureProofLogs (database w') = secureProofLogs (database w) @ [row] \<and>
           sl_uploadedHash row = Some h \<and> sl_matched row = (dr_status res = DOC_AUTHENTIC) \<and>
           sl_status row = documentStatusName (dr_status res)))"
proof -
  from wp_Inr [OF upload_wp assms(1)] obtain f where f: "upload = Some f"
    and out: "uploadOutcome E f ip (database w) res (database w')" by blast
  define h ref named where "h = hashBuffer E (uf_buffer f)"
    and "ref = extractReferenceFromPdfBuffer E (uf_buffer f) (Some DocumentKind)"
    and "named = namedProof ref h (database w)"
  have status: "dr_status res = (case named of None \<Rightarrow> DOC_NOT_FOUND | Some p \<Rightarrow> documentVerdict p h)"
    and logged: "\<exists>t. loggedDocument \<lparr>de_sourceType = SRC_PDF_UPLOAD, de_uploadedHash = Some h,
       de_matched = (dr_status res = DOC_AUTHENTIC), de_status = dr_status res, de_ipAddress = ip,
       de_createdAt = t\<rparr> (map_option p_id named) (database w) (database w')"
    using out by (auto simp only: uploadOutcome_def Let_def h_def ref_def named_def)
  have one: "p = q" if "p \<in> set (secureProofs (database w))" "q \<in> set (secureProofs (database w))"
      "p_sourceHash p = p_sourceHash q" for p q
    using assms(2) that by (simp add: distinct_map inj_on_def)
  have mem: "p \<in> set (secureProofs (database w))" if "named = Some p" for p
    using that by (auto simp: named_def namedProof_def nullish_def find_Some_iff split: option.splits if_splits)
  have row: "\<exists>row. secureProofLogs (database w') = secureProofLogs (database w) @ [row] \<and>
      sl_uploadedHash row = Some h \<and> sl_matched row = (dr_status res = DOC_AUTHENTIC) \<and>
      sl_status row = documentStatusName (dr_status res)"
    using logged by (auto simp: loggedDocument_def documentLogRow_def split: option.splits)
  have auth: "\<exists>p \<in> set (secureProofs (database w)). p_sourceHash p = h \<and> \<not> p_revoked p"
    if "dr_status res = DOC_AUTHENTIC"
    using that mem status by (auto simp: documentVerdict_def split: option.splits if_splits)
  have conv: "dr_status res = DOC_AUTHENTIC" if "ref = None" and p: "p \<in> set (secureProofs (database w))"
      "p_sourceHash p = h" and u: "\<not> p_revoked p" for p
  proof -
    have n: "named = List.find (\<lambda>p. p_sourceHash p = h) (secureProofs (database w))"
      using \<open>ref = None\<close> by (simp add: named_def namedProof_def truthy_def nullish_def)
    then have "named \<noteq> None" using p by (auto simp: find_None_iff)
    then obtain q where q: "named = Some q" by auto
    then have "p_sourceHash q = h" using n by (auto simp: find_Some_iff dest: sym)
    then show ?thesis using one [OF p(1) mem [OF q]] p u status q by (simp add: documentVerdict_def)
  qed
  have missing: "\<forall>p \<in> set (secureProofs (database w)). p_sourceHash p \<noteq> h" if "dr_status res = DOC_NOT_FOUND"
    using that status by (auto simp: named_def namedProof_def nullish_def documentVerdict_def find_None_iff
        split: option.splits if_splits)
  show ?thesis
    unfolding Let_def
    using row auth conv missing by (intro exI [of _ f] conjI f) (auto simp: h_def ref_def)
qed

text \<open>
  Safety: a deleted document proof stays readable. Deleting one removes its row and its log but not
  its stored assets, and the public metadata endpoint never asks the database: it goes on serving the
  whole document, with the verification code and the signed token, to anyone with the address.
\<close>
theorem deleted_document_still_public:
  assumes "removeDocumentProof E admin i w = (Inr v, w')"
    and "map_of (storage w) (docAssetKey i DocMetadata) = Some doc" and "fault E (tick w') = None"
  shows "(\<forall>p \<in> set (secureProofs (database w')). p_id p \<noteq> i) \<and>
    docMetadataEndpoint E i w' = (Inr doc, nextTick w')"
proof -
  have "storage w' = storage w" "\<forall>p \<in> set (secureProofs (database w')). p_id p \<noteq> i"
    using wp_Inr [OF remove_wp assms(1)] by auto
  then show ?thesis
    using assms(2,3) by (simp add: docMetadataEndpoint_def readDocAsset_def storageGet_def getObject_def
        tryCatch_def external_def)
qed

subsection \<open>Witnesses\<close>

definition samplePdf :: uploadedFile where
  "samplePdf = \<lparr>uf_buffer = ''%PDF-1'', uf_mimetype = ''application/pdf'', uf_size = 6, uf_originalname = None\<rparr>"

definition sampleProof :: secureProof where
  "sampleProof = newProofRow \<lparr>da_id = ''prf_1'', da_verificationId = ''dpf_1'', da_verificationCode = ''DP-1'',
     da_signedVerificationToken = ''token'', da_title = ''Report'', da_documentType = ''REPORT'',
     da_referenceNumber = None, da_documentDate = None, da_sourceHash = hashBuffer sampleEnv ''%PDF-1'',
     da_issuer = assetIssuerOf sampleIssuer\<rparr>
     \<lparr>db_metadata = VNull, db_qrPayload = [], db_metadataUri = [], db_qrCodeUri = [], db_proofUrl = []\<rparr>
     samplePdf ''root@uni'' ''i1'' 0"

definition provedWorld :: world where
  "provedWorld = emptyWorld\<lparr>database := emptyDb\<lparr>issuers := [sampleIssuer], secureProofs := [sampleProof]\<rparr>,
     storage := [(''document-proofs/prf_1/metadata.json'', JsonDoc (VObj [(''verificationCode'', VStr ''DP-1'')]))]\<rparr>"

definition documentActor :: jwtPayload where
  "documentActor = \<lparr>j_sub = ''a1'', j_username = Some ''root'', j_email = ''root@uni'', j_role = OWNER,
     j_issuerId = None, j_tokenVersion = 0\<rparr>"

theorem authentic_document_exact_witness:
  "\<exists>res w'. verifyUploadedDocument sampleEnv (Some samplePdf) ''ip'' provedWorld = (Inr res, w') \<and>
     dr_status res = DOC_AUTHENTIC"
proof -
  have "isl (fst (verifyUploadedDocument sampleEnv (Some samplePdf) ''ip'' provedWorld)) = False" by code_simp
  then obtain res w' where run: "verifyUploadedDocument sampleEnv (Some samplePdf) ''ip'' provedWorld = (Inr res, w')"
    using prog_returns [of "verifyUploadedDocument sampleEnv (Some samplePdf) ''ip''"] by blast
  have one: "distinct (map p_sourceHash (secureProofs (database provedWorld)))" by (simp add: provedWorld_def)
  have noref: "extractReferenceFromPdfBuffer sampleEnv (uf_buffer samplePdf) (Some DocumentKind) = None" by code_simp
  have "\<exists>p \<in> set (secureProofs (database provedWorld)). p_sourceHash p = hashBuffer sampleEnv (uf_buffer samplePdf) \<and>
      \<not> p_revoked p"
    by (simp add: provedWorld_def sampleProof_def newProofRow_def samplePdf_def)
  with authentic_document_exact [OF run one] noref run show ?thesis
    unfolding Let_def by auto
qed

theorem deleted_document_still_public_witness:
  "\<exists>v w'. removeDocumentProof sampleEnv documentActor ''prf_1'' provedWorld = (Inr v, w') \<and>
     docMetadataEndpoint sampleEnv ''prf_1'' w' =
       (Inr (JsonDoc (VObj [(''verificationCode'', VStr ''DP-1'')])), nextTick w')"
proof -
  have "isl (fst (removeDocumentProof sampleEnv documentActor ''prf_1'' provedWorld)) = False" by code_simp
  then obtain v w' where run: "removeDocumentProof sampleEnv documentActor ''prf_1'' provedWorld = (Inr v, w')"
    using prog_returns [of "removeDocumentProof sampleEnv documentActor ''prf_1''"] by blast
  then show ?thesis
    using deleted_document_still_public [OF run, of "JsonDoc (VObj [(''verificationCode'', VStr ''DP-1'')])"]
    by (simp add: provedWorld_def getProofPrefix_def)
qed

end
