(* ===== verification/EnvConfig.thy ===== *)
theory EnvConfig
  imports JsNumber Effects
begin

text \<open>
  The configuration of the API (\<open>apps/api/src/config\<close>, \<open>main.ts\<close>): the schema of the environment and
  the checks of \<open>validateEnv\<close>, the configuration the services read, and the guards at start-up. The
  configuration to validate is what the framework merged from the \<open>.env\<close> file and the environment of
  the process; \<open>penv\<close> is that environment alone. zod's test for a URL and the texts of its own
  messages are a parameter.
\<close>

type_synonym environment = "string \<Rightarrow> string option"

record zod =
  z_isUrl :: "string \<Rightarrow> bool"
  z_message :: "string \<Rightarrow> string"

subsection \<open>Schemas\<close>

text \<open>A schema maps what is configured to messages or a value; an absent key is \<open>undefined\<close>.\<close>

type_synonym 'a schema = "string option \<Rightarrow> string list + 'a"

definition checkAll :: "(bool \<times> string) list \<Rightarrow> 'a \<Rightarrow> string list + 'a" where
  "checkAll cs v = (let ms = map snd (filter (\<lambda>c. \<not> fst c) cs) in if ms = [] then Inr v else Inl ms)"

definition zCheck :: "zod \<Rightarrow> (string \<Rightarrow> (bool \<times> string) list) \<Rightarrow> string schema" where
  "zCheck Z cs raw = (case raw of None \<Rightarrow> Inl [z_message Z ''required''] | Some s \<Rightarrow> checkAll (cs s) s)"

definition zString :: "zod \<Rightarrow> string schema" where
  "zString Z = zCheck Z (\<lambda>s. [])"

definition zNonEmpty :: "zod \<Rightarrow> string schema" where
  "zNonEmpty Z = zCheck Z (\<lambda>s. [(1 \<le> length s, z_message Z ''too_small'')])"

definition zUrl :: "zod \<Rightarrow> string schema" where
  "zUrl Z = zCheck Z (\<lambda>s. [(z_isUrl Z s, z_message Z ''url'')])"

definition zEnum :: "zod \<Rightarrow> string list \<Rightarrow> string schema" where
  "zEnum Z vs = zCheck Z (\<lambda>s. [(s \<in> set vs, z_message Z ''enum'')])"

text \<open>\<open>/^0x[a-fA-F0-9]{n}$/\<close>\<close>

definition isHexText :: "nat \<Rightarrow> string \<Rightarrow> bool" where
  "isHexText n s \<longleftrightarrow> take 2 s = ''0x'' \<and> length s = n + 2 \<and>
     (\<forall>c \<in> set (drop 2 s). c \<in> set ''0123456789abcdefABCDEF'')"

definition zHex :: "zod \<Rightarrow> nat \<Rightarrow> string schema" where
  "zHex Z n = zCheck Z (\<lambda>s. [(isHexText n s, z_message Z ''regex'')])"

definition zOptional :: "'a schema \<Rightarrow> 'a option schema" where
  "zOptional p raw = (case raw of None \<Rightarrow> Inr None
     | Some s \<Rightarrow> (case p (Some s) of Inl ms \<Rightarrow> Inl ms | Inr v \<Rightarrow> Inr (Some v)))"

definition zEnumDefault :: "zod \<Rightarrow> string list \<Rightarrow> string \<Rightarrow> string schema" where
  "zEnumDefault Z vs d raw = (case raw of None \<Rightarrow> Inr d | Some s \<Rightarrow> zEnum Z vs (Some s))"

definition zNumberDefault :: "zod \<Rightarrow> jsNum \<Rightarrow> jsNum schema" where
  "zNumberDefault Z d raw = (case raw of None \<Rightarrow> Inr d
     | Some s \<Rightarrow> checkAll [(toNumber s \<noteq> NaN, z_message Z ''number'')] (toNumber s))"

text \<open>\<open>z.coerce.number().int().positive().optional()\<close>\<close>

definition zPositive :: "zod \<Rightarrow> jsNum option schema" where
  "zPositive Z raw = (case raw of None \<Rightarrow> Inr None
     | Some s \<Rightarrow> (let n = toNumber s in
         if n = NaN then Inl [z_message Z ''number'']
         else checkAll [(toInt n \<noteq> None, z_message Z ''int''), (numLess (num 0) n, z_message Z ''positive'')]
           (Some n)))"

text \<open>\<open>z.enum(['true', 'false', '']).optional().transform((v) => v === 'true')\<close>\<close>

definition zFlag :: "zod \<Rightarrow> bool schema" where
  "zFlag Z raw = (case zOptional (zEnum Z [''true'', ''false'', []]) raw of
     Inl ms \<Rightarrow> Inl ms | Inr v \<Rightarrow> Inr (v = Some ''true''))"

subsection \<open>Secrets\<close>

definition WEAK_SECRET_PLACEHOLDERS :: "string list" where
  "WEAK_SECRET_PLACEHOLDERS = [''secret'', ''password'', ''replace-me'', ''change-me'',
     ''your-secret-here'', ''replace-with-at-least-16-characters'',
     ''replace-with-at-least-32-characters'', ''changeme'', ''supersecret'', ''mysecret'',
     ''certiva_super_secret_production_key_2026'']"

definition placeholder :: "string \<Rightarrow> bool" where
  "placeholder v \<longleftrightarrow> (\<exists>p \<in> set WEAK_SECRET_PLACEHOLDERS. includesStr (toLowerCase p) (toLowerCase v))"

text \<open>The refinement reads the environment of the process, not the configuration it validates.\<close>

definition acceptedSecret :: "environment \<Rightarrow> string \<Rightarrow> bool" where
  "acceptedSecret penv v \<longleftrightarrow>
     (if penv ''NODE_ENV'' = Some ''development'' \<and> penv ''APP_ENV'' \<noteq> Some ''staging'' \<and>
         penv ''APP_ENV'' \<noteq> Some ''production'' then True else \<not> placeholder v)"

definition zSecret :: "zod \<Rightarrow> environment \<Rightarrow> nat \<Rightarrow> string \<Rightarrow> string schema" where
  "zSecret Z penv n name = zCheck Z (\<lambda>s.
     [(n \<le> length s, name @ '' must be at least '' @ showNat n @ '' characters''),
      (acceptedSecret penv s, name @ '' must not be a placeholder value in staging/production'')])"

subsection \<open>The environment\<close>

record envData =
  NODE_ENV :: string
  APP_ENV :: string
  DATABASE_URL :: string
  REDIS_URL :: string
  JWT_SECRET :: string
  JWT_EXPIRES_IN :: "string option"
  SIGNING_KEY_ENCRYPTION_SECRET :: string
  PORT :: jsNum
  CORS_ORIGINS :: "string option"
  CORS_ORIGIN :: "string option"
  API_PUBLIC_BASE_URL :: "string option"
  WEB_PUBLIC_BASE_URL :: "string option"
  ASSET_STORAGE_ROOT :: "string option"
  STORAGE_DRIVER :: "string option"
  R2_ACCOUNT_ID :: "string option"
  R2_BUCKET :: "string option"
  R2_ACCESS_KEY_ID :: "string option"
  R2_SECRET_ACCESS_KEY :: "string option"
  R2_ENDPOINT :: "string option"
  R2_PUBLIC_BASE_URL :: "string option"
  R2_FORCE_PATH_STYLE :: bool
  COOKIE_SECURE :: bool
  TRUST_PROXY :: bool
  BLOCKCHAIN_ENABLED :: bool
  POLYGON_AMOY_RPC_URL :: "string option"
  PRIVATE_KEY :: "string option"
  CONTRACT_ADDRESS :: "string option"
  ISSUER_WALLET :: "string option"
  BLOCKCHAIN_RPC_TIMEOUT_MS :: "jsNum option"
  RATE_LIMIT_STORE :: "string option"
  RATE_LIMIT_REDIS_PREFIX :: "string option"
  RATE_LIMIT_AUTH_LOGIN_MAX :: "jsNum option"
  RATE_LIMIT_AUTH_LOGIN_WINDOW_SECONDS :: "jsNum option"
  RATE_LIMIT_VERIFY_MAX :: "jsNum option"
  RATE_LIMIT_VERIFY_WINDOW_SECONDS :: "jsNum option"
  RATE_LIMIT_VERIFY_UPLOAD_MAX :: "jsNum option"
  RATE_LIMIT_VERIFY_UPLOAD_WINDOW_SECONDS :: "jsNum option"
  RATE_LIMIT_ADMIN_MAX :: "jsNum option"
  RATE_LIMIT_ADMIN_WINDOW_SECONDS :: "jsNum option"

text \<open>One key of the schema: its issues, or how its value is stored.\<close>

definition envField :: "environment \<Rightarrow> string \<Rightarrow> 'a schema \<Rightarrow> ('a \<Rightarrow> envData \<Rightarrow> envData) \<Rightarrow>
    (string \<times> string) list + (envData \<Rightarrow> envData)" where
  "envField merged key p store = (case p (merged key) of
     Inl ms \<Rightarrow> Inl (map (\<lambda>m. (key, m)) ms) | Inr v \<Rightarrow> Inr (store v))"

definition envFields :: "zod \<Rightarrow> environment \<Rightarrow> environment \<Rightarrow>
    ((string \<times> string) list + (envData \<Rightarrow> envData)) list" where
  "envFields Z penv merged =
    [envField merged ''NODE_ENV'' (zEnumDefault Z [''development'', ''test'', ''production''] ''development'') (\<lambda>v d. d\<lparr>NODE_ENV := v\<rparr>),
     envField merged ''APP_ENV'' (zEnumDefault Z [''development'', ''staging'', ''production''] ''development'') (\<lambda>v d. d\<lparr>APP_ENV := v\<rparr>),
     envField merged ''DATABASE_URL'' (zUrl Z) (\<lambda>v d. d\<lparr>DATABASE_URL := v\<rparr>),
     envField merged ''REDIS_URL'' (zUrl Z) (\<lambda>v d. d\<lparr>REDIS_URL := v\<rparr>),
     envField merged ''JWT_SECRET'' (zSecret Z penv 64 ''JWT_SECRET'') (\<lambda>v d. d\<lparr>JWT_SECRET := v\<rparr>),
     envField merged ''JWT_EXPIRES_IN'' (zOptional (zString Z)) (\<lambda>v d. d\<lparr>JWT_EXPIRES_IN := v\<rparr>),
     envField merged ''SIGNING_KEY_ENCRYPTION_SECRET'' (zSecret Z penv 32 ''SIGNING_KEY_ENCRYPTION_SECRET'') (\<lambda>v d. d\<lparr>SIGNING_KEY_ENCRYPTION_SECRET := v\<rparr>),
     envField merged ''PORT'' (zNumberDefault Z (num 4000)) (\<lambda>v d. d\<lparr>PORT := v\<rparr>),
     envField merged ''CORS_ORIGINS'' (zOptional (zString Z)) (\<lambda>v d. d\<lparr>CORS_ORIGINS := v\<rparr>),
     envField merged ''CORS_ORIGIN'' (zOptional (zString Z)) (\<lambda>v d. d\<lparr>CORS_ORIGIN := v\<rparr>),
     envField merged ''API_PUBLIC_BASE_URL'' (zOptional (zUrl Z)) (\<lambda>v d. d\<lparr>API_PUBLIC_BASE_URL := v\<rparr>),
     envField merged ''WEB_PUBLIC_BASE_URL'' (zOptional (zUrl Z)) (\<lambda>v d. d\<lparr>WEB_PUBLIC_BASE_URL := v\<rparr>),
     envField merged ''ASSET_STORAGE_ROOT'' (zOptional (zString Z)) (\<lambda>v d. d\<lparr>ASSET_STORAGE_ROOT := v\<rparr>),
     envField merged ''STORAGE_DRIVER'' (zOptional (zEnum Z [''local'', ''r2''])) (\<lambda>v d. d\<lparr>STORAGE_DRIVER := v\<rparr>),
     envField merged ''R2_ACCOUNT_ID'' (zOptional (zString Z)) (\<lambda>v d. d\<lparr>R2_ACCOUNT_ID := v\<rparr>),
     envField merged ''R2_BUCKET'' (zOptional (zString Z)) (\<lambda>v d. d\<lparr>R2_BUCKET := v\<rparr>),
     envField merged ''R2_ACCESS_KEY_ID'' (zOptional (zString Z)) (\<lambda>v d. d\<lparr>R2_ACCESS_KEY_ID := v\<rparr>),
     envField merged ''R2_SECRET_ACCESS_KEY'' (zOptional (zString Z)) (\<lambda>v d. d\<lparr>R2_SECRET_ACCESS_KEY := v\<rparr>),
     envField merged ''R2_ENDPOINT'' (zOptional (zUrl Z)) (\<lambda>v d. d\<lparr>R2_ENDPOINT := v\<rparr>),
     envField merged ''R2_PUBLIC_BASE_URL'' (zOptional (zUrl Z)) (\<lambda>v d. d\<lparr>R2_PUBLIC_BASE_URL := v\<rparr>),
     envField merged ''R2_FORCE_PATH_STYLE'' (zFlag Z) (\<lambda>v d. d\<lparr>R2_FORCE_PATH_STYLE := v\<rparr>),
     envField merged ''COOKIE_SECURE'' (zFlag Z) (\<lambda>v d. d\<lparr>COOKIE_SECURE := v\<rparr>),
     envField merged ''TRUST_PROXY'' (zFlag Z) (\<lambda>v d. d\<lparr>TRUST_PROXY := v\<rparr>),
     envField merged ''BLOCKCHAIN_ENABLED'' (zFlag Z) (\<lambda>v d. d\<lparr>BLOCKCHAIN_ENABLED := v\<rparr>),
     envField merged ''POLYGON_AMOY_RPC_URL'' (zOptional (zUrl Z)) (\<lambda>v d. d\<lparr>POLYGON_AMOY_RPC_URL := v\<rparr>),
     envField merged ''PRIVATE_KEY'' (zOptional (zHex Z 64)) (\<lambda>v d. d\<lparr>PRIVATE_KEY := v\<rparr>),
     envField merged ''CONTRACT_ADDRESS'' (zOptional (zHex Z 40)) (\<lambda>v d. d\<lparr>CONTRACT_ADDRESS := v\<rparr>),
     envField merged ''ISSUER_WALLET'' (zOptional (zHex Z 40)) (\<lambda>v d. d\<lparr>ISSUER_WALLET := v\<rparr>),
     envField merged ''BLOCKCHAIN_RPC_TIMEOUT_MS'' (zPositive Z) (\<lambda>v d. d\<lparr>BLOCKCHAIN_RPC_TIMEOUT_MS := v\<rparr>),
     envField merged ''RATE_LIMIT_STORE'' (zOptional (zEnum Z [''redis'', ''memory''])) (\<lambda>v d. d\<lparr>RATE_LIMIT_STORE := v\<rparr>),
     envField merged ''RATE_LIMIT_REDIS_PREFIX'' (zOptional (zNonEmpty Z)) (\<lambda>v d. d\<lparr>RATE_LIMIT_REDIS_PREFIX := v\<rparr>),
     envField merged ''RATE_LIMIT_AUTH_LOGIN_MAX'' (zPositive Z) (\<lambda>v d. d\<lparr>RATE_LIMIT_AUTH_LOGIN_MAX := v\<rparr>),
     envField merged ''RATE_LIMIT_AUTH_LOGIN_WINDOW_SECONDS'' (zPositive Z) (\<lambda>v d. d\<lparr>RATE_LIMIT_AUTH_LOGIN_WINDOW_SECONDS := v\<rparr>),
     envField merged ''RATE_LIMIT_VERIFY_MAX'' (zPositive Z) (\<lambda>v d. d\<lparr>RATE_LIMIT_VERIFY_MAX := v\<rparr>),
     envField merged ''RATE_LIMIT_VERIFY_WINDOW_SECONDS'' (zPositive Z) (\<lambda>v d. d\<lparr>RATE_LIMIT_VERIFY_WINDOW_SECONDS := v\<rparr>),
     envField merged ''RATE_LIMIT_VERIFY_UPLOAD_MAX'' (zPositive Z) (\<lambda>v d. d\<lparr>RATE_LIMIT_VERIFY_UPLOAD_MAX := v\<rparr>),
     envField merged ''RATE_LIMIT_VERIFY_UPLOAD_WINDOW_SECONDS'' (zPositive Z) (\<lambda>v d. d\<lparr>RATE_LIMIT_VERIFY_UPLOAD_WINDOW_SECONDS := v\<rparr>),
     envField merged ''RATE_LIMIT_ADMIN_MAX'' (zPositive Z) (\<lambda>v d. d\<lparr>RATE_LIMIT_ADMIN_MAX := v\<rparr>),
     envField merged ''RATE_LIMIT_ADMIN_WINDOW_SECONDS'' (zPositive Z) (\<lambda>v d. d\<lparr>RATE_LIMIT_ADMIN_WINDOW_SECONDS := v\<rparr>)]"

definition noData :: envData where
  "noData = \<lparr>NODE_ENV = [], APP_ENV = [], DATABASE_URL = [], REDIS_URL = [], JWT_SECRET = [],
     JWT_EXPIRES_IN = None, SIGNING_KEY_ENCRYPTION_SECRET = [], PORT = NaN, CORS_ORIGINS = None,
     CORS_ORIGIN = None, API_PUBLIC_BASE_URL = None, WEB_PUBLIC_BASE_URL = None,
     ASSET_STORAGE_ROOT = None, STORAGE_DRIVER = None, R2_ACCOUNT_ID = None, R2_BUCKET = None,
     R2_ACCESS_KEY_ID = None, R2_SECRET_ACCESS_KEY = None, R2_ENDPOINT = None, R2_PUBLIC_BASE_URL
     = None, R2_FORCE_PATH_STYLE = False, COOKIE_SECURE = False, TRUST_PROXY = False,
     BLOCKCHAIN_ENABLED = False, POLYGON_AMOY_RPC_URL = None, PRIVATE_KEY = None,
     CONTRACT_ADDRESS = None, ISSUER_WALLET = None, BLOCKCHAIN_RPC_TIMEOUT_MS = None,
     RATE_LIMIT_STORE = None, RATE_LIMIT_REDIS_PREFIX = None, RATE_LIMIT_AUTH_LOGIN_MAX = None,
     RATE_LIMIT_AUTH_LOGIN_WINDOW_SECONDS = None, RATE_LIMIT_VERIFY_MAX = None,
     RATE_LIMIT_VERIFY_WINDOW_SECONDS = None, RATE_LIMIT_VERIFY_UPLOAD_MAX = None,
     RATE_LIMIT_VERIFY_UPLOAD_WINDOW_SECONDS = None, RATE_LIMIT_ADMIN_MAX = None,
     RATE_LIMIT_ADMIN_WINDOW_SECONDS = None\<rparr>"

definition envSchema :: "zod \<Rightarrow> environment \<Rightarrow> environment \<Rightarrow> (string \<times> string) list + envData" where
  "envSchema Z penv merged = (let fs = envFields Z penv merged;
       issues = concat (map (\<lambda>f. case f of Inl is \<Rightarrow> is | Inr _ \<Rightarrow> []) fs)
     in if issues \<noteq> [] then Inl issues
        else Inr (foldl (\<lambda>d f. case f of Inl _ \<Rightarrow> d | Inr g \<Rightarrow> g d) noData fs))"

subsection \<open>validateEnv\<close>

definition isExposed :: "envData \<Rightarrow> bool" where
  "isExposed d \<longleftrightarrow> NODE_ENV d = ''production'' \<or> APP_ENV d = ''staging'' \<or> APP_ENV d = ''production''"

definition originList :: "string \<Rightarrow> string list" where
  "originList raw = filter (\<lambda>o'. o' \<noteq> []) (map trim (splitOn (CHR '','') raw))"

definition missingOf :: "(string \<times> string option) list \<Rightarrow> string list" where
  "missingOf vs = map fst (filter (\<lambda>v. \<not> truthy (snd v)) vs)"

definition knownDevKeys :: "string list" where
  "knownDevKeys = [''0x'' @ replicate 64 (CHR ''0''), ''0x'' @ replicate 64 (CHR ''a'')]"

text \<open>The checks in their order; the first that fails is the message.\<close>

fun firstFailure :: "(bool \<times> string) list \<Rightarrow> string option" where
  "firstFailure [] = None"
| "firstFailure ((ok, m) # cs) = (if ok then firstFailure cs else Some m)"

definition envChecks :: "envData \<Rightarrow> (bool \<times> string) list" where
  "envChecks d = (let corsOrigins = originList (orElse (nullish (CORS_ORIGINS d) (CORS_ORIGIN d)) []);
       missing = missingOf [(''POLYGON_AMOY_RPC_URL'', POLYGON_AMOY_RPC_URL d),
         (''PRIVATE_KEY'', PRIVATE_KEY d), (''CONTRACT_ADDRESS'', CONTRACT_ADDRESS d)];
       missingR2 = missingOf [(''R2_ACCOUNT_ID'', R2_ACCOUNT_ID d), (''R2_BUCKET'', R2_BUCKET d),
         (''R2_ACCESS_KEY_ID'', R2_ACCESS_KEY_ID d), (''R2_SECRET_ACCESS_KEY'', R2_SECRET_ACCESS_KEY d),
         (''R2_ENDPOINT'', R2_ENDPOINT d)]
     in [(\<not> isExposed d \<or> corsOrigins \<noteq> [],
          ''CORS_ORIGINS must be set and non-empty when NODE_ENV=production, APP_ENV=staging, or APP_ENV=production. '' @
          ''Set CORS_ORIGINS to a comma-separated list of allowed origins.''),
         (\<not> isExposed d \<or> ''*'' \<notin> set corsOrigins,
          ''CORS_ORIGINS must not contain wildcard (*) in staging or production environments.''),
         (\<not> BLOCKCHAIN_ENABLED d \<or> missing = [],
          ''BLOCKCHAIN_ENABLED=true requires the following env vars: '' @ join '', '' missing),
         (\<not> BLOCKCHAIN_ENABLED d \<or> \<not> isExposed d \<or>
          toLowerCase (orElse (PRIVATE_KEY d) []) \<notin> set knownDevKeys,
          ''PRIVATE_KEY appears to be a development placeholder. Do not use test keys in production.''),
         (\<not> isExposed d \<or> STORAGE_DRIVER d = Some ''r2'',
          ''STORAGE_DRIVER must be set to \"r2\" in staging and production environments. '' @
          ''Local filesystem storage is not permitted in exposed environments.''),
         (STORAGE_DRIVER d \<noteq> Some ''r2'' \<or> missingR2 = [],
          ''STORAGE_DRIVER=r2 requires the following env vars: '' @ join '', '' missingR2)])"

definition validateEnv :: "zod \<Rightarrow> environment \<Rightarrow> environment \<Rightarrow> string + envData" where
  "validateEnv Z penv merged = (case envSchema Z penv merged of
     Inl issues \<Rightarrow> Inl (''Invalid environment configuration: '' @
       join ''; '' (map (\<lambda>(key, m). key @ '': '' @ m) issues))
   | Inr d \<Rightarrow> (case firstFailure (envChecks d) of Some m \<Rightarrow> Inl m | None \<Rightarrow> Inr d))"

subsection \<open>What the process reads\<close>

text \<open>
  After the validation the framework writes the validated values back as texts, an absent one not at
  all; \<open>storedText\<close> is that text for a key of the schema.
\<close>

definition flagText :: "bool \<Rightarrow> string option" where
  "flagText b = Some (if b then ''true'' else ''false'')"

definition storedTexts :: "envData \<Rightarrow> (string \<times> string option) list" where
  "storedTexts d =
    [(''NODE_ENV'', Some (NODE_ENV d)), (''APP_ENV'', Some (APP_ENV d)),
     (''DATABASE_URL'', Some (DATABASE_URL d)), (''REDIS_URL'', Some (REDIS_URL d)),
     (''JWT_SECRET'', Some (JWT_SECRET d)), (''JWT_EXPIRES_IN'', JWT_EXPIRES_IN d),
     (''SIGNING_KEY_ENCRYPTION_SECRET'', Some (SIGNING_KEY_ENCRYPTION_SECRET d)),
     (''PORT'', Some (showNum (PORT d))), (''CORS_ORIGINS'', CORS_ORIGINS d),
     (''CORS_ORIGIN'', CORS_ORIGIN d), (''API_PUBLIC_BASE_URL'', API_PUBLIC_BASE_URL d),
     (''WEB_PUBLIC_BASE_URL'', WEB_PUBLIC_BASE_URL d), (''ASSET_STORAGE_ROOT'', ASSET_STORAGE_ROOT d),
     (''STORAGE_DRIVER'', STORAGE_DRIVER d), (''R2_ACCOUNT_ID'', R2_ACCOUNT_ID d),
     (''R2_BUCKET'', R2_BUCKET d), (''R2_ACCESS_KEY_ID'', R2_ACCESS_KEY_ID d),
     (''R2_SECRET_ACCESS_KEY'', R2_SECRET_ACCESS_KEY d), (''R2_ENDPOINT'', R2_ENDPOINT d),
     (''R2_PUBLIC_BASE_URL'', R2_PUBLIC_BASE_URL d),
     (''R2_FORCE_PATH_STYLE'', flagText (R2_FORCE_PATH_STYLE d)),
     (''COOKIE_SECURE'', flagText (COOKIE_SECURE d)), (''TRUST_PROXY'', flagText (TRUST_PROXY d)),
     (''BLOCKCHAIN_ENABLED'', flagText (BLOCKCHAIN_ENABLED d)),
     (''POLYGON_AMOY_RPC_URL'', POLYGON_AMOY_RPC_URL d), (''PRIVATE_KEY'', PRIVATE_KEY d),
     (''CONTRACT_ADDRESS'', CONTRACT_ADDRESS d), (''ISSUER_WALLET'', ISSUER_WALLET d),
     (''BLOCKCHAIN_RPC_TIMEOUT_MS'', map_option showNum (BLOCKCHAIN_RPC_TIMEOUT_MS d)),
     (''RATE_LIMIT_STORE'', RATE_LIMIT_STORE d), (''RATE_LIMIT_REDIS_PREFIX'', RATE_LIMIT_REDIS_PREFIX d),
     (''RATE_LIMIT_AUTH_LOGIN_MAX'', map_option showNum (RATE_LIMIT_AUTH_LOGIN_MAX d)),
     (''RATE_LIMIT_AUTH_LOGIN_WINDOW_SECONDS'', map_option showNum (RATE_LIMIT_AUTH_LOGIN_WINDOW_SECONDS d)),
     (''RATE_LIMIT_VERIFY_MAX'', map_option showNum (RATE_LIMIT_VERIFY_MAX d)),
     (''RATE_LIMIT_VERIFY_WINDOW_SECONDS'', map_option showNum (RATE_LIMIT_VERIFY_WINDOW_SECONDS d)),
     (''RATE_LIMIT_VERIFY_UPLOAD_MAX'', map_option showNum (RATE_LIMIT_VERIFY_UPLOAD_MAX d)),
     (''RATE_LIMIT_VERIFY_UPLOAD_WINDOW_SECONDS'', map_option showNum (RATE_LIMIT_VERIFY_UPLOAD_WINDOW_SECONDS d)),
     (''RATE_LIMIT_ADMIN_MAX'', map_option showNum (RATE_LIMIT_ADMIN_MAX d)),
     (''RATE_LIMIT_ADMIN_WINDOW_SECONDS'', map_option showNum (RATE_LIMIT_ADMIN_WINDOW_SECONDS d))]"

definition storedText :: "envData \<Rightarrow> string \<Rightarrow> string option" where
  "storedText d k = (case map_of (storedTexts d) k of None \<Rightarrow> None | Some t \<Rightarrow> t)"

subsection \<open>configuration\<close>

text \<open>\<open>parseInt(text, 10)\<close>\<close>

definition parseInt10 :: "string \<Rightarrow> jsNum" where
  "parseInt10 s = (let (sg, u) = splitSign (trimStart s); ds = takeWhile isDecDigit u
     in if ds = [] then NaN else num (sg * int (digitsVal ds)))"

record r2Config =
  r2_accountId :: string
  r2_bucket :: string
  r2_accessKeyId :: string
  r2_secretAccessKey :: string
  r2_endpoint :: string
  r2_publicBaseUrl :: string
  r2_forcePathStyle :: bool

record windowConfig =
  wc_limit :: jsNum
  wc_windowSeconds :: jsNum

record configValues =
  cv_nodeEnv :: string
  cv_appEnv :: string
  cv_port :: jsNum
  cv_corsOrigins :: string
  cv_cookieSecure :: bool
  cv_trustProxy :: bool
  cv_apiPublicBaseUrl :: string
  cv_webPublicBaseUrl :: string
  cv_assetStorageRoot :: string
  cv_storageDriver :: string
  cv_r2 :: r2Config
  cv_jwtSecret :: "string option"
  cv_jwtExpiresIn :: string
  cv_signingKeyEncryptionSecret :: "string option"
  cv_databaseUrl :: "string option"
  cv_redisUrl :: "string option"
  cv_rateStore :: string
  cv_ratePrefix :: string
  cv_authLogin :: windowConfig
  cv_verification :: windowConfig
  cv_verificationUpload :: windowConfig
  cv_admin :: windowConfig
  cv_blockchainEnabled :: bool
  cv_polygonAmoyRpcUrl :: "string option"
  cv_privateKey :: "string option"
  cv_contractAddress :: "string option"
  cv_rpcTimeoutMs :: jsNum

definition windowOf :: "environment \<Rightarrow> string \<Rightarrow> string \<Rightarrow> string \<Rightarrow> windowConfig" where
  "windowOf rt k n k' = \<lparr>wc_limit = parseInt10 (orElse (rt k) n),
     wc_windowSeconds = parseInt10 (orElse (rt k') ''60'')\<rparr>"

definition configuration :: "environment \<Rightarrow> configValues" where
  "configuration rt = \<lparr>cv_nodeEnv = orElse (rt ''NODE_ENV'') ''development'',
     cv_appEnv = orElse (rt ''APP_ENV'') ''development'',
     cv_port = parseInt10 (orElse (rt ''PORT'') ''4000''),
     cv_corsOrigins = orElse (nullish (rt ''CORS_ORIGINS'') (rt ''CORS_ORIGIN'')) [],
     cv_cookieSecure = (rt ''COOKIE_SECURE'' = Some ''true''),
     cv_trustProxy = (rt ''TRUST_PROXY'' = Some ''true''),
     cv_apiPublicBaseUrl = orElse (rt ''API_PUBLIC_BASE_URL'') ''http://127.0.0.1:4000/api'',
     cv_webPublicBaseUrl = orElse (rt ''WEB_PUBLIC_BASE_URL'') ''http://127.0.0.1:3000'',
     cv_assetStorageRoot = orElse (rt ''ASSET_STORAGE_ROOT'') ''storage'',
     cv_storageDriver = orElse (rt ''STORAGE_DRIVER'') ''local'',
     cv_r2 = \<lparr>r2_accountId = orElse (rt ''R2_ACCOUNT_ID'') [], r2_bucket = orElse (rt ''R2_BUCKET'') [],
       r2_accessKeyId = orElse (rt ''R2_ACCESS_KEY_ID'') [],
       r2_secretAccessKey = orElse (rt ''R2_SECRET_ACCESS_KEY'') [],
       r2_endpoint = orElse (rt ''R2_ENDPOINT'') [], r2_publicBaseUrl = orElse (rt ''R2_PUBLIC_BASE_URL'') [],
       r2_forcePathStyle = (rt ''R2_FORCE_PATH_STYLE'' = Some ''true'')\<rparr>,
     cv_jwtSecret = rt ''JWT_SECRET'', cv_jwtExpiresIn = orElse (rt ''JWT_EXPIRES_IN'') ''12h'',
     cv_signingKeyEncryptionSecret = rt ''SIGNING_KEY_ENCRYPTION_SECRET'',
     cv_databaseUrl = rt ''DATABASE_URL'', cv_redisUrl = rt ''REDIS_URL'',
     cv_rateStore = orElse (rt ''RATE_LIMIT_STORE'') ''redis'',
     cv_ratePrefix = orElse (rt ''RATE_LIMIT_REDIS_PREFIX'') ''certiva:rate-limit'',
     cv_authLogin = windowOf rt ''RATE_LIMIT_AUTH_LOGIN_MAX'' ''5'' ''RATE_LIMIT_AUTH_LOGIN_WINDOW_SECONDS'',
     cv_verification = windowOf rt ''RATE_LIMIT_VERIFY_MAX'' ''30'' ''RATE_LIMIT_VERIFY_WINDOW_SECONDS'',
     cv_verificationUpload =
       windowOf rt ''RATE_LIMIT_VERIFY_UPLOAD_MAX'' ''10'' ''RATE_LIMIT_VERIFY_UPLOAD_WINDOW_SECONDS'',
     cv_admin = windowOf rt ''RATE_LIMIT_ADMIN_MAX'' ''100'' ''RATE_LIMIT_ADMIN_WINDOW_SECONDS'',
     cv_blockchainEnabled = (rt ''BLOCKCHAIN_ENABLED'' = Some ''true''),
     cv_polygonAmoyRpcUrl = rt ''POLYGON_AMOY_RPC_URL'', cv_privateKey = rt ''PRIVATE_KEY'',
     cv_contractAddress = rt ''CONTRACT_ADDRESS'',
     cv_rpcTimeoutMs = parseInt10 (orElse (rt ''BLOCKCHAIN_RPC_TIMEOUT_MS'') ''12000'')\<rparr>"

subsection \<open>AppConfigService and bootstrap\<close>

definition isExposedEnv :: "configValues \<Rightarrow> bool" where
  "isExposedEnv cv \<longleftrightarrow> cv_nodeEnv cv = ''production'' \<or> cv_appEnv cv = ''staging'' \<or>
     cv_appEnv cv = ''production''"

text \<open>A getter may throw; an allowed list of \<open>None\<close> is \<open>true\<close>, every origin.\<close>

definition corsOrigins :: "configValues \<Rightarrow> string + string list option" where
  "corsOrigins cv = (let origins = originList (cv_corsOrigins cv) in
     if origins = [] then
       (if isExposedEnv cv
        then Inl (''CORS_ORIGINS must not be empty in staging or production. '' @
          ''Set CORS_ORIGINS to a comma-separated list of allowed origins.'')
        else Inr None)
     else Inr (Some origins))"

definition getOrThrow :: "string \<Rightarrow> 'a option \<Rightarrow> string + 'a" where
  "getOrThrow key v = (case v of Some x \<Rightarrow> Inr x
     | None \<Rightarrow> Inl (''Configuration key \"'' @ key @ ''\" does not exist''))"

definition jwtSecret :: "configValues \<Rightarrow> string + string" where
  "jwtSecret cv = getOrThrow ''auth.jwtSecret'' (cv_jwtSecret cv)"

definition signingKeyEncryptionSecret :: "configValues \<Rightarrow> string + string" where
  "signingKeyEncryptionSecret cv =
     getOrThrow ''auth.signingKeyEncryptionSecret'' (cv_signingKeyEncryptionSecret cv)"

record serverSetup =
  sv_trustProxy :: bool
  sv_docs :: bool
  sv_strictCsp :: bool
  sv_bodyLimit :: string
  sv_origins :: "string list option"
  sv_credentials :: bool
  sv_prefix :: string
  sv_forbidUnknown :: bool
  sv_port :: jsNum

definition bootstrap :: "configValues \<Rightarrow> string + serverSetup" where
  "bootstrap cv = (let enableDocs = cv_nodeEnv cv \<noteq> ''production'' \<and> cv_appEnv cv \<noteq> ''production'' in
     case corsOrigins cv of Inl e \<Rightarrow> Inl e
     | Inr origins \<Rightarrow>
       (if isExposedEnv cv \<and> (case origins of None \<Rightarrow> True | Some os \<Rightarrow> ''*'' \<in> set os)
        then Inl (''CORS is configured to allow all origins (*) but the environment is staging/production. '' @
          ''Set CORS_ORIGINS to an explicit comma-separated list of allowed origins.'')
        else Inr \<lparr>sv_trustProxy = cv_trustProxy cv, sv_docs = enableDocs, sv_strictCsp = (\<not> enableDocs),
          sv_bodyLimit = ''1mb'', sv_origins = origins, sv_credentials = True, sv_prefix = ''api'',
          sv_forbidUnknown = True, sv_port = cv_port cv\<rparr>))"

end
