(* ===== verification/EnvConfigLaws.thy ===== *)
theory EnvConfigLaws
  imports EnvConfig
begin

text \<open>
  What a validated environment guarantees. The schema stores its keys one after the other, so a field
  of the parsed data is what its schema made of its key (\<open>envSchema_key\<close>); with that, the values the
  process reads are the ones the checks of \<open>validateEnv\<close> saw.
\<close>

subsection \<open>The parsed fields\<close>

definition applied :: "(string \<times> string) list + (envData \<Rightarrow> envData) \<Rightarrow> envData \<Rightarrow> envData" where
  "applied f d = (case f of Inl _ \<Rightarrow> d | Inr g \<Rightarrow> g d)"

definition keepsField :: "(envData \<Rightarrow> 'a) \<Rightarrow> ((string \<times> string) list + (envData \<Rightarrow> envData)) list \<Rightarrow> bool" where
  "keepsField acc fs \<longleftrightarrow> (\<forall>f \<in> set fs. \<forall>d. acc (applied f d) = acc d)"

definition holdsKey :: "environment \<Rightarrow> string \<Rightarrow> 'a schema \<Rightarrow> (envData \<Rightarrow> 'a) \<Rightarrow>
    ((string \<times> string) list + (envData \<Rightarrow> envData)) list \<Rightarrow> bool" where
  "holdsKey m key p acc fs \<longleftrightarrow> (\<exists>xs store gs. fs = xs @ envField m key p store # gs \<and>
     (\<forall>v d. acc (store v d) = v) \<and> keepsField acc gs)"

definition proper :: "'a schema \<Rightarrow> bool" where
  "proper p \<longleftrightarrow> (\<forall>raw. p raw \<noteq> Inl [])"

lemma keepsField_Nil: "keepsField acc []"
  by (simp add: keepsField_def)

lemma keepsField_Cons: "(\<And>v d. acc (store v d) = acc d) \<Longrightarrow> keepsField acc fs \<Longrightarrow> keepsField acc (envField m key p store # fs)"
  by (simp add: keepsField_def applied_def envField_def split: sum.split)

lemma keepsField_fold: "keepsField acc fs \<Longrightarrow> acc (foldl (\<lambda>d f. applied f d) d fs) = acc d"
  by (induction fs arbitrary: d) (simp_all add: keepsField_def)

lemma skip1: "holdsKey m key p acc fs \<Longrightarrow> holdsKey m key p acc (f # fs)"
  unfolding holdsKey_def by (metis append_Cons)

lemmas skip2 = skip1 [THEN skip1]
lemmas skip4 = skip2 [THEN skip2]
lemmas skip8 = skip4 [THEN skip4]
lemmas skip16 = skip8 [THEN skip8]

lemma holdsHere: "(\<And>v d. acc (store v d) = v) \<Longrightarrow> keepsField acc fs \<Longrightarrow>
   holdsKey m key p acc (envField m key p store # fs)"
  unfolding holdsKey_def by (metis append_Nil)

lemma envSchema_key:
  assumes h: "holdsKey m key p acc (envFields Z penv m)" and e: "envSchema Z penv m = Inr d"
    and p: "proper p"
  shows "p (m key) = Inr (acc d)"
proof -
  obtain xs store gs where fs: "envFields Z penv m = xs @ envField m key p store # gs"
    and acc: "\<And>v d. acc (store v d) = v" and gs: "keepsField acc gs"
    using h by (auto simp: holdsKey_def)
  have c: "\<forall>f \<in> set (envFields Z penv m). case f of Inl is \<Rightarrow> is = [] | Inr _ \<Rightarrow> True"
    and d: "d = foldl (\<lambda>d f. applied f d) noData (envFields Z penv m)"
    using e by (auto simp: envSchema_def Let_def applied_def [abs_def] split: if_splits sum.splits)
  obtain v where v: "p (m key) = Inr v"
  proof (cases "p (m key)")
    case (Inl ms)
    then have "ms = []" using c by (simp add: fs envField_def)
    then show ?thesis using Inl p by (simp add: proper_def)
  qed blast
  have "acc d = v" by (simp add: d fs keepsField_fold [OF gs]) (simp add: applied_def envField_def v acc)
  then show ?thesis using v by simp
qed

lemma proper_zCheck: "proper (zCheck Z cs)"
  by (simp add: proper_def zCheck_def checkAll_def Let_def split: option.split)

lemma proper_zOptional: "proper p \<Longrightarrow> proper (zOptional p)"
  by (auto simp: proper_def zOptional_def split: option.split sum.split)

lemma proper_zSecret: "proper (zSecret Z penv n nm)"
  unfolding zSecret_def by (rule proper_zCheck)
lemma proper_zString: "proper (zString Z)"
  unfolding zString_def by (rule proper_zCheck)
lemma proper_zUrl: "proper (zUrl Z)"
  unfolding zUrl_def by (rule proper_zCheck)
lemma proper_zEnum: "proper (zEnum Z vs)"
  unfolding zEnum_def by (rule proper_zCheck)
lemma proper_zHex: "proper (zHex Z n)"
  unfolding zHex_def by (rule proper_zCheck)
lemma proper_zEnumDefault: "proper (zEnumDefault Z vs dv)"
  using proper_zEnum [of Z vs] by (simp add: proper_def zEnumDefault_def split: option.split)
lemma proper_zFlag: "proper (zFlag Z)"
  using proper_zOptional [OF proper_zEnum [of Z "[''true'', ''false'', []]"]] by (auto simp: proper_def zFlag_def split: sum.split)
lemmas proper_schema = proper_zSecret proper_zEnumDefault proper_zFlag proper_zOptional proper_zString proper_zUrl proper_zEnum proper_zHex

lemma stored_NODE_ENV:
  assumes "envSchema Z penv m = Inr d"
  shows "(zEnumDefault Z [''development'', ''test'', ''production''] ''development'') (m ''NODE_ENV'') = Inr (NODE_ENV d)"
  by (rule envSchema_key [OF _ assms], unfold envFields_def, rule holdsHere, simp, intro keepsField_Cons keepsField_Nil, simp_all add: proper_schema)

lemma stored_APP_ENV:
  assumes "envSchema Z penv m = Inr d"
  shows "(zEnumDefault Z [''development'', ''staging'', ''production''] ''development'') (m ''APP_ENV'') = Inr (APP_ENV d)"
  by (rule envSchema_key [OF _ assms], unfold envFields_def, rule skip1, rule holdsHere, simp, intro keepsField_Cons keepsField_Nil, simp_all add: proper_schema)

lemma stored_JWT_SECRET:
  assumes "envSchema Z penv m = Inr d"
  shows "(zSecret Z penv 64 ''JWT_SECRET'') (m ''JWT_SECRET'') = Inr (JWT_SECRET d)"
  by (rule envSchema_key [OF _ assms], unfold envFields_def, rule skip4, rule holdsHere, simp, intro keepsField_Cons keepsField_Nil, simp_all add: proper_schema)

lemma stored_SIGNING_KEY_ENCRYPTION_SECRET:
  assumes "envSchema Z penv m = Inr d"
  shows "(zSecret Z penv 32 ''SIGNING_KEY_ENCRYPTION_SECRET'') (m ''SIGNING_KEY_ENCRYPTION_SECRET'') = Inr (SIGNING_KEY_ENCRYPTION_SECRET d)"
  by (rule envSchema_key [OF _ assms], unfold envFields_def, rule skip4, rule skip2, rule holdsHere, simp, intro keepsField_Cons keepsField_Nil, simp_all add: proper_schema)

lemma stored_CORS_ORIGINS:
  assumes "envSchema Z penv m = Inr d"
  shows "(zOptional (zString Z)) (m ''CORS_ORIGINS'') = Inr (CORS_ORIGINS d)"
  by (rule envSchema_key [OF _ assms], unfold envFields_def, rule skip8, rule holdsHere, simp, intro keepsField_Cons keepsField_Nil, simp_all add: proper_schema)

lemma stored_CORS_ORIGIN:
  assumes "envSchema Z penv m = Inr d"
  shows "(zOptional (zString Z)) (m ''CORS_ORIGIN'') = Inr (CORS_ORIGIN d)"
  by (rule envSchema_key [OF _ assms], unfold envFields_def, rule skip8, rule skip1, rule holdsHere, simp, intro keepsField_Cons keepsField_Nil, simp_all add: proper_schema)

lemma stored_STORAGE_DRIVER:
  assumes "envSchema Z penv m = Inr d"
  shows "(zOptional (zEnum Z [''local'', ''r2''])) (m ''STORAGE_DRIVER'') = Inr (STORAGE_DRIVER d)"
  by (rule envSchema_key [OF _ assms], unfold envFields_def, rule skip8, rule skip4, rule skip1, rule holdsHere, simp, intro keepsField_Cons keepsField_Nil, simp_all add: proper_schema)

lemma stored_R2_ACCOUNT_ID:
  assumes "envSchema Z penv m = Inr d"
  shows "(zOptional (zString Z)) (m ''R2_ACCOUNT_ID'') = Inr (R2_ACCOUNT_ID d)"
  by (rule envSchema_key [OF _ assms], unfold envFields_def, rule skip8, rule skip4, rule skip2, rule holdsHere, simp, intro keepsField_Cons keepsField_Nil, simp_all add: proper_schema)

lemma stored_R2_BUCKET:
  assumes "envSchema Z penv m = Inr d"
  shows "(zOptional (zString Z)) (m ''R2_BUCKET'') = Inr (R2_BUCKET d)"
  by (rule envSchema_key [OF _ assms], unfold envFields_def, rule skip8, rule skip4, rule skip2, rule skip1, rule holdsHere, simp, intro keepsField_Cons keepsField_Nil, simp_all add: proper_schema)

lemma stored_R2_ACCESS_KEY_ID:
  assumes "envSchema Z penv m = Inr d"
  shows "(zOptional (zString Z)) (m ''R2_ACCESS_KEY_ID'') = Inr (R2_ACCESS_KEY_ID d)"
  by (rule envSchema_key [OF _ assms], unfold envFields_def, rule skip16, rule holdsHere, simp, intro keepsField_Cons keepsField_Nil, simp_all add: proper_schema)

lemma stored_R2_SECRET_ACCESS_KEY:
  assumes "envSchema Z penv m = Inr d"
  shows "(zOptional (zString Z)) (m ''R2_SECRET_ACCESS_KEY'') = Inr (R2_SECRET_ACCESS_KEY d)"
  by (rule envSchema_key [OF _ assms], unfold envFields_def, rule skip16, rule skip1, rule holdsHere, simp, intro keepsField_Cons keepsField_Nil, simp_all add: proper_schema)

lemma stored_R2_ENDPOINT:
  assumes "envSchema Z penv m = Inr d"
  shows "(zOptional (zUrl Z)) (m ''R2_ENDPOINT'') = Inr (R2_ENDPOINT d)"
  by (rule envSchema_key [OF _ assms], unfold envFields_def, rule skip16, rule skip2, rule holdsHere, simp, intro keepsField_Cons keepsField_Nil, simp_all add: proper_schema)

lemma stored_BLOCKCHAIN_ENABLED:
  assumes "envSchema Z penv m = Inr d"
  shows "(zFlag Z) (m ''BLOCKCHAIN_ENABLED'') = Inr (BLOCKCHAIN_ENABLED d)"
  by (rule envSchema_key [OF _ assms], unfold envFields_def, rule skip16, rule skip4, rule skip2, rule skip1, rule holdsHere, simp, intro keepsField_Cons keepsField_Nil, simp_all add: proper_schema)

lemma stored_POLYGON_AMOY_RPC_URL:
  assumes "envSchema Z penv m = Inr d"
  shows "(zOptional (zUrl Z)) (m ''POLYGON_AMOY_RPC_URL'') = Inr (POLYGON_AMOY_RPC_URL d)"
  by (rule envSchema_key [OF _ assms], unfold envFields_def, rule skip16, rule skip8, rule holdsHere, simp, intro keepsField_Cons keepsField_Nil, simp_all add: proper_schema)

lemma stored_PRIVATE_KEY:
  assumes "envSchema Z penv m = Inr d"
  shows "(zOptional (zHex Z 64)) (m ''PRIVATE_KEY'') = Inr (PRIVATE_KEY d)"
  by (rule envSchema_key [OF _ assms], unfold envFields_def, rule skip16, rule skip8, rule skip1, rule holdsHere, simp, intro keepsField_Cons keepsField_Nil, simp_all add: proper_schema)

lemma stored_CONTRACT_ADDRESS:
  assumes "envSchema Z penv m = Inr d"
  shows "(zOptional (zHex Z 40)) (m ''CONTRACT_ADDRESS'') = Inr (CONTRACT_ADDRESS d)"
  by (rule envSchema_key [OF _ assms], unfold envFields_def, rule skip16, rule skip8, rule skip2, rule holdsHere, simp, intro keepsField_Cons keepsField_Nil, simp_all add: proper_schema)

lemma zCheck_Inr: "zCheck Z cs raw = Inr v \<longleftrightarrow> raw = Some v \<and> (\<forall>c \<in> set (cs v). fst c)"
  by (auto simp: zCheck_def checkAll_def Let_def filter_empty_conv split: option.splits if_splits)

lemma zOptional_zCheck: "zOptional (zCheck Z cs) raw = Inr v \<Longrightarrow> v = raw"
  by (auto simp: zOptional_def zCheck_Inr split: option.splits sum.splits)

lemmas optional_texts = zString_def zUrl_def zEnum_def zHex_def

lemma optional_Inr:
  "zOptional (zString Z) raw = Inr v \<Longrightarrow> v = raw" "zOptional (zUrl Z) raw = Inr v \<Longrightarrow> v = raw"
  "zOptional (zEnum Z vs) raw = Inr v \<Longrightarrow> v = raw" "zOptional (zHex Z n) raw = Inr v \<Longrightarrow> v = raw"
  unfolding optional_texts by (rule zOptional_zCheck, assumption)+

lemma zEnumDefault_Inr: "zEnumDefault Z vs dv raw = Inr v \<Longrightarrow> v = orElse raw dv"
  by (auto simp: zEnumDefault_def zEnum_def zCheck_Inr orElse_def split: option.splits)

lemma zFlag_Inr: "zFlag Z raw = Inr v \<Longrightarrow> v = (raw = Some ''true'')"
  by (auto simp: zFlag_def dest: optional_Inr split: sum.splits)

lemma zSecret_Inr: "zSecret Z penv n nm raw = Inr v \<longleftrightarrow> raw = Some v \<and> n \<le> length v \<and> acceptedSecret penv v"
  by (auto simp: zSecret_def zCheck_Inr)

lemma zHex_Inr: "zOptional (zHex Z n) raw = Inr (Some v) \<Longrightarrow> isHexText n v"
  by (auto simp: zOptional_def zHex_def zCheck_Inr split: option.splits sum.splits)

lemma envSchema_texts:
  assumes "envSchema Z penv m = Inr d"
  shows "NODE_ENV d = orElse (m ''NODE_ENV'') ''development''"
    "APP_ENV d = orElse (m ''APP_ENV'') ''development''"
    "CORS_ORIGINS d = m ''CORS_ORIGINS''" "CORS_ORIGIN d = m ''CORS_ORIGIN''"
    "STORAGE_DRIVER d = m ''STORAGE_DRIVER''"
    "R2_ACCOUNT_ID d = m ''R2_ACCOUNT_ID''" "R2_BUCKET d = m ''R2_BUCKET''"
    "R2_ACCESS_KEY_ID d = m ''R2_ACCESS_KEY_ID''" "R2_SECRET_ACCESS_KEY d = m ''R2_SECRET_ACCESS_KEY''"
    "R2_ENDPOINT d = m ''R2_ENDPOINT''"
    "BLOCKCHAIN_ENABLED d = (m ''BLOCKCHAIN_ENABLED'' = Some ''true'')"
    "POLYGON_AMOY_RPC_URL d = m ''POLYGON_AMOY_RPC_URL''"
    "PRIVATE_KEY d = m ''PRIVATE_KEY''" "CONTRACT_ADDRESS d = m ''CONTRACT_ADDRESS''"
  by (fact stored_NODE_ENV [OF assms, THEN zEnumDefault_Inr] stored_APP_ENV [OF assms, THEN zEnumDefault_Inr]
    stored_CORS_ORIGINS [OF assms, THEN optional_Inr(1)] stored_CORS_ORIGIN [OF assms, THEN optional_Inr(1)]
    stored_STORAGE_DRIVER [OF assms, THEN optional_Inr(3)] stored_R2_ACCOUNT_ID [OF assms, THEN optional_Inr(1)]
    stored_R2_BUCKET [OF assms, THEN optional_Inr(1)] stored_R2_ACCESS_KEY_ID [OF assms, THEN optional_Inr(1)]
    stored_R2_SECRET_ACCESS_KEY [OF assms, THEN optional_Inr(1)] stored_R2_ENDPOINT [OF assms, THEN optional_Inr(2)]
    stored_BLOCKCHAIN_ENABLED [OF assms, THEN zFlag_Inr] stored_POLYGON_AMOY_RPC_URL [OF assms, THEN optional_Inr(2)]
    stored_PRIVATE_KEY [OF assms, THEN optional_Inr(4)] stored_CONTRACT_ADDRESS [OF assms, THEN optional_Inr(4)])+

subsection \<open>The values the process reads\<close>

definition readBack :: "environment \<Rightarrow> envData \<Rightarrow> environment" where
  "readBack penv d k = nullish (penv k) (storedText d k)"

lemma storedText_texts:
  "storedText d ''NODE_ENV'' = Some (NODE_ENV d)" "storedText d ''APP_ENV'' = Some (APP_ENV d)"
  "storedText d ''JWT_SECRET'' = Some (JWT_SECRET d)"
  "storedText d ''SIGNING_KEY_ENCRYPTION_SECRET'' = Some (SIGNING_KEY_ENCRYPTION_SECRET d)"
  "storedText d ''CORS_ORIGINS'' = CORS_ORIGINS d" "storedText d ''CORS_ORIGIN'' = CORS_ORIGIN d"
  "storedText d ''STORAGE_DRIVER'' = STORAGE_DRIVER d"
  "storedText d ''R2_ACCOUNT_ID'' = R2_ACCOUNT_ID d" "storedText d ''R2_BUCKET'' = R2_BUCKET d"
  "storedText d ''R2_ACCESS_KEY_ID'' = R2_ACCESS_KEY_ID d"
  "storedText d ''R2_SECRET_ACCESS_KEY'' = R2_SECRET_ACCESS_KEY d"
  "storedText d ''R2_ENDPOINT'' = R2_ENDPOINT d"
  "storedText d ''BLOCKCHAIN_ENABLED'' = flagText (BLOCKCHAIN_ENABLED d)"
  "storedText d ''POLYGON_AMOY_RPC_URL'' = POLYGON_AMOY_RPC_URL d"
  "storedText d ''PRIVATE_KEY'' = PRIVATE_KEY d" "storedText d ''CONTRACT_ADDRESS'' = CONTRACT_ADDRESS d"
  by (simp_all add: storedText_def storedTexts_def)

abbreviation mergedEnv :: "environment \<Rightarrow> environment \<Rightarrow> environment" where
  "mergedEnv penv envFile \<equiv> (\<lambda>k. nullish (penv k) (envFile k))"

lemma readBack_option:
  "storedText d k = v \<Longrightarrow> v = nullish (penv k) (envFile k) \<Longrightarrow> readBack penv d k = v"
  by (simp add: readBack_def nullish_def split: option.splits)

lemma readBack_default:
  "storedText d k = Some v \<Longrightarrow> v = orElse (nullish (penv k) (envFile k)) dv \<Longrightarrow> readBack penv d k = Some v"
  by (simp add: readBack_def nullish_def orElse_def split: option.splits)

lemma readBack_secret:
  "storedText d k = Some v \<Longrightarrow> zSecret Z e n nm (nullish (penv k) (envFile k)) = Inr v \<Longrightarrow>
   readBack penv d k = Some v"
  by (simp add: readBack_def nullish_def zSecret_Inr split: option.splits)

lemma readBack_flag:
  "storedText d k = flagText v \<Longrightarrow> v = (nullish (penv k) (envFile k) = Some ''true'') \<Longrightarrow>
   (readBack penv d k = Some ''true'') = v"
  by (simp add: readBack_def nullish_def flagText_def split: option.splits)

lemma readBack_texts:
  assumes "envSchema Z penv (mergedEnv penv envFile) = Inr d"
  shows "readBack penv d ''NODE_ENV'' = Some (NODE_ENV d)"
    "readBack penv d ''APP_ENV'' = Some (APP_ENV d)"
    "readBack penv d ''JWT_SECRET'' = Some (JWT_SECRET d)"
    "readBack penv d ''SIGNING_KEY_ENCRYPTION_SECRET'' = Some (SIGNING_KEY_ENCRYPTION_SECRET d)"
    "readBack penv d ''CORS_ORIGINS'' = CORS_ORIGINS d" "readBack penv d ''CORS_ORIGIN'' = CORS_ORIGIN d"
    "readBack penv d ''STORAGE_DRIVER'' = STORAGE_DRIVER d"
    "readBack penv d ''R2_ACCOUNT_ID'' = R2_ACCOUNT_ID d" "readBack penv d ''R2_BUCKET'' = R2_BUCKET d"
    "readBack penv d ''R2_ACCESS_KEY_ID'' = R2_ACCESS_KEY_ID d"
    "readBack penv d ''R2_SECRET_ACCESS_KEY'' = R2_SECRET_ACCESS_KEY d"
    "readBack penv d ''R2_ENDPOINT'' = R2_ENDPOINT d"
    "(readBack penv d ''BLOCKCHAIN_ENABLED'' = Some ''true'') = BLOCKCHAIN_ENABLED d"
    "readBack penv d ''POLYGON_AMOY_RPC_URL'' = POLYGON_AMOY_RPC_URL d"
    "readBack penv d ''PRIVATE_KEY'' = PRIVATE_KEY d"
    "readBack penv d ''CONTRACT_ADDRESS'' = CONTRACT_ADDRESS d"
  by ((rule readBack_default readBack_option readBack_flag readBack_secret, rule storedText_texts,
    rule envSchema_texts [OF assms] stored_JWT_SECRET [OF assms] stored_SIGNING_KEY_ENCRYPTION_SECRET [OF assms])+)

lemma firstFailure_None: "firstFailure cs = None \<longleftrightarrow> (\<forall>c \<in> set cs. fst c)"
  by (induction cs rule: firstFailure.induct) auto

lemma validateEnv_Inr:
  "validateEnv Z penv m = Inr d \<longleftrightarrow> envSchema Z penv m = Inr d \<and> (\<forall>c \<in> set (envChecks d). fst c)"
  by (auto simp: validateEnv_def firstFailure_None [symmetric] split: sum.splits option.splits) 

lemma missingOf_Nil: "missingOf vs = [] \<longleftrightarrow> (\<forall>v \<in> set vs. truthy (snd v))"
  by (auto simp: missingOf_def filter_empty_conv)

lemma validateEnv_checks:
  assumes "validateEnv Z penv m = Inr d"
  shows "isExposed d \<Longrightarrow> originList (orElse (nullish (CORS_ORIGINS d) (CORS_ORIGIN d)) []) \<noteq> []"
    "isExposed d \<Longrightarrow> ''*'' \<notin> set (originList (orElse (nullish (CORS_ORIGINS d) (CORS_ORIGIN d)) []))"
    "BLOCKCHAIN_ENABLED d \<Longrightarrow> truthy (POLYGON_AMOY_RPC_URL d) \<and> truthy (PRIVATE_KEY d) \<and> truthy (CONTRACT_ADDRESS d)"
    "BLOCKCHAIN_ENABLED d \<Longrightarrow> isExposed d \<Longrightarrow> toLowerCase (orElse (PRIVATE_KEY d) []) \<notin> set knownDevKeys"
    "isExposed d \<Longrightarrow> STORAGE_DRIVER d = Some ''r2''"
    "STORAGE_DRIVER d = Some ''r2'' \<Longrightarrow> truthy (R2_ACCOUNT_ID d) \<and> truthy (R2_BUCKET d) \<and>
       truthy (R2_ACCESS_KEY_ID d) \<and> truthy (R2_SECRET_ACCESS_KEY d) \<and> truthy (R2_ENDPOINT d)"
  using assms by (simp_all add: validateEnv_Inr envChecks_def Let_def missingOf_Nil)

subsection \<open>Start-up in an exposed environment\<close>

lemma truthy_read: "truthy v \<Longrightarrow> orElse v [] \<noteq> []"
  by (simp add: truthy_def orElse_def split: option.splits)

lemma isExposed_read:
  assumes "envSchema Z penv (mergedEnv penv envFile) = Inr d"
  shows "isExposedEnv (configuration (readBack penv d)) = isExposed d"
  by (simp add: isExposedEnv_def isExposed_def configuration_def readBack_texts [OF assms] orElse_def)

lemma accepted_not_placeholder:
  assumes "envSchema Z penv (mergedEnv penv envFile) = Inr d" and "isExposed d"
    and "acceptedSecret penv v" and "penv ''NODE_ENV'' \<noteq> Some ''development'' \<or> penv ''APP_ENV'' \<noteq> None"
  shows "\<not> placeholder v"
proof -
  have "NODE_ENV d = orElse (nullish (penv ''NODE_ENV'') (envFile ''NODE_ENV'')) ''development''"
    "APP_ENV d = orElse (nullish (penv ''APP_ENV'') (envFile ''APP_ENV'')) ''development''"
    by (rule envSchema_texts [OF assms(1)])+
  then show ?thesis using assms(2-4)
    by (auto simp: acceptedSecret_def isExposed_def nullish_def orElse_def split: if_splits option.splits)
qed

text \<open>
  C23. If the environment is validated and the configuration read back from it is a staging or
  production one, the API starts with an explicit list of origins without the wildcard, stores its
  files in a bucket whose every parameter is set, and has a token secret of at least 64 and a key
  secret of at least 32 characters, neither of them a placeholder unless the environment of the
  process names development and leaves the deployment to the file; with anchoring on it has a chain
  address, a contract and a private key of 64 digits that is not one of the known development keys.
\<close>

theorem exposed_env_is_safe:
  assumes "validateEnv Z penv (mergedEnv penv envFile) = Inr d"
    and "cv = configuration (readBack penv d)" and "isExposedEnv cv"
  shows "(\<exists>server os. bootstrap cv = Inr server \<and> sv_origins server = Some os \<and> os \<noteq> [] \<and> ''*'' \<notin> set os) \<and>
    cv_storageDriver cv = ''r2'' \<and>
    [] \<notin> {r2_accountId (cv_r2 cv), r2_bucket (cv_r2 cv), r2_accessKeyId (cv_r2 cv),
      r2_secretAccessKey (cv_r2 cv), r2_endpoint (cv_r2 cv)} \<and>
    (\<exists>s k. jwtSecret cv = Inr s \<and> 64 \<le> length s \<and> signingKeyEncryptionSecret cv = Inr k \<and> 32 \<le> length k \<and>
      (penv ''NODE_ENV'' \<noteq> Some ''development'' \<or> penv ''APP_ENV'' \<noteq> None \<longrightarrow>
        \<not> placeholder s \<and> \<not> placeholder k)) \<and>
    (cv_blockchainEnabled cv \<longrightarrow> truthy (cv_polygonAmoyRpcUrl cv) \<and> truthy (cv_contractAddress cv) \<and>
      (\<exists>key. cv_privateKey cv = Some key \<and> isHexText 64 key \<and> toLowerCase key \<notin> set knownDevKeys))"
proof -
  have e: "envSchema Z penv (mergedEnv penv envFile) = Inr d" using assms(1) by (simp add: validateEnv_Inr)
  note c = validateEnv_checks [OF assms(1)]
  note r = readBack_texts [OF e]
  have x: "isExposed d" using assms(2,3) isExposed_read [OF e] by simp
  let ?os = "originList (orElse (nullish (CORS_ORIGINS d) (CORS_ORIGIN d)) [])"
  have os: "corsOrigins cv = Inr (Some ?os)"
    using c(1) [OF x] by (simp add: corsOrigins_def assms(2) configuration_def r)
  have 1: "\<exists>server os. bootstrap cv = Inr server \<and> sv_origins server = Some os \<and> os \<noteq> [] \<and> ''*'' \<notin> set os"
    using c(1,2) [OF x] by (simp add: bootstrap_def os Let_def)
  have 2: "cv_storageDriver cv = ''r2''"
    using c(5) [OF x] by (simp add: assms(2) configuration_def r orElse_def)
  have 3: "[] \<notin> {r2_accountId (cv_r2 cv), r2_bucket (cv_r2 cv), r2_accessKeyId (cv_r2 cv),
      r2_secretAccessKey (cv_r2 cv), r2_endpoint (cv_r2 cv)}"
    using c(6) [OF c(5) [OF x]] by (simp add: assms(2) configuration_def r truthy_read [THEN not_sym])
  have sec: "64 \<le> length (JWT_SECRET d) \<and> acceptedSecret penv (JWT_SECRET d)"
    "32 \<le> length (SIGNING_KEY_ENCRYPTION_SECRET d) \<and> acceptedSecret penv (SIGNING_KEY_ENCRYPTION_SECRET d)"
    using stored_JWT_SECRET [OF e] stored_SIGNING_KEY_ENCRYPTION_SECRET [OF e] by (auto simp: zSecret_Inr)
  have 4: "jwtSecret cv = Inr (JWT_SECRET d)"
    "signingKeyEncryptionSecret cv = Inr (SIGNING_KEY_ENCRYPTION_SECRET d)"
    by (simp_all add: jwtSecret_def signingKeyEncryptionSecret_def getOrThrow_def assms(2) configuration_def r)
  have 5: "truthy (cv_polygonAmoyRpcUrl cv) \<and> truthy (cv_contractAddress cv) \<and>
      (\<exists>key. cv_privateKey cv = Some key \<and> isHexText 64 key \<and> toLowerCase key \<notin> set knownDevKeys)"
    if "cv_blockchainEnabled cv"
  proof -
    have b: "BLOCKCHAIN_ENABLED d" using that by (simp add: assms(2) configuration_def r)
    obtain key where k: "PRIVATE_KEY d = Some key" using c(3) [OF b] by (auto simp: truthy_def split: option.splits)
    have "isHexText 64 key" using stored_PRIVATE_KEY [OF e] by (simp add: k zHex_Inr)
    then show ?thesis using c(3) [OF b] c(4) [OF b x] k
      by (simp add: assms(2) configuration_def r orElse_def)
  qed
  show ?thesis using 1 2 3 4 5 sec accepted_not_placeholder [OF e x] by blast
qed

definition sampleZod :: zod where
  "sampleZod = \<lparr>z_isUrl = (\<lambda>u. includesStr ''://'' u), z_message = (\<lambda>k. k)\<rparr>"

definition stagingFile :: environment where
  "stagingFile = map_of [(''DATABASE_URL'', ''postgresql://db/certiva''), (''REDIS_URL'', ''redis://cache''),
     (''JWT_SECRET'', replicate 64 (CHR ''k'')), (''SIGNING_KEY_ENCRYPTION_SECRET'', replicate 32 (CHR ''s'')),
     (''CORS_ORIGINS'', ''https://app.example, https://www.example''), (''STORAGE_DRIVER'', ''r2''),
     (''R2_ACCOUNT_ID'', ''acc''), (''R2_BUCKET'', ''files''), (''R2_ACCESS_KEY_ID'', ''id''),
     (''R2_SECRET_ACCESS_KEY'', ''key''), (''R2_ENDPOINT'', ''https://r2''), (''BLOCKCHAIN_ENABLED'', ''true''),
     (''POLYGON_AMOY_RPC_URL'', ''https://amoy''), (''PRIVATE_KEY'', ''0x'' @ replicate 64 (CHR ''7'')),
     (''CONTRACT_ADDRESS'', ''0x'' @ replicate 40 (CHR ''c'')), (''RATE_LIMIT_VERIFY_MAX'', ''30'')]"

definition productionEnv :: environment where
  "productionEnv = map_of [(''NODE_ENV'', ''production''), (''APP_ENV'', ''staging'')]"

definition stagedData :: envData where
  "stagedData = (case validateEnv sampleZod productionEnv (mergedEnv productionEnv stagingFile) of
     Inr d \<Rightarrow> d | Inl e \<Rightarrow> noData)"

lemma staged_validates:
  "(case validateEnv sampleZod productionEnv (mergedEnv productionEnv stagingFile) of
     Inr d \<Rightarrow> True | Inl e \<Rightarrow> False)"
  by code_simp

lemma staged_Inr: "validateEnv sampleZod productionEnv (mergedEnv productionEnv stagingFile) = Inr stagedData"
  using staged_validates by (auto simp: stagedData_def split: sum.splits)

lemma staged_exposed: "isExposedEnv (configuration (readBack productionEnv stagedData))"
proof -
  have e: "envSchema sampleZod productionEnv (mergedEnv productionEnv stagingFile) = Inr stagedData"
    using staged_Inr by (simp add: validateEnv_Inr)
  have "NODE_ENV stagedData = ''production''"
    by (simp add: envSchema_texts(1) [OF e] productionEnv_def nullish_def orElse_def)
  then show ?thesis by (simp add: isExposed_read [OF e] isExposed_def)
qed

theorem exposed_env_is_safe_witness:
  "cv_storageDriver (configuration (readBack productionEnv stagedData)) = ''r2'' \<and>
   (\<exists>server os. bootstrap (configuration (readBack productionEnv stagedData)) = Inr server \<and>
     sv_origins server = Some os \<and> os \<noteq> [] \<and> ''*'' \<notin> set os)"
  using exposed_env_is_safe [OF staged_Inr refl staged_exposed] by (simp only:)

subsection \<open>Where validation and configuration part\<close>

text \<open>
  The refinement of the secrets looks at the environment of the process: where that names development
  and the deployment stands in the file, a placeholder of the right length is accepted in production.
\<close>

lemma placeholder_accepted:
  assumes "penv ''NODE_ENV'' = Some ''development''" and "penv ''APP_ENV'' = None"
  shows "zSecret Z penv n nm (Some v) = Inr v \<longleftrightarrow> n \<le> length v"
  using assms by (simp add: zSecret_Inr acceptedSecret_def)

text \<open>A limit is validated with \<open>Number\<close> and read with \<open>parseInt\<close>.\<close>

lemma limit_read_differently:
  "zPositive Z (Some ''0x10'') = Inr (Some (num 16)) \<and> parseInt10 ''0x10'' = num 0 \<and>
   zPositive Z (Some ''1e2'') = Inr (Some (num 100)) \<and> parseInt10 ''1e2'' = num 1"
  by code_simp

end
