(* ===== verification/Maintenance.thy ===== *)
theory Maintenance
  imports CredentialLifecycle Verification Auth
begin

text \<open>
  The maintenance scripts of \<open>apps/api/scripts\<close> and the seed: the re-encryption of the signing keys,
  the two backfills of the verifiable credentials, the repair of verification addresses, the
  migration of the assets to the bucket. Each is a dry run unless it is told to apply; what it prints
  is returned as counts and names. A hyphen stands for the dash of the messages.
\<close>

subsection \<open>rekey-signing-secret.ts\<close>

definition PROBE :: string where "PROBE = ''certiva-rekey-probe''"

record rekeyPlan =
  rp_id :: string
  rp_keyId :: string
  rp_reencrypted :: string
  rp_alreadyMigrated :: bool

definition assertSecrets :: "string \<Rightarrow> string \<Rightarrow> unit prog" where
  "assertSecrets old new =
     andThen (guardNot (old = [] \<or> new = [])
       (JsError ''Both SIGNING_KEY_ENCRYPTION_SECRET_OLD and SIGNING_KEY_ENCRYPTION_SECRET must be set.''))
     (andThen (guardNot (old = new)
       (JsError ''Old and new secret are identical - nothing to re-encrypt (check your env).''))
     (guardNot (length new < 32)
       (JsError ''SIGNING_KEY_ENCRYPTION_SECRET must be at least 32 characters.'')))"

definition planRow :: "env \<Rightarrow> string \<Rightarrow> string \<Rightarrow> signingKey \<Rightarrow> rekeyPlan prog" where
  "planRow E old new row = (case decryptSecret E (k_privateKeyEncrypted row) old of
     Inl _ \<Rightarrow> (case decryptSecret E (k_privateKeyEncrypted row) new of
         Inr _ \<Rightarrow> ret \<lparr>rp_id = k_id row, rp_keyId = k_keyId row,
           rp_reencrypted = k_privateKeyEncrypted row, rp_alreadyMigrated = True\<rparr>
       | Inl _ \<Rightarrow> throw (JsError (''Key '' @ k_keyId row @ '' cannot be decrypted with either secret - wrong '' @
           ''SIGNING_KEY_ENCRYPTION_SECRET_OLD, or the row is corrupt. Nothing was written.'')))
   | Inr privateKey \<Rightarrow>
       bind (liftE (signEd25519 E (utf8 PROBE) privateKey)) (\<lambda>signature.
       andThen (guardNot (\<not> verifyEd25519 E (utf8 PROBE) signature (k_publicKey row))
         (JsError (''Key '' @ k_keyId row @ '' decrypted, but does not match its stored public key. Nothing was written.'')))
       (bind (encryptSecret E privateKey new) (\<lambda>reencrypted.
        bind (liftE (decryptSecret E reencrypted new)) (\<lambda>again.
        andThen (guardNot (again \<noteq> privateKey)
          (JsError (''Key '' @ k_keyId row @ '' failed the re-encryption round-trip. Nothing was written.'')))
        (ret \<lparr>rp_id = k_id row, rp_keyId = k_keyId row, rp_reencrypted = reencrypted,
          rp_alreadyMigrated = False\<rparr>))))))"

definition updateSigningKey :: "env \<Rightarrow> string \<Rightarrow> (signingKey \<Rightarrow> signingKey) \<Rightarrow> unit prog" where
  "updateSigningKey E i f = exec E (\<lambda>now cu d.
     case updateIn keyConflict (\<lambda>k. k_id k = i) f (signingKeys d) of
       Inl e \<Rightarrow> Inl e | Inr (k, rows) \<Rightarrow> Inr ((), d\<lparr>signingKeys := rows\<rparr>))"

definition planAll :: "env \<Rightarrow> string \<Rightarrow> string \<Rightarrow> signingKey list \<Rightarrow> rekeyPlan list prog" where
  "planAll E old new rows = foldM (\<lambda>plans row. bind (planRow E old new row) (\<lambda>p. ret (plans @ [p]))) [] rows"

definition writePlans :: "env \<Rightarrow> rekeyPlan list \<Rightarrow> unit prog" where
  "writePlans E pending = transaction E (foldM (\<lambda>_ p. updateSigningKey E (rp_id p)
     (\<lambda>k. k\<lparr>k_privateKeyEncrypted := rp_reencrypted p\<rparr>)) () pending)"

text \<open>\<open>main\<close>: the number of keys, how many were migrated already, and the key ids to re-encrypt.\<close>

definition rekeySigningSecret ::
  "env \<Rightarrow> string \<Rightarrow> string \<Rightarrow> bool \<Rightarrow> (nat \<times> nat \<times> string list) prog" where
  "rekeySigningSecret E old new apply' = andThen (assertSecrets old new)
     (bind (query E (\<lambda>d. sort_key k_createdAt (signingKeys d))) (\<lambda>rows.
      if rows = [] then ret (0, 0, [])
      else bind (planAll E old new rows) (\<lambda>plans.
        let pending = filter (\<lambda>p. \<not> rp_alreadyMigrated p) plans;
            summary = (length plans, length plans - length pending, map rp_keyId pending)
        in if \<not> apply' then ret summary
           else andThen (writePlans E pending) (ret summary))))"

subsection \<open>The backfills\<close>

text \<open>
  A credential with its issuer and its signing key, as the queries of the two scripts include them;
  the issuer is a required relation.
\<close>

definition backfillRows :: "env \<Rightarrow> (credential \<Rightarrow> bool) \<Rightarrow>
    (credential \<times> issuer \<times> signingKey option) list prog" where
  "backfillRows E P = bind (query E (\<lambda>d. map (\<lambda>c. (c, issuerOf d (c_issuerId c), keyOf d (c_signingKeyId c)))
       (sort_key c_issuedAt (filter P (credentials d))))) (\<lambda>rows.
     if \<exists>r \<in> set rows. fst (snd r) = None
     then throw (PrismaFault ''Inconsistent query result: required relation is null'')
     else ret (map (\<lambda>(c, i, k). (c, the i, k)) rows))"

definition backfillDocument :: "env \<Rightarrow> credential \<Rightarrow> issuer \<Rightarrow> object" where
  "backfillDocument E c i = buildOpenBadgeCredential E
     \<lparr>ob_credentialId = c_credentialExternalId c, ob_issuerId = c_issuerId c,
      ob_issuerDomain = i_domain i, ob_issuerName = orElse (i_displayName i) (i_name i),
      ob_studentName = c_studentName c, ob_studentId = c_studentId c, ob_degree = c_degree c,
      ob_graduationYear = c_graduationYear c, ob_issuedAt = c_issuedAt c\<rparr>"

text \<open>\<open>backfill-vc-proof.ts\<close>: the skipped credentials and the number signed.\<close>

definition proofStep :: "env \<Rightarrow> string \<Rightarrow> bool \<Rightarrow> string list \<times> nat \<Rightarrow>
    credential \<times> issuer \<times> signingKey option \<Rightarrow> (string list \<times> nat) prog" where
  "proofStep E secret apply' s row = (case (s, row) of ((skipped, written), (c, i, key)) \<Rightarrow>
     (case key of None \<Rightarrow> ret (skipped @ [c_credentialExternalId c], written)
      | Some k \<Rightarrow>
        if k_revokedAt k \<noteq> None then ret (skipped @ [c_credentialExternalId c], written)
        else
          let created = orElse (c_signedAt c) (c_issuedAt c) in
          bind (liftE (buildProofHashData E (backfillDocument E c i)
            (buildProofConfig (i_domain i) (k_keyId k) created))) (\<lambda>hashData.
          bind (liftE (decryptSecret E (k_privateKeyEncrypted k) secret)) (\<lambda>privateKey.
          bind (liftE (signEd25519 E hashData privateKey)) (\<lambda>signature.
          andThen (guardNot (\<not> verifyEd25519 E hashData signature (k_publicKey k))
            (JsError (''Credential '' @ c_credentialExternalId c @ '': proof failed self-verification. Nothing further was written.'')))
          (andThen (if apply'
            then bind (updateCredential E (c_id c) (\<lambda>r. r\<lparr>c_vcProofValue := Some (signatureToMultibase E signature),
                c_vcProofCreated := Some created\<rparr>)) (\<lambda>_. ret ())
            else ret ())
          (ret (skipped, written + 1))))))))"

definition backfillVcProof :: "env \<Rightarrow> string \<Rightarrow> bool \<Rightarrow> (string list \<times> nat) prog" where
  "backfillVcProof E secret apply' = andThen
     (guardNot (secret = []) (JsError ''SIGNING_KEY_ENCRYPTION_SECRET must be set.''))
     (bind (backfillRows E (\<lambda>c. c_vcProofValue c = None \<and> c_signingKeyId c \<noteq> None)) (\<lambda>rows.
      foldM (proofStep E secret apply') ([], 0) rows))"

text \<open>\<open>backfill-vc-document.ts\<close>: the skipped and the re-signed credentials, and the number captured.\<close>

type_synonym captured = "string list \<times> string list \<times> nat"

definition captureStep :: "env \<Rightarrow> string \<Rightarrow> bool \<Rightarrow> captured \<Rightarrow>
    credential \<times> issuer \<times> signingKey option \<Rightarrow> captured prog" where
  "captureStep E secret apply' s row = (case (s, row) of ((skipped, resigned, n), (c, i, key)) \<Rightarrow>
     (case (key, c_vcProofCreated c, c_vcProofValue c) of
       (Some k, Some created, Some value) \<Rightarrow>
         if value = [] then ret (skipped @ [c_credentialExternalId c], resigned, n)
         else
           let document = backfillDocument E c i;
               proofConfig = buildProofConfig (i_domain i) (k_keyId k) created;
               capture = (\<lambda>proofValue resigned'. andThen (if apply'
                 then bind (updateCredential E (c_id c) (\<lambda>r. r\<lparr>c_vcProofValue := Some proofValue,
                     c_vcDocument := Some (VObj (attachProof document proofConfig proofValue))\<rparr>)) (\<lambda>_. ret ())
                 else ret ()) (ret (skipped, resigned', n + 1)))
           in
           bind (liftE (buildProofHashData E document proofConfig)) (\<lambda>hashData.
           bind (liftE (multibaseToSignatureBase64 E value)) (\<lambda>stored.
           if verifyEd25519 E hashData stored (k_publicKey k) then capture value resigned
           else if k_revokedAt k \<noteq> None then ret (skipped @ [c_credentialExternalId c], resigned, n)
           else
             bind (liftE (decryptSecret E (k_privateKeyEncrypted k) secret)) (\<lambda>privateKey.
             bind (liftE (signEd25519 E hashData privateKey)) (\<lambda>signature.
             andThen (guardNot (\<not> verifyEd25519 E hashData signature (k_publicKey k))
               (JsError (''Credential '' @ c_credentialExternalId c @ '': re-signed proof failed self-verification. Nothing further was written.'')))
             (capture (signatureToMultibase E signature) (resigned @ [c_credentialExternalId c]))))))
     | _ \<Rightarrow> ret (skipped @ [c_credentialExternalId c], resigned, n)))"

definition backfillVcDocument :: "env \<Rightarrow> string \<Rightarrow> bool \<Rightarrow> captured prog" where
  "backfillVcDocument E secret apply' = andThen
     (guardNot (secret = []) (JsError ''SIGNING_KEY_ENCRYPTION_SECRET must be set.''))
     (bind (backfillRows E (\<lambda>c. c_vcDocument c = None \<and> c_vcProofValue c \<noteq> None \<and> c_vcProofCreated c \<noteq> None))
       (\<lambda>rows. foldM (captureStep E secret apply') ([], [], 0) rows))"

subsection \<open>fix-verification-urls.ts\<close>

definition correctUrl :: "string \<Rightarrow> credential \<Rightarrow> string" where
  "correctUrl webBase c = stripSlashes webBase @ ''/verify/'' @ encodeURIComponent (c_credentialExternalId c)"

definition correctQrPayload :: "string \<Rightarrow> credential \<Rightarrow> string" where
  "correctQrPayload webBase c =
     correctUrl webBase c @ ''?token='' @ encodeURIComponent (c_signedVerificationToken c)"

definition urlIsWrong :: "credential \<Rightarrow> bool" where
  "urlIsWrong c \<longleftrightarrow> c_verificationUrl c = [] \<or>
     \<not> includesStr (''/verify/'' @ c_credentialExternalId c) (c_verificationUrl c)"

text \<open>The script removes a file of the local asset root; that is the API's storage only without a bucket.\<close>

definition unlinkLocal :: "env \<Rightarrow> string \<Rightarrow> unit prog" where
  "unlinkLocal E key = (if cfg_storageR2 (cfg E) then external E JsError (ret ())
     else deleteObjects E (\<lambda>k. k = key))"

definition fixStep :: "env \<Rightarrow> string \<Rightarrow> bool \<Rightarrow> nat \<Rightarrow> credential \<Rightarrow> nat prog" where
  "fixStep E webBase apply' fixed c = (if \<not> urlIsWrong c then ret fixed
     else andThen (if apply'
       then andThen (bind (updateCredential E (c_id c) (\<lambda>r. r\<lparr>c_verificationUrl := correctUrl webBase c,
               c_qrPayload := correctQrPayload webBase c\<rparr>)) (\<lambda>_. ret ()))
             (tryCatch (unlinkLocal E (getAssetKey (c_id c) QrAsset)) (\<lambda>e. ret ()))
       else ret ()) (ret (fixed + 1)))"

definition fixVerificationUrls :: "env \<Rightarrow> string option \<Rightarrow> bool \<Rightarrow> nat prog" where
  "fixVerificationUrls E webBase apply' = bind (query E credentials) (\<lambda>creds.
     foldM (fixStep E (orElse webBase ''http://localhost:3000'') apply') 0 creds)"

subsection \<open>migrate-assets-to-r2.ts\<close>

text \<open>The local asset root; the storage of the world is the bucket.\<close>

datatype fsNode = File string string | Dir string "fsNode list" | OtherEntry string

fun collectFiles :: "string \<Rightarrow> fsNode list \<Rightarrow> (string \<times> string) list"
and collectEntry :: "string \<Rightarrow> fsNode \<Rightarrow> (string \<times> string) list" where
  "collectFiles pre [] = []"
| "collectFiles pre (e # es) = collectEntry pre e @ collectFiles pre es"
| "collectEntry pre (File nm body) = [(pre @ ''/'' @ nm, body)]"
| "collectEntry pre (Dir nm es) = collectFiles (pre @ ''/'' @ nm) es"
| "collectEntry pre (OtherEntry nm) = []"

definition dirNamed :: "string \<Rightarrow> fsNode list \<Rightarrow> fsNode list" where
  "dirNamed nm es = concat (map (\<lambda>e. case e of Dir n fs \<Rightarrow> (if n = nm then fs else []) | _ \<Rightarrow> []) es)"

definition objectExists :: "env \<Rightarrow> string \<Rightarrow> bool prog" where
  "objectExists E key = tryCatch (external E JsError (\<lambda>w.
     if map_of (storage w) key \<noteq> None then (Inr True, w) else (Inl (JsError ''NotFound''), w)))
     (\<lambda>e. ret False)"

text \<open>What is printed at the end: uploaded, skipped, failed.\<close>

type_synonym migrated = "nat \<times> nat \<times> nat"

definition migrateStep :: "env \<Rightarrow> bool \<Rightarrow> bool \<Rightarrow> migrated \<Rightarrow> string \<times> string \<Rightarrow> migrated prog" where
  "migrateStep E apply' force s kb = (case (s, kb) of ((uploaded, skipped, failed), (key, body)) \<Rightarrow>
     bind (if force then ret False else objectExists E key) (\<lambda>exists.
     if exists then ret (uploaded, skipped + 1, failed)
     else if apply' then tryCatch (andThen (putObject E key (Bytes body)) (ret (uploaded + 1, skipped, failed)))
            (\<lambda>e. ret (uploaded, skipped, failed + 1))
     else ret (uploaded + 1, skipped, failed)))"

definition migrateAssets :: "env \<Rightarrow> fsNode list option \<Rightarrow> bool \<Rightarrow> bool \<Rightarrow> migrated prog" where
  "migrateAssets E root apply' force = (case root of None \<Rightarrow> ret (0, 0, 0)
   | Some es \<Rightarrow> foldM (migrateStep E apply' force) (0, 0, 0)
       (collectFiles ''credentials'' (dirNamed ''credentials'' es) @
        collectFiles ''document-proofs'' (dirNamed ''document-proofs'' es)))"

subsection \<open>prisma/seed.ts\<close>

text \<open>\<open>toString('base64url')\<close>\<close>

definition base64url :: "env \<Rightarrow> string \<Rightarrow> string" where
  "base64url E bs = map (\<lambda>c. if c = CHR ''+'' then CHR ''-'' else if c = CHR ''/'' then CHR ''_'' else c)
     (filter (\<lambda>c. c \<noteq> CHR ''='') (toBase64 E bs))"

definition resolveAdminPassword :: "env \<Rightarrow> string option \<Rightarrow> (string \<times> bool) prog" where
  "resolveAdminPassword E fromEnv = (if truthy fromEnv then ret (the fromEnv, False)
     else bind (randomRaw E 16) (\<lambda>bs. ret (base64url E bs, True)))"

definition demoIssuer :: "issuer \<Rightarrow> issuer" where
  "demoIssuer i = i\<lparr>i_name := ''Certiva Demo Issuer'', i_displayName := Some ''Certiva Demo University'',
     i_websiteUrl := Some ''https://certiva.local'',
     i_wallet := Some (''0x'' @ replicate 40 (CHR ''1'')), i_status := ISSUER_ACTIVE\<rparr>"

definition upsertIssuer :: "env \<Rightarrow> issuer prog" where
  "upsertIssuer E = exec E (\<lambda>now cu d.
     if \<exists>i \<in> set (issuers d). i_domain i = ''certiva.local''
     then (case updateIn issuerConflict (\<lambda>i. i_domain i = ''certiva.local'')
             (\<lambda>i. (demoIssuer i)\<lparr>i_updatedAt := now\<rparr>) (issuers d) of
         Inl e \<Rightarrow> Inl e | Inr (i, rows) \<Rightarrow> Inr (i, d\<lparr>issuers := rows\<rparr>))
     else (let i = demoIssuer \<lparr>i_id = cu, i_name = [], i_displayName = None, i_domain = ''certiva.local'',
             i_logoUrl = None, i_websiteUrl = None, i_wallet = None, i_status = ISSUER_ACTIVE,
             i_createdAt = now, i_updatedAt = now\<rparr>
       in case insertInto issuerConflict i (issuers d) of
         Inl e \<Rightarrow> Inl e | Inr rows \<Rightarrow> Inr (i, d\<lparr>issuers := rows\<rparr>)))"

definition demoAdmin :: "string \<Rightarrow> string \<Rightarrow> admin \<Rightarrow> admin" where
  "demoAdmin passwordHash issuerId a = a\<lparr>a_username := Some ''admin'', a_password := passwordHash,
     a_role := SUPER_ADMIN, a_active := True, a_issuerId := Some issuerId\<rparr>"

definition upsertAdmin :: "env \<Rightarrow> string \<Rightarrow> string \<Rightarrow> unit prog" where
  "upsertAdmin E passwordHash issuerId = exec E (\<lambda>now cu d.
     if \<exists>a \<in> set (admins d). a_email a = ''admin@certiva.local''
     then (case updateIn adminConflict (\<lambda>a. a_email a = ''admin@certiva.local'')
             (\<lambda>a. (demoAdmin passwordHash issuerId a)\<lparr>a_updatedAt := now\<rparr>) (admins d) of
         Inl e \<Rightarrow> Inl e | Inr (a, rows) \<Rightarrow> Inr ((), d\<lparr>admins := rows\<rparr>))
     else (case insertInto adminConflict (demoAdmin passwordHash issuerId
             \<lparr>a_id = cu, a_username = None, a_email = ''admin@certiva.local'', a_password = [],
              a_role = ADMIN, a_active = True, a_tokenVersion = 0, a_issuerId = None,
              a_createdAt = now, a_updatedAt = now\<rparr>) (admins d) of
         Inl e \<Rightarrow> Inl e | Inr rows \<Rightarrow> Inr ((), d\<lparr>admins := rows\<rparr>)))"

text \<open>What is printed: the generated password, or nothing.\<close>

definition seed :: "env \<Rightarrow> string option \<Rightarrow> string option prog" where
  "seed E fromEnv = bind (resolveAdminPassword E fromEnv) (\<lambda>(password, generated).
     bind (bcryptHashM E password) (\<lambda>passwordHash.
     bind (upsertIssuer E) (\<lambda>i.
     andThen (upsertAdmin E passwordHash (i_id i))
       (ret (if generated then Some password else None)))))"

end
