(* ===== verification/MaintenanceLaws.thy ===== *)
theory MaintenanceLaws
  imports Maintenance CredentialLaws
begin

text \<open>
  What the maintenance scripts guarantee, interrupted or not: a changed master secret loses no signing
  key, a backfilled proof or document verifies, nothing else of the tables moves.
\<close>

subsection \<open>Re-encryption\<close>

text \<open>The private key of a row, under whichever of the two secrets opens it first.\<close>

definition currentKey :: "env \<Rightarrow> string \<Rightarrow> string \<Rightarrow> signingKey \<Rightarrow> exn + string" where
  "currentKey E old new k = (case decryptSecret E (k_privateKeyEncrypted k) old of
     Inr p \<Rightarrow> Inr p | Inl _ \<Rightarrow> decryptSecret E (k_privateKeyEncrypted k) new)"

definition goodPlan :: "env \<Rightarrow> string \<Rightarrow> string \<Rightarrow> signingKey \<Rightarrow> rekeyPlan \<Rightarrow> bool" where
  "goodPlan E old new k p \<longleftrightarrow> rp_id p = k_id k \<and>
     (\<exists>s. decryptSecret E (rp_reencrypted p) new = Inr s \<and> currentKey E old new k = Inr s) \<and>
     (rp_alreadyMigrated p \<longrightarrow> rp_reencrypted p = k_privateKeyEncrypted k)"

lemma planRow_wp:
  assumes "cryptoLaws E"
  shows "wp (planRow E old new k) (\<lambda>p w'. database w' = database w \<and> goodPlan E old new k p)
    (\<lambda>_ w'. database w' = database w) w"
proof (cases "decryptSecret E (k_privateKeyEncrypted k) old")
  case (Inl e)
  then show ?thesis
    by (auto simp: planRow_def wp_simps goodPlan_def currentKey_def split: sum.split)
next
  case (Inr p)
  show ?thesis
    unfolding planRow_def Inr sum.case wp_simps
    by (auto simp: wp_simps goodPlan_def currentKey_def Inr split: sum.split
        intro!: wp_mono [OF encrypt_wp [OF assms]])
qed

lemma planAll_wp:
  assumes "cryptoLaws E"
  shows "wp (planAll E old new rows)
    (\<lambda>ps w'. database w' = database w \<and> list_all2 (goodPlan E old new) rows ps)
    (\<lambda>_ w'. database w' = database w) w"
  unfolding planAll_def
proof (rule wp_foldM [where I = "\<lambda>pre s w'. database w' = database w \<and> list_all2 (goodPlan E old new) pre s"],
    goal_cases)
  case (1 pre k rest s w1)
  then show ?case unfolding wp_simps
    by (intro wp_mono [OF planRow_wp [OF assms]]) (auto simp: wp_simps list_all2_appendI)
qed simp

definition rekeyed :: "rekeyPlan \<Rightarrow> signingKey \<Rightarrow> signingKey" where
  "rekeyed p k = (if k_id k = rp_id p then k\<lparr>k_privateKeyEncrypted := rp_reencrypted p\<rparr> else k)"

lemma writePlans_wp:
  "wp (writePlans E ps)
    (\<lambda>_ w'. database w' = (database w)\<lparr>signingKeys := map (fold rekeyed ps) (signingKeys (database w))\<rparr>)
    (\<lambda>_ w'. database w' = database w) w"
proof -
  let ?I = "\<lambda>pre w'. database w' = (database w)\<lparr>signingKeys := map (fold rekeyed pre) (signingKeys (database w))\<rparr>"
  have "wp (foldM (\<lambda>_ p. updateSigningKey E (rp_id p) (\<lambda>k. k\<lparr>k_privateKeyEncrypted := rp_reencrypted p\<rparr>)) () ps)
      (\<lambda>_. ?I ps) (\<lambda>_ _. True) w"
  proof (rule wp_foldM [where I = "\<lambda>pre _. ?I pre"], goal_cases)
    case (1 pre p rest s w1)
    then show ?case
      by (auto simp: updateSigningKey_def wp_simps updateIn_Inr rekeyed_def o_def split: option.split sum.split)
  qed (simp add: id_def [symmetric])
  then show ?thesis unfolding writePlans_def wp_transaction
    by (rule wp_mono) (auto split: option.split)
qed

lemma fold_rekeyed_other: "k_id k \<notin> rp_id ` set ps \<Longrightarrow> fold rekeyed ps k = k"
  by (induction ps) (auto simp: rekeyed_def)

lemma fold_rekeyed: "distinct (map rp_id ps) \<Longrightarrow> p \<in> set ps \<Longrightarrow> rp_id p = k_id k \<Longrightarrow>
  fold rekeyed ps k = k\<lparr>k_privateKeyEncrypted := rp_reencrypted p\<rparr>"
proof (induction ps arbitrary: k)
  case (Cons q ps)
  show ?case
  proof (cases "p = q")
    case True
    then show ?thesis using Cons.prems by (auto simp: rekeyed_def [of q k] fold_rekeyed_other)
  next
    case False
    then have "rp_id q \<noteq> k_id k" using Cons.prems by (auto simp: rev_image_eqI)
    then show ?thesis using Cons False by (simp add: rekeyed_def [of q k])
  qed
qed simp

text \<open>The row a finished run leaves for a key.\<close>

lemma fold_pending:
  assumes "distinct (map k_id keys)" and "list_all2 (goodPlan E old new) (sort_key f keys) ps"
    and "k \<in> set keys"
  shows "\<exists>s blob. fold rekeyed (filter (\<lambda>p. \<not> rp_alreadyMigrated p) ps) k = k\<lparr>k_privateKeyEncrypted := blob\<rparr> \<and>
    decryptSecret E blob new = Inr s \<and> currentKey E old new k = Inr s"
proof -
  have ids: "map rp_id ps = map k_id (sort_key f keys)"
    using assms(2) by (auto simp: list_all2_conv_all_nth goodPlan_def intro: nth_equalityI)
  have "distinct (map k_id (sort_key f keys))"
    using assms(1) by (metis distinct_map distinct_sort set_sort)
  then have d: "distinct (map rp_id ps)" by (simp add: ids)
  then have d': "distinct (map rp_id (filter (\<lambda>p. \<not> rp_alreadyMigrated p) ps))"
    by (rule distinct_map_filter)
  obtain p where p: "p \<in> set ps" "goodPlan E old new k p"
    using assms(2,3) by (metis (no_types, lifting) list_all2_conv_all_nth in_set_conv_nth set_sort)
  show ?thesis
  proof (cases "rp_alreadyMigrated p")
    case False
    then have "fold rekeyed (filter (\<lambda>p. \<not> rp_alreadyMigrated p) ps) k = k\<lparr>k_privateKeyEncrypted := rp_reencrypted p\<rparr>"
      using p by (intro fold_rekeyed [OF d']) (auto simp: goodPlan_def)
    then show ?thesis using p(2) by (auto simp: goodPlan_def)
  next
    case True
    have "k_id k \<notin> rp_id ` set (filter (\<lambda>p. \<not> rp_alreadyMigrated p) ps)"
    proof
      assume "k_id k \<in> rp_id ` set (filter (\<lambda>p. \<not> rp_alreadyMigrated p) ps)"
      then obtain q where "q \<in> set ps" "\<not> rp_alreadyMigrated q" "rp_id q = rp_id p"
        using p(2) by (auto simp: goodPlan_def)
      moreover from this p(1) d have "q = p" by (auto simp: distinct_map dest: inj_onD)
      ultimately show False using True by simp
    qed
    then have "fold rekeyed (filter (\<lambda>p. \<not> rp_alreadyMigrated p) ps) k = k" by (rule fold_rekeyed_other)
    moreover obtain s where "decryptSecret E (k_privateKeyEncrypted k) new = Inr s" "currentKey E old new k = Inr s"
      using p(2) True by (auto simp: goodPlan_def)
    ultimately show ?thesis by (intro exI [of _ s] exI [of _ "k_privateKeyEncrypted k"]) simp
  qed
qed

definition withSecret :: "string \<Rightarrow> env \<Rightarrow> env" where
  "withSecret secret E = E\<lparr>cfg := (cfg E)\<lparr>cfg_signingSecret := secret\<rparr>\<rparr>"

lemma keyGood_secret:
  "keyGood (withSecret secret E) k \<longleftrightarrow> (\<forall>m. case decryptSecret E (k_privateKeyEncrypted k) secret of
     Inl e \<Rightarrow> False | Inr p \<Rightarrow> (case signEd25519 E m p of Inl e \<Rightarrow> False
       | Inr s \<Rightarrow> verifyEd25519 E m s (k_publicKey k)))"
proof -
  have "decryptSecret (withSecret secret E) = decryptSecret E" "signEd25519 (withSecret secret E) = signEd25519 E"
    "verifyEd25519 (withSecret secret E) = verifyEd25519 E"
    by (simp_all add: fun_eq_iff withSecret_def decryptSecret_def deriveKey_def signEd25519_def verifyEd25519_def
        split: list.split option.split)
  then show ?thesis
    by (auto simp: keyGood_def providerSign_def withSecret_def split: sum.splits)
qed

text \<open>What a key is allowed to become: another wrapper around the same private key.\<close>

definition rewrapped :: "env \<Rightarrow> string \<Rightarrow> string \<Rightarrow> signingKey \<Rightarrow> signingKey \<Rightarrow> bool" where
  "rewrapped E old new k k' \<longleftrightarrow> (\<exists>s blob. k' = k\<lparr>k_privateKeyEncrypted := blob\<rparr> \<and>
     decryptSecret E blob new = Inr s \<and> currentKey E old new k = Inr s)"

lemma rewrapped_good: "rewrapped E old new k k' \<Longrightarrow> keyGood (withSecret old E) k \<Longrightarrow>
  keyGood (withSecret new E) k'"
  unfolding keyGood_secret rewrapped_def currentKey_def by (fastforce split: sum.splits)

lemma rekey_wp:
  assumes "cryptoLaws E" and "distinct (map k_id (signingKeys (database w)))"
  shows "wp (rekeySigningSecret E old new apply')
    (\<lambda>_ w'. if apply' then \<exists>keys. database w' = (database w)\<lparr>signingKeys := keys\<rparr> \<and>
         list_all2 (rewrapped E old new) (signingKeys (database w)) keys
       else database w' = database w)
    (\<lambda>_ w'. database w' = database w) w"
proof -
  have stored: "wp (writePlans E (filter (\<lambda>p. \<not> rp_alreadyMigrated p) ps))
      (\<lambda>_ w'. \<exists>keys. database w' = (database w)\<lparr>signingKeys := keys\<rparr> \<and>
         list_all2 (rewrapped E old new) (signingKeys (database w)) keys)
      (\<lambda>_ w'. database w' = database w) w1"
    if "database w1 = database w"
      and "list_all2 (goodPlan E old new) (sort_key k_createdAt (signingKeys (database w))) ps" for ps w1
    using fold_pending [OF assms(2) that(2)] that(1)
    by (intro wp_mono [OF writePlans_wp]) (auto simp: list_all2_map2 list_all2_same rewrapped_def)
  show ?thesis
    unfolding rekeySigningSecret_def assertSecrets_def wp_simps
    by (auto simp: wp_simps Let_def split: option.split intro!: wp_mono [OF planAll_wp [OF assms(1)]] wp_mono [OF stored])
      blast
qed

text \<open>
  C21. Changing the master secret loses no key. A run that throws, wherever it is interrupted, and a
  dry run leave the tables as they were. A run that applied changes nothing but the wrappers of the
  signing keys: every key now opens with the new secret to the private key it had, and if every key
  could sign under the old secret, every key can sign under the new one.
\<close>

theorem rekey_keeps_keys:
  assumes "cryptoLaws E" and "distinct (map k_id (signingKeys (database w)))"
    and "rekeySigningSecret E old new apply' w = (x, w')"
  shows "if isl x \<or> \<not> apply' then database w' = database w
    else \<exists>keys. database w' = (database w)\<lparr>signingKeys := keys\<rparr> \<and>
      list_all2 (rewrapped E old new) (signingKeys (database w)) keys \<and>
      (keysGood (withSecret old E) (database w) \<longrightarrow> keysGood (withSecret new E) (database w'))"
proof -
  have "keysGood (withSecret new E) d'"
    if "list_all2 (rewrapped E old new) (signingKeys (database w)) (signingKeys d')"
      "keysGood (withSecret old E) (database w)" for d'
    using that by (fastforce simp: keysGood_def list_all2_conv_all_nth in_set_conv_nth intro: rewrapped_good)
  then show ?thesis
    using rekey_wp [OF assms(1,2), of old new apply'] assms(3)
    by (fastforce simp: wp_def split: sum.splits if_splits)
qed

text \<open>A second run finds every key migrated, where a blob opens with one of the two secrets only.\<close>

lemma planRow_again:
  assumes "\<And>blob s. decryptSecret E blob new = Inr s \<Longrightarrow> isl (decryptSecret E blob old)"
    and "decryptSecret E (k_privateKeyEncrypted k) new = Inr s"
  shows "\<exists>p. planRow E old new k = ret p \<and> rp_alreadyMigrated p"
  using assms(1) [OF assms(2)] assms(2) by (auto simp: planRow_def isl_def)

definition wrappedKey :: signingKey where
  "wrappedKey = \<lparr>k_id = ''k1'', k_issuerId = ''i1'', k_keyId = ''sk_1'', k_publicKey = ''pub'',
     k_privateKeyEncrypted = ''v1...old.priv'', k_algorithm = ''Ed25519'', k_createdAt = 0,
     k_revokedAt = None, k_active = True\<rparr>"

definition keyWorld :: world where
  "keyWorld = registryWorld\<lparr>database := (database registryWorld)\<lparr>signingKeys := [wrappedKey]\<rparr>\<rparr>"

lemma keyWorld_keys: "signingKeys (database keyWorld) = [wrappedKey]"
  by (simp add: keyWorld_def)

lemma wrapped_opens: "decryptSecret sampleEnv ''v1...old.priv'' ''old'' = Inr ''priv''"
  by code_simp

lemma wrapped_probe: "\<exists>s. signEd25519 sampleEnv m ''priv'' = Inr s \<and> verifyEd25519 sampleEnv m s ''pub''"
  by (simp add: signEd25519_def verifyEd25519_def sampleEnv_def)

lemma wrapped_plan: "wp (planRow sampleEnv ''old'' new wrappedKey)
  (\<lambda>p w'. database w' = database w \<and> \<not> rp_alreadyMigrated p \<and> rp_id p = ''k1'') (\<lambda>_ _. False) w"
proof -
  obtain s where s: "signEd25519 sampleEnv (utf8 PROBE) ''priv'' = Inr s"
    "verifyEd25519 sampleEnv (utf8 PROBE) s ''pub''" using wrapped_probe by blast
  show ?thesis
    by (auto simp: planRow_def wrapped_opens wp_simps wrappedKey_def s
        intro!: wp_mono [OF encrypt_wp [OF sample_laws]])
qed

lemma other_secret: "''old'' \<noteq> replicate 32 (CHR ''n'')"
  by code_simp

lemma rekey_run: "wp (rekeySigningSecret sampleEnv ''old'' (replicate 32 (CHR ''n'')) True)
    (\<lambda>_ _. True) (\<lambda>_ _. False) keyWorld"
  using other_secret
  by (auto simp: rekeySigningSecret_def assertSecrets_def wp_simps Let_def keyWorld_keys planAll_def writePlans_def
      updateSigningKey_def updateIn_def wrappedKey_def keyConflict_def
      intro!: wp_mono [OF wrapped_plan [unfolded wrappedKey_def]])

theorem rekey_keeps_keys_witness:
  "\<exists>keys. database (snd (rekeySigningSecret sampleEnv ''old'' (replicate 32 (CHR ''n'')) True keyWorld)) =
      (database keyWorld)\<lparr>signingKeys := keys\<rparr> \<and>
    list_all2 (rewrapped sampleEnv ''old'' (replicate 32 (CHR ''n''))) [wrappedKey] keys"
proof -
  have "distinct (map k_id (signingKeys (database keyWorld)))" by (simp add: keyWorld_keys)
  from rekey_keeps_keys [OF sample_laws this prod.collapse [symmetric],
      of "''old''" "replicate 32 (CHR ''n'')" True]
  moreover have "\<not> isl (fst (rekeySigningSecret sampleEnv ''old'' (replicate 32 (CHR ''n'')) True keyWorld))"
    using rekey_run by (auto simp: wp_def split: prod.splits sum.splits)
  ultimately show ?thesis by (auto simp: keyWorld_keys)
qed

end
