(* ===== verification/BackfillLaws.thy ===== *)
theory BackfillLaws
  imports Maintenance
begin

text \<open>
  What the scripts that rewrite credentials guarantee, wherever they are interrupted: a backfilled
  proof or document verifies under the key of its credential, and nothing else of the tables moves;
  which assets a migration leaves in the bucket; and what the repair of the addresses leaves behind.
\<close>

subsection \<open>A table updated row by row\<close>

lemma updateRow_wp:
  "wp (updateCredential E i f)
    (\<lambda>_ w'. storage w' = storage w \<and> (\<exists>t. database w' = (database w)\<lparr>credentials :=
       map (\<lambda>r. if c_id r = i then (f r)\<lparr>c_updatedAt := t\<rparr> else r) (credentials (database w))\<rparr>))
    (\<lambda>_ w'. storage w' = storage w \<and> database w' = database w) w"
  by (auto simp: updateCredential_def wp_simps updateIn_Inr split: option.split sum.split)

text \<open>The table a run has reached: row by row related to the one it started from.\<close>

definition rowsRelated :: "(credential \<Rightarrow> credential \<Rightarrow> bool) \<Rightarrow> db \<Rightarrow> world \<Rightarrow> bool" where
  "rowsRelated R d w \<longleftrightarrow> (\<exists>cs. database w = d\<lparr>credentials := cs\<rparr> \<and> list_all2 R (credentials d) cs)"

lemma rowsRelated_start: "(\<And>c. R c c) \<Longrightarrow> database w = d \<Longrightarrow> rowsRelated R d w"
  by (auto simp: rowsRelated_def list_all2_same intro!: exI [of _ "credentials d"])

lemma rowsRelated_update:
  assumes "rowsRelated R d w" and "distinct (map c_id (credentials d))" and "c \<in> set (credentials d)"
    and ids: "\<And>a b. R a b \<Longrightarrow> c_id b = c_id a"
    and step: "\<And>b t. R c b \<Longrightarrow> R c ((f b)\<lparr>c_updatedAt := t\<rparr>)"
  shows "wp (updateCredential E (c_id c) f) (\<lambda>_. rowsRelated R d) (\<lambda>_. rowsRelated R d) w"
proof -
  obtain cs where cs: "database w = d\<lparr>credentials := cs\<rparr>" and all: "list_all2 R (credentials d) cs"
    using assms(1) by (auto simp: rowsRelated_def)
  have "list_all2 R (credentials d) (map (\<lambda>r. if c_id r = c_id c then (f r)\<lparr>c_updatedAt := t\<rparr> else r) cs)" for t
    unfolding list_all2_map2
  proof (rule list.rel_mono_strong [OF all])
    fix a b
    assume ab: "a \<in> set (credentials d)" "R a b"
    have "a = c" if "c_id b = c_id c"
      using that ids [OF ab(2)] ab(1) assms(2,3) by (auto simp: distinct_map dest: inj_onD)
    then show "R a (if c_id b = c_id c then (f b)\<lparr>c_updatedAt := t\<rparr> else b)"
      using step ab(2) by auto
  qed
  then show ?thesis
    by (intro wp_mono [OF updateRow_wp]) (auto simp: rowsRelated_def cs all)
qed

lemma backfillRows_wp:
  "wp (backfillRows E P)
    (\<lambda>rows w'. database w' = database w \<and> (\<forall>(c, i, k) \<in> set rows. c \<in> set (credentials (database w)) \<and> P c \<and>
       issuerOf (database w) (c_issuerId c) = Some i \<and> k = keyOf (database w) (c_signingKeyId c)))
    (\<lambda>_ w'. database w' = database w) w"
  by (auto simp: backfillRows_def wp_simps split: option.split) (force+)?

subsection \<open>The proof of a credential signed before there were proofs\<close>

definition vcColumnsOnly :: "credential \<Rightarrow> credential \<Rightarrow> bool" where
  "vcColumnsOnly c c' \<longleftrightarrow> c'\<lparr>c_vcProofValue := c_vcProofValue c, c_vcProofCreated := c_vcProofCreated c,
     c_vcDocument := c_vcDocument c, c_updatedAt := c_updatedAt c\<rparr> = c"

lemma vcColumnsOnly_id: "vcColumnsOnly c c' \<Longrightarrow> c_id c' = c_id c"
  unfolding vcColumnsOnly_def by (drule arg_cong [where f = c_id]) simp

definition keyRetired :: "db \<Rightarrow> credential \<Rightarrow> bool" where
  "keyRetired d c \<longleftrightarrow> (\<exists>k. keyOf d (c_signingKeyId c) = Some k \<and> k_revokedAt k \<noteq> None)"

text \<open>The stored proof verifies, for the document rebuilt from the tables, under the credential's key.\<close>

definition proofVerifies :: "env \<Rightarrow> db \<Rightarrow> credential \<Rightarrow> time \<Rightarrow> string \<Rightarrow> bool" where
  "proofVerifies E d c created value' \<longleftrightarrow> (\<exists>i k h s. issuerOf d (c_issuerId c) = Some i \<and>
     keyOf d (c_signingKeyId c) = Some k \<and>
     buildProofHashData E (backfillDocument E c i) (buildProofConfig (i_domain i) (k_keyId k) created) = Inr h \<and>
     multibaseToSignatureBase64 E value' = Inr s \<and> verifyEd25519 E h s (k_publicKey k))"

definition signedLate :: "env \<Rightarrow> db \<Rightarrow> credential \<Rightarrow> credential \<Rightarrow> bool" where
  "signedLate E d c c' \<longleftrightarrow> c' = c \<or> (vcColumnsOnly c c' \<and> c_vcDocument c' = c_vcDocument c \<and>
     c_vcProofValue c = None \<and> \<not> keyRetired d c \<and>
     (\<exists>v t. c_vcProofValue c' = Some v \<and> c_vcProofCreated c' = Some t \<and> proofVerifies E d c t v))"

lemma verify_multibase:
  assumes "cryptoLaws E"
  shows "verifyEd25519 E m (toBase64 E (fromBase64 E s)) p = verifyEd25519 E m s p"
  using assms by (simp add: cryptoLaws_def verifyEd25519_def)

lemma proofStep_wp:
  assumes "cryptoLaws E" and "distinct (map c_id (credentials d))" and "rowsRelated (signedLate E d) d w"
    and "c \<in> set (credentials d)" and "c_vcProofValue c = None" and "issuerOf d (c_issuerId c) = Some i"
    and "key = keyOf d (c_signingKeyId c)"
  shows "wp (proofStep E secret apply' s (c, i, key)) (\<lambda>_ w'. rowsRelated (signedLate E d) d w')
    (\<lambda>_ w'. rowsRelated (signedLate E d) d w') w"
proof -
  have same: "rowsRelated (signedLate E d) d w' = rowsRelated (signedLate E d) d w"
    if "database w' = database w" for w' using that by (simp add: rowsRelated_def)
  have upd: "wp (updateCredential E (c_id c) (\<lambda>r. r\<lparr>c_vcProofValue := Some (signatureToMultibase E sg),
        c_vcProofCreated := Some t\<rparr>)) (\<lambda>_. rowsRelated (signedLate E d) d) (\<lambda>_. rowsRelated (signedLate E d) d) w"
    if "key = Some k" "k_revokedAt k = None"
      "buildProofHashData E (backfillDocument E c i) (buildProofConfig (i_domain i) (k_keyId k) t) = Inr h"
      "verifyEd25519 E h sg (k_publicKey k)" for sg t k h
  proof (rule rowsRelated_update [OF assms(3,2,4)], goal_cases)
    case (1 a b)
    then show ?case by (auto simp: signedLate_def vcColumnsOnly_id)
  next
    case (2 b u)
    have "proofVerifies E d c t (signatureToMultibase E sg)"
      using that assms(6,7) by (auto simp: proofVerifies_def multibase_roundtrip verify_multibase [OF assms(1)])
    moreover have "\<not> keyRetired d c" using that(1,2) assms(7) by (simp add: keyRetired_def)
    ultimately show ?case using 2 assms(5) by (auto simp: signedLate_def vcColumnsOnly_def)
  qed
  show ?thesis
    unfolding proofStep_def
    by (auto simp: wp_simps Let_def assms(3) split: option.split sum.split prod.split intro!: wp_mono [OF upd])
qed

lemma backfillVcProof_wp:
  assumes "cryptoLaws E" and "distinct (map c_id (credentials (database w)))"
  shows "wp (backfillVcProof E secret apply')
    (\<lambda>_. rowsRelated (signedLate E (database w)) (database w))
    (\<lambda>_. rowsRelated (signedLate E (database w)) (database w)) w"
proof -
  let ?d = "database w"
  have start: "rowsRelated (signedLate E ?d) ?d w'" if "database w' = ?d" for w'
    using that by (intro rowsRelated_start) (simp_all add: signedLate_def)
  have loop: "wp (foldM (proofStep E secret apply') ([], 0) rows) (\<lambda>_. rowsRelated (signedLate E ?d) ?d)
      (\<lambda>_. rowsRelated (signedLate E ?d) ?d) w1"
    if w1: "database w1 = ?d" and rows: "\<forall>(c, i, k) \<in> set rows. c \<in> set (credentials ?d) \<and>
        (c_vcProofValue c = None \<and> c_signingKeyId c \<noteq> None) \<and> issuerOf ?d (c_issuerId c) = Some i \<and>
        k = keyOf ?d (c_signingKeyId c)" for rows w1
  proof (rule wp_foldM [where I = "\<lambda>_ _. rowsRelated (signedLate E ?d) ?d"], goal_cases)
    case (1 pre x rest s w2)
    then have "x \<in> set rows" by simp
    then show ?case using rows 1(2)
      by (cases x) (auto intro!: proofStep_wp [OF assms])
  qed (rule start [OF w1])
  show ?thesis unfolding backfillVcProof_def wp_simps
    by (auto simp: wp_simps start intro!: wp_mono [OF backfillRows_wp] wp_mono [OF loop])
qed

subsection \<open>The snapshot of a credential with a proof\<close>

text \<open>What any verifier of the exported document does: rebuild the bytes, check them with the key it names.\<close>

definition documentVerifies :: "env \<Rightarrow> db \<Rightarrow> credential \<Rightarrow> object \<Rightarrow> bool" where
  "documentVerifies E d c doc \<longleftrightarrow> (\<exists>i k h s. issuerOf d (c_issuerId c) = Some i \<and>
     keyOf d (c_signingKeyId c) = Some k \<and>
     extractVerificationInput E doc = Inr (h, s, buildVerificationMethodId (i_domain i) (k_keyId k)) \<and>
     verifyEd25519 E h s (k_publicKey k))"

definition snapshotTaken :: "env \<Rightarrow> db \<Rightarrow> credential \<Rightarrow> credential \<Rightarrow> bool" where
  "snapshotTaken E d c c' \<longleftrightarrow> c' = c \<or> (vcColumnsOnly c c' \<and> c_vcProofCreated c' = c_vcProofCreated c \<and>
     c_vcDocument c = None \<and> (c_vcProofValue c' = c_vcProofValue c \<or> \<not> keyRetired d c) \<and>
     (\<exists>doc. c_vcDocument c' = Some (VObj doc) \<and> documentVerifies E d c doc))"

lemma capture_wp:
  assumes "distinct (map c_id (credentials d))" and "rowsRelated (snapshotTaken E d) d w"
    and "c \<in> set (credentials d)" and "c_vcDocument c = None" and "issuerOf d (c_issuerId c) = Some i"
    and "keyOf d (c_signingKeyId c) = Some k"
    and "buildProofHashData E (backfillDocument E c i) (buildProofConfig (i_domain i) (k_keyId k) t) = Inr h"
    and "multibaseToSignatureBase64 E v = Inr s" and "verifyEd25519 E h s (k_publicKey k)"
    and "c_vcProofValue c = Some v \<or> k_revokedAt k = None"
  shows "wp (updateCredential E (c_id c) (\<lambda>r. r\<lparr>c_vcProofValue := Some v,
      c_vcDocument := Some (VObj (attachProof (backfillDocument E c i)
        (buildProofConfig (i_domain i) (k_keyId k) t) v))\<rparr>))
    (\<lambda>_. rowsRelated (snapshotTaken E d) d) (\<lambda>_. rowsRelated (snapshotTaken E d) d) w"
proof (rule rowsRelated_update [OF assms(2,1,3)], goal_cases)
  case (1 a b)
  then show ?case by (auto simp: snapshotTaken_def vcColumnsOnly_id)
next
  case (2 b u)
  have "documentVerifies E d c (attachProof (backfillDocument E c i) (buildProofConfig (i_domain i) (k_keyId k) t) v)"
    using assms(5-9) by (auto simp: documentVerifies_def extract_stored backfillDocument_def)
  moreover have "c_vcProofValue c = Some v \<or> \<not> keyRetired d c" using assms(6,10) by (auto simp: keyRetired_def)
  ultimately show ?case using 2 assms(4) by (auto simp: snapshotTaken_def vcColumnsOnly_def)
qed

lemma captureStep_wp:
  assumes "cryptoLaws E" and "distinct (map c_id (credentials d))" and "rowsRelated (snapshotTaken E d) d w"
    and "c \<in> set (credentials d)" and "c_vcDocument c = None" and "issuerOf d (c_issuerId c) = Some i"
    and "key = keyOf d (c_signingKeyId c)"
  shows "wp (captureStep E secret apply' s (c, i, key)) (\<lambda>_. rowsRelated (snapshotTaken E d) d)
    (\<lambda>_. rowsRelated (snapshotTaken E d) d) w"
proof -
  note cap = capture_wp [OF assms(2-6)]
  have key: "keyOf d (c_signingKeyId c) = Some k" if "key = Some k" for k using that assms(7) by simp
  have mb: "multibaseToSignatureBase64 E (signatureToMultibase E sg) = Inr (toBase64 E (fromBase64 E sg))"
    "verifyEd25519 E h (toBase64 E (fromBase64 E sg)) p = verifyEd25519 E h sg p" for sg h p
    by (simp_all add: multibase_roundtrip verify_multibase [OF assms(1)])
  show ?thesis
    unfolding captureStep_def
    by (auto simp: wp_simps Let_def assms(3) key mb split: option.split sum.split prod.split
        intro!: wp_mono [OF cap])
qed

lemma backfillVcDocument_wp:
  assumes "cryptoLaws E" and "distinct (map c_id (credentials (database w)))"
  shows "wp (backfillVcDocument E secret apply')
    (\<lambda>_. rowsRelated (snapshotTaken E (database w)) (database w))
    (\<lambda>_. rowsRelated (snapshotTaken E (database w)) (database w)) w"
proof -
  let ?d = "database w"
  have start: "rowsRelated (snapshotTaken E ?d) ?d w'" if "database w' = ?d" for w'
    using that by (intro rowsRelated_start) (simp_all add: snapshotTaken_def)
  have loop: "wp (foldM (captureStep E secret apply') ([], [], 0) rows) (\<lambda>_. rowsRelated (snapshotTaken E ?d) ?d)
      (\<lambda>_. rowsRelated (snapshotTaken E ?d) ?d) w1"
    if w1: "database w1 = ?d" and rows: "\<forall>(c, i, k) \<in> set rows. c \<in> set (credentials ?d) \<and>
        (c_vcDocument c = None \<and> c_vcProofValue c \<noteq> None \<and> c_vcProofCreated c \<noteq> None) \<and>
        issuerOf ?d (c_issuerId c) = Some i \<and> k = keyOf ?d (c_signingKeyId c)" for rows w1
  proof (rule wp_foldM [where I = "\<lambda>_ _. rowsRelated (snapshotTaken E ?d) ?d"], goal_cases)
    case (1 pre x rest s w2)
    then have "x \<in> set rows" by simp
    then show ?case using rows 1(2)
      by (cases x) (auto intro!: captureStep_wp [OF assms])
  qed (rule start [OF w1])
  show ?thesis unfolding backfillVcDocument_def wp_simps
    by (auto simp: wp_simps start intro!: wp_mono [OF backfillRows_wp] wp_mono [OF loop])
qed

text \<open>
  C22. The two backfills of the verifiable credentials, dry or applied, interrupted anywhere or not,
  touch nothing but the proof columns of credentials that lacked them. A proof they add verifies, for
  the document rebuilt from the tables, under the credential's key, and that key is not retired. A
  document they add is one from which every verifier rebuilds bytes whose signature checks under the
  key the document names, and a proof is replaced only where the key is not retired.
\<close>

theorem backfills_write_valid_proofs:
  assumes "cryptoLaws E" and "distinct (map c_id (credentials (database w)))"
  shows "rowsRelated (signedLate E (database w)) (database w) (snd (backfillVcProof E secret apply' w)) \<and>
    rowsRelated (snapshotTaken E (database w)) (database w) (snd (backfillVcDocument E secret apply' w))"
  using backfillVcProof_wp [OF assms, of secret apply'] backfillVcDocument_wp [OF assms, of secret apply']
  by (auto simp: wp_def split: prod.splits sum.splits)

theorem backfills_write_valid_proofs_witness:
  "rowsRelated (signedLate sampleEnv (database registryWorld)) (database registryWorld)
     (snd (backfillVcProof sampleEnv ''signing'' True registryWorld))"
proof -
  have "distinct (map c_id (credentials (database registryWorld)))"
    by (simp add: registryWorld_credentials sampleCredential_def)
  from backfills_write_valid_proofs [OF sample_laws this] show ?thesis by blast
qed

subsection \<open>The repair of the addresses\<close>

lemma includes_here: "includesStr p (p @ b)"
proof (cases "p @ b")
  case (Cons a list)
  then have "startsWith p (a # list)" by (simp add: startsWith_def flip: Cons)
  then show ?thesis by (simp add: Cons)
qed simp

lemma includes_append: "includesStr p (a @ p @ b)"
  by (induction a) (auto simp: includes_here)

lemma correctUrl_right:
  "encodeURIComponent (c_credentialExternalId b) = c_credentialExternalId b \<Longrightarrow>
   c_credentialExternalId x = c_credentialExternalId b \<Longrightarrow> c_verificationUrl b = correctUrl base x \<Longrightarrow>
   \<not> urlIsWrong b"
  using includes_append [of "''/verify/'' @ c_credentialExternalId b" "stripSlashes base" "[]"]
  by (simp add: urlIsWrong_def correctUrl_def)

definition fixedUpTo :: "credential list \<Rightarrow> db \<Rightarrow> world \<Rightarrow> bool" where
  "fixedUpTo pre d w \<longleftrightarrow> (\<exists>cs. database w = d\<lparr>credentials := cs\<rparr> \<and> list_all2 (\<lambda>a b. c_id b = c_id a \<and>
     c_credentialExternalId b = c_credentialExternalId a \<and>
     (if a \<in> set pre then \<not> urlIsWrong b else b = a)) (credentials d) cs)"

lemma unlinkBucket_wp: "cfg_storageR2 (cfg E) \<Longrightarrow>
  wp (unlinkLocal E key) (\<lambda>_ w'. storage w' = storage w \<and> database w' = database w)
    (\<lambda>_ w'. storage w' = storage w \<and> database w' = database w) w"
  by (auto simp: unlinkLocal_def wp_simps split: option.split)

lemma fixStep_wp:
  assumes "cfg_storageR2 (cfg E)" and "distinct (map c_id (credentials d))" and "x \<in> set (credentials d)"
    and "x \<notin> set pre" and "encodeURIComponent (c_credentialExternalId x) = c_credentialExternalId x"
    and "fixedUpTo pre d w"
  shows "wp (fixStep E base True s x) (\<lambda>_ w'. storage w' = storage w \<and> fixedUpTo (pre @ [x]) d w')
    (\<lambda>_ w'. storage w' = storage w) w"
proof -
  obtain cs where cs: "database w = d\<lparr>credentials := cs\<rparr>" and all: "list_all2 (\<lambda>a b. c_id b = c_id a \<and>
     c_credentialExternalId b = c_credentialExternalId a \<and>
     (if a \<in> set pre then \<not> urlIsWrong b else b = a)) (credentials d) cs"
    using assms(6) by (auto simp: fixedUpTo_def)
  have same: "a = x" if "a \<in> set (credentials d)" "c_id a = c_id x" for a
    using that assms(2,3) by (auto simp: distinct_map dest: inj_onD)
  have good: "\<not> urlIsWrong (x\<lparr>c_verificationUrl := correctUrl base x, c_qrPayload := correctQrPayload base x,
      c_updatedAt := t\<rparr>)" for t
    using assms(5) by (intro correctUrl_right [where x = x and base = base]) simp_all
  have right: "fixedUpTo (pre @ [x]) d w" if "\<not> urlIsWrong x"
    unfolding fixedUpTo_def using that assms(4) cs
    by (intro exI [of _ cs] conjI list.rel_mono_strong [OF all]) auto
  have "list_all2 (\<lambda>a b. c_id b = c_id a \<and> c_credentialExternalId b = c_credentialExternalId a \<and>
     (if a \<in> set (pre @ [x]) then \<not> urlIsWrong b else b = a)) (credentials d)
     (map (\<lambda>r. if c_id r = c_id x then r\<lparr>c_verificationUrl := correctUrl base x,
        c_qrPayload := correctQrPayload base x, c_updatedAt := t\<rparr> else r) cs)" for t
    unfolding list_all2_map2 using assms(4)
    by (intro list.rel_mono_strong [OF all]) (auto dest: same simp: good)
  then have wrong: "fixedUpTo (pre @ [x]) d w'" if "database w' = d\<lparr>credentials := map (\<lambda>r. if c_id r = c_id x
      then r\<lparr>c_verificationUrl := correctUrl base x, c_qrPayload := correctQrPayload base x, c_updatedAt := t\<rparr>
      else r) cs\<rparr>" for t w'
    using that unfolding fixedUpTo_def by blast
  show ?thesis
    unfolding fixStep_def using right
    by (auto simp: wp_simps cs intro!: wp_mono [OF updateRow_wp] wp_mono [OF unlinkBucket_wp [OF assms(1)]] wrong)
qed

text \<open>
  Where the assets are in a bucket, the script leaves every object as it is, and afterwards no stored
  address is recognised as stale: the \<open>/qr\<close> endpoint, which deletes and redraws the code of a
  credential whose address it recognises as stale, serves the old code from then on.
\<close>

lemma url_fix_freezes_stale_qr:
  assumes "cfg_storageR2 (cfg E)" and "distinct (map c_id (credentials (database w)))"
    and "\<forall>c \<in> set (credentials (database w)). encodeURIComponent (c_credentialExternalId c) = c_credentialExternalId c"
    and "fixVerificationUrls E base True w = (Inr n, w')"
  shows "storage w' = storage w \<and> (\<forall>c \<in> set (credentials (database w')). \<not> staleQrCode c)"
proof -
  let ?d = "database w" and ?cs = "credentials (database w)"
  have start: "fixedUpTo [] ?d w1" if "database w1 = ?d" for w1
    using that by (auto simp: fixedUpTo_def list_all2_same intro!: exI [of _ ?cs])
  have loop: "wp (foldM (fixStep E b True) 0 ?cs) (\<lambda>_ w'. storage w' = storage w \<and> fixedUpTo ?cs ?d w')
      (\<lambda>_ _. True) w1" if "database w1 = ?d" "storage w1 = storage w" for w1 b
  proof (rule wp_foldM [where I = "\<lambda>pre _ w'. storage w' = storage w \<and> fixedUpTo pre ?d w'"], goal_cases)
    case (1 pre x rest s w2)
    have "x \<notin> set pre" using assms(2) 1(1) by auto
    then show ?case using 1 assms(3)
      by (intro wp_mono [OF fixStep_wp [OF assms(1,2)]]) auto
  qed (simp add: start that)
  have "wp (fixVerificationUrls E base True) (\<lambda>_ w'. storage w' = storage w \<and> fixedUpTo ?cs ?d w') (\<lambda>_ _. True) w"
    unfolding fixVerificationUrls_def wp_simps
    by (auto split: option.split intro!: wp_mono [OF loop])
  then have s: "storage w' = storage w" and f: "fixedUpTo ?cs ?d w'"
    using wp_Inr assms(4) by fast+
  have "\<not> urlIsWrong c" if "c \<in> set (credentials (database w'))" for c
  proof -
    obtain cs where cs: "database w' = ?d\<lparr>credentials := cs\<rparr>" and all: "list_all2 (\<lambda>a b. c_id b = c_id a \<and>
        c_credentialExternalId b = c_credentialExternalId a \<and>
        (if a \<in> set ?cs then \<not> urlIsWrong b else b = a)) ?cs cs"
      using f unfolding fixedUpTo_def by blast
    from that cs obtain j where j: "j < length cs" "cs ! j = c" by (auto simp: in_set_conv_nth)
    with all have "?cs ! j \<in> set ?cs" by (simp add: list_all2_lengthD)
    then show ?thesis using list_all2_nthD2 [OF all j(1)] j(2) by simp
  qed
  then show ?thesis using s by (auto simp: staleQrCode_def urlIsWrong_def)
qed

subsection \<open>The migration of the assets\<close>

lemma map_of_without: "map_of (filter (\<lambda>kc. fst kc \<noteq> key) xs) k = (if k = key then None else map_of xs k)"
  by (induction xs) auto

lemma putObject_wp: "wp (putObject E key c) Q R w = (case fault E (tick w) of
    Some m \<Rightarrow> R (JsError m) (nextTick w)
  | None \<Rightarrow> Q () ((nextTick w)\<lparr>storage := (key, c) # filter (\<lambda>kc. fst kc \<noteq> key) (storage w)\<rparr>))"
  by (simp add: putObject_def wp_def external_def nextTick_def split: option.split)

lemma objectExists_wp: "wp (objectExists E key) Q R w =
  Q (fault E (tick w) = None \<and> map_of (storage w) key \<noteq> None) (nextTick w)"
  by (simp add: objectExists_def wp_def tryCatch_def external_def ret_def nextTick_def split: option.split)

definition migratedUpTo :: "world \<Rightarrow> (string \<times> string) list \<Rightarrow> migrated \<Rightarrow> world \<Rightarrow> bool" where
  "migratedUpTo w0 pre s w \<longleftrightarrow> (case s of (uploaded, skipped, failed) \<Rightarrow>
     uploaded + skipped + failed = length pre \<and> database w = database w0 \<and>
     (failed = 0 \<longrightarrow> (\<forall>kb \<in> set pre. map_of (storage w) (fst kb) \<noteq> None)) \<and>
     (\<forall>k. k \<notin> fst ` set pre \<longrightarrow> map_of (storage w) k = map_of (storage w0) k))"

lemma migrateStep_wp:
  assumes "migratedUpTo w0 pre s w"
  shows "wp (migrateStep E True force s kb) (migratedUpTo w0 (pre @ [kb])) (\<lambda>_ _. False) w"
proof -
  obtain u k f key body where s: "s = (u, k, f)" "kb = (key, body)" by (metis prod.exhaust)
  have counts: "u + k + f = length pre" "database w = database w0"
    and there: "f = 0 \<Longrightarrow> \<forall>kb \<in> set pre. map_of (storage w) (fst kb) \<noteq> None"
    and others: "\<And>k. k \<notin> fst ` set pre \<Longrightarrow> map_of (storage w) k = map_of (storage w0) k"
    using assms by (auto simp: migratedUpTo_def s)
  have skipped: "migratedUpTo w0 (pre @ [kb]) (u, k + 1, f) (nextTick w)" if "map_of (storage w) key \<noteq> None"
    using that counts there others by (auto simp: migratedUpTo_def s)
  have failed: "migratedUpTo w0 (pre @ [kb]) (u, k, f + 1) w1"
    if "database w1 = database w" "storage w1 = storage w" for w1
    using that counts others by (auto simp: migratedUpTo_def s)
  have uploaded: "migratedUpTo w0 (pre @ [kb]) (u + 1, k, f)
      (w1\<lparr>storage := (key, Bytes body) # filter (\<lambda>kc. fst kc \<noteq> key) (storage w)\<rparr>)"
    if "database w1 = database w" for w1
    using that counts there others by (auto simp: migratedUpTo_def s map_of_without)
  show ?thesis
    unfolding migrateStep_def s prod.case
    by (cases force) (use skipped failed uploaded in \<open>auto simp: wp_simps objectExists_wp putObject_wp s split: option.split\<close>)
qed

text \<open>
  A migration never stops on an error: it counts every file once, and if it reports no failure, every
  asset of the two directories is in the bucket. Objects under other keys and the tables do not change.
\<close>

lemma migration_complete:
  "wp (migrateAssets E (Some es) True force)
    (migratedUpTo w (collectFiles ''credentials'' (dirNamed ''credentials'' es) @
       collectFiles ''document-proofs'' (dirNamed ''document-proofs'' es))) (\<lambda>_ _. False) w"
  unfolding migrateAssets_def option.case
proof (rule wp_foldM, goal_cases)
  case (1 pre x rest s w1)
  then show ?case by (intro migrateStep_wp)
qed (simp add: migratedUpTo_def)

text \<open>
  An object whose existence cannot be asked counts as absent: although \<open>--force\<close> is not given, it is
  overwritten with the local file.
\<close>

lemma failed_head_overwrites:
  assumes "fault E (tick w) = Some e" and "fault E (Suc (tick w)) = None"
  shows "map_of (storage (snd (migrateStep E True False s (key, body) w))) key = Some (Bytes body)"
  using assms
  by (auto simp: migrateStep_def objectExists_def putObject_def bind_def andThen_def tryCatch_def external_def
      ret_def nextTick_def split: prod.split)

end
