(* ===== verification/Requests.thy ===== *)
theory Requests
  imports CredentialLifecycle DocumentProofs Auth JsNumber
begin

text \<open>
  The bodies and queries the API accepts: the classes of \<open>modules/*/dto\<close> as the global pipe of
  \<open>main.ts\<close> applies them (unknown members are refused, types are converted implicitly). A class is
  the list of its members, each with the type the compiler recorded, its transformation and its
  checks; decorators and conversions are those the libraries document. The tests for a domain name, an
  address and a date are parameters. A number that is no integer is kept as its text: no check accepts it.
\<close>

subsection \<open>Conversion and checks\<close>

datatype reflected = StringType | NumberType | BooleanType | OtherType

text \<open>The implicit conversion: absent values and arrays stay, an object turns into its text.\<close>

definition implicitly :: "reflected \<Rightarrow> value \<Rightarrow> value" where
  "implicitly ty v = (case v of VUndef \<Rightarrow> v | VNull \<Rightarrow> v | VArr xs \<Rightarrow> v
   | _ \<Rightarrow> (case ty of
       StringType \<Rightarrow> (case v of VStr s \<Rightarrow> v | VNum n \<Rightarrow> VStr (showInt n)
         | VBool b \<Rightarrow> VStr (if b then ''true'' else ''false'') | _ \<Rightarrow> VStr ''[object Object]'')
     | NumberType \<Rightarrow> (case v of VNum n \<Rightarrow> v | VBool b \<Rightarrow> VNum (if b then 1 else 0)
         | VStr s \<Rightarrow> (case toInt (toNumber s) of Some n \<Rightarrow> VNum n | None \<Rightarrow> v) | _ \<Rightarrow> v)
     | BooleanType \<Rightarrow> (case v of VBool b \<Rightarrow> v | VStr s \<Rightarrow> VBool (s \<noteq> []) | VNum n \<Rightarrow> VBool (n \<noteq> 0)
         | _ \<Rightarrow> VBool True)
     | OtherType \<Rightarrow> v))"

type_synonym check = "value \<Rightarrow> bool"

definition isString :: check where
  "isString v = (case v of VStr s \<Rightarrow> True | _ \<Rightarrow> False)"

definition isBoolean :: check where
  "isBoolean v = (case v of VBool b \<Rightarrow> True | _ \<Rightarrow> False)"

definition onText :: "(string \<Rightarrow> bool) \<Rightarrow> check" where
  "onText p v = (case v of VStr s \<Rightarrow> p s | _ \<Rightarrow> False)"

definition onInt :: "(int \<Rightarrow> bool) \<Rightarrow> check" where
  "onInt p v = (case v of VNum n \<Rightarrow> p n | _ \<Rightarrow> False)"

definition minLength :: "nat \<Rightarrow> check" where
  "minLength n = onText (\<lambda>s. n \<le> length s)"

definition maxLength :: "nat \<Rightarrow> check" where
  "maxLength n = onText (\<lambda>s. length s \<le> n)"

definition isIn :: "string list \<Rightarrow> check" where
  "isIn vs = onText (\<lambda>s. s \<in> set vs)"

text \<open>\<open>@Matches(/^[...]+$/)\<close>\<close>

definition matchesChars :: "string \<Rightarrow> check" where
  "matchesChars cs = onText (\<lambda>s. s \<noteq> [] \<and> set s \<subseteq> set cs)"

definition isNotEmpty :: check where
  "isNotEmpty v \<longleftrightarrow> v \<noteq> VUndef \<and> v \<noteq> VNull \<and> v \<noteq> VStr []"

definition allOf :: "check list \<Rightarrow> check" where
  "allOf cs v \<longleftrightarrow> (\<forall>c \<in> set cs. c v)"

text \<open>\<open>@IsOptional\<close>: \<open>null\<close> and \<open>undefined\<close> skip every check of the member.\<close>

definition optionalAll :: "check list \<Rightarrow> check" where
  "optionalAll cs v \<longleftrightarrow> v = VUndef \<or> v = VNull \<or> allOf cs v"

definition eachOf :: "nat \<Rightarrow> check list \<Rightarrow> check" where
  "eachOf n cs v = (case v of VArr xs \<Rightarrow> xs \<noteq> [] \<and> length xs \<le> n \<and> (\<forall>x \<in> set xs. allOf cs x) | _ \<Rightarrow> False)"

record member =
  mb_name :: string
  mb_type :: reflected
  mb_transform :: "value \<Rightarrow> value"
  mb_check :: "(string \<Rightarrow> value) \<Rightarrow> check"

definition field :: "string \<Rightarrow> reflected \<Rightarrow> check \<Rightarrow> member" where
  "field nm ty c = \<lparr>mb_name = nm, mb_type = ty, mb_transform = (\<lambda>v. v), mb_check = (\<lambda>_. c)\<rparr>"

text \<open>The instance the handler gets; the checks see it, so one may depend on another member.\<close>

definition instanceOf :: "member list \<Rightarrow> value \<Rightarrow> string \<Rightarrow> value" where
  "instanceOf ms body nm = (case List.find (\<lambda>m. mb_name m = nm) ms of None \<Rightarrow> VUndef
   | Some m \<Rightarrow> (if vget body nm = VUndef then VUndef else mb_transform m (implicitly (mb_type m) (vget body nm))))"

definition bodyAccepted :: "member list \<Rightarrow> value \<Rightarrow> bool" where
  "bodyAccepted ms body \<longleftrightarrow> set (vkeys body) \<subseteq> set (map mb_name ms) \<and>
     (\<forall>m \<in> set ms. mb_check m (instanceOf ms body) (instanceOf ms body (mb_name m)))"

definition textOf :: "value \<Rightarrow> string" where
  "textOf v = (case v of VStr s \<Rightarrow> s | _ \<Rightarrow> [])"

definition optText :: "value \<Rightarrow> string option" where
  "optText v = (case v of VStr s \<Rightarrow> Some s | _ \<Rightarrow> None)"

definition optInt :: "value \<Rightarrow> int option" where
  "optInt v = (case v of VNum n \<Rightarrow> Some n | _ \<Rightarrow> None)"

definition optBool :: "value \<Rightarrow> bool option" where
  "optBool v = (case v of VBool b \<Rightarrow> Some b | _ \<Rightarrow> None)"

definition textsOf :: "value \<Rightarrow> string list" where
  "textsOf v = (case v of VArr xs \<Rightarrow> map textOf xs | _ \<Rightarrow> [])"

definition enumOf :: "('a \<times> string) list \<Rightarrow> value \<Rightarrow> 'a option" where
  "enumOf tbl v = map_option fst (List.find (\<lambda>p. VStr (snd p) = v) tbl)"

definition BAD_REQUEST :: exn where
  "BAD_REQUEST = BadRequest ''Bad Request Exception''"

definition parsed :: "member list \<Rightarrow> ((string \<Rightarrow> value) \<Rightarrow> 'a) \<Rightarrow> value \<Rightarrow> exn + 'a" where
  "parsed ms build body = (if bodyAccepted ms body then Inr (build (instanceOf ms body)) else Inl BAD_REQUEST)"

subsection \<open>Credentials\<close>

definition MAX_STUDENT_NAME_LENGTH :: nat where "MAX_STUDENT_NAME_LENGTH = 200"
definition MAX_STUDENT_ID_LENGTH :: nat where "MAX_STUDENT_ID_LENGTH = 64"
definition MAX_DEGREE_LENGTH :: nat where "MAX_DEGREE_LENGTH = 200"
definition MAX_BULK_IDS :: nat where "MAX_BULK_IDS = 500"
definition MAX_ID_LENGTH :: nat where "MAX_ID_LENGTH = 64"
definition MAX_CSV_BYTES :: nat where "MAX_CSV_BYTES = 2 * 1024 * 1024"

definition CreateCredentialDto :: "member list" where
  "CreateCredentialDto =
    [field ''studentName'' StringType (allOf [isString, minLength 2, maxLength MAX_STUDENT_NAME_LENGTH]),
     field ''studentId'' StringType (allOf [isString, minLength 2, maxLength MAX_STUDENT_ID_LENGTH]),
     field ''degree'' StringType (allOf [isString, minLength 2, maxLength MAX_DEGREE_LENGTH]),
     field ''graduationYear'' NumberType (optionalAll [onInt (\<lambda>n. 1900 \<le> n), onInt (\<lambda>n. n \<le> 2200)])]"

definition createBody :: "value \<Rightarrow> exn + createDto" where
  "createBody = parsed CreateCredentialDto (\<lambda>d. \<lparr>cd_studentName = textOf (d ''studentName''),
     cd_studentId = textOf (d ''studentId''), cd_degree = textOf (d ''degree''),
     cd_graduationYear = optInt (d ''graduationYear'')\<rparr>)"

text \<open>\<open>@Transform\<close> of a boolean; it runs after the implicit conversion.\<close>

definition booleanText :: "value \<Rightarrow> value" where
  "booleanText v = (if v = VStr ''true'' then VBool True else if v = VStr ''false'' then VBool False else v)"

definition ListCredentialsDto :: "member list" where
  "ListCredentialsDto =
    [field ''studentId'' StringType (optionalAll [isString, maxLength MAX_STUDENT_ID_LENGTH]),
     field ''studentName'' StringType (optionalAll [isString, maxLength MAX_STUDENT_NAME_LENGTH]),
     (field ''revoked'' BooleanType (optionalAll [isBoolean]))\<lparr>mb_transform := booleanText\<rparr>,
     field ''issuedYear'' NumberType (optionalAll [onInt (\<lambda>n. 1900 \<le> n), onInt (\<lambda>n. n \<le> 9999)]),
     field ''page'' NumberType (optionalAll [onInt (\<lambda>n. 1 \<le> n)]),
     field ''pageSize'' NumberType (optionalAll [onInt (\<lambda>n. 1 \<le> n), onInt (\<lambda>n. n \<le> 100)])]"

definition listQuery :: "value \<Rightarrow> exn + listDto" where
  "listQuery = parsed ListCredentialsDto (\<lambda>d. \<lparr>ld_studentId = optText (d ''studentId''),
     ld_studentName = optText (d ''studentName''), ld_revoked = optBool (d ''revoked''),
     ld_issuedYear = optInt (d ''issuedYear''), ld_page = optInt (d ''page''),
     ld_pageSize = optInt (d ''pageSize'')\<rparr>)"

definition BulkIssueCredentialsDto :: "member list" where
  "BulkIssueCredentialsDto =
    [field ''csv'' StringType (allOf [isString, minLength 1, maxLength MAX_CSV_BYTES]),
     (field ''commit'' BooleanType (optionalAll [isBoolean]))\<lparr>mb_transform := booleanText\<rparr>]"

definition bulkIssueBody :: "value \<Rightarrow> exn + bulkDto" where
  "bulkIssueBody = parsed BulkIssueCredentialsDto (\<lambda>d. \<lparr>bk_csv = optText (d ''csv''),
     bk_commit = optBool (d ''commit'')\<rparr>)"

definition idsMember :: member where
  "idsMember = field ''ids'' OtherType (eachOf MAX_BULK_IDS [isString, maxLength MAX_ID_LENGTH])"

definition reasonTable :: "(RevocationReason \<times> string) list" where
  "reasonTable = map (\<lambda>r. (r, reasonName r))
     [DATA_CORRECTION, ISSUED_IN_ERROR, FRAUD_SUSPECTED, INSTITUTION_REQUEST, OTHER, LEGACY]"

definition reasonMembers :: "member list" where
  "reasonMembers = [field ''reason'' StringType (isIn (map snd reasonTable)),
     field ''notes'' StringType (optionalAll [isString, maxLength 500])]"

definition BulkDeleteCredentialsDto :: "member list" where
  "BulkDeleteCredentialsDto = [idsMember]"

definition bulkDeleteBody :: "value \<Rightarrow> exn + string list" where
  "bulkDeleteBody = parsed BulkDeleteCredentialsDto (\<lambda>d. textsOf (d ''ids''))"

definition RevokeCredentialDto :: "member list" where
  "RevokeCredentialDto = reasonMembers"

definition revokeDtoOf :: "(string \<Rightarrow> value) \<Rightarrow> revokeDto" where
  "revokeDtoOf d = \<lparr>rv_reason = orElse (enumOf reasonTable (d ''reason'')) OTHER, rv_notes = optText (d ''notes'')\<rparr>"

definition revokeBody :: "value \<Rightarrow> exn + revokeDto" where
  "revokeBody = parsed RevokeCredentialDto revokeDtoOf"

definition BulkRevokeCredentialsDto :: "member list" where
  "BulkRevokeCredentialsDto = idsMember # reasonMembers"

definition bulkRevokeBody :: "value \<Rightarrow> exn + string list \<times> revokeDto" where
  "bulkRevokeBody = parsed BulkRevokeCredentialsDto (\<lambda>d. (textsOf (d ''ids''), revokeDtoOf d))"

subsection \<open>Accounts\<close>

definition MAX_IDENTIFIER_LENGTH :: nat where "MAX_IDENTIFIER_LENGTH = 255"
definition MAX_SUBMITTED_PASSWORD_LENGTH :: nat where "MAX_SUBMITTED_PASSWORD_LENGTH = 256"
definition MAX_PASSWORD_LENGTH :: nat where "MAX_PASSWORD_LENGTH = 72"

definition roleTable :: "(AdminRole \<times> string) list" where
  "roleTable = map (\<lambda>r. (r, roleName r)) [OWNER, SUPER_ADMIN, ADMIN, AUDITOR]"

definition LoginDto :: "member list" where
  "LoginDto =
    [field ''username'' StringType (optionalAll [isString, minLength 3, maxLength MAX_IDENTIFIER_LENGTH]),
     field ''email'' StringType (optionalAll [isString, minLength 3, maxLength MAX_IDENTIFIER_LENGTH]),
     field ''password'' StringType (allOf [isString, minLength 8, maxLength MAX_SUBMITTED_PASSWORD_LENGTH])]"

definition loginRequest :: "value \<Rightarrow> exn + loginDto" where
  "loginRequest = parsed LoginDto (\<lambda>d. \<lparr>lg_username = optText (d ''username''),
     lg_email = optText (d ''email''), lg_password = textOf (d ''password'')\<rparr>)"

definition USERNAME_CHARS :: string where
  "USERNAME_CHARS = ''ABCDEFGHIJKLMNOPQRSTUVWXYZabcdefghijklmnopqrstuvwxyz0123456789._-''"

definition RegisterDto :: "member list" where
  "RegisterDto =
    [field ''username'' StringType (allOf [isString, minLength 3, maxLength MAX_IDENTIFIER_LENGTH,
       matchesChars USERNAME_CHARS]),
     field ''password'' StringType (allOf [isString, minLength 8, maxLength MAX_PASSWORD_LENGTH]),
     field ''role'' StringType (optionalAll [isIn (map snd roleTable)])]"

definition registerBody :: "value \<Rightarrow> exn + registerDto" where
  "registerBody = parsed RegisterDto (\<lambda>d. \<lparr>rg_username = textOf (d ''username''),
     rg_password = textOf (d ''password''), rg_role = enumOf roleTable (d ''role'')\<rparr>)"

definition UpdateAdminDto :: "member list" where
  "UpdateAdminDto = [field ''role'' StringType (optionalAll [isIn (map snd roleTable)]),
     field ''active'' BooleanType (optionalAll [isBoolean])]"

definition updateAdminBody :: "value \<Rightarrow> exn + updateAdminDto" where
  "updateAdminBody = parsed UpdateAdminDto (\<lambda>d. \<lparr>ua_role = enumOf roleTable (d ''role''),
     ua_active = optBool (d ''active'')\<rparr>)"

subsection \<open>The institution\<close>

record textTests =
  tt_isFQDN :: "string \<Rightarrow> bool"
  tt_isUrl :: "string \<Rightarrow> bool"
  tt_isDateString :: "string \<Rightarrow> bool"

definition walletText :: "string \<Rightarrow> bool" where
  "walletText s \<longleftrightarrow> take 2 s = ''0x'' \<and> length s = 42 \<and> set (drop 2 s) \<subseteq> set ''0123456789abcdefABCDEF''"

definition statusTable :: "(IssuerStatus \<times> string) list" where
  "statusTable = map (\<lambda>s. (s, issuerStatusName s)) [ISSUER_ACTIVE, ISSUER_INACTIVE, ISSUER_SUSPENDED]"

definition UpdateInstitutionDto :: "textTests \<Rightarrow> member list" where
  "UpdateInstitutionDto T =
    [field ''name'' StringType (optionalAll [isString, isNotEmpty, maxLength 200]),
     field ''displayName'' StringType (optionalAll [isString, isNotEmpty, maxLength 200]),
     field ''domain'' StringType (optionalAll [isNotEmpty, maxLength 253, onText (tt_isFQDN T)]),
     field ''logoUrl'' StringType (optionalAll [onText (tt_isUrl T)]),
     field ''websiteUrl'' StringType (optionalAll [onText (tt_isUrl T)]),
     field ''wallet'' StringType (optionalAll [onText walletText]),
     field ''status'' StringType (optionalAll [isIn (map snd statusTable)])]"

definition institutionBody :: "textTests \<Rightarrow> value \<Rightarrow> exn + updateInstitutionDto" where
  "institutionBody T = parsed (UpdateInstitutionDto T) (\<lambda>d. \<lparr>ui_name = optText (d ''name''),
     ui_displayName = optText (d ''displayName''), ui_domain = optText (d ''domain''),
     ui_logoUrl = optText (d ''logoUrl''), ui_websiteUrl = optText (d ''websiteUrl''),
     ui_wallet = optText (d ''wallet''), ui_status = enumOf statusTable (d ''status'')\<rparr>)"

subsection \<open>Documents and verification\<close>

definition CreateDocumentProofDto :: "textTests \<Rightarrow> member list" where
  "CreateDocumentProofDto T =
    [field ''title'' StringType (allOf [isString, maxLength 160]),
     field ''documentType'' StringType (allOf [isString, maxLength 80]),
     field ''referenceNumber'' StringType (optionalAll [isString, maxLength 80]),
     field ''documentDate'' StringType (optionalAll [onText (tt_isDateString T)])]"

definition createProofBody :: "textTests \<Rightarrow> value \<Rightarrow> exn + createProofDto" where
  "createProofBody T = parsed (CreateDocumentProofDto T) (\<lambda>d. \<lparr>cp_title = textOf (d ''title''),
     cp_documentType = textOf (d ''documentType''), cp_referenceNumber = optText (d ''referenceNumber''),
     cp_documentDate = optText (d ''documentDate'')\<rparr>)"

definition BulkDeleteDocumentProofsDto :: "member list" where
  "BulkDeleteDocumentProofsDto = [idsMember]"

definition REFERENCE_CHARS :: string where
  "REFERENCE_CHARS = ''ABCDEFGHIJKLMNOPQRSTUVWXYZabcdefghijklmnopqrstuvwxyz0123456789_-''"

definition MAX_REFERENCE_LENGTH :: nat where "MAX_REFERENCE_LENGTH = 256"

definition trimText :: "value \<Rightarrow> value" where
  "trimText v = (case v of VStr s \<Rightarrow> VStr (trim s) | _ \<Rightarrow> v)"

definition referenceChecks :: "check list" where
  "referenceChecks = [isString, maxLength MAX_REFERENCE_LENGTH, matchesChars REFERENCE_CHARS]"

text \<open>\<open>@ValidateIf\<close>: the code is checked only when there is no identifier.\<close>

definition VerifyDocumentCodeDto :: "member list" where
  "VerifyDocumentCodeDto =
    [\<lparr>mb_name = ''verificationCode'', mb_type = StringType, mb_transform = trimText,
      mb_check = (\<lambda>d v. d ''verificationId'' \<noteq> VUndef \<or> allOf referenceChecks v)\<rparr>,
     (field ''verificationId'' StringType (optionalAll referenceChecks))\<lparr>mb_transform := trimText\<rparr>]"

text \<open>The reference the handler looks up: \<open>dto.verificationCode ?? dto.verificationId ?? ''\<close>.\<close>

definition verifyDocumentCodeBody :: "value \<Rightarrow> exn + value" where
  "verifyDocumentCodeBody = parsed VerifyDocumentCodeDto (\<lambda>d.
     if d ''verificationCode'' \<noteq> VUndef \<and> d ''verificationCode'' \<noteq> VNull then d ''verificationCode''
     else if d ''verificationId'' \<noteq> VUndef \<and> d ''verificationId'' \<noteq> VNull then d ''verificationId'' else VStr [])"

definition MAX_VERIFICATION_CODE_LENGTH :: nat where "MAX_VERIFICATION_CODE_LENGTH = 128"

definition VerifyCredentialCodeDto :: "member list" where
  "VerifyCredentialCodeDto =
    [field ''verificationCode'' StringType (optionalAll [isString, maxLength MAX_VERIFICATION_CODE_LENGTH]),
     field ''verificationId'' StringType (optionalAll [isString, maxLength MAX_VERIFICATION_CODE_LENGTH])]"

definition VerifyCredentialDto :: "member list" where
  "VerifyCredentialDto =
    [field ''credentialId'' StringType (optionalAll [isString, maxLength MAX_VERIFICATION_CODE_LENGTH]),
     field ''hash'' StringType (optionalAll [isString, maxLength 128]),
     field ''issuerDomain'' StringType (optionalAll [isString, maxLength 253])]"

end
