(* ===== verification/RequestLaws.thy ===== *)
theory RequestLaws
  imports Requests CredentialHistory
begin

text \<open>
  What the handlers may rely on after the pipe, and what it lets through against the comments: the bodies
  of the credential routes are bounded, a body the browser builds from a checked form is accepted
  unchanged, and the conversions of the pipe run before the checks.
\<close>

lemma parsed_Inr:
  "parsed ms build b = Inr x \<longleftrightarrow> bodyAccepted ms b \<and> x = build (instanceOf ms b)"
  by (auto simp: parsed_def)

lemma member_checked:
  "bodyAccepted ms b \<Longrightarrow> m \<in> set ms \<Longrightarrow> mb_check m (instanceOf ms b) (instanceOf ms b (mb_name m))"
  by (simp add: bodyAccepted_def)

lemma field_simps [simp]:
  "mb_name (field nm ty c) = nm" "mb_check (field nm ty c) = (\<lambda>_. c)"
  "mb_type (field nm ty c) = ty" "mb_transform (field nm ty c) = (\<lambda>v. v)"
  by (simp_all add: field_def)

lemmas check_defs = allOf_def optionalAll_def isString_def isBoolean_def onText_def onInt_def minLength_def
  maxLength_def isIn_def matchesChars_def

lemma bounded_text:
  assumes "allOf [isString, minLength m, maxLength n] v"
  shows "m \<le> length (textOf v) \<and> length (textOf v) \<le> n"
  using assms by (cases v) (auto simp: check_defs textOf_def)

lemma bounded_number:
  assumes "optionalAll [onInt p, onInt q] v" and "optInt v = Some n"
  shows "p n \<and> q n"
  using assms by (cases v) (auto simp: check_defs optInt_def)

lemma bounded_positive:
  assumes "optionalAll [onInt p] v" and "optInt v = Some n"
  shows "p n"
  using assms by (cases v) (auto simp: check_defs optInt_def)

lemma string_length: "allOf [isString, maxLength k] x \<Longrightarrow> length (textOf x) \<le> k"
  by (cases x) (auto simp: check_defs textOf_def)

lemma bounded_ids:
  assumes "eachOf n [isString, maxLength k] v"
  shows "textsOf v \<noteq> [] \<and> length (textsOf v) \<le> n \<and> (\<forall>x \<in> set (textsOf v). length x \<le> k)"
  using assms string_length [of k] by (cases v) (simp_all add: eachOf_def textsOf_def)

subsection \<open>What an accepted body promises\<close>

lemma create_bounded:
  assumes "createBody b = Inr dto"
  shows "2 \<le> length (cd_studentName dto) \<and> length (cd_studentName dto) \<le> 200 \<and>
    2 \<le> length (cd_studentId dto) \<and> length (cd_studentId dto) \<le> 64 \<and>
    2 \<le> length (cd_degree dto) \<and> length (cd_degree dto) \<le> 200 \<and>
    (\<forall>y. cd_graduationYear dto = Some y \<longrightarrow> 1900 \<le> y \<and> y \<le> 2200)"
proof -
  let ?d = "instanceOf CreateCredentialDto b"
  have acc: "bodyAccepted CreateCredentialDto b"
    and dto: "dto = \<lparr>cd_studentName = textOf (?d ''studentName''), cd_studentId = textOf (?d ''studentId''),
      cd_degree = textOf (?d ''degree''), cd_graduationYear = optInt (?d ''graduationYear'')\<rparr>"
    using assms by (simp_all add: createBody_def parsed_Inr)
  have checks: "allOf [isString, minLength 2, maxLength 200] (?d ''studentName'')"
    "allOf [isString, minLength 2, maxLength 64] (?d ''studentId'')"
    "allOf [isString, minLength 2, maxLength 200] (?d ''degree'')"
    "optionalAll [onInt (\<lambda>n. 1900 \<le> n), onInt (\<lambda>n. n \<le> 2200)] (?d ''graduationYear'')"
    using acc by (simp_all add: bodyAccepted_def CreateCredentialDto_def MAX_STUDENT_NAME_LENGTH_def
        MAX_STUDENT_ID_LENGTH_def MAX_DEGREE_LENGTH_def)
  show ?thesis
    using bounded_text [OF checks(1)] bounded_text [OF checks(2)] bounded_text [OF checks(3)]
      bounded_number [OF checks(4)] by (simp add: dto)
qed

lemma ids_bounded:
  "bulkDeleteBody b = Inr ids \<Longrightarrow> ids \<noteq> [] \<and> length ids \<le> 500 \<and> (\<forall>i \<in> set ids. length i \<le> 64)"
  "bulkRevokeBody b = Inr (ids, r) \<Longrightarrow> ids \<noteq> [] \<and> length ids \<le> 500 \<and> (\<forall>i \<in> set ids. length i \<le> 64)"
  using bounded_ids [of 500 64]
  by (auto simp: bulkDeleteBody_def bulkRevokeBody_def parsed_Inr bodyAccepted_def BulkDeleteCredentialsDto_def
      BulkRevokeCredentialsDto_def idsMember_def MAX_BULK_IDS_def MAX_ID_LENGTH_def)

lemma query_bounded:
  assumes "listQuery b = Inr q"
  shows "1 \<le> orElse (ld_page q) 1 \<and> 1 \<le> orElse (ld_pageSize q) DEFAULT_CREDENTIAL_PAGE_SIZE \<and>
    orElse (ld_pageSize q) DEFAULT_CREDENTIAL_PAGE_SIZE \<le> 100"
proof -
  let ?d = "instanceOf ListCredentialsDto b"
  have acc: "bodyAccepted ListCredentialsDto b"
    and q: "ld_page q = optInt (?d ''page'')" "ld_pageSize q = optInt (?d ''pageSize'')"
    using assms by (simp_all add: listQuery_def parsed_Inr)
  have checks: "optionalAll [onInt (\<lambda>n. 1 \<le> n)] (?d ''page'')"
    "optionalAll [onInt (\<lambda>n. 1 \<le> n), onInt (\<lambda>n. n \<le> 100)] (?d ''pageSize'')"
    using acc by (simp_all add: bodyAccepted_def ListCredentialsDto_def)
  show ?thesis
    using bounded_positive [OF checks(1)] bounded_number [OF checks(2)]
    by (auto simp: q orElse_def DEFAULT_CREDENTIAL_PAGE_SIZE_def split: option.splits)
qed

lemma list_page_bounded:
  "wp (listCredentials E admin q) (\<lambda>r _. int (length (lr_items r)) \<le>
      max 0 (orElse (ld_pageSize q) DEFAULT_CREDENTIAL_PAGE_SIZE)) (\<lambda>_ _. True) w"
proof -
  have any: "wp (resolveInstitutionId E admin) (\<lambda>_ _. True) (\<lambda>_ _. True) w"
    by (simp add: wp_def split: prod.splits sum.splits)
  show ?thesis
    unfolding listCredentials_def wp_bind Let_def
    by (rule wp_mono [OF any])
      (auto simp: wp_simps requireIssuers_def withIssuers_def listPage_def split: option.splits)
qed

text \<open>
  C26. What four requests of the credential routes may carry. An accepted issuance has a name, an
  identifier and a degree of two to 200, 64 and 200 letters and a year from 1900 to 2200; an accepted
  bulk deletion or revocation names at least one and at most 500 credentials, each by at most 64 letters;
  and a listing asked for by an accepted query, in any state and under any faults, answers with at most
  100 rows from page 1 on. What these four do not accept is a bad request. Other classes are weaker:
  \<open>code_beside_identifier_unchecked\<close> below shows one that bounds nothing.
\<close>

theorem accepted_requests_bounded:
  "(\<forall>dto. createBody b = Inr dto \<longrightarrow> 2 \<le> length (cd_studentName dto) \<and> length (cd_studentName dto) \<le> 200 \<and>
      2 \<le> length (cd_studentId dto) \<and> length (cd_studentId dto) \<le> 64 \<and>
      2 \<le> length (cd_degree dto) \<and> length (cd_degree dto) \<le> 200 \<and>
      (\<forall>y. cd_graduationYear dto = Some y \<longrightarrow> 1900 \<le> y \<and> y \<le> 2200)) \<and>
   (\<forall>ids. bulkDeleteBody b = Inr ids \<or> (\<exists>r. bulkRevokeBody b = Inr (ids, r)) \<longrightarrow>
      ids \<noteq> [] \<and> length ids \<le> 500 \<and> (\<forall>i \<in> set ids. length i \<le> 64)) \<and>
   (\<forall>q page. listQuery b = Inr q \<and> fst (listCredentials E admin q w) = Inr page \<longrightarrow>
      1 \<le> orElse (ld_page q) 1 \<and> length (lr_items page) \<le> 100) \<and>
   (\<forall>e. createBody b = Inl e \<or> listQuery b = Inl e \<or> bulkDeleteBody b = Inl e \<or> bulkRevokeBody b = Inl e \<longrightarrow>
      e = BAD_REQUEST)"
proof (intro conjI allI impI)
  fix q page
  assume q: "listQuery b = Inr q \<and> fst (listCredentials E admin q w) = Inr page"
  show "1 \<le> orElse (ld_page q) 1" "length (lr_items page) \<le> 100"
    using query_bounded [of b q] q list_page_bounded [of E admin q w]
    by (auto simp: wp_def split: prod.splits)
next
  fix e
  assume "createBody b = Inl e \<or> listQuery b = Inl e \<or> bulkDeleteBody b = Inl e \<or> bulkRevokeBody b = Inl e"
  then show "e = BAD_REQUEST"
    by (auto simp: createBody_def listQuery_def bulkDeleteBody_def bulkRevokeBody_def parsed_def split: if_splits)
qed (auto dest: create_bounded ids_bounded)

subsection \<open>Bodies from the checked forms\<close>

lemma optional_cases: "optionalAll cs v \<longleftrightarrow> v = VUndef \<or> v = VNull \<or> (\<forall>c \<in> set cs. c v)"
  by (simp add: optionalAll_def allOf_def)

lemma create_accepts:
  assumes "2 \<le> length n" "length n \<le> 200" "2 \<le> length i" "length i \<le> 64" "2 \<le> length g" "length g \<le> 200"
  shows "createBody (VObj [(''studentName'', VStr n), (''studentId'', VStr i), (''degree'', VStr g)]) =
    Inr \<lparr>cd_studentName = n, cd_studentId = i, cd_degree = g, cd_graduationYear = None\<rparr>"
  using assms by (simp add: createBody_def parsed_def bodyAccepted_def CreateCredentialDto_def instanceOf_def
      vget_def vkeys_def implicitly_def check_defs textOf_def optInt_def MAX_STUDENT_NAME_LENGTH_def
      MAX_STUDENT_ID_LENGTH_def MAX_DEGREE_LENGTH_def)

lemma ids_accepted:
  assumes "ids \<noteq> []" "length ids \<le> 500" "\<forall>i \<in> set ids. length i \<le> 64"
  shows "bulkDeleteBody (VObj [(''ids'', VArr (map VStr ids))]) = Inr ids"
  using assms by (simp add: bulkDeleteBody_def parsed_def bodyAccepted_def BulkDeleteCredentialsDto_def
      idsMember_def instanceOf_def vget_def vkeys_def implicitly_def eachOf_def check_defs textsOf_def textOf_def
      MAX_BULK_IDS_def MAX_ID_LENGTH_def comp_def)

subsection \<open>What the pipe lets through\<close>

lemmas request_defs = parsed_def bodyAccepted_def instanceOf_def vget_def vkeys_def implicitly_def check_defs
  textOf_def optText_def optBool_def optInt_def field_def

text \<open>A boolean in a query arrives as text, and every text converts to true before the transformation sees it.\<close>

lemma revoked_false_lists_revoked:
  "map_option ld_revoked (case listQuery (VObj [(''revoked'', VStr ''false'')]) of Inr q \<Rightarrow> Some q | _ \<Rightarrow> None) =
     Some (Some True)"
  by (simp add: listQuery_def ListCredentialsDto_def booleanText_def request_defs)

lemma commit_false_issues:
  "bulkIssueBody (VObj [(''csv'', VStr ''x''), (''commit'', VStr ''false'')]) =
     Inr \<lparr>bk_csv = Some ''x'', bk_commit = Some True\<rparr>"
  by (simp add: bulkIssueBody_def BulkIssueCredentialsDto_def booleanText_def request_defs MAX_CSV_BYTES_def)

text \<open>An object where a text belongs is accepted as its description, which is then signed.\<close>

lemma object_accepted_as_name:
  "createBody (VObj [(''studentName'', VObj []), (''studentId'', VStr ''S1''), (''degree'', VStr ''BSc'')]) =
     Inr \<lparr>cd_studentName = ''[object Object]'', cd_studentId = ''S1'', cd_degree = ''BSc'', cd_graduationYear = None\<rparr>"
  by (simp add: createBody_def CreateCredentialDto_def request_defs MAX_STUDENT_NAME_LENGTH_def
      MAX_STUDENT_ID_LENGTH_def MAX_DEGREE_LENGTH_def)

text \<open>With an identifier beside it the code is looked up unchecked, whatever it holds.\<close>

lemma code_beside_identifier_unchecked:
  "verifyDocumentCodeBody (VObj [(''verificationId'', VStr ''x''), (''verificationCode'', VStr s)]) =
     Inr (VStr (trim s))"
proof -
  have "trim ''x'' = ''x''" by code_simp
  then show ?thesis
    by (simp add: verifyDocumentCodeBody_def VerifyDocumentCodeDto_def referenceChecks_def trimText_def
        request_defs MAX_REFERENCE_LENGTH_def REFERENCE_CHARS_def)
qed

text \<open>The limit on a new password counts letters; this one takes 80 bytes in UTF-8.\<close>

lemma long_password_accepted:
  "registerBody (VObj [(''username'', VStr ''ann''), (''password'', VStr (replicate 40 (CHR 0xE9)))]) =
     Inr \<lparr>rg_username = ''ann'', rg_password = replicate 40 (CHR 0xE9), rg_role = None\<rparr>"
  by (simp add: registerBody_def RegisterDto_def enumOf_def roleTable_def request_defs
      MAX_IDENTIFIER_LENGTH_def MAX_PASSWORD_LENGTH_def USERNAME_CHARS_def)

text \<open>The same pipe on concrete requests: a page of one row, the last two credentials, a graduate.\<close>

definition onePage :: listDto where
  "onePage = \<lparr>ld_studentId = None, ld_studentName = None, ld_revoked = None, ld_issuedYear = None,
     ld_page = None, ld_pageSize = Some 1\<rparr>"

lemma onePage_query: "listQuery (VObj [(''pageSize'', VNum 1)]) = Inr onePage"
  by (simp add: listQuery_def ListCredentialsDto_def onePage_def request_defs)

definition linkedActor :: jwtPayload where
  "linkedActor = sampleActor\<lparr>j_issuerId := Some ''i1''\<rparr>"

lemma onePage_listed: "\<exists>page. fst (listCredentials sampleEnv linkedActor onePage registryWorld) = Inr page"
proof -
  have iss: "issuerOf (database registryWorld) ''i1'' = Some sampleIssuer" "i_status sampleIssuer = ISSUER_ACTIVE"
    by (simp_all add: issuerOf_def registryWorld_def sampleIssuer_def)
  have fault: "fault sampleEnv n = None" for n by (simp add: sampleEnv_def)
  have rows: "withIssuers (database registryWorld) (listPage E i q p n (database registryWorld)) =
      map (\<lambda>c. (c, Some sampleIssuer)) (listPage E i q p n (database registryWorld))" for E i q p n
    by (auto simp: withIssuers_def listPage_def newestCredentials_def registryWorld_credentials sampleCredential_def
        iss dest!: in_set_takeD in_set_dropD)
  have "wp (listCredentials sampleEnv linkedActor onePage) (\<lambda>_ _. True) (\<lambda>_ _. False) registryWorld"
    unfolding listCredentials_def resolveInstitutionId_def resolveInstitutionForAdmin_def Let_def
    by (simp add: wp_simps fault truthy_def linkedActor_def requireIssuers_def iss rows image_iff)
  then show ?thesis by (auto simp: wp_def split: prod.splits sum.splits)
qed

theorem accepted_requests_bounded_witness:
  "(\<exists>page. fst (listCredentials sampleEnv linkedActor onePage registryWorld) = Inr page \<and>
      length (lr_items page) \<le> 100) \<and>
   (\<exists>ids. bulkDeleteBody (VObj [(''ids'', VArr (map VStr [''crd_1'', ''crd_2'']))]) = Inr ids \<and>
      length ids \<le> 500) \<and>
   (\<exists>dto. createBody (VObj [(''studentName'', VStr ''Ann''), (''studentId'', VStr ''S1''), (''degree'', VStr ''BSc'')])
      = Inr dto \<and> length (cd_studentName dto) \<le> 200)"
proof -
  obtain page where page: "fst (listCredentials sampleEnv linkedActor onePage registryWorld) = Inr page"
    using onePage_listed by blast
  have "length (lr_items page) \<le> 100"
    using accepted_requests_bounded [of "VObj [(''pageSize'', VNum 1)]" sampleEnv linkedActor registryWorld]
      onePage_query page by blast
  moreover have ids: "bulkDeleteBody (VObj [(''ids'', VArr (map VStr [''crd_1'', ''crd_2'']))]) = Inr [''crd_1'', ''crd_2'']"
    by (rule ids_accepted) simp_all
  moreover have "length [''crd_1'', ''crd_2''] \<le> 500"
    using accepted_requests_bounded [of "VObj [(''ids'', VArr (map VStr [''crd_1'', ''crd_2'']))]"] ids by blast
  moreover obtain dto where dto: "createBody (VObj [(''studentName'', VStr ''Ann''), (''studentId'', VStr ''S1''),
      (''degree'', VStr ''BSc'')]) = Inr dto"
    using create_accepts [of "''Ann''" "''S1''" "''BSc''"] by simp
  moreover have "length (cd_studentName dto) \<le> 200"
    using accepted_requests_bounded
      [of "VObj [(''studentName'', VStr ''Ann''), (''studentId'', VStr ''S1''), (''degree'', VStr ''BSc'')]"] dto by blast
  ultimately show ?thesis using page by blast
qed

end
