(* ===== verification/WebForms.thy ===== *)
theory WebForms
  imports WebPages AuditLog
begin

text \<open>
  The forms of the web application as they run in the browser (\<open>apps/web/src/components\<close>). A form is
  a state, what its submission sends and what the answer makes of the state; between the two anything
  may happen to the state. Texts come from the dictionary, a parameter; the texts of the exceptions of
  the browser are those of the answer it could not read. What a form draws is left out.
\<close>

subsection \<open>Requests and answers in the browser\<close>

type_synonym dictionary = "string \<Rightarrow> string"

record clientRequest =
  cl_method :: httpMethod
  cl_path :: string
  cl_body :: backendBody

definition sending :: "httpMethod \<Rightarrow> string \<Rightarrow> value \<Rightarrow> clientRequest" where
  "sending m p v = \<lparr>cl_method = m, cl_path = p, cl_body = JsonText (dbJson v)\<rparr>"

definition asking :: "httpMethod \<Rightarrow> string \<Rightarrow> clientRequest" where
  "asking m p = \<lparr>cl_method = m, cl_path = p, cl_body = NoBody\<rparr>"

text \<open>What \<open>fetch\<close> and \<open>response.json()\<close> give: a rejection, or a status and a body or why it is none.\<close>

datatype reply = Unreached string | Answered int "string + value"

definition replyOk :: "int \<Rightarrow> bool" where
  "replyOk status \<longleftrightarrow> 200 \<le> status \<and> status \<le> 299"

definition NO_MEMBERS :: string where
  "NO_MEMBERS = ''Cannot read properties of null''"

definition memberOf :: "value \<Rightarrow> string \<Rightarrow> string + value" where
  "memberOf v k = (if v = VNull \<or> v = VUndef then Inl NO_MEMBERS else Inr (vget v k))"

definition hasMember :: "value \<Rightarrow> string \<Rightarrow> string + bool" where
  "hasMember v k = (if isObject v then Inr (k \<in> set (vkeys v)) else Inl ''Cannot use in operator'')"

definition errorText :: "value \<Rightarrow> string" where
  "errorText v = (case v of VArr vs \<Rightarrow>
       join '','' (map (\<lambda>x. if x = VNull \<or> x = VUndef then [] else stringOf x) vs)
     | _ \<Rightarrow> stringOf v)"

text \<open>\<open>new Error(m ?? d).message\<close>\<close>

definition messageText :: "string \<Rightarrow> value \<Rightarrow> string" where
  "messageText d m = (if m = VNull \<or> m = VUndef then d else errorText m)"

definition jsTruthy :: "value \<Rightarrow> bool" where
  "jsTruthy v \<longleftrightarrow> (case v of VUndef \<Rightarrow> False | VNull \<Rightarrow> False | VBool b \<Rightarrow> b | VNum n \<Rightarrow> n \<noteq> 0
     | VStr s \<Rightarrow> s \<noteq> [] | _ \<Rightarrow> True)"

definition refusal :: "string \<Rightarrow> string + value \<Rightarrow> string" where
  "refusal d b = (case b of Inl m \<Rightarrow> m | Inr v \<Rightarrow>
     (case memberOf v ''message'' of Inl m \<Rightarrow> m | Inr x \<Rightarrow> messageText d x))"

text \<open>The two orders the handlers use: read the body, then test the status; or read it on a refusal only.\<close>

definition jsonThen :: "string \<Rightarrow> reply \<Rightarrow> (value \<Rightarrow> string + 'a) \<Rightarrow> string + 'a" where
  "jsonThen d r k = (case r of Unreached m \<Rightarrow> Inl m
   | Answered status b \<Rightarrow> (case b of Inl m \<Rightarrow> Inl m
     | Inr v \<Rightarrow> if replyOk status then k v else Inl (refusal d b)))"

definition okThen :: "string \<Rightarrow> reply \<Rightarrow> (string + value \<Rightarrow> string + 'a) \<Rightarrow> string + 'a" where
  "okThen d r k = (case r of Unreached m \<Rightarrow> Inl m
   | Answered status b \<Rightarrow> if replyOk status then k b else Inl (refusal d b))"

subsection \<open>The state of a form\<close>

datatype goTo = PushTo string | RefreshPage | AssignTo string

record formState =
  fs_busy :: bool
  fs_error :: "string option"
  fs_success :: "string option"
  fs_open :: bool
  fs_result :: "value option"
  fs_goes :: "goTo list"

definition started :: "formState \<Rightarrow> formState" where
  "started st = st\<lparr>fs_busy := True, fs_error := None, fs_success := None\<rparr>"

definition goesTo :: "goTo list \<Rightarrow> formState \<Rightarrow> formState" where
  "goesTo gs st = st\<lparr>fs_goes := fs_goes st @ gs\<rparr>"

definition announces :: "string \<Rightarrow> formState \<Rightarrow> formState" where
  "announces m st = st\<lparr>fs_success := Some m\<rparr>"

definition closes :: "formState \<Rightarrow> formState" where
  "closes st = st\<lparr>fs_open := False\<rparr>"

definition settled :: "string + (formState \<Rightarrow> formState) \<Rightarrow> formState \<Rightarrow> formState" where
  "settled r st = (case r of Inl e \<Rightarrow> st\<lparr>fs_error := Some e\<rparr> | Inr f \<Rightarrow> f st)\<lparr>fs_busy := False\<rparr>"

type_synonym formData = "string \<Rightarrow> string option"

definition formText :: "formData \<Rightarrow> string \<Rightarrow> string" where
  "formText d k = orElse (d k) []"

subsection \<open>Credentials and accounts\<close>

definition issueFormRequest :: "formData \<Rightarrow> clientRequest" where
  "issueFormRequest d = sending MPost ''/api/credentials'' (VObj
     [(''studentName'', VStr (formText d ''studentName'')), (''studentId'', VStr (formText d ''studentId'')),
      (''degree'', VStr (formText d ''degree''))])"

definition issueFormDone :: "dictionary \<Rightarrow> reply \<Rightarrow> formState \<Rightarrow> formState" where
  "issueFormDone t r = settled (jsonThen (t ''issueCredential.unable'') r (\<lambda>body.
     case memberOf body ''verificationId'' of Inl m \<Rightarrow> Inl m
     | Inr vid \<Rightarrow> Inr (\<lambda>st. goesTo [RefreshPage] (announces
         (if jsTruthy vid then t ''issueCredential.successPrefix'' @ '' '' @ stringOf vid
          else t ''issueCredential.successDefault'') st))))"

definition createAdminRequest :: "formData \<Rightarrow> clientRequest" where
  "createAdminRequest d = sending MPost ''/api/admins'' (VObj
     [(''username'', VStr (formText d ''username'')), (''password'', VStr (formText d ''password'')),
      (''role'', VStr (orElse (d ''role'') ''ADMIN''))])"

definition createAdminDone :: "dictionary \<Rightarrow> reply \<Rightarrow> formState \<Rightarrow> formState" where
  "createAdminDone t r = settled (jsonThen (t ''createAdmin.unable'') r (\<lambda>body.
     Inr (\<lambda>st. goesTo [RefreshPage] (announces (t ''createAdmin.success'') st))))"

text \<open>The roles the creation form offers, and the changes the row of an account offers.\<close>

definition roleOptions :: "string option \<Rightarrow> string list" where
  "roleOptions actorRole =
     (if actorRole = Some ''OWNER'' \<or> actorRole = Some ''SUPER_ADMIN'' then [''SUPER_ADMIN''] else []) @
     [''ADMIN'', ''AUDITOR'']"

definition isElevated :: "string \<Rightarrow> bool" where
  "isElevated r \<longleftrightarrow> r = ''SUPER_ADMIN'' \<or> r = ''OWNER''"

datatype adminAction = SetRole string | SetActive bool | DeleteAccount

definition adminActions :: "string \<Rightarrow> bool \<Rightarrow> bool \<Rightarrow> adminAction list" where
  "adminActions role active disabled = (if disabled then [] else
     (if isElevated role \<or> role = ''ADMIN''
      then [SetRole (if isElevated role then ''ADMIN'' else ''SUPER_ADMIN'')] else []) @
     [SetActive (\<not> active)] @ (if \<not> active then [DeleteAccount] else []))"

fun adminRequest :: "string \<Rightarrow> adminAction \<Rightarrow> clientRequest" where
  "adminRequest i (SetRole r) = sending MPatch (''/api/admins/'' @ i) (VObj [(''role'', VStr r)])"
| "adminRequest i (SetActive b) = sending MPatch (''/api/admins/'' @ i) (VObj [(''active'', VBool b)])"
| "adminRequest i DeleteAccount = asking MDelete (''/api/admins/'' @ i)"

text \<open>A change does not look at the answer; only the deletion does.\<close>

definition adminUpdated :: "reply \<Rightarrow> formState \<Rightarrow> formState" where
  "adminUpdated r st = (case r of Unreached m \<Rightarrow> st | Answered status b \<Rightarrow> goesTo [RefreshPage] st)
     \<lparr>fs_busy := False\<rparr>"

definition adminDeleted :: "dictionary \<Rightarrow> reply \<Rightarrow> formState \<Rightarrow> formState" where
  "adminDeleted t r = settled (okThen (t ''adminStatus.unableDelete'') r (\<lambda>_.
     Inr (\<lambda>st. goesTo [RefreshPage] (closes st))))"

fun adminDone :: "dictionary \<Rightarrow> adminAction \<Rightarrow> reply \<Rightarrow> formState \<Rightarrow> formState" where
  "adminDone t DeleteAccount r = adminDeleted t r"
| "adminDone t _ r = adminUpdated r"

definition trimmedText :: "string \<Rightarrow> value" where
  "trimmedText s = (if trim s = [] then VUndef else VStr (trim s))"

text \<open>Revocation and deletion of one credential; the first needs a reason.\<close>

definition revokeClick :: "dictionary \<Rightarrow> string \<Rightarrow> string \<Rightarrow> string \<Rightarrow> string + clientRequest" where
  "revokeClick t i reason notes = (if reason = [] then Inl (t ''revokeCredential.reasonRequired'')
     else Inr (sending MPatch (''/api/credentials/'' @ i @ ''/revoke'')
       (VObj [(''reason'', VStr reason), (''notes'', trimmedText notes)])))"

text \<open>The dialog: the form, the chosen reason and the notes, which a success clears.\<close>

type_synonym revokeDialog = "formState \<times> string \<times> string"

definition revokeDone :: "dictionary \<Rightarrow> reply \<Rightarrow> revokeDialog \<Rightarrow> revokeDialog" where
  "revokeDone t r d = (case okThen (t ''revokeCredential.unable'') r (\<lambda>_. Inr ()) of
     Inl e \<Rightarrow> (settled (Inl e) (fst d), snd d)
   | Inr u \<Rightarrow> (settled (Inr (\<lambda>st. goesTo [RefreshPage] (closes st))) (fst d), [], []))"

definition deleteClick :: "string \<Rightarrow> clientRequest" where
  "deleteClick i = asking MDelete (''/api/credentials/'' @ i)"

definition deleteDone :: "dictionary \<Rightarrow> string option \<Rightarrow> reply \<Rightarrow> formState \<Rightarrow> formState" where
  "deleteDone t redirectTo r = settled (okThen (t ''deleteCredential.unable'') r (\<lambda>_.
     Inr (\<lambda>st. goesTo (if truthy redirectTo then [PushTo (the redirectTo)] else [RefreshPage]) (closes st))))"

subsection \<open>The session\<close>

definition loginFormRequest :: "formData \<Rightarrow> clientRequest" where
  "loginFormRequest d = sending MPost ''/api/session/login'' (VObj
     [(''username'', VStr (formText d ''username'')), (''password'', VStr (formText d ''password''))])"

definition loginFormDone :: "dictionary \<Rightarrow> reply \<Rightarrow> formState \<Rightarrow> formState" where
  "loginFormDone t r = settled (okThen (t ''loginForm.errorDefault'') r (\<lambda>_.
     Inr (goesTo [PushTo ''/dashboard'', RefreshPage])))"

definition logoutRequest :: clientRequest where
  "logoutRequest = asking MPost ''/api/session/logout''"

definition logoutDone :: "reply \<Rightarrow> formState \<Rightarrow> formState" where
  "logoutDone r st = (case r of Unreached m \<Rightarrow> st
     | Answered status b \<Rightarrow> goesTo [PushTo ''/login'', RefreshPage] st)\<lparr>fs_busy := False\<rparr>"

subsection \<open>Secure documents\<close>

record uploadFile =
  wf_name :: string
  wf_type :: string
  wf_size :: nat
  wf_bytes :: string

definition WEB_MAX_UPLOAD_BYTES :: nat where
  "WEB_MAX_UPLOAD_BYTES = 10 * 1024 * 1024"

definition fileMember :: "uploadFile \<Rightarrow> string \<times> formValue" where
  "fileMember f = (''file'', FormFile (wf_name f) (wf_bytes f))"

definition posting :: "string \<Rightarrow> (string \<times> formValue) list \<Rightarrow> clientRequest" where
  "posting p ms = \<lparr>cl_method = MPost, cl_path = p, cl_body = FormData ms\<rparr>"

record proofFields =
  pf_title :: string
  pf_documentType :: string
  pf_referenceNumber :: string
  pf_documentDate :: string
  pf_file :: "uploadFile option"

definition createProofSubmit :: "dictionary \<Rightarrow> proofFields \<Rightarrow> string + clientRequest" where
  "createProofSubmit t f = (
     if trim (pf_title f) = [] \<or> trim (pf_documentType f) = [] then Inl (t ''createDocumentProof.titleRequired'')
     else case pf_file f of None \<Rightarrow> Inl (t ''createDocumentProof.choosePdfRequired'')
     | Some file \<Rightarrow> if WEB_MAX_UPLOAD_BYTES < wf_size file then Inl (t ''createDocumentProof.tooLarge'')
         else Inr (posting ''/api/document-proofs''
           ([(''title'', FormText (trim (pf_title f))), (''documentType'', FormText (trim (pf_documentType f)))] @
            (if trim (pf_referenceNumber f) \<noteq> [] then [(''referenceNumber'', FormText (trim (pf_referenceNumber f)))]
             else []) @
            (if pf_documentDate f \<noteq> [] then [(''documentDate'', FormText (pf_documentDate f))] else []) @
            [fileMember file])))"

text \<open>\<open>"message" in payload ? payload.message : d\<close>\<close>

definition messageIn :: "string \<Rightarrow> value \<Rightarrow> string" where
  "messageIn d v = (case hasMember v ''message'' of Inl m \<Rightarrow> m
     | Inr has \<Rightarrow> if has then errorText (vget v ''message'') else d)"

definition bodyThen :: "string \<Rightarrow> reply \<Rightarrow> (value \<Rightarrow> string + 'a) \<Rightarrow> string + 'a" where
  "bodyThen d r k = (case r of Unreached m \<Rightarrow> Inl m
   | Answered status b \<Rightarrow> (case b of Inl m \<Rightarrow> Inl m
     | Inr v \<Rightarrow> if replyOk status then k v else Inl (messageIn d v)))"

definition createProofDone :: "dictionary \<Rightarrow> reply \<Rightarrow> formState \<Rightarrow> formState" where
  "createProofDone t r = settled (bodyThen (t ''createDocumentProof.unable'') r (\<lambda>v.
     Inr (\<lambda>st. goesTo [RefreshPage] (st\<lparr>fs_result := Some v\<rparr>))))"

definition deleteProofClick :: "string \<Rightarrow> clientRequest" where
  "deleteProofClick i = asking MDelete (''/api/document-proofs/'' @ i)"

definition deleteProofDone :: "dictionary \<Rightarrow> reply \<Rightarrow> formState \<Rightarrow> formState" where
  "deleteProofDone t r = settled (okThen (t ''deleteDocumentProof.unable'') r (\<lambda>_.
     Inr (\<lambda>st. goesTo [RefreshPage] (closes st))))"

subsection \<open>The institution\<close>

definition orUndefined :: "string \<Rightarrow> value" where
  "orUndefined s = (if s = [] then VUndef else VStr s)"

definition settingsRequest :: "string \<Rightarrow> formData \<Rightarrow> clientRequest" where
  "settingsRequest status d = sending MPatch ''/api/institution'' (VObj
     [(''name'', VStr (formText d ''name'')), (''displayName'', orUndefined (formText d ''displayName'')),
      (''domain'', VStr (formText d ''domain'')), (''websiteUrl'', orUndefined (formText d ''websiteUrl'')),
      (''logoUrl'', VUndef), (''wallet'', orUndefined (formText d ''wallet'')),
      (''status'', VStr (orElse (d ''status'') status))])"

definition settingsDone :: "dictionary \<Rightarrow> reply \<Rightarrow> formState \<Rightarrow> formState" where
  "settingsDone t r = settled (jsonThen (t ''institutionSettings.unableUpdate'') r (\<lambda>_.
     Inr (\<lambda>st. goesTo [RefreshPage] (announces (t ''institutionSettings.saved'') st))))"

definition rotateClick :: clientRequest where
  "rotateClick = asking MPost ''/api/institution/signing-keys/rotate''"

definition rotateDone :: "dictionary \<Rightarrow> reply \<Rightarrow> formState \<Rightarrow> formState" where
  "rotateDone t r = settled (okThen (t ''signingKeys.rotateFailed'') r (\<lambda>_.
     Inr (\<lambda>st. goesTo [RefreshPage] (closes st))))"

definition keyLists :: "(value \<times> bool) list \<Rightarrow> value option \<times> value list" where
  "keyLists keys = (map_option fst (List.find snd keys), map fst (filter (\<lambda>k. \<not> snd k) keys))"

end
