(* ===== verification/WebPanels.thy ===== *)
theory WebPanels
  imports WebForms
begin

text \<open>
  The parts of the web application that keep a state between requests: the public search forms, the
  upload panel, the tables with their selection and bulk dialogs, and bulk issuance. What the visitor
  does and what comes back are events; a panel's behaviour is a step relation over them, so that an
  answer may arrive after the visitor has gone on.
\<close>

subsection \<open>The search form\<close>

record searchState =
  se_value :: string
  se_error :: "string option"
  se_busy :: bool
  se_prevInitial :: string
  se_prevPathname :: string

text \<open>What each rendering does first: follow a changed property, and drop the flag on navigation.\<close>

definition searchRender :: "string \<Rightarrow> string \<Rightarrow> searchState \<Rightarrow> searchState" where
  "searchRender initialValue pathname st =
     (let st = (if initialValue \<noteq> se_prevInitial st
            then st\<lparr>se_prevInitial := initialValue, se_value := initialValue\<rparr> else st)
      in if pathname \<noteq> se_prevPathname st then st\<lparr>se_prevPathname := pathname, se_busy := False\<rparr> else st)"

definition searchSubmit :: "dictionary \<Rightarrow> string \<Rightarrow> searchState \<Rightarrow> searchState \<times> goTo list" where
  "searchSubmit t pathname st = (let v = trim (se_value st); st = st\<lparr>se_error := None\<rparr> in
     if v = [] then (st\<lparr>se_error := Some (t ''verifyForm.errorEmpty'')\<rparr>, [])
     else let nextPath = ''/verify/'' @ encodeUriPart v; st = st\<lparr>se_busy := True\<rparr> in
       if pathname = nextPath then (st, [RefreshPage]) else (st, [PushTo nextPath]))"

subsection \<open>The other public forms\<close>

definition codeFormSubmit :: "dictionary \<Rightarrow> string \<Rightarrow> string + clientRequest" where
  "codeFormSubmit t input = (if trim input = [] then Inl (t ''documentProofForm.errorEmpty'')
     else Inr (sending MPost ''/api/verify/document/code'' (VObj
       [(''verificationId'', VStr (trim input)), (''verificationCode'', VStr (trim input))])))"

text \<open>Here a body \<open>null\<close> is read with care.\<close>

definition codeFormDone :: "dictionary \<Rightarrow> reply \<Rightarrow> formState \<Rightarrow> formState" where
  "codeFormDone t r = settled (case r of Unreached m \<Rightarrow> Inl m
     | Answered status b \<Rightarrow> (case b of Inl m \<Rightarrow> Inl m
       | Inr payload \<Rightarrow>
           if \<not> replyOk status
           then Inl (messageText (t ''documentProofForm.errorUnableToVerify'') (vget payload ''message''))
           else if jsTruthy (vget payload ''verificationId'')
           then Inr (goesTo [PushTo (''/proof/'' @ encodeUriPart (stringOf (vget payload ''verificationId''))),
             RefreshPage])
           else Inl (t ''documentProofForm.errorNotFound'')))"

definition pdfFormSubmit :: "dictionary \<Rightarrow> uploadFile option \<Rightarrow> string + clientRequest" where
  "pdfFormSubmit t file = (case file of None \<Rightarrow> Inl (t ''verifyPdfForm.errorNoFile'')
     | Some f \<Rightarrow> Inr (posting ''/api/verify/credential/pdf'' [fileMember f]))"

definition pdfFormReference :: "value \<Rightarrow> string + value" where
  "pdfFormReference payload = (case hasMember payload ''verificationId'' of Inl m \<Rightarrow> Inl m
     | Inr has \<Rightarrow> Inr (if \<not> has then VNull
         else if vget payload ''verificationId'' \<noteq> VNull \<and> vget payload ''verificationId'' \<noteq> VUndef
         then vget payload ''verificationId'' else vget (vget payload ''credential'') ''verificationId''))"

definition pdfFormDone :: "dictionary \<Rightarrow> reply \<Rightarrow> formState \<Rightarrow> formState" where
  "pdfFormDone t r = settled (bodyThen (t ''verifyPdfForm.errorUnableToRead'') r (\<lambda>payload.
     case pdfFormReference payload of Inl m \<Rightarrow> Inl m
     | Inr v \<Rightarrow> if jsTruthy v then Inr (goesTo [AssignTo (''/verify/'' @ encodeUriPart (stringOf v))])
         else Inl (t ''verifyPdfForm.errorNoReference'')))"

subsection \<open>The upload panel\<close>

text \<open>
  The answer of the upload, read as JSON by the browser: a body it cannot read is \<open>null\<close>. A refusal whose
  body is a text or a number makes the handler throw, and the promise never settles.
\<close>

datatype xhrAnswer = XhrError | XhrLoad int "value"

definition xhrOutcome :: "dictionary \<Rightarrow> xhrAnswer \<Rightarrow> (string + value) option" where
  "xhrOutcome t a = (case a of XhrError \<Rightarrow> Some (Inl (t ''uploadPanel.errorUnableToReach''))
     | XhrLoad status payload \<Rightarrow>
         if replyOk status \<and> jsTruthy payload then Some (Inr payload)
         else if \<not> jsTruthy payload then Some (Inl (t ''uploadPanel.errorUnableToVerify''))
         else case hasMember payload ''message'' of Inl m \<Rightarrow> None
           | Inr has \<Rightarrow> Some (Inl (if has \<and> jsTruthy (vget payload ''message'')
               then errorText (vget payload ''message'') else t ''uploadPanel.errorUnableToVerify'')))"

record panelState =
  up_file :: "uploadFile option"
  up_error :: "string option"
  up_busy :: bool
  up_progress :: int
  up_result :: "value option"
  up_inFlight :: "uploadFile list"

definition freshPanel :: panelState where
  "freshPanel = \<lparr>up_file = None, up_error = None, up_busy = False, up_progress = 0, up_result = None,
     up_inFlight = []\<rparr>"

definition endsWith :: "string \<Rightarrow> string \<Rightarrow> bool" where
  "endsWith e s \<longleftrightarrow> e = drop (length s - length e) s"

definition looksPdf :: "uploadFile \<Rightarrow> bool" where
  "looksPdf f \<longleftrightarrow> toLowerCase (trim (wf_type f)) \<in> {''application/pdf'', ''application/x-pdf''} \<or>
     endsWith ''.pdf'' (toLowerCase (trim (wf_name f)))"

definition selectFile :: "dictionary \<Rightarrow> uploadFile option \<Rightarrow> panelState \<Rightarrow> panelState" where
  "selectFile t file st = (let st = st\<lparr>up_error := None, up_result := None\<rparr> in
     case file of None \<Rightarrow> st
     | Some f \<Rightarrow> (if WEB_MAX_UPLOAD_BYTES < wf_size f
         then st\<lparr>up_file := None, up_error := Some (t ''uploadPanel.errorTooLarge'')\<rparr>
         else if \<not> looksPdf f then st\<lparr>up_file := None, up_error := Some (t ''uploadPanel.errorNotPdf'')\<rparr>
         else st\<lparr>up_file := Some f\<rparr>))"

definition clearFile :: "panelState \<Rightarrow> panelState" where
  "clearFile st = st\<lparr>up_file := None, up_error := None, up_result := None\<rparr>"

text \<open>The button is disabled while an upload runs and without a file.\<close>

definition canUpload :: "panelState \<Rightarrow> bool" where
  "canUpload st \<longleftrightarrow> \<not> up_busy st \<and> up_file st \<noteq> None"

definition uploadSubmit :: "dictionary \<Rightarrow> panelState \<Rightarrow> panelState" where
  "uploadSubmit t st = (case up_file st of
       None \<Rightarrow> st\<lparr>up_error := Some (t ''uploadPanel.errorNoFile''), up_result := None\<rparr>
     | Some f \<Rightarrow> st\<lparr>up_error := None, up_result := None, up_busy := True, up_progress := 0,
         up_inFlight := up_inFlight st @ [f]\<rparr>)"

definition uploadRequest :: "uploadFile \<Rightarrow> clientRequest" where
  "uploadRequest f = posting ''/api/verify/document'' [fileMember f]"

text \<open>\<open>Math.min(99, Math.round(loaded / whole * 100))\<close>, in exact arithmetic.\<close>

definition uploadProgress :: "nat \<Rightarrow> nat \<Rightarrow> panelState \<Rightarrow> panelState" where
  "uploadProgress loaded whole st = (if whole = 0 then st
     else st\<lparr>up_progress := min 99 ((200 * int loaded + int whole) div (2 * int whole))\<rparr>)"

definition uploadAnswer :: "dictionary \<Rightarrow> xhrAnswer \<Rightarrow> panelState \<Rightarrow> panelState" where
  "uploadAnswer t a st = (case xhrOutcome t a of None \<Rightarrow> st
     | Some (Inl e) \<Rightarrow> st\<lparr>up_error := Some e, up_busy := False\<rparr>
     | Some (Inr v) \<Rightarrow> st\<lparr>up_progress := 100, up_result := Some v, up_busy := False\<rparr>)"

definition shownResult :: "panelState \<Rightarrow> value option" where
  "shownResult st = (if up_busy st then None else up_result st)"

text \<open>The verdict and the heading the panel gives a status.\<close>

definition resultVerdict :: "string \<Rightarrow> string \<times> string" where
  "resultVerdict status = (if status = ''AUTHENTIC'' then (''verdictVerified'', ''titleConfirmed'')
     else if status = ''REVOKED'' then (''verdictRevoked'', ''titleProofFound'')
     else if status = ''DOCUMENT_MODIFIED'' then (''verdictModified'', ''titleTampered'')
     else (''verdictNotFound'', ''titleNoMatch''))"

text \<open>
  One event after another; the server answers each file by \<open>S\<close>. The first argument says whether the
  visitor keeps the file until the answer is there, which nothing in the panel enforces. What the code
  sets in a transition is set at once.
\<close>

inductive panelStep :: "bool \<Rightarrow> dictionary \<Rightarrow> (uploadFile \<Rightarrow> xhrAnswer) \<Rightarrow> panelState \<Rightarrow> panelState \<Rightarrow> bool"
  for patient t S where
  choose: "patient \<longrightarrow> \<not> up_busy st \<Longrightarrow> panelStep patient t S st (selectFile t file st)"
| clear: "patient \<longrightarrow> \<not> up_busy st \<Longrightarrow> panelStep patient t S st (clearFile st)"
| submit: "canUpload st \<Longrightarrow> panelStep patient t S st (uploadSubmit t st)"
| progress: "up_inFlight st \<noteq> [] \<Longrightarrow> loaded \<le> whole \<Longrightarrow> panelStep patient t S st (uploadProgress loaded whole st)"
| loaded: "up_inFlight st = before @ f # after \<Longrightarrow>
    panelStep patient t S st (uploadAnswer t (S f) (st\<lparr>up_inFlight := before @ after\<rparr>))"

subsection \<open>Tables with a selection\<close>

text \<open>A set of texts in the order of insertion.\<close>

definition jsSet :: "string list \<Rightarrow> string list" where
  "jsSet xs = rev (remdups (rev xs))"

definition toggled :: "string \<Rightarrow> string list \<Rightarrow> string list" where
  "toggled i xs = (if i \<in> set xs then filter (\<lambda>x. x \<noteq> i) xs else xs @ [i])"

datatype bulkAction = BulkRevoke | BulkDelete

record tableState =
  tb_rows :: "(string \<times> bool) list"
  tb_selected :: "string list"
  tb_action :: "bulkAction option"
  tb_toast :: "string option"
  tb_goes :: "goTo list"

definition allIds :: "tableState \<Rightarrow> string list" where
  "allIds st = map fst (tb_rows st)"

definition activeIds :: "tableState \<Rightarrow> string list" where
  "activeIds st = map fst (filter (\<lambda>r. \<not> snd r) (tb_rows st))"

definition revokedIds :: "tableState \<Rightarrow> string list" where
  "revokedIds st = map fst (filter snd (tb_rows st))"

definition allSelected :: "tableState \<Rightarrow> bool" where
  "allSelected st \<longleftrightarrow> allIds st \<noteq> [] \<and> (\<forall>i \<in> set (allIds st). i \<in> set (tb_selected st))"

definition toggleAll :: "tableState \<Rightarrow> tableState" where
  "toggleAll st = st\<lparr>tb_selected := (if allSelected st then [] else jsSet (allIds st))\<rparr>"

definition toggleOne :: "string \<Rightarrow> tableState \<Rightarrow> tableState" where
  "toggleOne i st = st\<lparr>tb_selected := toggled i (tb_selected st)\<rparr>"

definition selectedActiveIds :: "tableState \<Rightarrow> string list" where
  "selectedActiveIds st = filter (\<lambda>i. i \<in> set (activeIds st)) (tb_selected st)"

definition selectedRevokedIds :: "tableState \<Rightarrow> string list" where
  "selectedRevokedIds st = filter (\<lambda>i. i \<in> set (revokedIds st)) (tb_selected st)"

definition isTableManager :: "string \<Rightarrow> bool" where
  "isTableManager role \<longleftrightarrow> role = ''SUPER_ADMIN'' \<or> role = ''OWNER''"

text \<open>The identifiers the button of an action offers, and those the open dialog gets.\<close>

definition actionIds :: "bulkAction \<Rightarrow> tableState \<Rightarrow> string list" where
  "actionIds a st = (case a of BulkRevoke \<Rightarrow> selectedActiveIds st | BulkDelete \<Rightarrow> selectedRevokedIds st)"

definition canOpenBulk :: "string \<Rightarrow> bulkAction \<Rightarrow> tableState \<Rightarrow> bool" where
  "canOpenBulk role a st \<longleftrightarrow> isTableManager role \<and> tb_rows st \<noteq> [] \<and> tb_selected st \<noteq> [] \<and> actionIds a st \<noteq> []"

definition dialogIds :: "tableState \<Rightarrow> (bulkAction \<times> string list) option" where
  "dialogIds st = (case tb_action st of None \<Rightarrow> None
     | Some a \<Rightarrow> if tb_rows st \<noteq> [] \<and> actionIds a st \<noteq> [] then Some (a, actionIds a st) else None)"

definition bulkToast :: "dictionary \<Rightarrow> string \<Rightarrow> string \<Rightarrow> value \<Rightarrow> string" where
  "bulkToast t form member result = t (form @ ''.successPrefix'') @ '' '' @ stringOf (vget result member) @ '', '' @
     t (form @ ''.successSkipped'') @ '' '' @ stringOf (vget result ''skipped'') @ '', '' @
     t (form @ ''.successFailed'') @ '' '' @ stringOf (vget result ''failed'') @ ''.''"

definition bulkSuccess :: "dictionary \<Rightarrow> bulkAction \<Rightarrow> value \<Rightarrow> tableState \<Rightarrow> tableState" where
  "bulkSuccess t a result st = st\<lparr>tb_action := None, tb_selected := [],
     tb_toast := Some (case a of BulkRevoke \<Rightarrow> bulkToast t ''bulkRevoke'' ''revoked'' result
       | BulkDelete \<Rightarrow> bulkToast t ''bulkDeleteCredentials'' ''deleted'' result),
     tb_goes := tb_goes st @ [RefreshPage]\<rparr>"

subsection \<open>The bulk dialogs\<close>

definition idsValue :: "string list \<Rightarrow> string \<times> value" where
  "idsValue ids = (''ids'', VArr (map VStr ids))"

definition bulkRevokeSubmit :: "dictionary \<Rightarrow> string list \<Rightarrow> string \<Rightarrow> string \<Rightarrow> string + clientRequest" where
  "bulkRevokeSubmit t ids reason notes = (if reason = [] then Inl (t ''bulkRevoke.reasonRequired'')
     else Inr (sending MPost ''/api/credentials/bulk-revoke''
       (VObj [idsValue ids, (''reason'', VStr reason), (''notes'', trimmedText notes)])))"

definition bulkDeleteSubmit :: "string list \<Rightarrow> clientRequest" where
  "bulkDeleteSubmit ids = sending MPost ''/api/credentials/bulk-delete'' (VObj [idsValue ids])"

definition bulkDeleteProofsSubmit :: "string list \<Rightarrow> clientRequest" where
  "bulkDeleteProofsSubmit ids = sending MPost ''/api/document-proofs/bulk-delete'' (VObj [idsValue ids])"

text \<open>The result for the table, or the error the dialog shows.\<close>

definition bulkOutcome :: "string \<Rightarrow> reply \<Rightarrow> string + value" where
  "bulkOutcome d r = okThen d r (\<lambda>b. case b of Inl m \<Rightarrow> Inl m
     | Inr v \<Rightarrow> if v = VNull then Inl NO_MEMBERS else Inr v)"

text \<open>
  What can happen to the table of credentials: a new page arrives with any rows, at any time, and a dialog
  reports its success even after it was closed.
\<close>

inductive tableStep :: "dictionary \<Rightarrow> string \<Rightarrow> tableState \<Rightarrow> tableState \<Rightarrow> bool"
  for t role where
  all: "isTableManager role \<Longrightarrow> tb_rows st \<noteq> [] \<Longrightarrow> tableStep t role st (toggleAll st)"
| one: "isTableManager role \<Longrightarrow> i \<in> set (allIds st) \<Longrightarrow> tableStep t role st (toggleOne i st)"
| clearSelection: "tableStep t role st (st\<lparr>tb_selected := []\<rparr>)"
| openBulk: "canOpenBulk role a st \<Longrightarrow> tableStep t role st (st\<lparr>tb_action := Some a\<rparr>)"
| closeBulk: "tableStep t role st (st\<lparr>tb_action := None\<rparr>)"
| succeeded: "tableStep t role st (bulkSuccess t a result st)"
| toastGone: "tableStep t role st (st\<lparr>tb_toast := None\<rparr>)"
| newPage: "distinct (map fst rows) \<Longrightarrow> tableStep t role st (st\<lparr>tb_rows := rows\<rparr>)"

definition freshTable :: "(string \<times> bool) list \<Rightarrow> tableState" where
  "freshTable rows = \<lparr>tb_rows = rows, tb_selected = [], tb_action = None, tb_toast = None, tb_goes = []\<rparr>"

text \<open>The list of secure documents selects the same way; its dialog gets the whole selection.\<close>

definition proofDialogIds :: "tableState \<Rightarrow> string list option" where
  "proofDialogIds st = (if tb_action st = Some BulkDelete \<and> tb_rows st \<noteq> [] \<and> tb_selected st \<noteq> []
     then Some (tb_selected st) else None)"

definition proofsSuccess :: "dictionary \<Rightarrow> value \<Rightarrow> tableState \<Rightarrow> tableState" where
  "proofsSuccess t result st = st\<lparr>tb_action := None, tb_selected := [],
     tb_toast := Some (bulkToast t ''bulkDeleteDocumentProofs'' ''deleted'' result),
     tb_goes := tb_goes st @ [RefreshPage]\<rparr>"

subsection \<open>Bulk issuance\<close>

record bulkState =
  bi_csv :: string
  bi_fileName :: "string option"
  bi_fileSize :: "nat option"
  bi_preview :: "value option"
  bi_error :: "string option"
  bi_success :: "string option"
  bi_previewing :: bool
  bi_issuing :: bool
  bi_inFlight :: "(string \<times> bool) list"
  bi_goes :: "goTo list"

definition freshBulk :: bulkState where
  "freshBulk = \<lparr>bi_csv = [], bi_fileName = None, bi_fileSize = None, bi_preview = None, bi_error = None,
     bi_success = None, bi_previewing = False, bi_issuing = False, bi_inFlight = [], bi_goes = []\<rparr>"

definition canPreview :: "bulkState \<Rightarrow> bool" where
  "canPreview st \<longleftrightarrow> trim (bi_csv st) \<noteq> []"

text \<open>\<open>preview.validRows > 0\<close> of a number\<close>

definition canIssue :: "bulkState \<Rightarrow> bool" where
  "canIssue st \<longleftrightarrow> (case bi_preview st of None \<Rightarrow> False
     | Some p \<Rightarrow> vget p ''mode'' = VStr ''preview'' \<and>
         (case vget p ''validRows'' of VNum n \<Rightarrow> n > 0 | _ \<Rightarrow> False))"

definition sortedRows :: "bulkState \<Rightarrow> value list" where
  "sortedRows st = (case bi_preview st of None \<Rightarrow> []
     | Some p \<Rightarrow> (case vget p ''rows'' of
         VArr rows \<Rightarrow> sort_key (\<lambda>r. case vget r ''rowNumber'' of VNum n \<Rightarrow> n | _ \<Rightarrow> 0) rows | _ \<Rightarrow> []))"

definition loadFile :: "dictionary \<Rightarrow> uploadFile \<Rightarrow> bulkState \<Rightarrow> bulkState" where
  "loadFile t f st = (if \<not> endsWith ''.csv'' (toLowerCase (wf_name f))
     then st\<lparr>bi_error := Some (t ''bulkIssue.errorCsv'')\<rparr>
     else st\<lparr>bi_csv := wf_bytes f, bi_fileName := Some (wf_name f), bi_fileSize := Some (wf_size f),
       bi_preview := None, bi_success := None, bi_error := None\<rparr>)"

definition bulkRequest :: "string \<Rightarrow> bool \<Rightarrow> clientRequest" where
  "bulkRequest csv commit = sending MPost ''/api/credentials/bulk''
     (VObj [(''csv'', VStr csv), (''commit'', VBool commit)])"

definition handlePreview :: "dictionary \<Rightarrow> bulkState \<Rightarrow> bulkState" where
  "handlePreview t st = (if \<not> canPreview st then st\<lparr>bi_error := Some (t ''bulkIssue.errorPreviewFirst'')\<rparr>
     else st\<lparr>bi_previewing := True, bi_error := None, bi_success := None,
       bi_inFlight := bi_inFlight st @ [(bi_csv st, False)]\<rparr>)"

definition handleIssue :: "dictionary \<Rightarrow> bulkState \<Rightarrow> bulkState" where
  "handleIssue t st = (if \<not> canPreview st then st\<lparr>bi_error := Some (t ''bulkIssue.errorIssueFirst'')\<rparr>
     else st\<lparr>bi_issuing := True, bi_error := None, bi_success := None,
       bi_inFlight := bi_inFlight st @ [(bi_csv st, True)]\<rparr>)"

definition previewDone :: "dictionary \<Rightarrow> reply \<Rightarrow> bulkState \<Rightarrow> bulkState" where
  "previewDone t r st = (case jsonThen (t ''bulkIssue.unablePreview'') r Inr of
       Inl e \<Rightarrow> st\<lparr>bi_error := Some e\<rparr> | Inr body \<Rightarrow> st\<lparr>bi_preview := (if body = VNull then None else Some body)\<rparr>)\<lparr>bi_previewing := False\<rparr>"

text \<open>A body \<open>null\<close> becomes the preview, then reading its members throws.\<close>

definition issueDone :: "dictionary \<Rightarrow> reply \<Rightarrow> bulkState \<Rightarrow> bulkState" where
  "issueDone t r st = (case jsonThen (t ''bulkIssue.unableIssue'') r Inr of
       Inl e \<Rightarrow> st\<lparr>bi_error := Some e\<rparr>
     | Inr body \<Rightarrow> (if body = VNull then st\<lparr>bi_preview := None, bi_error := Some NO_MEMBERS\<rparr>
         else st\<lparr>bi_preview := Some body, bi_success := Some (t ''bulkIssue.issuedPrefix'' @ '' '' @
           stringOf (vget body ''issuedRows'') @ '' '' @ t ''bulkIssue.issuedMiddle'' @ '' '' @
           stringOf (vget body ''failedRows'') @ '' '' @ t ''bulkIssue.issuedSuffix''),
           bi_goes := bi_goes st @ [RefreshPage]\<rparr>))\<lparr>bi_issuing := False\<rparr>"

definition handleReset :: "bulkState \<Rightarrow> bulkState" where
  "handleReset st = st\<lparr>bi_csv := [], bi_fileName := None, bi_fileSize := None, bi_preview := None,
     bi_success := None, bi_error := None\<rparr>"

text \<open>Again \<open>patient\<close> says that the file stays until the answer is there; the server answers by \<open>S\<close>.\<close>

inductive issuanceStep :: "bool \<Rightarrow> dictionary \<Rightarrow> (string \<Rightarrow> bool \<Rightarrow> reply) \<Rightarrow> bulkState \<Rightarrow> bulkState \<Rightarrow> bool"
  for patient t S where
  load: "patient \<longrightarrow> bi_inFlight st = [] \<Longrightarrow> issuanceStep patient t S st (loadFile t f st)"
| reset: "patient \<longrightarrow> bi_inFlight st = [] \<Longrightarrow> issuanceStep patient t S st (handleReset st)"
| preview: "canPreview st \<Longrightarrow> \<not> bi_previewing st \<Longrightarrow> issuanceStep patient t S st (handlePreview t st)"
| issue: "canIssue st \<Longrightarrow> \<not> bi_issuing st \<Longrightarrow> issuanceStep patient t S st (handleIssue t st)"
| previewed: "bi_inFlight st = before @ (csv, False) # after \<Longrightarrow>
    issuanceStep patient t S st (previewDone t (S csv False) (st\<lparr>bi_inFlight := before @ after\<rparr>))"
| issued: "bi_inFlight st = before @ (csv, True) # after \<Longrightarrow>
    issuanceStep patient t S st (issueDone t (S csv True) (st\<lparr>bi_inFlight := before @ after\<rparr>))"

end
