(* ===== verification/WebDashboard.thy ===== *)
theory WebDashboard
  imports WebForms
begin

text \<open>
  The rest of what runs in the browser: the navigation of the dashboard, the widgets of the overview
  page that load data by themselves (activity feed, chart, queue monitor, export), how events are named,
  and the language and theme of a visitor. Markup, icons and heights of bars are left out.
\<close>

subsection \<open>Navigation\<close>

record navItem =
  ni_href :: string
  ni_label :: string
  ni_roles :: "string list"

type_synonym navGroup = "string \<times> navItem list"

definition EVERY_ROLE :: "string list" where
  "EVERY_ROLE = [''OWNER'', ''SUPER_ADMIN'', ''ADMIN'', ''AUDITOR'']"

definition navTo :: "string \<Rightarrow> string \<Rightarrow> string list \<Rightarrow> navItem" where
  "navTo href label roles = \<lparr>ni_href = href, ni_label = label, ni_roles = roles\<rparr>"

definition navigationGroups :: "navGroup list" where
  "navigationGroups =
    [(''overview'', [navTo ''/dashboard'' ''dashboard'' EVERY_ROLE]),
     (''credentials'', [navTo ''/dashboard/credentials'' ''registry'' EVERY_ROLE,
       navTo ''/dashboard/issue'' ''issue'' [''OWNER'', ''SUPER_ADMIN'', ''ADMIN'']]),
     (''documents'', [navTo ''/dashboard/document-proofs'' ''secureDocuments'' EVERY_ROLE]),
     (''activity'', [navTo ''/dashboard/logs'' ''verificationLogs'' EVERY_ROLE,
       navTo ''/dashboard/blockchain'' ''auditTrail'' EVERY_ROLE]),
     (''administration'', [navTo ''/dashboard/team'' ''administrators'' [''OWNER'', ''SUPER_ADMIN''],
       navTo ''/dashboard/settings'' ''settings'' [''OWNER'', ''SUPER_ADMIN''],
       navTo ''/dashboard/guide'' ''guide'' EVERY_ROLE])]"

definition visibleGroups :: "string \<Rightarrow> navGroup list" where
  "visibleGroups role = filter (\<lambda>g. snd g \<noteq> [])
     (map (\<lambda>g. (fst g, filter (\<lambda>i. role \<in> set (ni_roles i)) (snd g))) navigationGroups)"

definition flatItems :: "string \<Rightarrow> navItem list" where
  "flatItems role = concat (map snd (visibleGroups role))"

definition isActive :: "string \<Rightarrow> navItem \<Rightarrow> bool" where
  "isActive pathname i \<longleftrightarrow> pathname = ni_href i \<or> ni_href i \<noteq> ''/dashboard'' \<and> startsWith (ni_href i) pathname"

definition currentItem :: "string \<Rightarrow> string \<Rightarrow> navItem option" where
  "currentItem role pathname = (let items = flatItems role in
     case List.find (\<lambda>i. pathname = ni_href i) items of Some i \<Rightarrow> Some i
     | None \<Rightarrow> (case List.find (\<lambda>i. ni_href i \<noteq> ''/dashboard'' \<and> startsWith (ni_href i) pathname)
           (sort_key (\<lambda>i. - int (length (ni_href i))) items) of Some i \<Rightarrow> Some i
       | None \<Rightarrow> (case items of [] \<Rightarrow> None | i # rest \<Rightarrow> Some i)))"

definition roleLabel :: "dictionary \<Rightarrow> string \<Rightarrow> string" where
  "roleLabel t role = (if role = ''OWNER'' \<or> role = ''SUPER_ADMIN'' then t ''roles.superAdmin''
     else if role = ''ADMIN'' then t ''roles.adminOperator''
     else if role = ''AUDITOR'' then t ''roles.auditorViewer'' else role)"

definition operatorLabel :: "string option \<Rightarrow> string \<Rightarrow> string" where
  "operatorLabel username email = ''@'' @ orElse username (takeWhile (\<lambda>c. c \<noteq> CHR ''@'') email)"

definition institutionLabel :: "dictionary \<Rightarrow> (string option \<times> string) option \<Rightarrow> string" where
  "institutionLabel t issuer = (case issuer of None \<Rightarrow> t ''dashboardShell.fallbackInstitution''
     | Some (displayName, name) \<Rightarrow> orElse displayName name)"

text \<open>The drawer closes when the path changes.\<close>

definition shellRender :: "string \<Rightarrow> string \<times> bool \<Rightarrow> string \<times> bool" where
  "shellRender pathname st = (if pathname \<noteq> fst st then (pathname, False) else st)"

subsection \<open>The activity feed\<close>

record feedState =
  fd_items :: "value list"
  fd_total :: int
  fd_loading :: bool

definition FEED_PAGE_SIZE :: nat where "FEED_PAGE_SIZE = 25"

definition feedRequest :: "feedState \<Rightarrow> clientRequest" where
  "feedRequest st = asking MGet (''/api/audit/activity?limit='' @ showNat FEED_PAGE_SIZE @ ''&offset='' @
     showNat (length (fd_items st)))"

definition loadMore :: "feedState \<Rightarrow> feedState \<times> clientRequest option" where
  "loadMore st = (if fd_loading st \<or> fd_total st \<le> int (length (fd_items st)) then (st, None)
     else (st\<lparr>fd_loading := True\<rparr>, Some (feedRequest st)))"

text \<open>An answer that is refused, not reached or unreadable only ends the loading.\<close>

definition feedAnswer :: "reply \<Rightarrow> feedState \<Rightarrow> feedState" where
  "feedAnswer r st = (case r of
       Answered status (Inr v) \<Rightarrow> (if replyOk status
         then (case vget v ''items'' of
             VArr xs \<Rightarrow> st\<lparr>fd_items := fd_items st @ xs,
               fd_total := (case vget v ''total'' of VNum n \<Rightarrow> n | _ \<Rightarrow> fd_total st)\<rparr>
           | _ \<Rightarrow> st)
         else st)
     | _ \<Rightarrow> st)\<lparr>fd_loading := False\<rparr>"

definition formatLookupType :: "dictionary \<Rightarrow> string \<Rightarrow> string \<times> string" where
  "formatLookupType t lookupType = (if lookupType = ''QR'' then (t ''lookupTypes.qrShort'', t ''lookupTypes.qrAction'')
     else if lookupType = ''DOCUMENT'' then (t ''lookupTypes.documentShort'', t ''lookupTypes.documentAction'')
     else (t ''lookupTypes.idShort'', t ''lookupTypes.idAction''))"

definition formatVerificationAction :: "dictionary \<Rightarrow> string \<Rightarrow> string \<Rightarrow> string" where
  "formatVerificationAction t lookupType status =
     (if status \<in> {''NOT_FOUND'', ''INVALID''} \<and> lookupType = ''ID'' then t ''lookupTypes.invalidIdAction''
      else snd (formatLookupType t lookupType))"

definition statusPill :: "string \<Rightarrow> string" where
  "statusPill status = orElse (map_of
     [(''VALID'', ''badge-valid''), (''INVALID'', ''badge-error''), (''REVOKED'', ''badge-error''),
      (''NOT_FOUND'', ''badge-neutral''), (''TAMPERED'', ''badge-warn''), (''INTEGRITY_VERIFIED'', ''badge-valid''),
      (''DOCUMENT_MODIFIED'', ''badge-error''), (''NO_SECURE_PDF_RECORD'', ''badge-neutral'')] status) ''badge-neutral''"

subsection \<open>The chart\<close>

record chartBucket =
  cb_date :: string
  cb_total :: nat
  cb_valid :: nat
  cb_invalid :: nat

record chartState =
  ch_period :: nat
  ch_buckets :: "chartBucket list"
  ch_loading :: bool

definition chartRequest :: "nat \<Rightarrow> clientRequest" where
  "chartRequest days = asking MGet (''/api/audit/analytics?days='' @ showNat days)"

definition changePeriod :: "nat \<Rightarrow> chartState \<Rightarrow> chartState \<times> clientRequest option" where
  "changePeriod days st = (if days = ch_period st then (st, None)
     else (st\<lparr>ch_period := days, ch_loading := True\<rparr>, Some (chartRequest days)))"

text \<open>The buckets of an accepted answer; \<open>None\<close> where there is none to read.\<close>

definition chartAnswer :: "chartBucket list option \<Rightarrow> chartState \<Rightarrow> chartState" where
  "chartAnswer result st = (case result of None \<Rightarrow> st | Some bs \<Rightarrow> st\<lparr>ch_buckets := bs\<rparr>)\<lparr>ch_loading := False\<rparr>"

definition sumOf :: "(chartBucket \<Rightarrow> nat) \<Rightarrow> chartBucket list \<Rightarrow> nat" where
  "sumOf f bs = foldl (\<lambda>s b. s + f b) 0 bs"

text \<open>Total, valid, invalid and the pass rate, \<open>Math.round(valid / all * 100)\<close> in exact arithmetic.\<close>

definition chartSummary :: "chartBucket list \<Rightarrow> nat \<times> nat \<times> nat \<times> nat" where
  "chartSummary bs = (let valid = sumOf cb_valid bs; invalid = sumOf cb_invalid bs; all = valid + invalid in
     (all, valid, invalid, if 0 < all then (200 * valid + all) div (2 * all) else 0))"

definition rateDot :: "nat \<Rightarrow> string" where
  "rateDot rate = (if 90 \<le> rate then ''dot-valid'' else if 70 \<le> rate then ''dot-warn'' else ''dot-error'')"

definition sparseNote :: "chartBucket list \<Rightarrow> bool" where
  "sparseNote bs \<longleftrightarrow> sumOf cb_total bs \<noteq> 0 \<and> length (filter (\<lambda>b. 0 < cb_total b) bs) \<le> 2"

definition labelInterval :: "chartBucket list \<Rightarrow> nat" where
  "labelInterval bs = (if length bs \<le> 7 then 1 else if length bs \<le> 30 then 5 else 15)"

definition showLabel :: "chartBucket list \<Rightarrow> nat \<Rightarrow> bool" where
  "showLabel bs index \<longleftrightarrow> index mod labelInterval bs = 0 \<or> index = length bs - 1"

subsection \<open>Queue monitor, metrics, export\<close>

record 'a monitorState =
  mo_data :: 'a
  mo_refreshing :: bool
  mo_lastRefreshed :: "time option"
  mo_error :: bool

definition refreshQueue :: "'a monitorState \<Rightarrow> 'a monitorState \<times> clientRequest option" where
  "refreshQueue st = (if mo_refreshing st then (st, None)
     else (st\<lparr>mo_refreshing := True, mo_error := False\<rparr>, Some (asking MGet ''/api/audit/dashboard/queue'')))"

definition queueAnswer :: "time \<Rightarrow> 'a option \<Rightarrow> 'a monitorState \<Rightarrow> 'a monitorState" where
  "queueAnswer now result st = (case result of None \<Rightarrow> st\<lparr>mo_error := True\<rparr>
     | Some d \<Rightarrow> st\<lparr>mo_data := d, mo_lastRefreshed := Some now\<rparr>)\<lparr>mo_refreshing := False\<rparr>"

definition relativeTime :: "dictionary \<Rightarrow> time \<Rightarrow> time option \<Rightarrow> string" where
  "relativeTime t now date = (case date of None \<Rightarrow> []
     | Some d \<Rightarrow> let diffMin = (now - d) div 60000 in
         if diffMin < 1 then t ''queue.lastUpdatedJustNow''
         else showInt diffMin @ '' '' @ t ''queue.lastUpdatedMinutesAgo'')"

definition metricVariant :: "string \<Rightarrow> int \<Rightarrow> string" where
  "metricVariant tile n = (
     if tile = ''verified'' then ''valid''
     else if tile = ''revoked'' then (if 0 < n then ''error'' else ''default'')
     else if tile = ''pendingAnchor'' then (if 0 < n then ''warn'' else ''default'')
     else if tile = ''successRate'' then (if 95 \<le> n then ''valid'' else if 80 \<le> n then ''warn'' else ''error'')
     else ''default'')"

definition issuanceBadge :: "string \<Rightarrow> string" where
  "issuanceBadge anchorStatus = (if anchorStatus = ''ANCHORED'' then ''ON_CHAIN_VERIFIED''
     else if anchorStatus = ''FAILED'' then ''FAILED'' else ''PENDING'')"

definition exportClick :: "bool \<Rightarrow> clientRequest option" where
  "exportClick loading = (if loading then None else Some (asking MGet ''/api/audit/export''))"

definition exportFileName :: "time \<Rightarrow> string" where
  "exportFileName now = ''certiva-credentials-'' @ take 10 (toISOString now) @ ''.csv''"

subsection \<open>Language and theme\<close>

definition DEFAULT_LANGUAGE :: string where "DEFAULT_LANGUAGE = ''en''"
definition LANGUAGE_COOKIE_NAME :: string where "LANGUAGE_COOKIE_NAME = ''certiva-lang''"

definition normalizeLanguage :: "string option \<Rightarrow> string option" where
  "normalizeLanguage v = (if v = Some ''en'' \<or> v = Some ''id'' then v else None)"

text \<open>What the browser keeps: the item of its storage, and the cookies as names and texts.\<close>

record visitor =
  vi_storage :: "string option"
  vi_cookies :: "(string \<times> string) list"
  vi_theme :: "string option"
  vi_dark :: bool

definition readLanguageCookie :: "visitor \<Rightarrow> string option" where
  "readLanguageCookie v = normalizeLanguage (map_option (takeWhile (\<lambda>c. c \<noteq> CHR ''=''))
     (map_of (vi_cookies v) LANGUAGE_COOKIE_NAME))"

definition writeLanguageCookie :: "string \<Rightarrow> visitor \<Rightarrow> visitor" where
  "writeLanguageCookie lang v = v\<lparr>vi_cookies :=
     (if LANGUAGE_COOKIE_NAME \<in> set (map fst (vi_cookies v))
      then map (\<lambda>c. if fst c = LANGUAGE_COOKIE_NAME then (LANGUAGE_COOKIE_NAME, lang) else c) (vi_cookies v)
      else vi_cookies v @ [(LANGUAGE_COOKIE_NAME, lang)])\<rparr>"

definition clientLanguage :: "string \<Rightarrow> visitor \<Rightarrow> string" where
  "clientLanguage initialLanguage v = orElse (nullish (normalizeLanguage (vi_storage v)) (readLanguageCookie v))
     initialLanguage"

definition setLanguage :: "string \<Rightarrow> visitor \<Rightarrow> visitor" where
  "setLanguage lang v = writeLanguageCookie lang (v\<lparr>vi_storage := Some lang\<rparr>)"

definition getServerLanguage :: "visitor \<Rightarrow> string" where
  "getServerLanguage v = orElse (normalizeLanguage (map_of (vi_cookies v) LANGUAGE_COOKIE_NAME)) DEFAULT_LANGUAGE"

text \<open>The effect after every rendering persists the language it showed.\<close>

definition persistLanguage :: "string \<Rightarrow> visitor \<Rightarrow> visitor" where
  "persistLanguage initialLanguage v = setLanguage (clientLanguage initialLanguage v) v"

definition toggleTheme :: "visitor \<Rightarrow> visitor" where
  "toggleTheme v = v\<lparr>vi_dark := \<not> vi_dark v, vi_theme := Some (if vi_dark v then ''light'' else ''dark'')\<rparr>"

definition initTheme :: "bool \<Rightarrow> visitor \<Rightarrow> visitor" where
  "initTheme prefersDark v = v\<lparr>vi_dark := (vi_theme v = Some ''dark'' \<or> vi_theme v = None \<and> prefersDark)\<rparr>"

end
