(* ===== verification/WebClientLaws.thy ===== *)
theory WebClientLaws
  imports WebPanels WebDashboard BffLaws RequestLaws
begin

text \<open>
  What the browser's part keeps and where it does not: the selection of a table, followed from the
  checkbox through the web server to the body the API accepts; the upload panel and bulk issuance, whose
  answers belong to the file on the screen only if nobody changes it meanwhile; the requests without a
  handler; and forms that end in a wrong state.
\<close>

subsection \<open>Where a request of the browser goes\<close>

text \<open>
  The router of the framework for the files under \<open>app/api\<close>: a segment in brackets matches any segment,
  and a file without brackets comes before one with them.
\<close>

definition segmentMatches :: "string \<Rightarrow> string \<Rightarrow> bool" where
  "segmentMatches pat s \<longleftrightarrow> take 1 pat = ''['' \<or> pat = s"

definition routeFiles :: "(string \<times> httpMethod \<times> 'h) list \<Rightarrow> (string list \<times> httpMethod \<times> 'h) list" where
  "routeFiles hs = map (\<lambda>(n, h). (splitOn (CHR ''/'') n, h)) hs"

definition webRoute :: "(string \<times> httpMethod \<times> 'h) list \<Rightarrow> httpMethod \<Rightarrow> string \<Rightarrow> 'h option" where
  "webRoute hs m p = (let segs = drop 1 (pathSegments p);
       exact = filter (\<lambda>f. fst f = segs) (routeFiles hs);
       found = (if exact \<noteq> [] then exact
         else filter (\<lambda>f. list_all2 segmentMatches (fst f) segs) (routeFiles hs))
     in if take 1 (pathSegments p) \<noteq> [''api''] then None
        else map_option (snd \<circ> snd) (List.find (\<lambda>f. fst (snd f) = m) found))"

lemma route_files:
  "routeFiles (webHandlers c d) =
     [([''admins'', ''[id]''], MPatch, adminsIdPatch),
      ([''admins'', ''[id]''], MDelete, adminsIdDelete),
      ([''admins''], MGet, adminsGet),
      ([''admins''], MPost, adminsPost),
      ([''audit'', ''dashboard'', ''activity''], MGet, auditActivityGet),
      ([''audit'', ''dashboard'', ''analytics''], MGet, auditAnalyticsGet),
      ([''audit'', ''dashboard'', ''metrics''], MGet, auditMetricsGet),
      ([''audit'', ''dashboard'', ''queue''], MGet, auditQueueGet),
      ([''audit'', ''logs''], MGet, auditLogsGet),
      ([''audit'', ''export''], MGet, auditExportGet d),
      ([''credentials'', ''[id]'', ''revoke''], MPatch, credentialRevokePatch),
      ([''credentials'', ''[id]''], MDelete, credentialDelete),
      ([''credentials'', ''bulk-delete''], MPost, credentialsBulkDeletePost),
      ([''credentials'', ''bulk-revoke''], MPost, credentialsBulkRevokePost),
      ([''credentials'', ''bulk''], MPost, credentialsBulkPost),
      ([''credentials''], MPost, credentialsPost),
      ([''document-proofs'', ''[id]''], MDelete, documentProofDelete),
      ([''document-proofs'', ''bulk-delete''], MPost, documentProofsBulkDeletePost),
      ([''document-proofs''], MGet, documentProofsGet),
      ([''document-proofs''], MPost, documentProofsPost),
      ([''institution''], MGet, institutionGet),
      ([''institution''], MPatch, institutionPatch),
      ([''institution'', ''signing-keys'', ''rotate''], MPost, signingKeysRotatePost),
      ([''credentials'', ''[id]'', ''metadata''], MGet, credentialMetadataGet),
      ([''credentials'', ''[id]'', ''qr''], MGet, credentialQrGet),
      ([''document-proofs'', ''[id]'', ''metadata''], MGet, documentMetadataGet),
      ([''document-proofs'', ''[id]'', ''qr''], MGet, documentQrGet),
      ([''verify'', ''[id]'', ''certificate''], MGet, certificateGet),
      ([''proof'', ''[credentialId]''], MGet, proofGet),
      ([''proof'', ''[credentialId]'', ''vc''], MGet, vcGet),
      ([''well-known'', ''did.json''], MGet, didGet),
      ([''verification'', ''upload''], MPost, verificationUploadPost),
      ([''verify'', ''credential'', ''pdf''], MPost, verifyCredentialPdfPost),
      ([''verify'', ''document''], MPost, verifyDocumentPost),
      ([''verify'', ''document'', ''code''], MPost, verifyDocumentCodePost),
      ([''session'', ''login''], MPost, loginPost c),
      ([''session'', ''logout''], MPost, logoutPost c),
      ([''session'', ''clear''], MGet, clearGet c)]"
  unfolding routeFiles_def webHandlers_def sessionHandlers_def publicHandlers_def by simp

lemma bulk_paths:
  "pathSegments ''/api/credentials/bulk-revoke'' = [''api'', ''credentials'', ''bulk-revoke'']"
  "pathSegments ''/api/credentials/bulk-delete'' = [''api'', ''credentials'', ''bulk-delete'']"
  "pathSegments (cl_path (feedRequest st)) = [''api'', ''audit'', ''activity'']"
  "pathSegments (cl_path (chartRequest days)) = [''api'', ''audit'', ''analytics'']"
  by (simp_all add: pathSegments_def feedRequest_def chartRequest_def asking_def)

lemma bulk_routes:
  "webRoute (webHandlers c d) MPost ''/api/credentials/bulk-revoke'' = Some credentialsBulkRevokePost"
  "webRoute (webHandlers c d) MPost ''/api/credentials/bulk-delete'' = Some credentialsBulkDeletePost"
  by (simp_all add: webRoute_def route_files bulk_paths)

text \<open>Two widgets of the overview page ask for paths under which there is no file.\<close>

lemma widgets_have_no_handler:
  "webRoute (webHandlers c d) MGet (cl_path (feedRequest st)) = None"
  "webRoute (webHandlers c d) MGet (cl_path (chartRequest days)) = None"
  by (simp_all add: webRoute_def route_files bulk_paths segmentMatches_def)

lemma feed_never_grows: "fd_items (feedAnswer (Answered 404 b) st) = fd_items st"
  by (cases b) (simp_all add: feedAnswer_def replyOk_def)

subsection \<open>The selection of a table\<close>

definition goodTable :: "tableState \<Rightarrow> bool" where
  "goodTable st \<longleftrightarrow> distinct (map fst (tb_rows st)) \<and> distinct (tb_selected st)"

lemma goodTable_step: "tableStep t role st st' \<Longrightarrow> goodTable st \<Longrightarrow> goodTable st'"
  by (induction rule: tableStep.induct)
    (auto simp: goodTable_def toggleAll_def jsSet_def toggleOne_def toggled_def bulkSuccess_def)

lemma goodTable_reached:
  assumes "(tableStep t role)\<^sup>*\<^sup>* (freshTable rows) st" and "distinct (map fst rows)"
  shows "goodTable st"
  using assms(1)
proof (induction rule: rtranclp_induct)
  case base
  then show ?case using assms(2) by (simp add: goodTable_def freshTable_def)
next
  case (step y z)
  then show ?case using goodTable_step by blast
qed

lemma dialogIds_good:
  assumes "goodTable st" and "dialogIds st = Some (a, ids)"
  shows "ids \<noteq> [] \<and> distinct ids \<and> length ids \<le> length (tb_rows st) \<and>
    (\<forall>i \<in> set ids. (i, a = BulkDelete) \<in> set (tb_rows st))"
proof -
  have ids: "ids \<noteq> []" "ids = actionIds a st"
    using assms(2) by (auto simp: dialogIds_def split: option.splits if_splits)
  have sub: "distinct ids" "\<forall>i \<in> set ids. (i, a = BulkDelete) \<in> set (tb_rows st)"
    using assms(1) by (auto simp: ids(2) actionIds_def selectedActiveIds_def selectedRevokedIds_def activeIds_def
        revokedIds_def goodTable_def split: bulkAction.splits)
  have "set ids \<subseteq> fst ` set (tb_rows st)" using sub(2) by force
  then have "card (set ids) \<le> card (set (tb_rows st))"
    by (meson List.finite_set card_image_le card_mono finite_imageI le_trans)
  then have "length ids \<le> length (tb_rows st)"
    using distinct_card [OF sub(1)] card_length [of "tb_rows st"] by linarith
  then show ?thesis using ids(1) sub by blast
qed

subsection \<open>The bodies the API makes of the requests\<close>

definition bodyOf :: "clientRequest \<Rightarrow> value" where
  "bodyOf q = (case cl_body q of JsonText v \<Rightarrow> v | _ \<Rightarrow> VUndef)"

definition shownReasons :: "RevocationReason list" where
  "shownReasons = [DATA_CORRECTION, ISSUED_IN_ERROR, FRAUD_SUSPECTED, INSTITUTION_REQUEST, OTHER]"

lemma dbJson_ids: "dbJson (VArr (map VStr ids)) = VArr (map VStr ids)"
  by (simp add: comp_def)

lemma enum_reason: "R \<in> set shownReasons \<Longrightarrow>
  reasonName R \<in> set (map snd reasonTable) \<and> enumOf reasonTable (VStr (reasonName R)) = Some R"
  by (cases R) (simp_all add: shownReasons_def reasonTable_def enumOf_def)

lemma revoke_body_parsed:
  assumes "ids \<noteq> []" "length ids \<le> 500" "\<forall>i \<in> set ids. length i \<le> 64" "R \<in> set shownReasons"
    "length (trim remark) \<le> 500" "bulkRevokeSubmit t ids (reasonName R) remark = Inr q"
  shows "bulkRevokeBody (bodyOf q) =
    Inr (ids, \<lparr>rv_reason = R, rv_notes = (if trim remark = [] then None else Some (trim remark))\<rparr>)"
proof -
  have q: "bodyOf q = VObj ([(''ids'', VArr (map VStr ids)), (''reason'', VStr (reasonName R))] @
      (if trim remark = [] then [] else [(''notes'', VStr (trim remark))]))"
    using assms(6) by (auto simp: bulkRevokeSubmit_def sending_def bodyOf_def idsValue_def trimmedText_def comp_def
        split: if_splits)
  let ?d = "instanceOf BulkRevokeCredentialsDto (bodyOf q)"
  have d: "?d ''ids'' = VArr (map VStr ids)" "?d ''reason'' = VStr (reasonName R)"
    "?d ''notes'' = (if trim remark = [] then VUndef else VStr (trim remark))"
    by (simp_all add: q BulkRevokeCredentialsDto_def idsMember_def reasonMembers_def instanceOf_def vget_def
        implicitly_def)
  have keys: "set (vkeys (bodyOf q)) \<subseteq> {''ids'', ''reason'', ''notes''}" by (simp add: q vkeys_def)
  have ids: "eachOf 500 [isString, maxLength 64] (VArr (map VStr ids))" "textsOf (VArr (map VStr ids)) = ids"
    using assms(1-3) by (simp_all add: eachOf_def check_defs textsOf_def textOf_def comp_def)
  have noted: "optionalAll [isString, maxLength 500] (?d ''notes'')"
    using assms(5) by (simp add: d(3) check_defs)
  have reason: "isIn (map snd reasonTable) (?d ''reason'')" "orElse (enumOf reasonTable (?d ''reason'')) OTHER = R"
    using enum_reason [OF assms(4)] by (simp_all add: d(2) isIn_def onText_def orElse_def)
  have members: "BulkRevokeCredentialsDto =
     [field ''ids'' OtherType (eachOf 500 [isString, maxLength 64]),
      field ''reason'' StringType (isIn (map snd reasonTable)),
      field ''notes'' StringType (optionalAll [isString, maxLength 500])]"
    by (simp add: BulkRevokeCredentialsDto_def idsMember_def reasonMembers_def MAX_BULK_IDS_def MAX_ID_LENGTH_def)
  have "bodyAccepted BulkRevokeCredentialsDto (bodyOf q)"
    unfolding bodyAccepted_def using keys ids(1) noted reason(1) d(1)
    by (subst (1 2) members) (simp del: map_map)
  then show ?thesis
    unfolding bulkRevokeBody_def parsed_def using ids(2) reason(2)
    by (simp add: revokeDtoOf_def d(1) d(3) optText_def)
qed

lemma delete_body_parsed:
  assumes "ids \<noteq> []" "length ids \<le> 500" "\<forall>i \<in> set ids. length i \<le> 64"
  shows "bulkDeleteBody (bodyOf (bulkDeleteSubmit ids)) = Inr ids"
  using ids_accepted [OF assms] by (simp add: bulkDeleteSubmit_def sending_def bodyOf_def idsValue_def comp_def)

lemma bulk_forwarded:
  assumes "wq_token rq = Some tok" "tok \<noteq> []"
  shows "forwarded (credentialsBulkRevokePost (rq\<lparr>wq_json := Some b\<rparr>)) =
      Some (backendCall MPost ''/credentials/bulk-revoke'' (Some tok) (JsonText b))"
    "forwarded (credentialsBulkDeletePost (rq\<lparr>wq_json := Some b\<rparr>)) =
      Some (backendCall MPost ''/credentials/bulk-delete'' (Some tok) (JsonText b))"
  using assms by (simp_all add: credentialsBulkRevokePost_def credentialsBulkDeletePost_def sessionJson_def
      withSession_def withJson_def proxied_def truthy_def)

text \<open>The request an open dialog sends when it is confirmed, and what the API makes of its body.\<close>

definition dialogRequest :: "dictionary \<Rightarrow> bulkAction \<Rightarrow> string list \<Rightarrow> RevocationReason \<Rightarrow> string \<Rightarrow>
    string + clientRequest" where
  "dialogRequest t a ids R remark = (case a of BulkRevoke \<Rightarrow> bulkRevokeSubmit t ids (reasonName R) remark
     | BulkDelete \<Rightarrow> Inr (bulkDeleteSubmit ids))"

definition apiReads :: "bulkAction \<Rightarrow> value \<Rightarrow> exn + string list \<times> revokeDto option" where
  "apiReads a b = (case a of BulkRevoke \<Rightarrow> map_sum id (map_prod id Some) (bulkRevokeBody b)
     | BulkDelete \<Rightarrow> map_sum id (\<lambda>ids. (ids, None)) (bulkDeleteBody b))"

definition apiPath :: "bulkAction \<Rightarrow> string" where
  "apiPath a = (case a of BulkRevoke \<Rightarrow> ''/credentials/bulk-revoke'' | BulkDelete \<Rightarrow> ''/credentials/bulk-delete'')"

lemma dialog_request_read:
  assumes ids: "ids \<noteq> []" "length ids \<le> 500" "\<forall>i \<in> set ids. length i \<le> 64"
    and R: "R \<in> set shownReasons" and short: "length (trim remark) \<le> 500"
    and session: "wq_token rq = Some tok" "tok \<noteq> []"
  shows "\<exists>q h. dialogRequest t a ids R remark = Inr q \<and>
    webRoute (webHandlers c date) (cl_method q) (cl_path q) = Some h \<and>
    forwarded (h (rq\<lparr>wq_json := Some (bodyOf q)\<rparr>)) =
      Some (backendCall MPost (apiPath a) (Some tok) (JsonText (bodyOf q))) \<and>
    apiReads a (bodyOf q) = Inr (ids, case a of BulkRevoke \<Rightarrow>
      Some \<lparr>rv_reason = R, rv_notes = (if trim remark = [] then None else Some (trim remark))\<rparr> | BulkDelete \<Rightarrow> None)"
proof (cases a)
  case BulkRevoke
  have "reasonName R \<noteq> []" by (cases R) simp_all
  then obtain q where q: "bulkRevokeSubmit t ids (reasonName R) remark = Inr q"
    by (simp add: bulkRevokeSubmit_def)
  have to: "cl_method q = MPost" "cl_path q = ''/api/credentials/bulk-revoke''"
    using q by (auto simp: bulkRevokeSubmit_def sending_def split: if_splits)
  have "apiReads a (bodyOf q) = Inr (ids, Some \<lparr>rv_reason = R,
      rv_notes = (if trim remark = [] then None else Some (trim remark))\<rparr>)"
    unfolding apiReads_def BulkRevoke bulkAction.case using revoke_body_parsed [OF ids R short q] by simp
  then show ?thesis
    using q to bulk_routes(1) bulk_forwarded(1) [OF session]
    by (auto simp: BulkRevoke dialogRequest_def apiPath_def)
next
  case BulkDelete
  have to: "cl_method (bulkDeleteSubmit ids) = MPost"
    "cl_path (bulkDeleteSubmit ids) = ''/api/credentials/bulk-delete''"
    by (simp_all add: bulkDeleteSubmit_def sending_def)
  have "apiReads a (bodyOf (bulkDeleteSubmit ids)) = Inr (ids, None)"
    unfolding apiReads_def BulkDelete bulkAction.case using delete_body_parsed [OF ids] by simp
  then show ?thesis
    using to bulk_routes(2) bulk_forwarded(2) [OF session]
    by (auto simp: BulkDelete dialogRequest_def apiPath_def)
qed

text \<open>
  C24. A bulk action reaches exactly the credentials it shows. Whatever the visitor selects and whatever
  pages arrive meanwhile, an open dialog holds distinct credentials of the page now shown, live ones for
  a revocation and revoked ones for a deletion; confirmed with any offered reason, its request finds its
  handler, is passed on with the session's token, and its body is read by the API as exactly those
  credentials, that reason and the trimmed notes.
\<close>

theorem selection_reaches_api:
  assumes "(tableStep t role)\<^sup>*\<^sup>* (freshTable rows) st" and "distinct (map fst rows)"
    and "dialogIds st = Some (a, ids)"
    and "length (tb_rows st) \<le> 500" and "\<forall>r \<in> set (tb_rows st). length (fst r) \<le> 64"
    and "R \<in> set shownReasons" and "length (trim remark) \<le> 500"
    and "wq_token rq = Some tok" and "tok \<noteq> []"
  shows "distinct ids \<and> (\<forall>i \<in> set ids. (i, a = BulkDelete) \<in> set (tb_rows st)) \<and>
    (\<exists>q h. dialogRequest t a ids R remark = Inr q \<and>
      webRoute (webHandlers c date) (cl_method q) (cl_path q) = Some h \<and>
      forwarded (h (rq\<lparr>wq_json := Some (bodyOf q)\<rparr>)) =
        Some (backendCall MPost (apiPath a) (Some tok) (JsonText (bodyOf q))) \<and>
      apiReads a (bodyOf q) = Inr (ids, case a of BulkRevoke \<Rightarrow>
        Some \<lparr>rv_reason = R, rv_notes = (if trim remark = [] then None else Some (trim remark))\<rparr>
      | BulkDelete \<Rightarrow> None))"
proof -
  have good: "ids \<noteq> [] \<and> distinct ids \<and> length ids \<le> length (tb_rows st) \<and>
      (\<forall>i \<in> set ids. (i, a = BulkDelete) \<in> set (tb_rows st))"
    using dialogIds_good [OF goodTable_reached [OF assms(1,2)] assms(3)] .
  have "\<forall>i \<in> set ids. length i \<le> 64" using good assms(5) by fastforce
  then show ?thesis
    using good assms(4) dialog_request_read [of ids R remark rq tok t a c date] assms(6-9)
    by (meson le_trans)
qed

definition twoRows :: tableState where
  "twoRows = toggleAll (freshTable [(''crd_1'', False), (''crd_2'', True)])"

theorem selection_reaches_api_witness:
  "\<exists>q. dialogRequest (\<lambda>k. k) BulkRevoke [''crd_1''] ISSUED_IN_ERROR [] = Inr q \<and>
     apiReads BulkRevoke (bodyOf q) = Inr ([''crd_1''], Some \<lparr>rv_reason = ISSUED_IN_ERROR, rv_notes = None\<rparr>)"
proof -
  let ?rows = "[(''crd_1'', False), (''crd_2'', True)]"
  let ?st = "twoRows\<lparr>tb_action := Some BulkRevoke\<rparr>"
  have can: "canOpenBulk ''OWNER'' BulkRevoke twoRows" "dialogIds ?st = Some (BulkRevoke, [''crd_1''])"
    "tb_rows ?st = ?rows"
    by (simp_all add: twoRows_def canOpenBulk_def dialogIds_def actionIds_def selectedActiveIds_def activeIds_def
        toggleAll_def allIds_def allSelected_def jsSet_def freshTable_def isTableManager_def ex_disj_distrib)
  have "tableStep (\<lambda>k. k) ''OWNER'' (freshTable ?rows) twoRows"
    unfolding twoRows_def by (rule tableStep.all) (simp_all add: isTableManager_def freshTable_def)
  then have run: "(tableStep (\<lambda>k. k) ''OWNER'')\<^sup>*\<^sup>* (freshTable ?rows) ?st"
    using tableStep.openBulk [OF can(1)] by (meson converse_rtranclp_into_rtranclp r_into_rtranclp)
  have "trim [] = []" by (simp add: trim_def)
  then show ?thesis
    using selection_reaches_api [OF run _ can(2), of ISSUED_IN_ERROR "[]" "sampleWebRequest\<lparr>wq_token := Some ''t''\<rparr>"
        "''t''" False "[]"]
    by (auto simp: can(3) shownReasons_def)
qed

text \<open>The list of secure documents does not look at the page: its dialog may hold documents no longer shown.\<close>

lemma proofs_dialog_keeps_stale_ids:
  "proofDialogIds ((toggleAll (freshTable [(''dpf_1'', False)]))
     \<lparr>tb_rows := [(''dpf_2'', False)], tb_action := Some BulkDelete\<rparr>) = Some [''dpf_1'']"
  by (auto simp: proofDialogIds_def toggleAll_def allIds_def allSelected_def jsSet_def freshTable_def)

subsection \<open>The upload panel\<close>

definition panelInv :: "bool \<Rightarrow> dictionary \<Rightarrow> (uploadFile \<Rightarrow> xhrAnswer) \<Rightarrow> panelState \<Rightarrow> bool" where
  "panelInv patient t S st \<longleftrightarrow>
     (\<forall>f \<in> set (up_inFlight st) \<union> set_option (up_file st). wf_size f \<le> WEB_MAX_UPLOAD_BYTES \<and> looksPdf f) \<and>
     (up_inFlight st = [] \<or> (\<exists>f. up_inFlight st = [f] \<and> up_busy st \<and> (patient \<longrightarrow> up_file st = Some f))) \<and>
     (patient \<longrightarrow> (\<forall>v. up_result st = Some v \<longrightarrow>
        (\<exists>f. up_file st = Some f \<and> xhrOutcome t (S f) = Some (Inr v))))"

lemma panelInv_select: "patient \<longrightarrow> \<not> up_busy st \<Longrightarrow> panelInv patient t S st \<Longrightarrow>
    panelInv patient t S (selectFile t chosen st)"
  by (cases chosen) (auto simp: panelInv_def selectFile_def Let_def)

lemma panelInv_answer:
  assumes inv: "panelInv patient t S st" and f: "up_inFlight st = before @ f # after"
  shows "panelInv patient t S (uploadAnswer t (S f) (st\<lparr>up_inFlight := before @ after\<rparr>))"
proof -
  have one: "before = []" "after = []" "patient \<longrightarrow> up_file st = Some f"
    using inv f by (auto simp: panelInv_def append_eq_Cons_conv)
  show ?thesis
    using inv f one by (cases "xhrOutcome t (S f)" rule: option.exhaust)
      (auto simp: panelInv_def uploadAnswer_def split: sum.splits)
qed

lemma panelInv_step:
  assumes "panelStep patient t S st st'" and "panelInv patient t S st"
  shows "panelInv patient t S st'"
  using assms
proof (cases rule: panelStep.cases)
  case choose
  then show ?thesis using panelInv_select assms(2) by blast
next
  case clear
  then show ?thesis using assms(2) by (auto simp: panelInv_def clearFile_def)
next
  case submit
  then show ?thesis using assms(2)
    by (auto simp: panelInv_def canUpload_def uploadSubmit_def split: option.splits)
next
  case progress
  then show ?thesis using assms(2) by (auto simp: panelInv_def uploadProgress_def)
next
  case loaded
  then show ?thesis using panelInv_answer assms(2) by blast
qed

lemma panelInv_reached:
  assumes "(panelStep patient t S)\<^sup>*\<^sup>* freshPanel st"
  shows "panelInv patient t S st"
  using assms
proof (induction rule: rtranclp_induct)
  case base
  show ?case by (simp add: panelInv_def freshPanel_def)
next
  case (step y z)
  from panelInv_step [OF step.hyps(2) step.IH] show ?case .
qed

text \<open>
  C25. The upload panel, through any sequence of choices, uploads and answers: at most one upload runs,
  only files of at most ten megabytes that look like a PDF are ever sent, and, as long as the visitor
  keeps the file until the answer is there, the verdict shown is the server's for the file shown.
\<close>

theorem upload_verdict_is_the_files:
  assumes "(panelStep patient t S)\<^sup>*\<^sup>* freshPanel st"
  shows "length (up_inFlight st) \<le> 1 \<and>
    (\<forall>f \<in> set (up_inFlight st). wf_size f \<le> 10 * 1024 * 1024 \<and> looksPdf f) \<and>
    (patient \<and> shownResult st = Some v \<longrightarrow>
       (\<exists>f. up_file st = Some f \<and> xhrOutcome t (S f) = Some (Inr v)))"
proof -
  note inv = panelInv_reached [OF assms]
  have "length (up_inFlight st) \<le> 1" using inv by (auto simp: panelInv_def)
  moreover have "\<forall>f \<in> set (up_inFlight st). wf_size f \<le> 10 * 1024 * 1024 \<and> looksPdf f"
    using inv by (simp add: panelInv_def WEB_MAX_UPLOAD_BYTES_def)
  ultimately show ?thesis
    using inv by (auto simp: panelInv_def shownResult_def split: if_splits)
qed

definition pdfNamed :: "string \<Rightarrow> uploadFile" where
  "pdfNamed name = \<lparr>wf_name = name, wf_type = ''application/pdf'', wf_size = 4, wf_bytes = ''%PDF''\<rparr>"

definition verdictFor :: "uploadFile \<Rightarrow> xhrAnswer" where
  "verdictFor f = XhrLoad 201 (VObj [(''status'',
     VStr (if wf_name f = ''a.pdf'' then ''AUTHENTIC'' else ''DOCUMENT_MODIFIED''))])"

lemma pdfNamed_looks: "looksPdf (pdfNamed n)"
proof -
  have "toLowerCase (trim ''application/pdf'') = ''application/pdf''" by code_simp
  then show ?thesis by (simp add: looksPdf_def pdfNamed_def)
qed

definition chosenPanel :: panelState where
  "chosenPanel = selectFile (\<lambda>k. k) (Some (pdfNamed ''a.pdf'')) freshPanel"

lemma chosenPanel_simps:
  "up_file chosenPanel = Some (pdfNamed ''a.pdf'')" "up_busy chosenPanel = False" "up_inFlight chosenPanel = []"
  using pdfNamed_looks
  by (simp_all add: chosenPanel_def selectFile_def freshPanel_def WEB_MAX_UPLOAD_BYTES_def, simp_all add: pdfNamed_def)

definition judgedPanel :: "panelState \<Rightarrow> panelState" where
  "judgedPanel st = uploadAnswer (\<lambda>k. k) (verdictFor (pdfNamed ''a.pdf'')) (st\<lparr>up_inFlight := []\<rparr>)"

lemma judgedPanel_shows:
  "shownResult (judgedPanel st) = Some (VObj [(''status'', VStr ''AUTHENTIC'')])"
  "up_file (judgedPanel st) = up_file st"
  by (simp_all add: judgedPanel_def uploadAnswer_def xhrOutcome_def verdictFor_def pdfNamed_def replyOk_def
      jsTruthy_def shownResult_def)

lemma panel_sent:
  "(panelStep patient (\<lambda>k. k) verdictFor)\<^sup>*\<^sup>* freshPanel (uploadSubmit (\<lambda>k. k) chosenPanel)"
  "up_inFlight (uploadSubmit (\<lambda>k. k) chosenPanel) = [] @ pdfNamed ''a.pdf'' # []"
proof -
  have "panelStep patient (\<lambda>k. k) verdictFor freshPanel chosenPanel"
    unfolding chosenPanel_def by (rule panelStep.choose) (simp add: freshPanel_def)
  moreover have "panelStep patient (\<lambda>k. k) verdictFor chosenPanel (uploadSubmit (\<lambda>k. k) chosenPanel)"
    by (rule panelStep.submit) (simp add: canUpload_def chosenPanel_simps)
  ultimately show "(panelStep patient (\<lambda>k. k) verdictFor)\<^sup>*\<^sup>* freshPanel (uploadSubmit (\<lambda>k. k) chosenPanel)"
    by (meson converse_rtranclp_into_rtranclp r_into_rtranclp)
  show "up_inFlight (uploadSubmit (\<lambda>k. k) chosenPanel) = [] @ pdfNamed ''a.pdf'' # []"
    by (simp add: uploadSubmit_def chosenPanel_simps)
qed

theorem upload_verdict_is_the_files_witness:
  "\<exists>st f. shownResult st = Some (VObj [(''status'', VStr ''AUTHENTIC'')]) \<and> up_file st = Some f \<and>
     xhrOutcome (\<lambda>k. k) (verdictFor f) = Some (Inr (VObj [(''status'', VStr ''AUTHENTIC'')]))"
proof -
  have "panelStep True (\<lambda>k. k) verdictFor (uploadSubmit (\<lambda>k. k) chosenPanel) (judgedPanel (uploadSubmit (\<lambda>k. k) chosenPanel))"
    using panelStep.loaded [OF panel_sent(2)] by (simp add: judgedPanel_def)
  then have "(panelStep True (\<lambda>k. k) verdictFor)\<^sup>*\<^sup>* freshPanel (judgedPanel (uploadSubmit (\<lambda>k. k) chosenPanel))"
    using panel_sent(1) by (meson rtranclp.rtrancl_into_rtrancl)
  from upload_verdict_is_the_files [OF this] judgedPanel_shows(1) show ?thesis by blast
qed

text \<open>A visitor who changes the file while it is checked sees the verdict of the first under the second.\<close>

lemma verdict_shown_for_other_file:
  "\<exists>st. (panelStep False (\<lambda>k. k) verdictFor)\<^sup>*\<^sup>* freshPanel st \<and> up_file st = Some (pdfNamed ''b.pdf'') \<and>
     shownResult st = Some (VObj [(''status'', VStr ''AUTHENTIC'')]) \<and>
     xhrOutcome (\<lambda>k. k) (verdictFor (pdfNamed ''b.pdf'')) =
       Some (Inr (VObj [(''status'', VStr ''DOCUMENT_MODIFIED'')]))"
proof -
  let ?st = "selectFile (\<lambda>k. k) (Some (pdfNamed ''b.pdf'')) (uploadSubmit (\<lambda>k. k) chosenPanel)"
  have st: "up_inFlight ?st = [] @ pdfNamed ''a.pdf'' # []" "up_file ?st = Some (pdfNamed ''b.pdf'')"
    using panel_sent(2) pdfNamed_looks
    by (simp_all add: selectFile_def Let_def WEB_MAX_UPLOAD_BYTES_def, simp_all add: pdfNamed_def)
  have "panelStep False (\<lambda>k. k) verdictFor (uploadSubmit (\<lambda>k. k) chosenPanel) ?st"
    by (rule panelStep.choose) simp
  moreover have "panelStep False (\<lambda>k. k) verdictFor ?st (judgedPanel ?st)"
    using panelStep.loaded [OF st(1)] by (simp add: judgedPanel_def)
  ultimately have "(panelStep False (\<lambda>k. k) verdictFor)\<^sup>*\<^sup>* freshPanel (judgedPanel ?st)"
    using panel_sent(1) [of False] by (meson rtranclp.rtrancl_into_rtrancl)
  moreover have "xhrOutcome (\<lambda>k. k) (verdictFor (pdfNamed ''b.pdf'')) =
      Some (Inr (VObj [(''status'', VStr ''DOCUMENT_MODIFIED'')]))"
    by (simp add: xhrOutcome_def verdictFor_def pdfNamed_def replyOk_def jsTruthy_def)
  ultimately show ?thesis using judgedPanel_shows [of ?st] st(2) by auto
qed

end
