(* ===== verification/WebFormLaws.thy ===== *)
theory WebFormLaws
  imports WebClientLaws
begin

text \<open>
  Bulk issuance, whose issue button commits what was previewed only if the file is kept meanwhile; forms
  that end in a wrong state; and the language a visitor chose, which the browser and the server agree on.
\<close>

subsection \<open>Bulk issuance\<close>

text \<open>What is in flight or shown belongs to the text of the form.\<close>

definition bulkInv :: "(string \<Rightarrow> bool \<Rightarrow> reply) \<Rightarrow> bulkState \<Rightarrow> bool" where
  "bulkInv S st \<longleftrightarrow> (\<forall>q \<in> set (bi_inFlight st). fst q = bi_csv st) \<and>
     (\<forall>p. bi_preview st = Some p \<longrightarrow> (\<exists>commit status. replyOk status \<and> S (bi_csv st) commit = Answered status (Inr p)))"

lemma jsonThen_Inr: "jsonThen d r Inr = Inr v \<longleftrightarrow> (\<exists>status. replyOk status \<and> r = Answered status (Inr v))"
  by (auto simp: jsonThen_def split: reply.splits sum.splits)

lemma previewDone_fields:
  "bi_csv (previewDone t r st) = bi_csv st" "bi_inFlight (previewDone t r st) = bi_inFlight st"
  "bi_preview (previewDone t r st) = Some p \<Longrightarrow>
     bi_preview st = Some p \<or> (\<exists>status. replyOk status \<and> r = Answered status (Inr p))"
  using jsonThen_Inr [of "t ''bulkIssue.unablePreview''" r]
  by (auto simp: previewDone_def split: sum.splits if_splits)

lemma issueDone_fields:
  "bi_csv (issueDone t r st) = bi_csv st" "bi_inFlight (issueDone t r st) = bi_inFlight st"
  "bi_preview (issueDone t r st) = Some p \<Longrightarrow>
     bi_preview st = Some p \<or> (\<exists>status. replyOk status \<and> r = Answered status (Inr p))"
  using jsonThen_Inr [of "t ''bulkIssue.unableIssue''" r]
  by (auto simp: issueDone_def split: sum.splits if_splits)

lemma bulkInv_step:
  assumes "issuanceStep True t S st st'" and inv: "bulkInv S st"
  shows "bulkInv S st'"
  using assms(1)
proof (cases rule: issuanceStep.cases)
  case (previewed before csv "after")
  then have "csv = bi_csv st" using inv by (auto simp: bulkInv_def)
  then show ?thesis using inv previewed previewDone_fields(3) [of t "S csv False"]
    by (fastforce simp: bulkInv_def previewDone_fields(1,2))
next
  case (issued before csv "after")
  then have "csv = bi_csv st" using inv by (auto simp: bulkInv_def)
  then show ?thesis using inv issued issueDone_fields(3) [of t "S csv True"]
    by (fastforce simp: bulkInv_def issueDone_fields(1,2))
next
  case load
  then show ?thesis using inv by (auto simp: bulkInv_def loadFile_def)
next
  case reset
  then show ?thesis using inv by (auto simp: bulkInv_def handleReset_def)
next
  case preview
  then show ?thesis using inv by (auto simp: bulkInv_def handlePreview_def)
next
  case issue
  then show ?thesis using inv by (auto simp: bulkInv_def handleIssue_def)
qed

lemma bulkInv_reached:
  assumes "(issuanceStep True t S)\<^sup>*\<^sup>* freshBulk st"
  shows "bulkInv S st"
  using assms
proof (induction rule: rtranclp_induct)
  case base
  show ?case by (simp add: bulkInv_def freshBulk_def)
next
  case (step y z)
  from bulkInv_step [OF step.hyps(2) step.IH] show ?case .
qed

text \<open>
  With a visitor who keeps the file until the answer is there, the issue button is enabled only by the
  server's preview of the very text that will be committed.
\<close>

lemma issue_commits_what_was_previewed:
  assumes "(issuanceStep True t S)\<^sup>*\<^sup>* freshBulk st" and "canIssue st"
    and truthful: "\<And>csv status p. S csv True = Answered status (Inr p) \<Longrightarrow> vget p ''mode'' \<noteq> VStr ''preview''"
  shows "\<exists>p status. bi_preview st = Some p \<and> replyOk status \<and> S (bi_csv st) False = Answered status (Inr p)"
proof -
  obtain p where p: "bi_preview st = Some p" "vget p ''mode'' = VStr ''preview''"
    using assms(2) by (auto simp: canIssue_def split: option.splits)
  then obtain commit status where s: "replyOk status" "S (bi_csv st) commit = Answered status (Inr p)"
    using bulkInv_reached [OF assms(1)] by (auto simp: bulkInv_def)
  then have "\<not> commit" using truthful p(2) by (cases commit) auto
  then show ?thesis using p s by auto
qed

text \<open>Otherwise the preview of one file enables the issue of another.\<close>

definition csvFile :: "string \<Rightarrow> uploadFile" where
  "csvFile content = \<lparr>wf_name = ''a.csv'', wf_type = ''text/csv'', wf_size = length content, wf_bytes = content\<rparr>"

definition previews :: "string \<Rightarrow> bool \<Rightarrow> reply" where
  "previews csv commit = Answered 201 (Inr (VObj [(''mode'', VStr (if commit then ''issue'' else ''preview'')),
     (''validRows'', VNum (if csv = ''first'' then 1 else 0))]))"

definition bulkLoaded :: bulkState where
  "bulkLoaded = freshBulk\<lparr>bi_csv := ''first'', bi_fileName := Some ''a.csv'', bi_fileSize := Some 5\<rparr>"

lemma loadFile_csv: "loadFile t (csvFile c) st = st\<lparr>bi_csv := c, bi_fileName := Some ''a.csv'',
    bi_fileSize := Some (length c), bi_preview := None, bi_success := None, bi_error := None\<rparr>"
proof -
  have "endsWith ''.csv'' (toLowerCase ''a.csv'')" by code_simp
  then show ?thesis by (simp add: loadFile_def csvFile_def)
qed

lemma issue_enabled_by_other_preview:
  "\<exists>st. (issuanceStep False (\<lambda>k. k) previews)\<^sup>*\<^sup>* freshBulk st \<and> bi_csv st = ''second'' \<and> canIssue st"
proof -
  let ?run = "issuanceStep False (\<lambda>k. k) previews"
  let ?sent = "handlePreview (\<lambda>k. k) bulkLoaded"
  let ?other = "loadFile (\<lambda>k. k) (csvFile ''second'') ?sent"
  let ?final = "previewDone (\<lambda>k. k) (previews ''first'' False) (?other\<lparr>bi_inFlight := [] @ []\<rparr>)"
  have can: "canPreview bulkLoaded" unfolding bulkLoaded_def freshBulk_def canPreview_def by code_simp
  have sent: "?sent = bulkLoaded\<lparr>bi_previewing := True, bi_inFlight := [(''first'', False)]\<rparr>"
    using can by (simp add: handlePreview_def) (simp add: bulkLoaded_def freshBulk_def)
  have "loadFile (\<lambda>k. k) (csvFile ''first'') freshBulk = bulkLoaded"
    by (simp add: loadFile_csv bulkLoaded_def freshBulk_def)
  then have "?run freshBulk bulkLoaded"
    using issuanceStep.load [of False freshBulk "\<lambda>k. k" previews "csvFile ''first''"] by simp
  moreover have "?run bulkLoaded ?sent"
    by (rule issuanceStep.preview [OF can]) (simp add: bulkLoaded_def freshBulk_def)
  moreover have "?run ?sent ?other" by (rule issuanceStep.load) simp
  moreover have "?run ?other ?final"
    by (rule issuanceStep.previewed) (simp add: sent loadFile_csv)
  ultimately have "?run\<^sup>*\<^sup>* freshBulk ?final"
    by (meson converse_rtranclp_into_rtranclp r_into_rtranclp)
  moreover have "bi_csv ?final = ''second'' \<and> canIssue ?final"
    by (simp add: previewDone_fields(1) loadFile_csv)
      (simp add: canIssue_def previewDone_def previews_def jsonThen_def replyOk_def vget_def)
  ultimately show ?thesis by blast
qed

lemma bulk_text_accepted:
  assumes "csv \<noteq> []" "length csv \<le> 2097152"
  shows "bulkIssueBody (bodyOf (bulkRequest csv commit)) = Inr \<lparr>bk_csv = Some csv, bk_commit = Some commit\<rparr>"
  using assms by (simp add: bulkRequest_def sending_def bodyOf_def bulkIssueBody_def BulkIssueCredentialsDto_def
      booleanText_def request_defs MAX_CSV_BYTES_def Suc_le_eq)

subsection \<open>Refusals\<close>

definition saysSo :: "formState \<Rightarrow> formState \<Rightarrow> bool" where
  "saysSo st st' \<longleftrightarrow> (\<exists>e. fs_error st' = Some e) \<and> fs_goes st' = fs_goes st \<and> fs_success st' = fs_success st \<and>
     fs_open st' = fs_open st \<and> \<not> fs_busy st'"

lemma saysSo_settled: "saysSo st (settled (Inl e) st)"
  by (simp add: saysSo_def settled_def)

lemma settled_refused:
  assumes "\<not> replyOk status"
  shows "saysSo st (settled (jsonThen d (Answered status b) k) st)"
    "saysSo st (settled (okThen d (Answered status b) k') st)"
    "saysSo st (settled (bodyThen d (Answered status b) k) st)"
  using assms by (auto simp: jsonThen_def okThen_def bodyThen_def saysSo_settled split: sum.splits)

text \<open>These forms show why they were refused, stay where they are, and can be sent again.\<close>

lemma refusals_shown:
  assumes "\<not> replyOk status"
  shows "saysSo st (issueFormDone t (Answered status b) st)" "saysSo st (createAdminDone t (Answered status b) st)"
    "saysSo st (adminDeleted t (Answered status b) st)" "saysSo st (deleteDone t to (Answered status b) st)"
    "saysSo st (loginFormDone t (Answered status b) st)" "saysSo st (createProofDone t (Answered status b) st)"
    "saysSo st (deleteProofDone t (Answered status b) st)" "saysSo st (settingsDone t (Answered status b) st)"
    "saysSo st (rotateDone t (Answered status b) st)" "saysSo st (pdfFormDone t (Answered status b) st)"
    "saysSo (fst d) (fst (revokeDone t (Answered status b) d))"
  by (simp_all add: issueFormDone_def createAdminDone_def adminDeleted_def deleteDone_def loginFormDone_def
      createProofDone_def deleteProofDone_def settingsDone_def rotateDone_def pdfFormDone_def
      settled_refused [OF assms]) (simp add: revokeDone_def okThen_def assms saysSo_settled)

text \<open>A change of a role or of an account's activity does not: it says nothing, whatever the answer.\<close>

lemma refused_change_unreported:
  "fs_error (adminDone t (SetRole r) (Answered status b) st) = fs_error st"
  "fs_error (adminDone t (SetActive x) (Answered status b) st) = fs_error st"
  by (simp_all add: adminUpdated_def goesTo_def)

subsection \<open>Forms that end in a wrong state\<close>

text \<open>Searching again for what the page shows leaves the form busy, and nothing but leaving the page ends that.\<close>

lemma search_form_stuck:
  assumes "trim (se_value st) \<noteq> []" and "se_prevPathname st = ''/verify/'' @ encodeUriPart (trim (se_value st))"
  shows "se_busy (searchRender initialValue (se_prevPathname st) (fst (searchSubmit t (se_prevPathname st) st)))"
  using assms by (simp add: searchSubmit_def searchRender_def Let_def)

text \<open>The settings form never sends the logo, and the API reads that as its removal.\<close>

lemma settings_erase_logo:
  assumes "institutionBody T (bodyOf (settingsRequest status d)) = Inr dto"
  shows "i_logoUrl (applyInstitutionDto E dto i) = None"
proof -
  have "vget (bodyOf (settingsRequest status d)) ''logoUrl'' = VUndef"
    by (simp add: settingsRequest_def sending_def bodyOf_def vget_def orUndefined_def)
  then have "instanceOf (UpdateInstitutionDto T) (bodyOf (settingsRequest status d)) ''logoUrl'' = VUndef"
    by (simp add: UpdateInstitutionDto_def instanceOf_def)
  then have "ui_logoUrl dto = None"
    using assms by (auto simp: institutionBody_def parsed_Inr optText_def)
  then show ?thesis by (simp add: applyInstitutionDto_def trimOrNull_def)
qed

text \<open>It offers to suspend the institution; where none is active no change finds one, not even its reactivation.\<close>

lemma none_active:
  assumes "\<forall>i \<in> set (issuers d). i_status i \<noteq> ISSUER_ACTIVE"
  shows "List.find activeIssuer (newestFirst (issuers d)) = None"
    "List.find (\<lambda>i. activeIssuer i \<and> i_wallet i \<noteq> None) (newestFirst (issuers d)) = None"
  using assms by (auto simp: find_None_iff newestFirst_def activeIssuer_def)

lemma suspended_institution_stays:
  assumes "\<not> cfg_development (cfg E)" and "\<forall>i \<in> set (issuers (database w)). i_status i \<noteq> ISSUER_ACTIVE"
  shows "wp (updateInstitution E dto adminId) (\<lambda>_ _. False) (\<lambda>_ w'. database w' = database w) w"
  using assms(1) none_active [OF assms(2)]
  by (auto simp: updateInstitution_def getInstitution_def findActiveInstitution_def ensureDevelopmentInstitution_def
      wp_simps split: option.splits)

subsection \<open>What the visitor keeps\<close>

lemma cookie_written: "map_of (vi_cookies (writeLanguageCookie lang v)) LANGUAGE_COOKIE_NAME = Some lang"
proof -
  have "map_of (map (\<lambda>c. if fst c = k then (k, x) else c) cs) k = Some x" if "k \<in> set (map fst cs)"
    for k x and cs :: "(string \<times> string) list"
    using that by (induction cs) auto
  moreover have "map_of (cs @ [(k, x)]) k = Some x" if "k \<notin> set (map fst cs)"
    for k x and cs :: "(string \<times> string) list"
    using that by (induction cs) auto
  ultimately show ?thesis by (simp add: writeLanguageCookie_def)
qed

lemma written_storage: "vi_storage (writeLanguageCookie lang v) = vi_storage v"
  by (simp add: writeLanguageCookie_def)

lemma language_agreed:
  assumes "lang = ''en'' \<or> lang = ''id''"
  shows "clientLanguage initially (setLanguage lang v) = lang" "getServerLanguage (setLanguage lang v) = lang"
    "persistLanguage initially (setLanguage lang v) = setLanguage lang (setLanguage lang v)"
proof -
  have known: "normalizeLanguage (Some lang) = Some lang" using assms by (auto simp: normalizeLanguage_def)
  show client: "clientLanguage initially (setLanguage lang v) = lang"
    by (simp add: clientLanguage_def setLanguage_def written_storage known nullish_def orElse_def)
  show "getServerLanguage (setLanguage lang v) = lang"
    by (simp add: getServerLanguage_def setLanguage_def cookie_written known orElse_def)
  show "persistLanguage initially (setLanguage lang v) = setLanguage lang (setLanguage lang v)"
    by (simp add: persistLanguage_def client)
qed

lemma theme_survives_reload: "initTheme prefers (toggleTheme v) = toggleTheme v"
  by (cases v) (simp add: initTheme_def toggleTheme_def)

lemma pass_rate_bounded: "snd (snd (snd (chartSummary bs))) \<le> 100"
proof -
  have rate: "(200 * m + k) div (2 * k) \<le> 100" if "0 < k" "m \<le> k" for m k :: nat
  proof -
    have "200 * m + k < 101 * (2 * k)" using that by linarith
    then have "(200 * m + k) div (2 * k) < 101" by (rule less_mult_imp_div_less)
    then show ?thesis by simp
  qed
  show ?thesis
    using rate [of "sumOf cb_valid bs + sumOf cb_invalid bs" "sumOf cb_valid bs"]
    by (simp only: chartSummary_def Let_def snd_conv split: if_split) linarith
qed

end
