(* ===== verification/Certificate.thy ===== *)
theory Certificate
  imports Complex_Main Js
begin

text \<open>
  The printed certificate (\<open>modules/credential/credential-certificate.ts\<close>): what is drawn where on its
  one page, in the order of the calls, and the loading of the institution's logo. The PDF library is a
  parameter: the size of an embedded picture, or its refusal, and which texts its fonts encode. Dates are
  written by the parameter \<open>longDate\<close>; colours are thousandths.
\<close>

subsection \<open>Drawing\<close>

datatype font = TimesBold | Helvetica | HelveticaBold

type_synonym ink = "nat \<times> nat \<times> nat"

datatype picture = QrPicture | LogoPicture

datatype drawing =
    TextAt string rat rat nat font ink "(rat \<times> rat) option"
  | BoxAt rat rat rat rat ink "(ink \<times> rat) option"
  | PictureAt picture rat rat rat rat

type_synonym size = "rat \<times> rat"

record certificateData =
  ct_credentialId :: string
  ct_verificationId :: string
  ct_studentName :: string
  ct_studentId :: string
  ct_degree :: string
  ct_issuedAt :: time
  ct_revoked :: bool
  ct_revokedAt :: "time option"
  ct_issuerName :: string
  ct_displayName :: "string option"
  ct_domain :: string
  ct_logoUrl :: "string option"
  ct_websiteUrl :: "string option"
  ct_verificationUrl :: string
  ct_qrCodePng :: string

definition PAGE_WIDTH :: rat where "PAGE_WIDTH = 842"
definition PAGE_HEIGHT :: rat where "PAGE_HEIGHT = 595"

definition drawContainedImage :: "picture \<Rightarrow> size \<Rightarrow> rat \<Rightarrow> rat \<Rightarrow> rat \<Rightarrow> rat \<Rightarrow> drawing" where
  "drawContainedImage pic scaled x y maxWidth maxHeight = (
     let ratio = min (maxWidth / fst scaled) (maxHeight / snd scaled);
         w = fst scaled * ratio; h = snd scaled * ratio
     in PictureAt pic (x + (maxWidth - w) / 2) (y + (maxHeight - h) / 2) w h)"

definition ROW_HEIGHT :: rat where "ROW_HEIGHT = 32"

definition infoRow :: "rat \<Rightarrow> rat \<Rightarrow> rat \<Rightarrow> nat \<Rightarrow> nat \<times> string \<times> string \<Rightarrow> drawing list" where
  "infoRow x y w n r = (case r of (index, label, shown) \<Rightarrow>
     let rowY = y + ROW_HEIGHT * of_nat (n - index - 1) in
     (if 0 < index then [BoxAt (x + 18) (rowY + ROW_HEIGHT - 1) (w - 36) 1 (914, 886, 816) None] else []) @
     [TextAt label (x + 18) (rowY + 18) 8 HelveticaBold (443, 459, 467) None,
      TextAt shown (x + 150) (rowY + 16) 9 Helvetica (161, 173, 169) (Some (w - 170, 11))])"

definition drawInfoBlock :: "rat \<Rightarrow> rat \<Rightarrow> rat \<Rightarrow> (string \<times> string) list \<Rightarrow> drawing list" where
  "drawInfoBlock x y w rows = BoxAt x y w (ROW_HEIGHT * of_nat (length rows) + 8) (979, 972, 952)
       (Some ((867, 839, 765), 1)) #
     concat (map (infoRow x y w (length rows)) (enumerate 0 rows))"

definition statusLine :: "(time \<Rightarrow> string) \<Rightarrow> certificateData \<Rightarrow> string" where
  "statusLine longDate c = (case ct_revokedAt c of
     Some t \<Rightarrow> (if ct_revoked c then ''Revoked on '' @ longDate t else ''Issued and active'')
   | None \<Rightarrow> ''Issued and active'')"

definition infoRows :: "(time \<Rightarrow> string) \<Rightarrow> certificateData \<Rightarrow> (string \<times> string) list" where
  "infoRows longDate c = [(''Credential ID'', ct_credentialId c), (''Verification ID'', ct_verificationId c),
     (''Student ID'', ct_studentId c), (''Issued date'', longDate (ct_issuedAt c)),
     (''Credential status'', statusLine longDate c), (''Verification URL'', ct_verificationUrl c)]"

definition textAt :: "string \<Rightarrow> rat \<Rightarrow> rat \<Rightarrow> nat \<Rightarrow> font \<Rightarrow> ink \<Rightarrow> drawing" where
  "textAt s x y sz f c = TextAt s x y sz f c None"

definition certificateDrawing :: "(time \<Rightarrow> string) \<Rightarrow> size \<Rightarrow> size option \<Rightarrow> certificateData \<Rightarrow> drawing list" where
  "certificateDrawing longDate qr logo c = (
     let w = PAGE_WIDTH; h = PAGE_HEIGHT; left = (if logo \<noteq> None then 142 else 58) in
     [BoxAt 24 24 (w - 48) (h - 48) (992, 988, 976) (Some ((792, 745, 643), 5 / 4)),
      BoxAt 44 (h - 108) (w - 88) 1 (824, 792, 722) None] @
     (case logo of None \<Rightarrow> [] | Some s \<Rightarrow> [drawContainedImage LogoPicture s 56 (h - 98) 74 74]) @
     [textAt (orElse (ct_displayName c) (ct_issuerName c)) left (h - 70) 24 HelveticaBold (161, 173, 169),
      textAt (ct_domain c) left (h - 92) 10 Helvetica (384, 400, 400),
      textAt ''Academic Credential Certificate'' 58 (h - 152) 30 TimesBold (122, 141, 157),
      textAt ''This document certifies that'' 58 (h - 198) 13 Helvetica (384, 400, 400),
      textAt (ct_studentName c) 58 (h - 236) 28 TimesBold (90, 102, 114),
      textAt ''has been awarded'' 58 (h - 276) 13 Helvetica (384, 400, 400),
      textAt (ct_degree c) 58 (h - 316) 22 HelveticaBold (161, 173, 169),
      TextAt ''Verify this certificate using the QR code or verification URL shown on this document.''
        58 (h - 350) 11 Helvetica (443, 459, 467) (Some (430, 14))] @
     drawInfoBlock 58 (h - 430) 430 (infoRows longDate c) @
     [BoxAt 538 138 246 286 (979, 972, 952) (Some ((867, 839, 765), 1)),
      textAt ''Verification'' 562 392 16 HelveticaBold (161, 173, 169),
      TextAt ''Scan the QR code to review the live credential record.'' 562 370 10 Helvetica (443, 459, 467)
        (Some (196, 13)),
      drawContainedImage QrPicture qr 576 208 170 170,
      textAt (ct_verificationId c) 562 176 11 HelveticaBold (161, 173, 169),
      textAt (orElse (ct_websiteUrl c) (ct_domain c)) 58 72 10 Helvetica (443, 459, 467),
      textAt ''Generated by Certiva credential registry'' (w - 248) 72 10 Helvetica (443, 459, 467)])"

subsection \<open>The logo\<close>

text \<open>What a fetch of the logo gives: a rejection, or an answer with its type and bytes.\<close>

datatype logoFetch = LogoUnreached | LogoAnswer bool "string option" string

record pdfLib =
  lib_embedPng :: "string \<Rightarrow> size option"
  lib_embedJpg :: "string \<Rightarrow> size option"
  lib_encodes :: "font \<Rightarrow> string \<Rightarrow> bool"

definition embedded :: "size option \<Rightarrow> string + size option" where
  "embedded r = (case r of None \<Rightarrow> Inl ''The input is not a picture'' | Some s \<Rightarrow> Inr (Some s))"

text \<open>
  The embedding is returned without being awaited, so its rejection is not the caught one.
\<close>

definition embedIssuerLogo :: "pdfLib \<Rightarrow> (string \<Rightarrow> logoFetch) \<Rightarrow> string option \<Rightarrow> string + size option" where
  "embedIssuerLogo L fetch logoUrl = (if \<not> truthy logoUrl then Inr None
     else case fetch (the logoUrl) of LogoUnreached \<Rightarrow> Inr None
       | LogoAnswer ok contentType bytes \<Rightarrow>
           (let ty = orElse contentType [] in
            if \<not> ok then Inr None
            else if includesStr ''png'' ty then embedded (lib_embedPng L bytes)
            else if includesStr ''jpeg'' ty \<or> includesStr ''jpg'' ty then embedded (lib_embedJpg L bytes)
            else Inr None))"

fun drawn :: "pdfLib \<Rightarrow> drawing \<Rightarrow> bool" where
  "drawn L (TextAt s x y sz f c b) \<longleftrightarrow> lib_encodes L f s"
| "drawn L _ \<longleftrightarrow> True"

definition generateCredentialCertificatePdf ::
  "pdfLib \<Rightarrow> (string \<Rightarrow> logoFetch) \<Rightarrow> (time \<Rightarrow> string) \<Rightarrow> certificateData \<Rightarrow> string + drawing list" where
  "generateCredentialCertificatePdf L fetch longDate c = (case lib_embedPng L (ct_qrCodePng c) of
     None \<Rightarrow> Inl ''The input is not a PNG file''
   | Some qr \<Rightarrow> (case embedIssuerLogo L fetch (ct_logoUrl c) of Inl e \<Rightarrow> Inl e
     | Inr logo \<Rightarrow> (let ds = certificateDrawing longDate qr logo c in
         if list_all (drawn L) ds then Inr ds else Inl ''WinAnsi cannot encode'')))"

subsection \<open>What the certificate shows\<close>

lemma contained_image_fits:
  assumes "drawContainedImage pic (sw, sh) x y mw mh = PictureAt p px py w h" and "0 < sw" "0 < sh" "0 < mw" "0 < mh"
  shows "x \<le> px" "px + w \<le> x + mw" "y \<le> py" "py + h \<le> y + mh" "w * sh = h * sw" "w = mw \<or> h = mh"
proof -
  define r where "r = min (mw / sw) (mh / sh)"
  have w: "w = sw * r" "h = sh * r" "px = x + (mw - w) / 2" "py = y + (mh - h) / 2"
    using assms(1) by (auto simp: drawContainedImage_def Let_def r_def)
  have "w \<le> mw" "h \<le> mh"
    using assms(2-5) by (auto simp: w(1,2) r_def min_def pos_le_divide_eq pos_divide_le_eq field_simps)
  then show "x \<le> px" "px + w \<le> x + mw" "y \<le> py" "py + h \<le> y + mh"
    by (simp_all add: w(3,4) field_simps)
  show "w * sh = h * sw" by (simp add: w(1,2))
  show "w = mw \<or> h = mh" using assms(2,3) by (auto simp: w(1,2) r_def min_def)
qed

fun onPage :: "drawing \<Rightarrow> bool" where
  "onPage (TextAt s x y sz f c b) \<longleftrightarrow> 0 \<le> x \<and> x \<le> PAGE_WIDTH \<and> 0 \<le> y \<and> y + of_nat sz \<le> PAGE_HEIGHT \<and>
     (case b of None \<Rightarrow> True | Some (w, l) \<Rightarrow> x + w \<le> PAGE_WIDTH)"
| "onPage (BoxAt x y w h c b) \<longleftrightarrow> 0 \<le> x \<and> x + w \<le> PAGE_WIDTH \<and> 0 \<le> y \<and> y + h \<le> PAGE_HEIGHT"
| "onPage (PictureAt p x y w h) \<longleftrightarrow> 0 \<le> x \<and> x + w \<le> PAGE_WIDTH \<and> 0 \<le> y \<and> y + h \<le> PAGE_HEIGHT"

lemma contained_on_page:
  assumes "0 < fst s" "0 < snd s" "0 \<le> x" "0 \<le> y" "0 < mw" "0 < mh" "x + mw \<le> PAGE_WIDTH" "y + mh \<le> PAGE_HEIGHT"
  shows "onPage (drawContainedImage pic s x y mw mh)"
proof (cases "drawContainedImage pic s x y mw mh")
  case (PictureAt p px py w h)
  then show ?thesis
    using contained_image_fits [of pic "fst s" "snd s" x y mw mh p px py w h] assms by auto
qed (simp_all add: drawContainedImage_def Let_def)

lemma info_block_on_page:
  "\<forall>d \<in> set (drawInfoBlock 58 (PAGE_HEIGHT - 430) 430 (infoRows longDate c)). onPage d"
  by (simp add: drawInfoBlock_def infoRows_def infoRow_def PAGE_HEIGHT_def PAGE_WIDTH_def ROW_HEIGHT_def
      enumerate_eq_zip upt_rec Let_def)

lemma drawing_on_page:
  assumes "0 < fst qr" "0 < snd qr" "\<And>s. logo = Some s \<Longrightarrow> 0 < fst s \<and> 0 < snd s"
  shows "\<forall>d \<in> set (certificateDrawing longDate qr logo c). onPage d"
proof -
  have qrFits: "onPage (drawContainedImage QrPicture qr 576 208 170 170)"
    by (rule contained_on_page) (simp_all add: assms PAGE_WIDTH_def PAGE_HEIGHT_def)
  have logoFits: "onPage (drawContainedImage LogoPicture s 56 (PAGE_HEIGHT - 98) 74 74)" if "logo = Some s" for s
    by (rule contained_on_page) (simp_all add: assms(3) [OF that] PAGE_WIDTH_def PAGE_HEIGHT_def)
  show ?thesis
    using qrFits logoFits info_block_on_page [of longDate c]
    by (auto simp: certificateDrawing_def textAt_def Let_def PAGE_WIDTH_def PAGE_HEIGHT_def split: option.splits)
qed

fun textsOfDrawing :: "drawing list \<Rightarrow> string list" where
  "textsOfDrawing [] = []"
| "textsOfDrawing (TextAt s x y sz f c b # ds) = s # textsOfDrawing ds"
| "textsOfDrawing (d # ds) = textsOfDrawing ds"

lemma textsOfDrawing_append [simp]: "textsOfDrawing (xs @ ys) = textsOfDrawing xs @ textsOfDrawing ys"
  by (induction xs rule: textsOfDrawing.induct) auto

lemma textsOfDrawing_picture [simp]:
  "textsOfDrawing (drawContainedImage pic sc x y mw mh # ds) = textsOfDrawing ds"
  by (simp add: drawContainedImage_def Let_def)

lemma textsOfDrawing_concat: "textsOfDrawing (concat (map f xs)) = concat (map (\<lambda>x. textsOfDrawing (f x)) xs)"
  by (induction xs) auto

lemma textsOfDrawing_row: "textsOfDrawing (infoRow x y w n r) = [fst (snd r), snd (snd r)]"
  by (simp add: infoRow_def Let_def split: prod.splits)

lemma info_block_texts: "set (textsOfDrawing (drawInfoBlock x y w rows)) = fst ` set rows \<union> snd ` set rows"
proof -
  have "set (textsOfDrawing (drawInfoBlock x y w rows)) =
      (\<Union>r \<in> snd ` set (enumerate 0 rows). {fst r, snd r})"
    by (auto simp: drawInfoBlock_def textsOfDrawing_concat textsOfDrawing_row)
  also have "snd ` set (enumerate 0 rows) = set rows"
    by (metis map_snd_enumerate set_map)
  finally show ?thesis by auto
qed

text \<open>
  A certificate that is produced lies on its page and writes who it is for, what for, by whom, every
  identifier, where to verify it, and a revocation exactly when it has a date.
\<close>

lemma certificate_writes_record:
  assumes made: "generateCredentialCertificatePdf L fetch longDate c = Inr ds"
    and sizes: "\<And>b s. lib_embedPng L b = Some s \<or> lib_embedJpg L b = Some s \<Longrightarrow> 0 < fst s \<and> 0 < snd s"
  shows "(\<forall>d \<in> set ds. onPage d) \<and>
    {ct_studentName c, ct_degree c, ct_studentId c, ct_credentialId c, ct_verificationId c, ct_verificationUrl c,
      longDate (ct_issuedAt c), statusLine longDate c, ct_domain c} \<subseteq> set (textsOfDrawing ds)"
proof -
  obtain qr logo where parts: "lib_embedPng L (ct_qrCodePng c) = Some qr"
      "embedIssuerLogo L fetch (ct_logoUrl c) = Inr logo" "ds = certificateDrawing longDate qr logo c"
    using made by (auto simp: generateCredentialCertificatePdf_def Let_def split: option.splits sum.splits if_splits)
  have "0 < fst s \<and> 0 < snd s" if "logo = Some s" for s
    using parts(2) that sizes by (auto simp: embedIssuerLogo_def embedded_def Let_def
        split: logoFetch.splits if_splits option.splits)
  then have "\<forall>d \<in> set ds. onPage d"
    unfolding parts(3) using sizes [of "ct_qrCodePng c" qr] parts(1) by (intro drawing_on_page) auto
  moreover have "set (textsOfDrawing ds) \<supseteq>
      {ct_studentName c, ct_degree c, ct_domain c, ct_verificationId c} \<union> snd ` set (infoRows longDate c)"
    using info_block_texts [of 58 "PAGE_HEIGHT - 430" 430 "infoRows longDate c"]
    by (auto simp: parts(3) certificateDrawing_def textAt_def Let_def)
  ultimately show ?thesis by (auto simp: infoRows_def)
qed

text \<open>
  A logo that is not reached, refused or of another type is left out; one that claims to be a PNG and is
  none stops the certificate.
\<close>

lemma missing_logo_left_out:
  "fetch url = LogoUnreached \<or> fetch url = LogoAnswer False ty b \<Longrightarrow> embedIssuerLogo L fetch (Some url) = Inr None"
  by (auto simp: embedIssuerLogo_def)

lemma broken_logo_stops_certificate:
  assumes "truthy (ct_logoUrl c)" and "fetch (the (ct_logoUrl c)) = LogoAnswer True (Some ''image/png'') bytes"
    and "lib_embedPng L bytes = None"
  shows "\<exists>e. generateCredentialCertificatePdf L fetch longDate c = Inl e"
proof -
  have "includesStr ''png'' ''image/png''" by code_simp
  then have "\<exists>e. embedIssuerLogo L fetch (ct_logoUrl c) = Inl e"
    using assms by (simp add: embedIssuerLogo_def embedded_def orElse_def)
  then show ?thesis by (auto simp: generateCredentialCertificatePdf_def split: option.split)
qed

subsection \<open>What is painted over\<close>

text \<open>
  Later drawings lie over earlier ones, and a box is filled from its lower left corner. A text is painted
  over where a later box holds its first letter, from the base line to the height of its size.
\<close>

fun holds :: "drawing \<Rightarrow> rat \<Rightarrow> rat \<Rightarrow> nat \<Rightarrow> bool" where
  "holds (BoxAt bx by bw bh c b) x y sz \<longleftrightarrow> bx \<le> x \<and> x < bx + bw \<and> by \<le> y \<and> y + of_nat sz \<le> by + bh"
| "holds _ x y sz \<longleftrightarrow> False"

fun visibleTexts :: "drawing list \<Rightarrow> string list" where
  "visibleTexts [] = []"
| "visibleTexts (TextAt s x y sz f c b # ds) =
     (if list_ex (\<lambda>d. holds d x y sz) ds then visibleTexts ds else s # visibleTexts ds)"
| "visibleTexts (d # ds) = visibleTexts ds"

lemma picture_holds [simp]: "\<not> holds (drawContainedImage pic sc x y mw mh) a b n"
  by (simp add: drawContainedImage_def Let_def)

lemma picture_visible [simp]: "visibleTexts (drawContainedImage pic sc x y mw mh # ds) = visibleTexts ds"
  by (simp add: drawContainedImage_def Let_def)

lemma enumerate_six: "enumerate 0 [a, b, c, d, e, f] = [(0, a), (1, b), (2, c), (3, d), (4, e), (5, f)]"
  by (simp add: numeral_eq_Suc)

lemma length_six: "length [a, b, c, d, e, f] = 6"
  by simp

lemma info_block_drawing:
  "drawInfoBlock 58 165 430 [a, b, c, d, e, f] =
    BoxAt 58 165 430 200 (979, 972, 952) (Some ((867, 839, 765), 1)) #
    infoRow 58 165 430 6 (0, a) @ infoRow 58 165 430 6 (1, b) @ infoRow 58 165 430 6 (2, c) @
    infoRow 58 165 430 6 (3, d) @ infoRow 58 165 430 6 (4, e) @ infoRow 58 165 430 6 (5, f)"
  unfolding drawInfoBlock_def enumerate_six length_six by (simp add: ROW_HEIGHT_def)

lemma info_row_drawing:
  "infoRow 58 165 430 6 (i, l, v) = (let y = 165 + 32 * of_nat (6 - i - 1) in
     (if 0 < i then [BoxAt 76 (y + 31) 394 1 (914, 886, 816) None] else []) @
     [TextAt l 76 (y + 18) 8 HelveticaBold (443, 459, 467) None,
      TextAt v 208 (y + 16) 9 Helvetica (161, 173, 169) (Some (260, 11))])"
  by (simp add: infoRow_def ROW_HEIGHT_def Let_def)

text \<open>
  The box behind the details reaches from 165 to 365 and is drawn after the texts above it, so the degree,
  the line before it and the instruction are painted over: of the two things a certificate certifies only
  the student's name is seen.
\<close>

lemma certificate_visible_texts:
  "visibleTexts (certificateDrawing longDate qr logo c) =
    [orElse (ct_displayName c) (ct_issuerName c), ct_domain c, ''Academic Credential Certificate'',
     ''This document certifies that'', ct_studentName c,
     ''Credential ID'', ct_credentialId c, ''Verification ID'', ct_verificationId c, ''Student ID'', ct_studentId c,
     ''Issued date'', longDate (ct_issuedAt c), ''Credential status'', statusLine longDate c,
     ''Verification URL'', ct_verificationUrl c,
     ''Verification'', ''Scan the QR code to review the live credential record.'', ct_verificationId c,
     orElse (ct_websiteUrl c) (ct_domain c), ''Generated by Certiva credential registry'']"
proof -
  have block: "drawInfoBlock 58 (PAGE_HEIGHT - 430) 430 (infoRows longDate c) = drawInfoBlock 58 165 430
      [(''Credential ID'', ct_credentialId c), (''Verification ID'', ct_verificationId c),
       (''Student ID'', ct_studentId c), (''Issued date'', longDate (ct_issuedAt c)),
       (''Credential status'', statusLine longDate c), (''Verification URL'', ct_verificationUrl c)]"
    by (simp add: PAGE_HEIGHT_def infoRows_def)
  show ?thesis
    unfolding certificateDrawing_def Let_def textAt_def block
    unfolding info_block_drawing info_row_drawing PAGE_HEIGHT_def PAGE_WIDTH_def
    by (cases logo) simp_all
qed

end
