(* ===== verification/PdfScan.thy ===== *)
theory PdfScan
  imports PdfReference
begin

text \<open>
  The three stages of \<open>pdf-reference.service.ts\<close> that read pages, with their loops over pages, drawing
  operations and scales. A document is what the PDF library gives for it: no document where it throws, no
  page where a page throws; of a page its texts, its drawing operations, its image objects and its
  renderings. The QR decoder is a parameter. The laws show that each loop is the scan of \<open>PdfReference\<close>
  over the texts and payloads it meets, which ties the environment's page lists to the code.
\<close>

record pdfImage =
  im_width :: nat
  im_height :: nat
  im_data :: "nat list"

text \<open>An operation: whether it paints an image, and its first argument if that is a text.\<close>

record pdfPage =
  pp_items :: "string option list"
  pp_operators :: "(bool \<times> string option) list"
  pp_objects :: "string \<Rightarrow> pdfImage option"
  pp_rendered :: "nat \<Rightarrow> pdfImage option"

type_synonym pdfDocument = "pdfPage option list option"

type_synonym qrDecoder = "nat list \<Rightarrow> nat \<Rightarrow> nat \<Rightarrow> string option"

subsection \<open>Loops\<close>

text \<open>What a loop over pages does next: stop with an answer, stop at an exception, or go on.\<close>

datatype 'a step = Found 'a | Thrown | GoOn

fun stepping :: "('a \<Rightarrow> 'b step) \<Rightarrow> 'a list \<Rightarrow> 'b step" where
  "stepping f [] = GoOn"
| "stepping f (x # xs) = (case f x of GoOn \<Rightarrow> stepping f xs | r \<Rightarrow> r)"

definition pagesLoop :: "nat \<Rightarrow> (pdfPage \<Rightarrow> 'b step) \<Rightarrow> pdfDocument \<Rightarrow> 'b option" where
  "pagesLoop maxPages f doc = (case doc of None \<Rightarrow> None
     | Some pages \<Rightarrow> (case stepping (\<lambda>p. case p of None \<Rightarrow> Thrown | Some page \<Rightarrow> f page) (take maxPages pages) of
         Found r \<Rightarrow> Some r | _ \<Rightarrow> None))"

definition goOn :: "'b option \<Rightarrow> 'b step" where
  "goOn r = (case r of None \<Rightarrow> GoOn | Some x \<Rightarrow> Found x)"

subsection \<open>Texts\<close>

definition pageText :: "pdfPage \<Rightarrow> string" where
  "pageText page = join '' '' (filter (\<lambda>s. s \<noteq> []) (map (\<lambda>i. orElse i []) (pp_items page)))"

definition textStage :: "referenceKind option \<Rightarrow> pdfDocument \<Rightarrow> string option" where
  "textStage kind = pagesLoop 3 (\<lambda>page. goOn (extractReferenceFromString kind (pageText page)))"

subsection \<open>Images\<close>

fun rgbToRgba :: "nat list \<Rightarrow> nat list" where
  "rgbToRgba (r # g # b # ds) = r # g # b # 255 # rgbToRgba ds"
| "rgbToRgba ds = []"

definition normalizeImageData :: "pdfImage \<Rightarrow> nat list" where
  "normalizeImageData im = (let n = im_width im * im_height im in
     if length (im_data im) = n * 4 then im_data im
     else if length (im_data im) = n * 3 then rgbToRgba (im_data im) else im_data im)"

definition payloadStep :: "env \<Rightarrow> referenceKind option \<Rightarrow> string option \<Rightarrow> string step" where
  "payloadStep E kind payload = (case payload of None \<Rightarrow> GoOn
     | Some p \<Rightarrow> if p = [] then GoOn else goOn (extractReferenceFromPayload E kind p))"

definition operatorPayload :: "qrDecoder \<Rightarrow> pdfPage \<Rightarrow> bool \<times> string option \<Rightarrow> string option" where
  "operatorPayload jsQR page op = (case op of (True, Some imageId) \<Rightarrow>
       (case pp_objects page imageId of None \<Rightarrow> None
        | Some im \<Rightarrow> jsQR (normalizeImageData im) (im_width im) (im_height im))
     | _ \<Rightarrow> None)"

definition imageStage :: "env \<Rightarrow> qrDecoder \<Rightarrow> referenceKind option \<Rightarrow> pdfDocument \<Rightarrow> string option" where
  "imageStage E jsQR kind = pagesLoop 3 (\<lambda>page.
     stepping (\<lambda>op. payloadStep E kind (operatorPayload jsQR page op)) (pp_operators page))"

subsection \<open>Rendered pages\<close>

definition scaleStep :: "env \<Rightarrow> qrDecoder \<Rightarrow> referenceKind option \<Rightarrow> pdfPage \<Rightarrow> nat \<Rightarrow> string step" where
  "scaleStep E jsQR kind page scale = (case pp_rendered page scale of None \<Rightarrow> Thrown
     | Some im \<Rightarrow> payloadStep E kind (jsQR (im_data im) (im_width im) (im_height im)))"

definition renderedStage :: "env \<Rightarrow> qrDecoder \<Rightarrow> referenceKind option \<Rightarrow> pdfDocument \<Rightarrow> string option" where
  "renderedStage E jsQR kind = pagesLoop 2 (\<lambda>page. stepping (scaleStep E jsQR kind page) [2, 3, 4])"

subsection \<open>The loops are scans\<close>

lemma rgbToRgba_length: "length ds = 3 * n \<Longrightarrow> length (rgbToRgba ds) = 4 * n"
proof (induction ds arbitrary: n rule: rgbToRgba.induct)
  case (1 r g b ds)
  then obtain m where "n = Suc m" by (cases n) auto
  then show ?case using 1 by simp
qed auto

text \<open>Three bytes a pixel become four, the decoder's format; every pixel keeps its colours and is opaque.\<close>

lemma normalized_pixels:
  assumes "length (im_data im) = im_width im * im_height im * 3" and "0 < im_width im * im_height im"
  shows "length (normalizeImageData im) = im_width im * im_height im * 4"
  using assms rgbToRgba_length [of "im_data im" "im_width im * im_height im"]
  by (simp add: normalizeImageData_def mult.commute)

text \<open>What a scan meets on a page: \<open>None\<close> at an exception, and every payload that is none is skipped.\<close>

definition met :: "string option list \<Rightarrow> string option list" where
  "met ps = map Some (filter (\<lambda>p. p \<noteq> []) (someOf ps))"

lemma scan_append: "scan f (map Some xs @ ys) = (case scan f (map Some xs) of Some r \<Rightarrow> Some r | None \<Rightarrow> scan f ys)"
  by (induction xs) (auto split: option.splits)

definition asScan :: "'b step \<Rightarrow> 'b option \<Rightarrow> 'b option" where
  "asScan r rest = (case r of Found x \<Rightarrow> Some x | Thrown \<Rightarrow> None | GoOn \<Rightarrow> rest)"

lemma stepping_pages:
  assumes "\<And>page rest. scan f (g page @ rest) = asScan (h page) (scan f rest)"
  shows "scan f (concat (map (\<lambda>p. case p of None \<Rightarrow> [None] | Some page \<Rightarrow> g page) pages)) =
    asScan (stepping (\<lambda>p. case p of None \<Rightarrow> Thrown | Some page \<Rightarrow> h page) pages) None"
  by (induction pages) (auto simp: asScan_def assms split: option.splits step.splits)

lemma pagesLoop_scan:
  assumes "\<And>page rest. scan f (g page @ rest) = asScan (h page) (scan f rest)"
  shows "pagesLoop n h (Some pages) =
    scan f (concat (take n (map (\<lambda>p. case p of None \<Rightarrow> [None] | Some page \<Rightarrow> g page) pages)))"
  unfolding take_map stepping_pages [where f = f and g = g and h = h, OF assms]
  by (simp add: pagesLoop_def asScan_def split: step.splits)

lemma payloads_scan:
  "scan (extractReferenceFromPayload E kind) (met (map q xs) @ rest) =
    asScan (stepping (\<lambda>x. payloadStep E kind (q x)) xs) (scan (extractReferenceFromPayload E kind) rest)"
  by (induction xs) (auto simp: met_def someOf_def payloadStep_def goOn_def asScan_def split: option.splits step.splits)

text \<open>Where the environment lists a document's texts and payloads, its three stages are these loops.\<close>

definition textPages :: "pdfPage option list \<Rightarrow> string option list list" where
  "textPages pages = map (\<lambda>p. case p of None \<Rightarrow> [None] | Some page \<Rightarrow> [Some (pageText page)]) pages"

definition imagePages :: "qrDecoder \<Rightarrow> pdfPage option list \<Rightarrow> string option list list" where
  "imagePages jsQR pages = map (\<lambda>p. case p of None \<Rightarrow> [None]
     | Some page \<Rightarrow> met (map (operatorPayload jsQR page) (pp_operators page))) pages"

lemma text_stage_is_scan:
  assumes "pdfTextPages E buffer = textPages pages"
  shows "extractReferenceFromPdfText E kind buffer = textStage kind (Some pages)"
proof -
  have "scan (extractReferenceFromString kind) ([Some (pageText page)] @ rest) =
      asScan (goOn (extractReferenceFromString kind (pageText page))) (scan (extractReferenceFromString kind) rest)"
    for page rest
    by (simp add: asScan_def goOn_def split: option.splits)
  from pagesLoop_scan [where g = "\<lambda>page. [Some (pageText page)]", OF this] show ?thesis
    by (simp add: extractReferenceFromPdfText_def textStage_def assms textPages_def)
qed

lemma image_stage_is_scan:
  assumes "pdfImagePages E buffer = imagePages jsQR pages"
  shows "extractReferenceFromPdfImages E kind buffer = imageStage E jsQR kind (Some pages)"
  unfolding extractReferenceFromPdfImages_def imageStage_def assms imagePages_def
  by (rule pagesLoop_scan [symmetric]) (rule payloads_scan)

definition renderedPages :: "qrDecoder \<Rightarrow> pdfPage option list \<Rightarrow> string option list list" where
  "renderedPages jsQR pages = map (\<lambda>p. case p of None \<Rightarrow> [None] | Some page \<Rightarrow>
     concat (map (\<lambda>s. case pp_rendered page s of None \<Rightarrow> [None]
       | Some im \<Rightarrow> met [jsQR (im_data im) (im_width im) (im_height im)]) [2, 3, 4])) pages"

lemma scale_scan:
  "scan (extractReferenceFromPayload E kind) (concat (map (\<lambda>s. case pp_rendered page s of None \<Rightarrow> [None]
      | Some im \<Rightarrow> met [jsQR (im_data im) (im_width im) (im_height im)]) scales) @ rest) =
   asScan (stepping (scaleStep E jsQR kind page) scales) (scan (extractReferenceFromPayload E kind) rest)"
  by (induction scales) (auto simp: met_def someOf_def scaleStep_def payloadStep_def goOn_def asScan_def
      split: option.splits step.splits)

lemma rendered_stage_is_scan:
  assumes "pdfRenderedPages E buffer = renderedPages jsQR pages"
  shows "extractReferenceFromRenderedQr E kind buffer = renderedStage E jsQR kind (Some pages)"
  unfolding extractReferenceFromRenderedQr_def renderedStage_def assms renderedPages_def
  by (rule pagesLoop_scan [symmetric]) (rule scale_scan)

end
