(* ===== verification/WorkerProcess.thy ===== *)
theory WorkerProcess
  imports Registry EnvConfigLaws
begin

text \<open>
  The processes around the blockchain: the start-up and shut-down of the worker
  (\<open>apps/worker/src/index.ts\<close>) with its two small jobs, and the deployment script of the registry
  (\<open>packages/contracts/scripts/deploy.ts\<close>). Connections, logs and process signals are left out; the
  addresses that ethers derives from a private key or resolves from a text are parameters.
\<close>

subsection \<open>Jobs and queues\<close>

record issuancePayload =
  ij_credentialId :: string
  ij_issuerId :: string
  ij_requestedBy :: string

record issuanceReport =
  ir_status :: string
  ir_credentialId :: string
  ir_issuerId :: string

definition processIssuance :: "issuancePayload \<Rightarrow> issuanceReport" where
  "processIssuance data = \<lparr>ir_status = ''queued'', ir_credentialId = ij_credentialId data,
     ir_issuerId = ij_issuerId data\<rparr>"

record retryPayload =
  rj_jobId :: string
  rj_reason :: "string option"
  rj_attempts :: int

record retryReport =
  rr_status :: string
  rr_jobId :: string
  rr_attempts :: int

definition processRetry :: "retryPayload \<Rightarrow> retryReport" where
  "processRetry data = \<lparr>rr_status = ''scheduled'', rr_jobId = rj_jobId data, rr_attempts = rj_attempts data\<rparr>"

datatype queueName = IssuanceQueue | RetryQueue | CredentialAnchorQueue

fun queueNameText :: "queueName \<Rightarrow> string" where
  "queueNameText IssuanceQueue = ''issuance''"
| "queueNameText RetryQueue = ''retry''"
| "queueNameText CredentialAnchorQueue = ''credential-anchor''"

lemma queueNameText_inj: "queueNameText a = queueNameText b \<longleftrightarrow> a = b"
  by (cases a; cases b) simp_all

subsection \<open>Start-up and shut-down\<close>

record workerProcess =
  wp_redisUrl :: string
  wp_queues :: "queueName list"
  wp_workers :: "(queueName \<times> nat) list"
  wp_events :: "queueName list"

text \<open>The worker of a queue runs that queue's job; \<open>Inl\<close> is the exit code.\<close>

definition startWorker :: "environment \<Rightarrow> int + workerProcess" where
  "startWorker penv = (if \<not> truthy (penv ''REDIS_URL'') then Inl 1
     else Inr \<lparr>wp_redisUrl = the (penv ''REDIS_URL''),
       wp_queues = [IssuanceQueue, RetryQueue, CredentialAnchorQueue],
       wp_workers = [(IssuanceQueue, 5), (RetryQueue, 5)] @
         (if penv ''BLOCKCHAIN_ENABLED'' = Some ''true'' then [(CredentialAnchorQueue, 1)] else []),
       wp_events = [IssuanceQueue, RetryQueue, CredentialAnchorQueue]\<rparr>)"

datatype closing = CloseWorker queueName | CloseEvents queueName | CloseQueue queueName | Disconnect

definition closings :: "workerProcess \<Rightarrow> closing list" where
  "closings p = map (CloseWorker \<circ> fst) (wp_workers p) @ map CloseEvents (wp_events p) @
     map CloseQueue (wp_queues p) @ [Disconnect]"

text \<open>
  All are closed together; the exit code, or \<open>None\<close> where a closing or the final \<open>quit\<close> is rejected and
  the process does not reach its own exit.
\<close>

definition shutdown :: "(closing \<Rightarrow> bool) \<Rightarrow> bool \<Rightarrow> workerProcess \<Rightarrow> int option" where
  "shutdown closes quits p = (if list_all closes (closings p) \<and> quits then Some 0 else None)"

definition consumes :: "workerProcess \<Rightarrow> queueName \<Rightarrow> bool" where
  "consumes p q \<longleftrightarrow> q \<in> fst ` set (wp_workers p)"

text \<open>
  In an environment the API accepts, the worker consumes chain jobs exactly when the API produces them;
  then it has what writing takes, and one job at a time is written, so nonces do not race.
\<close>

lemma worker_agrees_with_api:
  assumes "validateEnv Z penv m = Inr d" and "startWorker m = Inr p"
  shows "consumes p CredentialAnchorQueue \<longleftrightarrow> BLOCKCHAIN_ENABLED d"
    and "consumes p CredentialAnchorQueue \<Longrightarrow>
      truthy (m ''POLYGON_AMOY_RPC_URL'') \<and> truthy (m ''PRIVATE_KEY'') \<and> truthy (m ''CONTRACT_ADDRESS'')"
    and "(CredentialAnchorQueue, n) \<in> set (wp_workers p) \<Longrightarrow> n = 1"
proof -
  have schema: "envSchema Z penv m = Inr d" using assms(1) by (simp add: validateEnv_Inr)
  show flag: "consumes p CredentialAnchorQueue \<longleftrightarrow> BLOCKCHAIN_ENABLED d"
    using assms(2) by (auto simp: startWorker_def consumes_def envSchema_texts(11) [OF schema] split: if_splits)
  show "truthy (m ''POLYGON_AMOY_RPC_URL'') \<and> truthy (m ''PRIVATE_KEY'') \<and> truthy (m ''CONTRACT_ADDRESS'')"
    if "consumes p CredentialAnchorQueue"
    using validateEnv_checks(3) [OF assms(1)] that envSchema_texts(12-14) [OF schema] by (simp add: flag)
  show "n = 1" if "(CredentialAnchorQueue, n) \<in> set (wp_workers p)"
    using assms(2) that by (auto simp: startWorker_def split: if_splits)
qed

text \<open>Whatever was started is closed, and nothing else; the issuance and retry jobs always run.\<close>

lemma shutdown_closes_what_started:
  assumes "startWorker penv = Inr p"
  shows "CloseWorker q \<in> set (closings p) \<longleftrightarrow> consumes p q" "CloseQueue q \<in> set (closings p)"
    "CloseEvents q \<in> set (closings p)" "q \<noteq> CredentialAnchorQueue \<Longrightarrow> consumes p q" "distinct (closings p)"
  using assms by (cases q; auto simp: closings_def consumes_def startWorker_def split: if_splits)+

subsection \<open>Deploying the registry\<close>

text \<open>
  \<open>connected\<close> is the node's answer, \<open>walletOf\<close> the address of a private key (none for a malformed one),
  \<open>resolved\<close> the address ethers makes of a text. A rejected call ends the script with its message.
\<close>

record ethersLib =
  et_walletOf :: "string \<Rightarrow> address option"
  et_resolved :: "string \<Rightarrow> address option"
  et_deploys :: bool

datatype deployError = MissingSetting string | EthersRejects | RegistryReverts registryError

definition issuerAddressOf :: "ethersLib \<Rightarrow> environment \<Rightarrow> address \<Rightarrow> address option" where
  "issuerAddressOf L penv wallet = (case map_option trim (penv ''ISSUER_WALLET'') of
     None \<Rightarrow> Some wallet | Some t \<Rightarrow> if t = [] then Some wallet else et_resolved L t)"

definition issuerNameOf :: "environment \<Rightarrow> string option" where
  "issuerNameOf penv = map_option trim (penv ''ISSUER_NAME'')"

definition authorizeFirst :: "address \<Rightarrow> uint256 \<Rightarrow> address \<Rightarrow> string option \<Rightarrow> registry \<Rightarrow> registryError + registry" where
  "authorizeFirst wallet now issuerAddress issuerName r = (if truthy issuerName
     then authorizeIssuerWithName wallet now issuerAddress (the issuerName) r
     else authorizeIssuer wallet now issuerAddress r)"

definition deployMain :: "ethersLib \<Rightarrow> environment \<Rightarrow> uint256 \<Rightarrow> deployError + registry" where
  "deployMain L penv now = (
     if \<not> truthy (penv ''POLYGON_AMOY_RPC_URL'') then Inl (MissingSetting ''Missing POLYGON_AMOY_RPC_URL'')
     else if \<not> truthy (penv ''PRIVATE_KEY'') then Inl (MissingSetting ''Missing PRIVATE_KEY'')
     else case et_walletOf L (the (penv ''PRIVATE_KEY'')) of None \<Rightarrow> Inl EthersRejects
     | Some wallet \<Rightarrow> if \<not> et_deploys L then Inl EthersRejects
       else case issuerAddressOf L penv wallet of None \<Rightarrow> Inl EthersRejects
       | Some issuerAddress \<Rightarrow> (case authorizeFirst wallet now issuerAddress (issuerNameOf penv) (deploy wallet) of
           Inl e \<Rightarrow> Inl (RegistryReverts e) | Inr r \<Rightarrow> Inr r))"

lemma deployMain_Inr:
  assumes "deployMain L penv now = Inr r"
  obtains wallet issuerAddress where "et_walletOf L (the (penv ''PRIVATE_KEY'')) = Some wallet"
    "issuerAddressOf L penv wallet = Some issuerAddress"
    "authorizeFirst wallet now issuerAddress (issuerNameOf penv) (deploy wallet) = Inr r"
  using assms by (auto simp: deployMain_def split: if_splits option.splits sum.splits)

text \<open>
  A deployment that succeeds leaves the deployer as owner, one authorised issuer with the configured
  name, and no credential: the state from which the registry's own laws start.
\<close>

lemma deployed_registry:
  assumes "deployMain L penv now = Inr r"
  obtains wallet issuerAddress where "et_walletOf L (the (penv ''PRIVATE_KEY'')) = Some wallet"
    "issuerAddressOf L penv wallet = Some issuerAddress"
    "registrySteps keccak (deploy wallet) r" "registryOwner r = wallet"
    "\<And>a. isAuthorizedIssuer a r \<longleftrightarrow> a = issuerAddress" "issuerAddress \<noteq> 0"
    "ip_name (issuerProfiles r issuerAddress) = orElse (issuerNameOf penv) []"
    "\<And>i. \<not> credentialExists keccak i r"
proof -
  obtain wallet issuerAddress where made: "et_walletOf L (the (penv ''PRIVATE_KEY'')) = Some wallet"
    "issuerAddressOf L penv wallet = Some issuerAddress"
    and auth: "authorizeFirst wallet now issuerAddress (issuerNameOf penv) (deploy wallet) = Inr r"
    using assms by (rule deployMain_Inr)
  have steps: "registrySteps keccak (deploy wallet) r"
    using auth by (auto simp: authorizeFirst_def split: if_splits intro: registryStep.intros)
  have state: "registryOwner r = wallet" "\<And>a. isAuthorizedIssuer a r \<longleftrightarrow> a = issuerAddress"
      "issuerAddress \<noteq> 0" "\<And>i. \<not> credentialExists keccak i r"
    using auth by (auto simp: authorizeFirst_def registry_ops deploy_def isAuthorizedIssuer_def
        credentialExists_def noRecord_def split: if_splits)
  have name: "ip_name (issuerProfiles r issuerAddress) = orElse (issuerNameOf penv) []"
  proof (cases "truthy (issuerNameOf penv)")
    case True
    then show ?thesis using auth
      by (auto simp: authorizeFirst_def registry_ops authorizedProfile_def orElse_def truthy_def
          split: if_splits option.splits)
  next
    case False
    then have "orElse (issuerNameOf penv) [] = []" by (simp add: truthy_def orElse_def split: option.splits)
    with False show ?thesis using auth
      by (auto simp: authorizeFirst_def registry_ops authorizedProfile_def deploy_def noProfile_def split: if_splits)
  qed
  show thesis using made steps state(1-3) name state(4) by (rule that)
qed

text \<open>Without a wallet of its own the issuer is the deployer, whose key is the worker's.\<close>

lemma deployer_is_first_issuer:
  assumes "deployMain L penv now = Inr r" and "penv ''ISSUER_WALLET'' = None"
  shows "\<exists>a. et_walletOf L (the (penv ''PRIVATE_KEY'')) = Some a \<and> isAuthorizedIssuer a r"
proof (rule deployed_registry [OF assms(1)])
  fix wallet issuerAddress
  assume wallet: "et_walletOf L (the (penv ''PRIVATE_KEY'')) = Some wallet"
    and issuer: "issuerAddressOf L penv wallet = Some issuerAddress"
    and authorised: "\<And>a. isAuthorizedIssuer a r \<longleftrightarrow> a = issuerAddress"
  have "issuerAddress = wallet" using issuer assms(2) by (simp add: issuerAddressOf_def)
  with wallet authorised show ?thesis by blast
qed

end
