(* ===== verification/Abi.thy ===== *)
theory Abi
  imports Registry
begin

text \<open>
  The interface description the services hand to the chain client
  (\<open>credentialRegistryAbi\<close> of \<open>packages/contracts/src/index.ts\<close>), entry by entry as the JSON
  value it is, and the external interface of the contract (\<open>CredentialRegistry.sol\<close>) it has to
  describe: a call is a function name and a list of ABI values, answered by a revert or by the
  values returned and the storage after. The functions of the inherited \<open>Ownable\<close>, whose source is
  not in the repository, are left out of the dispatch. The property of the theory is that the
  description is a sound and complete typing of the contract.
\<close>

subsection \<open>The description\<close>

definition abiErrors :: "value list" where
  "abiErrors =
    [VObj [(''inputs'', VArr []), (''stateMutability'', VStr ''nonpayable''), (''type'', VStr
        ''constructor'')],
     VObj [(''inputs'', VArr [VObj [(''internalType'', VStr ''string''), (''name'', VStr
        ''credentialId''), (''type'', VStr ''string'')]]), (''name'', VStr ''CredentialAlreadyAnchored''),
        (''type'', VStr ''error'')],
     VObj [(''inputs'', VArr [VObj [(''internalType'', VStr ''string''), (''name'', VStr
        ''credentialId''), (''type'', VStr ''string'')]]), (''name'', VStr ''CredentialAlreadyRevoked''),
        (''type'', VStr ''error'')],
     VObj [(''inputs'', VArr [VObj [(''internalType'', VStr ''string''), (''name'', VStr
        ''credentialId''), (''type'', VStr ''string'')]]), (''name'', VStr ''CredentialNotFound''),
        (''type'', VStr ''error'')],
     VObj [(''inputs'', VArr []), (''name'', VStr ''InvalidCredentialId''), (''type'', VStr ''error'')],
     VObj [(''inputs'', VArr [VObj [(''internalType'', VStr ''address''), (''name'', VStr ''issuer''),
        (''type'', VStr ''address'')]]), (''name'', VStr ''InvalidIssuer''), (''type'', VStr ''error'')],
     VObj [(''inputs'', VArr []), (''name'', VStr ''InvalidIssuerName''), (''type'', VStr ''error'')],
     VObj [(''inputs'', VArr []), (''name'', VStr ''InvalidProofHash''), (''type'', VStr ''error'')],
     VObj [(''inputs'', VArr [VObj [(''internalType'', VStr ''address''), (''name'', VStr ''owner''),
        (''type'', VStr ''address'')]]), (''name'', VStr ''OwnableInvalidOwner''), (''type'', VStr
        ''error'')],
     VObj [(''inputs'', VArr [VObj [(''internalType'', VStr ''address''), (''name'', VStr ''account''),
        (''type'', VStr ''address'')]]), (''name'', VStr ''OwnableUnauthorizedAccount''), (''type'', VStr
        ''error'')],
     VObj [(''inputs'', VArr [VObj [(''internalType'', VStr ''bytes32''), (''name'', VStr ''proofHash''),
        (''type'', VStr ''bytes32'')]]), (''name'', VStr ''ProofHashAlreadyAnchored''), (''type'', VStr
        ''error'')],
     VObj [(''inputs'', VArr [VObj [(''internalType'', VStr ''address''), (''name'', VStr ''issuer''),
        (''type'', VStr ''address'')]]), (''name'', VStr ''UnauthorizedIssuer''), (''type'', VStr
        ''error'')],
     VObj [(''inputs'', VArr [VObj [(''internalType'', VStr ''address''), (''name'', VStr ''caller''),
        (''type'', VStr ''address'')], VObj [(''internalType'', VStr ''string''), (''name'', VStr
        ''credentialId''), (''type'', VStr ''string'')]]), (''name'', VStr ''UnauthorizedRevoker''),
        (''type'', VStr ''error'')]]"

definition abiEvents1 :: "value list" where
  "abiEvents1 =
    [VObj [(''anonymous'', VBool False), (''inputs'', VArr [VObj [(''indexed'', VBool False),
        (''internalType'', VStr ''string''), (''name'', VStr ''credentialId''), (''type'', VStr
        ''string'')], VObj [(''indexed'', VBool False), (''internalType'', VStr ''bytes32''), (''name'',
        VStr ''proofHash''), (''type'', VStr ''bytes32'')], VObj [(''indexed'', VBool False),
        (''internalType'', VStr ''address''), (''name'', VStr ''issuer''), (''type'', VStr ''address'')],
        VObj [(''indexed'', VBool False), (''internalType'', VStr ''uint256''), (''name'', VStr
        ''timestamp''), (''type'', VStr ''uint256'')]]), (''name'', VStr ''CredentialAnchored''), (''type'',
        VStr ''event'')],
     VObj [(''anonymous'', VBool False), (''inputs'', VArr [VObj [(''indexed'', VBool True),
        (''internalType'', VStr ''bytes32''), (''name'', VStr ''credentialKey''), (''type'', VStr
        ''bytes32'')], VObj [(''indexed'', VBool True), (''internalType'', VStr ''bytes32''), (''name'',
        VStr ''proofHash''), (''type'', VStr ''bytes32'')], VObj [(''indexed'', VBool True),
        (''internalType'', VStr ''address''), (''name'', VStr ''issuer''), (''type'', VStr ''address'')],
        VObj [(''indexed'', VBool False), (''internalType'', VStr ''string''), (''name'', VStr
        ''credentialId''), (''type'', VStr ''string'')], VObj [(''indexed'', VBool False),
        (''internalType'', VStr ''string''), (''name'', VStr ''issuerName''), (''type'', VStr ''string'')],
        VObj [(''indexed'', VBool False), (''internalType'', VStr ''uint256''), (''name'', VStr
        ''issuedAt''), (''type'', VStr ''uint256'')]]), (''name'', VStr ''CredentialProofAnchored''),
        (''type'', VStr ''event'')],
     VObj [(''anonymous'', VBool False), (''inputs'', VArr [VObj [(''indexed'', VBool True),
        (''internalType'', VStr ''bytes32''), (''name'', VStr ''credentialKey''), (''type'', VStr
        ''bytes32'')], VObj [(''indexed'', VBool True), (''internalType'', VStr ''address''), (''name'',
        VStr ''issuer''), (''type'', VStr ''address'')], VObj [(''indexed'', VBool True), (''internalType'',
        VStr ''address''), (''name'', VStr ''revokedBy''), (''type'', VStr ''address'')], VObj
        [(''indexed'', VBool False), (''internalType'', VStr ''string''), (''name'', VStr ''credentialId''),
        (''type'', VStr ''string'')], VObj [(''indexed'', VBool False), (''internalType'', VStr
        ''uint256''), (''name'', VStr ''issuedAt''), (''type'', VStr ''uint256'')], VObj [(''indexed'',
        VBool False), (''internalType'', VStr ''uint256''), (''name'', VStr ''revokedAt''), (''type'', VStr
        ''uint256'')]]), (''name'', VStr ''CredentialProofRevoked''), (''type'', VStr ''event'')],
     VObj [(''anonymous'', VBool False), (''inputs'', VArr [VObj [(''indexed'', VBool False),
        (''internalType'', VStr ''string''), (''name'', VStr ''credentialId''), (''type'', VStr
        ''string'')], VObj [(''indexed'', VBool False), (''internalType'', VStr ''address''), (''name'',
        VStr ''issuer''), (''type'', VStr ''address'')], VObj [(''indexed'', VBool False),
        (''internalType'', VStr ''address''), (''name'', VStr ''revokedBy''), (''type'', VStr ''address'')],
        VObj [(''indexed'', VBool False), (''internalType'', VStr ''uint256''), (''name'', VStr
        ''timestamp''), (''type'', VStr ''uint256'')]]), (''name'', VStr ''CredentialRevoked''), (''type'',
        VStr ''event'')]]"

definition abiEvents2 :: "value list" where
  "abiEvents2 =
    [VObj [(''anonymous'', VBool False), (''inputs'', VArr [VObj [(''indexed'', VBool False),
        (''internalType'', VStr ''address''), (''name'', VStr ''issuer''), (''type'', VStr ''address'')],
        VObj [(''indexed'', VBool False), (''internalType'', VStr ''uint256''), (''name'', VStr
        ''timestamp''), (''type'', VStr ''uint256'')]]), (''name'', VStr ''IssuerAuthorized''), (''type'',
        VStr ''event'')],
     VObj [(''anonymous'', VBool False), (''inputs'', VArr [VObj [(''indexed'', VBool True),
        (''internalType'', VStr ''address''), (''name'', VStr ''issuer''), (''type'', VStr ''address'')],
        VObj [(''indexed'', VBool False), (''internalType'', VStr ''string''), (''name'', VStr
        ''issuerName''), (''type'', VStr ''string'')], VObj [(''indexed'', VBool False), (''internalType'',
        VStr ''uint256''), (''name'', VStr ''timestamp''), (''type'', VStr ''uint256'')]]), (''name'', VStr
        ''IssuerProfileUpdated''), (''type'', VStr ''event'')],
     VObj [(''anonymous'', VBool False), (''inputs'', VArr [VObj [(''indexed'', VBool False),
        (''internalType'', VStr ''address''), (''name'', VStr ''issuer''), (''type'', VStr ''address'')],
        VObj [(''indexed'', VBool False), (''internalType'', VStr ''uint256''), (''name'', VStr
        ''timestamp''), (''type'', VStr ''uint256'')]]), (''name'', VStr ''IssuerRemoved''), (''type'', VStr
        ''event'')],
     VObj [(''anonymous'', VBool False), (''inputs'', VArr [VObj [(''indexed'', VBool True),
        (''internalType'', VStr ''address''), (''name'', VStr ''previousOwner''), (''type'', VStr
        ''address'')], VObj [(''indexed'', VBool True), (''internalType'', VStr ''address''), (''name'',
        VStr ''newOwner''), (''type'', VStr ''address'')]]), (''name'', VStr ''OwnershipTransferred''),
        (''type'', VStr ''event'')]]"

definition abiFunctions1 :: "value list" where
  "abiFunctions1 =
    [VObj [(''inputs'', VArr [VObj [(''internalType'', VStr ''string''), (''name'', VStr
        ''credentialId''), (''type'', VStr ''string'')], VObj [(''internalType'', VStr ''bytes32''),
        (''name'', VStr ''proofHash''), (''type'', VStr ''bytes32'')]]), (''name'', VStr
        ''anchorCredential''), (''outputs'', VArr []), (''stateMutability'', VStr ''nonpayable''),
        (''type'', VStr ''function'')],
     VObj [(''inputs'', VArr [VObj [(''internalType'', VStr ''address''), (''name'', VStr ''issuer''),
        (''type'', VStr ''address'')]]), (''name'', VStr ''authorizeIssuer''), (''outputs'', VArr []),
        (''stateMutability'', VStr ''nonpayable''), (''type'', VStr ''function'')],
     VObj [(''inputs'', VArr [VObj [(''internalType'', VStr ''address''), (''name'', VStr ''issuer''),
        (''type'', VStr ''address'')], VObj [(''internalType'', VStr ''string''), (''name'', VStr
        ''issuerName''), (''type'', VStr ''string'')]]), (''name'', VStr ''authorizeIssuerWithName''),
        (''outputs'', VArr []), (''stateMutability'', VStr ''nonpayable''), (''type'', VStr ''function'')],
     VObj [(''inputs'', VArr [VObj [(''internalType'', VStr ''string''), (''name'', VStr
        ''credentialId''), (''type'', VStr ''string'')]]), (''name'', VStr ''credentialExists''),
        (''outputs'', VArr [VObj [(''internalType'', VStr ''bool''), (''name'', VStr ''''), (''type'', VStr
        ''bool'')]]), (''stateMutability'', VStr ''view''), (''type'', VStr ''function'')],
     VObj [(''inputs'', VArr [VObj [(''internalType'', VStr ''bytes32''), (''name'', VStr ''proofHash''),
        (''type'', VStr ''bytes32'')]]), (''name'', VStr ''credentialHashExists''), (''outputs'', VArr [VObj
        [(''internalType'', VStr ''bool''), (''name'', VStr ''''), (''type'', VStr ''bool'')]]),
        (''stateMutability'', VStr ''view''), (''type'', VStr ''function'')],
     VObj [(''inputs'', VArr [VObj [(''internalType'', VStr ''string''), (''name'', VStr
        ''credentialId''), (''type'', VStr ''string'')]]), (''name'', VStr ''getCredential''), (''outputs'',
        VArr [VObj [(''components'', VArr [VObj [(''internalType'', VStr ''string''), (''name'', VStr
        ''credentialId''), (''type'', VStr ''string'')], VObj [(''internalType'', VStr ''bytes32''),
        (''name'', VStr ''proofHash''), (''type'', VStr ''bytes32'')], VObj [(''internalType'', VStr
        ''address''), (''name'', VStr ''issuer''), (''type'', VStr ''address'')], VObj [(''internalType'',
        VStr ''uint256''), (''name'', VStr ''anchoredAt''), (''type'', VStr ''uint256'')], VObj
        [(''internalType'', VStr ''bool''), (''name'', VStr ''revoked''), (''type'', VStr ''bool'')], VObj
        [(''internalType'', VStr ''uint256''), (''name'', VStr ''revokedAt''), (''type'', VStr
        ''uint256'')], VObj [(''internalType'', VStr ''address''), (''name'', VStr ''revokedBy''),
        (''type'', VStr ''address'')], VObj [(''internalType'', VStr ''bool''), (''name'', VStr ''exists''),
        (''type'', VStr ''bool'')]]), (''internalType'', VStr 
        ''struct CredentialRegistry.CredentialProof''), (''name'', VStr ''''), (''type'', VStr ''tuple'')]]),
        (''stateMutability'', VStr ''view''), (''type'', VStr ''function'')]]"

definition abiFunctions2 :: "value list" where
  "abiFunctions2 =
    [VObj [(''inputs'', VArr [VObj [(''internalType'', VStr ''string''), (''name'', VStr
        ''credentialId''), (''type'', VStr ''string'')]]), (''name'', VStr ''getCredentialHash''),
        (''outputs'', VArr [VObj [(''internalType'', VStr ''bytes32''), (''name'', VStr ''''), (''type'',
        VStr ''bytes32'')]]), (''stateMutability'', VStr ''view''), (''type'', VStr ''function'')],
     VObj [(''inputs'', VArr [VObj [(''internalType'', VStr ''string''), (''name'', VStr
        ''credentialId''), (''type'', VStr ''string'')]]), (''name'', VStr ''getCredentialIssuer''),
        (''outputs'', VArr [VObj [(''internalType'', VStr ''address''), (''name'', VStr ''''), (''type'',
        VStr ''address'')]]), (''stateMutability'', VStr ''view''), (''type'', VStr ''function'')],
     VObj [(''inputs'', VArr [VObj [(''internalType'', VStr ''string''), (''name'', VStr
        ''credentialId''), (''type'', VStr ''string'')]]), (''name'', VStr ''getCredentialKey''),
        (''outputs'', VArr [VObj [(''internalType'', VStr ''bytes32''), (''name'', VStr ''''), (''type'',
        VStr ''bytes32'')]]), (''stateMutability'', VStr ''pure''), (''type'', VStr ''function'')],
     VObj [(''inputs'', VArr [VObj [(''internalType'', VStr ''bytes32''), (''name'', VStr ''proofHash''),
        (''type'', VStr ''bytes32'')]]), (''name'', VStr ''getCredentialKeyByProofHash''), (''outputs'',
        VArr [VObj [(''internalType'', VStr ''bytes32''), (''name'', VStr ''''), (''type'', VStr
        ''bytes32'')]]), (''stateMutability'', VStr ''view''), (''type'', VStr ''function'')]]"

definition abiFunctions3 :: "value list" where
  "abiFunctions3 =
    [VObj [(''inputs'', VArr [VObj [(''internalType'', VStr ''string''), (''name'', VStr
        ''credentialId''), (''type'', VStr ''string'')]]), (''name'', VStr ''getCredentialProofMetadata''),
        (''outputs'', VArr [VObj [(''components'', VArr [VObj [(''internalType'', VStr ''string''),
        (''name'', VStr ''credentialId''), (''type'', VStr ''string'')], VObj [(''internalType'', VStr
        ''bytes32''), (''name'', VStr ''proofHash''), (''type'', VStr ''bytes32'')], VObj
        [(''internalType'', VStr ''address''), (''name'', VStr ''issuer''), (''type'', VStr ''address'')],
        VObj [(''internalType'', VStr ''string''), (''name'', VStr ''issuerName''), (''type'', VStr
        ''string'')], VObj [(''internalType'', VStr ''uint256''), (''name'', VStr ''issuedAt''), (''type'',
        VStr ''uint256'')], VObj [(''internalType'', VStr ''bool''), (''name'', VStr ''exists''), (''type'',
        VStr ''bool'')], VObj [(''internalType'', VStr ''bool''), (''name'', VStr ''revoked''), (''type'',
        VStr ''bool'')], VObj [(''internalType'', VStr ''uint256''), (''name'', VStr ''revokedAt''),
        (''type'', VStr ''uint256'')], VObj [(''internalType'', VStr ''address''), (''name'', VStr
        ''revokedBy''), (''type'', VStr ''address'')], VObj [(''internalType'', VStr ''bool''), (''name'',
        VStr ''issuerAuthorized''), (''type'', VStr ''bool'')], VObj [(''internalType'', VStr ''bool''),
        (''name'', VStr ''active''), (''type'', VStr ''bool'')]]), (''internalType'', VStr 
        ''struct CredentialRegistry.CredentialProofMetadata''), (''name'', VStr ''''), (''type'', VStr ''tuple'')]]),
        (''stateMutability'', VStr ''view''), (''type'', VStr ''function'')],
     VObj [(''inputs'', VArr [VObj [(''internalType'', VStr ''string''), (''name'', VStr
        ''credentialId''), (''type'', VStr ''string'')]]), (''name'', VStr ''getCredentialRevocation''),
        (''outputs'', VArr [VObj [(''internalType'', VStr ''bool''), (''name'', VStr ''revoked''),
        (''type'', VStr ''bool'')], VObj [(''internalType'', VStr ''uint256''), (''name'', VStr
        ''revokedAt''), (''type'', VStr ''uint256'')], VObj [(''internalType'', VStr ''address''),
        (''name'', VStr ''revokedBy''), (''type'', VStr ''address'')]]), (''stateMutability'', VStr
        ''view''), (''type'', VStr ''function'')],
     VObj [(''inputs'', VArr [VObj [(''internalType'', VStr ''string''), (''name'', VStr
        ''credentialId''), (''type'', VStr ''string'')]]), (''name'', VStr ''getCredentialTimestamp''),
        (''outputs'', VArr [VObj [(''internalType'', VStr ''uint256''), (''name'', VStr ''''), (''type'',
        VStr ''uint256'')]]), (''stateMutability'', VStr ''view''), (''type'', VStr ''function'')]]"

definition abiFunctions4 :: "value list" where
  "abiFunctions4 =
    [VObj [(''inputs'', VArr [VObj [(''internalType'', VStr ''address''), (''name'', VStr ''issuer''),
        (''type'', VStr ''address'')]]), (''name'', VStr ''getIssuerProfile''), (''outputs'', VArr [VObj
        [(''internalType'', VStr ''bool''), (''name'', VStr ''authorized''), (''type'', VStr ''bool'')],
        VObj [(''internalType'', VStr ''string''), (''name'', VStr ''issuerName''), (''type'', VStr
        ''string'')], VObj [(''internalType'', VStr ''uint256''), (''name'', VStr ''authorizedAt''),
        (''type'', VStr ''uint256'')], VObj [(''internalType'', VStr ''uint256''), (''name'', VStr
        ''removedAt''), (''type'', VStr ''uint256'')]]), (''stateMutability'', VStr ''view''), (''type'',
        VStr ''function'')],
     VObj [(''inputs'', VArr [VObj [(''internalType'', VStr ''address''), (''name'', VStr ''issuer''),
        (''type'', VStr ''address'')]]), (''name'', VStr ''isAuthorizedIssuer''), (''outputs'', VArr [VObj
        [(''internalType'', VStr ''bool''), (''name'', VStr ''''), (''type'', VStr ''bool'')]]),
        (''stateMutability'', VStr ''view''), (''type'', VStr ''function'')],
     VObj [(''inputs'', VArr [VObj [(''internalType'', VStr ''string''), (''name'', VStr
        ''credentialId''), (''type'', VStr ''string'')], VObj [(''internalType'', VStr ''address''),
        (''name'', VStr ''issuer''), (''type'', VStr ''address'')]]), (''name'', VStr
        ''isCredentialIssuer''), (''outputs'', VArr [VObj [(''internalType'', VStr ''bool''), (''name'',
        VStr ''''), (''type'', VStr ''bool'')]]), (''stateMutability'', VStr ''view''), (''type'', VStr
        ''function'')],
     VObj [(''inputs'', VArr [VObj [(''internalType'', VStr ''string''), (''name'', VStr
        ''credentialId''), (''type'', VStr ''string'')]]), (''name'', VStr ''isCredentialRevoked''),
        (''outputs'', VArr [VObj [(''internalType'', VStr ''bool''), (''name'', VStr ''''), (''type'', VStr
        ''bool'')]]), (''stateMutability'', VStr ''view''), (''type'', VStr ''function'')],
     VObj [(''inputs'', VArr [VObj [(''internalType'', VStr ''string''), (''name'', VStr
        ''credentialId''), (''type'', VStr ''string'')], VObj [(''internalType'', VStr ''bytes32''),
        (''name'', VStr ''proofHash''), (''type'', VStr ''bytes32'')]]), (''name'', VStr
        ''isCredentialValid''), (''outputs'', VArr [VObj [(''internalType'', VStr ''bool''), (''name'', VStr
        ''''), (''type'', VStr ''bool'')]]), (''stateMutability'', VStr ''view''), (''type'', VStr
        ''function'')],
     VObj [(''inputs'', VArr []), (''name'', VStr ''owner''), (''outputs'', VArr [VObj
        [(''internalType'', VStr ''address''), (''name'', VStr ''''), (''type'', VStr ''address'')]]),
        (''stateMutability'', VStr ''view''), (''type'', VStr ''function'')],
     VObj [(''inputs'', VArr [VObj [(''internalType'', VStr ''address''), (''name'', VStr ''issuer''),
        (''type'', VStr ''address'')]]), (''name'', VStr ''removeIssuer''), (''outputs'', VArr []),
        (''stateMutability'', VStr ''nonpayable''), (''type'', VStr ''function'')]]"

definition abiFunctions5 :: "value list" where
  "abiFunctions5 =
    [VObj [(''inputs'', VArr []), (''name'', VStr ''renounceOwnership''), (''outputs'', VArr []),
        (''stateMutability'', VStr ''nonpayable''), (''type'', VStr ''function'')],
     VObj [(''inputs'', VArr [VObj [(''internalType'', VStr ''string''), (''name'', VStr
        ''credentialId''), (''type'', VStr ''string'')]]), (''name'', VStr ''revokeCredential''),
        (''outputs'', VArr []), (''stateMutability'', VStr ''nonpayable''), (''type'', VStr ''function'')],
     VObj [(''inputs'', VArr [VObj [(''internalType'', VStr ''address''), (''name'', VStr ''issuer''),
        (''type'', VStr ''address'')], VObj [(''internalType'', VStr ''string''), (''name'', VStr
        ''issuerName''), (''type'', VStr ''string'')]]), (''name'', VStr ''setIssuerName''), (''outputs'',
        VArr []), (''stateMutability'', VStr ''nonpayable''), (''type'', VStr ''function'')],
     VObj [(''inputs'', VArr [VObj [(''internalType'', VStr ''address''), (''name'', VStr ''newOwner''),
        (''type'', VStr ''address'')]]), (''name'', VStr ''transferOwnership''), (''outputs'', VArr []),
        (''stateMutability'', VStr ''nonpayable''), (''type'', VStr ''function'')],
     VObj [(''inputs'', VArr [VObj [(''internalType'', VStr ''string''), (''name'', VStr
        ''credentialId''), (''type'', VStr ''string'')], VObj [(''internalType'', VStr ''bytes32''),
        (''name'', VStr ''proofHash''), (''type'', VStr ''bytes32'')]]), (''name'', VStr
        ''verifyCredential''), (''outputs'', VArr [VObj [(''internalType'', VStr ''bool''), (''name'', VStr
        ''exists''), (''type'', VStr ''bool'')], VObj [(''internalType'', VStr ''bool''), (''name'', VStr
        ''integrityVerified''), (''type'', VStr ''bool'')], VObj [(''internalType'', VStr ''bool''),
        (''name'', VStr ''revoked''), (''type'', VStr ''bool'')], VObj [(''internalType'', VStr
        ''address''), (''name'', VStr ''issuer''), (''type'', VStr ''address'')], VObj [(''internalType'',
        VStr ''string''), (''name'', VStr ''issuerName''), (''type'', VStr ''string'')], VObj
        [(''internalType'', VStr ''uint256''), (''name'', VStr ''issuedAt''), (''type'', VStr
        ''uint256'')]]), (''stateMutability'', VStr ''view''), (''type'', VStr ''function'')]]"

definition credentialRegistryAbi :: "value list" where
  "credentialRegistryAbi = abiErrors @ abiEvents1 @ abiEvents2 @ abiFunctions1 @ abiFunctions2 @
     abiFunctions3 @ abiFunctions4 @ abiFunctions5"

subsection \<open>ABI types and values\<close>

datatype abiType = AbiString | AbiBytes32 | AbiAddress | AbiUint256 | AbiBool
  | AbiTuple "(string \<times> abiType) list"

datatype abiVal = AString string | ABytes32 bytes32 | AAddress address | AUint256 uint256 | ABool bool
  | ATuple "(string \<times> abiVal) list"

fun hasType :: "abiVal \<Rightarrow> abiType \<Rightarrow> bool" where
  "hasType (AString s) t = (t = AbiString)"
| "hasType (ABytes32 b) t = (t = AbiBytes32)"
| "hasType (AAddress a) t = (t = AbiAddress)"
| "hasType (AUint256 n) t = (t = AbiUint256)"
| "hasType (ABool b) t = (t = AbiBool)"
| "hasType (ATuple vs) t = (case t of
     AbiTuple ts \<Rightarrow> map fst vs = map fst ts \<and> list_all2 (\<lambda>(n, v) (m, u). hasType v u) vs ts
   | _ \<Rightarrow> False)"

text \<open>Reading an entry: the members of an object, the type a parameter is declared with.\<close>

definition memberStr :: "string \<Rightarrow> value \<Rightarrow> string" where
  "memberStr k v = (case vget v k of VStr s \<Rightarrow> s | _ \<Rightarrow> [])"

definition memberArr :: "string \<Rightarrow> value \<Rightarrow> value list" where
  "memberArr k v = (case vget v k of VArr vs \<Rightarrow> vs | _ \<Rightarrow> [])"

definition scalarType :: "string \<Rightarrow> abiType option" where
  "scalarType t = map_of [(''string'', AbiString), (''bytes32'', AbiBytes32),
     (''address'', AbiAddress), (''uint256'', AbiUint256), (''bool'', AbiBool)] t"

definition paramType :: "value \<Rightarrow> abiType option" where
  "paramType p = (if memberStr ''type'' p = ''tuple'' then
       Some (AbiTuple (map (\<lambda>c. (memberStr ''name'' c, the (scalarType (memberStr ''type'' c))))
         (memberArr ''components'' p)))
     else scalarType (memberStr ''type'' p))"

definition paramTypes :: "string \<Rightarrow> value \<Rightarrow> (string \<times> abiType option) list" where
  "paramTypes k e = map (\<lambda>p. (memberStr ''name'' p, paramType p)) (memberArr k e)"

definition indexedParams :: "value \<Rightarrow> bool list" where
  "indexedParams e = map (\<lambda>p. vget p ''indexed'' = VBool True) (memberArr ''inputs'' e)"

text \<open>\<open>fits\<close>: as many values as parameters, each of its parameter's type.\<close>

fun fits :: "abiVal list \<Rightarrow> (string \<times> abiType option) list \<Rightarrow> bool" where
  "fits [] [] = True"
| "fits (v # vs) ((n, Some t) # ps) = (hasType v t \<and> fits vs ps)"
| "fits _ _ = False"

definition entries :: "string \<Rightarrow> value list" where
  "entries kind = filter (\<lambda>e. memberStr ''type'' e = kind) credentialRegistryAbi"

subsection \<open>The contract's external interface\<close>

text \<open>The view functions: the values returned, none for a name or arguments the contract does not have.\<close>

definition viewOfId :: "(string \<Rightarrow> bytes32) \<Rightarrow> string \<Rightarrow> string \<Rightarrow> registry \<Rightarrow> abiVal list option" where
  "viewOfId keccak f i r =
     (if f = ''getCredential'' then (let p = getCredential keccak i r in
        Some [ATuple [(''credentialId'', AString (cp_credentialId p)),
          (''proofHash'', ABytes32 (cp_proofHash p)), (''issuer'', AAddress (cp_issuer p)),
          (''anchoredAt'', AUint256 (cp_anchoredAt p)), (''revoked'', ABool (cp_revoked p)),
          (''revokedAt'', AUint256 (cp_revokedAt p)), (''revokedBy'', AAddress (cp_revokedBy p)),
          (''exists'', ABool (cp_exists p))]])
      else if f = ''getCredentialProofMetadata'' then (let m = getCredentialProofMetadata keccak i r in
        Some [ATuple [(''credentialId'', AString (cm_credentialId m)),
          (''proofHash'', ABytes32 (cm_proofHash m)), (''issuer'', AAddress (cm_issuer m)),
          (''issuerName'', AString (cm_issuerName m)), (''issuedAt'', AUint256 (cm_issuedAt m)),
          (''exists'', ABool (cm_exists m)), (''revoked'', ABool (cm_revoked m)),
          (''revokedAt'', AUint256 (cm_revokedAt m)), (''revokedBy'', AAddress (cm_revokedBy m)),
          (''issuerAuthorized'', ABool (cm_issuerAuthorized m)), (''active'', ABool (cm_active m))]])
      else if f = ''getCredentialHash'' then Some [ABytes32 (getCredentialHash keccak i r)]
      else if f = ''getCredentialIssuer'' then Some [AAddress (getCredentialIssuer keccak i r)]
      else if f = ''getCredentialTimestamp'' then Some [AUint256 (getCredentialTimestamp keccak i r)]
      else if f = ''getCredentialRevocation'' then
        (case getCredentialRevocation keccak i r of (b, t, a) \<Rightarrow> Some [ABool b, AUint256 t, AAddress a])
      else if f = ''isCredentialRevoked'' then Some [ABool (isCredentialRevoked keccak i r)]
      else if f = ''getCredentialKey'' then Some [ABytes32 (getCredentialKey keccak i)]
      else if f = ''credentialExists'' then Some [ABool (credentialExists keccak i r)]
      else None)"

definition viewOfIdHash ::
  "(string \<Rightarrow> bytes32) \<Rightarrow> string \<Rightarrow> string \<Rightarrow> bytes32 \<Rightarrow> registry \<Rightarrow> abiVal list option" where
  "viewOfIdHash keccak f i h r =
     (if f = ''verifyCredential'' then (case verifyCredential keccak i h r of (ex, ok, gone, a, n, t) \<Rightarrow>
        Some [ABool ex, ABool ok, ABool gone, AAddress a, AString n, AUint256 t])
      else if f = ''isCredentialValid'' then Some [ABool (isCredentialValid keccak i h r)]
      else None)"

definition viewOfHash :: "string \<Rightarrow> bytes32 \<Rightarrow> registry \<Rightarrow> abiVal list option" where
  "viewOfHash f h r =
     (if f = ''credentialHashExists'' then Some [ABool (credentialHashExists h r)]
      else if f = ''getCredentialKeyByProofHash'' then Some [ABytes32 (getCredentialKeyByProofHash h r)]
      else None)"

definition viewOfAddress :: "string \<Rightarrow> address \<Rightarrow> registry \<Rightarrow> abiVal list option" where
  "viewOfAddress f a r =
     (if f = ''isAuthorizedIssuer'' then Some [ABool (isAuthorizedIssuer a r)]
      else if f = ''getIssuerProfile'' then (case getIssuerProfile a r of (b, n, t, u) \<Rightarrow>
        Some [ABool b, AString n, AUint256 t, AUint256 u])
      else None)"

definition viewCall ::
  "(string \<Rightarrow> bytes32) \<Rightarrow> string \<Rightarrow> abiVal list \<Rightarrow> registry \<Rightarrow> abiVal list option" where
  "viewCall keccak f args r = (case args of
     [AString i] \<Rightarrow> viewOfId keccak f i r
   | [AString i, ABytes32 h] \<Rightarrow> viewOfIdHash keccak f i h r
   | [AString i, AAddress a] \<Rightarrow>
       (if f = ''isCredentialIssuer'' then Some [ABool (isCredentialIssuer keccak i a r)] else None)
   | [ABytes32 h] \<Rightarrow> viewOfHash f h r
   | [AAddress a] \<Rightarrow> viewOfAddress f a r
   | _ \<Rightarrow> None)"

definition transactionCall :: "(string \<Rightarrow> bytes32) \<Rightarrow> address \<Rightarrow> uint256 \<Rightarrow> string \<Rightarrow> abiVal list \<Rightarrow>
    registry \<Rightarrow> (registryError + registry) option" where
  "transactionCall keccak sender now f args r = (case args of
     [AAddress a] \<Rightarrow> (if f = ''authorizeIssuer'' then Some (authorizeIssuer sender now a r)
        else if f = ''removeIssuer'' then Some (removeIssuer sender now a r) else None)
   | [AAddress a, AString n] \<Rightarrow>
       (if f = ''authorizeIssuerWithName'' then Some (authorizeIssuerWithName sender now a n r)
        else if f = ''setIssuerName'' then Some (setIssuerName sender now a n r) else None)
   | [AString i, ABytes32 h] \<Rightarrow>
       (if f = ''anchorCredential'' then Some (anchorCredential keccak sender now i h r) else None)
   | [AString i] \<Rightarrow>
       (if f = ''revokeCredential'' then Some (revokeCredential keccak sender now i r) else None)
   | _ \<Rightarrow> None)"

definition registryCall :: "(string \<Rightarrow> bytes32) \<Rightarrow> address \<Rightarrow> uint256 \<Rightarrow> string \<Rightarrow> abiVal list \<Rightarrow>
    registry \<Rightarrow> (registryError + abiVal list \<times> registry) option" where
  "registryCall keccak sender now f args r = (case viewCall keccak f args r of
     Some outs \<Rightarrow> Some (Inr (outs, r))
   | None \<Rightarrow> (case transactionCall keccak sender now f args r of
       None \<Rightarrow> None
     | Some (Inl err) \<Rightarrow> Some (Inl err)
     | Some (Inr r') \<Rightarrow> Some (Inr ([], r'))))"

text \<open>The names and arguments of the errors and events, as the contract declares them.\<close>

fun errorFields :: "registryError \<Rightarrow> string \<times> (string \<times> abiVal) list" where
  "errorFields (CredentialAlreadyAnchored i) =
     (''CredentialAlreadyAnchored'', [(''credentialId'', AString i)])"
| "errorFields (ProofHashAlreadyAnchored h) =
     (''ProofHashAlreadyAnchored'', [(''proofHash'', ABytes32 h)])"
| "errorFields (CredentialNotFound i) = (''CredentialNotFound'', [(''credentialId'', AString i)])"
| "errorFields (CredentialAlreadyRevoked i) =
     (''CredentialAlreadyRevoked'', [(''credentialId'', AString i)])"
| "errorFields (InvalidIssuer a) = (''InvalidIssuer'', [(''issuer'', AAddress a)])"
| "errorFields InvalidIssuerName = (''InvalidIssuerName'', [])"
| "errorFields InvalidCredentialId = (''InvalidCredentialId'', [])"
| "errorFields InvalidProofHash = (''InvalidProofHash'', [])"
| "errorFields (UnauthorizedIssuer a) = (''UnauthorizedIssuer'', [(''issuer'', AAddress a)])"
| "errorFields (UnauthorizedRevoker a i) =
     (''UnauthorizedRevoker'', [(''caller'', AAddress a), (''credentialId'', AString i)])"
| "errorFields (OwnableUnauthorizedAccount a) =
     (''OwnableUnauthorizedAccount'', [(''account'', AAddress a)])"

fun eventFields :: "registryEvent \<Rightarrow> string \<times> (string \<times> bool \<times> abiVal) list" where
  "eventFields (CredentialAnchored i h a t) = (''CredentialAnchored'',
     [(''credentialId'', False, AString i), (''proofHash'', False, ABytes32 h),
      (''issuer'', False, AAddress a), (''timestamp'', False, AUint256 t)])"
| "eventFields (CredentialRevoked i a b t) = (''CredentialRevoked'',
     [(''credentialId'', False, AString i), (''issuer'', False, AAddress a),
      (''revokedBy'', False, AAddress b), (''timestamp'', False, AUint256 t)])"
| "eventFields (IssuerAuthorized a t) = (''IssuerAuthorized'',
     [(''issuer'', False, AAddress a), (''timestamp'', False, AUint256 t)])"
| "eventFields (IssuerRemoved a t) = (''IssuerRemoved'',
     [(''issuer'', False, AAddress a), (''timestamp'', False, AUint256 t)])"
| "eventFields (IssuerProfileUpdated a n t) = (''IssuerProfileUpdated'',
     [(''issuer'', True, AAddress a), (''issuerName'', False, AString n),
      (''timestamp'', False, AUint256 t)])"
| "eventFields (CredentialProofAnchored k h a i n t) = (''CredentialProofAnchored'',
     [(''credentialKey'', True, ABytes32 k), (''proofHash'', True, ABytes32 h),
      (''issuer'', True, AAddress a), (''credentialId'', False, AString i),
      (''issuerName'', False, AString n), (''issuedAt'', False, AUint256 t)])"
| "eventFields (CredentialProofRevoked k a b i t u) = (''CredentialProofRevoked'',
     [(''credentialKey'', True, ABytes32 k), (''issuer'', True, AAddress a),
      (''revokedBy'', True, AAddress b), (''credentialId'', False, AString i),
      (''issuedAt'', False, AUint256 t), (''revokedAt'', False, AUint256 u)])"

definition describesError :: "registryError \<Rightarrow> bool" where
  "describesError err = (case errorFields err of (n, fs) \<Rightarrow> list_ex (\<lambda>e. memberStr ''name'' e = n \<and>
     map fst (paramTypes ''inputs'' e) = map fst fs \<and> fits (map snd fs) (paramTypes ''inputs'' e))
       (entries ''error''))"

definition describesEvent :: "registryEvent \<Rightarrow> bool" where
  "describesEvent ev = (case eventFields ev of (n, fs) \<Rightarrow> list_ex (\<lambda>e. memberStr ''name'' e = n \<and>
     map fst (paramTypes ''inputs'' e) = map fst fs \<and> indexedParams e = map (fst \<circ> snd) fs \<and>
     fits (map (snd \<circ> snd) fs) (paramTypes ''inputs'' e)) (entries ''event''))"

definition ownableFunctions :: "string list" where
  "ownableFunctions = [''owner'', ''renounceOwnership'', ''transferOwnership'']"

definition readOnly :: "value \<Rightarrow> bool" where
  "readOnly e = (memberStr ''stateMutability'' e \<in> {''view'', ''pure''})"

text \<open>
  What the description promises of a call: a reverted call reverts with an error it lists, and only
  if it may write; an accepted one returns values of the listed types, leaves the storage alone if
  it is marked as reading only, and emits nothing but listed events.
\<close>

definition asDescribed ::
  "value \<Rightarrow> registry \<Rightarrow> registryError + abiVal list \<times> registry \<Rightarrow> bool" where
  "asDescribed e r res = (case res of
     Inl err \<Rightarrow> \<not> readOnly e \<and> describesError err
   | Inr (outs, r') \<Rightarrow> fits outs (paramTypes ''outputs'' e) \<and> (readOnly e \<longrightarrow> r' = r) \<and>
       take (length (emitted r)) (emitted r') = emitted r \<and>
       list_all describesEvent (drop (length (emitted r)) (emitted r')))"

subsection \<open>The tables the description amounts to\<close>

lemma abi_error_table:
  "map (\<lambda>e. (memberStr ''name'' e, paramTypes ''inputs'' e)) (entries ''error'') =
    [
     (''CredentialAlreadyAnchored'', [(''credentialId'', Some AbiString)]),
     (''CredentialAlreadyRevoked'', [(''credentialId'', Some AbiString)]),
     (''CredentialNotFound'', [(''credentialId'', Some AbiString)]),
     (''InvalidCredentialId'', []),
     (''InvalidIssuer'', [(''issuer'', Some AbiAddress)]),
     (''InvalidIssuerName'', []),
     (''InvalidProofHash'', []),
     (''OwnableInvalidOwner'', [(''owner'', Some AbiAddress)]),
     (''OwnableUnauthorizedAccount'', [(''account'', Some AbiAddress)]),
     (''ProofHashAlreadyAnchored'', [(''proofHash'', Some AbiBytes32)]),
     (''UnauthorizedIssuer'', [(''issuer'', Some AbiAddress)]),
     (''UnauthorizedRevoker'', [(''caller'', Some AbiAddress), (''credentialId'', Some
        AbiString)])]"
  by code_simp

lemma abi_event_table:
  "map (\<lambda>e. (memberStr ''name'' e, paramTypes ''inputs'' e, indexedParams e)) (entries ''event'') =
    [
     (''CredentialAnchored'', [(''credentialId'', Some AbiString), (''proofHash'', Some
        AbiBytes32), (''issuer'', Some AbiAddress), (''timestamp'', Some AbiUint256)], [False,
        False, False, False]),
     (''CredentialProofAnchored'', [(''credentialKey'', Some AbiBytes32), (''proofHash'', Some
        AbiBytes32), (''issuer'', Some AbiAddress), (''credentialId'', Some AbiString),
        (''issuerName'', Some AbiString), (''issuedAt'', Some AbiUint256)], [True, True, True,
        False, False, False]),
     (''CredentialProofRevoked'', [(''credentialKey'', Some AbiBytes32), (''issuer'', Some
        AbiAddress), (''revokedBy'', Some AbiAddress), (''credentialId'', Some AbiString),
        (''issuedAt'', Some AbiUint256), (''revokedAt'', Some AbiUint256)], [True, True, True,
        False, False, False]),
     (''CredentialRevoked'', [(''credentialId'', Some AbiString), (''issuer'', Some AbiAddress),
        (''revokedBy'', Some AbiAddress), (''timestamp'', Some AbiUint256)], [False, False, False,
        False]),
     (''IssuerAuthorized'', [(''issuer'', Some AbiAddress), (''timestamp'', Some AbiUint256)],
        [False, False]),
     (''IssuerProfileUpdated'', [(''issuer'', Some AbiAddress), (''issuerName'', Some AbiString),
        (''timestamp'', Some AbiUint256)], [True, False, False]),
     (''IssuerRemoved'', [(''issuer'', Some AbiAddress), (''timestamp'', Some AbiUint256)],
        [False, False]),
     (''OwnershipTransferred'', [(''previousOwner'', Some AbiAddress), (''newOwner'', Some
        AbiAddress)], [True, True])]"
  by code_simp

lemma abi_function_table:
  "map (\<lambda>e. (memberStr ''name'' e, paramTypes ''inputs'' e, paramTypes ''outputs'' e, readOnly e))
     (entries ''function'') =
    [
     (''anchorCredential'', [(''credentialId'', Some AbiString), (''proofHash'', Some
        AbiBytes32)], [], False),
     (''authorizeIssuer'', [(''issuer'', Some AbiAddress)], [], False),
     (''authorizeIssuerWithName'', [(''issuer'', Some AbiAddress), (''issuerName'', Some
        AbiString)], [], False),
     (''credentialExists'', [(''credentialId'', Some AbiString)], [('''', Some AbiBool)], True),
     (''credentialHashExists'', [(''proofHash'', Some AbiBytes32)], [('''', Some AbiBool)], True),
     (''getCredential'', [(''credentialId'', Some AbiString)], [('''', Some (AbiTuple
        [(''credentialId'', AbiString), (''proofHash'', AbiBytes32), (''issuer'', AbiAddress),
        (''anchoredAt'', AbiUint256), (''revoked'', AbiBool), (''revokedAt'', AbiUint256),
        (''revokedBy'', AbiAddress), (''exists'', AbiBool)]))], True),
     (''getCredentialHash'', [(''credentialId'', Some AbiString)], [('''', Some AbiBytes32)],
        True),
     (''getCredentialIssuer'', [(''credentialId'', Some AbiString)], [('''', Some AbiAddress)],
        True),
     (''getCredentialKey'', [(''credentialId'', Some AbiString)], [('''', Some AbiBytes32)], True),
     (''getCredentialKeyByProofHash'', [(''proofHash'', Some AbiBytes32)], [('''', Some
        AbiBytes32)], True),
     (''getCredentialProofMetadata'', [(''credentialId'', Some AbiString)], [('''', Some (AbiTuple
        [(''credentialId'', AbiString), (''proofHash'', AbiBytes32), (''issuer'', AbiAddress),
        (''issuerName'', AbiString), (''issuedAt'', AbiUint256), (''exists'', AbiBool),
        (''revoked'', AbiBool), (''revokedAt'', AbiUint256), (''revokedBy'', AbiAddress),
        (''issuerAuthorized'', AbiBool), (''active'', AbiBool)]))], True),
     (''getCredentialRevocation'', [(''credentialId'', Some AbiString)], [(''revoked'', Some
        AbiBool), (''revokedAt'', Some AbiUint256), (''revokedBy'', Some AbiAddress)], True),
     (''getCredentialTimestamp'', [(''credentialId'', Some AbiString)], [('''', Some AbiUint256)],
        True),
     (''getIssuerProfile'', [(''issuer'', Some AbiAddress)], [(''authorized'', Some AbiBool),
        (''issuerName'', Some AbiString), (''authorizedAt'', Some AbiUint256), (''removedAt'',
        Some AbiUint256)], True),
     (''isAuthorizedIssuer'', [(''issuer'', Some AbiAddress)], [('''', Some AbiBool)], True),
     (''isCredentialIssuer'', [(''credentialId'', Some AbiString), (''issuer'', Some AbiAddress)],
        [('''', Some AbiBool)], True),
     (''isCredentialRevoked'', [(''credentialId'', Some AbiString)], [('''', Some AbiBool)], True),
     (''isCredentialValid'', [(''credentialId'', Some AbiString), (''proofHash'', Some
        AbiBytes32)], [('''', Some AbiBool)], True),
     (''owner'', [], [('''', Some AbiAddress)], True),
     (''removeIssuer'', [(''issuer'', Some AbiAddress)], [], False),
     (''renounceOwnership'', [], [], False),
     (''revokeCredential'', [(''credentialId'', Some AbiString)], [], False),
     (''setIssuerName'', [(''issuer'', Some AbiAddress), (''issuerName'', Some AbiString)], [],
        False),
     (''transferOwnership'', [(''newOwner'', Some AbiAddress)], [], False),
     (''verifyCredential'', [(''credentialId'', Some AbiString), (''proofHash'', Some
        AbiBytes32)], [(''exists'', Some AbiBool), (''integrityVerified'', Some AbiBool),
        (''revoked'', Some AbiBool), (''issuer'', Some AbiAddress), (''issuerName'', Some
        AbiString), (''issuedAt'', Some AbiUint256)], True)]"
  by code_simp

subsection \<open>The description types the contract\<close>

lemma hasType_iff [simp]:
  "hasType v AbiString \<longleftrightarrow> (\<exists>s. v = AString s)" "hasType v AbiBytes32 \<longleftrightarrow> (\<exists>b. v = ABytes32 b)"
  "hasType v AbiAddress \<longleftrightarrow> (\<exists>a. v = AAddress a)" "hasType v AbiUint256 \<longleftrightarrow> (\<exists>n. v = AUint256 n)"
  "hasType v AbiBool \<longleftrightarrow> (\<exists>b. v = ABool b)"
  by (cases v; simp)+

lemma fits_Nil2 [simp]: "fits vs [] \<longleftrightarrow> vs = []"
  by (cases vs) simp_all

lemma fits_Cons2 [simp]: "fits vs ((n, Some t) # ps) \<longleftrightarrow>
    (\<exists>v vs'. vs = v # vs' \<and> hasType v t \<and> fits vs' ps)"
  by (cases vs) simp_all

lemma list_ex_table: "map g xs = ys \<Longrightarrow> list_ex (\<lambda>e. P (g e)) xs = list_ex P ys"
  by (auto simp: list_ex_iff)

lemma errors_described: "describesError err"
  unfolding describesError_def
  using list_ex_table [OF abi_error_table, of "\<lambda>(n, ps). n = fst (errorFields err) \<and>
     map fst ps = map fst (snd (errorFields err)) \<and> fits (map snd (snd (errorFields err))) ps"]
  by (cases err) simp_all

lemma events_described: "describesEvent ev"
  unfolding describesEvent_def
  using list_ex_table [OF abi_event_table, of "\<lambda>(n, ps, ix). n = fst (eventFields ev) \<and>
     map fst ps = map fst (snd (eventFields ev)) \<and> ix = map (fst \<circ> snd) (snd (eventFields ev)) \<and>
     fits (map (snd \<circ> snd) (snd (eventFields ev))) ps"]
  by (cases ev) simp_all

lemma emitted_only_appended:
  "transactionCall keccak sender now f args r = Some (Inr r') \<Longrightarrow>
     take (length (emitted r)) (emitted r') = emitted r"
  by (auto simp: transactionCall_def registry_ops split: list.splits abiVal.splits if_splits)

lemmas abi_calls = registryCall_def viewCall_def viewOfId_def viewOfIdHash_def viewOfHash_def
  viewOfAddress_def transactionCall_def Let_def

lemma abi_function_row:
  assumes "e \<in> set (entries ''function'')"
  shows "(memberStr ''name'' e, paramTypes ''inputs'' e, paramTypes ''outputs'' e, readOnly e) \<in>
    set (map (\<lambda>e. (memberStr ''name'' e, paramTypes ''inputs'' e, paramTypes ''outputs'' e, readOnly e))
      (entries ''function''))"
  using assms by auto

text \<open>A view returns its values and nothing else; a transaction returns none and appends its events.\<close>

lemma view_described:
  "viewCall keccak f args r = Some outs \<Longrightarrow> fits outs (paramTypes ''outputs'' e) \<Longrightarrow>
     \<exists>res. registryCall keccak sender now f args r = Some res \<and> asDescribed e r res"
  by (auto simp: registryCall_def asDescribed_def)

lemma transaction_described:
  assumes "viewCall keccak f args r = None" "transactionCall keccak sender now f args r = Some res"
    and "paramTypes ''outputs'' e = []" "\<not> readOnly e"
  shows "\<exists>res. registryCall keccak sender now f args r = Some res \<and> asDescribed e r res"
  using assms emitted_only_appended [of keccak sender now f args r]
  by (cases res) (auto simp: registryCall_def asDescribed_def errors_described events_described list_all_iff)

lemma described_call_typed:
  assumes "e \<in> set (entries ''function'')" "memberStr ''name'' e \<notin> set ownableFunctions"
    and "fits args (paramTypes ''inputs'' e)"
  shows "\<exists>res. registryCall keccak sender now (memberStr ''name'' e) args r = Some res \<and> asDescribed e r res"
proof -
  have views: "viewCall keccak (memberStr ''name'' e) args r \<noteq> None \<and>
      (\<forall>outs. viewCall keccak (memberStr ''name'' e) args r = Some outs \<longrightarrow> fits outs (paramTypes ''outputs'' e)) \<or>
    viewCall keccak (memberStr ''name'' e) args r = None \<and>
      transactionCall keccak sender now (memberStr ''name'' e) args r \<noteq> None \<and>
      paramTypes ''outputs'' e = [] \<and> \<not> readOnly e"
    using abi_function_row [OF assms(1)] assms(2,3) unfolding abi_function_table
    by (simp add: ownableFunctions_def) (elim disjE; clarsimp simp: abi_calls split: prod.splits)
  show ?thesis
    using views by (metis not_None_eq transaction_described view_described)
qed

lemma answered_call_described:
  assumes "registryCall keccak sender now f args r \<noteq> None"
  shows "\<exists>e \<in> set (entries ''function''). memberStr ''name'' e = f \<and> f \<notin> set ownableFunctions \<and>
    fits args (paramTypes ''inputs'' e)"
proof -
  have "list_ex (\<lambda>e. memberStr ''name'' e = f \<and> f \<notin> set ownableFunctions \<and>
      fits args (paramTypes ''inputs'' e)) (entries ''function'')"
    using list_ex_table [OF abi_function_table, of "\<lambda>(n, ins, outs, ro). n = f \<and>
      f \<notin> set ownableFunctions \<and> fits args ins"] assms
    by (simp add: ownableFunctions_def)
      (auto simp: abi_calls split: list.splits abiVal.splits if_splits)
  then show ?thesis by (auto simp: list_ex_iff)
qed

text \<open>
  C40. The interface description the services give the chain client types the contract exactly: a
  call is answered just when the description lists a function of that name (other than the three
  inherited from \<open>Ownable\<close>) whose parameters the arguments fit, and every answer is as described:
  the values returned have the listed types, member names included, a function marked \<open>view\<close> or
  \<open>pure\<close> changes nothing and cannot revert, and every revert and every emitted event is one the
  description lists with the same names, indexing and types.
\<close>

theorem abi_types_contract:
  "(registryCall keccak sender now f args r \<noteq> None) \<longleftrightarrow>
     list_ex (\<lambda>e. memberStr ''name'' e = f \<and> f \<notin> set ownableFunctions \<and>
       fits args (paramTypes ''inputs'' e) \<and>
       pred_option (asDescribed e r) (registryCall keccak sender now f args r)) (entries ''function'')"
proof
  assume answered: "registryCall keccak sender now f args r \<noteq> None"
  from answered_call_described [OF this] obtain e where e: "e \<in> set (entries ''function'')"
    "memberStr ''name'' e = f" "f \<notin> set ownableFunctions" "fits args (paramTypes ''inputs'' e)" by auto
  then have "pred_option (asDescribed e r) (registryCall keccak sender now f args r)"
    using described_call_typed [of e args keccak sender now r] by auto
  with e show "list_ex (\<lambda>e. memberStr ''name'' e = f \<and> f \<notin> set ownableFunctions \<and>
       fits args (paramTypes ''inputs'' e) \<and>
       pred_option (asDescribed e r) (registryCall keccak sender now f args r)) (entries ''function'')"
    by (auto simp: list_ex_iff)
next
  assume "list_ex (\<lambda>e. memberStr ''name'' e = f \<and> f \<notin> set ownableFunctions \<and>
       fits args (paramTypes ''inputs'' e) \<and>
       pred_option (asDescribed e r) (registryCall keccak sender now f args r)) (entries ''function'')"
  then show "registryCall keccak sender now f args r \<noteq> None"
    using described_call_typed [of _ args keccak sender now r] by (fastforce simp: list_ex_iff)
qed

end
