(* ===== verification/Spec2Isabelle.thy ===== *)
theory Spec2Isabelle
  imports Auth BffLaws WebNavigation AuditQueriesLaws CredentialHistory AnchorRecovery VerificationLaws RateLimitLaws DocumentLaws EnvConfigLaws MaintenanceLaws BackfillLaws RequestLaws WebFormLaws Certificate PdfScan WorkerProcess Abi
begin

text \<open>
  Certiva issues academic credentials, revokes them, anchors their hashes on a chain and lets the
  public verify them. The repository is a monorepo: an HTTP API (\<open>apps/api\<close>), a worker that writes
  to the chain (\<open>apps/worker\<close>), a web application (\<open>apps/web\<close>) whose server calls the API on behalf of
  a browser, and the registry contract (\<open>packages/contracts\<close>). This development models their code,
  component by component, and proves what makes each of them correct.

  How the parts interact. A request reaches a route (\<open>Routes\<close>): the guards check its token against
  the stored account (\<open>Auth\<close>), the limiter counts it (\<open>RateLimit\<close>), a service runs, and a thrown
  value becomes an answer in the exception filter (\<open>ErrorFilter\<close>). Issuing a credential
  (\<open>Credentials\<close>) builds its texts and hashes (\<open>CredentialText\<close>), signs them with the institution's key
  (\<open>SigningKeys\<close>, \<open>VerifiableCredential\<close>, \<open>Multibase\<close>), stores the assets (\<open>CredentialAssets\<close> over
  \<open>Storage\<close>), writes the row (\<open>Prisma\<close>, \<open>Tables\<close>) and an entry of the hash-chained audit log
  (\<open>AuditLog\<close>), and enqueues a job (\<open>BlockchainQueue\<close>). The worker (\<open>AnchorWorker\<close>) takes the job and
  sends the hash to the contract (\<open>Registry\<close>, through the interface description \<open>Abi\<close>). A
  verification (\<open>Verification\<close>) reads the row, the signature and, through \<open>Blockchain\<close>, the contract.

  The state. A service is a program over a \<open>world\<close> (\<open>Effects\<close>): the tables, the audit sequence, the
  object storage, the job queue, the contract, and a counter of external interactions. The
  environment \<open>env\<close> holds everything the code calls and does not contain: the cryptographic
  primitives, the clock, the random source, the JCS, PDF and QR libraries, and \<open>fault\<close>, which decides of
  each interaction whether it fails. A theorem that does not constrain it holds for every pattern of
  failures. \<open>cryptoLaws\<close>, \<open>redisLaws\<close> and the like state documented behaviour of such code, and each
  theorem that uses them has a witness at a concrete environment (\<open>Sample\<close>).

  The theories, and what their lemmas show.

  \<^item> Prelude. \<open>Js\<close> and \<open>JsNumber\<close> are the strings, values and numbers of JavaScript, \<open>Effects\<close> the
    programs, \<open>Wp\<close> their weakest preconditions (\<open>wp_simps\<close>) and frame rules (\<open>keeps_intros\<close>), \<open>Worlds\<close> the
    locale of relations between worlds that every program keeps.
  \<^item> Data. \<open>Tables\<close> is \<open>prisma/schema.prisma\<close>, \<open>Prisma\<close> the client's statements with the unique indexes
    and their error codes.
  \<^item> Credentials (\<open>modules/credential\<close>). \<open>CredentialText\<close>, \<open>BulkCsv\<close>, \<open>CredentialAssets\<close>, \<open>CredentialRecords\<close>,
    \<open>Credentials\<close>, \<open>CredentialLifecycle\<close> are the operations. \<open>CredentialLaws\<close> proves that every operation
    keeps an order on the tables (a locale interpreted several times), and \<open>CredentialHistory\<close> lifts it
    to every sequence of operations: rows are permanent, an institution has one live credential per
    student and degree, and an interrupted revocation is never anchored.
  \<^item> Signing. \<open>Multibase\<close> proves base58 and multibase round trips, \<open>VerifiableCredential\<close> that a verifier
    rebuilds the signed bytes from the exported document, \<open>SigningKeys\<close> that issued signatures verify and
    that the rotation of a key is atomic.
  \<^item> Audit. \<open>AuditLog\<close>: the chain's invariant, what a head binds, which deletions a check detects.
    \<open>AuditQueries\<close> and \<open>AuditQueriesLaws\<close>: an ADMIN's dashboard does not depend on the rows of other
    institutions, and what an export reads back as.
  \<^item> Accounts. \<open>Auth\<close>: an active owner survives every sequence of account operations, each run to its
    end (two demotions at the same time can still lose the last one, \<open>concurrent_demotion_loses_owner\<close>), no
    account gains a role it may not grant, a changed account loses its sessions. \<open>Institution\<close>.
  \<^item> Chain. \<open>Registry\<close> is the Solidity contract on words of its widths, refined from an abstract ledger.
    \<open>AnchorLaws\<close> and \<open>AnchorRecovery\<close> follow an anchor job through a failing attempt and its retry.
    \<open>Abi\<close> checks the interface description against the contract.
  \<^item> Verification. \<open>VerificationLaws\<close>: what a VALID verdict means, which credentials get it,
    that the lookups show no secret of a row, and that a revocation on chain is answered TAMPERED. Its
    locale \<open>chain_reader\<close> is the contract's view the verdict rests on. \<open>DocumentProofs\<close>, \<open>DocumentLaws\<close> and
    \<open>PdfReference\<close> are the same for uploaded documents.
  \<^item> Interface. \<open>RateLimit\<close>, \<open>RateLimitLaws\<close> (the redis script refines the in-memory window),
    \<open>ErrorFilter\<close>, \<open>Routes\<close>, \<open>EnvConfig\<close>, \<open>EnvConfigLaws\<close> (start-up in an exposed environment).
  \<^item> Web. \<open>Bff\<close> and \<open>BffLaws\<close> are the handlers of \<open>apps/web/src/app/api\<close> and their calls to the API;
    \<open>WebPages\<close> and \<open>WebNavigation\<close> the pages rendered on the server and the redirects between them, which
    end after a bounded number of hops.
  \<^item> Maintenance. \<open>Maintenance\<close> models the scripts of \<open>apps/api/scripts\<close> and the seed; \<open>MaintenanceLaws\<close>
    shows that changing the master secret is atomic and loses no signing key, \<open>BackfillLaws\<close> that the
    backfills add only material that verifies, and what the migration of the assets leaves.
  \<^item> Requests. \<open>Requests\<close> is the validation pipe over the classes of the request bodies and queries;
    \<open>RequestLaws\<close> bounds what it accepts for issuing, listing and the bulk operations, and shows what it
    lets through elsewhere.
  \<^item> Browser. \<open>WebForms\<close> are the forms that send one request, \<open>WebPanels\<close> the search, upload, selection
    and bulk panels as step relations, \<open>WebDashboard\<close> the navigation, feed, chart, language and theme.
    \<open>WebClientLaws\<close> follows a selection from the table through the web server to the API and the verdict of
    an upload back to the panel; \<open>WebFormLaws\<close> shows where a form says what did not happen.
  \<^item> Paper. \<open>Certificate\<close> is every drawing of the printed certificate: it lies on the page, writes the
    record, and which of its texts a later drawing covers. \<open>PdfScan\<close> is the reading of uploaded pages, and
    that its loops are the scans \<open>PdfReference\<close> uses.
  \<^item> Processes. \<open>WorkerProcess\<close> starts and stops the worker, which consumes chain jobs exactly when the API
    produces them, and deploys the registry in the state \<open>Registry\<close> starts from.

  Bounds and fuel. Structural recursion and well-founded measures carry every loop; \<open>foldM\<close> runs
  a program over a list. The loops over redirects are bounded by a measure on the page, the pages of an
  object listing by the number of listed keys. Numbers of the contract are words of 64, 160 and 256
  bits; those of the services are integers, since they stay below \<open>2^53\<close>. Characters are the 256 of
  Latin-1, so \<open>toLowerCase\<close> and the encodings are those of that range.

  Not modelled. The markup, styles and texts of the web application (\<open>lib/i18n-dictionary.ts\<close>, the public
  pages, icons and layout), which decide nothing; the libraries that read and write PDF files, render
  pages, and encode and decode QR codes, which are parameters with what they give for each input; log
  lines and response headers without effect on the state; the framework's wiring (modules, decorators,
  Swagger), the container and build files. Concurrent requests are modelled where the code's
  guarantee depends on their order (two sessions of an administrator, two jobs, other accounts of the
  chain), not as a general interleaving.
\<close>

end
